(* ===== verification/Prelude.thy ===== *)
theory Prelude
  imports Main "HOL-Library.Word"
begin

text \<open>
  Shared vocabulary of the development: the result type of the Rust code (value, error or
  panic), panicking slice and index access, little-endian byte strings, Rust's checked
  arithmetic on machine words, and the lemma collections the component theories extend.
\<close>

named_theorems outcome_simps \<open>evaluation of the result combinators\<close>
named_theorems no_panic \<open>facts that an operation cannot panic\<close>
named_theorems unat_simps \<open>the value of a word operation that does not wrap\<close>

section \<open>Machine integers\<close>

type_synonym byte = "8 word"
type_synonym u16 = "16 word"
type_synonym u32 = "32 word"
type_synonym u64 = "64 word"
type_synonym u128 = "128 word"

section \<open>Results: value, error, panic\<close>

text \<open>
  A function of the source that returns \<open>Result<T, E>\<close> is a function into this type:
  \<open>Ok\<close> and \<open>Err\<close> are the two constructors of \<open>Result\<close>; \<open>Panic\<close> is an abort of the
  program (an index or a slice out of range, \<open>unwrap\<close> of a failure).
\<close>

datatype ('e, 'a) outcome = is_ok: Ok (the_ok: 'a) | Err 'e | Panic

fun and_then :: "('e, 'a) outcome \<Rightarrow> ('a \<Rightarrow> ('e, 'b) outcome) \<Rightarrow> ('e, 'b) outcome" where
  "and_then (Ok x) f = f x"
| "and_then (Err e) f = Err e"
| "and_then Panic f = Panic"

definition ok_or :: "'a option \<Rightarrow> 'e \<Rightarrow> ('e, 'a) outcome" where
  "ok_or x e = (case x of None \<Rightarrow> Err e | Some y \<Rightarrow> Ok y)"

definition fail_if :: "bool \<Rightarrow> 'e \<Rightarrow> ('e, unit) outcome" where
  "fail_if c e = (if c then Err e else Ok ())"

text \<open>A sequence of checks, each ended by the \<open>?\<close> operator or an early return.\<close>

fun run_checks :: "('e, unit) outcome list \<Rightarrow> ('e, unit) outcome" where
  "run_checks [] = Ok ()"
| "run_checks (c # cs) = and_then c (\<lambda>_. run_checks cs)"

lemma and_then_Ok_iff [outcome_simps]:
  "and_then m f = Ok y \<longleftrightarrow> (\<exists>x. m = Ok x \<and> f x = Ok y)"
  by (cases m) auto

lemma and_then_Panic_iff:
  "and_then m f = Panic \<longleftrightarrow> m = Panic \<or> (\<exists>x. m = Ok x \<and> f x = Panic)"
  by (cases m) auto

lemma and_then_Err_iff:
  "and_then m f = Err e \<longleftrightarrow> m = Err e \<or> (\<exists>x. m = Ok x \<and> f x = Err e)"
  by (cases m) auto

lemma and_then_no_panic [no_panic]:
  "m \<noteq> Panic \<Longrightarrow> (\<And>x. m = Ok x \<Longrightarrow> f x \<noteq> Panic) \<Longrightarrow> and_then m f \<noteq> Panic"
  by (cases m) auto

lemma and_then_assoc: "and_then (and_then m f) g = and_then m (\<lambda>x. and_then (f x) g)"
  by (cases m) auto

lemma ok_or_Ok_iff [outcome_simps]: "ok_or x e = Ok y \<longleftrightarrow> x = Some y"
  by (auto simp: ok_or_def split: option.splits)

lemma ok_or_no_panic [simp]: "ok_or x e \<noteq> Panic"
  by (auto simp: ok_or_def split: option.splits)

lemma ok_or_simps [simp]: "ok_or None e = Err e" "ok_or (Some y) e = Ok y"
  by (simp_all add: ok_or_def)

lemma fail_if_Ok_iff [outcome_simps]: "fail_if c e = Ok u \<longleftrightarrow> \<not> c"
  by (simp add: fail_if_def)

lemma fail_if_no_panic [simp]: "fail_if c e \<noteq> Panic"
  by (simp add: fail_if_def)

lemma fail_if_simps [simp]: "fail_if True e = Err e" "fail_if False e = Ok ()"
  by (simp_all add: fail_if_def)

lemma run_checks_Ok_iff [outcome_simps]:
  "run_checks cs = Ok u \<longleftrightarrow> (\<forall>c \<in> set cs. c = Ok ())"
  by (induction cs) (auto simp: and_then_Ok_iff)

lemma run_checks_no_panic:
  "list_all (\<lambda>c. c \<noteq> Panic) cs \<Longrightarrow> run_checks cs \<noteq> Panic"
proof (induction cs)
  case (Cons c cs)
  then show ?case by (cases c) auto
qed simp

lemma run_checks_append:
  "run_checks (xs @ ys) = and_then (run_checks xs) (\<lambda>_. run_checks ys)"
  by (induction xs) (auto simp: and_then_assoc)

section \<open>Loops that push one result per element\<close>

fun traverse :: "('a \<Rightarrow> ('e, 'b) outcome) \<Rightarrow> 'a list \<Rightarrow> ('e, 'b list) outcome" where
  "traverse f [] = Ok []"
| "traverse f (x # xs) = and_then (f x) (\<lambda>y. and_then (traverse f xs) (\<lambda>ys. Ok (y # ys)))"

lemma traverse_map:
  "(\<And>x. x \<in> set xs \<Longrightarrow> f x = Ok (g x)) \<Longrightarrow> traverse f xs = Ok (map g xs)"
  by (induction xs) auto

lemma traverse_length: "traverse f xs = Ok ys \<Longrightarrow> length ys = length xs"
  by (induction xs arbitrary: ys) (auto simp: and_then_Ok_iff)

section \<open>Indexing and slicing that panic out of range\<close>

definition idx :: "'a list \<Rightarrow> nat \<Rightarrow> ('e, 'a) outcome" where
  "idx xs i = (if i < length xs then Ok (xs ! i) else Panic)"

definition slice :: "'a list \<Rightarrow> nat \<Rightarrow> nat \<Rightarrow> ('e, 'a list) outcome" where
  "slice xs a b = (if a \<le> b \<and> b \<le> length xs then Ok (take (b - a) (drop a xs)) else Panic)"

lemma idx_Ok_iff [outcome_simps]: "idx xs i = Ok x \<longleftrightarrow> i < length xs \<and> xs ! i = x"
  by (auto simp: idx_def)

lemma idx_no_panic [no_panic]: "i < length xs \<Longrightarrow> idx xs i \<noteq> Panic"
  by (simp add: idx_def)

lemma idx_in_range: "i < length xs \<Longrightarrow> idx xs i = Ok (xs ! i)"
  by (simp add: idx_def)

lemma slice_Ok_iff [outcome_simps]:
  "slice xs a b = Ok ys \<longleftrightarrow> a \<le> b \<and> b \<le> length xs \<and> ys = take (b - a) (drop a xs)"
  by (auto simp: slice_def)

lemma slice_no_panic [no_panic]: "a \<le> b \<Longrightarrow> b \<le> length xs \<Longrightarrow> slice xs a b \<noteq> Panic"
  by (simp add: slice_def)

section \<open>Little-endian integers\<close>

fun from_le :: "byte list \<Rightarrow> nat" where
  "from_le [] = 0"
| "from_le (b # bs) = unat b + 256 * from_le bs"

fun to_le :: "nat \<Rightarrow> nat \<Rightarrow> byte list" where
  "to_le 0 v = []"
| "to_le (Suc n) v = of_nat (v mod 256) # to_le n (v div 256)"

definition u64_from_le :: "byte list \<Rightarrow> u64" where
  "u64_from_le bs = of_nat (from_le bs)"

definition u64_to_le :: "u64 \<Rightarrow> byte list" where
  "u64_to_le w = to_le 8 (unat w)"

definition u32_to_le :: "u32 \<Rightarrow> byte list" where
  "u32_to_le w = to_le 4 (unat w)"

definition u128_to_le :: "u128 \<Rightarrow> byte list" where
  "u128_to_le w = to_le 16 (unat w)"

lemma length_to_le [simp]: "length (to_le n v) = n"
  by (induction n arbitrary: v) auto

lemma length_u64_to_le [simp]: "length (u64_to_le w) = 8"
  by (simp add: u64_to_le_def)

lemma length_u32_to_le [simp]: "length (u32_to_le w) = 4"
  by (simp add: u32_to_le_def)

lemma length_u128_to_le [simp]: "length (u128_to_le w) = 16"
  by (simp add: u128_to_le_def)

lemma from_le_to_le: "from_le (to_le n v) = v mod 256 ^ n"
proof (induction n arbitrary: v)
  case 0
  then show ?case by simp
next
  case (Suc n)
  have "unat (of_nat (v mod 256) :: byte) = v mod 256"
    by (simp add: unat_of_nat)
  then show ?case
    by (simp add: Suc.IH mod_mult2_eq)
qed

lemma from_le_bound: "from_le bs < 256 ^ length bs"
proof (induction bs)
  case (Cons b bs)
  have "unat b < 256"
    using unsigned_less [of b, where ?'a = nat] by simp
  with Cons.IH show ?case by simp
qed simp

lemma from_le_zeros [simp]: "from_le (replicate n 0) = 0"
  by (induction n) auto

text \<open>Reading back what was written gives the value.\<close>

lemma u64_roundtrip [simp]: "u64_from_le (u64_to_le w) = w"
proof -
  have "unat w < 256 ^ 8"
    using unsigned_less [of w, where ?'a = nat] by simp
  then show ?thesis
    by (simp add: u64_from_le_def u64_to_le_def from_le_to_le)
qed

section \<open>Checked arithmetic\<close>

definition checked_add :: "'a::len word \<Rightarrow> 'a word \<Rightarrow> 'a word option" where
  "checked_add a b = (if unat a + unat b < 2 ^ LENGTH('a) then Some (a + b) else None)"

definition checked_sub :: "'a::len word \<Rightarrow> 'a word \<Rightarrow> 'a word option" where
  "checked_sub a b = (if b \<le> a then Some (a - b) else None)"

definition checked_mul :: "'a::len word \<Rightarrow> 'a word \<Rightarrow> 'a word option" where
  "checked_mul a b = (if unat a * unat b < 2 ^ LENGTH('a) then Some (a * b) else None)"

definition checked_div :: "'a::len word \<Rightarrow> 'a word \<Rightarrow> 'a word option" where
  "checked_div a b = (if b = 0 then None else Some (a div b))"

lemma checked_add_Some_iff [unat_simps]:
  "checked_add a b = Some c \<longleftrightarrow> unat c = unat a + unat b"
proof -
  have "unat (a + b) = unat a + unat b" if "unat a + unat b < 2 ^ LENGTH('a)"
    using that by (simp add: unat_word_ariths)
  moreover have "unat a + unat b < 2 ^ LENGTH('a)" if "unat c = unat a + unat b"
    using that unsigned_less [of c, where ?'a = nat] by simp
  ultimately show ?thesis
    by (auto simp: checked_add_def word_unat_eq_iff)
qed

lemma checked_sub_Some_iff [unat_simps]:
  "checked_sub a b = Some c \<longleftrightarrow> unat a = unat b + unat c"
proof -
  have "unat (a - b) = unat a - unat b" if "b \<le> a"
    using that by (rule unat_sub)
  moreover have "unat b \<le> unat a \<longleftrightarrow> b \<le> a"
    by (simp add: word_le_nat_alt)
  ultimately show ?thesis
    by (auto simp: checked_sub_def word_unat_eq_iff)
qed

lemma checked_mul_Some_iff [unat_simps]:
  "checked_mul a b = Some c \<longleftrightarrow> unat c = unat a * unat b"
proof -
  have "unat (a * b) = unat a * unat b" if "unat a * unat b < 2 ^ LENGTH('a)"
    using that by (simp add: unat_word_ariths)
  moreover have "unat a * unat b < 2 ^ LENGTH('a)" if "unat c = unat a * unat b"
    using that unsigned_less [of c, where ?'a = nat] by simp
  ultimately show ?thesis
    by (auto simp: checked_mul_def word_unat_eq_iff)
qed

lemma checked_div_Some_iff [unat_simps]:
  "checked_div a b = Some c \<longleftrightarrow> b \<noteq> 0 \<and> unat c = unat a div unat b"
  by (auto simp: checked_div_def word_unat_eq_iff unat_div)

lemma checked_sub_None_iff: "checked_sub a b = None \<longleftrightarrow> a < b"
  by (auto simp: checked_sub_def)

lemma unat_of_nat_small: "n < 2 ^ LENGTH('a) \<Longrightarrow> unat (of_nat n :: 'a::len word) = n"
  by (simp add: unat_of_nat)

lemma unat_u64_bound: "unat (w :: u64) < 2 ^ 64"
  using unsigned_less [of w, where ?'a = nat] by simp

lemma unat_ucast_widen:
  assumes "LENGTH('a) \<le> LENGTH('b)"
  shows "unat (ucast (w :: 'a::len word) :: 'b::len word) = unat w"
proof -
  have "unat w < 2 ^ LENGTH('a)"
    by (rule unsigned_less)
  also have "\<dots> \<le> 2 ^ LENGTH('b)"
    using assms by simp
  finally show ?thesis
    by (simp add: unsigned_ucast_eq take_bit_nat_eq_self)
qed

lemma unat_ucast_to_u128 [simp]:
  "unat (ucast (w :: u64) :: u128) = unat w"
  "unat (ucast (v :: u32) :: u128) = unat v"
  "unat (ucast (u :: u16) :: u128) = unat u"
  by (rule unat_ucast_widen, simp)+

lemma unat_ucast_u128_u64: "unat (ucast (w :: u128) :: u64) = unat w mod 2 ^ 64"
  by (simp add: unsigned_ucast_eq take_bit_eq_mod)

end
