(* ===== verification/Solana_Base.thy ===== *)
theory Solana_Base
  imports Prelude
begin

text \<open>
  The interface of the \<open>solana_program\<close> / \<open>solana_sdk\<close> crates the source builds on: keys,
  account handles, instructions and the account data the runtime shares between the program
  and the programs it invokes. Only what the source uses is here. Two operations of the
  crates are parameters of everything that uses them: the derivation of program addresses
  (\<open>pda\<close>) and the cross-program invocation (\<open>cpi\<close>).
\<close>

section \<open>Public keys\<close>

text \<open>A \<open>Pubkey\<close> is 32 bytes; the model reads them as one big-endian number.\<close>

type_synonym pubkey = "256 word"

definition key_bytes :: "pubkey \<Rightarrow> byte list" where
  "key_bytes k = rev (to_le 32 (unat k))"

definition key_of_bytes :: "byte list \<Rightarrow> pubkey" where
  "key_of_bytes bs = of_nat (from_le (rev bs))"

lemma length_key_bytes [simp]: "length (key_bytes k) = 32"
  by (simp add: key_bytes_def)

lemma key_of_key_bytes [simp]: "key_of_bytes (key_bytes k) = k"
proof -
  have "unat k < 2 ^ 256"
    using unsigned_less [of k, where ?'a = nat] by simp
  moreover have "(256 :: nat) ^ 32 = 2 ^ 256"
    by (simp add: power_mult [symmetric, of 2 8 32, simplified])
  ultimately show ?thesis
    by (simp add: key_of_bytes_def key_bytes_def from_le_to_le)
qed

text \<open>The base-58 text of a key, as the \<open>pubkey!\<close> macro and the client's constants write it.\<close>

definition b58_digit :: "char \<Rightarrow> nat option" where
  "b58_digit ch = (let n = (of_char ch :: nat) in
     if 49 \<le> n \<and> n \<le> 57 then Some (n - 49)
     else if 65 \<le> n \<and> n \<le> 72 then Some (n - 56)
     else if 74 \<le> n \<and> n \<le> 78 then Some (n - 57)
     else if 80 \<le> n \<and> n \<le> 90 then Some (n - 58)
     else if 97 \<le> n \<and> n \<le> 107 then Some (n - 64)
     else if 109 \<le> n \<and> n \<le> 122 then Some (n - 65)
     else None)"

fun b58_value :: "nat \<Rightarrow> string \<Rightarrow> nat option" where
  "b58_value acc [] = Some acc"
| "b58_value acc (ch # cs) =
     (case b58_digit ch of None \<Rightarrow> None | Some d \<Rightarrow> b58_value (58 * acc + d) cs)"

definition pubkey_lit :: "string \<Rightarrow> pubkey" where
  "pubkey_lit s = (case b58_value 0 s of None \<Rightarrow> 0 | Some v \<Rightarrow> of_nat v)"

definition byte_string :: "string \<Rightarrow> byte list" where
  "byte_string s = map of_char s"

lemmas b58_eval = pubkey_lit_def b58_digit_def Let_def

type_synonym pda_fn = "byte list list \<Rightarrow> pubkey \<Rightarrow> pubkey"

section \<open>Accounts and instructions\<close>

text \<open>
  The fields of \<open>AccountInfo\<close> that are fixed for the duration of an instruction. Lamports
  and data sit behind shared references: two handles with the same key see the same cell,
  so they are kept in a ledger indexed by key.
\<close>

record account_info =
  acc_key :: pubkey
  acc_owner :: pubkey
  acc_is_signer :: bool
  acc_is_writable :: bool

record account_cell =
  cell_lamports :: u64
  cell_data :: "byte list"

type_synonym ledger = "pubkey \<Rightarrow> account_cell"

record account_meta =
  meta_pubkey :: pubkey
  meta_is_signer :: bool
  meta_is_writable :: bool

definition meta_new :: "pubkey \<Rightarrow> bool \<Rightarrow> account_meta" where
  "meta_new k signer = \<lparr>meta_pubkey = k, meta_is_signer = signer, meta_is_writable = True\<rparr>"

definition meta_readonly :: "pubkey \<Rightarrow> bool \<Rightarrow> account_meta" where
  "meta_readonly k signer = \<lparr>meta_pubkey = k, meta_is_signer = signer, meta_is_writable = False\<rparr>"

record instruction =
  ix_program_id :: pubkey
  ix_accounts :: "account_meta list"
  ix_data :: "byte list"

datatype program_error =
    InvalidInstructionData
  | InvalidAccountData
  | MissingRequiredSignature
  | ArithmeticOverflow
  | Custom u32

type_synonym 'a result = "(program_error, 'a) outcome"

text \<open>
  A cross-program invocation either fails or returns the ledger the invoked program left.
  The keys and the flags of the handles are not part of what it can change.
\<close>

type_synonym cpi_fn = "instruction \<Rightarrow> account_info list \<Rightarrow> ledger \<Rightarrow> program_error + ledger"

text \<open>\<open>invoke(&ix, accounts).map_err(|_| arb_err(code))\<close>: every caller maps the error.\<close>

definition invoke_or :: "cpi_fn \<Rightarrow> program_error \<Rightarrow> instruction \<Rightarrow> account_info list \<Rightarrow> ledger
    \<Rightarrow> ledger result" where
  "invoke_or cpi err ix accounts l =
     (case cpi ix accounts l of Inl _ \<Rightarrow> Err err | Inr l' \<Rightarrow> Ok l')"

lemma invoke_or_no_panic [simp]: "invoke_or cpi err ix accounts l \<noteq> Panic"
  by (simp add: invoke_or_def split: sum.splits)

lemma invoke_or_Ok_iff [outcome_simps]:
  "invoke_or cpi err ix accounts l = Ok l' \<longleftrightarrow> cpi ix accounts l = Inr l'"
  by (auto simp: invoke_or_def split: sum.splits)

text \<open>The rule of the runtime: the signers an instruction names have signed.\<close>

definition signers_signed :: "instruction \<Rightarrow> account_info list \<Rightarrow> bool" where
  "signers_signed ix accounts \<longleftrightarrow>
     (\<forall>m \<in> set (ix_accounts ix). meta_is_signer m \<longrightarrow>
        (\<exists>a \<in> set accounts. acc_key a = meta_pubkey m \<and> acc_is_signer a))"

section \<open>Building account lists\<close>

text \<open>
  The instruction builders push one \<open>AccountMeta\<close> per slot, each taken from a handle by
  absolute index with the handle's signer flag. A slot is an index and a writable flag;
  \<open>slot_meta\<close> is the entry a slot in range gives.
\<close>

definition acct :: "account_info list \<Rightarrow> nat \<Rightarrow> bool \<Rightarrow> account_meta result" where
  "acct accounts i writable = and_then (idx accounts i) (\<lambda>a.
     Ok (if writable then meta_new (acc_key a) (acc_is_signer a)
         else meta_readonly (acc_key a) (acc_is_signer a)))"

definition push_all :: "account_info list \<Rightarrow> (nat \<times> bool) list \<Rightarrow> account_meta list result" where
  "push_all accounts slots = traverse (\<lambda>(i, w). acct accounts i w) slots"

text \<open>An account passed on with the flags the transaction gave it.\<close>

definition pass_through :: "account_info list \<Rightarrow> nat \<Rightarrow> account_meta result" where
  "pass_through accounts i = and_then (idx accounts i) (\<lambda>a.
     Ok (if acc_is_writable a then meta_new (acc_key a) (acc_is_signer a)
         else meta_readonly (acc_key a) (acc_is_signer a)))"

definition slot_meta :: "account_info list \<Rightarrow> nat \<times> bool \<Rightarrow> account_meta" where
  "slot_meta accounts slot =
     \<lparr>meta_pubkey = acc_key (accounts ! fst slot), meta_is_signer = acc_is_signer (accounts ! fst slot),
      meta_is_writable = snd slot\<rparr>"

definition own_meta :: "account_info list \<Rightarrow> nat \<Rightarrow> account_meta" where
  "own_meta accounts i = slot_meta accounts (i, acc_is_writable (accounts ! i))"

lemma slot_meta_sel [simp]:
  "meta_pubkey (slot_meta accounts slot) = acc_key (accounts ! fst slot)"
  "meta_is_signer (slot_meta accounts slot) = acc_is_signer (accounts ! fst slot)"
  "meta_is_writable (slot_meta accounts slot) = snd slot"
  by (simp_all add: slot_meta_def)

lemma acct_in_range: "i < length accounts \<Longrightarrow> acct accounts i w = Ok (slot_meta accounts (i, w))"
  by (simp add: acct_def idx_in_range meta_new_def meta_readonly_def slot_meta_def)

lemma pass_through_in_range:
  "i < length accounts \<Longrightarrow> pass_through accounts i = Ok (own_meta accounts i)"
  by (simp add: pass_through_def idx_in_range meta_new_def meta_readonly_def slot_meta_def own_meta_def)

lemma push_all_in_range:
  "\<forall>s \<in> set slots. fst s < length accounts \<Longrightarrow>
   push_all accounts slots = Ok (map (slot_meta accounts) slots)"
  unfolding push_all_def by (rule traverse_map) (auto simp: acct_in_range)

lemma traverse_pass_through:
  "\<forall>i \<in> set js. base + i < length accounts \<Longrightarrow>
   traverse (\<lambda>i. pass_through accounts (base + i)) js = Ok (map (\<lambda>i. own_meta accounts (base + i)) js)"
  by (rule traverse_map) (auto simp: pass_through_in_range)

section \<open>Checks on one account\<close>

definition require_key :: "account_info list \<Rightarrow> nat \<Rightarrow> pubkey \<Rightarrow> program_error \<Rightarrow> unit result" where
  "require_key accounts i k err =
     and_then (idx accounts i) (\<lambda>a. fail_if (acc_key a \<noteq> k) err)"

definition require_owner :: "account_info list \<Rightarrow> nat \<Rightarrow> pubkey \<Rightarrow> program_error \<Rightarrow> unit result" where
  "require_owner accounts i k err =
     and_then (idx accounts i) (\<lambda>a. fail_if (acc_owner a \<noteq> k) err)"

definition require_signer :: "account_info list \<Rightarrow> nat \<Rightarrow> unit result" where
  "require_signer accounts i =
     and_then (idx accounts i) (\<lambda>a. fail_if (\<not> acc_is_signer a) MissingRequiredSignature)"

lemma require_key_Ok_iff [outcome_simps]:
  "require_key accounts i k err = Ok u \<longleftrightarrow> i < length accounts \<and> acc_key (accounts ! i) = k"
  by (auto simp: require_key_def outcome_simps)

lemma require_owner_Ok_iff [outcome_simps]:
  "require_owner accounts i k err = Ok u \<longleftrightarrow> i < length accounts \<and> acc_owner (accounts ! i) = k"
  by (auto simp: require_owner_def outcome_simps)

lemma require_signer_Ok_iff [outcome_simps]:
  "require_signer accounts i = Ok u \<longleftrightarrow> i < length accounts \<and> acc_is_signer (accounts ! i)"
  by (auto simp: require_signer_def outcome_simps)

lemma require_no_panic [no_panic]:
  "i < length accounts \<Longrightarrow> require_key accounts i k err \<noteq> Panic"
  "i < length accounts \<Longrightarrow> require_owner accounts i k err \<noteq> Panic"
  "i < length accounts \<Longrightarrow> require_signer accounts i \<noteq> Panic"
  by (simp_all add: require_key_def require_owner_def require_signer_def idx_in_range)

end
