(* ===== verification/Constants.thy ===== *)
theory Constants
  imports Solana_Base
begin

text \<open>
  The constants of the on-chain program: \<open>programs/arbitrage/src/constants.rs\<close> and
  \<open>error.rs\<close>, in their order. Offsets and indices are \<open>usize\<close> in the source and small;
  the model has them as natural numbers, unfolded by the simplifier. Keys and
  discriminators stay folded: what the proofs need of them is that they differ.
\<close>

section \<open>Program ids and mints\<close>

definition PUMP_SWAP_ID :: "pubkey" where
  "PUMP_SWAP_ID = pubkey_lit ''pAMMBay6oceH9fJKBRHGP5D4bD4sWpmSwMn52FMfXEA''"

definition DLMM_ID :: "pubkey" where
  "DLMM_ID = pubkey_lit ''LBUZKhRxPF3XUpBCjp4YzTKgLccjZhTSDM9YuVaPwxo''"

definition CPMM_ID :: "pubkey" where
  "CPMM_ID = pubkey_lit ''CPMMoo8L3F4NbTegBCKVNunggL7H1ZpdTHKxQB5qKP1C''"

definition WHIRLPOOL_ID :: "pubkey" where
  "WHIRLPOOL_ID = pubkey_lit ''whirLbMiicVdio4qvUfM5KAg6Ct8VwpYzGff3uctyCc''"

definition TOKEN_ID :: "pubkey" where
  "TOKEN_ID = pubkey_lit ''TokenkegQfeZyiNwAJbNbGKPFXCWuBvf9Ss623VQ5DA''"

definition SYSTEM_ID :: "pubkey" where
  "SYSTEM_ID = pubkey_lit ''11111111111111111111111111111111''"

definition ATA_ID :: "pubkey" where
  "ATA_ID = pubkey_lit ''ATokenGPvbdGVxr1b2hvZbsiqW5xWH25efTNsLJA8knL''"

definition FEE_PROGRAM_ID :: "pubkey" where
  "FEE_PROGRAM_ID = pubkey_lit ''pfeeUxB6jkeY1Hxd7CsFCAjcbHA9rWtchMGdZ6VojVZ''"

definition MEMO_ID :: "pubkey" where
  "MEMO_ID = pubkey_lit ''MemoSq4gqABAXKb96qnH8TysNcWxMyWCqXgDLGmfcHr''"

definition DLMM_EVENT_AUTH :: "pubkey" where
  "DLMM_EVENT_AUTH = pubkey_lit ''D1ZN9Wj1fRSUQfCjhvnu1hqDMT7hzjzBBpi12nVniYD6''"

definition NATIVE_SOL_MINT :: "pubkey" where
  "NATIVE_SOL_MINT = pubkey_lit ''So11111111111111111111111111111111111111112''"

section \<open>Program-address seeds\<close>

definition PUMP_EVENT_AUTH_SEED :: "byte list" where
  "PUMP_EVENT_AUTH_SEED = byte_string ''__event_authority''"

definition PUMP_GLOBAL_CONFIG_SEED :: "byte list" where
  "PUMP_GLOBAL_CONFIG_SEED = byte_string ''global_config''"

definition PUMP_FEE_CONFIG_SEED :: "byte list" where
  "PUMP_FEE_CONFIG_SEED = byte_string ''fee_config''"

definition DLMM_ORACLE_SEED :: "byte list" where
  "DLMM_ORACLE_SEED = byte_string ''oracle''"

definition CPMM_AUTH_SEED :: "byte list" where
  "CPMM_AUTH_SEED = byte_string ''vault_and_lp''"

definition WHIRLPOOL_AUTH_SEED :: "byte list" where
  "WHIRLPOOL_AUTH_SEED = byte_string ''authority''"

definition WHIRLPOOL_TICK_ARRAY_SEED :: "byte list" where
  "WHIRLPOOL_TICK_ARRAY_SEED = byte_string ''tick_array''"

definition CPMM_AMM_CONFIG :: "pubkey" where
  "CPMM_AMM_CONFIG = pubkey_lit ''D4FPEruKEHrG5TenZ2mpDGEfu1iUvTiqBxvpU8HLBvC2''"

definition WHIRLPOOL_CONFIG :: "pubkey" where
  "WHIRLPOOL_CONFIG = pubkey_lit ''2LecshUwdy9xi7meFgHtFJQNSKk4KdTrcpvaB56dP2NQ''"

section \<open>Discriminators\<close>

definition ROUTE_PUMP_TO_DLMM_DISC :: "byte list" where
  "ROUTE_PUMP_TO_DLMM_DISC = [0x8b, 0xe8, 0x20, 0x55, 0xc1, 0xb0, 0xc1, 0xe9]"

definition ROUTE_DLMM_TO_PUMP_DISC :: "byte list" where
  "ROUTE_DLMM_TO_PUMP_DISC = [0x17, 0x6e, 0xcc, 0x5d, 0xdd, 0x93, 0x51, 0x95]"

definition PUMP_BUY_DISC :: "byte list" where
  "PUMP_BUY_DISC = [0xc6, 0x2e, 0x15, 0x52, 0xb4, 0xd9, 0xe8, 0x70]"

definition PUMP_SELL_DISC :: "byte list" where
  "PUMP_SELL_DISC = [0x33, 0xe6, 0x85, 0xa4, 0x01, 0x7f, 0x83, 0xad]"

definition DLMM_SWAP2_DISC :: "byte list" where
  "DLMM_SWAP2_DISC = [0x41, 0x4b, 0x3f, 0x4c, 0xeb, 0x5b, 0x5b, 0x88]"

definition CPMM_SWAP_DISC :: "byte list" where
  "CPMM_SWAP_DISC = [0xf8, 0xc6, 0x9e, 0x91, 0xe1, 0x75, 0x87, 0xc8]"

definition WHIRLPOOL_SWAP_DISC :: "byte list" where
  "WHIRLPOOL_SWAP_DISC = [0xf8, 0xc6, 0x9e, 0x91, 0xe1, 0x75, 0x87, 0xc8]"

definition ROUTE_DISC :: "byte list" where
  "ROUTE_DISC = [0x5f, 0x0f, 0x91, 0x02, 0x9a, 0x03, 0x4c, 0xc3]"

section \<open>Instruction data layout (36 bytes)\<close>

definition OFF_AMOUNT_IN :: "nat" where [simp]:
  "OFF_AMOUNT_IN = 8"

definition OFF_MIN_PROFIT :: "nat" where [simp]:
  "OFF_MIN_PROFIT = 16"

definition OFF_MIN_INTERMEDIATE :: "nat" where [simp]:
  "OFF_MIN_INTERMEDIATE = 24"

definition OFF_TRACK_VOLUME :: "nat" where [simp]:
  "OFF_TRACK_VOLUME = 32"

definition OFF_DLMM_SOL_IS_X :: "nat" where [simp]:
  "OFF_DLMM_SOL_IS_X = 33"

definition OFF_PUMP_REMAINING :: "nat" where [simp]:
  "OFF_PUMP_REMAINING = 34"

definition OFF_DLMM_BIN_ARRAY_COUNT :: "nat" where [simp]:
  "OFF_DLMM_BIN_ARRAY_COUNT = 35"

definition OFF_BUY_REMAINING :: "nat" where [simp]:
  "OFF_BUY_REMAINING = 34"

definition OFF_SELL_REMAINING :: "nat" where [simp]:
  "OFF_SELL_REMAINING = 35"

definition IX_DATA_LEN :: "nat" where [simp]:
  "IX_DATA_LEN = 36"

section \<open>Fields of a DLMM pair account\<close>

definition LB_PAIR_OFF_ACTIVE_ID :: "nat" where [simp]:
  "LB_PAIR_OFF_ACTIVE_ID = 76"

definition LB_PAIR_OFF_BIN_STEP :: "nat" where [simp]:
  "LB_PAIR_OFF_BIN_STEP = 80"

definition LB_PAIR_OFF_BASE_FACTOR :: "nat" where [simp]:
  "LB_PAIR_OFF_BASE_FACTOR = 84"

definition LB_PAIR_OFF_TOKEN_X_MINT :: "nat" where [simp]:
  "LB_PAIR_OFF_TOKEN_X_MINT = 88"

definition LB_PAIR_OFF_TOKEN_Y_MINT :: "nat" where [simp]:
  "LB_PAIR_OFF_TOKEN_Y_MINT = 120"

definition LB_PAIR_MIN_LEN :: "nat" where [simp]:
  "LB_PAIR_MIN_LEN = 152"

section \<open>Shared user accounts\<close>

definition USER_IDX :: "nat" where [simp]:
  "USER_IDX = 0"

definition USER_SOL_ATA_IDX :: "nat" where [simp]:
  "USER_SOL_ATA_IDX = 1"

definition USER_MEME_ATA_IDX :: "nat" where [simp]:
  "USER_MEME_ATA_IDX = 2"

definition SHARED_FIXED_LEN :: "nat" where [simp]:
  "SHARED_FIXED_LEN = 3"

section \<open>PumpSwap buy section\<close>

definition PUMP_BUY_POOL :: "nat" where [simp]:
  "PUMP_BUY_POOL = 0"

definition PUMP_BUY_USER :: "nat" where [simp]:
  "PUMP_BUY_USER = 1"

definition PUMP_BUY_GLOBAL_CONFIG :: "nat" where [simp]:
  "PUMP_BUY_GLOBAL_CONFIG = 2"

definition PUMP_BUY_BASE_MINT :: "nat" where [simp]:
  "PUMP_BUY_BASE_MINT = 3"

definition PUMP_BUY_QUOTE_MINT :: "nat" where [simp]:
  "PUMP_BUY_QUOTE_MINT = 4"

definition PUMP_BUY_USER_BASE_ATA :: "nat" where [simp]:
  "PUMP_BUY_USER_BASE_ATA = 5"

definition PUMP_BUY_USER_QUOTE_ATA :: "nat" where [simp]:
  "PUMP_BUY_USER_QUOTE_ATA = 6"

definition PUMP_BUY_POOL_BASE_ATA :: "nat" where [simp]:
  "PUMP_BUY_POOL_BASE_ATA = 7"

definition PUMP_BUY_POOL_QUOTE_ATA :: "nat" where [simp]:
  "PUMP_BUY_POOL_QUOTE_ATA = 8"

definition PUMP_BUY_PROTOCOL_FEE_RECIPIENT :: "nat" where [simp]:
  "PUMP_BUY_PROTOCOL_FEE_RECIPIENT = 9"

definition PUMP_BUY_PROTOCOL_FEE_ATA :: "nat" where [simp]:
  "PUMP_BUY_PROTOCOL_FEE_ATA = 10"

definition PUMP_BUY_BASE_TOKEN_PROGRAM :: "nat" where [simp]:
  "PUMP_BUY_BASE_TOKEN_PROGRAM = 11"

definition PUMP_BUY_QUOTE_TOKEN_PROGRAM :: "nat" where [simp]:
  "PUMP_BUY_QUOTE_TOKEN_PROGRAM = 12"

definition PUMP_BUY_SYSTEM_PROGRAM :: "nat" where [simp]:
  "PUMP_BUY_SYSTEM_PROGRAM = 13"

definition PUMP_BUY_ATA_PROGRAM :: "nat" where [simp]:
  "PUMP_BUY_ATA_PROGRAM = 14"

definition PUMP_BUY_EVENT_AUTHORITY :: "nat" where [simp]:
  "PUMP_BUY_EVENT_AUTHORITY = 15"

definition PUMP_BUY_PROGRAM :: "nat" where [simp]:
  "PUMP_BUY_PROGRAM = 16"

definition PUMP_BUY_COIN_CREATOR_VAULT_ATA :: "nat" where [simp]:
  "PUMP_BUY_COIN_CREATOR_VAULT_ATA = 17"

definition PUMP_BUY_COIN_CREATOR_VAULT_AUTH :: "nat" where [simp]:
  "PUMP_BUY_COIN_CREATOR_VAULT_AUTH = 18"

definition PUMP_BUY_GLOBAL_VOL_ACCUM :: "nat" where [simp]:
  "PUMP_BUY_GLOBAL_VOL_ACCUM = 19"

definition PUMP_BUY_USER_VOL_ACCUM :: "nat" where [simp]:
  "PUMP_BUY_USER_VOL_ACCUM = 20"

definition PUMP_BUY_FEE_CONFIG :: "nat" where [simp]:
  "PUMP_BUY_FEE_CONFIG = 21"

definition PUMP_BUY_FEE_PROGRAM :: "nat" where [simp]:
  "PUMP_BUY_FEE_PROGRAM = 22"

definition PUMP_BUY_FIXED_LEN :: "nat" where [simp]:
  "PUMP_BUY_FIXED_LEN = 23"

section \<open>DLMM section\<close>

definition DLMM_PROGRAM_REL :: "nat" where [simp]:
  "DLMM_PROGRAM_REL = 0"

definition DLMM_LB_PAIR_REL :: "nat" where [simp]:
  "DLMM_LB_PAIR_REL = 1"

definition DLMM_BITMAP_REL :: "nat" where [simp]:
  "DLMM_BITMAP_REL = 2"

definition DLMM_RESERVE_X_REL :: "nat" where [simp]:
  "DLMM_RESERVE_X_REL = 3"

definition DLMM_RESERVE_Y_REL :: "nat" where [simp]:
  "DLMM_RESERVE_Y_REL = 4"

definition DLMM_ORACLE_REL :: "nat" where [simp]:
  "DLMM_ORACLE_REL = 5"

definition DLMM_HOST_FEE_REL :: "nat" where [simp]:
  "DLMM_HOST_FEE_REL = 6"

definition DLMM_MEMO_REL :: "nat" where [simp]:
  "DLMM_MEMO_REL = 7"

definition DLMM_EVENT_AUTH_REL :: "nat" where [simp]:
  "DLMM_EVENT_AUTH_REL = 8"

definition DLMM_BIN_ARRAYS_START_REL :: "nat" where [simp]:
  "DLMM_BIN_ARRAYS_START_REL = 9"

definition DLMM_FIXED_LEN :: "nat" where [simp]:
  "DLMM_FIXED_LEN = 9"

section \<open>PumpSwap sell section\<close>

definition PUMP_SELL_POOL :: "nat" where [simp]:
  "PUMP_SELL_POOL = 0"

definition PUMP_SELL_USER :: "nat" where [simp]:
  "PUMP_SELL_USER = 1"

definition PUMP_SELL_GLOBAL_CONFIG :: "nat" where [simp]:
  "PUMP_SELL_GLOBAL_CONFIG = 2"

definition PUMP_SELL_BASE_MINT :: "nat" where [simp]:
  "PUMP_SELL_BASE_MINT = 3"

definition PUMP_SELL_QUOTE_MINT :: "nat" where [simp]:
  "PUMP_SELL_QUOTE_MINT = 4"

definition PUMP_SELL_USER_BASE_ATA :: "nat" where [simp]:
  "PUMP_SELL_USER_BASE_ATA = 5"

definition PUMP_SELL_USER_QUOTE_ATA :: "nat" where [simp]:
  "PUMP_SELL_USER_QUOTE_ATA = 6"

definition PUMP_SELL_POOL_BASE_ATA :: "nat" where [simp]:
  "PUMP_SELL_POOL_BASE_ATA = 7"

definition PUMP_SELL_POOL_QUOTE_ATA :: "nat" where [simp]:
  "PUMP_SELL_POOL_QUOTE_ATA = 8"

definition PUMP_SELL_PROTOCOL_FEE_RECIPIENT :: "nat" where [simp]:
  "PUMP_SELL_PROTOCOL_FEE_RECIPIENT = 9"

definition PUMP_SELL_PROTOCOL_FEE_ATA :: "nat" where [simp]:
  "PUMP_SELL_PROTOCOL_FEE_ATA = 10"

definition PUMP_SELL_BASE_TOKEN_PROGRAM :: "nat" where [simp]:
  "PUMP_SELL_BASE_TOKEN_PROGRAM = 11"

definition PUMP_SELL_QUOTE_TOKEN_PROGRAM :: "nat" where [simp]:
  "PUMP_SELL_QUOTE_TOKEN_PROGRAM = 12"

definition PUMP_SELL_SYSTEM_PROGRAM :: "nat" where [simp]:
  "PUMP_SELL_SYSTEM_PROGRAM = 13"

definition PUMP_SELL_ATA_PROGRAM :: "nat" where [simp]:
  "PUMP_SELL_ATA_PROGRAM = 14"

definition PUMP_SELL_EVENT_AUTHORITY :: "nat" where [simp]:
  "PUMP_SELL_EVENT_AUTHORITY = 15"

definition PUMP_SELL_PROGRAM :: "nat" where [simp]:
  "PUMP_SELL_PROGRAM = 16"

definition PUMP_SELL_COIN_CREATOR_VAULT_ATA :: "nat" where [simp]:
  "PUMP_SELL_COIN_CREATOR_VAULT_ATA = 17"

definition PUMP_SELL_COIN_CREATOR_VAULT_AUTH :: "nat" where [simp]:
  "PUMP_SELL_COIN_CREATOR_VAULT_AUTH = 18"

definition PUMP_SELL_FEE_CONFIG :: "nat" where [simp]:
  "PUMP_SELL_FEE_CONFIG = 19"

definition PUMP_SELL_FEE_PROGRAM :: "nat" where [simp]:
  "PUMP_SELL_FEE_PROGRAM = 20"

definition PUMP_SELL_FIXED_LEN :: "nat" where [simp]:
  "PUMP_SELL_FIXED_LEN = 21"

section \<open>Wire values and minimum sizes of the generic route\<close>

definition DEX_KIND_PUMPSWAP :: "byte" where [simp]:
  "DEX_KIND_PUMPSWAP = 0"

definition DEX_KIND_DLMM :: "byte" where [simp]:
  "DEX_KIND_DLMM = 1"

definition DEX_KIND_CPMM :: "byte" where [simp]:
  "DEX_KIND_CPMM = 2"

definition DEX_KIND_WHIRLPOOL :: "byte" where [simp]:
  "DEX_KIND_WHIRLPOOL = 3"

definition DEX_PROGRAM_OFF :: "nat" where [simp]:
  "DEX_PROGRAM_OFF = 0"

definition GENERIC_MIN_ACCTS :: "nat" where [simp]:
  "GENERIC_MIN_ACCTS = 5"

section \<open>Error codes\<close>

definition ARB_INSUFFICIENT_PROFIT :: u32 where [simp]: "ARB_INSUFFICIENT_PROFIT = 6000"
definition ARB_RESIDUAL_MEME :: u32 where [simp]: "ARB_RESIDUAL_MEME = 6001"
definition ARB_ZERO_AMOUNT :: u32 where [simp]: "ARB_ZERO_AMOUNT = 6002"
definition ARB_BAD_DISCRIMINATOR :: u32 where [simp]: "ARB_BAD_DISCRIMINATOR = 6003"
definition ARB_BAD_ACCOUNT_COUNT :: u32 where [simp]: "ARB_BAD_ACCOUNT_COUNT = 6004"
definition ARB_BAD_PDA :: u32 where [simp]: "ARB_BAD_PDA = 6005"
definition ARB_BAD_PROGRAM :: u32 where [simp]: "ARB_BAD_PROGRAM = 6006"
definition ARB_BAD_MINT :: u32 where [simp]: "ARB_BAD_MINT = 6007"
definition ARB_NEGATIVE_NET :: u32 where [simp]: "ARB_NEGATIVE_NET = 6008"
definition ARB_PRE_SWAP_UNPROFITABLE :: u32 where [simp]: "ARB_PRE_SWAP_UNPROFITABLE = 6009"
definition ARB_PRICE_MATH_OVERFLOW :: u32 where [simp]: "ARB_PRICE_MATH_OVERFLOW = 6010"
definition ARB_EMPTY_BINS :: u32 where [simp]: "ARB_EMPTY_BINS = 6011"
definition ARB_PUMP_CPI_FAILED :: u32 where [simp]: "ARB_PUMP_CPI_FAILED = 6100"
definition ARB_DLMM_CPI_FAILED :: u32 where [simp]: "ARB_DLMM_CPI_FAILED = 6200"
definition ARB_CPMM_CPI_FAILED :: u32 where [simp]: "ARB_CPMM_CPI_FAILED = 6300"
definition ARB_WHIRLPOOL_CPI_FAILED :: u32 where [simp]: "ARB_WHIRLPOOL_CPI_FAILED = 6400"
definition ARB_UNKNOWN_DEX_PAIR :: u32 where [simp]: "ARB_UNKNOWN_DEX_PAIR = 6500"

definition arb_err :: "u32 \<Rightarrow> program_error" where [simp]:
  "arb_err code = Custom code"

section \<open>The keys and discriminators differ\<close>

lemma PUMP_SWAP_ID_val: "unat PUMP_SWAP_ID = 0xc14defc825ec67694250818bb654065f4298d3156d571b4d4f8090c18e9a863"
  by (simp add: PUMP_SWAP_ID_def b58_eval)

lemma DLMM_ID_val: "unat DLMM_ID = 0x4e9e12fbc84e826c932cce9e2640cce15590c1c6273b0925708ba3b8520b0bc"
  by (simp add: DLMM_ID_def b58_eval)

lemma CPMM_ID_val: "unat CPMM_ID = 0xa92a5a8b4f295952842550aa93fd5b95b5ace6a8eb920c93942e43690c20ec73"
  by (simp add: CPMM_ID_def b58_eval)

lemma WHIRLPOOL_ID_val: "unat WHIRLPOOL_ID = 0xe03685f8e909053e458121c66f5a76aedc7706aa11c82f8aa952a8f2b7879a9"
  by (simp add: WHIRLPOOL_ID_def b58_eval)

lemma TOKEN_ID_val: "unat TOKEN_ID = 0x6ddf6e1d765a193d9cbe146ceeb79ac1cb485ed5f5b37913a8cf5857eff00a9"
  by (simp add: TOKEN_ID_def b58_eval)

lemma SYSTEM_ID_val: "unat SYSTEM_ID = 0x0"
  by (simp add: SYSTEM_ID_def b58_eval)

lemma ATA_ID_val: "unat ATA_ID = 0x8c97258f4e2489f1bb3d1029148e0d830b5a1399daff1084048e7bd8dbe9f859"
  by (simp add: ATA_ID_def b58_eval)

lemma FEE_PROGRAM_ID_val: "unat FEE_PROGRAM_ID = 0xc35ffa9055a8e568da8f7bc075615274cf1c92ca41f40009c516aa414c27c70"
  by (simp add: FEE_PROGRAM_ID_def b58_eval)

lemma MEMO_ID_val: "unat MEMO_ID = 0x54a535a992921064d24e87160da387c7c35b5ddbc92bb81e41fa8404105448d"
  by (simp add: MEMO_ID_def b58_eval)

lemma DLMM_EVENT_AUTH_val: "unat DLMM_EVENT_AUTH = 0xb270d67fa98c51cf0213051358962baf35742bed59c9d9445e9c0d0c85c7cd91"
  by (simp add: DLMM_EVENT_AUTH_def b58_eval)

lemma NATIVE_SOL_MINT_val: "unat NATIVE_SOL_MINT = 0x69b8857feab8184fb687f634618c035dac439dc1aeb3b5598a0f00000000001"
  by (simp add: NATIVE_SOL_MINT_def b58_eval)

lemma CPMM_AMM_CONFIG_val: "unat CPMM_AMM_CONFIG = 0xb3213fba8bf9c87fa91e47819628c383e00bea7e98c7a03e03ba1069cfc3f6f3"
  by (simp add: CPMM_AMM_CONFIG_def b58_eval)

lemma WHIRLPOOL_CONFIG_val: "unat WHIRLPOOL_CONFIG = 0x13e441f83913ca68b0634fb025fdeaa88737e84110d1255e357b3377ddee1ccd"
  by (simp add: WHIRLPOOL_CONFIG_def b58_eval)

lemmas program_key_vals =
  PUMP_SWAP_ID_val DLMM_ID_val CPMM_ID_val WHIRLPOOL_ID_val
  TOKEN_ID_val SYSTEM_ID_val ATA_ID_val FEE_PROGRAM_ID_val
  MEMO_ID_val DLMM_EVENT_AUTH_val NATIVE_SOL_MINT_val CPMM_AMM_CONFIG_val
  WHIRLPOOL_CONFIG_val

lemma program_keys_distinct:
  "distinct [PUMP_SWAP_ID, DLMM_ID, CPMM_ID, WHIRLPOOL_ID, TOKEN_ID, SYSTEM_ID,
     ATA_ID, FEE_PROGRAM_ID, MEMO_ID, DLMM_EVENT_AUTH, NATIVE_SOL_MINT, CPMM_AMM_CONFIG, WHIRLPOOL_CONFIG]"
proof -
  have "distinct (map unat [PUMP_SWAP_ID, DLMM_ID, CPMM_ID, WHIRLPOOL_ID, TOKEN_ID, SYSTEM_ID,
     ATA_ID, FEE_PROGRAM_ID, MEMO_ID, DLMM_EVENT_AUTH, NATIVE_SOL_MINT, CPMM_AMM_CONFIG, WHIRLPOOL_CONFIG])"
    by (simp add: program_key_vals)
  then show ?thesis by (simp only: distinct_map)
qed

lemma program_keys_neq [simp]:
  "PUMP_SWAP_ID \<noteq> DLMM_ID" "PUMP_SWAP_ID \<noteq> CPMM_ID" "PUMP_SWAP_ID \<noteq> WHIRLPOOL_ID"
  "DLMM_ID \<noteq> CPMM_ID" "DLMM_ID \<noteq> WHIRLPOOL_ID" "CPMM_ID \<noteq> WHIRLPOOL_ID"
  "DLMM_ID \<noteq> PUMP_SWAP_ID" "CPMM_ID \<noteq> PUMP_SWAP_ID" "WHIRLPOOL_ID \<noteq> PUMP_SWAP_ID"
  "CPMM_ID \<noteq> DLMM_ID" "WHIRLPOOL_ID \<noteq> DLMM_ID" "WHIRLPOOL_ID \<noteq> CPMM_ID"
  using program_keys_distinct by auto

lemma route_discs_neq [simp]:
  "ROUTE_PUMP_TO_DLMM_DISC \<noteq> ROUTE_DLMM_TO_PUMP_DISC"
  "ROUTE_PUMP_TO_DLMM_DISC \<noteq> ROUTE_DISC" "ROUTE_DLMM_TO_PUMP_DISC \<noteq> ROUTE_DISC"
  "ROUTE_DLMM_TO_PUMP_DISC \<noteq> ROUTE_PUMP_TO_DLMM_DISC"
  "ROUTE_DISC \<noteq> ROUTE_PUMP_TO_DLMM_DISC" "ROUTE_DISC \<noteq> ROUTE_DLMM_TO_PUMP_DISC"
  by (simp_all add: ROUTE_PUMP_TO_DLMM_DISC_def ROUTE_DLMM_TO_PUMP_DISC_def ROUTE_DISC_def)

lemma disc_length [simp]:
  "length ROUTE_PUMP_TO_DLMM_DISC = 8" "length ROUTE_DLMM_TO_PUMP_DISC = 8" "length ROUTE_DISC = 8"
  "length PUMP_BUY_DISC = 8" "length PUMP_SELL_DISC = 8" "length DLMM_SWAP2_DISC = 8"
  "length CPMM_SWAP_DISC = 8" "length WHIRLPOOL_SWAP_DISC = 8"
  by (simp_all add: ROUTE_PUMP_TO_DLMM_DISC_def ROUTE_DLMM_TO_PUMP_DISC_def ROUTE_DISC_def
      PUMP_BUY_DISC_def PUMP_SELL_DISC_def DLMM_SWAP2_DISC_def CPMM_SWAP_DISC_def
      WHIRLPOOL_SWAP_DISC_def)

end
