(* ===== verification/Accounting.thy ===== *)
theory Accounting
  imports Constants
begin

text \<open>
  Balance snapshots: \<open>programs/arbitrage/src/accounting.rs\<close>. The SPL token amount is a
  little-endian \<open>u64\<close> at offset 64 of the account data; the SOL balance is the wallet's
  lamports plus the amount of its WSOL account, added with an overflow check.
\<close>

definition read_token_amount :: "ledger \<Rightarrow> account_info \<Rightarrow> u64 result" where
  "read_token_amount l account =
     (let data = cell_data (l (acc_key account)) in
      if length data < 72 then Err InvalidAccountData
      else and_then (slice data 64 72) (\<lambda>bs. Ok (u64_from_le bs)))"

definition aggregate_sol_balance :: "ledger \<Rightarrow> account_info \<Rightarrow> account_info \<Rightarrow> u64 result" where
  "aggregate_sol_balance l user_wallet user_wsol_ata =
     (let native = cell_lamports (l (acc_key user_wallet)) in
      and_then (read_token_amount l user_wsol_ata) (\<lambda>wsol.
        ok_or (checked_add native wsol) ArithmeticOverflow))"

text \<open>The specification view: the token amount a cell holds and the SOL value of two cells.\<close>

definition token_amount :: "account_cell \<Rightarrow> nat" where
  "token_amount c = from_le (take 8 (drop 64 (cell_data c)))"

definition sol_value :: "ledger \<Rightarrow> pubkey \<Rightarrow> pubkey \<Rightarrow> nat" where
  "sol_value l wallet ata = unat (cell_lamports (l wallet)) + token_amount (l ata)"

lemma token_amount_bound: "token_amount c < 2 ^ 64"
proof -
  have "from_le (take 8 (drop 64 (cell_data c))) < 256 ^ length (take 8 (drop 64 (cell_data c)))"
    by (rule from_le_bound)
  also have "\<dots> \<le> 256 ^ 8"
    by (rule power_increasing) auto
  finally show ?thesis by (simp add: token_amount_def)
qed

lemma read_token_amount_Ok_iff [outcome_simps]:
  "read_token_amount l a = Ok v \<longleftrightarrow>
     72 \<le> length (cell_data (l (acc_key a))) \<and> unat v = token_amount (l (acc_key a))"
proof -
  have "unat (u64_from_le (take 8 (drop 64 (cell_data c)))) = token_amount c" for c
    using token_amount_bound [of c]
    by (simp add: u64_from_le_def token_amount_def unat_of_nat_small)
  then show ?thesis
    by (auto simp: read_token_amount_def Let_def slice_def word_unat_eq_iff)
qed

lemma read_token_amount_eq:
  "72 \<le> length (cell_data (l (acc_key a))) \<Longrightarrow>
   read_token_amount l a = Ok (of_nat (token_amount (l (acc_key a))))"
  using token_amount_bound [of "l (acc_key a)"]
  by (simp add: read_token_amount_Ok_iff unat_of_nat_small)

lemma read_token_amount_no_panic [simp]: "read_token_amount l a \<noteq> Panic"
  by (simp add: read_token_amount_def Let_def slice_def)

lemma aggregate_Ok_iff [outcome_simps]:
  "aggregate_sol_balance l w a = Ok v \<longleftrightarrow>
     72 \<le> length (cell_data (l (acc_key a))) \<and> unat v = sol_value l (acc_key w) (acc_key a)"
proof
  assume "aggregate_sol_balance l w a = Ok v"
  then show "72 \<le> length (cell_data (l (acc_key a))) \<and> unat v = sol_value l (acc_key w) (acc_key a)"
    by (auto simp: aggregate_sol_balance_def Let_def outcome_simps unat_simps sol_value_def)
next
  assume h: "72 \<le> length (cell_data (l (acc_key a))) \<and> unat v = sol_value l (acc_key w) (acc_key a)"
  then show "aggregate_sol_balance l w a = Ok v"
    using token_amount_bound [of "l (acc_key a)"]
    by (simp add: aggregate_sol_balance_def Let_def read_token_amount_eq ok_or_Ok_iff unat_simps
        sol_value_def unat_of_nat_small)
qed

lemma read_token_amount_obtain:
  assumes "72 \<le> length (cell_data (l (acc_key a)))"
  obtains v where "read_token_amount l a = Ok v" "unat v = token_amount (l (acc_key a))"
proof -
  have "unat (of_nat (token_amount (l (acc_key a))) :: u64) = token_amount (l (acc_key a))"
    using token_amount_bound by (intro unat_of_nat_small) simp
  then show thesis using assms that by (simp add: read_token_amount_Ok_iff)
qed

lemma aggregate_obtain:
  assumes "72 \<le> length (cell_data (l (acc_key a)))" and "sol_value l (acc_key w) (acc_key a) < 2 ^ 64"
  obtains v where "aggregate_sol_balance l w a = Ok v" "unat v = sol_value l (acc_key w) (acc_key a)"
proof -
  have "unat (of_nat (sol_value l (acc_key w) (acc_key a)) :: u64) = sol_value l (acc_key w) (acc_key a)"
    using assms(2) by (intro unat_of_nat_small) simp
  then show thesis using assms(1) that by (simp add: aggregate_Ok_iff)
qed

lemma aggregate_bound:
  "aggregate_sol_balance l w a = Ok v \<Longrightarrow> sol_value l (acc_key w) (acc_key a) < 2 ^ 64"
  using unat_u64_bound [of v] by (simp add: aggregate_Ok_iff)

lemma aggregate_no_panic [simp]: "aggregate_sol_balance l w a \<noteq> Panic"
  by (simp add: aggregate_sol_balance_def Let_def and_then_Panic_iff)

lemma aggregate_overflow:
  assumes "72 \<le> length (cell_data (l (acc_key a)))"
    and "2 ^ 64 \<le> sol_value l (acc_key w) (acc_key a)"
  shows "aggregate_sol_balance l w a = Err ArithmeticOverflow"
proof -
  have "checked_add (cell_lamports (l (acc_key w))) (of_nat (token_amount (l (acc_key a)))) = None"
    using assms(2) token_amount_bound [of "l (acc_key a)"]
    by (simp add: checked_add_def sol_value_def unat_of_nat_small)
  then show ?thesis
    using assms(1) by (simp add: aggregate_sol_balance_def Let_def read_token_amount_eq)
qed

end
