(* ===== verification/Route_Guard.thy ===== *)
theory Route_Guard
  imports Accounting
begin

text \<open>
  What the three route handlers share: the 36-byte instruction data and the balance bracket
  around the two swaps (snapshot, buy, read what was bought, sell it, post-invariants), which
  the source repeats in \<open>orchestrate.rs\<close>, \<open>route_pump_to_dlmm.rs\<close> and
  \<open>route_dlmm_to_pump.rs\<close>. Then the contract of a route as a locale.
\<close>

section \<open>Instruction data\<close>

record route_ix =
  rx_amount_in :: u64
  rx_min_profit :: u64
  rx_min_intermediate :: u64
  rx_track_volume :: bool
  rx_sol_is_x :: bool
  rx_first_count :: nat
  rx_second_count :: nat

definition read_u64 :: "byte list \<Rightarrow> nat \<Rightarrow> u64 result" where
  "read_u64 data off = and_then (slice data off (off + 8)) (\<lambda>bs. Ok (u64_from_le bs))"

definition parse_ix :: "byte list \<Rightarrow> route_ix result" where
  "parse_ix data =
     (if length data \<noteq> IX_DATA_LEN then Err InvalidInstructionData
      else
        and_then (read_u64 data OFF_AMOUNT_IN) (\<lambda>amount_in.
        and_then (read_u64 data OFF_MIN_PROFIT) (\<lambda>min_profit.
        and_then (read_u64 data OFF_MIN_INTERMEDIATE) (\<lambda>min_intermediate.
        and_then (idx data OFF_TRACK_VOLUME) (\<lambda>track.
        and_then (idx data OFF_DLMM_SOL_IS_X) (\<lambda>sol_is_x.
        and_then (idx data OFF_BUY_REMAINING) (\<lambda>buy_remaining.
        and_then (idx data OFF_SELL_REMAINING) (\<lambda>sell_remaining.
          Ok \<lparr>rx_amount_in = amount_in, rx_min_profit = min_profit,
              rx_min_intermediate = min_intermediate, rx_track_volume = (track \<noteq> 0),
              rx_sol_is_x = (sol_is_x \<noteq> 0), rx_first_count = unat buy_remaining,
              rx_second_count = unat sell_remaining\<rparr>))))))))"

lemma read_u64_in_range:
  "off + 8 \<le> length data \<Longrightarrow> read_u64 data off = Ok (u64_from_le (take 8 (drop off data)))"
  by (simp add: read_u64_def slice_def)

definition route_ix_of :: "byte list \<Rightarrow> route_ix" where
  "route_ix_of data =
     \<lparr>rx_amount_in = u64_from_le (take 8 (drop 8 data)),
      rx_min_profit = u64_from_le (take 8 (drop 16 data)),
      rx_min_intermediate = u64_from_le (take 8 (drop 24 data)),
      rx_track_volume = (data ! 32 \<noteq> 0), rx_sol_is_x = (data ! 33 \<noteq> 0),
      rx_first_count = unat (data ! 34), rx_second_count = unat (data ! 35)\<rparr>"

lemma parse_ix_eq:
  "parse_ix data = (if length data = 36 then Ok (route_ix_of data) else Err InvalidInstructionData)"
  by (simp add: parse_ix_def read_u64_in_range idx_in_range route_ix_of_def)

lemma parse_ix_no_panic [simp]: "parse_ix data \<noteq> Panic"
  by (simp add: parse_ix_eq)

lemma parse_ix_Ok_iff [outcome_simps]:
  "parse_ix data = Ok ix \<longleftrightarrow> length data = 36 \<and> ix = route_ix_of data"
  by (auto simp: parse_ix_eq)

lemma counts_bound: "rx_first_count (route_ix_of data) < 256" "rx_second_count (route_ix_of data) < 256"
  using unsigned_less [of "data ! 34", where ?'a = nat] unsigned_less [of "data ! 35", where ?'a = nat]
  by (simp_all add: route_ix_of_def)

text \<open>Data put together field by field reads back as those fields.\<close>

lemma route_ix_of_fields:
  assumes "length disc = 8"
  shows "route_ix_of (disc @ u64_to_le a @ u64_to_le p @ u64_to_le m @ [t, x, c1, c2]) =
    \<lparr>rx_amount_in = a, rx_min_profit = p, rx_min_intermediate = m, rx_track_volume = (t \<noteq> 0),
     rx_sol_is_x = (x \<noteq> 0), rx_first_count = unat c1, rx_second_count = unat c2\<rparr>"
  using assms by (simp add: route_ix_of_def nth_append)

section \<open>The balance bracket\<close>

definition meme_delta :: "ledger \<Rightarrow> account_info \<Rightarrow> u64 \<Rightarrow> u64 result" where
  "meme_delta l meme_ata meme_before =
     and_then (read_token_amount l meme_ata) (\<lambda>meme_after_buy.
     and_then (ok_or (checked_sub meme_after_buy meme_before) (arb_err ARB_NEGATIVE_NET)) (\<lambda>meme_received.
       if meme_received = 0 then Err (arb_err ARB_ZERO_AMOUNT) else Ok meme_received))"

definition post_invariants :: "ledger \<Rightarrow> account_info \<Rightarrow> account_info \<Rightarrow> account_info \<Rightarrow> u64 \<Rightarrow> u64
    \<Rightarrow> u64 \<Rightarrow> unit result" where
  "post_invariants l user user_sol_ata user_meme_ata pre_aggregate meme_before min_profit =
     and_then (aggregate_sol_balance l user user_sol_ata) (\<lambda>post_aggregate.
     and_then (ok_or (checked_sub post_aggregate pre_aggregate) (arb_err ARB_NEGATIVE_NET)) (\<lambda>net_sol.
       if net_sol < min_profit then Err (arb_err ARB_INSUFFICIENT_PROFIT)
       else and_then (read_token_amount l user_meme_ata) (\<lambda>meme_after.
         if meme_after \<noteq> meme_before then Err (arb_err ARB_RESIDUAL_MEME) else Ok ())))"

text \<open>
  Sections 6 to 10 of the handlers. \<open>buy\<close> and \<open>sell\<close> are the two legs; \<open>sell\<close> is given the
  amount of meme tokens the buy leg delivered.
\<close>

definition two_leg :: "account_info list \<Rightarrow> u64 \<Rightarrow> (ledger \<Rightarrow> ledger result)
    \<Rightarrow> (u64 \<Rightarrow> ledger \<Rightarrow> ledger result) \<Rightarrow> ledger \<Rightarrow> ledger result" where
  "two_leg accounts min_profit buy sell l =
     and_then (idx accounts USER_IDX) (\<lambda>user.
     and_then (idx accounts USER_SOL_ATA_IDX) (\<lambda>user_sol_ata.
     and_then (idx accounts USER_MEME_ATA_IDX) (\<lambda>user_meme_ata.
     and_then (aggregate_sol_balance l user user_sol_ata) (\<lambda>pre_aggregate.
     and_then (read_token_amount l user_meme_ata) (\<lambda>meme_before.
     and_then (buy l) (\<lambda>l1.
     and_then (meme_delta l1 user_meme_ata meme_before) (\<lambda>meme_received.
     and_then (sell meme_received l1) (\<lambda>l2.
     and_then (post_invariants l2 user user_sol_ata user_meme_ata pre_aggregate meme_before
         min_profit) (\<lambda>_. Ok l2)))))))))"

lemma meme_delta_Ok_iff [outcome_simps]:
  "meme_delta l meme before = Ok d \<longleftrightarrow>
     72 \<le> length (cell_data (l (acc_key meme))) \<and>
     token_amount (l (acc_key meme)) = unat before + unat d \<and> 0 < unat d"
proof -
  let ?n = "token_amount (l (acc_key meme))"
  have zero: "d = 0 \<longleftrightarrow> unat d = 0" by (simp add: word_unat_eq_iff)
  have "meme_delta l meme before = Ok d" if "72 \<le> length (cell_data (l (acc_key meme)))"
    and sum: "?n = unat before + unat d" and "0 < unat d"
  proof -
    have "checked_sub (of_nat ?n) before = Some d"
      using sum token_amount_bound [of "l (acc_key meme)"]
      unfolding checked_sub_Some_iff by (subst unat_of_nat_small) auto
    then show ?thesis
      using that zero by (simp add: meme_delta_def read_token_amount_eq)
  qed
  moreover have "72 \<le> length (cell_data (l (acc_key meme))) \<and> ?n = unat before + unat d \<and> 0 < unat d"
    if "meme_delta l meme before = Ok d"
    using that zero by (auto simp: meme_delta_def outcome_simps unat_simps split: if_splits)
  ultimately show ?thesis by blast
qed

lemma meme_delta_no_panic [simp]: "meme_delta l meme before \<noteq> Panic"
  by (simp add: meme_delta_def and_then_Panic_iff)

lemma post_invariants_no_panic [simp]: "post_invariants l u s m pre before p \<noteq> Panic"
  by (auto simp: post_invariants_def and_then_Panic_iff)

lemma two_leg_no_panic:
  assumes "3 \<le> length accounts"
    and "\<And>l. buy l \<noteq> Panic" and "\<And>x l. sell x l \<noteq> Panic"
  shows "two_leg accounts p buy sell l \<noteq> Panic"
proof -
  have "accounts \<noteq> []" "1 < length accounts" "2 < length accounts" using assms(1) by auto
  then show ?thesis
    using assms(2-) by (auto simp: two_leg_def and_then_Panic_iff idx_def)
qed

text \<open>
  \<open>readable\<close>: both token accounts are long enough to hold an amount and the SOL value fits
  a \<open>u64\<close>. Then the bracket succeeds exactly when both legs do, the first delivers some meme
  tokens, the second sells all of them, and the SOL value has grown by the demanded profit.
\<close>

definition readable :: "account_info list \<Rightarrow> ledger \<Rightarrow> bool" where
  "readable accounts l \<longleftrightarrow>
     72 \<le> length (cell_data (l (acc_key (accounts ! 1)))) \<and>
     72 \<le> length (cell_data (l (acc_key (accounts ! 2)))) \<and>
     sol_value l (acc_key (accounts ! 0)) (acc_key (accounts ! 1)) < 2 ^ 64"

lemma post_invariants_Ok_iff [outcome_simps]:
  assumes "unat pre = sol_value l0 (acc_key (accounts ! 0)) (acc_key (accounts ! 1))"
    and "unat before = token_amount (l0 (acc_key (accounts ! 2)))"
  shows "post_invariants l (accounts ! 0) (accounts ! 1) (accounts ! 2) pre before p = Ok v \<longleftrightarrow>
    readable accounts l \<and>
    sol_value l0 (acc_key (accounts ! 0)) (acc_key (accounts ! 1)) + unat p
      \<le> sol_value l (acc_key (accounts ! 0)) (acc_key (accounts ! 1)) \<and>
    token_amount (l (acc_key (accounts ! 2))) = token_amount (l0 (acc_key (accounts ! 2)))"
    (is "?lhs \<longleftrightarrow> ?rhs")
proof
  assume ?lhs
  then obtain post and net :: u64 where
    post: "aggregate_sol_balance l (accounts ! 0) (accounts ! 1) = Ok post" and
    "unat post = unat pre + unat net" "\<not> unat net < unat p" and
    "read_token_amount l (accounts ! 2) = Ok before"
    by (auto simp: post_invariants_def and_then_Ok_iff ok_or_Ok_iff unat_simps word_less_nat_alt
        split: if_splits)
  then show ?rhs
    using assms aggregate_bound [OF post] by (simp add: readable_def outcome_simps)
next
  assume ?rhs
  then obtain post where post: "aggregate_sol_balance l (accounts ! 0) (accounts ! 1) = Ok post"
    and post_val: "unat post = sol_value l (acc_key (accounts ! 0)) (acc_key (accounts ! 1))"
    by (auto simp: readable_def elim: aggregate_obtain)
  have "pre \<le> post" using \<open>?rhs\<close> post_val assms by (simp add: word_le_nat_alt)
  then have "checked_sub post pre = Some (post - pre)" and "p \<le> post - pre"
    using \<open>?rhs\<close> post_val assms by (auto simp: checked_sub_def word_le_nat_alt unat_sub)
  moreover have "read_token_amount l (accounts ! 2) = Ok before"
    using \<open>?rhs\<close> assms by (simp add: outcome_simps readable_def)
  ultimately show ?lhs
    using post by (simp add: post_invariants_def)
qed

lemma two_leg_Ok_iff:
  "two_leg accounts p buy sell l = Ok l2 \<longleftrightarrow>
     3 \<le> length accounts \<and> readable accounts l \<and>
     (\<exists>l1 received. buy l = Ok l1 \<and> sell received l1 = Ok l2 \<and>
        72 \<le> length (cell_data (l1 (acc_key (accounts ! 2)))) \<and>
        token_amount (l1 (acc_key (accounts ! 2)))
          = token_amount (l (acc_key (accounts ! 2))) + unat received \<and>
        0 < unat received) \<and>
     readable accounts l2 \<and>
     sol_value l (acc_key (accounts ! 0)) (acc_key (accounts ! 1)) + unat p
       \<le> sol_value l2 (acc_key (accounts ! 0)) (acc_key (accounts ! 1)) \<and>
     token_amount (l2 (acc_key (accounts ! 2))) = token_amount (l (acc_key (accounts ! 2)))"
    (is "?lhs \<longleftrightarrow> ?rhs")
proof
  assume ?lhs
  then obtain pre before l1 received where
    len: "3 \<le> length accounts" and
    pre: "aggregate_sol_balance l (accounts ! 0) (accounts ! 1) = Ok pre" and
    before: "read_token_amount l (accounts ! 2) = Ok before" and
    legs: "buy l = Ok l1" "sell received l1 = Ok l2" and
    delta: "meme_delta l1 (accounts ! 2) before = Ok received" and
    post: "post_invariants l2 (accounts ! 0) (accounts ! 1) (accounts ! 2) pre before p = Ok ()"
    by (auto simp: two_leg_def and_then_Ok_iff idx_Ok_iff)
  have vals: "unat pre = sol_value l (acc_key (accounts ! 0)) (acc_key (accounts ! 1))"
    "unat before = token_amount (l (acc_key (accounts ! 2)))"
    using pre before by (simp_all add: outcome_simps)
  moreover have "readable accounts l"
    using pre before vals aggregate_bound [OF pre] by (simp add: readable_def outcome_simps)
  ultimately show ?rhs
    using len legs delta post_invariants_Ok_iff [OF vals, THEN iffD1, OF post]
    by (auto simp: meme_delta_Ok_iff)
next
  assume rhs: ?rhs
  then obtain l1 received where legs: "buy l = Ok l1" "sell received l1 = Ok l2"
    and "72 \<le> length (cell_data (l1 (acc_key (accounts ! 2))))"
      "token_amount (l1 (acc_key (accounts ! 2)))
         = token_amount (l (acc_key (accounts ! 2))) + unat received" "0 < unat received"
    by blast
  moreover obtain pre where pre: "aggregate_sol_balance l (accounts ! 0) (accounts ! 1) = Ok pre"
    and pre_val: "unat pre = sol_value l (acc_key (accounts ! 0)) (acc_key (accounts ! 1))"
    using rhs unfolding readable_def by (blast elim: aggregate_obtain)
  moreover obtain before where before: "read_token_amount l (accounts ! 2) = Ok before"
    and before_val: "unat before = token_amount (l (acc_key (accounts ! 2)))"
    using rhs unfolding readable_def by (blast elim: read_token_amount_obtain)
  ultimately have "meme_delta l1 (accounts ! 2) before = Ok received"
    by (simp add: meme_delta_Ok_iff)
  moreover have "post_invariants l2 (accounts ! 0) (accounts ! 1) (accounts ! 2) pre before p = Ok ()"
    using rhs post_invariants_Ok_iff [OF pre_val before_val, THEN iffD2] by blast
  moreover have "0 < length accounts" "1 < length accounts" "2 < length accounts"
    using rhs by auto
  ultimately show ?lhs
    using pre before legs by (simp add: two_leg_def idx_def)
qed

section \<open>Errors\<close>

lemma read_token_amount_Err: "read_token_amount l a = Err e \<Longrightarrow> e = InvalidAccountData"
  by (auto simp: read_token_amount_def Let_def slice_def split: if_splits)

lemma aggregate_Err: "aggregate_sol_balance l w a = Err e \<Longrightarrow> e \<in> {InvalidAccountData, ArithmeticOverflow}"
  by (auto simp: aggregate_sol_balance_def Let_def and_then_Err_iff ok_or_def
      dest: read_token_amount_Err split: option.splits)

definition bracket_errors :: "program_error set" where
  "bracket_errors = {InvalidAccountData, ArithmeticOverflow, arb_err ARB_ZERO_AMOUNT,
     arb_err ARB_NEGATIVE_NET, arb_err ARB_INSUFFICIENT_PROFIT, arb_err ARB_RESIDUAL_MEME}"

lemma meme_delta_Err: "meme_delta l m b = Err e \<Longrightarrow> e \<in> bracket_errors"
  by (auto simp: meme_delta_def and_then_Err_iff ok_or_def bracket_errors_def
      dest: read_token_amount_Err split: option.splits if_splits)

lemma post_invariants_Err: "post_invariants l u s m pre b p = Err e \<Longrightarrow> e \<in> bracket_errors"
  by (auto simp: post_invariants_def and_then_Err_iff ok_or_def bracket_errors_def
      dest: read_token_amount_Err aggregate_Err split: option.splits if_splits)

lemma two_leg_Err:
  assumes "two_leg accounts p buy sell l = Err e"
  shows "e \<in> bracket_errors \<or> (\<exists>l. buy l = Err e) \<or> (\<exists>x l. sell x l = Err e)"
proof -
  have "InvalidAccountData \<in> bracket_errors" "ArithmeticOverflow \<in> bracket_errors"
    by (simp_all add: bracket_errors_def)
  then show ?thesis
    using assms
    by (auto simp: two_leg_def and_then_Err_iff idx_def split: if_splits
        dest: meme_delta_Err post_invariants_Err read_token_amount_Err aggregate_Err)
qed

section \<open>The contract of a route\<close>

text \<open>
  \<open>settled\<close> is what the post-invariants establish between the ledger before and after: the
  user's SOL value grew by at least the demanded profit and the meme position is unchanged.
\<close>

definition settled :: "account_info list \<Rightarrow> nat \<Rightarrow> ledger \<Rightarrow> ledger \<Rightarrow> bool" where
  "settled accounts p l l' \<longleftrightarrow>
     3 \<le> length accounts \<and> 0 < p \<and>
     sol_value l (acc_key (accounts ! 0)) (acc_key (accounts ! 1)) + p
       \<le> sol_value l' (acc_key (accounts ! 0)) (acc_key (accounts ! 1)) \<and>
     token_amount (l' (acc_key (accounts ! 2))) = token_amount (l (acc_key (accounts ! 2)))"

definition demanded_profit :: "byte list \<Rightarrow> nat" where
  "demanded_profit data = unat (rx_min_profit (route_ix_of data))"

type_synonym handler = "account_info list \<Rightarrow> byte list \<Rightarrow> ledger \<Rightarrow> ledger result"

locale guarded_route =
  fixes handle :: handler
  assumes no_abort: "handle accounts data l \<noteq> Panic"
    and guard: "handle accounts data l = Ok l' \<Longrightarrow> settled accounts (demanded_profit data) l l'"
begin

lemma profit:
  assumes "handle accounts data l = Ok l'"
  shows "3 \<le> length accounts \<and> 0 < demanded_profit data \<and>
    sol_value l (acc_key (accounts ! 0)) (acc_key (accounts ! 1)) + demanded_profit data
      \<le> sol_value l' (acc_key (accounts ! 0)) (acc_key (accounts ! 1)) \<and>
    token_amount (l' (acc_key (accounts ! 2))) = token_amount (l (acc_key (accounts ! 2)))"
  using guard [OF assms] by (simp add: settled_def)

end

lemma two_leg_settled:
  "two_leg accounts p buy sell l = Ok l' \<Longrightarrow> 0 < unat p \<Longrightarrow> settled accounts (unat p) l l'"
  by (simp add: two_leg_Ok_iff settled_def)

end
