(* ===== verification/Cpi_Builders.thy ===== *)
theory Cpi_Builders
  imports Constants
begin

text \<open>
  The cross-program instruction builders of \<open>programs/arbitrage/src/cpi/\<close>: PumpSwap buy and
  sell, DLMM \<open>swap2\<close>, Raydium CPMM \<open>swap\<close>, Orca Whirlpool \<open>swap\<close>. Each reads account
  handles by absolute index (a panic when out of range) and writes the instruction data
  byte by byte. The \<open>_in_range\<close> lemmas give the whole instruction once the section is
  inside the account list.
\<close>

definition bool_byte :: "bool \<Rightarrow> byte" where
  "bool_byte b = (if b then 1 else 0)"

section \<open>PumpSwap\<close>

definition build_meta :: "account_info list \<Rightarrow> nat \<Rightarrow> (nat \<times> bool) list \<Rightarrow> account_meta list result" where
  "build_meta accounts pump_base slots =
     push_all accounts (map (\<lambda>(rel, writable). (pump_base + rel, writable)) slots)"

definition pump_buy_slots :: "(nat \<times> bool) list" where
  "pump_buy_slots =
    [(PUMP_BUY_POOL, True),
     (PUMP_BUY_USER, True),
     (PUMP_BUY_GLOBAL_CONFIG, False),
     (PUMP_BUY_BASE_MINT, False),
     (PUMP_BUY_QUOTE_MINT, False),
     (PUMP_BUY_USER_BASE_ATA, True),
     (PUMP_BUY_USER_QUOTE_ATA, True),
     (PUMP_BUY_POOL_BASE_ATA, True),
     (PUMP_BUY_POOL_QUOTE_ATA, True),
     (PUMP_BUY_PROTOCOL_FEE_RECIPIENT, False),
     (PUMP_BUY_PROTOCOL_FEE_ATA, True),
     (PUMP_BUY_BASE_TOKEN_PROGRAM, False),
     (PUMP_BUY_QUOTE_TOKEN_PROGRAM, False),
     (PUMP_BUY_SYSTEM_PROGRAM, False),
     (PUMP_BUY_ATA_PROGRAM, False),
     (PUMP_BUY_EVENT_AUTHORITY, False),
     (PUMP_BUY_PROGRAM, False),
     (PUMP_BUY_COIN_CREATOR_VAULT_ATA, True),
     (PUMP_BUY_COIN_CREATOR_VAULT_AUTH, False),
     (PUMP_BUY_GLOBAL_VOL_ACCUM, False),
     (PUMP_BUY_USER_VOL_ACCUM, True),
     (PUMP_BUY_FEE_CONFIG, False),
     (PUMP_BUY_FEE_PROGRAM, False)]"

definition override_base_ata :: "account_info list \<Rightarrow> nat option \<Rightarrow> account_meta list
    \<Rightarrow> account_meta list result" where
  "override_base_ata accounts user_base_ata_override meta =
     (case user_base_ata_override of
        None \<Rightarrow> Ok meta
      | Some i \<Rightarrow> and_then (idx accounts i) (\<lambda>a.
          if 5 < length meta then Ok (meta[5 := meta_new (acc_key a) (acc_is_signer a)]) else Panic))"

definition build_buy :: "account_info list \<Rightarrow> nat \<Rightarrow> nat \<Rightarrow> u64 \<Rightarrow> u64 \<Rightarrow> bool \<Rightarrow> nat option
    \<Rightarrow> instruction result" where
  "build_buy accounts pump_base pump_remaining_count amount_in min_amount_out track_volume
      user_base_ata_override =
     and_then (build_meta accounts pump_base pump_buy_slots) (\<lambda>fixed.
     and_then (override_base_ata accounts user_base_ata_override fixed) (\<lambda>meta.
     and_then (traverse (\<lambda>i. pass_through accounts (pump_base + PUMP_BUY_FIXED_LEN + i))
                 [0..<pump_remaining_count]) (\<lambda>remaining.
     and_then (idx accounts (pump_base + PUMP_BUY_PROGRAM)) (\<lambda>prog.
       Ok \<lparr>ix_program_id = acc_key prog,
           ix_accounts = meta @ remaining,
           ix_data = PUMP_BUY_DISC @ u64_to_le amount_in @ u64_to_le min_amount_out
                       @ [bool_byte track_volume]\<rparr>))))"

definition pump_sell_slots :: "(nat \<times> bool) list" where
  "pump_sell_slots =
    [(PUMP_SELL_POOL, True),
     (PUMP_SELL_USER, True),
     (PUMP_SELL_GLOBAL_CONFIG, False),
     (PUMP_SELL_BASE_MINT, False),
     (PUMP_SELL_QUOTE_MINT, False),
     (PUMP_SELL_USER_BASE_ATA, True),
     (PUMP_SELL_USER_QUOTE_ATA, True),
     (PUMP_SELL_POOL_BASE_ATA, True),
     (PUMP_SELL_POOL_QUOTE_ATA, True),
     (PUMP_SELL_PROTOCOL_FEE_RECIPIENT, False),
     (PUMP_SELL_PROTOCOL_FEE_ATA, True),
     (PUMP_SELL_BASE_TOKEN_PROGRAM, False),
     (PUMP_SELL_QUOTE_TOKEN_PROGRAM, False),
     (PUMP_SELL_SYSTEM_PROGRAM, False),
     (PUMP_SELL_ATA_PROGRAM, False),
     (PUMP_SELL_EVENT_AUTHORITY, False),
     (PUMP_SELL_PROGRAM, False),
     (PUMP_SELL_COIN_CREATOR_VAULT_ATA, True),
     (PUMP_SELL_COIN_CREATOR_VAULT_AUTH, False),
     (PUMP_SELL_FEE_CONFIG, False),
     (PUMP_SELL_FEE_PROGRAM, False)]"

definition build_sell :: "account_info list \<Rightarrow> nat \<Rightarrow> nat \<Rightarrow> u64 \<Rightarrow> u64 \<Rightarrow> nat option
    \<Rightarrow> instruction result" where
  "build_sell accounts pump_base pump_remaining_count amount_in min_amount_out
      user_base_ata_override =
     and_then (build_meta accounts pump_base pump_sell_slots) (\<lambda>fixed.
     and_then (override_base_ata accounts user_base_ata_override fixed) (\<lambda>meta.
     and_then (traverse (\<lambda>i. pass_through accounts (pump_base + PUMP_SELL_FIXED_LEN + i))
                 [0..<pump_remaining_count]) (\<lambda>remaining.
     and_then (idx accounts (pump_base + PUMP_SELL_PROGRAM)) (\<lambda>prog.
       Ok \<lparr>ix_program_id = acc_key prog,
           ix_accounts = meta @ remaining,
           ix_data = PUMP_SELL_DISC @ u64_to_le amount_in @ u64_to_le min_amount_out\<rparr>))))"

section \<open>DLMM\<close>

definition build_swap2 :: "account_info list \<Rightarrow> nat \<Rightarrow> u64 \<Rightarrow> nat \<Rightarrow> nat \<Rightarrow> nat \<Rightarrow> nat \<Rightarrow> nat \<Rightarrow> nat
    \<Rightarrow> nat \<Rightarrow> nat \<Rightarrow> instruction result" where
  "build_swap2 accounts dlmm_base amount_in token_x_mint_idx token_y_mint_idx token_x_program_idx
      token_y_program_idx user_idx user_token_in_idx user_token_out_idx bin_array_count =
     and_then (push_all accounts
       ([(dlmm_base + DLMM_LB_PAIR_REL, True),
         (dlmm_base + DLMM_BITMAP_REL, True),
         (dlmm_base + DLMM_RESERVE_X_REL, True),
         (dlmm_base + DLMM_RESERVE_Y_REL, True),
         (user_token_in_idx, True),
         (user_token_out_idx, True),
         (token_x_mint_idx, False),
         (token_y_mint_idx, False),
         (dlmm_base + DLMM_ORACLE_REL, True),
         (dlmm_base + DLMM_HOST_FEE_REL, True),
         (user_idx, False),
         (token_x_program_idx, False),
         (token_y_program_idx, False),
         (dlmm_base + DLMM_MEMO_REL, False),
         (dlmm_base + DLMM_EVENT_AUTH_REL, False),
         (dlmm_base + DLMM_PROGRAM_REL, False)]
        @ map (\<lambda>i. (dlmm_base + DLMM_BIN_ARRAYS_START_REL + i, True)) [0..<bin_array_count])) (\<lambda>meta.
     and_then (idx accounts (dlmm_base + DLMM_PROGRAM_REL)) (\<lambda>prog.
       Ok \<lparr>ix_program_id = acc_key prog,
           ix_accounts = meta,
           ix_data = DLMM_SWAP2_DISC @ u64_to_le amount_in @ u64_to_le 1 @ u32_to_le 0\<rparr>))"

section \<open>Raydium CPMM\<close>

definition build_cpmm_swap :: "account_info list \<Rightarrow> nat \<Rightarrow> u64 \<Rightarrow> u64 \<Rightarrow> nat \<Rightarrow> nat \<Rightarrow> nat \<Rightarrow> nat
    \<Rightarrow> nat \<Rightarrow> nat \<Rightarrow> nat \<Rightarrow> nat \<Rightarrow> instruction result" where
  "build_cpmm_swap accounts cpmm_base amount_in min_amount_out payer_idx input_mint_idx
      output_mint_idx input_ata_idx output_ata_idx input_token_prog_idx output_token_prog_idx
      memo_program_idx =
     and_then (push_all accounts
        [(payer_idx, True),
         (cpmm_base + 1, False),
         (cpmm_base + 2, False),
         (cpmm_base + 3, True),
         (input_ata_idx, True),
         (output_ata_idx, True),
         (cpmm_base + 6, True),
         (cpmm_base + 7, True),
         (input_mint_idx, False),
         (output_mint_idx, False),
         (input_token_prog_idx, False),
         (output_token_prog_idx, False),
         (memo_program_idx, False)]) (\<lambda>meta.
     and_then (idx accounts cpmm_base) (\<lambda>prog.
       Ok \<lparr>ix_program_id = acc_key prog,
           ix_accounts = meta,
           ix_data = CPMM_SWAP_DISC @ u64_to_le amount_in @ u64_to_le min_amount_out\<rparr>))"

section \<open>Orca Whirlpool\<close>

text \<open>Here the flags are literal: a slot is an index, a signer flag and a writable flag.\<close>

definition flagged_meta :: "account_info list \<Rightarrow> nat \<times> bool \<times> bool \<Rightarrow> account_meta result" where
  "flagged_meta accounts slot = (case slot of (i, signer, writable) \<Rightarrow>
     and_then (idx accounts i) (\<lambda>a.
       Ok (if writable then meta_new (acc_key a) signer else meta_readonly (acc_key a) signer)))"

definition build_whirlpool_swap :: "account_info list \<Rightarrow> nat \<Rightarrow> nat \<Rightarrow> u64 \<Rightarrow> u64 \<Rightarrow> bool \<Rightarrow> nat
    \<Rightarrow> nat \<Rightarrow> nat \<Rightarrow> nat \<Rightarrow> instruction result" where
  "build_whirlpool_swap accounts whirlpool_base tick_array_count amount_in min_amount_out a_to_b
      token_prog_a_idx token_prog_b_idx input_ata_idx output_ata_idx =
     and_then (traverse (flagged_meta accounts)
       ([(token_prog_a_idx, False, False),
         (whirlpool_base + 1, True, False),
         (whirlpool_base + 2, False, True),
         (input_ata_idx, False, True),
         (whirlpool_base + 4, False, True),
         (output_ata_idx, False, True),
         (whirlpool_base + 6, False, True)]
        @ map (\<lambda>i. (whirlpool_base + 7 + i, False, True)) [0..<min tick_array_count 3]
        @ [(whirlpool_base + 10, False, False)])) (\<lambda>meta.
     and_then (idx accounts whirlpool_base) (\<lambda>prog.
       Ok \<lparr>ix_program_id = acc_key prog,
           ix_accounts = meta,
           ix_data = WHIRLPOOL_SWAP_DISC @ u64_to_le amount_in @ u64_to_le min_amount_out
             @ u128_to_le (if a_to_b then - 1 else 0) @ [1] @ [bool_byte a_to_b]\<rparr>))"

section \<open>The instruction in closed form\<close>

lemma pump_buy_slots_fst: "map fst pump_buy_slots = [0..<PUMP_BUY_FIXED_LEN]"
  by (simp add: pump_buy_slots_def upt_conv_Cons)

lemma pump_sell_slots_fst: "map fst pump_sell_slots = [0..<PUMP_SELL_FIXED_LEN]"
  by (simp add: pump_sell_slots_def upt_conv_Cons)

lemma pump_slots_range:
  "s \<in> set pump_buy_slots \<Longrightarrow> fst s < PUMP_BUY_FIXED_LEN"
  "s \<in> set pump_sell_slots \<Longrightarrow> fst s < PUMP_SELL_FIXED_LEN"
  using pump_buy_slots_fst pump_sell_slots_fst
  by (metis (no_types) atLeastLessThan_iff imageI list.set_map set_upt)+

lemma build_meta_in_range:
  assumes "\<forall>s \<in> set slots. pump_base + fst s < length accounts"
  shows "build_meta accounts pump_base slots =
    Ok (map (\<lambda>s. slot_meta accounts (pump_base + fst s, snd s)) slots)"
  using assms unfolding build_meta_def
  by (subst push_all_in_range) (auto simp: case_prod_beta)

definition pump_buy_ix :: "account_info list \<Rightarrow> nat \<Rightarrow> nat \<Rightarrow> u64 \<Rightarrow> u64 \<Rightarrow> bool \<Rightarrow> instruction" where
  "pump_buy_ix accounts base remaining amount_in min_out track_volume =
     \<lparr>ix_program_id = acc_key (accounts ! (base + PUMP_BUY_PROGRAM)),
      ix_accounts = map (\<lambda>s. slot_meta accounts (base + fst s, snd s)) pump_buy_slots
        @ map (\<lambda>i. own_meta accounts (base + PUMP_BUY_FIXED_LEN + i)) [0..<remaining],
      ix_data = PUMP_BUY_DISC @ u64_to_le amount_in @ u64_to_le min_out @ [bool_byte track_volume]\<rparr>"

definition pump_sell_ix :: "account_info list \<Rightarrow> nat \<Rightarrow> nat \<Rightarrow> u64 \<Rightarrow> u64 \<Rightarrow> instruction" where
  "pump_sell_ix accounts base remaining amount_in min_out =
     \<lparr>ix_program_id = acc_key (accounts ! (base + PUMP_SELL_PROGRAM)),
      ix_accounts = map (\<lambda>s. slot_meta accounts (base + fst s, snd s)) pump_sell_slots
        @ map (\<lambda>i. own_meta accounts (base + PUMP_SELL_FIXED_LEN + i)) [0..<remaining],
      ix_data = PUMP_SELL_DISC @ u64_to_le amount_in @ u64_to_le min_out\<rparr>"

lemma build_buy_in_range:
  assumes "base + PUMP_BUY_FIXED_LEN + remaining \<le> length accounts"
  shows "build_buy accounts base remaining amount_in min_out track None =
    Ok (pump_buy_ix accounts base remaining amount_in min_out track)"
proof -
  have "build_meta accounts base pump_buy_slots =
      Ok (map (\<lambda>s. slot_meta accounts (base + fst s, snd s)) pump_buy_slots)"
    using assms by (intro build_meta_in_range) (auto dest: pump_slots_range(1))
  then show ?thesis
    using assms
    by (simp add: build_buy_def override_base_ata_def traverse_pass_through idx_in_range pump_buy_ix_def)
qed

lemma build_sell_in_range:
  assumes "base + PUMP_SELL_FIXED_LEN + remaining \<le> length accounts"
  shows "build_sell accounts base remaining amount_in min_out None =
    Ok (pump_sell_ix accounts base remaining amount_in min_out)"
proof -
  have "build_meta accounts base pump_sell_slots =
      Ok (map (\<lambda>s. slot_meta accounts (base + fst s, snd s)) pump_sell_slots)"
    using assms by (intro build_meta_in_range) (auto dest: pump_slots_range(2))
  then show ?thesis
    using assms
    by (simp add: build_sell_def override_base_ata_def traverse_pass_through idx_in_range pump_sell_ix_def)
qed

definition dlmm_swap2_ix :: "account_info list \<Rightarrow> nat \<Rightarrow> u64 \<Rightarrow> nat \<Rightarrow> nat \<Rightarrow> nat \<Rightarrow> nat \<Rightarrow> nat \<Rightarrow> nat
    \<Rightarrow> nat \<Rightarrow> nat \<Rightarrow> instruction" where
  "dlmm_swap2_ix accounts base amount_in xm ym xp yp user tin tout bins =
     \<lparr>ix_program_id = acc_key (accounts ! base),
      ix_accounts = map (slot_meta accounts)
        ([(base + 1, True), (base + 2, True), (base + 3, True), (base + 4, True), (tin, True),
          (tout, True), (xm, False), (ym, False), (base + 5, True), (base + 6, True), (user, False),
          (xp, False), (yp, False), (base + 7, False), (base + 8, False), (base, False)]
         @ map (\<lambda>i. (base + 9 + i, True)) [0..<bins]),
      ix_data = DLMM_SWAP2_DISC @ u64_to_le amount_in @ u64_to_le 1 @ u32_to_le 0\<rparr>"

lemma build_swap2_in_range:
  assumes "base + DLMM_FIXED_LEN + bins \<le> length accounts"
    and "\<forall>i \<in> {xm, ym, xp, yp, user, tin, tout}. i < length accounts"
  shows "build_swap2 accounts base amount_in xm ym xp yp user tin tout bins =
    Ok (dlmm_swap2_ix accounts base amount_in xm ym xp yp user tin tout bins)"
  using assms by (simp add: build_swap2_def push_all_in_range idx_in_range dlmm_swap2_ix_def)

definition cpmm_swap_ix :: "account_info list \<Rightarrow> nat \<Rightarrow> u64 \<Rightarrow> u64 \<Rightarrow> nat \<Rightarrow> nat \<Rightarrow> nat \<Rightarrow> nat
    \<Rightarrow> nat \<Rightarrow> nat \<Rightarrow> nat \<Rightarrow> nat \<Rightarrow> instruction" where
  "cpmm_swap_ix accounts base amount_in min_out payer im om ia oa ip op memo =
     \<lparr>ix_program_id = acc_key (accounts ! base),
      ix_accounts = map (slot_meta accounts)
        [(payer, True), (base + 1, False), (base + 2, False), (base + 3, True), (ia, True),
         (oa, True), (base + 6, True), (base + 7, True), (im, False), (om, False), (ip, False),
         (op, False), (memo, False)],
      ix_data = CPMM_SWAP_DISC @ u64_to_le amount_in @ u64_to_le min_out\<rparr>"

lemma build_cpmm_swap_in_range:
  assumes "base + 13 \<le> length accounts"
    and "\<forall>i \<in> {payer, im, om, ia, oa, ip, op, memo}. i < length accounts"
  shows "build_cpmm_swap accounts base amount_in min_out payer im om ia oa ip op memo =
    Ok (cpmm_swap_ix accounts base amount_in min_out payer im om ia oa ip op memo)"
  using assms by (simp add: build_cpmm_swap_def push_all_in_range idx_in_range cpmm_swap_ix_def)

definition whirlpool_swap_ix :: "account_info list \<Rightarrow> nat \<Rightarrow> nat \<Rightarrow> u64 \<Rightarrow> u64 \<Rightarrow> bool \<Rightarrow> nat
    \<Rightarrow> nat \<Rightarrow> nat \<Rightarrow> instruction" where
  "whirlpool_swap_ix accounts base ticks amount_in min_out a_to_b tp ia oa =
     \<lparr>ix_program_id = acc_key (accounts ! base),
      ix_accounts = map (\<lambda>(i, s, w). \<lparr>meta_pubkey = acc_key (accounts ! i), meta_is_signer = s,
          meta_is_writable = w\<rparr>)
        ([(tp, False, False), (base + 1, True, False), (base + 2, False, True), (ia, False, True),
          (base + 4, False, True), (oa, False, True), (base + 6, False, True)]
         @ map (\<lambda>i. (base + 7 + i, False, True)) [0..<min ticks 3] @ [(base + 10, False, False)]),
      ix_data = WHIRLPOOL_SWAP_DISC @ u64_to_le amount_in @ u64_to_le min_out
        @ u128_to_le (if a_to_b then - 1 else 0) @ [1] @ [bool_byte a_to_b]\<rparr>"

lemma flagged_meta_in_range:
  "fst slot < length accounts \<Longrightarrow> flagged_meta accounts slot =
     Ok ((\<lambda>(i, s, w). \<lparr>meta_pubkey = acc_key (accounts ! i), meta_is_signer = s,
          meta_is_writable = w\<rparr>) slot)"
  by (cases slot) (simp add: flagged_meta_def idx_in_range meta_new_def meta_readonly_def)

lemma build_whirlpool_swap_in_range:
  assumes "base + 12 \<le> length accounts"
    and "\<forall>i \<in> {tp, ia, oa}. i < length accounts"
  shows "build_whirlpool_swap accounts base ticks amount_in min_out a_to_b tp tp' ia oa =
    Ok (whirlpool_swap_ix accounts base ticks amount_in min_out a_to_b tp ia oa)"
  using assms unfolding build_whirlpool_swap_def
  by (subst traverse_map [OF flagged_meta_in_range]) (auto simp: idx_in_range whirlpool_swap_ix_def)

end
