(* ===== verification/Dex_Sections.thy ===== *)
theory Dex_Sections
  imports Cpi_Builders
begin

text \<open>
  The DEX handlers of \<open>programs/arbitrage/src/instructions/dex_*.rs\<close>: the fixed length of
  each section, its validator and its thin wrapper around the instruction builder. Program
  addresses come from the parameter \<open>pda\<close> (\<open>Pubkey::find_program_address\<close>). A validator is
  a list of checks in the order of the code; the first that fails is the result.
\<close>

definition TOKEN22_ID :: pubkey where
  "TOKEN22_ID = pubkey_lit ''TokenzQdBNbLqP5VEhdkAS6EPFLC1PHnBqCXEpPxuEb''"

definition require_token_program :: "account_info list \<Rightarrow> nat \<Rightarrow> unit result" where
  "require_token_program accounts i =
     and_then (idx accounts i) (\<lambda>a.
       fail_if (acc_key a \<noteq> TOKEN_ID \<and> acc_key a \<noteq> TOKEN22_ID) (arb_err ARB_BAD_PROGRAM))"

lemma require_token_program_Ok_iff [outcome_simps]:
  "require_token_program accounts i = Ok u \<longleftrightarrow>
     i < length accounts \<and> acc_key (accounts ! i) \<in> {TOKEN_ID, TOKEN22_ID}"
  by (auto simp: require_token_program_def outcome_simps)

lemma require_token_program_no_panic [no_panic]:
  "i < length accounts \<Longrightarrow> require_token_program accounts i \<noteq> Panic"
  by (simp add: require_token_program_def idx_in_range)

text \<open>A check that the key at one index is the address derived from the key at another.\<close>

definition require_derived :: "pda_fn \<Rightarrow> account_info list \<Rightarrow> nat \<Rightarrow> byte list \<Rightarrow> nat \<Rightarrow> pubkey
    \<Rightarrow> unit result" where
  "require_derived pda accounts i seed seed_account program =
     and_then (idx accounts seed_account) (\<lambda>a.
       require_key accounts i (pda [seed, key_bytes (acc_key a)] program) (arb_err ARB_BAD_PDA))"

lemma require_derived_Ok_iff [outcome_simps]:
  "require_derived pda accounts i seed j program = Ok u \<longleftrightarrow>
     i < length accounts \<and> j < length accounts \<and>
     acc_key (accounts ! i) = pda [seed, key_bytes (acc_key (accounts ! j))] program"
  by (auto simp: require_derived_def outcome_simps)

lemma require_derived_no_panic [no_panic]:
  "i < length accounts \<Longrightarrow> j < length accounts \<Longrightarrow>
   require_derived pda accounts i seed j program \<noteq> Panic"
  by (simp add: require_derived_def idx_in_range require_no_panic)

section \<open>PumpSwap\<close>

definition PUMPSWAP_BUY_FIXED_LEN :: nat where [simp]:
  "PUMPSWAP_BUY_FIXED_LEN = PUMP_BUY_FIXED_LEN"

definition PUMPSWAP_SELL_FIXED_LEN :: nat where [simp]:
  "PUMPSWAP_SELL_FIXED_LEN = PUMP_SELL_FIXED_LEN"

definition pumpswap_validate_section :: "pda_fn \<Rightarrow> account_info list \<Rightarrow> nat \<Rightarrow> nat \<Rightarrow> unit result" where
  "pumpswap_validate_section pda accounts base remaining = run_checks
     [require_key accounts (base + PUMP_BUY_PROGRAM) PUMP_SWAP_ID (arb_err ARB_BAD_PROGRAM),
      require_key accounts (base + PUMP_BUY_GLOBAL_CONFIG)
        (pda [PUMP_GLOBAL_CONFIG_SEED] PUMP_SWAP_ID) (arb_err ARB_BAD_PDA),
      require_key accounts (base + PUMP_BUY_EVENT_AUTHORITY)
        (pda [PUMP_EVENT_AUTH_SEED] PUMP_SWAP_ID) (arb_err ARB_BAD_PDA)]"

definition build_buy_cpi :: "account_info list \<Rightarrow> nat \<Rightarrow> nat \<Rightarrow> u64 \<Rightarrow> u64 \<Rightarrow> bool \<Rightarrow> nat option
    \<Rightarrow> instruction result" where
  "build_buy_cpi accounts pump_base remaining amount_in min_amount_out track_volume
      meme_ata_override =
     build_buy accounts pump_base remaining amount_in min_amount_out track_volume meme_ata_override"

definition build_sell_cpi :: "account_info list \<Rightarrow> nat \<Rightarrow> nat \<Rightarrow> u64 \<Rightarrow> u64 \<Rightarrow> nat option
    \<Rightarrow> instruction result" where
  "build_sell_cpi accounts pump_base remaining amount_in min_amount_out meme_ata_override =
     build_sell accounts pump_base remaining amount_in min_amount_out meme_ata_override"

section \<open>DLMM\<close>

text \<open>The handler's own fixed length (13), not the constant of the legacy routes (9).\<close>

definition DLMM_SECTION_FIXED_LEN :: nat where [simp]: "DLMM_SECTION_FIXED_LEN = 13"
definition DLMM_TOKEN_X_MINT_OFF :: nat where [simp]: "DLMM_TOKEN_X_MINT_OFF = 9"
definition DLMM_TOKEN_Y_MINT_OFF :: nat where [simp]: "DLMM_TOKEN_Y_MINT_OFF = 10"
definition DLMM_TOKEN_X_PROG_OFF :: nat where [simp]: "DLMM_TOKEN_X_PROG_OFF = 11"
definition DLMM_TOKEN_Y_PROG_OFF :: nat where [simp]: "DLMM_TOKEN_Y_PROG_OFF = 12"

definition dlmm_validate_section :: "pda_fn \<Rightarrow> account_info list \<Rightarrow> nat \<Rightarrow> nat \<Rightarrow> unit result" where
  "dlmm_validate_section pda accounts base remaining = run_checks
     [fail_if (remaining < 1 \<or> remaining > 6) (arb_err ARB_BAD_ACCOUNT_COUNT),
      require_key accounts (base + DLMM_PROGRAM_REL) DLMM_ID (arb_err ARB_BAD_PROGRAM),
      require_owner accounts (base + DLMM_LB_PAIR_REL) DLMM_ID (arb_err ARB_BAD_PROGRAM),
      require_derived pda accounts (base + DLMM_ORACLE_REL) DLMM_ORACLE_SEED
        (base + DLMM_LB_PAIR_REL) DLMM_ID,
      require_key accounts (base + DLMM_MEMO_REL) MEMO_ID (arb_err ARB_BAD_PROGRAM),
      require_key accounts (base + DLMM_EVENT_AUTH_REL) DLMM_EVENT_AUTH (arb_err ARB_BAD_PROGRAM)]"

definition build_swap2_cpi :: "account_info list \<Rightarrow> nat \<Rightarrow> u64 \<Rightarrow> nat \<Rightarrow> nat \<Rightarrow> nat \<Rightarrow> nat \<Rightarrow> nat
    \<Rightarrow> nat \<Rightarrow> nat \<Rightarrow> nat \<Rightarrow> instruction result" where
  "build_swap2_cpi accounts dlmm_base amount_in token_x_mint_idx token_y_mint_idx
      token_x_program_idx token_y_program_idx user_idx user_token_in_idx user_token_out_idx
      bin_array_count =
     build_swap2 accounts dlmm_base amount_in token_x_mint_idx token_y_mint_idx
       token_x_program_idx token_y_program_idx user_idx user_token_in_idx user_token_out_idx
       bin_array_count"

section \<open>Raydium CPMM\<close>

definition CPMM_SECTION_FIXED_LEN :: nat where [simp]: "CPMM_SECTION_FIXED_LEN = 13"

text \<open>The look at \<open>amm_config\<close> has an empty body: it reads the slot and accepts any key.\<close>

definition cpmm_validate_section :: "pda_fn \<Rightarrow> account_info list \<Rightarrow> nat \<Rightarrow> nat \<Rightarrow> unit result" where
  "cpmm_validate_section pda accounts cpmm_base remaining_count = run_checks
     [require_key accounts cpmm_base CPMM_ID (arb_err ARB_BAD_PROGRAM),
      and_then (idx accounts (cpmm_base + 2)) (\<lambda>_. Ok ()),
      and_then (idx accounts (cpmm_base + 10)) (\<lambda>_. and_then (idx accounts (cpmm_base + 11)) (\<lambda>_. Ok ())),
      require_token_program accounts (cpmm_base + 10),
      require_token_program accounts (cpmm_base + 11),
      require_key accounts (cpmm_base + 12) MEMO_ID (arb_err ARB_BAD_PROGRAM),
      require_derived pda accounts (cpmm_base + 1) CPMM_AUTH_SEED (cpmm_base + 3) CPMM_ID,
      require_owner accounts (cpmm_base + 3) CPMM_ID (arb_err ARB_BAD_PROGRAM)]"

definition cpmm_build_swap_cpi :: "account_info list \<Rightarrow> nat \<Rightarrow> u64 \<Rightarrow> u64 \<Rightarrow> nat \<Rightarrow> nat \<Rightarrow> nat
    \<Rightarrow> nat \<Rightarrow> nat \<Rightarrow> nat \<Rightarrow> nat \<Rightarrow> nat \<Rightarrow> instruction result" where
  "cpmm_build_swap_cpi accounts cpmm_base amount_in min_amount_out payer_idx input_mint_idx
      output_mint_idx input_ata_idx output_ata_idx input_token_prog_idx output_token_prog_idx
      memo_program_idx =
     build_cpmm_swap accounts cpmm_base amount_in min_amount_out payer_idx input_mint_idx
       output_mint_idx input_ata_idx output_ata_idx input_token_prog_idx output_token_prog_idx
       memo_program_idx"

section \<open>Orca Whirlpool\<close>

definition WHIRLPOOL_SECTION_FIXED_LEN :: nat where [simp]: "WHIRLPOOL_SECTION_FIXED_LEN = 12"
definition WHIRLPOOL_TOKEN_PROG_OFF :: nat where [simp]: "WHIRLPOOL_TOKEN_PROG_OFF = 11"

definition whirlpool_validate_section :: "pda_fn \<Rightarrow> account_info list \<Rightarrow> nat \<Rightarrow> nat \<Rightarrow> unit result" where
  "whirlpool_validate_section pda accounts whirlpool_base tick_array_count = run_checks
     [require_key accounts whirlpool_base WHIRLPOOL_ID (arb_err ARB_BAD_PROGRAM),
      fail_if (tick_array_count < 1 \<or> tick_array_count > 3) (arb_err ARB_BAD_ACCOUNT_COUNT),
      require_key accounts (whirlpool_base + 1) (pda [WHIRLPOOL_AUTH_SEED] WHIRLPOOL_ID)
        (arb_err ARB_BAD_PDA),
      require_owner accounts (whirlpool_base + 2) WHIRLPOOL_ID (arb_err ARB_BAD_PROGRAM),
      require_derived pda accounts (whirlpool_base + 10) (byte_string ''oracle'')
        (whirlpool_base + 2) WHIRLPOOL_ID,
      require_token_program accounts (whirlpool_base + 11)]"

definition whirlpool_build_swap_cpi :: "account_info list \<Rightarrow> nat \<Rightarrow> nat \<Rightarrow> u64 \<Rightarrow> u64 \<Rightarrow> bool \<Rightarrow> nat
    \<Rightarrow> nat \<Rightarrow> nat \<Rightarrow> nat \<Rightarrow> instruction result" where
  "whirlpool_build_swap_cpi accounts whirlpool_base tick_array_count amount_in min_amount_out a_to_b
      token_prog_a_idx token_prog_b_idx input_ata_idx output_ata_idx =
     build_whirlpool_swap accounts whirlpool_base tick_array_count amount_in min_amount_out a_to_b
       token_prog_a_idx token_prog_b_idx input_ata_idx output_ata_idx"

lemmas cpi_wrapper_defs =
  build_buy_cpi_def build_sell_cpi_def build_swap2_cpi_def cpmm_build_swap_cpi_def
  whirlpool_build_swap_cpi_def

section \<open>The validators inside the account list\<close>

text \<open>What a section that passed its validator is known to hold.\<close>

lemma pumpswap_validate_Ok_iff:
  "pumpswap_validate_section pda accounts base n = Ok u \<longleftrightarrow>
     base + 16 < length accounts \<and>
     acc_key (accounts ! (base + 16)) = PUMP_SWAP_ID \<and>
     acc_key (accounts ! (base + 2)) = pda [PUMP_GLOBAL_CONFIG_SEED] PUMP_SWAP_ID \<and>
     acc_key (accounts ! (base + 15)) = pda [PUMP_EVENT_AUTH_SEED] PUMP_SWAP_ID"
  by (auto simp: pumpswap_validate_section_def outcome_simps)

lemma dlmm_validate_Ok_iff:
  "dlmm_validate_section pda accounts base n = Ok u \<longleftrightarrow>
     1 \<le> n \<and> n \<le> 6 \<and> base + 8 < length accounts \<and>
     acc_key (accounts ! base) = DLMM_ID \<and>
     acc_owner (accounts ! (base + 1)) = DLMM_ID \<and>
     acc_key (accounts ! (base + 5)) =
       pda [DLMM_ORACLE_SEED, key_bytes (acc_key (accounts ! (base + 1)))] DLMM_ID \<and>
     acc_key (accounts ! (base + 7)) = MEMO_ID \<and>
     acc_key (accounts ! (base + 8)) = DLMM_EVENT_AUTH"
  by (auto simp: dlmm_validate_section_def outcome_simps)

lemma cpmm_validate_Ok_iff:
  "cpmm_validate_section pda accounts base n = Ok u \<longleftrightarrow>
     base + 12 < length accounts \<and>
     acc_key (accounts ! base) = CPMM_ID \<and>
     acc_key (accounts ! (base + 10)) \<in> {TOKEN_ID, TOKEN22_ID} \<and>
     acc_key (accounts ! (base + 11)) \<in> {TOKEN_ID, TOKEN22_ID} \<and>
     acc_key (accounts ! (base + 12)) = MEMO_ID \<and>
     acc_key (accounts ! (base + 1)) =
       pda [CPMM_AUTH_SEED, key_bytes (acc_key (accounts ! (base + 3)))] CPMM_ID \<and>
     acc_owner (accounts ! (base + 3)) = CPMM_ID"
  by (auto simp: cpmm_validate_section_def outcome_simps)

lemma whirlpool_validate_Ok_iff:
  "whirlpool_validate_section pda accounts base n = Ok u \<longleftrightarrow>
     1 \<le> n \<and> n \<le> 3 \<and> base + 11 < length accounts \<and>
     acc_key (accounts ! base) = WHIRLPOOL_ID \<and>
     acc_key (accounts ! (base + 1)) = pda [WHIRLPOOL_AUTH_SEED] WHIRLPOOL_ID \<and>
     acc_owner (accounts ! (base + 2)) = WHIRLPOOL_ID \<and>
     acc_key (accounts ! (base + 10)) =
       pda [byte_string ''oracle'', key_bytes (acc_key (accounts ! (base + 2)))] WHIRLPOOL_ID \<and>
     acc_key (accounts ! (base + 11)) \<in> {TOKEN_ID, TOKEN22_ID}"
  by (auto simp: whirlpool_validate_section_def outcome_simps)

text \<open>Inside the account list no validator can panic.\<close>

lemma pumpswap_validate_no_panic [no_panic]:
  "base + PUMPSWAP_BUY_FIXED_LEN \<le> length accounts \<Longrightarrow>
   pumpswap_validate_section pda accounts base n \<noteq> Panic"
  unfolding pumpswap_validate_section_def
  by (rule run_checks_no_panic) (simp add: no_panic)

lemma dlmm_validate_no_panic [no_panic]:
  "base + DLMM_SECTION_FIXED_LEN \<le> length accounts \<Longrightarrow>
   dlmm_validate_section pda accounts base n \<noteq> Panic"
  unfolding dlmm_validate_section_def
  by (rule run_checks_no_panic) (simp add: no_panic)

lemma cpmm_validate_no_panic [no_panic]:
  "base + CPMM_SECTION_FIXED_LEN \<le> length accounts \<Longrightarrow>
   cpmm_validate_section pda accounts base n \<noteq> Panic"
  unfolding cpmm_validate_section_def
  by (rule run_checks_no_panic) (simp add: no_panic idx_in_range)

lemma whirlpool_validate_no_panic [no_panic]:
  "base + WHIRLPOOL_SECTION_FIXED_LEN \<le> length accounts \<Longrightarrow>
   whirlpool_validate_section pda accounts base n \<noteq> Panic"
  unfolding whirlpool_validate_section_def
  by (rule run_checks_no_panic) (simp add: no_panic)

end
