(* ===== verification/Orchestrate.thy ===== *)
theory Orchestrate
  imports Route_Guard Dex_Sections
begin

text \<open>
  The generic two-leg route, \<open>programs/arbitrage/src/instructions/orchestrate.rs\<close>: it finds
  the two DEXes by the program ids in the account list, validates their sections and runs the
  buy and the sell inside the balance bracket of \<open>Route_Guard\<close>. The four DEX handlers are used
  through one interface, the locale \<open>dex_section\<close>.
\<close>

section \<open>DEX kinds\<close>

datatype dex_kind = PumpSwap | Dlmm | Cpmm | Whirlpool

fun fixed_len :: "dex_kind \<Rightarrow> nat" where
  "fixed_len PumpSwap = PUMPSWAP_BUY_FIXED_LEN"
| "fixed_len Dlmm = DLMM_SECTION_FIXED_LEN"
| "fixed_len Cpmm = CPMM_SECTION_FIXED_LEN"
| "fixed_len Whirlpool = WHIRLPOOL_SECTION_FIXED_LEN"

definition from_program_id :: "pubkey \<Rightarrow> dex_kind option" where
  "from_program_id pid =
     (if pid = PUMP_SWAP_ID then Some PumpSwap
      else if pid = DLMM_ID then Some Dlmm
      else if pid = CPMM_ID then Some Cpmm
      else if pid = WHIRLPOOL_ID then Some Whirlpool
      else None)"

definition identify_dex :: "account_info list \<Rightarrow> nat \<Rightarrow> dex_kind option" where
  "identify_dex accounts base =
     (if base \<ge> length accounts then None
      else case from_program_id (acc_key (accounts ! base)) of
        Some kind \<Rightarrow> Some kind
      | None \<Rightarrow>
          (let probe = base + 16 in
           if probe \<ge> length accounts then None
           else case from_program_id (acc_key (accounts ! probe)) of
             Some kind \<Rightarrow> Some kind
           | None \<Rightarrow> None))"

fun validate_dex_section :: "pda_fn \<Rightarrow> account_info list \<Rightarrow> dex_kind \<Rightarrow> nat \<Rightarrow> nat \<Rightarrow> unit result" where
  "validate_dex_section pda accounts PumpSwap base remaining = pumpswap_validate_section pda accounts base remaining"
| "validate_dex_section pda accounts Dlmm base remaining = dlmm_validate_section pda accounts base remaining"
| "validate_dex_section pda accounts Cpmm base remaining = cpmm_validate_section pda accounts base remaining"
| "validate_dex_section pda accounts Whirlpool base remaining = whirlpool_validate_section pda accounts base remaining"

section \<open>The two legs\<close>

fun execute_buy_leg :: "cpi_fn \<Rightarrow> account_info list \<Rightarrow> dex_kind \<Rightarrow> nat \<Rightarrow> nat \<Rightarrow> u64 \<Rightarrow> u64 \<Rightarrow> bool
    \<Rightarrow> ledger \<Rightarrow> ledger result" where
  "execute_buy_leg cpi accounts PumpSwap base remaining amount_in min_meme_out sol_is_input l =
     and_then (build_buy_cpi accounts base remaining amount_in min_meme_out False None) (\<lambda>ix.
       invoke_or cpi (arb_err ARB_PUMP_CPI_FAILED) ix accounts l)"
| "execute_buy_leg cpi accounts Dlmm base remaining amount_in min_meme_out sol_is_input l =
     and_then (build_swap2_cpi accounts base amount_in
         (base + DLMM_TOKEN_X_MINT_OFF) (base + DLMM_TOKEN_Y_MINT_OFF)
         (base + DLMM_TOKEN_X_PROG_OFF) (base + DLMM_TOKEN_Y_PROG_OFF)
         USER_IDX USER_SOL_ATA_IDX USER_MEME_ATA_IDX remaining) (\<lambda>ix.
       invoke_or cpi (arb_err ARB_DLMM_CPI_FAILED) ix accounts l)"
| "execute_buy_leg cpi accounts Cpmm base remaining amount_in min_meme_out sol_is_input l =
     and_then (cpmm_build_swap_cpi accounts base amount_in min_meme_out USER_IDX (base + 8) (base + 9)
         USER_SOL_ATA_IDX USER_MEME_ATA_IDX (base + 10) (base + 11) (base + 12)) (\<lambda>ix.
       invoke_or cpi (arb_err ARB_CPMM_CPI_FAILED) ix accounts l)"
| "execute_buy_leg cpi accounts Whirlpool base remaining amount_in min_meme_out sol_is_input l =
     and_then (whirlpool_build_swap_cpi accounts base remaining amount_in min_meme_out True
         (base + WHIRLPOOL_TOKEN_PROG_OFF) (base + WHIRLPOOL_TOKEN_PROG_OFF)
         USER_SOL_ATA_IDX USER_MEME_ATA_IDX) (\<lambda>ix.
       invoke_or cpi (arb_err ARB_WHIRLPOOL_CPI_FAILED) ix accounts l)"

fun execute_sell_leg :: "cpi_fn \<Rightarrow> account_info list \<Rightarrow> dex_kind \<Rightarrow> nat \<Rightarrow> nat \<Rightarrow> u64 \<Rightarrow> u64 \<Rightarrow> bool
    \<Rightarrow> ledger \<Rightarrow> ledger result" where
  "execute_sell_leg cpi accounts PumpSwap base remaining amount_in min_sol_out sol_is_output l =
     and_then (build_sell_cpi accounts base remaining amount_in min_sol_out None) (\<lambda>ix.
       invoke_or cpi (arb_err ARB_PUMP_CPI_FAILED) ix accounts l)"
| "execute_sell_leg cpi accounts Dlmm base remaining amount_in min_sol_out sol_is_output l =
     and_then (build_swap2_cpi accounts base amount_in
         (base + DLMM_TOKEN_X_MINT_OFF) (base + DLMM_TOKEN_Y_MINT_OFF)
         (base + DLMM_TOKEN_X_PROG_OFF) (base + DLMM_TOKEN_Y_PROG_OFF)
         USER_IDX USER_MEME_ATA_IDX USER_SOL_ATA_IDX remaining) (\<lambda>ix.
       invoke_or cpi (arb_err ARB_DLMM_CPI_FAILED) ix accounts l)"
| "execute_sell_leg cpi accounts Cpmm base remaining amount_in min_sol_out sol_is_output l =
     and_then (cpmm_build_swap_cpi accounts base amount_in min_sol_out USER_IDX (base + 8) (base + 9)
         USER_MEME_ATA_IDX USER_SOL_ATA_IDX (base + 10) (base + 11) (base + 12)) (\<lambda>ix.
       invoke_or cpi (arb_err ARB_CPMM_CPI_FAILED) ix accounts l)"
| "execute_sell_leg cpi accounts Whirlpool base remaining amount_in min_sol_out sol_is_output l =
     and_then (whirlpool_build_swap_cpi accounts base remaining amount_in min_sol_out False
         (base + WHIRLPOOL_TOKEN_PROG_OFF) (base + WHIRLPOOL_TOKEN_PROG_OFF)
         USER_MEME_ATA_IDX USER_SOL_ATA_IDX) (\<lambda>ix.
       invoke_or cpi (arb_err ARB_WHIRLPOOL_CPI_FAILED) ix accounts l)"

section \<open>The handler\<close>

definition orchestrate_handle :: "pda_fn \<Rightarrow> cpi_fn \<Rightarrow> handler" where
  "orchestrate_handle pda cpi accounts data l =
     and_then (parse_ix data) (\<lambda>ix.
     let buy_is_sol = rx_sol_is_x ix;
         buy_remaining = rx_first_count ix;
         sell_remaining = rx_second_count ix in
     if rx_amount_in ix = 0 \<or> rx_min_profit ix = 0 then Err (arb_err ARB_ZERO_AMOUNT)
     else let buy_base = SHARED_FIXED_LEN in
     and_then (ok_or (identify_dex accounts buy_base) (arb_err ARB_UNKNOWN_DEX_PAIR)) (\<lambda>buy_kind.
     let buy_dex_len = fixed_len buy_kind + buy_remaining;
         sell_base = buy_base + buy_dex_len in
     and_then (ok_or (identify_dex accounts sell_base) (arb_err ARB_UNKNOWN_DEX_PAIR)) (\<lambda>sell_kind.
     if buy_kind = sell_kind then Err (arb_err ARB_UNKNOWN_DEX_PAIR)
     else let expected = sell_base + fixed_len sell_kind + sell_remaining in
     if length accounts < expected then Err (arb_err ARB_BAD_ACCOUNT_COUNT)
     else
     and_then (require_signer accounts USER_IDX) (\<lambda>_.
     and_then (validate_dex_section pda accounts buy_kind buy_base buy_remaining) (\<lambda>_.
     and_then (validate_dex_section pda accounts sell_kind sell_base sell_remaining) (\<lambda>_.
       two_leg accounts (rx_min_profit ix)
         (execute_buy_leg cpi accounts buy_kind buy_base buy_remaining (rx_amount_in ix)
            (rx_min_intermediate ix) buy_is_sol)
         (\<lambda>meme_received. execute_sell_leg cpi accounts sell_kind sell_base sell_remaining
            meme_received 1 buy_is_sol) l))))))"

section \<open>The interface of a DEX handler\<close>

text \<open>
  \<open>spends\<close> reads the amount out of the instruction data: all four DEXes carry it after the
  eight bytes of their discriminator. A leg is an instruction builder with the laws the route
  needs: inside the account list it does not panic, the instruction is addressed to the program
  found in the section and it spends what it was asked to. A section is a validator that pins
  the program, with its two legs.
\<close>

definition spends :: "instruction \<Rightarrow> u64 \<Rightarrow> bool" where
  "spends ix amount \<longleftrightarrow> u64_from_le (take 8 (drop 8 (ix_data ix))) = amount"

type_synonym leg_builder = "account_info list \<Rightarrow> nat \<Rightarrow> nat \<Rightarrow> u64 \<Rightarrow> u64 \<Rightarrow> instruction result"

locale dex_leg =
  fixes fixed :: nat
    and program_at :: nat
    and build :: leg_builder
  assumes built: "3 \<le> length accounts \<Longrightarrow> base + fixed + n \<le> length accounts \<Longrightarrow>
    \<exists>ix. build accounts base n amount min_out = Ok ix \<and>
         ix_program_id ix = acc_key (accounts ! (base + program_at)) \<and> spends ix amount"
begin

lemma leg_no_panic:
  assumes "3 \<le> length accounts" and "base + fixed + n \<le> length accounts"
  shows "and_then (build accounts base n amount min_out) (\<lambda>ix. invoke_or cpi err ix accounts l) \<noteq> Panic"
  using built [OF assms, of amount min_out] by auto

lemma leg_invokes:
  assumes "and_then (build accounts base n amount min_out) (\<lambda>ix. invoke_or cpi err ix accounts l) = Ok l'"
    and "3 \<le> length accounts" and "base + fixed + n \<le> length accounts"
  shows "\<exists>ix. ix_program_id ix = acc_key (accounts ! (base + program_at)) \<and> spends ix amount \<and>
    cpi ix accounts l = Inr l'"
  using built [OF assms(2,3), of amount min_out] assms(1) by (auto simp: invoke_or_Ok_iff)

lemma leg_fails:
  assumes "and_then (build accounts base n amount min_out) (\<lambda>ix. invoke_or cpi err ix accounts l) = Err e"
    and "3 \<le> length accounts" and "base + fixed + n \<le> length accounts"
  shows "e = err"
  using built [OF assms(2,3), of amount min_out] assms(1)
  by (auto simp: invoke_or_def split: sum.splits)

end

locale dex_section = buy: dex_leg fixed program_at buy + sell: dex_leg fixed program_at sell
  for fixed :: nat and program_at :: nat and buy :: leg_builder and sell :: leg_builder +
  fixes program :: pubkey
    and validate :: "account_info list \<Rightarrow> nat \<Rightarrow> nat \<Rightarrow> unit result"
  assumes validate_total: "base + fixed \<le> length accounts \<Longrightarrow> validate accounts base n \<noteq> Panic"
    and validate_program:
      "validate accounts base n = Ok u \<Longrightarrow> acc_key (accounts ! (base + program_at)) = program"
begin

lemma buy_own_program:
  assumes "validate accounts base n = Ok u"
    and "and_then (buy accounts base n amount m) (\<lambda>ix. invoke_or cpi err ix accounts l) = Ok l'"
    and "3 \<le> length accounts" and "base + fixed + n \<le> length accounts"
  shows "\<exists>ix. ix_program_id ix = program \<and> spends ix amount \<and> cpi ix accounts l = Inr l'"
  using buy.leg_invokes [OF assms(2-4)] validate_program [OF assms(1)] by simp

lemma sell_own_program:
  assumes "validate accounts base n = Ok u"
    and "and_then (sell accounts base n amount m) (\<lambda>ix. invoke_or cpi err ix accounts l) = Ok l'"
    and "3 \<le> length accounts" and "base + fixed + n \<le> length accounts"
  shows "\<exists>ix. ix_program_id ix = program \<and> spends ix amount \<and> cpi ix accounts l = Inr l'"
  using sell.leg_invokes [OF assms(2-4)] validate_program [OF assms(1)] by simp

end

lemma spends_data [simp]:
  "length d = 8 \<Longrightarrow> spends \<lparr>ix_program_id = p, ix_accounts = ms, ix_data = d @ u64_to_le a @ rest\<rparr> b
     \<longleftrightarrow> a = b"
  by (simp add: spends_def)

definition pumpswap_buy :: leg_builder where
  "pumpswap_buy accounts base n amount m = build_buy_cpi accounts base n amount m False None"

definition pumpswap_sell :: leg_builder where
  "pumpswap_sell accounts base n amount m = build_sell_cpi accounts base n amount m None"

definition dlmm_trade :: "nat \<Rightarrow> nat \<Rightarrow> leg_builder" where
  "dlmm_trade tin tout accounts base n amount m =
     build_swap2_cpi accounts base amount (base + 9) (base + 10) (base + 11) (base + 12) 0 tin tout n"

definition cpmm_trade :: "nat \<Rightarrow> nat \<Rightarrow> leg_builder" where
  "cpmm_trade tin tout accounts base n amount m =
     cpmm_build_swap_cpi accounts base amount m 0 (base + 8) (base + 9) tin tout
       (base + 10) (base + 11) (base + 12)"

definition whirlpool_trade :: "bool \<Rightarrow> nat \<Rightarrow> nat \<Rightarrow> leg_builder" where
  "whirlpool_trade a_to_b tin tout accounts base n amount m =
     whirlpool_build_swap_cpi accounts base n amount m a_to_b (base + 11) (base + 11) tin tout"

lemma dlmm_trade_in_range:
  "base + 13 + n \<le> length accounts \<Longrightarrow> tin < length accounts \<Longrightarrow> tout < length accounts \<Longrightarrow>
   dlmm_trade tin tout accounts base n amount m =
     Ok (dlmm_swap2_ix accounts base amount (base + 9) (base + 10) (base + 11) (base + 12) 0 tin tout n)"
  unfolding dlmm_trade_def cpi_wrapper_defs by (rule build_swap2_in_range) auto

lemma cpmm_trade_in_range:
  "base + 13 + n \<le> length accounts \<Longrightarrow> tin < length accounts \<Longrightarrow> tout < length accounts \<Longrightarrow>
   cpmm_trade tin tout accounts base n amount m =
     Ok (cpmm_swap_ix accounts base amount m 0 (base + 8) (base + 9) tin tout
       (base + 10) (base + 11) (base + 12))"
  unfolding cpmm_trade_def cpi_wrapper_defs by (rule build_cpmm_swap_in_range) auto

lemma whirlpool_trade_in_range:
  "base + 12 + n \<le> length accounts \<Longrightarrow> tin < length accounts \<Longrightarrow> tout < length accounts \<Longrightarrow>
   whirlpool_trade d tin tout accounts base n amount m =
     Ok (whirlpool_swap_ix accounts base n amount m d (base + 11) tin tout)"
  unfolding whirlpool_trade_def cpi_wrapper_defs by (rule build_whirlpool_swap_in_range) auto

interpretation pumpswap: dex_section 23 16 pumpswap_buy pumpswap_sell PUMP_SWAP_ID
  "pumpswap_validate_section pda" for pda
proof unfold_locales
  fix accounts :: "account_info list" and base n :: nat and amount m :: u64 and u :: unit
  show "\<exists>ix. pumpswap_buy accounts base n amount m = Ok ix \<and>
      ix_program_id ix = acc_key (accounts ! (base + 16)) \<and> spends ix amount"
    if "base + 23 + n \<le> length accounts"
    using that by (simp add: pumpswap_buy_def cpi_wrapper_defs build_buy_in_range pump_buy_ix_def)
  show "\<exists>ix. pumpswap_sell accounts base n amount m = Ok ix \<and>
      ix_program_id ix = acc_key (accounts ! (base + 16)) \<and> spends ix amount"
    if "base + 23 + n \<le> length accounts"
    using that spends_data [of PUMP_SELL_DISC _ _ amount "u64_to_le m"]
    by (simp add: pumpswap_sell_def cpi_wrapper_defs build_sell_in_range pump_sell_ix_def)
qed (simp_all add: pumpswap_validate_no_panic pumpswap_validate_Ok_iff)

interpretation dlmm: dex_section 13 0 "dlmm_trade 1 2" "dlmm_trade 2 1" DLMM_ID
  "dlmm_validate_section pda" for pda
  by unfold_locales
    (simp_all add: dlmm_trade_in_range dlmm_swap2_ix_def
      dlmm_validate_no_panic dlmm_validate_Ok_iff)

interpretation cpmm: dex_section 13 0 "cpmm_trade 1 2" "cpmm_trade 2 1" CPMM_ID
  "cpmm_validate_section pda" for pda
  by unfold_locales
    (simp_all add: cpmm_trade_in_range cpmm_swap_ix_def
      cpmm_validate_no_panic cpmm_validate_Ok_iff)

interpretation whirlpool: dex_section 12 0 "whirlpool_trade True 1 2" "whirlpool_trade False 2 1"
  WHIRLPOOL_ID "whirlpool_validate_section pda" for pda
  by unfold_locales
    (simp_all add: whirlpool_trade_in_range whirlpool_swap_ix_def whirlpool_validate_no_panic whirlpool_validate_Ok_iff)

section \<open>Legs of any kind\<close>

fun dex_program :: "dex_kind \<Rightarrow> pubkey" where
  "dex_program PumpSwap = PUMP_SWAP_ID"
| "dex_program Dlmm = DLMM_ID"
| "dex_program Cpmm = CPMM_ID"
| "dex_program Whirlpool = WHIRLPOOL_ID"

fun cpi_failed :: "dex_kind \<Rightarrow> program_error" where
  "cpi_failed PumpSwap = arb_err ARB_PUMP_CPI_FAILED"
| "cpi_failed Dlmm = arb_err ARB_DLMM_CPI_FAILED"
| "cpi_failed Cpmm = arb_err ARB_CPMM_CPI_FAILED"
| "cpi_failed Whirlpool = arb_err ARB_WHIRLPOOL_CPI_FAILED"

lemma dex_program_inj: "dex_program j = dex_program k \<longleftrightarrow> j = k"
  by (cases j; cases k) auto

lemma from_program_id_iff: "from_program_id pid = Some kind \<longleftrightarrow> pid = dex_program kind"
  by (cases kind) (auto simp: from_program_id_def)

lemma execute_legs_alt:
  "execute_buy_leg cpi accounts kind base n a m s l =
     and_then (case kind of PumpSwap \<Rightarrow> pumpswap_buy accounts base n a m
       | Dlmm \<Rightarrow> dlmm_trade 1 2 accounts base n a m
       | Cpmm \<Rightarrow> cpmm_trade 1 2 accounts base n a m
       | Whirlpool \<Rightarrow> whirlpool_trade True 1 2 accounts base n a m)
     (\<lambda>ix. invoke_or cpi (cpi_failed kind) ix accounts l)"
  "execute_sell_leg cpi accounts kind base n a m s l =
     and_then (case kind of PumpSwap \<Rightarrow> pumpswap_sell accounts base n a m
       | Dlmm \<Rightarrow> dlmm_trade 2 1 accounts base n a m
       | Cpmm \<Rightarrow> cpmm_trade 2 1 accounts base n a m
       | Whirlpool \<Rightarrow> whirlpool_trade False 2 1 accounts base n a m)
     (\<lambda>ix. invoke_or cpi (cpi_failed kind) ix accounts l)"
  by (cases kind; simp add: pumpswap_buy_def pumpswap_sell_def dlmm_trade_def cpmm_trade_def
      whirlpool_trade_def)+

lemma legs_no_panic:
  assumes "3 \<le> length accounts" and "base + fixed_len kind + n \<le> length accounts"
  shows "execute_buy_leg cpi accounts kind base n a m s l \<noteq> Panic"
    and "execute_sell_leg cpi accounts kind base n a m s l \<noteq> Panic"
  unfolding execute_legs_alt
  using assms pumpswap.buy.leg_no_panic dlmm.buy.leg_no_panic cpmm.buy.leg_no_panic
    whirlpool.buy.leg_no_panic pumpswap.sell.leg_no_panic dlmm.sell.leg_no_panic
    cpmm.sell.leg_no_panic whirlpool.sell.leg_no_panic
  by (cases kind; simp)+

lemma validate_section_no_panic:
  "base + fixed_len kind \<le> length accounts \<Longrightarrow> validate_dex_section pda accounts kind base n \<noteq> Panic"
  using pumpswap.validate_total dlmm.validate_total cpmm.validate_total whirlpool.validate_total
  by (cases kind) simp_all

lemma legs_own_program:
  assumes "validate_dex_section pda accounts kind base n = Ok u"
    and "3 \<le> length accounts" and "base + fixed_len kind + n \<le> length accounts"
  shows "execute_buy_leg cpi accounts kind base n a m s l = Ok l' \<Longrightarrow>
      \<exists>ix. ix_program_id ix = dex_program kind \<and> spends ix a \<and> cpi ix accounts l = Inr l'"
    and "execute_sell_leg cpi accounts kind base n a m s l = Ok l' \<Longrightarrow>
      \<exists>ix. ix_program_id ix = dex_program kind \<and> spends ix a \<and> cpi ix accounts l = Inr l'"
  unfolding execute_legs_alt
  using assms pumpswap.buy_own_program dlmm.buy_own_program cpmm.buy_own_program
    whirlpool.buy_own_program pumpswap.sell_own_program dlmm.sell_own_program
    cpmm.sell_own_program whirlpool.sell_own_program
  by (cases kind; simp)+

lemma legs_fail:
  assumes "3 \<le> length accounts" and "base + fixed_len kind + n \<le> length accounts"
  shows "execute_buy_leg cpi accounts kind base n a m s l = Err e \<Longrightarrow> e = cpi_failed kind"
    and "execute_sell_leg cpi accounts kind base n a m s l = Err e \<Longrightarrow> e = cpi_failed kind"
  unfolding execute_legs_alt
  using assms pumpswap.buy.leg_fails dlmm.buy.leg_fails cpmm.buy.leg_fails
    whirlpool.buy.leg_fails pumpswap.sell.leg_fails dlmm.sell.leg_fails
    cpmm.sell.leg_fails whirlpool.sell.leg_fails
  by (cases kind; simp)+

section \<open>What the handler admits\<close>

text \<open>
  The conditions of sections 1 to 5 of the handler for given kinds of the two sections; the
  sell section starts where the buy section ends.
\<close>

definition sell_base_of :: "dex_kind \<Rightarrow> route_ix \<Rightarrow> nat" where
  "sell_base_of buy_kind ix = 3 + fixed_len buy_kind + rx_first_count ix"

definition admitted :: "pda_fn \<Rightarrow> account_info list \<Rightarrow> route_ix \<Rightarrow> dex_kind \<Rightarrow> dex_kind \<Rightarrow> bool" where
  "admitted pda accounts ix bk sk \<longleftrightarrow>
     rx_amount_in ix \<noteq> 0 \<and> rx_min_profit ix \<noteq> 0 \<and>
     identify_dex accounts 3 = Some bk \<and>
     identify_dex accounts (sell_base_of bk ix) = Some sk \<and> bk \<noteq> sk \<and>
     sell_base_of bk ix + fixed_len sk + rx_second_count ix \<le> length accounts \<and>
     acc_is_signer (accounts ! 0) \<and>
     validate_dex_section pda accounts bk 3 (rx_first_count ix) = Ok () \<and>
     validate_dex_section pda accounts sk (sell_base_of bk ix) (rx_second_count ix) = Ok ()"

definition run_legs :: "cpi_fn \<Rightarrow> account_info list \<Rightarrow> route_ix \<Rightarrow> dex_kind \<Rightarrow> dex_kind \<Rightarrow> ledger
    \<Rightarrow> ledger result" where
  "run_legs cpi accounts ix bk sk l =
     two_leg accounts (rx_min_profit ix)
       (execute_buy_leg cpi accounts bk 3 (rx_first_count ix) (rx_amount_in ix)
          (rx_min_intermediate ix) (rx_sol_is_x ix))
       (\<lambda>received. execute_sell_leg cpi accounts sk (sell_base_of bk ix) (rx_second_count ix)
          received 1 (rx_sol_is_x ix)) l"

lemma admitted_room:
  assumes "admitted pda accounts ix bk sk"
  shows "3 \<le> length accounts" "3 + fixed_len bk + rx_first_count ix \<le> length accounts"
    "sell_base_of bk ix + fixed_len sk + rx_second_count ix \<le> length accounts"
  using assms by (simp_all add: admitted_def sell_base_of_def)

lemma orchestrate_Ok_iff:
  "orchestrate_handle pda cpi accounts data l = Ok l' \<longleftrightarrow>
     length data = 36 \<and>
     (\<exists>bk sk. admitted pda accounts (route_ix_of data) bk sk \<and>
        run_legs cpi accounts (route_ix_of data) bk sk l = Ok l')"
proof -
  have "accounts \<noteq> []" if "admitted pda accounts ix bk sk" for ix bk sk
    using admitted_room(1) [OF that] by auto
  then show ?thesis
    by (fastforce simp: orchestrate_handle_def Let_def outcome_simps admitted_def run_legs_def
        sell_base_of_def add.assoc not_less split: if_splits)
qed

lemma run_legs_no_panic:
  "admitted pda accounts ix bk sk \<Longrightarrow> run_legs cpi accounts ix bk sk l \<noteq> Panic"
  unfolding run_legs_def
  by (rule two_leg_no_panic) (auto simp: admitted_room legs_no_panic)

lemma orchestrate_no_panic: "orchestrate_handle pda cpi accounts data l \<noteq> Panic"
proof
  assume "orchestrate_handle pda cpi accounts data l = Panic"
  then obtain bk sk where "identify_dex accounts 3 = Some bk" and
    room: "3 + fixed_len bk + rx_first_count (route_ix_of data) + fixed_len sk
        + rx_second_count (route_ix_of data) \<le> length accounts" and
    stop: "require_signer accounts 0 = Panic \<or>
      validate_dex_section pda accounts bk 3 (rx_first_count (route_ix_of data)) = Panic \<or>
      validate_dex_section pda accounts sk (sell_base_of bk (route_ix_of data))
        (rx_second_count (route_ix_of data)) = Panic \<or>
      run_legs cpi accounts (route_ix_of data) bk sk l = Panic"
    by (auto simp: orchestrate_handle_def Let_def outcome_simps and_then_Panic_iff run_legs_def
        sell_base_of_def add.assoc not_less split: if_splits)
  have "3 \<le> length accounts" "accounts \<noteq> []" using room by auto
  then show False
    using stop room
    by (auto simp: require_no_panic validate_section_no_panic sell_base_of_def run_legs_def
        dest!: two_leg_no_panic [THEN notE, rotated 3] simp: legs_no_panic)
qed

lemma validate_section_Err:
  assumes "validate_dex_section pda accounts kind base n = Err e"
  shows "e \<in> {arb_err ARB_BAD_ACCOUNT_COUNT, arb_err ARB_BAD_PDA, arb_err ARB_BAD_PROGRAM}"
  using assms
  by (cases kind)
    (auto simp: pumpswap_validate_section_def dlmm_validate_section_def cpmm_validate_section_def
      whirlpool_validate_section_def and_then_Err_iff require_key_def require_owner_def
      require_derived_def require_token_program_def fail_if_def idx_def split: if_splits)

lemma cpi_failed_code: "cpi_failed kind \<in> Custom ` {6100, 6200, 6300, 6400}"
  by (cases kind) auto

lemma orchestrate_Err:
  assumes "orchestrate_handle pda cpi accounts data l = Err e"
  shows "e \<in> bracket_errors \<union> {InvalidInstructionData, MissingRequiredSignature,
      arb_err ARB_BAD_ACCOUNT_COUNT, arb_err ARB_BAD_PDA, arb_err ARB_BAD_PROGRAM,
      arb_err ARB_UNKNOWN_DEX_PAIR} \<union> Custom ` {6100, 6200, 6300, 6400}"
proof -
  let ?ix = "route_ix_of data"
  have "e \<in> {InvalidInstructionData, arb_err ARB_ZERO_AMOUNT, arb_err ARB_UNKNOWN_DEX_PAIR,
        arb_err ARB_BAD_ACCOUNT_COUNT} \<or>
      (\<exists>bk sk. 3 + fixed_len bk + rx_first_count ?ix + fixed_len sk + rx_second_count ?ix
          \<le> length accounts \<and>
        (require_signer accounts 0 = Err e \<or>
         validate_dex_section pda accounts bk 3 (rx_first_count ?ix) = Err e \<or>
         validate_dex_section pda accounts sk (sell_base_of bk ?ix) (rx_second_count ?ix) = Err e \<or>
         run_legs cpi accounts ?ix bk sk l = Err e))"
    using assms
    by (auto simp: orchestrate_handle_def Let_def parse_ix_eq and_then_Err_iff ok_or_def run_legs_def
        sell_base_of_def add.assoc not_less split: if_splits option.splits)
  then consider "e \<in> {InvalidInstructionData, arb_err ARB_ZERO_AMOUNT, arb_err ARB_UNKNOWN_DEX_PAIR,
        arb_err ARB_BAD_ACCOUNT_COUNT}"
    | "require_signer accounts 0 = Err e"
    | kind base n where "validate_dex_section pda accounts kind base n = Err e"
    | bk sk where "run_legs cpi accounts ?ix bk sk l = Err e"
      "3 + fixed_len bk + rx_first_count ?ix + fixed_len sk + rx_second_count ?ix \<le> length accounts"
    by blast
  then show ?thesis
  proof cases
    case 1
    then show ?thesis by (auto simp: bracket_errors_def)
  next
    case 2
    then show ?thesis by (auto simp: require_signer_def idx_def and_then_Err_iff fail_if_def split: if_splits)
  next
    case 3
    then show ?thesis by (auto dest: validate_section_Err)
  next
    case 4
    have "e = cpi_failed bk"
      if "execute_buy_leg cpi accounts bk 3 (rx_first_count ?ix) a m s l = Err e" for a m s l
      using that 4(2) legs_fail(1) [of accounts 3 bk "rx_first_count ?ix"] by simp
    moreover have "e = cpi_failed sk"
      if "execute_sell_leg cpi accounts sk (sell_base_of bk ?ix) (rx_second_count ?ix) a m s l = Err e"
      for a m s l
      using that 4(2) legs_fail(2) [of accounts "sell_base_of bk ?ix" sk "rx_second_count ?ix"]
      by (simp add: sell_base_of_def)
    ultimately have "e \<in> bracket_errors \<or> e \<in> {cpi_failed bk, cpi_failed sk}"
      using two_leg_Err [OF 4(1) [unfolded run_legs_def]] by blast
    then show ?thesis using cpi_failed_code [of bk] cpi_failed_code [of sk] by blast
  qed
qed

lemma orchestrate_settled:
  assumes "orchestrate_handle pda cpi accounts data l = Ok l'"
  shows "settled accounts (demanded_profit data) l l'"
proof -
  obtain bk sk where "admitted pda accounts (route_ix_of data) bk sk"
    and "run_legs cpi accounts (route_ix_of data) bk sk l = Ok l'"
    using assms by (auto simp: orchestrate_Ok_iff)
  then show ?thesis
    unfolding run_legs_def demanded_profit_def admitted_def
    by (intro two_leg_settled) (auto simp: word_unat_eq_iff)
qed

interpretation orchestrate: guarded_route "orchestrate_handle pda cpi" for pda cpi
  by unfold_locales (simp_all add: orchestrate_no_panic orchestrate_settled)

section \<open>Two consequences of the instruction layouts\<close>

text \<open>
  The Whirlpool instruction marks the account at section slot 1, which the validator pins to a
  program address, as a signer; the leg is invoked without signer seeds.
\<close>

lemma whirlpool_unsigned:
  assumes "whirlpool_validate_section pda accounts base n = Ok u"
    and "\<forall>a \<in> set accounts. acc_is_signer a \<longrightarrow> acc_key a \<noteq> pda [WHIRLPOOL_AUTH_SEED] WHIRLPOOL_ID"
  shows "\<not> signers_signed (whirlpool_swap_ix accounts base n a m d tp tin tout) accounts"
  using assms
  by (auto simp: signers_signed_def whirlpool_swap_ix_def whirlpool_validate_Ok_iff)

lemma whirlpool_leg_Ok_signed:
  assumes "3 \<le> length accounts" and "base + 12 + n \<le> length accounts"
    and "\<forall>ix l l'. cpi ix accounts l = Inr l' \<longrightarrow> signers_signed ix accounts"
    and "execute_buy_leg cpi accounts Whirlpool base n a m s l = Ok l' \<or>
      execute_sell_leg cpi accounts Whirlpool base n a m s l = Ok l'"
  shows "\<exists>d tp tin tout. signers_signed (whirlpool_swap_ix accounts base n a m d tp tin tout) accounts"
  using assms(4) unfolding execute_legs_alt
  by (auto simp: whirlpool_trade_in_range assms(1,2) invoke_or_Ok_iff dest!: assms(3) [rule_format])
    (use assms(1,2) in \<open>auto simp: whirlpool_trade_in_range invoke_or_Ok_iff dest!: assms(3) [rule_format]\<close>)

text \<open>
  The DLMM section of the generic route has its bin arrays after 13 fixed slots, but the
  builder reads them after 9: it passes the slots of the mints and token programs.
\<close>

lemma dlmm_bin_slots:
  assumes "base + 13 + n \<le> length accounts"
  shows "map meta_pubkey (drop 16 (ix_accounts (dlmm_swap2_ix accounts base a xm ym xp yp user tin tout n)))
    = map acc_key (take n (drop (base + 9) accounts))"
  using assms by (simp add: dlmm_swap2_ix_def comp_def list_eq_iff_nth_eq add_ac)

end
