(* ===== verification/Legacy_Routes.thy ===== *)
theory Legacy_Routes
  imports Route_Guard Cpi_Builders
begin

text \<open>
  The two fixed routes, \<open>programs/arbitrage/src/instructions/route_pump_to_dlmm.rs\<close> and
  \<open>route_dlmm_to_pump.rs\<close>: the checks before the first invocation in the order of the code,
  the two instructions, and the same balance bracket as the generic route.
\<close>

section \<open>Checks shared by both routes\<close>

text \<open>
  The four blocks of checks that the two files repeat with other bases and offsets: the
  well-known accounts of a PumpSwap section, the well-known accounts of a DLMM section and
  its oracle, and the three PumpSwap addresses.
\<close>

definition pump_known_accounts :: "account_info list \<Rightarrow> nat \<Rightarrow> nat \<Rightarrow> nat \<Rightarrow> nat \<Rightarrow> nat \<Rightarrow> nat
    \<Rightarrow> unit result list" where
  "pump_known_accounts accounts base quote_mint quote_program system ata fee_program =
     [require_key accounts (base + quote_mint) NATIVE_SOL_MINT (arb_err ARB_BAD_MINT),
      require_key accounts (base + quote_program) TOKEN_ID (arb_err ARB_BAD_PROGRAM),
      require_key accounts (base + system) SYSTEM_ID (arb_err ARB_BAD_PROGRAM),
      require_key accounts (base + ata) ATA_ID (arb_err ARB_BAD_PROGRAM),
      require_key accounts (base + fee_program) FEE_PROGRAM_ID (arb_err ARB_BAD_PROGRAM)]"

definition pump_addresses :: "pda_fn \<Rightarrow> account_info list \<Rightarrow> nat \<Rightarrow> nat \<Rightarrow> nat \<Rightarrow> nat
    \<Rightarrow> unit result list" where
  "pump_addresses pda accounts base event_authority global_config fee_config =
     [require_key accounts (base + event_authority) (pda [PUMP_EVENT_AUTH_SEED] PUMP_SWAP_ID)
        (arb_err ARB_BAD_PDA),
      require_key accounts (base + global_config) (pda [PUMP_GLOBAL_CONFIG_SEED] PUMP_SWAP_ID)
        (arb_err ARB_BAD_PDA),
      require_key accounts (base + fee_config)
        (pda [PUMP_FEE_CONFIG_SEED, key_bytes PUMP_SWAP_ID] FEE_PROGRAM_ID) (arb_err ARB_BAD_PDA)]"

definition dlmm_known_accounts :: "pda_fn \<Rightarrow> account_info list \<Rightarrow> nat \<Rightarrow> unit result list" where
  "dlmm_known_accounts pda accounts dlmm_base =
     [require_key accounts (dlmm_base + DLMM_EVENT_AUTH_REL) DLMM_EVENT_AUTH (arb_err ARB_BAD_PROGRAM),
      require_key accounts (dlmm_base + DLMM_MEMO_REL) MEMO_ID (arb_err ARB_BAD_PROGRAM),
      and_then (idx accounts (dlmm_base + DLMM_LB_PAIR_REL)) (\<lambda>lb_pair.
        require_key accounts (dlmm_base + DLMM_ORACLE_REL)
          (pda [DLMM_ORACLE_SEED, key_bytes (acc_key lb_pair)] DLMM_ID) (arb_err ARB_BAD_PDA))]"

section \<open>PumpSwap buy, DLMM sell\<close>

definition pump_to_dlmm_checks :: "pda_fn \<Rightarrow> account_info list \<Rightarrow> nat \<Rightarrow> nat \<Rightarrow> unit result" where
  "pump_to_dlmm_checks pda accounts pump_base dlmm_base = run_checks
     ([require_key accounts (pump_base + PUMP_BUY_PROGRAM) PUMP_SWAP_ID (arb_err ARB_BAD_PROGRAM),
       require_key accounts (dlmm_base + DLMM_PROGRAM_REL) DLMM_ID (arb_err ARB_BAD_PROGRAM)]
      @ pump_known_accounts accounts pump_base PUMP_BUY_QUOTE_MINT PUMP_BUY_QUOTE_TOKEN_PROGRAM
          PUMP_BUY_SYSTEM_PROGRAM PUMP_BUY_ATA_PROGRAM PUMP_BUY_FEE_PROGRAM
      @ [require_signer accounts USER_IDX]
      @ pump_addresses pda accounts pump_base PUMP_BUY_EVENT_AUTHORITY PUMP_BUY_GLOBAL_CONFIG
          PUMP_BUY_FEE_CONFIG
      @ dlmm_known_accounts pda accounts dlmm_base)"

definition pump_to_dlmm_handle :: "pda_fn \<Rightarrow> cpi_fn \<Rightarrow> handler" where
  "pump_to_dlmm_handle pda cpi accounts data l =
     and_then (parse_ix data) (\<lambda>ix.
     let pump_remaining_count = rx_first_count ix;
         dlmm_bin_array_count = rx_second_count ix in
     if rx_amount_in ix = 0 \<or> rx_min_profit ix = 0 then Err (arb_err ARB_ZERO_AMOUNT)
     else if pump_remaining_count > 5 \<or> \<not> (1 \<le> dlmm_bin_array_count \<and> dlmm_bin_array_count \<le> 6)
     then Err (arb_err ARB_BAD_ACCOUNT_COUNT)
     else let pump_base = SHARED_FIXED_LEN;
         pump_len = PUMP_BUY_FIXED_LEN + pump_remaining_count;
         dlmm_base = pump_base + pump_len;
         expected = dlmm_base + DLMM_FIXED_LEN + dlmm_bin_array_count in
     if length accounts < expected then Err (arb_err ARB_BAD_ACCOUNT_COUNT)
     else
     and_then (pump_to_dlmm_checks pda accounts pump_base dlmm_base) (\<lambda>_.
     let meme_tp_idx = pump_base + PUMP_BUY_BASE_TOKEN_PROGRAM;
         meme_ata_idx = USER_MEME_ATA_IDX;
         (token_x_prog, token_y_prog) =
           (if rx_sol_is_x ix then (pump_base + PUMP_BUY_QUOTE_TOKEN_PROGRAM, meme_tp_idx)
            else (meme_tp_idx, pump_base + PUMP_BUY_QUOTE_TOKEN_PROGRAM));
         (token_x_mint, token_y_mint) =
           (if rx_sol_is_x ix then (pump_base + PUMP_BUY_QUOTE_MINT, pump_base + PUMP_BUY_BASE_MINT)
            else (pump_base + PUMP_BUY_BASE_MINT, pump_base + PUMP_BUY_QUOTE_MINT)) in
       two_leg accounts (rx_min_profit ix)
         (\<lambda>l. and_then (build_buy accounts pump_base pump_remaining_count (rx_amount_in ix)
                (rx_min_intermediate ix) (rx_track_volume ix)
                (if meme_ata_idx = USER_MEME_ATA_IDX then None else Some meme_ata_idx)) (\<lambda>buy_ix.
            invoke_or cpi (arb_err ARB_PUMP_CPI_FAILED) buy_ix accounts l))
         (\<lambda>meme_received l. and_then (build_swap2 accounts dlmm_base meme_received token_x_mint
                token_y_mint token_x_prog token_y_prog USER_IDX meme_ata_idx USER_SOL_ATA_IDX
                dlmm_bin_array_count) (\<lambda>swap2_ix.
            invoke_or cpi (arb_err ARB_DLMM_CPI_FAILED) swap2_ix accounts l))
         l))"

section \<open>DLMM buy, PumpSwap sell\<close>

definition dlmm_to_pump_checks :: "pda_fn \<Rightarrow> account_info list \<Rightarrow> nat \<Rightarrow> nat \<Rightarrow> unit result" where
  "dlmm_to_pump_checks pda accounts dlmm_base pump_sell_base = run_checks
     ([require_key accounts (dlmm_base + DLMM_PROGRAM_REL) DLMM_ID (arb_err ARB_BAD_PROGRAM),
       require_key accounts (pump_sell_base + PUMP_SELL_PROGRAM) PUMP_SWAP_ID (arb_err ARB_BAD_PROGRAM)]
      @ pump_known_accounts accounts pump_sell_base PUMP_SELL_QUOTE_MINT PUMP_SELL_QUOTE_TOKEN_PROGRAM
          PUMP_SELL_SYSTEM_PROGRAM PUMP_SELL_ATA_PROGRAM PUMP_SELL_FEE_PROGRAM
      @ [require_signer accounts USER_IDX]
      @ dlmm_known_accounts pda accounts dlmm_base
      @ pump_addresses pda accounts pump_sell_base PUMP_SELL_EVENT_AUTHORITY
          PUMP_SELL_GLOBAL_CONFIG PUMP_SELL_FEE_CONFIG)"

definition dlmm_to_pump_handle :: "pda_fn \<Rightarrow> cpi_fn \<Rightarrow> handler" where
  "dlmm_to_pump_handle pda cpi accounts data l =
     and_then (parse_ix data) (\<lambda>ix.
     let pump_remaining_count = rx_first_count ix;
         dlmm_bin_array_count = rx_second_count ix in
     if rx_amount_in ix = 0 \<or> rx_min_profit ix = 0 then Err (arb_err ARB_ZERO_AMOUNT)
     else if pump_remaining_count > 5 \<or> \<not> (1 \<le> dlmm_bin_array_count \<and> dlmm_bin_array_count \<le> 6)
     then Err (arb_err ARB_BAD_ACCOUNT_COUNT)
     else let dlmm_base = SHARED_FIXED_LEN;
         pump_sell_base = dlmm_base + DLMM_FIXED_LEN + dlmm_bin_array_count;
         expected = pump_sell_base + PUMP_SELL_FIXED_LEN + pump_remaining_count in
     if length accounts < expected then Err (arb_err ARB_BAD_ACCOUNT_COUNT)
     else
     and_then (dlmm_to_pump_checks pda accounts dlmm_base pump_sell_base) (\<lambda>_.
     let meme_tp_idx = pump_sell_base + PUMP_SELL_BASE_TOKEN_PROGRAM;
         meme_ata_idx = USER_MEME_ATA_IDX;
         (token_x_prog, token_y_prog) =
           (if rx_sol_is_x ix then (pump_sell_base + PUMP_SELL_QUOTE_TOKEN_PROGRAM, meme_tp_idx)
            else (meme_tp_idx, pump_sell_base + PUMP_SELL_QUOTE_TOKEN_PROGRAM));
         (token_x_mint, token_y_mint) =
           (if rx_sol_is_x ix then (pump_sell_base + PUMP_SELL_QUOTE_MINT, pump_sell_base + PUMP_SELL_BASE_MINT)
            else (pump_sell_base + PUMP_SELL_BASE_MINT, pump_sell_base + PUMP_SELL_QUOTE_MINT)) in
       two_leg accounts (rx_min_profit ix)
         (\<lambda>l. and_then (build_swap2 accounts dlmm_base (rx_amount_in ix) token_x_mint token_y_mint
                token_x_prog token_y_prog USER_IDX USER_SOL_ATA_IDX meme_ata_idx
                dlmm_bin_array_count) (\<lambda>swap2_ix.
            invoke_or cpi (arb_err ARB_DLMM_CPI_FAILED) swap2_ix accounts l))
         (\<lambda>meme_received l. and_then (build_sell accounts pump_sell_base pump_remaining_count
                meme_received (rx_min_intermediate ix)
                (if meme_ata_idx = USER_MEME_ATA_IDX then None else Some meme_ata_idx)) (\<lambda>sell_ix.
            invoke_or cpi (arb_err ARB_PUMP_CPI_FAILED) sell_ix accounts l))
         l))"

lemmas legacy_check_defs =
  pump_to_dlmm_checks_def dlmm_to_pump_checks_def pump_known_accounts_def pump_addresses_def
  dlmm_known_accounts_def

section \<open>The route in closed form\<close>

text \<open>
  Both handlers are one decision: the data and the counts are in range and the checks pass,
  then the bracket runs with the two instructions in closed form.
\<close>

definition counts_ok :: "route_ix \<Rightarrow> bool" where
  "counts_ok ix \<longleftrightarrow> rx_amount_in ix \<noteq> 0 \<and> rx_min_profit ix \<noteq> 0 \<and> rx_first_count ix \<le> 5 \<and>
     1 \<le> rx_second_count ix \<and> rx_second_count ix \<le> 6"

definition dlmm_ix :: "account_info list \<Rightarrow> bool \<Rightarrow> nat \<Rightarrow> nat \<Rightarrow> u64 \<Rightarrow> nat \<Rightarrow> nat \<Rightarrow> nat \<Rightarrow> instruction" where
  "dlmm_ix accounts sol_is_x dlmm_base pump_base amount tin tout bins =
     (let (qp, bp, qm, bm) = (pump_base + 12, pump_base + 11, pump_base + 4, pump_base + 3) in
      if sol_is_x then dlmm_swap2_ix accounts dlmm_base amount qm bm qp bp 0 tin tout bins
      else dlmm_swap2_ix accounts dlmm_base amount bm qm bp qp 0 tin tout bins)"

definition pump_to_dlmm_legs :: "cpi_fn \<Rightarrow> account_info list \<Rightarrow> route_ix \<Rightarrow> ledger \<Rightarrow> ledger result" where
  "pump_to_dlmm_legs cpi accounts ix =
     two_leg accounts (rx_min_profit ix)
       (invoke_or cpi (arb_err ARB_PUMP_CPI_FAILED)
          (pump_buy_ix accounts 3 (rx_first_count ix) (rx_amount_in ix) (rx_min_intermediate ix)
             (rx_track_volume ix)) accounts)
       (\<lambda>received. invoke_or cpi (arb_err ARB_DLMM_CPI_FAILED)
          (dlmm_ix accounts (rx_sol_is_x ix) (26 + rx_first_count ix) 3 received 2 1
             (rx_second_count ix)) accounts)"

definition dlmm_to_pump_legs :: "cpi_fn \<Rightarrow> account_info list \<Rightarrow> route_ix \<Rightarrow> ledger \<Rightarrow> ledger result" where
  "dlmm_to_pump_legs cpi accounts ix =
     two_leg accounts (rx_min_profit ix)
       (invoke_or cpi (arb_err ARB_DLMM_CPI_FAILED)
          (dlmm_ix accounts (rx_sol_is_x ix) 3 (12 + rx_second_count ix) (rx_amount_in ix) 1 2
             (rx_second_count ix)) accounts)
       (\<lambda>received. invoke_or cpi (arb_err ARB_PUMP_CPI_FAILED)
          (pump_sell_ix accounts (12 + rx_second_count ix) (rx_first_count ix) received
             (rx_min_intermediate ix)) accounts)"

lemma pump_to_dlmm_eq:
  "pump_to_dlmm_handle pda cpi accounts data l =
     (let ix = route_ix_of data in
      if length data \<noteq> 36 then Err InvalidInstructionData
      else if rx_amount_in ix = 0 \<or> rx_min_profit ix = 0 then Err (arb_err ARB_ZERO_AMOUNT)
      else if \<not> counts_ok ix \<or> length accounts < 35 + rx_first_count ix + rx_second_count ix
      then Err (arb_err ARB_BAD_ACCOUNT_COUNT)
      else and_then (pump_to_dlmm_checks pda accounts 3 (26 + rx_first_count ix)) (\<lambda>_.
        pump_to_dlmm_legs cpi accounts ix l))"
proof (cases "35 + rx_first_count (route_ix_of data) + rx_second_count (route_ix_of data) \<le> length accounts")
  case True
  let ?ix = "route_ix_of data"
  have "build_buy accounts 3 (rx_first_count ?ix) a m t None =
      Ok (pump_buy_ix accounts 3 (rx_first_count ?ix) a m t)" for a m t
    using True by (intro build_buy_in_range) simp
  moreover have "build_swap2 accounts (26 + rx_first_count ?ix) a 7 6 15 14 0 2 1 (rx_second_count ?ix) =
      Ok (dlmm_ix accounts True (26 + rx_first_count ?ix) 3 a 2 1 (rx_second_count ?ix))"
    "build_swap2 accounts (26 + rx_first_count ?ix) a 6 7 14 15 0 2 1 (rx_second_count ?ix) =
      Ok (dlmm_ix accounts False (26 + rx_first_count ?ix) 3 a 2 1 (rx_second_count ?ix))" for a
    using True by (auto simp: dlmm_ix_def intro!: build_swap2_in_range)
  ultimately show ?thesis
    using True
    by (auto simp: pump_to_dlmm_handle_def Let_def parse_ix_eq counts_ok_def pump_to_dlmm_legs_def
        not_le not_less algebra_simps split: if_splits)
next
  case False
  then show ?thesis
    by (auto simp: pump_to_dlmm_handle_def Let_def parse_ix_eq counts_ok_def)
qed

lemma dlmm_to_pump_eq:
  "dlmm_to_pump_handle pda cpi accounts data l =
     (let ix = route_ix_of data in
      if length data \<noteq> 36 then Err InvalidInstructionData
      else if rx_amount_in ix = 0 \<or> rx_min_profit ix = 0 then Err (arb_err ARB_ZERO_AMOUNT)
      else if \<not> counts_ok ix \<or> length accounts < 33 + rx_first_count ix + rx_second_count ix
      then Err (arb_err ARB_BAD_ACCOUNT_COUNT)
      else and_then (dlmm_to_pump_checks pda accounts 3 (12 + rx_second_count ix)) (\<lambda>_.
        dlmm_to_pump_legs cpi accounts ix l))"
proof (cases "33 + rx_first_count (route_ix_of data) + rx_second_count (route_ix_of data) \<le> length accounts")
  case True
  let ?ix = "route_ix_of data" and ?pb = "12 + rx_second_count (route_ix_of data)"
  have "build_sell accounts ?pb (rx_first_count ?ix) a m None =
      Ok (pump_sell_ix accounts ?pb (rx_first_count ?ix) a m)" for a m
    using True by (intro build_sell_in_range) simp
  moreover have "build_swap2 accounts 3 a (?pb + 4) (?pb + 3) (?pb + 12) (?pb + 11) 0 1 2
        (rx_second_count ?ix) = Ok (dlmm_ix accounts True 3 ?pb a 1 2 (rx_second_count ?ix))"
    "build_swap2 accounts 3 a (?pb + 3) (?pb + 4) (?pb + 11) (?pb + 12) 0 1 2
        (rx_second_count ?ix) = Ok (dlmm_ix accounts False 3 ?pb a 1 2 (rx_second_count ?ix))" for a
    using True unfolding dlmm_ix_def by (auto intro!: build_swap2_in_range)
  ultimately show ?thesis
    using True
    by (auto simp: dlmm_to_pump_handle_def Let_def parse_ix_eq counts_ok_def dlmm_to_pump_legs_def
        not_le not_less algebra_simps split: if_splits)
next
  case False
  then show ?thesis
    by (auto simp: dlmm_to_pump_handle_def Let_def parse_ix_eq counts_ok_def)
qed

section \<open>What the checks establish\<close>

definition pump_section_known :: "pda_fn \<Rightarrow> account_info list \<Rightarrow> nat \<Rightarrow> nat \<Rightarrow> nat \<Rightarrow> bool" where
  "pump_section_known pda accounts base fee_config fee_program \<longleftrightarrow>
     acc_key (accounts ! (base + 16)) = PUMP_SWAP_ID \<and>
     acc_key (accounts ! (base + 4)) = NATIVE_SOL_MINT \<and>
     acc_key (accounts ! (base + 12)) = TOKEN_ID \<and>
     acc_key (accounts ! (base + 13)) = SYSTEM_ID \<and>
     acc_key (accounts ! (base + 14)) = ATA_ID \<and>
     acc_key (accounts ! (base + fee_program)) = FEE_PROGRAM_ID \<and>
     acc_key (accounts ! (base + 15)) = pda [PUMP_EVENT_AUTH_SEED] PUMP_SWAP_ID \<and>
     acc_key (accounts ! (base + 2)) = pda [PUMP_GLOBAL_CONFIG_SEED] PUMP_SWAP_ID \<and>
     acc_key (accounts ! (base + fee_config)) =
       pda [PUMP_FEE_CONFIG_SEED, key_bytes PUMP_SWAP_ID] FEE_PROGRAM_ID"

definition dlmm_section_known :: "pda_fn \<Rightarrow> account_info list \<Rightarrow> nat \<Rightarrow> bool" where
  "dlmm_section_known pda accounts base \<longleftrightarrow>
     acc_key (accounts ! base) = DLMM_ID \<and>
     acc_key (accounts ! (base + 8)) = DLMM_EVENT_AUTH \<and>
     acc_key (accounts ! (base + 7)) = MEMO_ID \<and>
     acc_key (accounts ! (base + 5)) =
       pda [DLMM_ORACLE_SEED, key_bytes (acc_key (accounts ! (base + 1)))] DLMM_ID"

lemma pump_to_dlmm_checks_Ok_iff:
  assumes "pump_base + 23 \<le> dlmm_base" and "dlmm_base + 9 \<le> length accounts"
  shows "pump_to_dlmm_checks pda accounts pump_base dlmm_base = Ok u \<longleftrightarrow>
    acc_is_signer (accounts ! 0) \<and> pump_section_known pda accounts pump_base 21 22 \<and>
    dlmm_section_known pda accounts dlmm_base"
  using assms
  by (auto simp: legacy_check_defs outcome_simps pump_section_known_def dlmm_section_known_def)

lemma dlmm_to_pump_checks_Ok_iff:
  assumes "dlmm_base + 9 \<le> pump_base" and "pump_base + 21 \<le> length accounts"
  shows "dlmm_to_pump_checks pda accounts dlmm_base pump_base = Ok u \<longleftrightarrow>
    acc_is_signer (accounts ! 0) \<and> pump_section_known pda accounts pump_base 19 20 \<and>
    dlmm_section_known pda accounts dlmm_base"
  using assms
  by (auto simp: legacy_check_defs outcome_simps pump_section_known_def dlmm_section_known_def)

lemma pump_to_dlmm_checks_no_panic:
  assumes "pump_base + 23 \<le> dlmm_base" and "dlmm_base + 9 \<le> length accounts"
  shows "pump_to_dlmm_checks pda accounts pump_base dlmm_base \<noteq> Panic"
proof -
  have "accounts \<noteq> []" using assms by auto
  then show ?thesis
    unfolding pump_to_dlmm_checks_def using assms
    by (intro run_checks_no_panic)
      (simp add: pump_known_accounts_def pump_addresses_def dlmm_known_accounts_def
        require_no_panic idx_in_range)
qed

lemma dlmm_to_pump_checks_no_panic:
  assumes "dlmm_base + 9 \<le> pump_base" and "pump_base + 21 \<le> length accounts"
  shows "dlmm_to_pump_checks pda accounts dlmm_base pump_base \<noteq> Panic"
proof -
  have "accounts \<noteq> []" using assms by auto
  then show ?thesis
    unfolding dlmm_to_pump_checks_def using assms
    by (intro run_checks_no_panic)
      (simp add: pump_known_accounts_def pump_addresses_def dlmm_known_accounts_def
        require_no_panic idx_in_range)
qed

lemma legacy_checks_Err:
  "pump_to_dlmm_checks pda accounts pump_base dlmm_base = Err e \<Longrightarrow>
     e \<in> {arb_err ARB_BAD_PROGRAM, arb_err ARB_BAD_MINT, arb_err ARB_BAD_PDA, MissingRequiredSignature}"
  "dlmm_to_pump_checks pda accounts dlmm_base pump_base = Err e \<Longrightarrow>
     e \<in> {arb_err ARB_BAD_PROGRAM, arb_err ARB_BAD_MINT, arb_err ARB_BAD_PDA, MissingRequiredSignature}"
  by (auto simp: legacy_check_defs and_then_Err_iff require_key_def require_signer_def fail_if_def
      idx_def split: if_splits)

section \<open>Both routes keep the contract\<close>

lemma legacy_legs_no_panic:
  "3 \<le> length accounts \<Longrightarrow> pump_to_dlmm_legs cpi accounts ix l \<noteq> Panic"
  "3 \<le> length accounts \<Longrightarrow> dlmm_to_pump_legs cpi accounts ix l \<noteq> Panic"
  unfolding pump_to_dlmm_legs_def dlmm_to_pump_legs_def by (rule two_leg_no_panic; simp)+

lemma invoke_or_Err: "invoke_or cpi err ix accounts l = Err e \<Longrightarrow> e = err"
  by (auto simp: invoke_or_def split: sum.splits)

lemma legacy_legs_Err:
  "pump_to_dlmm_legs cpi accounts ix l = Err e \<Longrightarrow> e \<in> bracket_errors \<union> Custom ` {6100, 6200}"
  "dlmm_to_pump_legs cpi accounts ix l = Err e \<Longrightarrow> e \<in> bracket_errors \<union> Custom ` {6100, 6200}"
  unfolding pump_to_dlmm_legs_def dlmm_to_pump_legs_def
  by (drule two_leg_Err, auto dest: invoke_or_Err)+

lemma pump_to_dlmm_Ok_iff:
  "pump_to_dlmm_handle pda cpi accounts data l = Ok l' \<longleftrightarrow>
     length data = 36 \<and> counts_ok (route_ix_of data) \<and>
     35 + rx_first_count (route_ix_of data) + rx_second_count (route_ix_of data) \<le> length accounts \<and>
     acc_is_signer (accounts ! 0) \<and> pump_section_known pda accounts 3 21 22 \<and>
     dlmm_section_known pda accounts (26 + rx_first_count (route_ix_of data)) \<and>
     pump_to_dlmm_legs cpi accounts (route_ix_of data) l = Ok l'"
proof -
  have "pump_to_dlmm_checks pda accounts 3 (26 + rx_first_count (route_ix_of data)) = Ok u \<longleftrightarrow>
      acc_is_signer (accounts ! 0) \<and> pump_section_known pda accounts 3 21 22 \<and>
      dlmm_section_known pda accounts (26 + rx_first_count (route_ix_of data))"
    if "35 + rx_first_count (route_ix_of data) + rx_second_count (route_ix_of data) \<le> length accounts" for u
    using that by (intro pump_to_dlmm_checks_Ok_iff) auto
  then show ?thesis
    by (auto simp: pump_to_dlmm_eq Let_def and_then_Ok_iff counts_ok_def)
qed

lemma dlmm_to_pump_Ok_iff:
  "dlmm_to_pump_handle pda cpi accounts data l = Ok l' \<longleftrightarrow>
     length data = 36 \<and> counts_ok (route_ix_of data) \<and>
     33 + rx_first_count (route_ix_of data) + rx_second_count (route_ix_of data) \<le> length accounts \<and>
     acc_is_signer (accounts ! 0) \<and> dlmm_section_known pda accounts 3 \<and>
     pump_section_known pda accounts (12 + rx_second_count (route_ix_of data)) 19 20 \<and>
     dlmm_to_pump_legs cpi accounts (route_ix_of data) l = Ok l'"
proof -
  have "dlmm_to_pump_checks pda accounts 3 (12 + rx_second_count (route_ix_of data)) = Ok u \<longleftrightarrow>
      acc_is_signer (accounts ! 0) \<and>
      pump_section_known pda accounts (12 + rx_second_count (route_ix_of data)) 19 20 \<and>
      dlmm_section_known pda accounts 3"
    if "33 + rx_first_count (route_ix_of data) + rx_second_count (route_ix_of data) \<le> length accounts" for u
    using that by (intro dlmm_to_pump_checks_Ok_iff) auto
  then show ?thesis
    by (auto simp: dlmm_to_pump_eq Let_def and_then_Ok_iff counts_ok_def)
qed

lemma counts_ok_profit: "counts_ok (route_ix_of data) \<Longrightarrow> 0 < demanded_profit data"
  by (simp add: counts_ok_def demanded_profit_def word_unat_eq_iff)

interpretation pump_to_dlmm: guarded_route "pump_to_dlmm_handle pda cpi" for pda cpi
proof unfold_locales
  fix accounts data l l'
  show "pump_to_dlmm_handle pda cpi accounts data l \<noteq> Panic"
    by (auto simp: pump_to_dlmm_eq Let_def and_then_Panic_iff pump_to_dlmm_checks_no_panic dlmm_to_pump_checks_no_panic
        legacy_legs_no_panic)
  show "settled accounts (demanded_profit data) l l'"
    if "pump_to_dlmm_handle pda cpi accounts data l = Ok l'"
    using that two_leg_settled counts_ok_profit [of data]
    unfolding pump_to_dlmm_Ok_iff pump_to_dlmm_legs_def demanded_profit_def by blast
qed

interpretation dlmm_to_pump: guarded_route "dlmm_to_pump_handle pda cpi" for pda cpi
proof unfold_locales
  fix accounts data l l'
  show "dlmm_to_pump_handle pda cpi accounts data l \<noteq> Panic"
    by (auto simp: dlmm_to_pump_eq Let_def and_then_Panic_iff pump_to_dlmm_checks_no_panic dlmm_to_pump_checks_no_panic
        legacy_legs_no_panic)
  show "settled accounts (demanded_profit data) l l'"
    if "dlmm_to_pump_handle pda cpi accounts data l = Ok l'"
    using that two_leg_settled counts_ok_profit [of data]
    unfolding dlmm_to_pump_Ok_iff dlmm_to_pump_legs_def demanded_profit_def by blast
qed

lemma legacy_Err:
  "pump_to_dlmm_handle pda cpi accounts data l = Err e \<or> dlmm_to_pump_handle pda cpi accounts data l = Err e \<Longrightarrow>
     e \<in> bracket_errors \<union> {InvalidInstructionData, MissingRequiredSignature,
       arb_err ARB_BAD_ACCOUNT_COUNT, arb_err ARB_BAD_PDA, arb_err ARB_BAD_PROGRAM,
       arb_err ARB_BAD_MINT} \<union> Custom ` {6100, 6200}"
  by (auto simp: pump_to_dlmm_eq dlmm_to_pump_eq Let_def and_then_Err_iff bracket_errors_def
      dest!: legacy_checks_Err legacy_legs_Err split: if_splits)

end
