(* ===== verification/Program_Entry.thy ===== *)
theory Program_Entry
  imports Orchestrate Legacy_Routes
begin

text \<open>
  The entry point of the on-chain program, \<open>programs/arbitrage/src/lib.rs\<close>: dispatch on the
  first eight bytes of the instruction data, and the contract of a route for the whole program.
\<close>

definition process_instruction :: "pda_fn \<Rightarrow> cpi_fn \<Rightarrow> pubkey \<Rightarrow> handler" where
  "process_instruction pda cpi program_id accounts data l =
     (if length data < 8 then Err InvalidInstructionData
      else and_then (slice data 0 8) (\<lambda>disc.
        if disc = ROUTE_PUMP_TO_DLMM_DISC then pump_to_dlmm_handle pda cpi accounts data l
        else if disc = ROUTE_DLMM_TO_PUMP_DISC then dlmm_to_pump_handle pda cpi accounts data l
        else if disc = ROUTE_DISC then orchestrate_handle pda cpi accounts data l
        else Err (arb_err ARB_BAD_DISCRIMINATOR)))"

lemma process_eq:
  "process_instruction pda cpi program_id accounts data l =
     (if length data < 8 then Err InvalidInstructionData
      else if take 8 data = ROUTE_PUMP_TO_DLMM_DISC then pump_to_dlmm_handle pda cpi accounts data l
      else if take 8 data = ROUTE_DLMM_TO_PUMP_DISC then dlmm_to_pump_handle pda cpi accounts data l
      else if take 8 data = ROUTE_DISC then orchestrate_handle pda cpi accounts data l
      else Err (arb_err ARB_BAD_DISCRIMINATOR))"
  by (auto simp: process_instruction_def slice_def)

lemma process_OkE:
  assumes "process_instruction pda cpi program_id accounts data l = Ok l'"
  obtains "pump_to_dlmm_handle pda cpi accounts data l = Ok l'"
    | "dlmm_to_pump_handle pda cpi accounts data l = Ok l'"
    | "orchestrate_handle pda cpi accounts data l = Ok l'"
  using assms that by (auto simp: process_eq split: if_splits)

interpretation program: guarded_route "process_instruction pda cpi program_id" for pda cpi program_id
proof unfold_locales
  fix accounts data l l'
  show "process_instruction pda cpi program_id accounts data l \<noteq> Panic"
    by (simp add: process_eq orchestrate.no_abort pump_to_dlmm.no_abort dlmm_to_pump.no_abort)
  show "settled accounts (demanded_profit data) l l'"
    if "process_instruction pda cpi program_id accounts data l = Ok l'"
    using that by (rule process_OkE)
      (auto intro: orchestrate.guard pump_to_dlmm.guard dlmm_to_pump.guard)
qed

text \<open>The error values the program can end with.\<close>

definition program_errors :: "program_error set" where
  "program_errors = {InvalidInstructionData, InvalidAccountData, MissingRequiredSignature,
     ArithmeticOverflow} \<union>
     Custom ` {6000, 6001, 6002, 6003, 6004, 6005, 6006, 6007, 6008, 6100, 6200, 6300, 6400, 6500}"

lemma bracket_errors_subset: "bracket_errors \<subseteq> program_errors"
  by (auto simp: bracket_errors_def program_errors_def)

lemma process_Err:
  assumes "process_instruction pda cpi program_id accounts data l = Err e"
  shows "e \<in> program_errors"
proof -
  consider "e \<in> {InvalidInstructionData, arb_err ARB_BAD_DISCRIMINATOR}"
    | "pump_to_dlmm_handle pda cpi accounts data l = Err e \<or> dlmm_to_pump_handle pda cpi accounts data l = Err e"
    | "orchestrate_handle pda cpi accounts data l = Err e"
    using assms by (auto simp: process_eq split: if_splits)
  then show ?thesis
  proof cases
    case 1
    then show ?thesis by (auto simp: program_errors_def)
  next
    case 2
    from legacy_Err [OF this] show ?thesis
      using bracket_errors_subset by (auto simp: program_errors_def)
  next
    case 3
    from orchestrate_Err [OF this] show ?thesis
      using bracket_errors_subset by (auto simp: program_errors_def)
  qed
qed

end
