(* ===== verification/Scenario.thy ===== *)
theory Scenario
  imports Program_Entry
begin

text \<open>
  Three concrete runs of the program, at which the properties with hypotheses are applied: a
  generic route (Raydium CPMM buy, DLMM sell) and the two fixed routes. Addresses are derived
  by a constant function and the invoked programs are a function that delivers five meme tokens
  to a user who holds none and otherwise takes them back for ten lamports; as the runtime does,
  it refuses an instruction that names a signer nobody signed for.
\<close>

definition demo_pda :: pda_fn where
  "demo_pda seeds program = 7"

definition plain :: "pubkey \<Rightarrow> account_info" where
  "plain k = \<lparr>acc_key = k, acc_owner = 0, acc_is_signer = False, acc_is_writable = True\<rparr>"

definition owned :: "pubkey \<Rightarrow> pubkey \<Rightarrow> account_info" where
  "owned k p = (plain k)\<lparr>acc_owner := p\<rparr>"

definition demo_user :: "account_info list" where
  "demo_user = [(plain 100)\<lparr>acc_is_signer := True\<rparr>, plain 101, plain 102]"

lemma plain_sel [simp]:
  "acc_key (plain k) = k" "acc_owner (plain k) = 0" "acc_is_signer (plain k) = False"
  "acc_key (owned k p) = k" "acc_owner (owned k p) = p" "acc_is_signer (owned k p) = False"
  by (simp_all add: plain_def owned_def)

definition demo_cell :: "u64 \<Rightarrow> u64 \<Rightarrow> account_cell" where
  "demo_cell lamports tokens =
     \<lparr>cell_lamports = lamports, cell_data = replicate 64 0 @ u64_to_le tokens\<rparr>"

lemma demo_cell_sel [simp]:
  "cell_lamports (demo_cell n t) = n" "length (cell_data (demo_cell n t)) = 72"
  "token_amount (demo_cell n t) = unat t"
proof -
  have "unat t < 256 ^ 8" using unat_u64_bound [of t] by simp
  then show "token_amount (demo_cell n t) = unat t"
    by (simp add: token_amount_def demo_cell_def u64_to_le_def from_le_to_le)
qed (simp_all add: demo_cell_def)

definition demo_ledger :: ledger where
  "demo_ledger = (\<lambda>_. demo_cell 1000 0)"

definition bought :: "ledger \<Rightarrow> ledger" where
  "bought l = l(102 := demo_cell 1000 5)"

definition sold :: "ledger \<Rightarrow> ledger" where
  "sold l = l(100 := demo_cell 1010 0, 102 := demo_cell 1000 0)"

definition demo_cpi :: cpi_fn where
  "demo_cpi ix accounts l =
     (if \<not> signers_signed ix accounts then Inl MissingRequiredSignature
      else Inr (if token_amount (l 102) = 0 then bought l else sold l))"

lemma slot_metas_signed:
  "\<forall>s \<in> set slots. fst s < length accounts \<Longrightarrow>
   signers_signed \<lparr>ix_program_id = p, ix_accounts = map (slot_meta accounts) slots, ix_data = d\<rparr> accounts"
  unfolding signers_signed_def by (auto dest!: bspec)

lemma demo_cells [simp]:
  "demo_ledger k = demo_cell 1000 0"
  "bought demo_ledger k = (if k = 102 then demo_cell 1000 5 else demo_cell 1000 0)"
  "sold (bought demo_ledger) k = (if k = 100 then demo_cell 1010 0 else demo_cell 1000 0)"
  by (simp_all add: demo_ledger_def bought_def sold_def)

lemma demo_cpi_runs:
  "signers_signed ix accounts \<Longrightarrow> demo_cpi ix accounts demo_ledger = Inr (bought demo_ledger)"
  "signers_signed ix accounts \<Longrightarrow>
     demo_cpi ix accounts (bought demo_ledger) = Inr (sold (bought demo_ledger))"
  by (simp_all add: demo_cpi_def)

text \<open>For such a program and user the bracket of any two legs that invoke comes to its end.\<close>

lemma demo_bracket:
  assumes "accounts = demo_user @ rest"
    and "buy demo_ledger = Ok (bought demo_ledger)"
    and "sell 5 (bought demo_ledger) = Ok (sold (bought demo_ledger))" and "unat p \<le> 10"
  shows "two_leg accounts p buy sell demo_ledger = Ok (sold (bought demo_ledger))"
proof -
  have "unat (5 :: u64) = 5" by simp
  then show ?thesis
    using assms unfolding two_leg_Ok_iff
    by (auto simp: demo_user_def readable_def sol_value_def intro!: exI [of _ "5 :: u64"])
qed

section \<open>The generic route\<close>

definition demo_accounts :: "account_info list" where
  "demo_accounts = demo_user @
     [plain CPMM_ID, plain 7, plain 202, owned 203 CPMM_ID, plain 204, plain 205, plain 206,
      plain 207, plain 208, plain 209, plain TOKEN_ID, plain TOKEN_ID, plain MEMO_ID,
      plain DLMM_ID, owned 301 DLMM_ID, plain 302, plain 303, plain 304, plain 7, plain 306,
      plain MEMO_ID, plain DLMM_EVENT_AUTH, plain 309, plain 310, plain TOKEN_ID, plain TOKEN_ID,
      plain 313]"

definition demo_data :: "byte list" where
  "demo_data = ROUTE_DISC @ u64_to_le 10 @ u64_to_le 5 @ u64_to_le 1 @ [0, 0, 0, 1]"

definition demo_ix :: route_ix where
  "demo_ix = \<lparr>rx_amount_in = 10, rx_min_profit = 5, rx_min_intermediate = 1,
     rx_track_volume = False, rx_sol_is_x = False, rx_first_count = 0, rx_second_count = 1\<rparr>"

lemma demo_data_parsed: "length demo_data = 36" "route_ix_of demo_data = demo_ix"
  by (simp_all add: demo_data_def route_ix_of_fields demo_ix_def)

lemma demo_accounts_length: "length demo_accounts = 30"
  by (simp add: demo_accounts_def demo_user_def)

lemma demo_admitted: "admitted demo_pda demo_accounts demo_ix Cpmm Dlmm"
  by (simp add: admitted_def demo_ix_def sell_base_of_def identify_dex_def from_program_id_def
      demo_accounts_def demo_user_def cpmm_validate_Ok_iff dlmm_validate_Ok_iff demo_pda_def)

lemma demo_legs: "run_legs demo_cpi demo_accounts demo_ix Cpmm Dlmm demo_ledger = Ok (sold (bought demo_ledger))"
  unfolding run_legs_def
proof (rule demo_bracket)
  have "cpmm_trade 1 2 demo_accounts 3 0 10 1 =
      Ok (cpmm_swap_ix demo_accounts 3 10 1 0 11 12 1 2 13 14 15)"
    by (simp add: demo_accounts_length cpmm_trade_in_range)
  moreover have "signers_signed (cpmm_swap_ix demo_accounts 3 10 1 0 11 12 1 2 13 14 15) demo_accounts"
    unfolding cpmm_swap_ix_def by (rule slot_metas_signed) (auto simp: demo_accounts_length)
  ultimately show "execute_buy_leg demo_cpi demo_accounts Cpmm 3 (rx_first_count demo_ix)
      (rx_amount_in demo_ix) (rx_min_intermediate demo_ix) (rx_sol_is_x demo_ix) demo_ledger
    = Ok (bought demo_ledger)"
    by (simp add: execute_legs_alt demo_ix_def invoke_or_Ok_iff demo_cpi_runs)
  have "dlmm_trade 2 1 demo_accounts 16 1 5 1 =
      Ok (dlmm_swap2_ix demo_accounts 16 5 25 26 27 28 0 2 1 1)"
    by (simp add: demo_accounts_length dlmm_trade_in_range)
  moreover have "signers_signed (dlmm_swap2_ix demo_accounts 16 5 25 26 27 28 0 2 1 1) demo_accounts"
    unfolding dlmm_swap2_ix_def by (rule slot_metas_signed) (auto simp: demo_accounts_length)
  ultimately show "execute_sell_leg demo_cpi demo_accounts Dlmm (sell_base_of Cpmm demo_ix)
      (rx_second_count demo_ix) 5 1 (rx_sol_is_x demo_ix) (bought demo_ledger)
    = Ok (sold (bought demo_ledger))"
    by (simp add: execute_legs_alt demo_ix_def sell_base_of_def invoke_or_Ok_iff demo_cpi_runs)
  show "demo_accounts = demo_user @ drop 3 demo_accounts"
    by (simp add: demo_accounts_def demo_user_def)
qed (simp add: demo_ix_def)

lemma demo_orchestrate:
  "orchestrate_handle demo_pda demo_cpi demo_accounts demo_data demo_ledger = Ok (sold (bought demo_ledger))"
  using demo_admitted demo_legs by (auto simp: orchestrate_Ok_iff demo_data_parsed)

lemma demo_process:
  "process_instruction demo_pda demo_cpi 0 demo_accounts demo_data demo_ledger = Ok (sold (bought demo_ledger))"
  using demo_orchestrate by (simp add: process_eq demo_data_parsed) (simp add: demo_data_def)

section \<open>The fixed routes\<close>

definition pump_accounts :: "account_info list" where
  "pump_accounts = demo_user @
     [plain 400, plain 401, plain 7, plain 403, plain NATIVE_SOL_MINT, plain 405, plain 406,
      plain 407, plain 408, plain 409, plain 410, plain TOKEN_ID, plain TOKEN_ID, plain SYSTEM_ID,
      plain ATA_ID, plain 7, plain PUMP_SWAP_ID, plain 417, plain 418, plain 419, plain 420,
      plain 7, plain FEE_PROGRAM_ID,
      plain DLMM_ID, owned 501 DLMM_ID, plain 502, plain 503, plain 504, plain 7, plain 506,
      plain MEMO_ID, plain DLMM_EVENT_AUTH, plain 509]"

definition sell_accounts :: "account_info list" where
  "sell_accounts = demo_user @
     [plain DLMM_ID, owned 501 DLMM_ID, plain 502, plain 503, plain 504, plain 7, plain 506,
      plain MEMO_ID, plain DLMM_EVENT_AUTH, plain 509,
      plain 400, plain 401, plain 7, plain 403, plain NATIVE_SOL_MINT, plain 405, plain 406,
      plain 407, plain 408, plain 409, plain 410, plain TOKEN_ID, plain TOKEN_ID, plain SYSTEM_ID,
      plain ATA_ID, plain 7, plain PUMP_SWAP_ID, plain 417, plain 418, plain 7,
      plain FEE_PROGRAM_ID]"

definition pump_data :: "byte list" where
  "pump_data = ROUTE_PUMP_TO_DLMM_DISC @ u64_to_le 10 @ u64_to_le 5 @ u64_to_le 1 @ [0, 0, 0, 1]"

definition sell_data :: "byte list" where
  "sell_data = ROUTE_DLMM_TO_PUMP_DISC @ u64_to_le 10 @ u64_to_le 5 @ u64_to_le 1 @ [0, 0, 0, 1]"

lemma fixed_data_parsed:
  "length pump_data = 36" "route_ix_of pump_data = demo_ix"
  "length sell_data = 36" "route_ix_of sell_data = demo_ix"
  by (simp_all add: pump_data_def sell_data_def route_ix_of_fields demo_ix_def)

lemma fixed_accounts_length: "length pump_accounts = 36" "length sell_accounts = 34"
  by (simp_all add: pump_accounts_def sell_accounts_def demo_user_def)

lemma pump_ix_signed:
  "base + 23 \<le> length accounts \<Longrightarrow> signers_signed (pump_buy_ix accounts base 0 a m t) accounts"
  "base + 21 \<le> length accounts \<Longrightarrow> signers_signed (pump_sell_ix accounts base 0 a m) accounts"
proof -
  assume room: "base + 23 \<le> length accounts"
  have "fst s < 23" if "s \<in> set pump_buy_slots" for s using pump_slots_range(1) [OF that] by simp
  then have "signers_signed (pump_buy_ix accounts base 0 a m t) accounts \<longleftrightarrow> True"
    using room slot_metas_signed [of "map (\<lambda>s. (base + fst s, snd s)) pump_buy_slots" accounts]
    by (fastforce simp: pump_buy_ix_def comp_def)
  then show "signers_signed (pump_buy_ix accounts base 0 a m t) accounts" by simp
next
  assume room: "base + 21 \<le> length accounts"
  have "fst s < 21" if "s \<in> set pump_sell_slots" for s using pump_slots_range(2) [OF that] by simp
  then have "signers_signed (pump_sell_ix accounts base 0 a m) accounts \<longleftrightarrow> True"
    using room slot_metas_signed [of "map (\<lambda>s. (base + fst s, snd s)) pump_sell_slots" accounts]
    by (fastforce simp: pump_sell_ix_def comp_def)
  then show "signers_signed (pump_sell_ix accounts base 0 a m) accounts" by simp
qed

lemma swap2_ix_signed:
  assumes "base + 9 + bins \<le> length accounts"
    and "\<forall>i \<in> {xm, ym, xp, yp, user, tin, tout}. i < length accounts"
  shows "signers_signed (dlmm_swap2_ix accounts base a xm ym xp yp user tin tout bins) accounts"
  unfolding dlmm_swap2_ix_def by (rule slot_metas_signed) (use assms in auto)

lemma dlmm_ix_signed:
  assumes "dlmm_base + 9 + bins \<le> length accounts" and "pump_base + 13 \<le> length accounts"
    and "tin < length accounts" and "tout < length accounts"
  shows "signers_signed (dlmm_ix accounts sx dlmm_base pump_base a tin tout bins) accounts"
  using assms by (auto simp: dlmm_ix_def intro!: swap2_ix_signed)

lemma pump_legs:
  "pump_to_dlmm_legs demo_cpi pump_accounts demo_ix demo_ledger = Ok (sold (bought demo_ledger))"
  unfolding pump_to_dlmm_legs_def
  by (rule demo_bracket [where rest = "drop 3 pump_accounts"])
    (simp_all add: invoke_or_Ok_iff demo_cpi_runs pump_ix_signed dlmm_ix_signed fixed_accounts_length
      demo_ix_def, simp add: pump_accounts_def demo_user_def)

lemma sell_legs:
  "dlmm_to_pump_legs demo_cpi sell_accounts demo_ix demo_ledger = Ok (sold (bought demo_ledger))"
  unfolding dlmm_to_pump_legs_def
  by (rule demo_bracket [where rest = "drop 3 sell_accounts"])
    (simp_all add: invoke_or_Ok_iff demo_cpi_runs pump_ix_signed dlmm_ix_signed fixed_accounts_length
      demo_ix_def, simp add: sell_accounts_def demo_user_def)

lemma demo_counts: "counts_ok demo_ix" "rx_first_count demo_ix = 0" "rx_second_count demo_ix = 1"
  by (simp_all add: counts_ok_def demo_ix_def)

lemma pump_run:
  "pump_to_dlmm_handle demo_pda demo_cpi pump_accounts pump_data demo_ledger
     = Ok (sold (bought demo_ledger))"
  unfolding pump_to_dlmm_Ok_iff fixed_data_parsed
  by (simp add: pump_legs demo_counts fixed_accounts_length)
    (simp add: pump_section_known_def dlmm_section_known_def pump_accounts_def demo_user_def demo_pda_def)

lemma sell_run:
  "dlmm_to_pump_handle demo_pda demo_cpi sell_accounts sell_data demo_ledger
     = Ok (sold (bought demo_ledger))"
  unfolding dlmm_to_pump_Ok_iff fixed_data_parsed
  by (simp add: sell_legs demo_counts fixed_accounts_length)
    (simp add: pump_section_known_def dlmm_section_known_def sell_accounts_def demo_user_def demo_pda_def)

end
