(* ===== verification/Program_Properties.thy ===== *)
theory Program_Properties
  imports Scenario
begin

text \<open>
  What the on-chain program guarantees, stated over its entry point and its handlers. The
  proofs are applications of the components' lemmas; each property with hypotheses is followed
  by a witness at one of the runs of \<open>Scenario\<close>.
\<close>

text \<open>C1: An instruction the program accepts leaves the user's SOL value (lamports plus WSOL)
  at least the demanded profit higher than before, the demanded profit is positive, and the
  user's meme balance is exactly what it was.\<close>

theorem process_profit:
  assumes "process_instruction pda cpi program_id accounts data l = Ok l'"
  shows "3 \<le> length accounts \<and> 0 < demanded_profit data \<and>
    sol_value l (acc_key (accounts ! 0)) (acc_key (accounts ! 1)) + demanded_profit data
      \<le> sol_value l' (acc_key (accounts ! 0)) (acc_key (accounts ! 1)) \<and>
    token_amount (l' (acc_key (accounts ! 2))) = token_amount (l (acc_key (accounts ! 2)))"
  using assms by (rule program.profit)

theorem process_profit_witness:
  "sol_value demo_ledger 100 101 + 5 \<le> sol_value (sold (bought demo_ledger)) 100 101 \<and>
   demanded_profit demo_data = 5"
  using process_profit [OF demo_process]
  by (simp add: demo_accounts_def demo_user_def demanded_profit_def demo_data_parsed demo_ix_def)

text \<open>C2: No instruction data and no account list, however short or malformed, makes the
  program abort by an index or a slice out of range: it returns \<open>Ok\<close> or an error.\<close>

theorem process_no_panic:
  "process_instruction pda cpi program_id accounts data l \<noteq> Panic"
  by (rule program.no_abort)

text \<open>C3: The fixed DLMM-to-PumpSwap route is accepted exactly when the counts are in range, there are
  enough accounts, the user signed, every well-known account of both sections is the right one, and
  the bracket around the two closed-form instructions succeeds: the DLMM swap spends the requested
  amount with a minimum of one, the PumpSwap sale is of the tokens received and carries the minimum
  output of the instruction data.\<close>

theorem dlmm_to_pump_accepts:
  "dlmm_to_pump_handle pda cpi accounts data l = Ok l' \<longleftrightarrow>
     length data = 36 \<and> counts_ok (route_ix_of data) \<and>
     33 + rx_first_count (route_ix_of data) + rx_second_count (route_ix_of data) \<le> length accounts \<and>
     acc_is_signer (accounts ! 0) \<and> dlmm_section_known pda accounts 3 \<and>
     pump_section_known pda accounts (12 + rx_second_count (route_ix_of data)) 19 20 \<and>
     two_leg accounts (rx_min_profit (route_ix_of data))
       (invoke_or cpi (arb_err ARB_DLMM_CPI_FAILED)
          (dlmm_ix accounts (rx_sol_is_x (route_ix_of data)) 3 (12 + rx_second_count (route_ix_of data))
             (rx_amount_in (route_ix_of data)) 1 2 (rx_second_count (route_ix_of data))) accounts)
       (\<lambda>received. invoke_or cpi (arb_err ARB_PUMP_CPI_FAILED)
          (pump_sell_ix accounts (12 + rx_second_count (route_ix_of data))
             (rx_first_count (route_ix_of data)) received
             (rx_min_intermediate (route_ix_of data))) accounts) l = Ok l'"
  by (simp add: dlmm_to_pump_Ok_iff dlmm_to_pump_legs_def)

text \<open>C5: An accepted generic route invoked two different DEX programs: the first with the
  amount the instruction data names, the second with exactly the meme tokens the first one
  delivered; the ledger it leaves is the one the second invocation returned.\<close>

theorem orchestrate_two_swaps:
  assumes "orchestrate_handle pda cpi accounts data l = Ok l'"
  shows "\<exists>bk sk buy_ix sell_ix l1 received. bk \<noteq> sk \<and>
    ix_program_id buy_ix = dex_program bk \<and> ix_program_id sell_ix = dex_program sk \<and>
    spends buy_ix (rx_amount_in (route_ix_of data)) \<and> spends sell_ix received \<and>
    cpi buy_ix accounts l = Inr l1 \<and> cpi sell_ix accounts l1 = Inr l' \<and> 0 < unat received \<and>
    token_amount (l1 (acc_key (accounts ! 2))) = token_amount (l (acc_key (accounts ! 2))) + unat received"
proof -
  obtain bk sk where adm: "admitted pda accounts (route_ix_of data) bk sk"
    and "run_legs cpi accounts (route_ix_of data) bk sk l = Ok l'"
    using assms by (auto simp: orchestrate_Ok_iff)
  then obtain l1 received where legs:
    "execute_buy_leg cpi accounts bk 3 (rx_first_count (route_ix_of data))
       (rx_amount_in (route_ix_of data)) (rx_min_intermediate (route_ix_of data))
       (rx_sol_is_x (route_ix_of data)) l = Ok l1"
    "execute_sell_leg cpi accounts sk (sell_base_of bk (route_ix_of data))
       (rx_second_count (route_ix_of data)) received 1 (rx_sol_is_x (route_ix_of data)) l1 = Ok l'"
    and got: "0 < unat received" "token_amount (l1 (acc_key (accounts ! 2)))
       = token_amount (l (acc_key (accounts ! 2))) + unat received"
    unfolding run_legs_def two_leg_Ok_iff by blast
  obtain buy_ix where "ix_program_id buy_ix = dex_program bk"
    "spends buy_ix (rx_amount_in (route_ix_of data))" "cpi buy_ix accounts l = Inr l1"
    using legs_own_program(1) [OF _ _ _ legs(1)] adm admitted_room [OF adm]
    by (auto simp: admitted_def)
  moreover obtain sell_ix where "ix_program_id sell_ix = dex_program sk" "spends sell_ix received"
    "cpi sell_ix accounts l1 = Inr l'"
    using legs_own_program(2) [OF _ _ _ legs(2)] adm admitted_room [OF adm]
    by (auto simp: admitted_def)
  ultimately show ?thesis using got adm unfolding admitted_def by blast
qed

theorem orchestrate_two_swaps_witness:
  "\<exists>bk sk buy_ix sell_ix l1 received. bk \<noteq> sk \<and>
    ix_program_id buy_ix = dex_program bk \<and> ix_program_id sell_ix = dex_program sk \<and>
    spends buy_ix 10 \<and> spends sell_ix received \<and>
    demo_cpi buy_ix demo_accounts demo_ledger = Inr l1 \<and>
    demo_cpi sell_ix demo_accounts l1 = Inr (sold (bought demo_ledger)) \<and> 0 < unat received"
  using orchestrate_two_swaps [OF demo_orchestrate]
  by (simp add: demo_data_parsed demo_ix_def) blast

text \<open>C6: The generic route is accepted exactly when its data has 36 bytes, two different
  DEXes are found at the section bases, the user signed, both sections pass their validators,
  the balances can be read before and after, both legs go through, the first delivers meme
  tokens, and the books balance with the demanded profit.\<close>

theorem orchestrate_accepts:
  "orchestrate_handle pda cpi accounts data l = Ok l' \<longleftrightarrow>
     length data = 36 \<and>
     (\<exists>bk sk l1 received. admitted pda accounts (route_ix_of data) bk sk \<and>
        readable accounts l \<and>
        execute_buy_leg cpi accounts bk 3 (rx_first_count (route_ix_of data))
          (rx_amount_in (route_ix_of data)) (rx_min_intermediate (route_ix_of data))
          (rx_sol_is_x (route_ix_of data)) l = Ok l1 \<and>
        72 \<le> length (cell_data (l1 (acc_key (accounts ! 2)))) \<and>
        token_amount (l1 (acc_key (accounts ! 2)))
          = token_amount (l (acc_key (accounts ! 2))) + unat received \<and> 0 < unat received \<and>
        execute_sell_leg cpi accounts sk (sell_base_of bk (route_ix_of data))
          (rx_second_count (route_ix_of data)) received 1 (rx_sol_is_x (route_ix_of data)) l1 = Ok l' \<and>
        readable accounts l') \<and>
     sol_value l (acc_key (accounts ! 0)) (acc_key (accounts ! 1)) + demanded_profit data
       \<le> sol_value l' (acc_key (accounts ! 0)) (acc_key (accounts ! 1)) \<and>
     token_amount (l' (acc_key (accounts ! 2))) = token_amount (l (acc_key (accounts ! 2)))"
  unfolding orchestrate_Ok_iff run_legs_def two_leg_Ok_iff demanded_profit_def
  using admitted_room(1) by blast

text \<open>C7: Whatever the invoked programs do, a failing instruction ends with one of the
  listed error values: errors of invoked programs never leak, they are mapped to the code of
  the DEX, and the codes 6009 to 6011 are never returned.\<close>

theorem process_errors:
  assumes "process_instruction pda cpi program_id accounts data l = Err e"
  shows "e \<in> {InvalidInstructionData, InvalidAccountData, MissingRequiredSignature, ArithmeticOverflow}
    \<union> Custom ` {6000, 6001, 6002, 6003, 6004, 6005, 6006, 6007, 6008, 6100, 6200, 6300, 6400, 6500}"
  using process_Err [OF assms] by (simp add: program_errors_def)

theorem process_errors_witness:
  "InvalidInstructionData \<in> {InvalidInstructionData, InvalidAccountData, MissingRequiredSignature,
     ArithmeticOverflow}
    \<union> Custom ` {6000, 6001, 6002, 6003, 6004, 6005, 6006, 6007, 6008, 6100, 6200, 6300, 6400, 6500}"
  by (rule process_errors [where data = "[]" and accounts = "[]"]) (simp add: process_eq)

text \<open>C8: The fixed PumpSwap-to-DLMM route is accepted exactly when the counts are in
  range, there are enough accounts, the user signed, every well-known account of both sections
  is the right one, and the bracket around the two closed-form instructions succeeds.\<close>

theorem pump_to_dlmm_accepts:
  "pump_to_dlmm_handle pda cpi accounts data l = Ok l' \<longleftrightarrow>
     length data = 36 \<and> counts_ok (route_ix_of data) \<and>
     35 + rx_first_count (route_ix_of data) + rx_second_count (route_ix_of data) \<le> length accounts \<and>
     acc_is_signer (accounts ! 0) \<and> pump_section_known pda accounts 3 21 22 \<and>
     dlmm_section_known pda accounts (26 + rx_first_count (route_ix_of data)) \<and>
     two_leg accounts (rx_min_profit (route_ix_of data))
       (invoke_or cpi (arb_err ARB_PUMP_CPI_FAILED)
          (pump_buy_ix accounts 3 (rx_first_count (route_ix_of data)) (rx_amount_in (route_ix_of data))
             (rx_min_intermediate (route_ix_of data)) (rx_track_volume (route_ix_of data))) accounts)
       (\<lambda>received. invoke_or cpi (arb_err ARB_DLMM_CPI_FAILED)
          (dlmm_ix accounts (rx_sol_is_x (route_ix_of data)) (26 + rx_first_count (route_ix_of data)) 3
             received 2 1 (rx_second_count (route_ix_of data))) accounts) l = Ok l'"
  by (simp add: pump_to_dlmm_Ok_iff pump_to_dlmm_legs_def)

text \<open>The program dispatches on the first eight bytes: each of the three discriminators
  reaches its own handler with the whole data, data of seven bytes or fewer is refused as
  invalid instruction data and any other discriminator with code 6003.\<close>

lemma process_dispatch:
  assumes "length disc = 8"
    and "disc \<notin> {ROUTE_PUMP_TO_DLMM_DISC, ROUTE_DLMM_TO_PUMP_DISC, ROUTE_DISC}"
  shows "process_instruction pda cpi program_id accounts (ROUTE_PUMP_TO_DLMM_DISC @ args) l
      = pump_to_dlmm_handle pda cpi accounts (ROUTE_PUMP_TO_DLMM_DISC @ args) l \<and>
    process_instruction pda cpi program_id accounts (ROUTE_DLMM_TO_PUMP_DISC @ args) l
      = dlmm_to_pump_handle pda cpi accounts (ROUTE_DLMM_TO_PUMP_DISC @ args) l \<and>
    process_instruction pda cpi program_id accounts (ROUTE_DISC @ args) l
      = orchestrate_handle pda cpi accounts (ROUTE_DISC @ args) l \<and>
    process_instruction pda cpi program_id accounts (take 7 args) l = Err InvalidInstructionData \<and>
    process_instruction pda cpi program_id accounts (disc @ args) l = Err (Custom 6003)"
  using assms by (simp add: process_eq min_less_iff_disj)

lemma process_dispatch_witness:
  "process_instruction demo_pda demo_cpi 0 [] [0, 0, 0, 0, 0, 0, 0, 0] demo_ledger = Err (Custom 6003)"
proof -
  have "[0, 0, 0, 0, 0, 0, 0, 0] \<notin> {ROUTE_PUMP_TO_DLMM_DISC, ROUTE_DLMM_TO_PUMP_DISC, ROUTE_DISC}"
    by (simp add: ROUTE_PUMP_TO_DLMM_DISC_def ROUTE_DLMM_TO_PUMP_DISC_def ROUTE_DISC_def)
  from process_dispatch [OF _ this, of demo_pda demo_cpi 0 "[]" "[]" demo_ledger]
  show ?thesis by simp
qed

text \<open>C9: Under the rule of the runtime that an invoked instruction's signers must have signed,
  and as long as nobody signs for the derived authority address, a generic route with a
  Whirlpool section on either side is never accepted: the leg is invoked without the signer
  seeds its builder asks the caller for.\<close>

theorem whirlpool_never_accepted:
  assumes "\<forall>ix l l'. cpi ix accounts l = Inr l' \<longrightarrow> signers_signed ix accounts"
    and "\<forall>a \<in> set accounts. acc_is_signer a \<longrightarrow> acc_key a \<noteq> pda [WHIRLPOOL_AUTH_SEED] WHIRLPOOL_ID"
    and "orchestrate_handle pda cpi accounts data l = Ok l'"
  shows "\<exists>bk sk. identify_dex accounts 3 = Some bk \<and>
    identify_dex accounts (sell_base_of bk (route_ix_of data)) = Some sk \<and>
    bk \<noteq> Whirlpool \<and> sk \<noteq> Whirlpool"
proof -
  obtain bk sk where adm: "admitted pda accounts (route_ix_of data) bk sk"
    and "run_legs cpi accounts (route_ix_of data) bk sk l = Ok l'"
    using assms(3) by (auto simp: orchestrate_Ok_iff)
  then obtain l1 received where legs:
    "execute_buy_leg cpi accounts bk 3 (rx_first_count (route_ix_of data))
       (rx_amount_in (route_ix_of data)) (rx_min_intermediate (route_ix_of data))
       (rx_sol_is_x (route_ix_of data)) l = Ok l1"
    "execute_sell_leg cpi accounts sk (sell_base_of bk (route_ix_of data))
       (rx_second_count (route_ix_of data)) received 1 (rx_sol_is_x (route_ix_of data)) l1 = Ok l'"
    unfolding run_legs_def two_leg_Ok_iff by blast
  note room = admitted_room [OF adm]
  have unsigned: "\<not> signers_signed (whirlpool_swap_ix accounts base n a m d tp tin tout) accounts"
    if "validate_dex_section pda accounts Whirlpool base n = Ok ()" for base n a m d tp tin tout
    using that assms(2) by (auto dest: whirlpool_unsigned)
  have "bk \<noteq> Whirlpool"
  proof
    assume w: "bk = Whirlpool"
    from whirlpool_leg_Ok_signed [of accounts _ _ cpi, OF room(1) _ assms(1)] legs(1) room(2)
    show False using adm unsigned unfolding w admitted_def fixed_len.simps WHIRLPOOL_SECTION_FIXED_LEN_def
      by blast
  qed
  moreover have "sk \<noteq> Whirlpool"
  proof
    assume w: "sk = Whirlpool"
    from whirlpool_leg_Ok_signed [of accounts _ _ cpi, OF room(1) _ assms(1)] legs(2) room(3)
    show False using adm unsigned unfolding w admitted_def fixed_len.simps WHIRLPOOL_SECTION_FIXED_LEN_def
      by blast
  qed
  ultimately show ?thesis using adm by (auto simp: admitted_def)
qed

theorem whirlpool_never_accepted_witness:
  "\<exists>bk sk. identify_dex demo_accounts 3 = Some bk \<and>
    identify_dex demo_accounts (sell_base_of bk demo_ix) = Some sk \<and>
    bk \<noteq> Whirlpool \<and> sk \<noteq> Whirlpool"
proof -
  have "\<forall>ix l l'. demo_cpi ix demo_accounts l = Inr l' \<longrightarrow> signers_signed ix demo_accounts"
    by (auto simp: demo_cpi_def)
  moreover have "\<forall>a \<in> set demo_accounts. acc_is_signer a \<longrightarrow>
      acc_key a \<noteq> demo_pda [WHIRLPOOL_AUTH_SEED] WHIRLPOOL_ID"
    by (simp add: demo_accounts_def demo_user_def demo_pda_def)
  ultimately show ?thesis
    using whirlpool_never_accepted [OF _ _ demo_orchestrate] by (simp add: demo_data_parsed)
qed

text \<open>The DLMM instruction of a generic route names as its bin arrays the accounts that
  follow the ninth slot of the section, that is the two mints and the two token programs first,
  although the section it was validated as has its bin arrays after the thirteenth slot.\<close>

lemma generic_dlmm_bin_arrays:
  assumes "base + DLMM_SECTION_FIXED_LEN + n \<le> length accounts" and "3 \<le> length accounts"
  shows "\<exists>ix. build_swap2_cpi accounts base amount (base + DLMM_TOKEN_X_MINT_OFF)
      (base + DLMM_TOKEN_Y_MINT_OFF) (base + DLMM_TOKEN_X_PROG_OFF) (base + DLMM_TOKEN_Y_PROG_OFF)
      USER_IDX USER_SOL_ATA_IDX USER_MEME_ATA_IDX n = Ok ix \<and>
    map meta_pubkey (drop 16 (ix_accounts ix)) = map acc_key (take n (drop (base + 9) accounts)) \<and>
    (\<forall>m \<in> set (drop 16 (ix_accounts ix)). meta_is_writable m)"
proof -
  have room: "base + 13 + n \<le> length accounts" using assms(1) by simp
  have "dlmm_trade 1 2 accounts base n amount 1 = Ok (dlmm_swap2_ix accounts base amount
      (base + 9) (base + 10) (base + 11) (base + 12) 0 1 2 n)"
    by (rule dlmm_trade_in_range [OF room]) (use assms(2) in auto)
  then show ?thesis
    using dlmm_bin_slots [OF room, of amount "base + 9" "base + 10" "base + 11" "base + 12" 0 1 2]
    by (auto simp: dlmm_trade_def dlmm_swap2_ix_def)
qed

end
