(* ===== verification/Client_Constants.thy ===== *)
theory Client_Constants
  imports Dex_Sections
begin

text \<open>
  The constants of the bot, \<open>src/src/constants.rs\<close>, in its order. Addresses are base-58 strings
  there; \<open>Pubkey::from_str\<close> of one of them is the key \<open>pubkey_lit\<close> reads. Names that the on-chain
  program uses too carry the suffix \<open>_C\<close>. The source warns that a number of them must match
  the on-chain file; the lemmas at the end say that they do.
\<close>

definition CPMM_PROGRAM :: string where
  "CPMM_PROGRAM = ''CPMMoo8L3F4NbTegBCKVNunggL7H1ZpdTHKxQB5qKP1C''"

definition AMM_V4_PROGRAM :: string where
  "AMM_V4_PROGRAM = ''675kPX9MHTjS2zt1qfr1NYHuzeLXfQM9H24wFSUt1Mp8''"

definition PUMPFUN_AMM_PROGRAM :: string where
  "PUMPFUN_AMM_PROGRAM = ''pAMMBay6oceH9fJKBRHGP5D4bD4sWpmSwMn52FMfXEA''"

definition PUMPFUN_BONDING_CURVE_PROGRAM :: string where
  "PUMPFUN_BONDING_CURVE_PROGRAM = ''6EF8rrecthR5Dkzon8Nwu78hRvfCKubJ14M5uBEwF6P''"

definition DLMM_PROGRAM :: string where
  "DLMM_PROGRAM = ''LBUZKhRxPF3XUpBCjp4YzTKgLccjZhTSDM9YuVaPwxo''"

definition TOKEN_PROGRAM :: string where
  "TOKEN_PROGRAM = ''TokenkegQfeZyiNwAJbNbGKPFXCWuBvf9Ss623VQ5DA''"

definition TOKEN22_PROGRAM :: string where
  "TOKEN22_PROGRAM = ''TokenzQdBNbLqP5VEhdkAS6EPFLC1PHnBqCXEpPxuEb''"

definition MEMO_PROGRAM :: string where
  "MEMO_PROGRAM = ''MemoSq4gqABAXKb96qnH8TysNcWxMyWCqXgDLGmfcHr''"

definition ATA_PROGRAM :: string where
  "ATA_PROGRAM = ''ATokenGPvbdGVxr1b2hvZbsiqW5xWH25efTNsLJA8knL''"

definition SERUM_PROGRAM :: string where
  "SERUM_PROGRAM = ''srmqPvymJeFKQ4zGQed1GFppgkRHL9kaELCbyksJtPX''"

definition WHIRLPOOL_PROGRAM :: string where
  "WHIRLPOOL_PROGRAM = ''whirLbMiicVdio4qvUfM5KAg6Ct8VwpYzGff3uctyCc''"

definition SYSVAR_RENT :: string where
  "SYSVAR_RENT = ''SysvarRent111111111111111111111111111111111''"

definition NATIVE_SOL_MINT_C :: string where
  "NATIVE_SOL_MINT_C = ''So11111111111111111111111111111111111111112''"

definition USDC_MINT :: string where
  "USDC_MINT = ''EPjFWdd5AufqSSqeM2qN1xzybapC8G4wEGGkZwyTDt1v''"

definition USDT_MINT :: string where
  "USDT_MINT = ''Es9vMFrzaCERmJfrF4H2FYD4KCoNkY11McCe8BenwNYB''"

definition SOL_DECIMALS :: byte where
  "SOL_DECIMALS = 9"

definition USDC_DECIMALS :: byte where
  "USDC_DECIMALS = 6"

definition DEFAULT_DECIMALS :: byte where
  "DEFAULT_DECIMALS = 6"

definition CPMM_AMM_CONFIG_C :: string where
  "CPMM_AMM_CONFIG_C = ''D4FPEruKEHrG5TenZ2mpDGEfu1iUvTiqBxvpU8HLBvC2''"

definition WHIRLPOOL_CONFIG_C :: string where
  "WHIRLPOOL_CONFIG_C = ''2LecshUwdy9xi7meFgHtFJQNSKk4KdTrcpvaB56dP2NQ''"

definition CPMM_SWAP_DISCRIMINATOR :: "byte list" where
  "CPMM_SWAP_DISCRIMINATOR = [0xf8, 0xc6, 0x9e, 0x91, 0xe1, 0x75, 0x87, 0xc8]"

definition AMMV4_SWAP_DISCRIMINATOR :: "byte list" where
  "AMMV4_SWAP_DISCRIMINATOR = [0x09, 0x00, 0x00, 0x00, 0x00, 0x00, 0x00, 0x00]"

definition AMMV4_SWAP_OUT_DISCRIMINATOR :: "byte list" where
  "AMMV4_SWAP_OUT_DISCRIMINATOR = [0x0a, 0x00, 0x00, 0x00, 0x00, 0x00, 0x00, 0x00]"

definition PUMPFUN_BUY_DISCRIMINATOR :: "byte list" where
  "PUMPFUN_BUY_DISCRIMINATOR = [0x67, 0xf4, 0x52, 0x1f, 0x2c, 0xf5, 0x77, 0x77]"

definition PUMPFUN_SELL_DISCRIMINATOR :: "byte list" where
  "PUMPFUN_SELL_DISCRIMINATOR = [0x3e, 0x2f, 0x37, 0x0a, 0xa5, 0x03, 0xdc, 0x2a]"

definition PUMPSWAP_BUY_DISCRIMINATOR :: "byte list" where
  "PUMPSWAP_BUY_DISCRIMINATOR = [0xc6, 0x2e, 0x15, 0x52, 0xb4, 0xd9, 0xe8, 0x70]"

definition PUMPSWAP_SELL_DISCRIMINATOR :: "byte list" where
  "PUMPSWAP_SELL_DISCRIMINATOR = [0x33, 0xe6, 0x85, 0xa4, 0x01, 0x7f, 0x83, 0xad]"

definition DLMM_SWAP2_DISCRIMINATOR :: "byte list" where
  "DLMM_SWAP2_DISCRIMINATOR = [0x41, 0x4b, 0x3f, 0x4c, 0xeb, 0x5b, 0x5b, 0x88]"

definition DLMM_EVENT_AUTHORITY :: string where
  "DLMM_EVENT_AUTHORITY = ''D1ZN9Wj1fRSUQfCjhvnu1hqDMT7hzjzBBpi12nVniYD6''"

definition DLMM_ORACLE :: string where
  "DLMM_ORACLE = ''5DmhHY4YTvqRMTaL1tPBWY5S8J4oCLq3sCMbvrvnZKu8''"

definition PUMPSWAP_EVENT_AUTHORITY :: string where
  "PUMPSWAP_EVENT_AUTHORITY = ''GS4CU59F31iL7aR2Q8zVS8DRrcRnXX1yjQ66TqNVQnaR''"

definition PUMPSWAP_GLOBAL_CONFIG :: string where
  "PUMPSWAP_GLOBAL_CONFIG = ''ADyA8hdefvWN2dbGGWFotbzWxrAvLW83WG6QCVXvJKqw''"

definition PUMPSWAP_FEE_PROGRAM :: string where
  "PUMPSWAP_FEE_PROGRAM = ''pfeeUxB6jkeY1Hxd7CsFCAjcbHA9rWtchMGdZ6VojVZ''"

definition PUMPSWAP_GLOBAL_VOLUME_ACCUMULATOR :: string where
  "PUMPSWAP_GLOBAL_VOLUME_ACCUMULATOR = ''C2aFPdENg4A2HQsmrd5rTw5TaYBX5Ku887cWjbFKtZpw''"

definition PUMPSWAP_PROTOCOL_FEE_RECIPIENTS :: "string list" where
  "PUMPSWAP_PROTOCOL_FEE_RECIPIENTS =
    [''62qc2CNXwrYqQScmEdiZFFAnJR262PxWEuNQtxfafNgV'',
     ''7VtfL8fvgNfhz17qKRMjzQEXgbdpnHHHQRh54R9jP2RJ'',
     ''7hTckgnGnLQR6sdH7YkqFTAA7VwTfYFaZ6EhEsU3saCX'',
     ''9rPYyANsfQZw3DnDmKE3YCQF5E8oD89UXoHn9JFEhJUz'',
     ''AVmoTthdrX6tKt4nDjco2D775W2YK3sDhxPcMmzUAmTY'',
     ''FWsW1xNtWscwNmKv6wVsU1iTzRN6wmmk3MjxRP5tT7hz'',
     ''G5UZAVbAf46s7cKWoyKu8kYTip9DGTpbLZ2qa9Aq69dP'',
     ''JCRGumoE9Qi5BBgULTgdgTLjSgkCMSbF62ZZfGs84JeU'']"

definition PUMPSWAP_RESERVED_FEE_RECIPIENTS :: "string list" where
  "PUMPSWAP_RESERVED_FEE_RECIPIENTS =
    [''GesfTA3X2arioaHp8bbKdjG9vJtskViWACZoYvxp4twS'',
     ''4budycTjhs9fD6xw62VBducVTNgMgJJ5BgtKq7mAZwn6'',
     ''8SBKzEQU4nLSzcwF4a74F2iaUDQyTfjGndn6qUWBnrpR'',
     ''4UQeTP1T39KZ9Sfxzo3WR5skgsaP6NZa87BAkuazLEKH'',
     ''8sNeir4QsLsJdYpc9RZacohhK1Y5FLU3nC5LXgYB4aa6'',
     ''Fh9HmeLNUMVCvejxCtCL2DbYaRyBFVJ5xrWkLnMH6fdk'',
     ''463MEnMeGyJekNZFQSTUABBEbLnvMTALbT6ZmsxAbAdq'',
     ''6AUH3WEHucYZyC61hqpqYUWVto5qA5hjHuNQ32GNnNxA'']"

definition PUMPSWAP_BUYBACK_FEE_RECIPIENT :: string where
  "PUMPSWAP_BUYBACK_FEE_RECIPIENT = ''5YxQFdt3Tr9zJLvkFccqXVUwhdTWJQc1fFg2YPbxvxeD''"

definition ROUTE_PUMP_TO_DLMM_DISC_C :: "byte list" where
  "ROUTE_PUMP_TO_DLMM_DISC_C = [0x8b, 0xe8, 0x20, 0x55, 0xc1, 0xb0, 0xc1, 0xe9]"

definition ROUTE_DLMM_TO_PUMP_DISC_C :: "byte list" where
  "ROUTE_DLMM_TO_PUMP_DISC_C = [0x17, 0x6e, 0xcc, 0x5d, 0xdd, 0x93, 0x51, 0x95]"

definition ROUTE_DISC_C :: "byte list" where
  "ROUTE_DISC_C = [0x5f, 0x0f, 0x91, 0x02, 0x9a, 0x03, 0x4c, 0xc3]"

definition DEX_KIND_PUMPSWAP_C :: byte where
  "DEX_KIND_PUMPSWAP_C = 0"

definition DEX_KIND_DLMM_C :: byte where
  "DEX_KIND_DLMM_C = 1"

definition DEX_KIND_CPMM_C :: byte where
  "DEX_KIND_CPMM_C = 2"

definition DEX_KIND_WHIRLPOOL_C :: byte where
  "DEX_KIND_WHIRLPOOL_C = 3"

section \<open>Agreement with the on-chain program\<close>

lemma client_keys [simp]:
  "pubkey_lit CPMM_PROGRAM = CPMM_ID"
  "pubkey_lit PUMPFUN_AMM_PROGRAM = PUMP_SWAP_ID"
  "pubkey_lit DLMM_PROGRAM = DLMM_ID"
  "pubkey_lit WHIRLPOOL_PROGRAM = WHIRLPOOL_ID"
  "pubkey_lit TOKEN_PROGRAM = TOKEN_ID"
  "pubkey_lit TOKEN22_PROGRAM = TOKEN22_ID"
  "pubkey_lit MEMO_PROGRAM = MEMO_ID"
  "pubkey_lit ATA_PROGRAM = ATA_ID"
  "pubkey_lit PUMPSWAP_FEE_PROGRAM = FEE_PROGRAM_ID"
  "pubkey_lit DLMM_EVENT_AUTHORITY = DLMM_EVENT_AUTH"
  "pubkey_lit NATIVE_SOL_MINT_C = NATIVE_SOL_MINT"
  "pubkey_lit CPMM_AMM_CONFIG_C = CPMM_AMM_CONFIG"
  "pubkey_lit WHIRLPOOL_CONFIG_C = WHIRLPOOL_CONFIG"
  by (simp_all only: CPMM_PROGRAM_def CPMM_ID_def PUMPFUN_AMM_PROGRAM_def PUMP_SWAP_ID_def
      DLMM_PROGRAM_def DLMM_ID_def WHIRLPOOL_PROGRAM_def WHIRLPOOL_ID_def TOKEN_PROGRAM_def TOKEN_ID_def
      TOKEN22_PROGRAM_def TOKEN22_ID_def MEMO_PROGRAM_def MEMO_ID_def ATA_PROGRAM_def ATA_ID_def
      PUMPSWAP_FEE_PROGRAM_def FEE_PROGRAM_ID_def DLMM_EVENT_AUTHORITY_def DLMM_EVENT_AUTH_def
      NATIVE_SOL_MINT_C_def NATIVE_SOL_MINT_def CPMM_AMM_CONFIG_C_def CPMM_AMM_CONFIG_def
      WHIRLPOOL_CONFIG_C_def WHIRLPOOL_CONFIG_def)

lemma client_bytes [simp]:
  "ROUTE_PUMP_TO_DLMM_DISC_C = ROUTE_PUMP_TO_DLMM_DISC"
  "ROUTE_DLMM_TO_PUMP_DISC_C = ROUTE_DLMM_TO_PUMP_DISC"
  "ROUTE_DISC_C = ROUTE_DISC"
  "CPMM_SWAP_DISCRIMINATOR = CPMM_SWAP_DISC"
  "PUMPSWAP_BUY_DISCRIMINATOR = PUMP_BUY_DISC"
  "PUMPSWAP_SELL_DISCRIMINATOR = PUMP_SELL_DISC"
  "DLMM_SWAP2_DISCRIMINATOR = DLMM_SWAP2_DISC"
  "DEX_KIND_PUMPSWAP_C = DEX_KIND_PUMPSWAP"
  "DEX_KIND_DLMM_C = DEX_KIND_DLMM"
  "DEX_KIND_CPMM_C = DEX_KIND_CPMM"
  "DEX_KIND_WHIRLPOOL_C = DEX_KIND_WHIRLPOOL"
  by (simp_all add: ROUTE_PUMP_TO_DLMM_DISC_C_def ROUTE_PUMP_TO_DLMM_DISC_def
      ROUTE_DLMM_TO_PUMP_DISC_C_def ROUTE_DLMM_TO_PUMP_DISC_def ROUTE_DISC_C_def ROUTE_DISC_def
      CPMM_SWAP_DISCRIMINATOR_def CPMM_SWAP_DISC_def PUMPSWAP_BUY_DISCRIMINATOR_def PUMP_BUY_DISC_def
      PUMPSWAP_SELL_DISCRIMINATOR_def PUMP_SELL_DISC_def DLMM_SWAP2_DISCRIMINATOR_def
      DLMM_SWAP2_DISC_def
      DEX_KIND_PUMPSWAP_C_def DEX_KIND_DLMM_C_def DEX_KIND_CPMM_C_def DEX_KIND_WHIRLPOOL_C_def)

lemma system_program_lit [simp]: "pubkey_lit ''11111111111111111111111111111111'' = SYSTEM_ID"
  by (simp only: SYSTEM_ID_def)

end
