(* ===== verification/Client_Instructions.thy ===== *)
theory Client_Instructions
  imports Client_Constants "HOL-Library.Monad_Syntax"
begin

text \<open>
  The instruction builders of the bot: \<open>simulator/mod.rs\<close> (associated token accounts),
  \<open>simulator/pumpswap/*.rs\<close>, \<open>simulator/dlmm/mod.rs\<close>, \<open>simulator/cpmm.rs\<close>, \<open>simulator/ammv4.rs\<close>,
  \<open>simulator/bonding_curve.rs\<close> and the small builders of \<open>executor/atomic/helpers.rs\<close>. They are
  pure; addresses come from the parameter \<open>pda\<close> as in the on-chain part.
\<close>

section \<open>Associated token accounts\<close>

definition create_ata_idempotent_ix_v2 :: "pubkey \<Rightarrow> pubkey \<Rightarrow> pubkey \<Rightarrow> pubkey \<Rightarrow> pubkey \<Rightarrow> instruction" where
  "create_ata_idempotent_ix_v2 payer ata wallet mint token_program =
     (let ata_program = pubkey_lit ATA_PROGRAM;
          system_program = pubkey_lit ''11111111111111111111111111111111'';
          sysvar_rent = pubkey_lit SYSVAR_RENT in
      \<lparr>ix_program_id = ata_program,
       ix_accounts =
         [meta_new payer True,
          meta_new ata False,
          meta_readonly wallet False,
          meta_readonly mint False,
          meta_readonly system_program False,
          meta_readonly token_program False,
          meta_readonly sysvar_rent False],
       ix_data = [1]\<rparr>)"

definition ata_addr :: "pda_fn \<Rightarrow> pubkey \<Rightarrow> pubkey \<Rightarrow> pubkey \<Rightarrow> pubkey" where
  "ata_addr pda wallet mint token_program =
     (let ata_program = pubkey_lit ATA_PROGRAM in
      pda [key_bytes wallet, key_bytes token_program, key_bytes mint] ata_program)"

section \<open>Wrapping and unwrapping SOL\<close>

definition system_transfer_ix :: "pubkey \<Rightarrow> pubkey \<Rightarrow> u64 \<Rightarrow> instruction" where
  "system_transfer_ix from_key to_key lamports =
     \<lparr>ix_program_id = pubkey_lit ''11111111111111111111111111111111'',
      ix_accounts = [meta_new from_key True, meta_new to_key False],
      ix_data = u32_to_le 2 @ u64_to_le lamports\<rparr>"

definition sync_native_ix :: "pubkey \<Rightarrow> pubkey \<Rightarrow> instruction" where
  "sync_native_ix wsol_ata token_program =
     \<lparr>ix_program_id = token_program, ix_accounts = [meta_new wsol_ata False], ix_data = [17]\<rparr>"

definition close_wsol_ata_ix :: "pubkey \<Rightarrow> pubkey \<Rightarrow> pubkey \<Rightarrow> instruction" where
  "close_wsol_ata_ix wsol_ata wallet token_program =
     \<lparr>ix_program_id = token_program,
      ix_accounts = [meta_new wsol_ata False, meta_new wallet False, meta_readonly wallet False],
      ix_data = [9]\<rparr>"

section \<open>PumpSwap addresses and pool metadata\<close>

definition pumpswap_user_vol_accumulator :: "pda_fn \<Rightarrow> pubkey \<Rightarrow> pubkey" where
  "pumpswap_user_vol_accumulator pda user =
     pda [byte_string ''user_volume_accumulator'', key_bytes user] (pubkey_lit PUMPFUN_AMM_PROGRAM)"

definition pumpswap_coin_creator_vault_authority :: "pda_fn \<Rightarrow> pubkey \<Rightarrow> pubkey" where
  "pumpswap_coin_creator_vault_authority pda coin_creator =
     pda [byte_string ''creator_vault'', key_bytes coin_creator] (pubkey_lit PUMPFUN_AMM_PROGRAM)"

definition pumpswap_coin_creator_vault_ata :: "pda_fn \<Rightarrow> pubkey \<Rightarrow> pubkey \<Rightarrow> pubkey \<Rightarrow> pubkey" where
  "pumpswap_coin_creator_vault_ata pda authority quote_mint quote_token_program =
     ata_addr pda authority quote_mint quote_token_program"

definition pumpswap_fee_config_pda :: "pda_fn \<Rightarrow> pubkey" where
  "pumpswap_fee_config_pda pda =
     (let fee_program = pubkey_lit PUMPSWAP_FEE_PROGRAM;
          pump_amm = pubkey_lit PUMPFUN_AMM_PROGRAM in
      pda [byte_string ''fee_config'', key_bytes pump_amm] fee_program)"

definition pumpswap_pool_v2_pda :: "pda_fn \<Rightarrow> pubkey \<Rightarrow> pubkey" where
  "pumpswap_pool_v2_pda pda base_mint =
     pda [byte_string ''pool-v2'', key_bytes base_mint] (pubkey_lit PUMPFUN_AMM_PROGRAM)"

definition pumpswap_pool_pda :: "pda_fn \<Rightarrow> pubkey \<Rightarrow> pubkey \<Rightarrow> pubkey" where
  "pumpswap_pool_pda pda creator base_mint =
     (let program = pubkey_lit PUMPFUN_AMM_PROGRAM; sol_mint = pubkey_lit NATIVE_SOL_MINT_C in
      pda [byte_string ''pool'', to_le 2 0, key_bytes creator, key_bytes base_mint, key_bytes sol_mint]
        program)"

definition pumpswap_user_vol_accumulator_quote_ata :: "pda_fn \<Rightarrow> pubkey \<Rightarrow> pubkey \<Rightarrow> pubkey \<Rightarrow> pubkey" where
  "pumpswap_user_vol_accumulator_quote_ata pda user quote_mint quote_token_program =
     (let vol_accum = pumpswap_user_vol_accumulator pda user in
      ata_addr pda vol_accum quote_mint quote_token_program)"

record pool_meta =
  pm_coin_creator :: pubkey
  pm_is_mayhem_mode :: bool
  pm_is_cashback_coin :: bool
  pm_pool_base_token_account :: pubkey
  pm_pool_quote_token_account :: pubkey

text \<open>The slices are behind length checks, so the conversions to arrays cannot fail.\<close>

definition sub_bytes :: "byte list \<Rightarrow> nat \<Rightarrow> nat \<Rightarrow> byte list" where
  "sub_bytes data a b = take (b - a) (drop a data)"

definition parse_pumpswap_pool_meta :: "byte list \<Rightarrow> pool_meta option" where
  "parse_pumpswap_pool_meta data =
     (if length data < 203 then None
      else Some
        \<lparr>pm_coin_creator =
           (if length data \<ge> 243 then key_of_bytes (sub_bytes data 211 243) else 0),
         pm_is_mayhem_mode = (length data \<ge> 244 \<and> data ! 243 \<noteq> 0),
         pm_is_cashback_coin = (length data \<ge> 245 \<and> data ! 244 \<noteq> 0),
         pm_pool_base_token_account = key_of_bytes (sub_bytes data 139 171),
         pm_pool_quote_token_account = key_of_bytes (sub_bytes data 171 203)\<rparr>)"

text \<open>The first key of the list for the pool's mode.\<close>

definition pick_pumpswap_protocol_fee_recipient :: "bool \<Rightarrow> pubkey" where
  "pick_pumpswap_protocol_fee_recipient is_mayhem_mode =
     (let keys = (if is_mayhem_mode then PUMPSWAP_RESERVED_FEE_RECIPIENTS
                  else PUMPSWAP_PROTOCOL_FEE_RECIPIENTS) in
      pubkey_lit (keys ! 0))"

section \<open>PumpSwap instructions\<close>

definition build_pumpswap_buy_ix :: "pda_fn \<Rightarrow> pubkey \<Rightarrow> pubkey \<Rightarrow> pubkey \<Rightarrow> pubkey \<Rightarrow> pubkey \<Rightarrow> pubkey
    \<Rightarrow> pubkey \<Rightarrow> pubkey \<Rightarrow> pubkey \<Rightarrow> pubkey \<Rightarrow> u64 \<Rightarrow> u64 \<Rightarrow> bool \<Rightarrow> pubkey \<Rightarrow> bool \<Rightarrow> pubkey \<Rightarrow> pubkey
    \<Rightarrow> instruction" where
  "build_pumpswap_buy_ix pda user pool base_mint quote_mint user_base_ata user_quote_ata
      pool_base_ata pool_quote_ata base_token_program quote_token_program spendable_quote_in
      min_base_amount_out track_volume coin_creator is_cashback_coin buyback_recipient
      protocol_fee_recipient =
     (let pump_program = pubkey_lit PUMPFUN_AMM_PROGRAM;
          system_program = pubkey_lit ''11111111111111111111111111111111'';
          ata_program = pubkey_lit ATA_PROGRAM;
          global_config = pubkey_lit PUMPSWAP_GLOBAL_CONFIG;
          event_authority = pubkey_lit PUMPSWAP_EVENT_AUTHORITY;
          global_vol_accum = pubkey_lit PUMPSWAP_GLOBAL_VOLUME_ACCUMULATOR;
          fee_program = pubkey_lit PUMPSWAP_FEE_PROGRAM;
          protocol_fee_recipient_ata = ata_addr pda protocol_fee_recipient quote_mint quote_token_program;
          creator_vault_authority = pumpswap_coin_creator_vault_authority pda coin_creator;
          creator_vault_ata = pumpswap_coin_creator_vault_ata pda creator_vault_authority quote_mint
            quote_token_program;
          fee_config = pumpswap_fee_config_pda pda;
          user_vol_accum = pumpswap_user_vol_accumulator pda user;
          accounts =
            [meta_new pool False,
             meta_new user True,
             meta_readonly global_config False,
             meta_readonly base_mint False,
             meta_readonly quote_mint False,
             meta_new user_base_ata False,
             meta_new user_quote_ata False,
             meta_new pool_base_ata False,
             meta_new pool_quote_ata False,
             meta_readonly protocol_fee_recipient False,
             meta_new protocol_fee_recipient_ata False,
             meta_readonly base_token_program False,
             meta_readonly quote_token_program False,
             meta_readonly system_program False,
             meta_readonly ata_program False,
             meta_readonly event_authority False,
             meta_readonly pump_program False,
             meta_new creator_vault_ata False,
             meta_readonly creator_vault_authority False,
             meta_readonly global_vol_accum False,
             meta_new user_vol_accum False,
             meta_readonly fee_config False,
             meta_readonly fee_program False];
          cashback =
            (if is_cashback_coin
             then [meta_new (pumpswap_user_vol_accumulator_quote_ata pda user quote_mint
                     quote_token_program) False]
             else []);
          pool_v2 =
            (if coin_creator \<noteq> 0 then [meta_readonly (pumpswap_pool_v2_pda pda base_mint) False] else []);
          buyback_recipient_ata = ata_addr pda buyback_recipient quote_mint quote_token_program in
      \<lparr>ix_program_id = pump_program,
       ix_accounts = accounts @ cashback @ pool_v2
         @ [meta_readonly buyback_recipient False, meta_new buyback_recipient_ata False],
       ix_data = PUMPSWAP_BUY_DISCRIMINATOR @ u64_to_le spendable_quote_in
         @ u64_to_le min_base_amount_out @ [of_bool track_volume]\<rparr>)"

definition build_pumpswap_sell_ix :: "pda_fn \<Rightarrow> pubkey \<Rightarrow> pubkey \<Rightarrow> pubkey \<Rightarrow> pubkey \<Rightarrow> pubkey \<Rightarrow> pubkey
    \<Rightarrow> pubkey \<Rightarrow> pubkey \<Rightarrow> pubkey \<Rightarrow> pubkey \<Rightarrow> u64 \<Rightarrow> u64 \<Rightarrow> pubkey \<Rightarrow> bool \<Rightarrow> pubkey \<Rightarrow> pubkey
    \<Rightarrow> instruction" where
  "build_pumpswap_sell_ix pda user pool base_mint quote_mint user_base_ata user_quote_ata
      pool_base_ata pool_quote_ata base_token_program quote_token_program base_amount_in
      min_quote_amount_out coin_creator is_cashback_coin buyback_recipient protocol_fee_recipient =
     (let pump_program = pubkey_lit PUMPFUN_AMM_PROGRAM;
          system_program = pubkey_lit ''11111111111111111111111111111111'';
          ata_program = pubkey_lit ATA_PROGRAM;
          global_config = pubkey_lit PUMPSWAP_GLOBAL_CONFIG;
          event_authority = pubkey_lit PUMPSWAP_EVENT_AUTHORITY;
          fee_program = pubkey_lit PUMPSWAP_FEE_PROGRAM;
          protocol_fee_recipient_ata = ata_addr pda protocol_fee_recipient quote_mint quote_token_program;
          creator_vault_authority = pumpswap_coin_creator_vault_authority pda coin_creator;
          creator_vault_ata = pumpswap_coin_creator_vault_ata pda creator_vault_authority quote_mint
            quote_token_program;
          fee_config = pumpswap_fee_config_pda pda;
          accounts =
            [meta_new pool False,
             meta_new user True,
             meta_readonly global_config False,
             meta_readonly base_mint False,
             meta_readonly quote_mint False,
             meta_new user_base_ata False,
             meta_new user_quote_ata False,
             meta_new pool_base_ata False,
             meta_new pool_quote_ata False,
             meta_readonly protocol_fee_recipient False,
             meta_new protocol_fee_recipient_ata False,
             meta_readonly base_token_program False,
             meta_readonly quote_token_program False,
             meta_readonly system_program False,
             meta_readonly ata_program False,
             meta_readonly event_authority False,
             meta_readonly pump_program False,
             meta_new creator_vault_ata False,
             meta_readonly creator_vault_authority False,
             meta_readonly fee_config False,
             meta_readonly fee_program False];
          cashback =
            (if is_cashback_coin
             then [meta_new (pumpswap_user_vol_accumulator_quote_ata pda user quote_mint
                     quote_token_program) False,
                   meta_new (pumpswap_user_vol_accumulator pda user) False]
             else []);
          pool_v2 =
            (if coin_creator \<noteq> 0 then [meta_readonly (pumpswap_pool_v2_pda pda base_mint) False] else []);
          buyback_recipient_ata = ata_addr pda buyback_recipient quote_mint quote_token_program in
      \<lparr>ix_program_id = pump_program,
       ix_accounts = accounts @ cashback @ pool_v2
         @ [meta_readonly buyback_recipient False, meta_new buyback_recipient_ata False],
       ix_data = PUMPSWAP_SELL_DISCRIMINATOR @ u64_to_le base_amount_in
         @ u64_to_le min_quote_amount_out\<rparr>)"

section \<open>DLMM\<close>

definition build_dlmm_swap2_ix :: "pubkey \<Rightarrow> pubkey \<Rightarrow> pubkey list \<Rightarrow> pubkey \<Rightarrow> pubkey \<Rightarrow> pubkey
    \<Rightarrow> pubkey \<Rightarrow> pubkey \<Rightarrow> pubkey \<Rightarrow> pubkey \<Rightarrow> pubkey \<Rightarrow> u64 \<Rightarrow> u64 \<Rightarrow> pubkey \<Rightarrow> pubkey \<Rightarrow> pubkey
    \<Rightarrow> pubkey \<Rightarrow> pubkey option \<Rightarrow> pubkey option \<Rightarrow> instruction" where
  "build_dlmm_swap2_ix user lb_pair bin_arrays reserve_x reserve_y user_token_in user_token_out
      token_x_mint token_y_mint oracle event_authority amount_in min_amount_out token_x_program
      token_y_program memo_program event_program bin_array_bitmap_extension host_fee_in =
     (let dlmm = pubkey_lit DLMM_PROGRAM in
      \<lparr>ix_program_id = dlmm,
       ix_accounts =
         [meta_new lb_pair False,
          meta_new (case bin_array_bitmap_extension of Some k \<Rightarrow> k | None \<Rightarrow> dlmm) False,
          meta_new reserve_x False,
          meta_new reserve_y False,
          meta_new user_token_in False,
          meta_new user_token_out False,
          meta_readonly token_x_mint False,
          meta_readonly token_y_mint False,
          meta_new oracle False,
          meta_new (case host_fee_in of Some k \<Rightarrow> k | None \<Rightarrow> dlmm) False,
          meta_readonly user True,
          meta_readonly token_x_program False,
          meta_readonly token_y_program False,
          meta_readonly memo_program False,
          meta_readonly event_authority False,
          meta_readonly event_program False]
         @ map (\<lambda>ba. meta_new ba False) bin_arrays,
       ix_data = DLMM_SWAP2_DISCRIMINATOR @ u64_to_le amount_in @ u64_to_le min_amount_out
         @ u32_to_le 0\<rparr>)"

section \<open>Raydium CPMM and AMMv4\<close>

definition build_cpmm_swap_ix :: "pda_fn \<Rightarrow> pubkey \<Rightarrow> pubkey \<Rightarrow> pubkey \<Rightarrow> pubkey \<Rightarrow> pubkey \<Rightarrow> pubkey
    \<Rightarrow> pubkey \<Rightarrow> pubkey \<Rightarrow> pubkey \<Rightarrow> u64 \<Rightarrow> u64 \<Rightarrow> pubkey \<Rightarrow> instruction" where
  "build_cpmm_swap_ix pda payer pool_state amm_config input_mint output_mint input_ata output_ata
      input_vault output_vault amount_in min_amount_out cpmm_program =
     (let authority = pda [byte_string ''vault_and_lp'', key_bytes pool_state] cpmm_program;
          token_program = pubkey_lit TOKEN_PROGRAM;
          memo_program = pubkey_lit MEMO_PROGRAM;
          token22_program = pubkey_lit TOKEN22_PROGRAM in
      \<lparr>ix_program_id = cpmm_program,
       ix_accounts =
         [meta_new payer True,
          meta_readonly authority False,
          meta_readonly amm_config False,
          meta_new pool_state False,
          meta_new input_ata False,
          meta_new output_ata False,
          meta_new input_vault False,
          meta_new output_vault False,
          meta_readonly input_mint False,
          meta_readonly output_mint False,
          meta_readonly token_program False,
          meta_readonly memo_program False,
          meta_readonly token22_program False],
       ix_data = CPMM_SWAP_DISCRIMINATOR @ u64_to_le amount_in @ u64_to_le min_amount_out\<rparr>)"

definition build_ammv4_swap_ix :: "pda_fn \<Rightarrow> pubkey \<Rightarrow> pubkey \<Rightarrow> pubkey \<Rightarrow> pubkey \<Rightarrow> pubkey \<Rightarrow> pubkey
    \<Rightarrow> pubkey \<Rightarrow> pubkey \<Rightarrow> pubkey \<Rightarrow> pubkey \<Rightarrow> pubkey \<Rightarrow> pubkey \<Rightarrow> u64 \<Rightarrow> u64 \<Rightarrow> pubkey
    \<Rightarrow> instruction" where
  "build_ammv4_swap_ix pda wallet pool_state open_orders target_orders coin_vault pc_vault market
      bids asks event_queue user_input_ata user_output_ata amount_in min_amount_out amm_v4 =
     (let token_program = pubkey_lit TOKEN_PROGRAM;
          serum_program = pubkey_lit SERUM_PROGRAM;
          authority = pda [byte_string ''amm authority'', key_bytes pool_state] amm_v4 in
      \<lparr>ix_program_id = amm_v4,
       ix_accounts =
         [meta_readonly token_program False,
          meta_new pool_state False,
          meta_readonly authority False,
          meta_new open_orders False,
          meta_new target_orders False,
          meta_new coin_vault False,
          meta_new pc_vault False,
          meta_readonly serum_program False,
          meta_new market False,
          meta_new bids False,
          meta_new asks False,
          meta_new event_queue False,
          meta_new user_input_ata False,
          meta_new user_output_ata False,
          meta_new wallet True],
       ix_data = AMMV4_SWAP_DISCRIMINATOR @ u64_to_le amount_in @ u64_to_le min_amount_out\<rparr>)"

definition build_ammv4_swap_out_ix :: "pda_fn \<Rightarrow> pubkey \<Rightarrow> pubkey \<Rightarrow> pubkey \<Rightarrow> pubkey \<Rightarrow> pubkey \<Rightarrow> pubkey
    \<Rightarrow> pubkey \<Rightarrow> pubkey \<Rightarrow> pubkey \<Rightarrow> pubkey \<Rightarrow> pubkey \<Rightarrow> pubkey \<Rightarrow> u64 \<Rightarrow> u64 \<Rightarrow> pubkey
    \<Rightarrow> instruction" where
  "build_ammv4_swap_out_ix pda wallet pool_state open_orders target_orders coin_vault pc_vault market
      bids asks event_queue user_input_ata user_output_ata max_amount_in amount_out amm_v4 =
     (let token_program = pubkey_lit TOKEN_PROGRAM;
          serum_program = pubkey_lit SERUM_PROGRAM;
          authority = pda [byte_string ''amm authority'', key_bytes pool_state] amm_v4 in
      \<lparr>ix_program_id = amm_v4,
       ix_accounts =
         [meta_readonly token_program False,
          meta_new pool_state False,
          meta_readonly authority False,
          meta_new open_orders False,
          meta_new target_orders False,
          meta_new coin_vault False,
          meta_new pc_vault False,
          meta_readonly serum_program False,
          meta_new market False,
          meta_new bids False,
          meta_new asks False,
          meta_new event_queue False,
          meta_new user_input_ata False,
          meta_new user_output_ata False,
          meta_new wallet True],
       ix_data = AMMV4_SWAP_OUT_DISCRIMINATOR @ u64_to_le max_amount_in @ u64_to_le amount_out\<rparr>)"

section \<open>Pump.fun bonding curve\<close>

definition pumpfun_global_pda :: "pda_fn \<Rightarrow> pubkey" where
  "pumpfun_global_pda pda = pda [byte_string ''global''] (pubkey_lit PUMPFUN_BONDING_CURVE_PROGRAM)"

definition pumpfun_event_authority_pda :: "pda_fn \<Rightarrow> pubkey" where
  "pumpfun_event_authority_pda pda =
     pda [byte_string ''event-authority''] (pubkey_lit PUMPFUN_BONDING_CURVE_PROGRAM)"

definition build_pumpfun_buy_ix :: "pda_fn \<Rightarrow> pubkey \<Rightarrow> pubkey \<Rightarrow> pubkey \<Rightarrow> pubkey \<Rightarrow> pubkey \<Rightarrow> pubkey
    \<Rightarrow> u64 \<Rightarrow> u64 \<Rightarrow> pubkey \<Rightarrow> instruction" where
  "build_pumpfun_buy_ix pda user mint bonding_curve associated_bonding_curve associated_user
      fee_recipient amount_lamports min_amount_out token_program =
     (let pumpfun = pubkey_lit PUMPFUN_BONDING_CURVE_PROGRAM;
          system_program = pubkey_lit ''11111111111111111111111111111111'';
          ata_program = pubkey_lit ATA_PROGRAM;
          rent = pubkey_lit SYSVAR_RENT;
          global = pumpfun_global_pda pda;
          event_authority = pumpfun_event_authority_pda pda in
      \<lparr>ix_program_id = pumpfun,
       ix_accounts =
         [meta_readonly global False,
          meta_new user True,
          meta_readonly mint False,
          meta_new bonding_curve False,
          meta_new associated_bonding_curve False,
          meta_new associated_user False,
          meta_new fee_recipient False,
          meta_readonly system_program False,
          meta_readonly token_program False,
          meta_readonly ata_program False,
          meta_readonly rent False,
          meta_readonly event_authority False,
          meta_readonly pumpfun False],
       ix_data = PUMPFUN_BUY_DISCRIMINATOR @ u64_to_le amount_lamports @ u64_to_le min_amount_out\<rparr>)"

definition build_pumpfun_sell_ix :: "pda_fn \<Rightarrow> pubkey \<Rightarrow> pubkey \<Rightarrow> pubkey \<Rightarrow> pubkey \<Rightarrow> pubkey \<Rightarrow> pubkey
    \<Rightarrow> u64 \<Rightarrow> u64 \<Rightarrow> pubkey \<Rightarrow> instruction" where
  "build_pumpfun_sell_ix pda user mint bonding_curve associated_bonding_curve associated_user
      fee_recipient amount_tokens min_sol_out token_program =
     (let pumpfun = pubkey_lit PUMPFUN_BONDING_CURVE_PROGRAM;
          system_program = pubkey_lit ''11111111111111111111111111111111'';
          ata_program = pubkey_lit ATA_PROGRAM;
          rent = pubkey_lit SYSVAR_RENT;
          global = pumpfun_global_pda pda;
          event_authority = pumpfun_event_authority_pda pda in
      \<lparr>ix_program_id = pumpfun,
       ix_accounts =
         [meta_readonly global False,
          meta_new user True,
          meta_readonly mint False,
          meta_new bonding_curve False,
          meta_new associated_bonding_curve False,
          meta_new associated_user False,
          meta_new fee_recipient False,
          meta_readonly system_program False,
          meta_readonly token_program False,
          meta_readonly ata_program False,
          meta_readonly rent False,
          meta_readonly event_authority False,
          meta_readonly pumpfun False],
       ix_data = PUMPFUN_SELL_DISCRIMINATOR @ u64_to_le amount_tokens @ u64_to_le min_sol_out\<rparr>)"

section \<open>The sides of a CPMM pool\<close>

text \<open>
  The pool state of \<open>pool_cache/types.rs\<close> keeps addresses as strings; \<open>parse_key\<close> is
  \<open>Pubkey::from_str\<close> on a string that is not a constant of the source.
\<close>

type_synonym parse_key = "string \<Rightarrow> pubkey option"

record pool_state_data =
  ps_pool_pubkey :: string
  ps_config_pubkey :: string
  ps_token_0_mint :: string
  ps_token_1_mint :: string
  ps_token_0_vault :: string
  ps_token_1_vault :: string
  ps_token_0_vault_raw :: u64
  ps_token_1_vault_raw :: u64

definition resolve_pool_sides :: "parse_key \<Rightarrow> pool_state_data
    \<Rightarrow> (pubkey \<times> pubkey \<times> string \<times> string \<times> u64 \<times> u64) option" where
  "resolve_pool_sides parse_key pool =
     (let t0_sol = ps_token_0_mint pool = NATIVE_SOL_MINT_C;
          t1_sol = ps_token_1_mint pool = NATIVE_SOL_MINT_C in
      if t0_sol then do {
        sol_mint \<leftarrow> parse_key (ps_token_0_mint pool);
        meme_mint \<leftarrow> parse_key (ps_token_1_mint pool);
        Some (sol_mint, meme_mint, ps_token_0_vault pool, ps_token_1_vault pool,
          ps_token_0_vault_raw pool, ps_token_1_vault_raw pool)
      }
      else if t1_sol then do {
        sol_mint \<leftarrow> parse_key (ps_token_1_mint pool);
        meme_mint \<leftarrow> parse_key (ps_token_0_mint pool);
        Some (sol_mint, meme_mint, ps_token_1_vault pool, ps_token_0_vault pool,
          ps_token_1_vault_raw pool, ps_token_0_vault_raw pool)
      }
      else None)"

end
