(* ===== verification/Client_Routes.thy ===== *)
theory Client_Routes
  imports Client_Instructions
begin

text \<open>
  The bot's builders of the arbitrage instruction: \<open>executor/atomic/onchain_router.rs\<close> for the two
  fixed routes and \<open>executor/atomic/generic_route.rs\<close> for the generic one. Addresses of the pool
  cache are strings; an unparsable one is an error (\<open>?\<close>) or a panic (\<open>unwrap\<close>) as in the source.
\<close>

section \<open>Pool data and errors\<close>

record dlmm_bin =
  db_bin_id :: int
  db_amount_x :: u64
  db_amount_y :: u64
  db_reserve_x :: u64
  db_reserve_y :: u64

record dlmm_pool =
  dp_lb_pair :: string
  dp_token_x_mint :: string
  dp_token_y_mint :: string
  dp_reserve_x :: u64
  dp_reserve_y :: u64
  dp_reserve_x_address :: string
  dp_reserve_y_address :: string
  dp_bin_array_addresses :: "string list"
  dp_bins :: "dlmm_bin list"
  dp_bin_step :: u16
  dp_base_factor :: u16
  dp_active_id :: int
  dp_bin_array_bitmap_extension :: "string option"
  dp_sqrt_price :: u128
  dp_tick_current_index :: int
  dp_fee_rate :: u16

datatype client_error =
    BadKey
  | MissingSection string
  | UnsupportedKind byte
  | UnsupportedPool
  | Failed string

type_synonym 'a client_result = "(client_error, 'a) outcome"

definition key_or_err :: "parse_key \<Rightarrow> string \<Rightarrow> pubkey client_result" where
  "key_or_err parse_key s = ok_or (parse_key s) BadKey"

definition key_unwrap :: "parse_key \<Rightarrow> string \<Rightarrow> pubkey client_result" where
  "key_unwrap parse_key s = (case parse_key s of Some k \<Rightarrow> Ok k | None \<Rightarrow> Panic)"

definition bitmap_key :: "parse_key \<Rightarrow> dlmm_pool \<Rightarrow> pubkey \<Rightarrow> pubkey" where
  "bitmap_key parse_key dlmm dlmm_program =
     (case Option.bind (dp_bin_array_bitmap_extension dlmm) parse_key of
        Some k \<Rightarrow> k | None \<Rightarrow> dlmm_program)"

section \<open>Sections of the fixed routes\<close>

definition push_dlmm_accounts :: "pubkey \<Rightarrow> pubkey \<Rightarrow> pubkey \<Rightarrow> pubkey \<Rightarrow> pubkey \<Rightarrow> pubkey \<Rightarrow> pubkey
    \<Rightarrow> pubkey \<Rightarrow> pubkey \<Rightarrow> pubkey list \<Rightarrow> account_meta list" where
  "push_dlmm_accounts dlmm_program lb_pair bitmap reserve_x reserve_y oracle host_fee memo_program
      event_auth bin_arrays =
     [meta_readonly dlmm_program False,
      meta_new lb_pair False,
      meta_new bitmap False,
      meta_new reserve_x False,
      meta_new reserve_y False,
      meta_new oracle False,
      meta_new host_fee False,
      meta_readonly memo_program False,
      meta_readonly event_auth False]
     @ map (\<lambda>bin. meta_new bin False) bin_arrays"

definition push_pumpswap_buy_accounts :: "pda_fn \<Rightarrow> pubkey \<Rightarrow> pubkey \<Rightarrow> pubkey \<Rightarrow> pubkey \<Rightarrow> pubkey
    \<Rightarrow> pubkey \<Rightarrow> pubkey \<Rightarrow> pubkey \<Rightarrow> pool_meta \<Rightarrow> account_meta list" where
  "push_pumpswap_buy_accounts pda user user_sol_ata user_meme_ata meme_mint sol_mint
      base_token_program quote_token_program pool pool_meta =
     (let pump_program = pubkey_lit PUMPFUN_AMM_PROGRAM;
          system_program = pubkey_lit ''11111111111111111111111111111111'';
          ata_program = pubkey_lit ATA_PROGRAM;
          global_config = pubkey_lit PUMPSWAP_GLOBAL_CONFIG;
          event_authority = pubkey_lit PUMPSWAP_EVENT_AUTHORITY;
          global_vol_accum = pubkey_lit PUMPSWAP_GLOBAL_VOLUME_ACCUMULATOR;
          fee_program = pubkey_lit PUMPSWAP_FEE_PROGRAM;
          protocol_fee_recipient = pick_pumpswap_protocol_fee_recipient (pm_is_mayhem_mode pool_meta);
          protocol_fee_ata = ata_addr pda protocol_fee_recipient sol_mint quote_token_program;
          creator_vault_authority = pumpswap_coin_creator_vault_authority pda (pm_coin_creator pool_meta);
          creator_vault_ata = pumpswap_coin_creator_vault_ata pda creator_vault_authority sol_mint
            quote_token_program;
          fee_config = pumpswap_fee_config_pda pda;
          user_vol_accum = pumpswap_user_vol_accumulator pda user;
          buyback_recipient = pubkey_lit PUMPSWAP_BUYBACK_FEE_RECIPIENT;
          buyback_ata = ata_addr pda buyback_recipient sol_mint quote_token_program in
      [meta_new pool False,
       meta_new user True,
       meta_readonly global_config False,
       meta_readonly meme_mint False,
       meta_readonly sol_mint False,
       meta_new user_meme_ata False,
       meta_new user_sol_ata False,
       meta_new (pm_pool_base_token_account pool_meta) False,
       meta_new (pm_pool_quote_token_account pool_meta) False,
       meta_readonly protocol_fee_recipient False,
       meta_new protocol_fee_ata False,
       meta_readonly base_token_program False,
       meta_readonly quote_token_program False,
       meta_readonly system_program False,
       meta_readonly ata_program False,
       meta_readonly event_authority False,
       meta_readonly pump_program False,
       meta_new creator_vault_ata False,
       meta_readonly creator_vault_authority False,
       meta_readonly global_vol_accum False,
       meta_new user_vol_accum False,
       meta_readonly fee_config False,
       meta_readonly fee_program False]
      @ (if pm_is_cashback_coin pool_meta
         then [meta_new (pumpswap_user_vol_accumulator_quote_ata pda user sol_mint quote_token_program) False]
         else [])
      @ (if pm_coin_creator pool_meta \<noteq> 0
         then [meta_readonly (pumpswap_pool_v2_pda pda meme_mint) False] else [])
      @ [meta_readonly buyback_recipient False, meta_new buyback_ata False])"

definition push_pumpswap_sell_accounts :: "pda_fn \<Rightarrow> pubkey \<Rightarrow> pubkey \<Rightarrow> pubkey \<Rightarrow> pubkey \<Rightarrow> pubkey
    \<Rightarrow> pubkey \<Rightarrow> pubkey \<Rightarrow> pubkey \<Rightarrow> pool_meta \<Rightarrow> account_meta list" where
  "push_pumpswap_sell_accounts pda user user_sol_ata user_meme_ata meme_mint sol_mint
      base_token_program quote_token_program pool pool_meta =
     (let pump_program = pubkey_lit PUMPFUN_AMM_PROGRAM;
          system_program = pubkey_lit ''11111111111111111111111111111111'';
          ata_program = pubkey_lit ATA_PROGRAM;
          global_config = pubkey_lit PUMPSWAP_GLOBAL_CONFIG;
          event_authority = pubkey_lit PUMPSWAP_EVENT_AUTHORITY;
          fee_program = pubkey_lit PUMPSWAP_FEE_PROGRAM;
          protocol_fee_recipient = pick_pumpswap_protocol_fee_recipient (pm_is_mayhem_mode pool_meta);
          protocol_fee_ata = ata_addr pda protocol_fee_recipient sol_mint quote_token_program;
          creator_vault_authority = pumpswap_coin_creator_vault_authority pda (pm_coin_creator pool_meta);
          creator_vault_ata = pumpswap_coin_creator_vault_ata pda creator_vault_authority sol_mint
            quote_token_program;
          fee_config = pumpswap_fee_config_pda pda;
          buyback_recipient = pubkey_lit PUMPSWAP_BUYBACK_FEE_RECIPIENT;
          buyback_ata = ata_addr pda buyback_recipient sol_mint quote_token_program in
      [meta_new pool False,
       meta_new user True,
       meta_readonly global_config False,
       meta_readonly meme_mint False,
       meta_readonly sol_mint False,
       meta_new user_meme_ata False,
       meta_new user_sol_ata False,
       meta_new (pm_pool_base_token_account pool_meta) False,
       meta_new (pm_pool_quote_token_account pool_meta) False,
       meta_readonly protocol_fee_recipient False,
       meta_new protocol_fee_ata False,
       meta_readonly base_token_program False,
       meta_readonly quote_token_program False,
       meta_readonly system_program False,
       meta_readonly ata_program False,
       meta_readonly event_authority False,
       meta_readonly pump_program False,
       meta_new creator_vault_ata False,
       meta_readonly creator_vault_authority False,
       meta_readonly fee_config False,
       meta_readonly fee_program False]
      @ (if pm_is_cashback_coin pool_meta
         then [meta_new (pumpswap_user_vol_accumulator_quote_ata pda user sol_mint quote_token_program) False,
               meta_new (pumpswap_user_vol_accumulator pda user) False]
         else [])
      @ (if pm_coin_creator pool_meta \<noteq> 0
         then [meta_readonly (pumpswap_pool_v2_pda pda meme_mint) False] else [])
      @ [meta_readonly buyback_recipient False, meta_new buyback_ata False])"

definition pumpswap_buy_remaining_count :: "pool_meta \<Rightarrow> byte" where
  "pumpswap_buy_remaining_count pool_meta =
     (let n = 2;
          n = (if pm_is_cashback_coin pool_meta then n + 1 else n);
          n = (if pm_coin_creator pool_meta \<noteq> 0 then n + 1 else n) in n)"

definition pumpswap_sell_remaining_count :: "pool_meta \<Rightarrow> byte" where
  "pumpswap_sell_remaining_count pool_meta =
     (let n = 2;
          n = (if pm_is_cashback_coin pool_meta then n + 2 else n);
          n = (if pm_coin_creator pool_meta \<noteq> 0 then n + 1 else n) in n)"

definition build_ix_data :: "byte list \<Rightarrow> u64 \<Rightarrow> u64 \<Rightarrow> u64 \<Rightarrow> bool \<Rightarrow> bool \<Rightarrow> byte \<Rightarrow> byte \<Rightarrow> byte list" where
  "build_ix_data disc amount_in min_profit min_meme_out track_volume dlmm_sol_is_x
      pump_remaining_count dlmm_bin_array_count =
     disc @ u64_to_le amount_in @ u64_to_le min_profit @ u64_to_le min_meme_out
     @ [of_bool track_volume] @ [of_bool dlmm_sol_is_x] @ [pump_remaining_count]
     @ [dlmm_bin_array_count]"

section \<open>The two fixed routes\<close>

definition build_route_pump_to_dlmm :: "pda_fn \<Rightarrow> parse_key \<Rightarrow> pubkey \<Rightarrow> pubkey \<Rightarrow> pubkey \<Rightarrow> pubkey
    \<Rightarrow> u64 \<Rightarrow> u64 \<Rightarrow> u64 \<Rightarrow> dlmm_pool \<Rightarrow> pool_meta \<Rightarrow> pubkey \<Rightarrow> pubkey \<Rightarrow> string \<Rightarrow> u64
    \<Rightarrow> (instruction \<times> u64) client_result" where
  "build_route_pump_to_dlmm pda parse_key wallet_pubkey user_sol_ata user_meme_ata meme_mint
      investment_lamports min_meme_out min_profit_lamports dlmm pool_meta pool meme_token_program
      onchain_program_id last_valid_block_height =
     (let sol_mint = pubkey_lit NATIVE_SOL_MINT_C;
          sol_token_program = pubkey_lit TOKEN_PROGRAM in
      and_then (key_or_err parse_key onchain_program_id) (\<lambda>arb_program_id.
      let dlmm_sol_is_x = (dp_token_x_mint dlmm = NATIVE_SOL_MINT_C);
          shared = [meta_new wallet_pubkey True, meta_new user_sol_ata False, meta_new user_meme_ata False];
          pump = push_pumpswap_buy_accounts pda wallet_pubkey user_sol_ata user_meme_ata meme_mint
            sol_mint meme_token_program sol_token_program pool pool_meta;
          pump_remaining_count = pumpswap_buy_remaining_count pool_meta;
          dlmm_program = pubkey_lit DLMM_PROGRAM in
      and_then (key_or_err parse_key (dp_lb_pair dlmm)) (\<lambda>lb_pair.
      and_then (key_or_err parse_key (dp_reserve_x_address dlmm)) (\<lambda>reserve_x.
      and_then (key_or_err parse_key (dp_reserve_y_address dlmm)) (\<lambda>reserve_y.
      let oracle = pda [byte_string ''oracle'', key_bytes lb_pair] dlmm_program;
          memo_program = pubkey_lit MEMO_PROGRAM;
          event_auth = pubkey_lit DLMM_EVENT_AUTHORITY;
          bitmap = bitmap_key parse_key dlmm dlmm_program;
          bin_array_count = min (length (dp_bin_array_addresses dlmm)) 5 in
      and_then (traverse (key_unwrap parse_key) (take bin_array_count (dp_bin_array_addresses dlmm)))
        (\<lambda>bin_arrays.
      let section = push_dlmm_accounts dlmm_program lb_pair bitmap reserve_x reserve_y oracle
            dlmm_program memo_program event_auth bin_arrays;
          data = build_ix_data ROUTE_PUMP_TO_DLMM_DISC_C investment_lamports min_profit_lamports
            min_meme_out False dlmm_sol_is_x pump_remaining_count (of_nat bin_array_count) in
      Ok (\<lparr>ix_program_id = arb_program_id, ix_accounts = shared @ pump @ section, ix_data = data\<rparr>,
          last_valid_block_height)))))))"

definition build_route_dlmm_to_pump :: "pda_fn \<Rightarrow> parse_key \<Rightarrow> pubkey \<Rightarrow> pubkey \<Rightarrow> pubkey \<Rightarrow> pubkey
    \<Rightarrow> u64 \<Rightarrow> u64 \<Rightarrow> u64 \<Rightarrow> dlmm_pool \<Rightarrow> pool_meta \<Rightarrow> pubkey \<Rightarrow> pubkey \<Rightarrow> string \<Rightarrow> u64
    \<Rightarrow> (instruction \<times> u64) client_result" where
  "build_route_dlmm_to_pump pda parse_key wallet_pubkey user_sol_ata user_meme_ata meme_mint
      investment_lamports min_meme_out min_profit_lamports dlmm pool_meta pool meme_token_program
      onchain_program_id last_valid_block_height =
     (let sol_mint = pubkey_lit NATIVE_SOL_MINT_C;
          sol_token_program = pubkey_lit TOKEN_PROGRAM in
      and_then (key_or_err parse_key onchain_program_id) (\<lambda>arb_program_id.
      let dlmm_sol_is_x = (dp_token_x_mint dlmm = NATIVE_SOL_MINT_C);
          shared = [meta_new wallet_pubkey True, meta_new user_sol_ata False, meta_new user_meme_ata False];
          dlmm_program = pubkey_lit DLMM_PROGRAM in
      and_then (key_or_err parse_key (dp_lb_pair dlmm)) (\<lambda>lb_pair.
      and_then (key_or_err parse_key (dp_reserve_x_address dlmm)) (\<lambda>reserve_x.
      and_then (key_or_err parse_key (dp_reserve_y_address dlmm)) (\<lambda>reserve_y.
      let oracle = pda [byte_string ''oracle'', key_bytes lb_pair] dlmm_program;
          memo_program = pubkey_lit MEMO_PROGRAM;
          event_auth = pubkey_lit DLMM_EVENT_AUTHORITY;
          bitmap = bitmap_key parse_key dlmm dlmm_program;
          bin_array_count = min (length (dp_bin_array_addresses dlmm)) 5 in
      and_then (traverse (key_unwrap parse_key) (take bin_array_count (dp_bin_array_addresses dlmm)))
        (\<lambda>bin_arrays.
      let section = push_dlmm_accounts dlmm_program lb_pair bitmap reserve_x reserve_y oracle
            dlmm_program memo_program event_auth bin_arrays;
          pump = push_pumpswap_sell_accounts pda wallet_pubkey user_sol_ata user_meme_ata meme_mint
            sol_mint meme_token_program sol_token_program pool pool_meta;
          pump_remaining_count = pumpswap_sell_remaining_count pool_meta;
          data = build_ix_data ROUTE_DLMM_TO_PUMP_DISC_C investment_lamports min_profit_lamports
            min_meme_out False dlmm_sol_is_x pump_remaining_count (of_nat bin_array_count) in
      Ok (\<lparr>ix_program_id = arb_program_id, ix_accounts = shared @ section @ pump, ix_data = data\<rparr>,
          last_valid_block_height)))))))"

end
