(* ===== verification/Client_Generic.thy ===== *)
theory Client_Generic
  imports Client_Routes "HOL-Library.Signed_Division"
begin

unbundle bit_operations_syntax

text \<open>
  The generic route of the bot, \<open>executor/atomic/generic_route.rs\<close>: the section data of the four
  DEXes and how it is resolved from the pool caches, the account lists of the sections, the tick
  arrays of a Whirlpool and the instruction. An \<open>i32\<close> is its integer value; \<open>i32_wrap\<close> is the
  wrap-around of the release build.
\<close>

section \<open>Section data\<close>

record whirlpool_section =
  ws_pool :: pubkey
  ws_vault_a :: pubkey
  ws_vault_b :: pubkey
  ws_tick_arrays :: "pubkey list"
  ws_sol_is_x :: bool

record cpmm_section =
  cs_pool :: pubkey
  cs_config :: pubkey

record pumpswap_section =
  ss_pool :: pubkey
  ss_meta :: pool_meta
  ss_remaining_count :: byte

record dlmm_section =
  ds_program :: pubkey
  ds_lb_pair :: pubkey
  ds_bitmap :: pubkey
  ds_reserve_x :: pubkey
  ds_reserve_y :: pubkey
  ds_oracle :: pubkey
  ds_host_fee :: pubkey
  ds_memo :: pubkey
  ds_event_auth :: pubkey
  ds_token_x_mint :: pubkey
  ds_token_y_mint :: pubkey
  ds_token_x_program :: pubkey
  ds_token_y_program :: pubkey
  ds_bin_arrays :: "pubkey list"
  ds_bin_count :: byte

definition tokenkeg_cl :: pubkey where
  "tokenkeg_cl = pubkey_lit TOKEN_PROGRAM"

section \<open>Account lists of the sections\<close>

definition push_cpmm_accounts :: "pda_fn \<Rightarrow> pubkey \<Rightarrow> pubkey \<Rightarrow> pubkey \<Rightarrow> pubkey \<Rightarrow> pubkey \<Rightarrow> pubkey
    \<Rightarrow> pubkey \<Rightarrow> pubkey \<Rightarrow> pubkey \<Rightarrow> pubkey \<Rightarrow> account_meta list" where
  "push_cpmm_accounts pda pool input_mint output_mint input_ata output_ata input_tp output_tp
      memo_program token22 amm_config =
     (let cpmm_prog = pubkey_lit CPMM_PROGRAM;
          auth = pda [byte_string ''vault_and_lp'', key_bytes pool] cpmm_prog;
          input_vault = pda [byte_string ''pool_vault'', key_bytes pool, key_bytes input_mint] cpmm_prog;
          output_vault = pda [byte_string ''pool_vault'', key_bytes pool, key_bytes output_mint] cpmm_prog in
      [meta_readonly cpmm_prog False,
       meta_readonly auth False,
       meta_readonly amm_config False,
       meta_new pool False,
       meta_new input_ata False,
       meta_new output_ata False,
       meta_new input_vault False,
       meta_new output_vault False,
       meta_readonly input_mint False,
       meta_readonly output_mint False,
       meta_readonly tokenkeg_cl False,
       meta_readonly token22 False,
       meta_readonly memo_program False])"

definition push_whirlpool_accounts :: "pda_fn \<Rightarrow> pubkey \<Rightarrow> pubkey \<Rightarrow> pubkey \<Rightarrow> pubkey \<Rightarrow> pubkey
    \<Rightarrow> pubkey list \<Rightarrow> nat \<Rightarrow> account_meta list" where
  "push_whirlpool_accounts pda pool input_ata output_ata vault_a vault_b tick_arrays tick_count =
     (let wp = pubkey_lit WHIRLPOOL_PROGRAM;
          auth = pda [byte_string ''authority''] wp;
          oracle = pda [byte_string ''oracle'', key_bytes pool] wp;
          tc = min tick_count 3 in
      [meta_readonly wp False,
       meta_readonly auth True,
       meta_new pool False,
       meta_new input_ata False,
       meta_new vault_a False,
       meta_new output_ata False,
       meta_new vault_b False]
      @ map (\<lambda>i. meta_new (if i < length tick_arrays then tick_arrays ! i else wp) False) [0..<tc]
      @ map (\<lambda>_. meta_new wp False) [tc..<3]
      @ [meta_readonly oracle False, meta_readonly tokenkeg_cl False])"

definition push_pumpswap_generic_buy :: "pda_fn \<Rightarrow> pubkey \<Rightarrow> pubkey \<Rightarrow> pubkey \<Rightarrow> pubkey \<Rightarrow> pubkey
    \<Rightarrow> pubkey \<Rightarrow> pubkey \<Rightarrow> pubkey \<Rightarrow> pool_meta \<Rightarrow> account_meta list" where
  "push_pumpswap_generic_buy pda wallet_pubkey user_sol_ata user_meme_ata meme_mint sol_mint
      meme_token_program sol_token_program pool meta =
     push_pumpswap_buy_accounts pda wallet_pubkey user_sol_ata user_meme_ata meme_mint sol_mint
       meme_token_program sol_token_program pool meta"

definition push_pumpswap_generic_sell :: "pda_fn \<Rightarrow> pubkey \<Rightarrow> pubkey \<Rightarrow> pubkey \<Rightarrow> pubkey \<Rightarrow> pubkey
    \<Rightarrow> pubkey \<Rightarrow> pubkey \<Rightarrow> pubkey \<Rightarrow> pool_meta \<Rightarrow> account_meta list" where
  "push_pumpswap_generic_sell pda wallet_pubkey user_sol_ata user_meme_ata meme_mint sol_mint
      meme_token_program sol_token_program pool meta =
     (let system_prog = pubkey_lit ''11111111111111111111111111111111'' in
      push_pumpswap_sell_accounts pda wallet_pubkey user_sol_ata user_meme_ata meme_mint sol_mint
        meme_token_program sol_token_program pool meta
      @ [meta_readonly system_prog False, meta_readonly system_prog False])"

definition push_dlmm_generic_accounts :: "dlmm_section \<Rightarrow> account_meta list" where
  "push_dlmm_generic_accounts d =
     [meta_readonly (ds_program d) False,
      meta_new (ds_lb_pair d) False,
      meta_new (ds_bitmap d) False,
      meta_new (ds_reserve_x d) False,
      meta_new (ds_reserve_y d) False,
      meta_new (ds_oracle d) False,
      meta_new (ds_host_fee d) False,
      meta_readonly (ds_memo d) False,
      meta_readonly (ds_event_auth d) False,
      meta_readonly (ds_token_x_mint d) False,
      meta_readonly (ds_token_y_mint d) False,
      meta_readonly (ds_token_x_program d) False,
      meta_readonly (ds_token_y_program d) False]
     @ map (\<lambda>bin. meta_new bin False) (ds_bin_arrays d)"

section \<open>Whirlpool tick arrays\<close>

definition i32_wrap :: "int \<Rightarrow> int" where
  "i32_wrap x = (x + 2 ^ 31) mod 2 ^ 32 - 2 ^ 31"

definition i32_to_le :: "int \<Rightarrow> byte list" where
  "i32_to_le x = to_le 4 (nat (x mod 2 ^ 32))"

definition WHIRLPOOL_TICK_ARRAY_SIZE :: int where
  "WHIRLPOOL_TICK_ARRAY_SIZE = 88"

definition floor_div_i32 :: "int \<Rightarrow> int \<Rightarrow> int" where
  "floor_div_i32 a b =
     (let d = a sdiv b; r = a smod b in
      if r \<noteq> 0 \<and> a XOR b < 0 then d - 1 else d)"

definition derive_whirlpool_tick_arrays :: "pda_fn \<Rightarrow> pubkey \<Rightarrow> int \<Rightarrow> u16 \<Rightarrow> pubkey list" where
  "derive_whirlpool_tick_arrays pda whirlpool tick_current_index tick_spacing =
     (let wp = pubkey_lit WHIRLPOOL_PROGRAM;
          tick_range = i32_wrap (uint tick_spacing * WHIRLPOOL_TICK_ARRAY_SIZE) in
      if tick_range \<le> 0 then replicate 3 wp
      else
        (let start_tick = i32_wrap (floor_div_i32 tick_current_index tick_range * tick_range) in
         map (\<lambda>i. let tick = i32_wrap (start_tick + i32_wrap (i * tick_range)) in
                pda [byte_string ''tick_array'', key_bytes whirlpool, i32_to_le tick] wp)
           [0, 1, 2]))"

text \<open>\<open>floor_div_i32\<close> is the division of the integers, which rounds down.\<close>

lemma floor_div_i32_div:
  assumes b: "b \<noteq> 0"
  shows "floor_div_i32 a b = a div b"
proof -
  define q r where "q = a sdiv b" and "r = a smod b"
  have id: "a = b * q + r" by (simp add: q_def r_def mult_sdiv_smod_eq)
  have r: "r = sgn a * (\<bar>a\<bar> mod \<bar>b\<bar>)" by (simp add: r_def signed_modulo_int_def)
  have m: "0 \<le> \<bar>a\<bar> mod \<bar>b\<bar>" "\<bar>a\<bar> mod \<bar>b\<bar> < \<bar>b\<bar>" using b by simp_all
  have opp: "a XOR b < 0 \<longleftrightarrow> (a < 0) \<noteq> (b < 0)" by (simp add: xor_negative_int_iff)
  have id': "a = b * (q - 1) + (r + b)" using id by (simp add: algebra_simps)
  have rs: "a > 0 \<Longrightarrow> 0 \<le> r \<and> r < \<bar>b\<bar>" "a < 0 \<Longrightarrow> r \<le> 0 \<and> - r < \<bar>b\<bar>" "a = 0 \<Longrightarrow> r = 0"
    using m by (simp_all add: r)
  show ?thesis
  proof (cases "r \<noteq> 0 \<and> a XOR b < 0")
    case True
    then have "a div b = q - 1"
      using rs opp b int_div_pos_eq [OF id'] int_div_neg_eq [OF id'] by (cases "a > 0"; cases "b > 0") auto
    then show ?thesis using True by (simp add: floor_div_i32_def q_def r_def)
  next
    case False
    then have "a div b = q"
      using rs opp b int_div_pos_eq [OF id] int_div_neg_eq [OF id] by (cases "a > 0"; cases "a = 0"; cases "b > 0") auto
    then show ?thesis using False by (auto simp add: floor_div_i32_def q_def r_def)
  qed
qed

lemma i32_wrap_id [simp]: "- (2 ^ 31) \<le> x \<Longrightarrow> x < 2 ^ 31 \<Longrightarrow> i32_wrap x = x"
  by (simp add: i32_wrap_def)

section \<open>Resolving section data\<close>

definition cpmm_section_data :: "parse_key \<Rightarrow> pool_state_data \<Rightarrow> cpmm_section client_result" where
  "cpmm_section_data parse_key pool_state =
     and_then (key_or_err parse_key (ps_pool_pubkey pool_state)) (\<lambda>pool.
       let config = (case parse_key (ps_config_pubkey pool_state) of
             Some k \<Rightarrow> k | None \<Rightarrow> pubkey_lit CPMM_AMM_CONFIG_C) in
       Ok \<lparr>cs_pool = pool, cs_config = config\<rparr>)"

text \<open>The error text of an unsupported pool slices 16 bytes off its address.\<close>

definition whirlpool_section_data :: "pda_fn \<Rightarrow> parse_key \<Rightarrow> dlmm_pool \<Rightarrow> whirlpool_section client_result" where
  "whirlpool_section_data pda parse_key reserves =
     and_then (key_or_err parse_key (dp_lb_pair reserves)) (\<lambda>pool.
     and_then (key_or_err parse_key (dp_reserve_x_address reserves)) (\<lambda>vault_a.
     and_then (key_or_err parse_key (dp_reserve_y_address reserves)) (\<lambda>vault_b.
     let sol_is_x = (dp_token_x_mint reserves = NATIVE_SOL_MINT_C) in
     if \<not> sol_is_x then and_then (slice (dp_lb_pair reserves) 0 16) (\<lambda>_. Err UnsupportedPool)
     else
       let tick_array_vec = derive_whirlpool_tick_arrays pda pool (dp_tick_current_index reserves)
             (dp_bin_step reserves);
           tick_at = (\<lambda>i. if i < length tick_array_vec then tick_array_vec ! i else pool) in
       Ok \<lparr>ws_pool = pool, ws_vault_a = vault_a, ws_vault_b = vault_b,
           ws_tick_arrays = [tick_at 0, tick_at 1, tick_at 2], ws_sol_is_x = sol_is_x\<rparr>)))"

definition dlmm_section_data :: "pda_fn \<Rightarrow> parse_key \<Rightarrow> dlmm_pool \<Rightarrow> pubkey \<Rightarrow> dlmm_section client_result" where
  "dlmm_section_data pda parse_key dlmm meme_token_program =
     (let program = pubkey_lit DLMM_PROGRAM in
      and_then (key_or_err parse_key (dp_lb_pair dlmm)) (\<lambda>lb_pair.
      let bitmap = bitmap_key parse_key dlmm program in
      and_then (key_or_err parse_key (dp_reserve_x_address dlmm)) (\<lambda>reserve_x.
      and_then (key_or_err parse_key (dp_reserve_y_address dlmm)) (\<lambda>reserve_y.
      let oracle = pda [byte_string ''oracle'', key_bytes lb_pair] program;
          memo = pubkey_lit MEMO_PROGRAM;
          event_auth = pubkey_lit DLMM_EVENT_AUTHORITY in
      and_then (key_or_err parse_key (dp_token_x_mint dlmm)) (\<lambda>token_x_mint.
      and_then (key_or_err parse_key (dp_token_y_mint dlmm)) (\<lambda>token_y_mint.
      let tokenkeg = tokenkeg_cl;
          bin_count = min (length (dp_bin_array_addresses dlmm)) 5 in
      and_then (traverse (key_unwrap parse_key) (take bin_count (dp_bin_array_addresses dlmm)))
        (\<lambda>bin_arrays.
      Ok \<lparr>ds_program = program, ds_lb_pair = lb_pair, ds_bitmap = bitmap, ds_reserve_x = reserve_x,
          ds_reserve_y = reserve_y, ds_oracle = oracle, ds_host_fee = program, ds_memo = memo,
          ds_event_auth = event_auth, ds_token_x_mint = token_x_mint, ds_token_y_mint = token_y_mint,
          ds_token_x_program = tokenkeg, ds_token_y_program = meme_token_program,
          ds_bin_arrays = bin_arrays, ds_bin_count = of_nat bin_count\<rparr>)))))))"

definition pumpswap_section_data :: "pool_meta \<Rightarrow> pubkey \<Rightarrow> pumpswap_section client_result" where
  "pumpswap_section_data meta pool =
     Ok \<lparr>ss_pool = pool, ss_meta = meta, ss_remaining_count = pumpswap_buy_remaining_count meta\<rparr>"

section \<open>The instruction\<close>

definition section_or_err :: "string \<Rightarrow> 'a option \<Rightarrow> 'a client_result" where
  "section_or_err what d = ok_or d (MissingSection what)"

definition ix_remaining :: "byte \<Rightarrow> byte \<Rightarrow> dlmm_section option \<Rightarrow> byte" where
  "ix_remaining kind remaining dlmm =
     (if kind = DEX_KIND_WHIRLPOOL_C then 0
      else if kind = DEX_KIND_PUMPSWAP_C then remaining
      else if kind = DEX_KIND_DLMM_C then (case dlmm of Some d \<Rightarrow> ds_bin_count d | None \<Rightarrow> 0)
      else remaining)"

definition build_generic_route :: "pda_fn \<Rightarrow> parse_key \<Rightarrow> pubkey \<Rightarrow> pubkey \<Rightarrow> pubkey \<Rightarrow> pubkey \<Rightarrow> pubkey
    \<Rightarrow> u64 \<Rightarrow> u64 \<Rightarrow> u64 \<Rightarrow> byte \<Rightarrow> byte
    \<Rightarrow> cpmm_section option \<Rightarrow> whirlpool_section option \<Rightarrow> pumpswap_section option \<Rightarrow> dlmm_section option
    \<Rightarrow> cpmm_section option \<Rightarrow> whirlpool_section option \<Rightarrow> pumpswap_section option \<Rightarrow> dlmm_section option
    \<Rightarrow> byte \<Rightarrow> byte \<Rightarrow> bool \<Rightarrow> pubkey \<Rightarrow> pubkey \<Rightarrow> string \<Rightarrow> instruction client_result" where
  "build_generic_route pda parse_key wallet_pubkey user_sol_ata user_meme_ata meme_mint sol_mint
      investment_lamports min_meme_out min_profit_lamports buy_kind sell_kind
      buy_cpmm buy_whirlpool buy_pumpswap buy_dlmm sell_cpmm sell_whirlpool sell_pumpswap sell_dlmm
      buy_remaining sell_remaining buy_sol_is_x meme_token_program sol_token_program
      onchain_program_id =
     and_then (key_or_err parse_key onchain_program_id) (\<lambda>arb_program_id.
     let token22 = pubkey_lit TOKEN22_PROGRAM;
         memo = pubkey_lit MEMO_PROGRAM;
         shared = [meta_new wallet_pubkey True, meta_new user_sol_ata False, meta_new user_meme_ata False] in
     and_then
       (if buy_kind = DEX_KIND_PUMPSWAP_C then
          and_then (section_or_err ''PumpSwap buy'' buy_pumpswap) (\<lambda>d.
            Ok (push_pumpswap_generic_buy pda wallet_pubkey user_sol_ata user_meme_ata meme_mint
                  sol_mint meme_token_program sol_token_program (ss_pool d) (ss_meta d)))
        else if buy_kind = DEX_KIND_DLMM_C then
          and_then (section_or_err ''DLMM buy'' buy_dlmm) (\<lambda>d. Ok (push_dlmm_generic_accounts d))
        else if buy_kind = DEX_KIND_CPMM_C then
          and_then (section_or_err ''CPMM buy'' buy_cpmm) (\<lambda>d.
            Ok (push_cpmm_accounts pda (cs_pool d) sol_mint meme_mint user_sol_ata user_meme_ata
                  sol_token_program meme_token_program memo token22 (cs_config d)))
        else if buy_kind = DEX_KIND_WHIRLPOOL_C then
          and_then (section_or_err ''Whirlpool buy'' buy_whirlpool) (\<lambda>d.
            Ok (push_whirlpool_accounts pda (ws_pool d) user_sol_ata user_meme_ata (ws_vault_a d)
                  (ws_vault_b d) (ws_tick_arrays d) (length (ws_tick_arrays d))))
        else Err (UnsupportedKind buy_kind)) (\<lambda>buy_section.
     and_then
       (if sell_kind = DEX_KIND_PUMPSWAP_C then
          and_then (section_or_err ''PumpSwap sell'' sell_pumpswap) (\<lambda>d.
            Ok (push_pumpswap_generic_sell pda wallet_pubkey user_sol_ata user_meme_ata meme_mint
                  sol_mint meme_token_program sol_token_program (ss_pool d) (ss_meta d)))
        else if sell_kind = DEX_KIND_DLMM_C then
          and_then (section_or_err ''DLMM sell'' sell_dlmm) (\<lambda>d. Ok (push_dlmm_generic_accounts d))
        else if sell_kind = DEX_KIND_CPMM_C then
          and_then (section_or_err ''CPMM sell'' sell_cpmm) (\<lambda>d.
            Ok (push_cpmm_accounts pda (cs_pool d) meme_mint sol_mint user_meme_ata user_sol_ata
                  meme_token_program sol_token_program memo token22 (cs_config d)))
        else if sell_kind = DEX_KIND_WHIRLPOOL_C then
          and_then (section_or_err ''Whirlpool sell'' sell_whirlpool) (\<lambda>d.
            Ok (push_whirlpool_accounts pda (ws_pool d) user_meme_ata user_sol_ata (ws_vault_a d)
                  (ws_vault_b d) (ws_tick_arrays d) (length (ws_tick_arrays d))))
        else Err (UnsupportedKind sell_kind)) (\<lambda>sell_section.
     let ix_buy_remaining = ix_remaining buy_kind buy_remaining buy_dlmm;
         ix_sell_remaining = ix_remaining sell_kind sell_remaining sell_dlmm;
         data = ROUTE_DISC_C @ u64_to_le investment_lamports @ u64_to_le min_profit_lamports
           @ u64_to_le min_meme_out @ [0] @ [of_bool buy_sol_is_x] @ [ix_buy_remaining]
           @ [ix_sell_remaining] in
     Ok \<lparr>ix_program_id = arb_program_id, ix_accounts = shared @ buy_section @ sell_section,
         ix_data = data\<rparr>)))"

end
