(* ===== verification/Client_Onchain.thy ===== *)
theory Client_Onchain
  imports Client_Generic Scenario
begin

text \<open>
  The bot against the program: what the program does with the instructions the bot builds.
  \<open>load_accounts\<close> is what the runtime hands to the program for the account list of an
  instruction: one handle per entry, with the flags of all entries of that key joined, and the
  owner of the key.
\<close>

definition load_accounts :: "(pubkey \<Rightarrow> pubkey) \<Rightarrow> account_meta list \<Rightarrow> account_info list" where
  "load_accounts owner ms = map (\<lambda>m.
     \<lparr>acc_key = meta_pubkey m, acc_owner = owner (meta_pubkey m),
      acc_is_signer = (\<exists>m' \<in> set ms. meta_pubkey m' = meta_pubkey m \<and> meta_is_signer m'),
      acc_is_writable = (\<exists>m' \<in> set ms. meta_pubkey m' = meta_pubkey m \<and> meta_is_writable m')\<rparr>) ms"

lemma length_load [simp]: "length (load_accounts owner ms) = length ms"
  by (simp add: load_accounts_def)

lemma load_nth [simp]:
  "i < length ms \<Longrightarrow> acc_key (load_accounts owner ms ! i) = meta_pubkey (ms ! i)"
  "i < length ms \<Longrightarrow> acc_owner (load_accounts owner ms ! i) = owner (meta_pubkey (ms ! i))"
  by (simp_all add: load_accounts_def)

lemma load_signer:
  "i < length ms \<Longrightarrow> meta_is_signer (ms ! i) \<Longrightarrow> acc_is_signer (load_accounts owner ms ! i)"
  by (auto simp: load_accounts_def intro: bexI [of _ "ms ! i"])

lemma meta_fields [simp]:
  "meta_pubkey (meta_new k s) = k" "meta_pubkey (meta_readonly k s) = k"
  "meta_is_signer (meta_new k s) = s" "meta_is_signer (meta_readonly k s) = s"
  by (simp_all add: meta_new_def meta_readonly_def)

section \<open>Lengths and contents of the client's sections\<close>

lemma remaining_counts:
  "unat (pumpswap_buy_remaining_count m) =
     2 + of_bool (pm_is_cashback_coin m) + of_bool (pm_coin_creator m \<noteq> 0)"
  "unat (pumpswap_sell_remaining_count m) =
     2 + 2 * of_bool (pm_is_cashback_coin m) + of_bool (pm_coin_creator m \<noteq> 0)"
  by (simp_all add: pumpswap_buy_remaining_count_def pumpswap_sell_remaining_count_def)

lemma length_pump_accounts:
  "length (push_pumpswap_buy_accounts pda u us um mm sm bp qp pool m)
     = 23 + unat (pumpswap_buy_remaining_count m)"
  "length (push_pumpswap_sell_accounts pda u us um mm sm bp qp pool m)
     = 21 + unat (pumpswap_sell_remaining_count m)"
  by (simp_all add: remaining_counts push_pumpswap_buy_accounts_def push_pumpswap_sell_accounts_def
      Let_def)

lemma length_dlmm_accounts [simp]:
  "length (push_dlmm_accounts p lp bm rx ry orc hf memo ea bins) = 9 + length bins"
  by (simp add: push_dlmm_accounts_def)

text \<open>The entries of a section by its position in the whole list.\<close>

lemma nth_section:
  "length pre = base \<Longrightarrow> k < length sec \<Longrightarrow> (pre @ sec @ post) ! (base + k) = sec ! k"
  by (simp add: nth_append)

lemma keys_section:
  assumes "length pre = base" and "n = length sec"
  shows "map (\<lambda>i. acc_key (load_accounts owner (pre @ sec @ post) ! (base + i))) [0..<n]
    = map meta_pubkey sec"
  by (rule nth_equalityI) (use assms in \<open>simp_all add: nth_append\<close>)

section \<open>The DLMM and PumpSwap sections pass the program's checks\<close>

lemma client_dlmm_known:
  assumes "length pre = base"
  shows "dlmm_section_known pda (load_accounts owner (pre @ push_dlmm_accounts DLMM_ID lp bm rx ry
      (pda [byte_string ''oracle'', key_bytes lp] DLMM_ID) hf MEMO_ID DLMM_EVENT_AUTH bins @ post)) base"
proof -
  let ?s = "push_dlmm_accounts DLMM_ID lp bm rx ry
      (pda [byte_string ''oracle'', key_bytes lp] DLMM_ID) hf MEMO_ID DLMM_EVENT_AUTH bins"
  have "acc_key (load_accounts owner (pre @ ?s @ post) ! (base + k)) = meta_pubkey (?s ! k)"
    if "k < 9" for k
    using that assms nth_section [of pre base k ?s post] by simp
  from this [of 0] this [of 1] this [of 5] this [of 7] this [of 8]
  show ?thesis by (simp add: dlmm_section_known_def push_dlmm_accounts_def DLMM_ORACLE_SEED_def)
qed

lemma client_pump_known:
  assumes "length pre = base"
    and "pda [PUMP_EVENT_AUTH_SEED] PUMP_SWAP_ID = pubkey_lit PUMPSWAP_EVENT_AUTHORITY"
    and "pda [PUMP_GLOBAL_CONFIG_SEED] PUMP_SWAP_ID = pubkey_lit PUMPSWAP_GLOBAL_CONFIG"
  shows "pump_section_known pda (load_accounts owner (pre @ push_pumpswap_buy_accounts pda u us um mm
      NATIVE_SOL_MINT bp TOKEN_ID pool m @ post)) base 21 22"
    and "pump_section_known pda (load_accounts owner (pre @ push_pumpswap_sell_accounts pda u us um mm
      NATIVE_SOL_MINT bp TOKEN_ID pool m @ post)) base 19 20"
proof -
  let ?b = "push_pumpswap_buy_accounts pda u us um mm NATIVE_SOL_MINT bp TOKEN_ID pool m"
  let ?s = "push_pumpswap_sell_accounts pda u us um mm NATIVE_SOL_MINT bp TOKEN_ID pool m"
  have b: "acc_key (load_accounts owner (pre @ ?b @ post) ! (base + k)) = meta_pubkey (?b ! k)"
    if "k < 23" for k
    using that assms(1) nth_section [of pre base k ?b post] by (simp add: length_pump_accounts)
  have s: "acc_key (load_accounts owner (pre @ ?s @ post) ! (base + k)) = meta_pubkey (?s ! k)"
    if "k < 21" for k
    using that assms(1) nth_section [of pre base k ?s post] by (simp add: length_pump_accounts)
  show "pump_section_known pda (load_accounts owner (pre @ ?b @ post)) base 21 22"
    using b [of 16] b [of 4] b [of 12] b [of 13] b [of 14] b [of 22] b [of 15] b [of 2] b [of 21] assms(2,3)
    by (simp add: pump_section_known_def push_pumpswap_buy_accounts_def Let_def nth_append
        pumpswap_fee_config_pda_def PUMP_FEE_CONFIG_SEED_def)
  show "pump_section_known pda (load_accounts owner (pre @ ?s @ post)) base 19 20"
    using s [of 16] s [of 4] s [of 12] s [of 13] s [of 14] s [of 20] s [of 15] s [of 2] s [of 19] assms(2,3)
    by (simp add: pump_section_known_def push_pumpswap_sell_accounts_def Let_def nth_append
        pumpswap_fee_config_pda_def PUMP_FEE_CONFIG_SEED_def)
qed

section \<open>The instruction data\<close>

lemma built_ix_data:
  assumes "length disc = 8"
  shows "length (build_ix_data disc a p m tv sx c1 c2) = 36"
    and "take 8 (build_ix_data disc a p m tv sx c1 c2) = disc"
    and "route_ix_of (build_ix_data disc a p m tv sx c1 c2) =
      \<lparr>rx_amount_in = a, rx_min_profit = p, rx_min_intermediate = m, rx_track_volume = tv,
       rx_sol_is_x = sx, rx_first_count = unat c1, rx_second_count = unat c2\<rparr>"
  using assms route_ix_of_fields [OF assms, of a p m "of_bool tv" "of_bool sx" c1 c2]
  by (simp_all add: build_ix_data_def)

lemma traverse_unwrap:
  "traverse (key_unwrap parse_key) xs = Ok ks \<Longrightarrow> map parse_key xs = map Some ks"
  by (induction xs arbitrary: ks) (auto simp: and_then_Ok_iff key_unwrap_def split: option.splits)

lemma small_count: "n \<le> 6 \<Longrightarrow> unat (of_nat n :: byte) = n"
  by (rule unat_of_nat_small) simp

section \<open>The fixed routes\<close>

text \<open>What the builders return, with the list of bin arrays they parsed.\<close>

lemma build_pump_to_dlmm_OkE:
  assumes "build_route_pump_to_dlmm pda parse_key wallet us um mint invest min_meme min_profit dlmm
      meta pool tp prog_id h = Ok (ix, h')"
  obtains lp bm rx ry bins where
    "ix_accounts ix = [meta_new wallet True, meta_new us False, meta_new um False]
       @ push_pumpswap_buy_accounts pda wallet us um mint NATIVE_SOL_MINT tp TOKEN_ID pool meta
       @ push_dlmm_accounts DLMM_ID lp bm rx ry (pda [byte_string ''oracle'', key_bytes lp] DLMM_ID)
           DLMM_ID MEMO_ID DLMM_EVENT_AUTH bins"
    "ix_data ix = build_ix_data ROUTE_PUMP_TO_DLMM_DISC invest min_profit min_meme False
       (dp_token_x_mint dlmm = NATIVE_SOL_MINT_C) (pumpswap_buy_remaining_count meta)
       (of_nat (length bins))"
    "length bins = min (length (dp_bin_array_addresses dlmm)) 5"
  using assms
  by (auto simp: build_route_pump_to_dlmm_def Let_def and_then_Ok_iff dest!: traverse_length intro: that)

lemma build_dlmm_to_pump_OkE:
  assumes "build_route_dlmm_to_pump pda parse_key wallet us um mint invest min_meme min_profit dlmm
      meta pool tp prog_id h = Ok (ix, h')"
  obtains lp bm rx ry bins where
    "ix_accounts ix = [meta_new wallet True, meta_new us False, meta_new um False]
       @ push_dlmm_accounts DLMM_ID lp bm rx ry (pda [byte_string ''oracle'', key_bytes lp] DLMM_ID)
           DLMM_ID MEMO_ID DLMM_EVENT_AUTH bins
       @ push_pumpswap_sell_accounts pda wallet us um mint NATIVE_SOL_MINT tp TOKEN_ID pool meta"
    "ix_data ix = build_ix_data ROUTE_DLMM_TO_PUMP_DISC invest min_profit min_meme False
       (dp_token_x_mint dlmm = NATIVE_SOL_MINT_C) (pumpswap_sell_remaining_count meta)
       (of_nat (length bins))"
    "length bins = min (length (dp_bin_array_addresses dlmm)) 5"
  using assms
  by (auto simp: build_route_dlmm_to_pump_def Let_def and_then_Ok_iff dest!: traverse_length intro: that)

lemma user_signs:
  "ms = meta_new wallet True # rest \<Longrightarrow> acc_is_signer (load_accounts owner ms ! 0)"
  using load_signer [of 0 ms owner] by simp

section \<open>The keys of the instructions the program issues\<close>

lemma pump_ix_keys:
  "map meta_pubkey (ix_accounts (pump_buy_ix accounts base r a m t))
     = map (\<lambda>i. acc_key (accounts ! (base + i))) [0..<23 + r]"
  "map meta_pubkey (ix_accounts (pump_sell_ix accounts base r a m))
     = map (\<lambda>i. acc_key (accounts ! (base + i))) [0..<21 + r]"
proof -
  have shift: "map (\<lambda>i. acc_key (accounts ! (base + n + i))) [0..<r]
      = map (\<lambda>i. acc_key (accounts ! (base + i))) [n..<n + r]" for n
    by (rule nth_equalityI) (simp_all add: add.assoc)
  have "map (\<lambda>s. acc_key (accounts ! (base + fst s))) pump_buy_slots
      = map (\<lambda>i. acc_key (accounts ! (base + i))) (map fst pump_buy_slots)" by simp
  moreover have "map (\<lambda>s. acc_key (accounts ! (base + fst s))) pump_sell_slots
      = map (\<lambda>i. acc_key (accounts ! (base + i))) (map fst pump_sell_slots)" by simp
  ultimately show
    "map meta_pubkey (ix_accounts (pump_buy_ix accounts base r a m t))
       = map (\<lambda>i. acc_key (accounts ! (base + i))) [0..<23 + r]"
    "map meta_pubkey (ix_accounts (pump_sell_ix accounts base r a m))
       = map (\<lambda>i. acc_key (accounts ! (base + i))) [0..<21 + r]"
    using shift [of 23] shift [of 21]
    by (simp_all only: pump_buy_slots_fst pump_sell_slots_fst)
      (simp_all add: pump_buy_ix_def pump_sell_ix_def comp_def own_meta_def upt_add_eq_append [of 0 _ r])
qed

lemma section_nth_key:
  "length pre = base \<Longrightarrow> k < length sec \<Longrightarrow>
   acc_key (load_accounts owner (pre @ sec @ post) ! (base + k)) = meta_pubkey (sec ! k)"
  by (simp add: nth_append)

section \<open>Generic sections the program admits\<close>

text \<open>
  A section is good when, wherever it stands, the program identifies its DEX and its validator
  accepts it; two good sections of different DEXes make a route the program runs.
\<close>

definition good_section :: "pda_fn \<Rightarrow> (pubkey \<Rightarrow> pubkey) \<Rightarrow> dex_kind \<Rightarrow> nat \<Rightarrow> account_meta list \<Rightarrow> bool" where
  "good_section pda owner kind n sec \<longleftrightarrow>
     fixed_len kind + n \<le> length sec \<and>
     (\<forall>pre post. identify_dex (load_accounts owner (pre @ sec @ post)) (length pre) = Some kind \<and>
        validate_dex_section pda (load_accounts owner (pre @ sec @ post)) kind (length pre) n = Ok ())"

lemma good_sections_run:
  assumes "good_section pda owner bk (rx_first_count (route_ix_of data)) sec1"
    and "length sec1 = fixed_len bk + rx_first_count (route_ix_of data)"
    and "good_section pda owner sk (rx_second_count (route_ix_of data)) sec2" and "bk \<noteq> sk"
    and "length data = 36" and "rx_amount_in (route_ix_of data) \<noteq> 0" and "rx_min_profit (route_ix_of data) \<noteq> 0"
    and "ms = [meta_new wallet True, meta_new us False, meta_new um False] @ sec1 @ sec2"
  shows "admitted pda (load_accounts owner ms) (route_ix_of data) bk sk"
    and "orchestrate_handle pda cpi (load_accounts owner ms) data l
      = run_legs cpi (load_accounts owner ms) (route_ix_of data) bk sk l"
proof -
  let ?ix = "route_ix_of data" and ?a = "load_accounts owner ms"
  let ?user = "[meta_new wallet True, meta_new us False, meta_new um False]"
  have first: "identify_dex ?a 3 = Some bk"
      "validate_dex_section pda ?a bk 3 (rx_first_count ?ix) = Ok ()"
    using assms(1)[unfolded good_section_def, THEN conjunct2, rule_format, of ?user sec2] assms(8)
    by (simp_all add: numeral_3_eq_3)
  have base: "sell_base_of bk ?ix = length (?user @ sec1)"
    using assms(2) by (simp add: sell_base_of_def)
  have second: "identify_dex ?a (sell_base_of bk ?ix) = Some sk"
      "validate_dex_section pda ?a sk (sell_base_of bk ?ix) (rx_second_count ?ix) = Ok ()"
    using assms(3)[unfolded good_section_def, THEN conjunct2, rule_format, of "?user @ sec1" "[]"] assms(8)
    unfolding base by simp_all
  have room: "sell_base_of bk ?ix + fixed_len sk + rx_second_count ?ix \<le> length ?a"
    using assms(3) assms(8) by (simp add: base good_section_def)
  have signer: "acc_is_signer (?a ! 0)" by (rule user_signs) (simp add: assms(8))
  show adm: "admitted pda ?a ?ix bk sk"
    using first second room signer assms(4,6,7) by (simp add: admitted_def)
  show "orchestrate_handle pda cpi ?a data l = run_legs cpi ?a ?ix bk sk l"
    using adm assms(5) admitted_room(1) [OF adm]
    by (auto simp: orchestrate_handle_def Let_def parse_ix_eq admitted_def run_legs_def
        sell_base_of_def add.assoc require_signer_def idx_def)
qed

lemma good_cpmm:
  assumes "owner pool = CPMM_ID"
  shows "good_section pda owner Cpmm 0 (push_cpmm_accounts pda pool im om ia oa itp otp MEMO_ID TOKEN22_ID cfg)"
proof -
  let ?s = "push_cpmm_accounts pda pool im om ia oa itp otp MEMO_ID TOKEN22_ID cfg"
  have len: "length ?s = 13" by (simp add: push_cpmm_accounts_def)
  have "identify_dex (load_accounts owner (pre @ ?s @ post)) (length pre) = Some Cpmm \<and>
      cpmm_validate_section pda (load_accounts owner (pre @ ?s @ post)) (length pre) 0 = Ok ()" for pre post
  proof -
    have "(pre @ ?s @ post) ! (length pre + k) = ?s ! k" if "k < 13" for k
      by (rule nth_section) (simp_all add: len that)
    from this [of 0] this [of 1] this [of 3] this [of 10] this [of 11] this [of 12] show ?thesis
      using assms
      by (simp add: identify_dex_def from_program_id_def cpmm_validate_Ok_iff len)
        (simp add: push_cpmm_accounts_def tokenkeg_cl_def CPMM_AUTH_SEED_def)
  qed
  then show ?thesis by (simp add: good_section_def len)
qed

lemma good_dlmm:
  assumes "dlmm_section_data pda parse_key dlmm tp = Ok d" and "dp_bin_array_addresses dlmm \<noteq> []"
    and "owner (ds_lb_pair d) = DLMM_ID"
  shows "good_section pda owner Dlmm (unat (ds_bin_count d)) (push_dlmm_generic_accounts d)"
    and "length (push_dlmm_generic_accounts d) = 13 + unat (ds_bin_count d)"
proof -
  let ?s = "push_dlmm_generic_accounts d"
  have "length (ds_bin_arrays d) = min (length (dp_bin_array_addresses dlmm)) 5"
    and cnt: "ds_bin_count d = of_nat (min (length (dp_bin_array_addresses dlmm)) 5)"
    and keys: "ds_program d = DLMM_ID" "ds_memo d = MEMO_ID" "ds_event_auth d = DLMM_EVENT_AUTH"
      "ds_oracle d = pda [byte_string ''oracle'', key_bytes (ds_lb_pair d)] DLMM_ID"
    using assms(1) by (auto simp: dlmm_section_data_def Let_def and_then_Ok_iff dest: traverse_length)
  moreover have "1 \<le> length (dp_bin_array_addresses dlmm)"
    using assms(2) by (cases "dp_bin_array_addresses dlmm") auto
  ultimately have n: "length (ds_bin_arrays d) = unat (ds_bin_count d)" "1 \<le> unat (ds_bin_count d)"
    "unat (ds_bin_count d) \<le> 6" by (simp_all add: small_count)
  show len: "length ?s = 13 + unat (ds_bin_count d)" by (simp add: push_dlmm_generic_accounts_def n(1))
  have "identify_dex (load_accounts owner (pre @ ?s @ post)) (length pre) = Some Dlmm \<and>
      dlmm_validate_section pda (load_accounts owner (pre @ ?s @ post)) (length pre) (unat (ds_bin_count d))
        = Ok ()" for pre post
  proof -
    have "(pre @ ?s @ post) ! (length pre + k) = ?s ! k" if "k < 13" for k
      by (rule nth_section) (use that in \<open>simp_all add: len\<close>)
    from this [of 0] this [of 1] this [of 5] this [of 7] this [of 8] show ?thesis
      using assms(3) n
      by (simp add: identify_dex_def from_program_id_def dlmm_validate_Ok_iff len)
        (simp add: push_dlmm_generic_accounts_def keys DLMM_ORACLE_SEED_def)
  qed
  then show "good_section pda owner Dlmm (unat (ds_bin_count d)) ?s" by (simp add: good_section_def len)
qed

lemma good_pumpswap:
  assumes "from_program_id pool = None"
    and "pda [PUMP_EVENT_AUTH_SEED] PUMP_SWAP_ID = pubkey_lit PUMPSWAP_EVENT_AUTHORITY"
    and "pda [PUMP_GLOBAL_CONFIG_SEED] PUMP_SWAP_ID = pubkey_lit PUMPSWAP_GLOBAL_CONFIG"
  shows "good_section pda owner PumpSwap (unat (pumpswap_buy_remaining_count m))
      (push_pumpswap_generic_buy pda u us um mm sm bp qp pool m)"
    and "good_section pda owner PumpSwap (unat (pumpswap_buy_remaining_count m))
      (push_pumpswap_generic_sell pda u us um mm sm bp qp pool m)"
proof -
  have good: "good_section pda owner PumpSwap n sec"
    if len: "23 + n \<le> length sec" and "meta_pubkey (sec ! 0) = pool" "meta_pubkey (sec ! 16) = PUMP_SWAP_ID"
      "meta_pubkey (sec ! 2) = pubkey_lit PUMPSWAP_GLOBAL_CONFIG"
      "meta_pubkey (sec ! 15) = pubkey_lit PUMPSWAP_EVENT_AUTHORITY" for n sec
  proof -
    have "identify_dex (load_accounts owner (pre @ sec @ post)) (length pre) = Some PumpSwap \<and>
      pumpswap_validate_section pda (load_accounts owner (pre @ sec @ post)) (length pre) n = Ok ()" for pre post
    proof -
      have at: "(pre @ sec @ post) ! (length pre + k) = sec ! k" if "k < 23" for k
        by (rule nth_section) (use len that in simp_all)
      have "sec \<noteq> []" using len by auto
      then show ?thesis
        using that assms at [of 0] at [of 2] at [of 15] at [of 16]
        by (simp add: identify_dex_def Let_def pumpswap_validate_Ok_iff)
          (simp add: from_program_id_def)
    qed
    then show ?thesis using len by (simp add: good_section_def)
  qed
  show "good_section pda owner PumpSwap (unat (pumpswap_buy_remaining_count m))
      (push_pumpswap_generic_buy pda u us um mm sm bp qp pool m)"
    by (rule good) (simp_all add: push_pumpswap_generic_buy_def length_pump_accounts,
      simp_all add: push_pumpswap_buy_accounts_def Let_def nth_append)
  show "good_section pda owner PumpSwap (unat (pumpswap_buy_remaining_count m))
      (push_pumpswap_generic_sell pda u us um mm sm bp qp pool m)"
    by (rule good) (simp_all add: push_pumpswap_generic_sell_def length_pump_accounts remaining_counts
      Let_def, simp_all add: push_pumpswap_sell_accounts_def Let_def nth_append)
qed

end
