(* ===== verification/Client_Transactions.thy ===== *)
theory Client_Transactions
  imports Client_Onchain
begin

text \<open>
  What the bot does to transactions that are already compiled: the zero-slippage diagnostic of
  \<open>simulator/mod.rs\<close>, the tip injection of \<open>executor/atomic/mod.rs\<close> and \<open>executor/sender.rs\<close>,
  and the lookup table and rate limit state of \<open>onchain_router.rs\<close>, \<open>sender.rs\<close> and \<open>jito.rs\<close>.
  The message records hold the fields of the SDK's types the source reads or writes; compiling,
  signing and serialising are the SDK's and not modelled.
\<close>

section \<open>Compiled messages\<close>

record compiled_ix =
  ci_program_id_index :: byte
  ci_accounts :: "byte list"
  ci_data :: "byte list"

record table_lookup =
  lk_account_key :: pubkey
  lk_writable_indexes :: "byte list"
  lk_readonly_indexes :: "byte list"

record message_v0 =
  mv_num_readonly_unsigned :: byte
  mv_account_keys :: "pubkey list"
  mv_recent_blockhash :: "byte list"
  mv_instructions :: "compiled_ix list"
  mv_lookups :: "table_lookup list"

record table_account =
  ta_key :: pubkey
  ta_addresses :: "pubkey list"

section \<open>The zero-slippage diagnostic\<close>

definition zero_bytes :: "byte list \<Rightarrow> nat \<Rightarrow> nat \<Rightarrow> byte list" where
  "zero_bytes data a b = take a data @ replicate (b - a) 0 @ drop b data"

definition zero_min_out_direct :: "byte list \<Rightarrow> byte list \<times> bool" where
  "zero_min_out_direct data =
     (if 24 \<le> length data then (zero_bytes data 16 24, True) else (data, False))"

definition zero_min_out_onchain :: "byte list \<Rightarrow> byte list \<times> bool" where
  "zero_min_out_onchain data =
     (if 8 \<le> length data then (zero_bytes data (length data - 8) (length data), True)
      else (data, False))"

definition zero_instruction :: "pubkey \<Rightarrow> pubkey list \<Rightarrow> compiled_ix \<Rightarrow> (compiled_ix \<times> bool) client_result" where
  "zero_instruction onchain_arb_id account_keys ix =
     and_then (idx account_keys (unat (ci_program_id_index ix))) (\<lambda>pid.
     let (data, zeroed) =
       (if pid = onchain_arb_id then zero_min_out_onchain (ci_data ix)
        else if pid = pubkey_lit DLMM_PROGRAM \<or> pid = pubkey_lit PUMPFUN_AMM_PROGRAM
             \<or> pid = pubkey_lit PUMPFUN_BONDING_CURVE_PROGRAM
        then zero_min_out_direct (ci_data ix) else (ci_data ix, False)) in
     Ok (ix\<lparr>ci_data := data\<rparr>, zeroed))"

text \<open>The message handed to the simulation; \<open>modified\<close> is a \<open>u8\<close> counter.\<close>

definition diagnostic_instructions :: "pubkey \<Rightarrow> pubkey list \<Rightarrow> compiled_ix list \<Rightarrow> compiled_ix list client_result" where
  "diagnostic_instructions onchain_arb_id account_keys ixs =
     and_then (traverse (zero_instruction onchain_arb_id account_keys) ixs) (\<lambda>rs.
     let modified = (of_nat (length (filter snd rs)) :: byte) in
     if modified = 0 then Err (Failed ''diagnostic: no swap ix found in TX'') else Ok (map fst rs))"

section \<open>Lookup tables\<close>

text \<open>\<open>fetch_alt_via_rpc\<close>: \<open>fetch\<close> is the RPC read of the account data, \<open>None\<close> its failure.\<close>

definition ALT_HEADER_LEN :: nat where
  "ALT_HEADER_LEN = 32"

function chunks_exact :: "nat \<Rightarrow> 'a list \<Rightarrow> 'a list list" where
  "chunks_exact n xs = (if n = 0 \<or> length xs < n then [] else take n xs # chunks_exact n (drop n xs))"
  by auto
termination by (relation "measure (\<lambda>(n, xs). length xs)") auto

definition fetch_alt_via_rpc :: "(pubkey \<Rightarrow> byte list option) \<Rightarrow> pubkey \<Rightarrow> pubkey list" where
  "fetch_alt_via_rpc fetch alt_address =
     (case fetch alt_address of
        None \<Rightarrow> []
      | Some data \<Rightarrow>
          if ALT_HEADER_LEN \<le> length data
          then map key_of_bytes (chunks_exact 32 (drop ALT_HEADER_LEN data)) else [])"

text \<open>\<open>get_alt_accounts_sync\<close>, with its process-wide cache as state.\<close>

fun get_alt_accounts_sync :: "(pubkey \<Rightarrow> byte list option) \<Rightarrow> (pubkey \<rightharpoonup> pubkey list) \<Rightarrow> table_lookup list
    \<Rightarrow> (pubkey \<rightharpoonup> pubkey list) \<times> table_account list" where
  "get_alt_accounts_sync fetch cache [] = (cache, [])"
| "get_alt_accounts_sync fetch cache (l # ls) =
     (let k = lk_account_key l;
          (addresses, cache1) = (case cache k of
              Some a \<Rightarrow> (a, cache)
            | None \<Rightarrow> (let a = fetch_alt_via_rpc fetch k in (a, cache(k \<mapsto> a))));
          (cache2, rest) = get_alt_accounts_sync fetch cache1 ls in
      (cache2, \<lparr>ta_key = k, ta_addresses = addresses\<rparr> # rest))"

text \<open>\<open>get_alt\<close> of the route builder: one table, kept for 500 slots. \<open>slot\<close> is \<open>get_slot\<close> with
  its default of zero; \<open>fetched\<close> the table the RPC and the SDK's parser deliver.\<close>

definition ALT_CACHE_SLOTS :: u64 where
  "ALT_CACHE_SLOTS = 500"

definition sat_sub :: "u64 \<Rightarrow> u64 \<Rightarrow> u64" where
  "sat_sub a b = (if a < b then 0 else a - b)"

definition get_alt :: "u64 \<Rightarrow> table_account option \<Rightarrow> (pubkey \<times> table_account \<times> u64) option \<Rightarrow> pubkey
    \<Rightarrow> (pubkey \<times> table_account \<times> u64) option \<times> table_account client_result" where
  "get_alt slot fetched cache alt_address =
     (let refetch = (case fetched of
          None \<Rightarrow> (cache, Err (Failed ''fetch ALT account''))
        | Some alt \<Rightarrow> (Some (alt_address, alt, slot), Ok alt)) in
      case cache of
        Some (addr, alt, cached_slot) \<Rightarrow>
          if addr = alt_address \<and> sat_sub slot cached_slot < ALT_CACHE_SLOTS
          then (cache, Ok alt) else refetch
      | None \<Rightarrow> refetch)"

section \<open>Tip injection\<close>

definition JITO_TIP_ACCOUNTS :: "string list" where
  "JITO_TIP_ACCOUNTS =
     [''3AVi9Tg9Uo68tJfuvoKvqKNWKkC5wPdSSdeBnizKZ6jT'',
      ''HFqU5x63VTqvQss8hp11i4wVV8bD44PvwucfZ2bU7gRe'',
      ''Cw8CFyM9FkoMi7K7Crf6HNQqf4uEMzpKw6QNghXLvLkY'',
      ''DfXygSm4jCyNCybVYYK6DwvWqjKee8pbDmJGcLWNDXjh'',
      ''ADuUkR4vqLUMWXxW9gh6D6L8pMSawimctcNZ5pGwDcEt'',
      ''DttWaMuVvTiduZRnguLF7jNxTgiMBZ1hyAumKUiL2KRL'',
      ''96gYZGLnJYVFmbjzopPSU6QiEV5fGqZNyN9nmNhvrZU5'',
      ''ADaUMid9yfUytqMBgopwjb2DTLSokTSzL1zt6iGPaS49'']"

definition JITO_TIP_LAMPORTS :: u64 where
  "JITO_TIP_LAMPORTS = 100000"

definition TIP_ACCOUNTS :: "string list" where
  "TIP_ACCOUNTS =
     [''4ACfpUFoaSD9bfPdeu6DBt89gB6ENTeHBXCAi87NhDEE'',
      ''D2L6yPZ2FmmmTKPgzaMKdhu6EWZcTpLy1Vhx8uvZe7NZ'',
      ''9bnz4RShgq1hAnLnZbP8kbgBg1kEmcJBYQq3gQbmnSta'',
      ''5VY91ws6B2hMmBFRsXkoAAdsPHBJwRfBht4DXox3xkwn'',
      ''2nyhqdwKcJZR2vcqCyrYsaPVdAnFoJjiksCXJ7hfEYgD'',
      ''2q5pghRs6arqVjRvT5gfgWfWcHWmw1ZuCzphgd5KfWGJ'',
      ''wyvPkWjVZz1M8fHQnMMCDTQDbkManefNNhweYk5WkcF'',
      ''3KCKozbAaF75qEU33jtzozcJ29yJuaLJTy2jFdzUY8bT'',
      ''4vieeGHPYPG2MmyPRcYjdiDmmhN3ww7hsFNap8pVN3Ey'',
      ''4TQLFNWK8AovT1gFvda5jfw2oJeRMKEmw7aH6MGBJ3or'',
      ''D1Mc6j9xQWgR1o1Z7yU5nVVXFQiAYx7FG9AW1aVfwrUM'']"

definition MIN_TIP_LAMPORTS_SWQOS :: u64 where
  "MIN_TIP_LAMPORTS_SWQOS = 5000"

definition MIN_TIP_LAMPORTS_DUAL :: u64 where
  "MIN_TIP_LAMPORTS_DUAL = 200000"

text \<open>\<open>inject_jito_tip\<close> up to the list of instructions it recompiles, and the same loop as
  \<open>decompile_instructions\<close> of \<open>sender.rs\<close>.\<close>

definition decompile_instruction :: "pubkey list \<Rightarrow> compiled_ix \<Rightarrow> instruction client_result" where
  "decompile_instruction all_keys ci =
     and_then (idx all_keys (unat (ci_program_id_index ci))) (\<lambda>program_id.
     and_then (traverse (\<lambda>i. and_then (idx all_keys (unat i)) (\<lambda>k. Ok (meta_new k False))) (ci_accounts ci)) (\<lambda>accounts.
     Ok \<lparr>ix_program_id = program_id, ix_accounts = accounts, ix_data = ci_data ci\<rparr>))"

definition decompile_instructions :: "message_v0 \<Rightarrow> pubkey list \<Rightarrow> instruction list client_result" where
  "decompile_instructions m all_keys = traverse (decompile_instruction all_keys) (mv_instructions m)"

definition all_message_keys :: "message_v0 \<Rightarrow> table_account list \<Rightarrow> pubkey list" where
  "all_message_keys m alts = mv_account_keys m @ concat (map ta_addresses alts)"

definition tip_account_index :: "message_v0 \<Rightarrow> nat client_result" where
  "tip_account_index m =
     and_then (idx (mv_recent_blockhash m) 0) (\<lambda>b. Ok (unat b mod length JITO_TIP_ACCOUNTS))"

definition inject_jito_tip :: "parse_key \<Rightarrow> pubkey \<Rightarrow> message_v0 \<Rightarrow> table_account list \<Rightarrow> instruction list client_result" where
  "inject_jito_tip parse_key wallet m alts =
     and_then (tip_account_index m) (\<lambda>tip_idx.
     and_then (key_or_err parse_key (JITO_TIP_ACCOUNTS ! tip_idx)) (\<lambda>tip_account.
     and_then (decompile_instructions m (all_message_keys m alts)) (\<lambda>instructions.
     Ok (instructions @ [system_transfer_ix wallet tip_account JITO_TIP_LAMPORTS]))))"

text \<open>\<open>add_tip_and_resign\<close> of \<open>sender.rs\<close> up to the message it signs: the key list is extended in
  place. An index is a byte, so it is cut off at 256.\<close>

definition position_or_push :: "pubkey \<Rightarrow> pubkey list \<Rightarrow> pubkey list \<times> byte" where
  "position_or_push k keys =
     (if k \<in> set keys then (keys, of_nat (length (takeWhile (\<lambda>x. x \<noteq> k) keys)))
      else (keys @ [k], of_nat (length keys)))"

definition add_tip :: "parse_key \<Rightarrow> message_v0 \<Rightarrow> u64 \<Rightarrow> bool \<Rightarrow> message_v0 client_result" where
  "add_tip parse_key m min_slot swqos_only =
     (let tip_lamports = (if swqos_only then MIN_TIP_LAMPORTS_SWQOS else MIN_TIP_LAMPORTS_DUAL);
          tip_idx = unat min_slot mod length TIP_ACCOUNTS in
      and_then (key_or_err parse_key (TIP_ACCOUNTS ! tip_idx)) (\<lambda>tip_account.
      let (keys1, sys_prog_idx) = position_or_push (pubkey_lit ''11111111111111111111111111111111'') (mv_account_keys m);
          (keys2, tip_acct_idx) = position_or_push tip_account keys1;
          tip_data = u32_to_le 2 @ u64_to_le tip_lamports in
      and_then (ok_or (case mv_instructions m of [] \<Rightarrow> None | ix # _ \<Rightarrow> Some ix) (Failed ''tx has no instructions to clone''))
        (\<lambda>first.
         let tip_ix = first\<lparr>ci_program_id_index := sys_prog_idx, ci_accounts := [0, tip_acct_idx],
               ci_data := tip_data\<rparr> in
         Ok (m\<lparr>mv_account_keys := keys2, mv_num_readonly_unsigned := 0,
               mv_instructions := mv_instructions m @ [tip_ix]\<rparr>))))"

section \<open>Rate limit of the block engine\<close>

text \<open>\<open>submit_via_jito\<close>: \<open>last_ms\<close> is the time of the last submission in milliseconds, and the
  result says whether a request is sent, with the new state. The subtraction wraps at 64 bits.\<close>

definition jito_gate :: "u64 \<Rightarrow> u64 \<Rightarrow> bool \<times> u64" where
  "jito_gate last_ms now_ms =
     (if sint (now_ms - last_ms) < 1100 then (False, last_ms) else (True, now_ms))"

end
