(* ===== verification/Client_Properties.thy ===== *)
theory Client_Properties
  imports Client_Onchain
begin

text \<open>
  Properties of the bot's route builders, most of them across the boundary: the program accepts
  what the bot builds, reads the parameters the bot meant, and issues the same DEX instructions
  the bot would send directly.
\<close>

section \<open>A concrete pool\<close>

definition demo_parse :: parse_key where
  "demo_parse s = (if s = [] then None else Some (of_nat (length s)))"

definition demo_pool :: dlmm_pool where
  "demo_pool =
     \<lparr>dp_lb_pair = ''pair'', dp_token_x_mint = NATIVE_SOL_MINT_C, dp_token_y_mint = ''meme'',
      dp_reserve_x = 5, dp_reserve_y = 5, dp_reserve_x_address = ''x'', dp_reserve_y_address = ''yy'',
      dp_bin_array_addresses = [''bin0'', ''bin1''], dp_bins = [], dp_bin_step = 10,
      dp_base_factor = 10, dp_active_id = 0, dp_bin_array_bitmap_extension = None,
      dp_sqrt_price = 0, dp_tick_current_index = 0, dp_fee_rate = 0\<rparr>"

definition demo_meta :: pool_meta where
  "demo_meta = \<lparr>pm_coin_creator = 9, pm_is_mayhem_mode = False, pm_is_cashback_coin = True,
     pm_pool_base_token_account = 21, pm_pool_quote_token_account = 22\<rparr>"

text \<open>An address derivation under which the two PumpSwap constants of the client are derived.\<close>

definition pump_pda :: pda_fn where
  "pump_pda seeds program =
     (if seeds = [PUMP_EVENT_AUTH_SEED] then pubkey_lit PUMPSWAP_EVENT_AUTHORITY
      else if seeds = [PUMP_GLOBAL_CONFIG_SEED] then pubkey_lit PUMPSWAP_GLOBAL_CONFIG else 7)"

lemma pump_pda_facts:
  "pump_pda [PUMP_EVENT_AUTH_SEED] PUMP_SWAP_ID = pubkey_lit PUMPSWAP_EVENT_AUTHORITY"
  "pump_pda [PUMP_GLOBAL_CONFIG_SEED] PUMP_SWAP_ID = pubkey_lit PUMPSWAP_GLOBAL_CONFIG"
  by (simp_all add: pump_pda_def PUMP_EVENT_AUTH_SEED_def PUMP_GLOBAL_CONFIG_SEED_def byte_string_def)

lemma demo_builds:
  "\<exists>ix. build_route_pump_to_dlmm pump_pda demo_parse 100 101 102 103 10 1 5 demo_pool demo_meta 104
      TOKEN_ID ''prog'' 77 = Ok (ix, 77)"
  "\<exists>ix. build_route_dlmm_to_pump pump_pda demo_parse 100 101 102 103 10 1 5 demo_pool demo_meta 104
      TOKEN_ID ''prog'' 77 = Ok (ix, 77)"
  by (simp_all add: build_route_pump_to_dlmm_def build_route_dlmm_to_pump_def Let_def demo_pool_def
      demo_parse_def key_or_err_def key_unwrap_def)

section \<open>The fixed routes\<close>

text \<open>C13: Whatever the pools look like, an instruction the bot builds for the PumpSwap-to-DLMM
  route with nonzero amounts and at least one bin array passes every check of the program, which
  runs the two legs with the amount, profit and minimum output the bot asked for.\<close>

theorem client_pump_to_dlmm_runs:
  assumes "build_route_pump_to_dlmm pda parse_key wallet us um mint invest min_meme min_profit dlmm
      meta pool tp prog_id h = Ok (ix, h')"
    and "invest \<noteq> 0" and "min_profit \<noteq> 0" and "dp_bin_array_addresses dlmm \<noteq> []"
    and "pda [PUMP_EVENT_AUTH_SEED] PUMP_SWAP_ID = pubkey_lit PUMPSWAP_EVENT_AUTHORITY"
    and "pda [PUMP_GLOBAL_CONFIG_SEED] PUMP_SWAP_ID = pubkey_lit PUMPSWAP_GLOBAL_CONFIG"
  shows "process_instruction pda cpi program_id (load_accounts owner (ix_accounts ix)) (ix_data ix) l
      = pump_to_dlmm_legs cpi (load_accounts owner (ix_accounts ix)) (route_ix_of (ix_data ix)) l \<and>
    rx_amount_in (route_ix_of (ix_data ix)) = invest \<and>
    rx_min_profit (route_ix_of (ix_data ix)) = min_profit \<and>
    rx_min_intermediate (route_ix_of (ix_data ix)) = min_meme"
proof -
  obtain lp bm rx ry bins where accs: "ix_accounts ix = [meta_new wallet True, meta_new us False, meta_new um False]
       @ push_pumpswap_buy_accounts pda wallet us um mint NATIVE_SOL_MINT tp TOKEN_ID pool meta
       @ push_dlmm_accounts DLMM_ID lp bm rx ry (pda [byte_string ''oracle'', key_bytes lp] DLMM_ID)
           DLMM_ID MEMO_ID DLMM_EVENT_AUTH bins"
    and data: "ix_data ix = build_ix_data ROUTE_PUMP_TO_DLMM_DISC invest min_profit min_meme False
       (dp_token_x_mint dlmm = NATIVE_SOL_MINT_C) (pumpswap_buy_remaining_count meta)
       (of_nat (length bins))"
    and bins: "length bins = min (length (dp_bin_array_addresses dlmm)) 5"
    by (rule build_pump_to_dlmm_OkE [OF assms(1)])
  let ?r = "unat (pumpswap_buy_remaining_count meta)" and ?a = "load_accounts owner (ix_accounts ix)"
  have len: "length (ix_accounts ix) = 35 + ?r + length bins" by (simp add: accs length_pump_accounts)
  have bin_range: "1 \<le> length bins" "length bins \<le> 6" using bins assms(4) by (cases "dp_bin_array_addresses dlmm"; simp)+
  note parsed = built_ix_data [OF disc_length(1), of invest min_profit min_meme False
      "dp_token_x_mint dlmm = NATIVE_SOL_MINT_C" "pumpswap_buy_remaining_count meta" "of_nat (length bins)",
      folded data]
  have "counts_ok (route_ix_of (ix_data ix))"
    using assms(2,3) bin_range by (simp add: counts_ok_def parsed(3) small_count remaining_counts)
  moreover have "pump_section_known pda ?a 3 21 22"
    using client_pump_known(1) [where pda = pda and base = 3 and
        pre = "[meta_new wallet True, meta_new us False, meta_new um False]", OF _ assms(5,6)]
    by (simp add: accs)
  moreover have "dlmm_section_known pda ?a (26 + ?r)"
    using client_dlmm_known [of "[meta_new wallet True, meta_new us False, meta_new um False]
      @ push_pumpswap_buy_accounts pda wallet us um mint NATIVE_SOL_MINT tp TOKEN_ID pool meta" "26 + ?r"
      pda owner lp bm rx ry DLMM_ID bins "[]"] by (simp add: accs length_pump_accounts)
  moreover have "acc_is_signer (?a ! 0)" by (rule user_signs) (simp add: accs)
  ultimately have "pump_to_dlmm_checks pda ?a 3 (26 + ?r) = Ok ()"
    by (subst pump_to_dlmm_checks_Ok_iff) (auto simp: len)
  then show ?thesis
    using \<open>counts_ok _\<close> assms(2,3) len bin_range
    by (simp add: process_eq parsed pump_to_dlmm_eq Let_def small_count)
qed

theorem client_pump_to_dlmm_runs_witness:
  "\<exists>ix. build_route_pump_to_dlmm pump_pda demo_parse 100 101 102 103 10 1 5 demo_pool demo_meta 104
      TOKEN_ID ''prog'' 77 = Ok (ix, 77) \<and>
    process_instruction pump_pda demo_cpi 0 (load_accounts (\<lambda>_. 0) (ix_accounts ix)) (ix_data ix) demo_ledger
      = pump_to_dlmm_legs demo_cpi (load_accounts (\<lambda>_. 0) (ix_accounts ix)) (route_ix_of (ix_data ix))
          demo_ledger \<and>
    rx_amount_in (route_ix_of (ix_data ix)) = 10"
proof -
  obtain ix where b: "build_route_pump_to_dlmm pump_pda demo_parse 100 101 102 103 10 1 5 demo_pool
      demo_meta 104 TOKEN_ID ''prog'' 77 = Ok (ix, 77)"
    using demo_builds(1) by blast
  from client_pump_to_dlmm_runs [OF b _ _ _ pump_pda_facts] b show ?thesis
    by (auto simp: demo_pool_def)
qed

text \<open>C14: The same for the DLMM-to-PumpSwap route.\<close>

theorem client_dlmm_to_pump_runs:
  assumes "build_route_dlmm_to_pump pda parse_key wallet us um mint invest min_meme min_profit dlmm
      meta pool tp prog_id h = Ok (ix, h')"
    and "invest \<noteq> 0" and "min_profit \<noteq> 0" and "dp_bin_array_addresses dlmm \<noteq> []"
    and "pda [PUMP_EVENT_AUTH_SEED] PUMP_SWAP_ID = pubkey_lit PUMPSWAP_EVENT_AUTHORITY"
    and "pda [PUMP_GLOBAL_CONFIG_SEED] PUMP_SWAP_ID = pubkey_lit PUMPSWAP_GLOBAL_CONFIG"
  shows "process_instruction pda cpi program_id (load_accounts owner (ix_accounts ix)) (ix_data ix) l
      = dlmm_to_pump_legs cpi (load_accounts owner (ix_accounts ix)) (route_ix_of (ix_data ix)) l \<and>
    rx_amount_in (route_ix_of (ix_data ix)) = invest \<and>
    rx_min_profit (route_ix_of (ix_data ix)) = min_profit \<and>
    rx_min_intermediate (route_ix_of (ix_data ix)) = min_meme"
proof -
  obtain lp bm rx ry bins where accs: "ix_accounts ix = [meta_new wallet True, meta_new us False, meta_new um False]
       @ push_dlmm_accounts DLMM_ID lp bm rx ry (pda [byte_string ''oracle'', key_bytes lp] DLMM_ID)
           DLMM_ID MEMO_ID DLMM_EVENT_AUTH bins
       @ push_pumpswap_sell_accounts pda wallet us um mint NATIVE_SOL_MINT tp TOKEN_ID pool meta"
    and data: "ix_data ix = build_ix_data ROUTE_DLMM_TO_PUMP_DISC invest min_profit min_meme False
       (dp_token_x_mint dlmm = NATIVE_SOL_MINT_C) (pumpswap_sell_remaining_count meta)
       (of_nat (length bins))"
    and bins: "length bins = min (length (dp_bin_array_addresses dlmm)) 5"
    by (rule build_dlmm_to_pump_OkE [OF assms(1)])
  let ?r = "unat (pumpswap_sell_remaining_count meta)" and ?a = "load_accounts owner (ix_accounts ix)"
  let ?user = "[meta_new wallet True, meta_new us False, meta_new um False]"
  have len: "length (ix_accounts ix) = 33 + ?r + length bins" by (simp add: accs length_pump_accounts)
  have bin_range: "1 \<le> length bins" "length bins \<le> 6" using bins assms(4) by (cases "dp_bin_array_addresses dlmm"; simp)+
  note parsed = built_ix_data [OF disc_length(2), of invest min_profit min_meme False
      "dp_token_x_mint dlmm = NATIVE_SOL_MINT_C" "pumpswap_sell_remaining_count meta" "of_nat (length bins)",
      folded data]
  have counts: "counts_ok (route_ix_of (ix_data ix))"
    using assms(2,3) bin_range by (simp add: counts_ok_def parsed(3) small_count remaining_counts)
  moreover have "pump_section_known pda ?a (12 + length bins) 19 20"
    using client_pump_known(2) [where pda = pda and base = "12 + length bins" and post = "[]" and
        pre = "?user @ push_dlmm_accounts DLMM_ID lp bm rx ry (pda [byte_string ''oracle'', key_bytes lp] DLMM_ID)
           DLMM_ID MEMO_ID DLMM_EVENT_AUTH bins", OF _ assms(5,6)]
    by (simp add: accs)
  moreover have "dlmm_section_known pda ?a 3"
    using client_dlmm_known [of ?user 3 pda owner lp bm rx ry DLMM_ID bins] by (simp add: accs)
  moreover have "acc_is_signer (?a ! 0)" by (rule user_signs) (simp add: accs)
  ultimately have "dlmm_to_pump_checks pda ?a 3 (12 + length bins) = Ok ()"
    by (subst dlmm_to_pump_checks_Ok_iff) (auto simp: len)
  then show ?thesis
    using counts assms(2,3) len bin_range
    by (simp add: process_eq parsed dlmm_to_pump_eq Let_def small_count)
qed

theorem client_dlmm_to_pump_runs_witness:
  "\<exists>ix. build_route_dlmm_to_pump pump_pda demo_parse 100 101 102 103 10 1 5 demo_pool demo_meta 104
      TOKEN_ID ''prog'' 77 = Ok (ix, 77) \<and>
    process_instruction pump_pda demo_cpi 0 (load_accounts (\<lambda>_. 0) (ix_accounts ix)) (ix_data ix) demo_ledger
      = dlmm_to_pump_legs demo_cpi (load_accounts (\<lambda>_. 0) (ix_accounts ix)) (route_ix_of (ix_data ix))
          demo_ledger \<and>
    rx_min_profit (route_ix_of (ix_data ix)) = 5"
proof -
  obtain ix where b: "build_route_dlmm_to_pump pump_pda demo_parse 100 101 102 103 10 1 5 demo_pool
      demo_meta 104 TOKEN_ID ''prog'' 77 = Ok (ix, 77)"
    using demo_builds(2) by blast
  from client_dlmm_to_pump_runs [OF b _ _ _ pump_pda_facts] b show ?thesis
    by (auto simp: demo_pool_def)
qed

section \<open>The issued instructions are the direct ones\<close>

text \<open>The PumpSwap buy the program issues out of the bot's account list, wherever that
  section stands in it, has the program, the data and the account keys, in order, of the buy
  instruction the bot builds when it trades directly.\<close>

lemma issued_buy_is_direct_buy:
  "let accounts = load_accounts owner (pre @ push_pumpswap_buy_accounts pda user us um mint sm bp qp pool m @ post);
       issued = pump_buy_ix accounts (length pre) (unat (pumpswap_buy_remaining_count m)) amount min_out tv;
       direct = build_pumpswap_buy_ix pda user pool mint sm um us (pm_pool_base_token_account m)
         (pm_pool_quote_token_account m) bp qp amount min_out tv (pm_coin_creator m)
         (pm_is_cashback_coin m) (pubkey_lit PUMPSWAP_BUYBACK_FEE_RECIPIENT)
         (pick_pumpswap_protocol_fee_recipient (pm_is_mayhem_mode m))
   in ix_program_id issued = ix_program_id direct \<and> ix_data issued = ix_data direct \<and>
      map meta_pubkey (ix_accounts issued) = map meta_pubkey (ix_accounts direct)"
proof -
  let ?s = "push_pumpswap_buy_accounts pda user us um mint sm bp qp pool m"
  have "acc_key (load_accounts owner (pre @ ?s @ post) ! (length pre + 16)) = meta_pubkey (?s ! 16)"
    by (rule section_nth_key) (simp_all add: length_pump_accounts)
  moreover have "map (\<lambda>i. acc_key (load_accounts owner (pre @ ?s @ post) ! (length pre + i)))
      [0..<23 + unat (pumpswap_buy_remaining_count m)] = map meta_pubkey ?s"
    by (rule keys_section) (simp_all add: length_pump_accounts)
  ultimately show ?thesis
    unfolding Let_def pump_ix_keys
    by (simp add: pump_buy_ix_def build_pumpswap_buy_ix_def push_pumpswap_buy_accounts_def Let_def
        nth_append bool_byte_def)
qed

text \<open>The same for the PumpSwap sell, with the sell count of remaining accounts.\<close>

lemma issued_sell_is_direct_sell:
  "let accounts = load_accounts owner (pre @ push_pumpswap_sell_accounts pda user us um mint sm bp qp pool m @ post);
       issued = pump_sell_ix accounts (length pre) (unat (pumpswap_sell_remaining_count m)) amount min_out;
       direct = build_pumpswap_sell_ix pda user pool mint sm um us (pm_pool_base_token_account m)
         (pm_pool_quote_token_account m) bp qp amount min_out (pm_coin_creator m)
         (pm_is_cashback_coin m) (pubkey_lit PUMPSWAP_BUYBACK_FEE_RECIPIENT)
         (pick_pumpswap_protocol_fee_recipient (pm_is_mayhem_mode m))
   in ix_program_id issued = ix_program_id direct \<and> ix_data issued = ix_data direct \<and>
      map meta_pubkey (ix_accounts issued) = map meta_pubkey (ix_accounts direct)"
proof -
  let ?s = "push_pumpswap_sell_accounts pda user us um mint sm bp qp pool m"
  have "acc_key (load_accounts owner (pre @ ?s @ post) ! (length pre + 16)) = meta_pubkey (?s ! 16)"
    by (rule section_nth_key) (simp_all add: length_pump_accounts)
  moreover have "map (\<lambda>i. acc_key (load_accounts owner (pre @ ?s @ post) ! (length pre + i)))
      [0..<21 + unat (pumpswap_sell_remaining_count m)] = map meta_pubkey ?s"
    by (rule keys_section) (simp_all add: length_pump_accounts)
  ultimately show ?thesis
    unfolding Let_def pump_ix_keys
    by (simp add: pump_sell_ix_def build_pumpswap_sell_ix_def push_pumpswap_sell_accounts_def Let_def
        nth_append)
qed

section \<open>The generic route\<close>

text \<open>
  \<open>ready\<close> says that the section data for a kind is there, came from the bot's own resolver, is
  announced with the count of remaining accounts the section has, and that its pool account is
  owned by its DEX, as it is on the chain.
\<close>

definition ready :: "pda_fn \<Rightarrow> parse_key \<Rightarrow> (pubkey \<Rightarrow> pubkey) \<Rightarrow> pubkey \<Rightarrow> dex_kind \<Rightarrow> byte
    \<Rightarrow> cpmm_section option \<Rightarrow> pumpswap_section option \<Rightarrow> dlmm_section option \<Rightarrow> bool" where
  "ready pda parse_key owner tp kind remaining cpmm pump dlmm \<longleftrightarrow>
     (kind = Cpmm \<and> remaining = 0 \<and> (\<exists>d. cpmm = Some d \<and> owner (cs_pool d) = CPMM_ID)) \<or>
     (kind = PumpSwap \<and> (\<exists>meta pool d. pump = Some d \<and> pumpswap_section_data meta pool = Ok d \<and>
        remaining = ss_remaining_count d \<and> from_program_id pool = None)) \<or>
     (kind = Dlmm \<and> (\<exists>pool d. dlmm = Some d \<and> dlmm_section_data pda parse_key pool tp = Ok d \<and>
        dp_bin_array_addresses pool \<noteq> [] \<and> owner (ds_lb_pair d) = DLMM_ID))"

fun wire_kind :: "dex_kind \<Rightarrow> byte" where
  "wire_kind PumpSwap = DEX_KIND_PUMPSWAP_C"
| "wire_kind Dlmm = DEX_KIND_DLMM_C"
| "wire_kind Cpmm = DEX_KIND_CPMM_C"
| "wire_kind Whirlpool = DEX_KIND_WHIRLPOOL_C"

lemma generic_sections:
  assumes "build_generic_route pda parse_key wallet us um mint sol invest min_meme min_profit
      (wire_kind bk) (wire_kind sk) bc bw bp bd sc sw sp sd brem srem bsx mtp stp prog_id = Ok ix"
    and "ready pda parse_key owner tp bk brem bc bp bd" and "ready pda parse_key owner tp' sk srem sc sp sd"
    and "pda [PUMP_EVENT_AUTH_SEED] PUMP_SWAP_ID = pubkey_lit PUMPSWAP_EVENT_AUTHORITY"
    and "pda [PUMP_GLOBAL_CONFIG_SEED] PUMP_SWAP_ID = pubkey_lit PUMPSWAP_GLOBAL_CONFIG"
  obtains sec1 sec2 where
    "ix_accounts ix = [meta_new wallet True, meta_new us False, meta_new um False] @ sec1 @ sec2"
    "ix_data ix = build_ix_data ROUTE_DISC invest min_profit min_meme False bsx
       (ix_remaining (wire_kind bk) brem bd) (ix_remaining (wire_kind sk) srem sd)"
    "good_section pda owner bk (unat (ix_remaining (wire_kind bk) brem bd)) sec1"
    "length sec1 = fixed_len bk + unat (ix_remaining (wire_kind bk) brem bd)"
    "good_section pda owner sk (unat (ix_remaining (wire_kind sk) srem sd)) sec2"
proof -
  have buy: "\<exists>sec. (case bk of
      PumpSwap \<Rightarrow> map_option (\<lambda>d. push_pumpswap_generic_buy pda wallet us um mint sol mtp stp (ss_pool d) (ss_meta d)) bp
    | Dlmm \<Rightarrow> map_option push_dlmm_generic_accounts bd
    | Cpmm \<Rightarrow> map_option (\<lambda>d. push_cpmm_accounts pda (cs_pool d) sol mint us um stp mtp MEMO_ID TOKEN22_ID (cs_config d)) bc
    | Whirlpool \<Rightarrow> None) = Some sec \<and>
      good_section pda owner bk (unat (ix_remaining (wire_kind bk) brem bd)) sec \<and>
      length sec = fixed_len bk + unat (ix_remaining (wire_kind bk) brem bd)"
    using assms(2)
  proof (cases bk)
    case PumpSwap
    then show ?thesis using assms(2) good_pumpswap(1) [where pda = pda, OF _ assms(4,5)]
      by (auto simp: ready_def ix_remaining_def pumpswap_section_data_def push_pumpswap_generic_buy_def
          length_pump_accounts)
  next
    case Dlmm
    then show ?thesis using assms(2) good_dlmm by (fastforce simp: ready_def ix_remaining_def)
  next
    case Cpmm
    then show ?thesis using assms(2) good_cpmm
      by (auto simp: ready_def ix_remaining_def push_cpmm_accounts_def)
  qed (simp add: ready_def)
  have sell: "\<exists>sec. (case sk of
      PumpSwap \<Rightarrow> map_option (\<lambda>d. push_pumpswap_generic_sell pda wallet us um mint sol mtp stp (ss_pool d) (ss_meta d)) sp
    | Dlmm \<Rightarrow> map_option push_dlmm_generic_accounts sd
    | Cpmm \<Rightarrow> map_option (\<lambda>d. push_cpmm_accounts pda (cs_pool d) mint sol um us mtp stp MEMO_ID TOKEN22_ID (cs_config d)) sc
    | Whirlpool \<Rightarrow> None) = Some sec \<and>
      good_section pda owner sk (unat (ix_remaining (wire_kind sk) srem sd)) sec"
    using assms(3)
  proof (cases sk)
    case PumpSwap
    then show ?thesis using assms(3) good_pumpswap(2) [where pda = pda, OF _ assms(4,5)]
      by (auto simp: ready_def ix_remaining_def pumpswap_section_data_def)
  next
    case Dlmm
    then show ?thesis using assms(3) good_dlmm by (fastforce simp: ready_def ix_remaining_def)
  next
    case Cpmm
    then show ?thesis using assms(3) good_cpmm by (auto simp: ready_def ix_remaining_def)
  qed (simp add: ready_def)
  show thesis
    using buy sell assms(1)
    by (cases bk; cases sk)
      (auto simp: build_generic_route_def Let_def and_then_Ok_iff section_or_err_def build_ix_data_def
        intro!: that)
qed

text \<open>C15: For any two different DEXes among PumpSwap, DLMM and CPMM, an instruction the bot builds
  from resolved section data with nonzero amounts passes every check of the generic route, which
  runs exactly the legs of those two DEXes with the bot's parameters.\<close>

theorem client_generic_runs:
  assumes "build_generic_route pda parse_key wallet us um mint sol invest min_meme min_profit
      (wire_kind bk) (wire_kind sk) bc bw bp bd sc sw sp sd brem srem bsx mtp stp prog_id = Ok ix"
    and "ready pda parse_key owner mtp bk brem bc bp bd" and "ready pda parse_key owner mtp sk srem sc sp sd"
    and "bk \<noteq> sk" and "invest \<noteq> 0" and "min_profit \<noteq> 0"
    and "pda [PUMP_EVENT_AUTH_SEED] PUMP_SWAP_ID = pubkey_lit PUMPSWAP_EVENT_AUTHORITY"
    and "pda [PUMP_GLOBAL_CONFIG_SEED] PUMP_SWAP_ID = pubkey_lit PUMPSWAP_GLOBAL_CONFIG"
  shows "process_instruction pda cpi program_id (load_accounts owner (ix_accounts ix)) (ix_data ix) l
      = run_legs cpi (load_accounts owner (ix_accounts ix)) (route_ix_of (ix_data ix)) bk sk l \<and>
    rx_amount_in (route_ix_of (ix_data ix)) = invest \<and>
    rx_min_profit (route_ix_of (ix_data ix)) = min_profit \<and>
    rx_min_intermediate (route_ix_of (ix_data ix)) = min_meme"
proof -
  obtain sec1 sec2 where
    accs: "ix_accounts ix = [meta_new wallet True, meta_new us False, meta_new um False] @ sec1 @ sec2" and
    data: "ix_data ix = build_ix_data ROUTE_DISC invest min_profit min_meme False bsx
       (ix_remaining (wire_kind bk) brem bd) (ix_remaining (wire_kind sk) srem sd)" and
    good: "good_section pda owner bk (unat (ix_remaining (wire_kind bk) brem bd)) sec1"
    "length sec1 = fixed_len bk + unat (ix_remaining (wire_kind bk) brem bd)"
    "good_section pda owner sk (unat (ix_remaining (wire_kind sk) srem sd)) sec2"
    by (rule generic_sections [OF assms(1-3,7,8)])
  note parsed = built_ix_data [OF disc_length(3), of invest min_profit min_meme False bsx
      "ix_remaining (wire_kind bk) brem bd" "ix_remaining (wire_kind sk) srem sd", folded data]
  have "orchestrate_handle pda cpi (load_accounts owner (ix_accounts ix)) (ix_data ix) l
      = run_legs cpi (load_accounts owner (ix_accounts ix)) (route_ix_of (ix_data ix)) bk sk l"
    by (rule good_sections_run(2) [OF _ _ _ assms(4) parsed(1) _ _ accs])
      (use good assms(5,6) in \<open>simp_all add: parsed(3)\<close>)
  then show ?thesis by (simp add: process_eq parsed)
qed

definition demo_cpmm :: cpmm_section where
  "demo_cpmm = \<lparr>cs_pool = 61, cs_config = 62\<rparr>"

definition demo_owner :: "pubkey \<Rightarrow> pubkey" where
  "demo_owner k = (if k = 61 then CPMM_ID else DLMM_ID)"

theorem client_generic_runs_witness:
  "\<exists>ix d. build_generic_route pump_pda demo_parse 100 101 102 103 104 10 1 5 (wire_kind Cpmm)
      (wire_kind Dlmm) (Some demo_cpmm) None None None None None None (Some d) 0 0 True TOKEN_ID TOKEN_ID
      ''prog'' = Ok ix \<and>
    process_instruction pump_pda demo_cpi 0 (load_accounts demo_owner (ix_accounts ix)) (ix_data ix) demo_ledger
      = run_legs demo_cpi (load_accounts demo_owner (ix_accounts ix)) (route_ix_of (ix_data ix)) Cpmm Dlmm
          demo_ledger"
proof -
  obtain d where d: "dlmm_section_data pump_pda demo_parse demo_pool TOKEN_ID = Ok d" "ds_lb_pair d = 4"
    by (simp add: dlmm_section_data_def Let_def demo_pool_def demo_parse_def key_or_err_def key_unwrap_def
        NATIVE_SOL_MINT_C_def)
  obtain ix where b: "build_generic_route pump_pda demo_parse 100 101 102 103 104 10 1 5 (wire_kind Cpmm)
      (wire_kind Dlmm) (Some demo_cpmm) None None None None None None (Some d) 0 0 True TOKEN_ID TOKEN_ID
      ''prog'' = Ok ix"
    by (simp add: build_generic_route_def Let_def section_or_err_def key_or_err_def demo_parse_def)
  have "ready pump_pda demo_parse demo_owner TOKEN_ID Cpmm 0 (Some demo_cpmm) None None"
    by (simp add: ready_def demo_cpmm_def demo_owner_def)
  moreover have "ready pump_pda demo_parse demo_owner TOKEN_ID Dlmm 0 None None (Some d)"
    using d by (auto simp: ready_def demo_owner_def intro!: exI [of _ demo_pool])
      (simp add: demo_pool_def)
  ultimately show ?thesis
    using client_generic_runs [OF b _ _ _ _ _ pump_pda_facts] b by force
qed

text \<open>A route with a Whirlpool buy section, as the bot builds it, is never accepted, whatever
  the invoked programs do: the bot announces zero tick arrays and the program requires one to
  three.\<close>

lemma client_whirlpool_buy_rejected:
  assumes "build_generic_route pda parse_key wallet us um mint sol invest min_meme min_profit
      (wire_kind Whirlpool) sell_kind bc bw bp bd sc sw sp sd brem srem bsx mtp stp prog_id = Ok ix"
  shows "orchestrate_handle pda cpi (load_accounts owner (ix_accounts ix)) (ix_data ix) l \<noteq> Ok l'"
proof
  assume acc: "orchestrate_handle pda cpi (load_accounts owner (ix_accounts ix)) (ix_data ix) l = Ok l'"
  obtain rest where accs: "ix_accounts ix = [meta_new wallet True, meta_new us False, meta_new um False]
      @ meta_readonly WHIRLPOOL_ID False # rest"
    using assms by (auto simp: build_generic_route_def Let_def and_then_Ok_iff push_whirlpool_accounts_def)
  obtain c2 where data: "ix_data ix = build_ix_data ROUTE_DISC invest min_profit min_meme False bsx 0 c2"
    using assms by (auto simp: build_generic_route_def Let_def and_then_Ok_iff build_ix_data_def
        ix_remaining_def)
  have "rx_first_count (route_ix_of (ix_data ix)) = 0"
    using built_ix_data(3) [OF disc_length(3)] by (simp add: data)
  moreover have "identify_dex (load_accounts owner (ix_accounts ix)) 3 = Some Whirlpool"
    by (simp add: identify_dex_def from_program_id_def accs)
  ultimately show False
    using acc by (auto simp: orchestrate_Ok_iff admitted_def whirlpool_validate_Ok_iff)
qed

text \<open>In a generic route the sell section of a cashback coin is announced with the buy count,
  so the issued sell lacks the last account of the direct sell, the buyback recipient's token
  account.\<close>

lemma generic_sell_drops_account:
  assumes "pm_is_cashback_coin m"
  shows "map meta_pubkey (ix_accounts (pump_sell_ix
      (load_accounts owner (pre @ push_pumpswap_generic_sell pda user us um mint sm bp qp pool m @ post))
      (length pre) (unat (pumpswap_buy_remaining_count m)) amount min_out))
    = butlast (map meta_pubkey (ix_accounts (build_pumpswap_sell_ix pda user pool mint sm um us
        (pm_pool_base_token_account m) (pm_pool_quote_token_account m) bp qp amount min_out
        (pm_coin_creator m) (pm_is_cashback_coin m) (pubkey_lit PUMPSWAP_BUYBACK_FEE_RECIPIENT)
        (pick_pumpswap_protocol_fee_recipient (pm_is_mayhem_mode m)))))"
proof -
  let ?s = "push_pumpswap_sell_accounts pda user us um mint sm bp qp pool m"
  have n: "23 + unat (pumpswap_buy_remaining_count m) = 2 + length (butlast ?s)"
    using assms by (simp add: length_pump_accounts remaining_counts)
  have split: "pre @ push_pumpswap_generic_sell pda user us um mint sm bp qp pool m @ post
      = pre @ butlast ?s @ (last ?s # drop (length ?s) (push_pumpswap_generic_sell pda user us um mint sm bp qp pool m) @ post)"
  proof -
    have "?s \<noteq> []" using length_pump_accounts(2) by (metis add_is_0 list.size(3) zero_neq_numeral)
    then show ?thesis by (simp add: push_pumpswap_generic_sell_def Let_def)
  qed
  have "map meta_pubkey ?s = map meta_pubkey (ix_accounts (build_pumpswap_sell_ix pda user pool mint sm um us
        (pm_pool_base_token_account m) (pm_pool_quote_token_account m) bp qp amount min_out
        (pm_coin_creator m) (pm_is_cashback_coin m) (pubkey_lit PUMPSWAP_BUYBACK_FEE_RECIPIENT)
        (pick_pumpswap_protocol_fee_recipient (pm_is_mayhem_mode m))))"
    by (simp add: build_pumpswap_sell_ix_def push_pumpswap_sell_accounts_def Let_def)
  then show ?thesis
    unfolding pump_ix_keys split
    using keys_section [OF refl, of "21 + unat (pumpswap_buy_remaining_count m)" "butlast ?s" owner pre] n
    by (simp add: map_butlast)
qed

lemma generic_sell_drops_account_witness:
  "length (ix_accounts (pump_sell_ix
      (load_accounts demo_owner (push_pumpswap_generic_sell pump_pda 100 101 102 103 104 TOKEN_ID TOKEN_ID 105 demo_meta))
      0 4 7 1)) = 25 \<and>
   length (ix_accounts (build_pumpswap_sell_ix pump_pda 100 105 103 104 102 101 21 22 TOKEN_ID TOKEN_ID 7 1
      9 True (pubkey_lit PUMPSWAP_BUYBACK_FEE_RECIPIENT) (pick_pumpswap_protocol_fee_recipient False))) = 26"
proof -
  have c: "unat (pumpswap_buy_remaining_count demo_meta) = 4" by (simp add: remaining_counts demo_meta_def)
  have "length (map meta_pubkey (ix_accounts (pump_sell_ix
      (load_accounts demo_owner ([] @ push_pumpswap_generic_sell pump_pda 100 101 102 103 104 TOKEN_ID TOKEN_ID 105 demo_meta @ []))
      (length ([] :: account_meta list)) (unat (pumpswap_buy_remaining_count demo_meta)) 7 1))) = 25"
    by (subst generic_sell_drops_account) (simp_all add: demo_meta_def build_pumpswap_sell_ix_def Let_def)
  then show ?thesis by (simp add: c build_pumpswap_sell_ix_def Let_def)
qed

section \<open>The tick arrays of a Whirlpool\<close>

text \<open>The three tick arrays the bot passes to a Whirlpool are the program addresses of three
  consecutive arrays; the first starts at a multiple of the array width, and the pool's current
  tick lies in it, also when the tick is negative.\<close>

lemma tick_arrays_cover_current:
  assumes "tick_spacing \<noteq> 0" and "\<bar>tick\<bar> \<le> 2 ^ 30"
  shows "\<exists>start. derive_whirlpool_tick_arrays pda pool tick tick_spacing
      = map (\<lambda>i. pda [byte_string ''tick_array'', key_bytes pool,
            i32_to_le (start + i * (uint tick_spacing * 88))] (pubkey_lit WHIRLPOOL_PROGRAM)) [0, 1, 2] \<and>
    uint tick_spacing * 88 dvd start \<and> start \<le> tick \<and> tick < start + uint tick_spacing * 88"
proof -
  let ?r = "uint tick_spacing * 88"
  have u: "0 < uint tick_spacing" "uint tick_spacing < 65536"
    using assms(1) uint_lt2p [of tick_spacing] uint_ge_0 [of tick_spacing]
    by (simp_all add: order_less_le uint_0_iff)
  let ?start = "tick div ?r * ?r"
  have m: "?start = tick - tick mod ?r" by (simp add: minus_mod_eq_div_mult)
  have b: "0 \<le> tick mod ?r" "tick mod ?r < ?r" using u by simp_all
  have lo: "?start \<le> tick" "tick < ?start + ?r" using m b by linarith+
  have wrap: "i32_wrap r = r \<and> i32_wrap start = start \<and> i32_wrap (2 * r) = 2 * r \<and>
      i32_wrap (start + r) = start + r \<and> i32_wrap (start + 2 * r) = start + 2 * r"
    if "0 < r" "r < 65536 * 88" "start \<le> tick" "tick < start + r" for r start :: int
    using that assms(2) by auto
  note w = wrap [of ?r ?start, OF _ _ lo]
  have "derive_whirlpool_tick_arrays pda pool tick tick_spacing
      = map (\<lambda>i. pda [byte_string ''tick_array'', key_bytes pool,
            i32_to_le (?start + i * ?r)] (pubkey_lit WHIRLPOOL_PROGRAM)) [0, 1, 2]"
    using u w by (simp add: derive_whirlpool_tick_arrays_def Let_def WHIRLPOOL_TICK_ARRAY_SIZE_def
        floor_div_i32_div i32_wrap_id [of 0] del: i32_wrap_id)
  then show ?thesis using lo by (intro exI [of _ ?start]) simp
qed

end
