(* ===== verification/Client_Tx_Properties.thy ===== *)
theory Client_Tx_Properties
  imports Client_Transactions Client_Properties
begin

text \<open>
  Properties of the transformations of compiled transactions: what the diagnostic really
  simulates, and which accounts an instruction names after a tip was injected.
\<close>

section \<open>The diagnostic\<close>

lemma to_le_append: "to_le (k + j) v = to_le k v @ to_le j (v div 256 ^ k)"
  by (induction k arbitrary: v) (simp_all add: div_mult2_eq)

lemma to_le_0: "to_le j 0 = replicate j 0"
  by (induction j) simp_all

lemma to_le_mod: "to_le k (v mod 256 ^ k) = to_le k v"
proof (induction k arbitrary: v)
  case (Suc k)
  have "v mod 256 ^ Suc k div 256 = v div 256 mod 256 ^ k" by (simp add: mod_mult2_eq)
  then show ?case using Suc by (simp add: mod_mult2_eq)
qed simp

lemma zeroed_route_data:
  assumes "length disc = 8"
  shows "zero_min_out_onchain (build_ix_data disc a p m tv sx c1 c2)
    = (build_ix_data disc a p (of_nat (unat m mod 2 ^ 32)) False False 0 0, True)"
proof -
  define w where "w = (of_nat (unat m mod 2 ^ 32) :: u64)"
  have bnd: "unat m mod 2 ^ 32 < 2 ^ LENGTH(64)" using mod_less_divisor [of "2 ^ 32" "unat m"] by simp
  have "unat w = unat m mod 2 ^ 32" unfolding w_def by (rule unat_of_nat_small [OF bnd])
  moreover have "to_le (4 + 4) (unat m mod 256 ^ 4) = take 4 (to_le (4 + 4) (unat m)) @ to_le 4 0"
    unfolding to_le_append [of 4 4] using to_le_mod [of 4 "unat m"] by simp
  then have "to_le 8 (unat m mod 2 ^ 32) = take 4 (to_le 8 (unat m)) @ replicate 4 0" by (simp add: to_le_0)
  ultimately have m: "u64_to_le w = take 4 (u64_to_le m) @ replicate 4 0"
    by (simp add: u64_to_le_def)
  let ?A = "disc @ u64_to_le a @ u64_to_le p" and ?B = "u64_to_le m @ [of_bool tv, of_bool sx, c1, c2]"
  have "build_ix_data disc a p m tv sx c1 c2 = ?A @ ?B" by (simp add: build_ix_data_def)
  moreover have "zero_bytes (?A @ ?B) 28 36 = ?A @ take 4 (u64_to_le m) @ replicate 8 0"
    using assms by (simp add: zero_bytes_def)
  moreover have "replicate 8 0 = replicate 4 0 @ [0, 0, 0, 0 :: byte]" by (simp add: numeral_eq_Suc)
  moreover have "length (?A @ ?B) = 36" using assms by simp
  ultimately show ?thesis
    unfolding w_def [symmetric] by (simp add: zero_min_out_onchain_def build_ix_data_def m del: length_append)
qed

text \<open>The zero-slippage diagnostic does not isolate slippage: on an instruction of a fixed route
  it leaves the lower half of the minimum output as it was and clears the DLMM direction and both
  counts instead, and the program rejects every instruction it produces, whatever the pools do.\<close>

lemma diagnostic_always_rejected:
  assumes "disc = ROUTE_PUMP_TO_DLMM_DISC \<or> disc = ROUTE_DLMM_TO_PUMP_DISC"
  shows "let data = fst (zero_min_out_onchain (build_ix_data disc a p m tv sx c1 c2)) in
    unat (rx_min_intermediate (route_ix_of data)) = unat m mod 2 ^ 32 \<and>
    rx_second_count (route_ix_of data) = 0 \<and>
    process_instruction pda cpi program_id accounts data l
      \<in> {Err (arb_err ARB_ZERO_AMOUNT), Err (arb_err ARB_BAD_ACCOUNT_COUNT)}"
proof -
  have len: "length disc = 8" using assms disc_length by auto
  have "unat m mod 2 ^ 32 < 2 ^ LENGTH(64)" using mod_less_divisor [of "2 ^ 32" "unat m"] by simp
  then have u: "unat (of_nat (unat m mod 2 ^ 32) :: u64) = unat m mod 2 ^ 32" by (rule unat_of_nat_small)
  note f = built_ix_data [OF len, of a p "of_nat (unat m mod 2 ^ 32)" False False 0 0]
  have bad: "\<not> counts_ok (route_ix_of (build_ix_data disc a p (of_nat (unat m mod 2 ^ 32)) False False 0 0))"
    unfolding f(3) by (simp add: counts_ok_def)
  have "process_instruction pda cpi program_id accounts
      (build_ix_data disc a p (of_nat (unat m mod 2 ^ 32)) False False 0 0) l
      \<in> {Err (arb_err ARB_ZERO_AMOUNT), Err (arb_err ARB_BAD_ACCOUNT_COUNT)}"
    using assms bad f(1,2)
    by (elim disjE) (simp_all add: process_eq pump_to_dlmm_eq dlmm_to_pump_eq Let_def)
  then show ?thesis by (simp only: zeroed_route_data [OF len] fst_conv Let_def f(3)) (use u in simp)
qed

section \<open>Tip injection\<close>

text \<open>
  The accounts the runtime loads for a message, by the documented order of version 0 messages:
  the static keys, then the writable entries of all lookups, then the read-only ones.
\<close>

definition runtime_keys :: "message_v0 \<Rightarrow> table_account list \<Rightarrow> pubkey list" where
  "runtime_keys m alts = mv_account_keys m
     @ concat (map2 (\<lambda>l t. map (\<lambda>i. ta_addresses t ! unat i) (lk_writable_indexes l)) (mv_lookups m) alts)
     @ concat (map2 (\<lambda>l t. map (\<lambda>i. ta_addresses t ! unat i) (lk_readonly_indexes l)) (mv_lookups m) alts)"

text \<open>The tip injection reads an account index against the whole lookup table, not against
  the entries the message looks up: a static index names the account the runtime loads, but the
  j-th looked-up index names the j-th address of the table while the runtime loads the address
  the lookup lists there, so the rebuilt transaction names other accounts unless the lookups
  happen to list 0, 1, 2 and so on.\<close>

lemma tip_injection_keys:
  assumes "mv_lookups m = [lk]" and "alts = [t]" and "distinct (ta_addresses t)"
    and "\<forall>i \<in> set (lk_writable_indexes lk @ lk_readonly_indexes lk). unat i < length (ta_addresses t)"
    and "j < length (lk_writable_indexes lk @ lk_readonly_indexes lk)" and "j < length (ta_addresses t)"
  shows "(\<forall>i < length (mv_account_keys m). all_message_keys m alts ! i = runtime_keys m alts ! i) \<and>
    (all_message_keys m alts ! (length (mv_account_keys m) + j) = runtime_keys m alts ! (length (mv_account_keys m) + j)
      \<longleftrightarrow> unat ((lk_writable_indexes lk @ lk_readonly_indexes lk) ! j) = j)"
proof -
  let ?is = "lk_writable_indexes lk @ lk_readonly_indexes lk" and ?n = "length (mv_account_keys m)"
  have r: "runtime_keys m alts = mv_account_keys m @ map (\<lambda>i. ta_addresses t ! unat i) ?is"
    using assms(1,2) by (simp add: runtime_keys_def)
  have a: "all_message_keys m alts = mv_account_keys m @ ta_addresses t"
    using assms(2) by (simp add: all_message_keys_def)
  have "runtime_keys m alts ! (?n + j) = ta_addresses t ! unat (?is ! j)"
    unfolding r nth_append_length_plus using assms(5) by (rule nth_map)
  moreover have "all_message_keys m alts ! (?n + j) = ta_addresses t ! j" by (simp add: a)
  moreover have "unat (?is ! j) < length (ta_addresses t)" using assms(4,5) nth_mem by blast
  ultimately have "all_message_keys m alts ! (?n + j) = runtime_keys m alts ! (?n + j)
      \<longleftrightarrow> unat (?is ! j) = j"
    using assms(3,6) by (auto simp: nth_eq_iff_index_eq)
  then show ?thesis by (simp add: a r nth_append)
qed

definition demo_message :: message_v0 where
  "demo_message = \<lparr>mv_num_readonly_unsigned = 1, mv_account_keys = [100, 200],
     mv_recent_blockhash = [3], mv_instructions =
       [\<lparr>ci_program_id_index = 1, ci_accounts = [0, 2], ci_data = [7]\<rparr>],
     mv_lookups = [\<lparr>lk_account_key = 300, lk_writable_indexes = [1], lk_readonly_indexes = []\<rparr>]\<rparr>"

lemma traverse_Ok_nth:
  "traverse f xs = Ok ys \<Longrightarrow> i < length xs \<Longrightarrow> f (xs ! i) = Ok (ys ! i)"
  by (induction xs arbitrary: ys i) (auto simp: and_then_Ok_iff nth_Cons split: nat.splits)

text \<open>The instructions with the tip are the old ones in order, with their data and programs
  read by index, and a transfer of 100000 lamports to one of the eight tip accounts; every other
  account loses its signer flag and becomes writable.\<close>

lemma inject_jito_tip_shape:
  assumes "inject_jito_tip parse_key wallet m alts = Ok ixs"
  shows "length ixs = length (mv_instructions m) + 1 \<and>
    (\<exists>s tip. s \<in> set JITO_TIP_ACCOUNTS \<and> parse_key s = Some tip \<and>
       last ixs = system_transfer_ix wallet tip 100000) \<and>
    (\<forall>k < length (mv_instructions m).
       ix_data (ixs ! k) = ci_data (mv_instructions m ! k) \<and>
       ix_program_id (ixs ! k) = all_message_keys m alts ! unat (ci_program_id_index (mv_instructions m ! k)) \<and>
       map meta_pubkey (ix_accounts (ixs ! k))
         = map (\<lambda>i. all_message_keys m alts ! unat i) (ci_accounts (mv_instructions m ! k)) \<and>
       (\<forall>a \<in> set (ix_accounts (ixs ! k)). \<not> meta_is_signer a \<and> meta_is_writable a))"
proof -
  let ?keys = "all_message_keys m alts"
  obtain b tip ixs0 where b: "tip_account_index m = Ok b"
    and tip: "key_or_err parse_key (JITO_TIP_ACCOUNTS ! b) = Ok tip"
    and old: "traverse (decompile_instruction ?keys) (mv_instructions m) = Ok ixs0"
    and ixs: "ixs = ixs0 @ [system_transfer_ix wallet tip JITO_TIP_LAMPORTS]"
    using assms by (auto simp: inject_jito_tip_def and_then_Ok_iff decompile_instructions_def)
  have len: "length ixs0 = length (mv_instructions m)" using old by (rule traverse_length)
  have "b < length JITO_TIP_ACCOUNTS"
    using b by (auto simp: tip_account_index_def and_then_Ok_iff JITO_TIP_ACCOUNTS_def)
  then have s: "JITO_TIP_ACCOUNTS ! b \<in> set JITO_TIP_ACCOUNTS" by (rule nth_mem)
  have p: "parse_key (JITO_TIP_ACCOUNTS ! b) = Some tip"
    using tip by (auto simp: key_or_err_def ok_or_def split: option.splits)
  have one: "ix_data ix = ci_data ci \<and> ix_program_id ix = ?keys ! unat (ci_program_id_index ci) \<and>
      map meta_pubkey (ix_accounts ix) = map (\<lambda>i. ?keys ! unat i) (ci_accounts ci) \<and>
      (\<forall>a \<in> set (ix_accounts ix). \<not> meta_is_signer a \<and> meta_is_writable a)"
    if d: "decompile_instruction ?keys ci = Ok ix" for ci ix
  proof -
    obtain metas where acc: "traverse (\<lambda>i. and_then (idx ?keys (unat i)) (\<lambda>k. Ok (meta_new k False))) (ci_accounts ci) = (Ok metas :: account_meta list client_result)"
      and ix: "ix = \<lparr>ix_program_id = ?keys ! unat (ci_program_id_index ci), ix_accounts = metas, ix_data = ci_data ci\<rparr>"
      using d by (auto simp: decompile_instruction_def and_then_Ok_iff idx_Ok_iff)
    have "metas = map (\<lambda>i. meta_new (?keys ! unat i) False) (ci_accounts ci)"
    proof (rule nth_equalityI)
      show "length metas = length (map (\<lambda>i. meta_new (?keys ! unat i) False) (ci_accounts ci))"
        using traverse_length [OF acc] by simp
      show "metas ! i = map (\<lambda>i. meta_new (?keys ! unat i) False) (ci_accounts ci) ! i" if "i < length metas" for i
        using traverse_Ok_nth [OF acc, of i] that traverse_length [OF acc]
        by (auto simp: and_then_Ok_iff idx_Ok_iff)
    qed
    then show ?thesis by (auto simp: ix meta_new_def)
  qed
  show ?thesis
    using s p one traverse_Ok_nth [OF old] len by (auto simp: ixs nth_append JITO_TIP_LAMPORTS_def)
qed

lemma inject_jito_tip_shape_witness:
  "\<exists>ixs. inject_jito_tip demo_parse 100 demo_message [\<lparr>ta_key = 300, ta_addresses = [11, 12]\<rparr>] = Ok ixs \<and>
     length ixs = 2 \<and> map meta_pubkey (ix_accounts (ixs ! 0)) = [100, 11]"
proof -
  let ?alts = "[\<lparr>ta_key = 300, ta_addresses = [11, 12]\<rparr>]"
  obtain ixs where ok: "inject_jito_tip demo_parse 100 demo_message ?alts = Ok ixs"
    by (simp add: inject_jito_tip_def tip_account_index_def demo_message_def idx_def JITO_TIP_ACCOUNTS_def
        key_or_err_def demo_parse_def decompile_instructions_def decompile_instruction_def all_message_keys_def)
  show ?thesis using ok inject_jito_tip_shape [OF ok]
    by (simp add: demo_message_def all_message_keys_def)
qed

lemma position_or_push_extends:
  assumes "position_or_push k keys = (keys', i)"
  obtains extra where "keys' = keys @ extra" "length extra \<le> 1" "extra = [] \<longleftrightarrow> k \<in> set keys"
  using assms by (cases "k \<in> set keys") (auto simp: position_or_push_def)

text \<open>Adding the tip in place to a message with a lookup table moves the accounts behind the
  static keys: the system program and the tip account are pushed there, so every index that
  named a looked-up account before now names one of them or another account, unless both keys
  were static already. The old instructions keep their indexes.\<close>

lemma add_tip_shifts_lookups:
  assumes "add_tip parse_key m min_slot swqos = Ok m'"
  shows "\<exists>extra. mv_account_keys m' = mv_account_keys m @ extra \<and> length extra \<le> 2 \<and>
    (pubkey_lit ''11111111111111111111111111111111'' \<notin> set (mv_account_keys m) \<longrightarrow> extra \<noteq> []) \<and>
    runtime_keys m' alts = mv_account_keys m @ extra @ drop (length (mv_account_keys m)) (runtime_keys m alts) \<and>
    take (length (mv_instructions m)) (mv_instructions m') = mv_instructions m"
proof -
  let ?sys = "pubkey_lit ''11111111111111111111111111111111''"
  obtain keys1 si where p1: "position_or_push ?sys (mv_account_keys m) = (keys1, si)" by (metis surj_pair)
  obtain tip where tip: "key_or_err parse_key (TIP_ACCOUNTS ! (unat min_slot mod length TIP_ACCOUNTS)) = Ok tip"
    using assms by (auto simp: add_tip_def Let_def and_then_Ok_iff)
  obtain keys2 ti where p2: "position_or_push tip keys1 = (keys2, ti)" by (metis surj_pair)
  obtain last_ix where m': "m' = m\<lparr>mv_account_keys := keys2, mv_num_readonly_unsigned := 0,
      mv_instructions := mv_instructions m @ [last_ix]\<rparr>"
    using assms unfolding add_tip_def Let_def tip and_then.simps p1 p2 prod.case and_then_Ok_iff
    by (metis outcome.inject(1))
  obtain e1 where e1: "keys1 = mv_account_keys m @ e1" "length e1 \<le> 1" "e1 = [] \<longleftrightarrow> ?sys \<in> set (mv_account_keys m)"
    using p1 by (rule position_or_push_extends)
  obtain e2 where e2: "keys2 = keys1 @ e2" "length e2 \<le> 1" using p2 by (rule position_or_push_extends)
  show ?thesis
    by (rule exI [of _ "e1 @ e2"]) (use e1 e2 in \<open>auto simp: m' runtime_keys_def\<close>)
qed

end
