(* ===== verification/Swap_Curves.thy ===== *)
theory Swap_Curves
  imports Prelude
begin

text \<open>
  The contract of a constant-product swap, on exact natural numbers, as locales: what every
  pricing routine of the repository promises about reserves, and what follows for any
  sequence of swaps on one pool. The component theories interpret them on the code's
  formulas (additive fee on chain, subtractive fee for CPMM and Whirlpool in the client).
\<close>

section \<open>The constant-product quotient\<close>

definition cp_out :: "nat \<Rightarrow> nat \<Rightarrow> nat \<Rightarrow> nat" where
  "cp_out ri ro x = ro * x div (ri + x)"

lemma div_cross_mono:
  fixes a b c d :: nat
  assumes "a * d \<le> c * b" and "0 < b" and "0 < d"
  shows "a div b \<le> c div d"
proof -
  let ?q = "a div b"
  have "?q * d * b = ?q * b * d" by (simp only: ac_simps)
  also have "\<dots> \<le> a * d" by (intro mult_le_mono1 div_times_less_eq_dividend)
  also have "\<dots> \<le> c * b" by (rule assms(1))
  finally have "?q * d \<le> c" using assms(2) by (simp only: mult_le_cancel2 simp_thms)
  with assms(3) show ?thesis by (simp add: less_eq_div_iff_mult_less_eq)
qed

lemma cp_out_le: "cp_out ri ro x \<le> ro"
proof (cases "ri + x = 0")
  case False
  have "ro * x \<le> ro * (ri + x)" by simp
  then have "ro * x div (ri + x) \<le> ro * (ri + x) div (ri + x)" by (rule div_le_mono)
  with False show ?thesis by (simp add: cp_out_def)
qed (simp add: cp_out_def)

lemma cp_out_less: "0 < ri \<Longrightarrow> 0 < ro \<Longrightarrow> cp_out ri ro x < ro"
  by (simp add: cp_out_def div_less_iff_less_mult)

lemma cp_out_mono: "x \<le> y \<Longrightarrow> cp_out ri ro x \<le> cp_out ri ro y"
proof (cases "ri + x = 0")
  case False
  assume le: "x \<le> y"
  have "x * (ri + y) \<le> y * (ri + x)"
    using le by (simp add: algebra_simps)
  then have "ro * x * (ri + y) \<le> ro * y * (ri + x)"
    by (simp add: mult.assoc)
  then show ?thesis
    unfolding cp_out_def using False le by (intro div_cross_mono) auto
qed (simp add: cp_out_def)

lemma cp_out_product: "ri * ro \<le> (ri + x) * (ro - cp_out ri ro x)"
proof -
  have "cp_out ri ro x * (ri + x) \<le> ro * x"
    by (simp add: cp_out_def div_times_less_eq_dividend)
  then have "(ri + x) * ro - ro * x \<le> (ri + x) * ro - cp_out ri ro x * (ri + x)"
    by (rule diff_le_mono2)
  then show ?thesis
    by (simp add: algebra_simps diff_mult_distrib2)
qed

section \<open>What a pool promises\<close>

text \<open>
  \<open>out ri ro a\<close> is what the pool pays from reserve \<open>ro\<close> for \<open>a\<close> paid into reserve \<open>ri\<close>.
\<close>

locale swap_curve =
  fixes out :: "nat \<Rightarrow> nat \<Rightarrow> nat \<Rightarrow> nat"
  assumes out_le: "out ri ro a \<le> ro"
    and product: "ri * ro \<le> (ri + a) * (ro - out ri ro a)"
begin

text \<open>Selling back everything that was bought never returns more than was paid.\<close>

lemma round_trip:
  assumes "0 < ro"
  shows "out (ro - out ri ro a) (ri + a) (out ri ro a) \<le> a"
proof -
  define bought where "bought = out ri ro a"
  define returned where "returned = out (ro - bought) (ri + a) bought"
  have "bought \<le> ro" by (simp add: bought_def out_le)
  have "ri * ro \<le> (ro - bought) * (ri + a)"
    using product [of ri ro a] by (simp add: bought_def mult.commute)
  also have "\<dots> \<le> ro * ((ri + a) - returned)"
    using product [of "ro - bought" "ri + a" bought] \<open>bought \<le> ro\<close> by (simp add: returned_def)
  finally have "ri * ro \<le> ((ri + a) - returned) * ro" by (simp add: mult.commute)
  with assms have "ri \<le> (ri + a) - returned" by simp
  moreover have "returned \<le> ri + a" by (simp add: returned_def out_le)
  ultimately show ?thesis by (simp add: returned_def bought_def)
qed

text \<open>A trade pays one side (\<open>True\<close>: into the first reserve) and takes from the other.\<close>

definition trade :: "nat \<times> nat \<Rightarrow> bool \<times> nat \<Rightarrow> nat \<times> nat" where
  "trade p t = (case (p, t) of ((x, y), (dir, a)) \<Rightarrow>
     if dir then (x + a, y - out x y a) else (x - out y x a, y + a))"

lemma trade_product: "fst p * snd p \<le> fst (trade p t) * snd (trade p t)"
  using product [of "fst p" "snd p" "snd t"] product [of "snd p" "fst p" "snd t"]
  by (cases p; cases t) (simp add: trade_def mult.commute)

lemma trades_product: "fst p * snd p \<le> fst (foldl trade p ts) * snd (foldl trade p ts)"
proof (induction ts arbitrary: p)
  case (Cons t ts)
  have "fst p * snd p \<le> fst (trade p t) * snd (trade p t)" by (rule trade_product)
  also have "\<dots> \<le> fst (foldl trade p (t # ts)) * snd (foldl trade p (t # ts))"
    using Cons.IH [of "trade p t"] by simp
  finally show ?case .
qed simp

text \<open>
  However a trader slices and interleaves trades on one pool: if the pool's second reserve
  ends no larger than it started, its first reserve has not shrunk.
\<close>

lemma no_free_lunch:
  assumes "snd (foldl trade p ts) \<le> snd p" and "0 < snd p"
  shows "fst p \<le> fst (foldl trade p ts)"
proof -
  have "fst p * snd p \<le> fst (foldl trade p ts) * snd (foldl trade p ts)"
    by (rule trades_product)
  also have "\<dots> \<le> fst (foldl trade p ts) * snd p"
    using assms(1) by simp
  finally show ?thesis using assms(2) by simp
qed

end

section \<open>Fees on the input\<close>

text \<open>A fee schedule turns the amount paid into a smaller effective amount.\<close>

locale fee_schedule =
  fixes eff :: "nat \<Rightarrow> nat"
  assumes eff_le: "eff a \<le> a"
    and eff_mono: "a \<le> b \<Longrightarrow> eff a \<le> eff b"
begin

lemma fee_product: "ri * ro \<le> (ri + a) * (ro - cp_out ri ro (eff a))"
proof -
  have "ri * ro \<le> (ri + eff a) * (ro - cp_out ri ro (eff a))" by (rule cp_out_product)
  also have "\<dots> \<le> (ri + a) * (ro - cp_out ri ro (eff a))"
    using eff_le by (intro mult_le_mono1) simp
  finally show ?thesis .
qed

lemma fee_mono: "a \<le> b \<Longrightarrow> cp_out ri ro (eff a) \<le> cp_out ri ro (eff b)"
  by (intro cp_out_mono eff_mono)

end

sublocale fee_schedule \<subseteq> curve: swap_curve "\<lambda>ri ro a. cp_out ri ro (eff a)"
  by unfold_locales (auto intro: cp_out_le fee_product)

section \<open>The two schedules of the repository\<close>

definition additive_eff :: "nat \<Rightarrow> nat \<Rightarrow> nat" where
  "additive_eff fee_bps a = a * 10000 div (10000 + fee_bps)"

definition subtractive_eff :: "nat \<Rightarrow> nat \<Rightarrow> nat" where
  "subtractive_eff rate a = a * (1000000 - rate) div 1000000"

lemma cp_out_0 [simp]: "cp_out ri ro 0 = 0"
  by (simp add: cp_out_def)

lemma additive_eff_0 [simp]: "additive_eff fee 0 = 0"
  by (simp add: additive_eff_def)

lemma subtractive_eff_0 [simp]: "subtractive_eff rate 0 = 0"
  by (simp add: subtractive_eff_def)

lemma additive_eff_le: "additive_eff fee a \<le> a"
proof -
  have "a * 10000 div (10000 + fee) \<le> a * (10000 + fee) div (10000 + fee)"
    by (intro div_le_mono) simp
  then show ?thesis by (simp add: additive_eff_def)
qed

lemma subtractive_eff_le: "subtractive_eff rate a \<le> a"
proof -
  have "a * (1000000 - rate) div 1000000 \<le> a * 1000000 div 1000000"
    by (intro div_le_mono mult_le_mono) auto
  then show ?thesis by (simp add: subtractive_eff_def)
qed

interpretation additive: fee_schedule "additive_eff fee" for fee :: nat
  by unfold_locales (rule additive_eff_le, simp add: additive_eff_def div_le_mono)

interpretation subtractive: fee_schedule "subtractive_eff rate" for rate :: nat
  by unfold_locales (rule subtractive_eff_le, simp add: subtractive_eff_def div_le_mono)

end
