(* ===== verification/Pricing.thy ===== *)
theory Pricing
  imports Accounting Swap_Curves "HOL-Library.Monad_Syntax" "HOL-Library.Multiset"
begin

text \<open>
  On-chain pre-swap pricing: \<open>programs/arbitrage/src/pricing/\<close>. The constant-product quote
  with its additive fee (\<open>mod.rs\<close>), its two PumpSwap entry points (\<open>pump_swap.rs\<close>) and the
  DLMM bin walk (\<open>dlmm.rs\<close>), in checked 128-bit arithmetic. The lemmas compute each routine
  on exact numbers: no intermediate result of 64-bit inputs overflows, and the truncating
  casts at the end lose nothing.
\<close>

section \<open>Constant-product quote\<close>

definition cpmm_swap_output :: "u64 \<Rightarrow> u64 \<Rightarrow> u64 \<Rightarrow> u16 \<Rightarrow> (u64 \<times> u64) option" where
  "cpmm_swap_output reserve_in reserve_out amount_in fee_bps =
     (let ri = (ucast reserve_in :: u128);
          ro = (ucast reserve_out :: u128);
          a = (ucast amount_in :: u128);
          fee = (ucast fee_bps :: u128) in
      if a = 0 \<or> ri = 0 \<or> ro = 0 then None
      else do {
        denom \<leftarrow> checked_add 10000 fee;
        num \<leftarrow> checked_mul a 10000;
        effective \<leftarrow> checked_div num denom;
        if effective = 0 then None
        else do {
          fee_amount \<leftarrow> checked_sub a effective;
          numerator \<leftarrow> checked_mul ro effective;
          denominator \<leftarrow> checked_add ri effective;
          output \<leftarrow> checked_div numerator denominator;
          if output = 0 then None
          else Some (ucast output, ucast fee_amount)
        }
      })"

definition price_pumpswap_buy :: "ledger \<Rightarrow> account_info \<Rightarrow> account_info \<Rightarrow> u64 \<Rightarrow> u16 \<Rightarrow> u64 result" where
  "price_pumpswap_buy l pool_base_ata pool_quote_ata amount_in_lamports fee_bps =
     and_then (read_token_amount l pool_quote_ata) (\<lambda>quote_reserves.
     and_then (read_token_amount l pool_base_ata) (\<lambda>base_reserves.
       ok_or (map_option fst
           (cpmm_swap_output quote_reserves base_reserves amount_in_lamports fee_bps))
         (arb_err ARB_PRICE_MATH_OVERFLOW)))"

definition price_pumpswap_sell :: "ledger \<Rightarrow> account_info \<Rightarrow> account_info \<Rightarrow> u64 \<Rightarrow> u16 \<Rightarrow> u64 result" where
  "price_pumpswap_sell l pool_base_ata pool_quote_ata amount_in_tokens fee_bps =
     and_then (read_token_amount l pool_base_ata) (\<lambda>base_reserves.
     and_then (read_token_amount l pool_quote_ata) (\<lambda>quote_reserves.
       ok_or (map_option fst
           (cpmm_swap_output base_reserves quote_reserves amount_in_tokens fee_bps))
         (arb_err ARB_PRICE_MATH_OVERFLOW)))"

text \<open>The same quote on exact numbers; the reference for the on-chain and client routines.\<close>

definition cpmm_quote :: "nat \<Rightarrow> nat \<Rightarrow> nat \<Rightarrow> nat \<Rightarrow> nat" where
  "cpmm_quote ri ro a fee = cp_out ri ro (additive_eff fee a)"

subsection \<open>Evaluation of checked 128-bit chains\<close>

lemma checked_add_u128:
  "unat a + unat b < 2 ^ 128 \<Longrightarrow> \<exists>c. checked_add (a :: u128) b = Some c \<and> unat c = unat a + unat b"
  by (auto simp: checked_add_def unat_word_ariths)

lemma checked_mul_u128:
  "unat a * unat b < 2 ^ 128 \<Longrightarrow> \<exists>c. checked_mul (a :: u128) b = Some c \<and> unat c = unat a * unat b"
  by (auto simp: checked_mul_def unat_word_ariths)

lemma checked_div_u128:
  "unat b \<noteq> 0 \<Longrightarrow> \<exists>c. checked_div (a :: u128) b = Some c \<and> unat c = unat a div unat b"
  by (auto simp: checked_div_def unat_div)

lemma checked_sub_u128:
  "unat b \<le> unat a \<Longrightarrow> \<exists>c. checked_sub (a :: u128) b = Some c \<and> unat c = unat a - unat b"
  by (auto simp: checked_sub_def word_le_nat_alt unat_sub)

lemma mult_u64_u64: "x < 2 ^ 64 \<Longrightarrow> y < 2 ^ 64 \<Longrightarrow> x * y < (2 ^ 128 :: nat)"
proof -
  assume "x < 2 ^ 64" "y < 2 ^ 64"
  then have "x * y < 2 ^ 64 * 2 ^ 64" by (intro mult_strict_mono) auto
  then show ?thesis by simp
qed

lemma ucast_u128_u64_of_nat:
  "unat (w :: u128) < 2 ^ 64 \<Longrightarrow> (ucast w :: u64) = of_nat (unat w)"
  by (simp add: word_unat_eq_iff unat_ucast_u128_u64 unat_of_nat_small)

subsection \<open>The quote computes the exact formula\<close>

lemma cpmm_swap_output_nat:
  fixes reserve_in reserve_out amount_in :: u64 and fee_bps :: u16
  defines "e \<equiv> additive_eff (unat fee_bps) (unat amount_in)"
  defines "out \<equiv> cp_out (unat reserve_in) (unat reserve_out) e"
  shows "cpmm_swap_output reserve_in reserve_out amount_in fee_bps =
    (if amount_in = 0 \<or> reserve_in = 0 \<or> reserve_out = 0 \<or> e = 0 \<or> out = 0 then None
     else Some (of_nat out, of_nat (unat amount_in - e)))"
proof (cases "amount_in = 0 \<or> reserve_in = 0 \<or> reserve_out = 0")
  case True
  then show ?thesis by (auto simp: cpmm_swap_output_def)
next
  case False
  have bnd: "unat reserve_in < 2 ^ 64" "unat reserve_out < 2 ^ 64" "unat amount_in < 2 ^ 64"
    by (rule unat_u64_bound)+
  have fee: "unat fee_bps < 2 ^ 16"
    using unsigned_less [of fee_bps, where ?'a = nat] by simp
  have nz: "(ucast amount_in :: u128) \<noteq> 0" "(ucast reserve_in :: u128) \<noteq> 0"
      "(ucast reserve_out :: u128) \<noteq> 0"
    using False by (simp_all add: word_unat_eq_iff)
  have e_le: "e \<le> unat amount_in" by (simp add: e_def additive_eff_le)
  obtain denom :: u128 where denom: "checked_add 10000 (ucast fee_bps) = Some denom"
    "unat denom = 10000 + unat fee_bps"
    using checked_add_u128 [of 10000 "ucast fee_bps"] fee by auto
  obtain num :: u128 where num: "checked_mul (ucast amount_in) 10000 = Some num"
    "unat num = unat amount_in * 10000"
    using checked_mul_u128 [of "ucast amount_in" 10000] bnd by auto
  obtain eff :: u128 where eff: "checked_div num denom = Some eff" "unat eff = e"
    using checked_div_u128 [of denom num] denom num by (auto simp: e_def additive_eff_def)
  obtain fa :: u128 where fa: "checked_sub (ucast amount_in) eff = Some fa"
    "unat fa = unat amount_in - e"
    using checked_sub_u128 [of eff "ucast amount_in"] eff e_le by auto
  obtain nm :: u128 where nm: "checked_mul (ucast reserve_out) eff = Some nm"
    "unat nm = unat reserve_out * e"
    using checked_mul_u128 [of "ucast reserve_out" eff] mult_u64_u64 [of "unat reserve_out" e]
      bnd e_le eff by auto
  obtain dn :: u128 where dn: "checked_add (ucast reserve_in) eff = Some dn"
    "unat dn = unat reserve_in + e"
    using checked_add_u128 [of "ucast reserve_in" eff] bnd e_le eff by auto
  have dn_nz: "unat dn \<noteq> 0" using dn False by (simp add: word_unat_eq_iff)
  obtain ot :: u128 where ot: "checked_div nm dn = Some ot" "unat ot = out"
    using checked_div_u128 [of dn nm] dn_nz dn nm by (auto simp: out_def cp_out_def)
  have "out < 2 ^ 64"
    using cp_out_le [of "unat reserve_in" "unat reserve_out" e] bnd by (simp add: out_def)
  then have "(ucast ot :: u64) = of_nat out" "(ucast fa :: u64) = of_nat (unat amount_in - e)"
    using ot fa bnd e_le by (simp_all add: ucast_u128_u64_of_nat)
  moreover have "ot = 0 \<longleftrightarrow> out = 0" "eff = 0 \<longleftrightarrow> e = 0"
    using ot eff by (auto simp: word_unat_eq_iff)
  ultimately show ?thesis
    using False nz denom(1) num(1) eff(1) fa(1) nm(1) dn(1) ot(1)
    by (simp add: cpmm_swap_output_def)
qed

lemma cpmm_swap_output_SomeD:
  assumes "cpmm_swap_output ri ro a fee = Some (out, fee_amount)"
  shows "unat out = cpmm_quote (unat ri) (unat ro) (unat a) (unat fee)"
    and "unat fee_amount = unat a - additive_eff (unat fee) (unat a)"
    and "0 < unat out" and "0 < unat ri" and "0 < unat ro" and "unat out < unat ro"
proof -
  let ?e = "additive_eff (unat fee) (unat a)"
  let ?o = "cp_out (unat ri) (unat ro) ?e"
  from assms have nz: "ri \<noteq> 0" "ro \<noteq> 0" "?o \<noteq> 0" and eq: "out = of_nat ?o" "fee_amount = of_nat (unat a - ?e)"
    by (auto simp: cpmm_swap_output_nat split: if_splits)
  have "?o < 2 ^ 64"
    using cp_out_le [of "unat ri" "unat ro" ?e] unat_u64_bound [of ro] by simp
  then show o: "unat out = cpmm_quote (unat ri) (unat ro) (unat a) (unat fee)"
    by (simp add: eq cpmm_quote_def unat_of_nat_small)
  have "unat a - ?e < 2 ^ 64" using unat_u64_bound [of a] by simp
  then show "unat fee_amount = unat a - ?e" by (simp add: eq unat_of_nat_small)
  show r: "0 < unat ri" "0 < unat ro" using nz by (simp_all add: word_unat_eq_iff)
  show "0 < unat out" using nz o by (simp add: cpmm_quote_def)
  show "unat out < unat ro" using o r by (simp add: cpmm_quote_def cp_out_less)
qed

section \<open>DLMM bin walk\<close>

definition BIN_ARRAY_HEADER_SIZE :: nat where [simp]:
  "BIN_ARRAY_HEADER_SIZE = 8 + 48"

definition read_bin_amounts :: "byte list \<Rightarrow> nat \<Rightarrow> (u64 \<times> u64) option" where
  "read_bin_amounts data base_offset =
     (if base_offset + 16 > length data then None
      else Some (u64_from_le (take 8 (drop base_offset data)),
                 u64_from_le (take 8 (drop (base_offset + 8) data))))"

text \<open>\<open>arr_index.saturating_mul(70).saturating_add(bin_i as i64) as i32\<close>\<close>

definition sat_i64 :: "int \<Rightarrow> int" where
  "sat_i64 x = max (- (2 ^ 63)) (min (2 ^ 63 - 1) x)"

definition bin_id_of :: "int \<Rightarrow> nat \<Rightarrow> int" where
  "bin_id_of arr_index bin_i =
     sint (word_of_int (sat_i64 (sat_i64 (arr_index * 70) + int bin_i)) :: u32)"

text \<open>The inner loop over the bin positions of one array; it stops at the first short read.\<close>

fun scan_bins :: "byte list \<Rightarrow> nat \<Rightarrow> int \<Rightarrow> bool \<Rightarrow> nat list \<Rightarrow> (int \<times> u64 \<times> u64) list" where
  "scan_bins data stride arr_index is_x_to_y [] = []"
| "scan_bins data stride arr_index is_x_to_y (bin_i # rest) =
     (case read_bin_amounts data (BIN_ARRAY_HEADER_SIZE + bin_i * stride) of
        None \<Rightarrow> []
      | Some (ax, ay) \<Rightarrow>
          (let (reserve_in, reserve_out) = (if is_x_to_y then (ax, ay) else (ay, ax)) in
           if reserve_in > 0 \<and> reserve_out > 0
           then (bin_id_of arr_index bin_i, reserve_in, reserve_out)
                  # scan_bins data stride arr_index is_x_to_y rest
           else scan_bins data stride arr_index is_x_to_y rest))"

definition bin_stride :: "byte \<Rightarrow> nat option" where
  "bin_stride version = (if version = 1 then Some 128 else if version = 2 then Some 144 else None)"

definition scan_bin_array :: "byte list \<Rightarrow> bool \<Rightarrow> (int \<times> u64 \<times> u64) list" where
  "scan_bin_array data is_x_to_y =
     (if length data < BIN_ARRAY_HEADER_SIZE then []
      else case bin_stride (if 16 < length data then data ! 16 else 1) of
          None \<Rightarrow> []
        | Some stride \<Rightarrow>
            (let arr_index = sint (u64_from_le (take 8 (drop 8 data))) in
             scan_bins data stride arr_index is_x_to_y [0..<70]))"

definition collect_bins :: "ledger \<Rightarrow> account_info list \<Rightarrow> bool \<Rightarrow> (int \<times> u64 \<times> u64) list" where
  "collect_bins l bin_arrays is_x_to_y =
     concat (map (\<lambda>arr. scan_bin_array (cell_data (l (acc_key arr))) is_x_to_y) bin_arrays)"

definition sort_bins :: "bool \<Rightarrow> (int \<times> u64 \<times> u64) list \<Rightarrow> (int \<times> u64 \<times> u64) list" where
  "sort_bins is_x_to_y bins =
     (if is_x_to_y then sort_key (\<lambda>b. - fst b) bins else sort_key fst bins)"

text \<open>The consuming loop: \<open>remaining_in\<close> and \<open>total_out\<close> are its 128-bit state.\<close>

fun walk_bins :: "(int \<times> u64 \<times> u64) list \<Rightarrow> u128 \<Rightarrow> u128 \<Rightarrow> u128 result" where
  "walk_bins [] remaining_in total_out = Ok total_out"
| "walk_bins ((_, ri64, ro64) # rest) remaining_in total_out =
     (let ri = (ucast ri64 :: u128); ro = (ucast ro64 :: u128);
          overflow = arb_err ARB_PRICE_MATH_OVERFLOW in
      if remaining_in \<le> ri then
        and_then (ok_or (checked_mul ro remaining_in) overflow) (\<lambda>num.
        and_then (ok_or (checked_add ri remaining_in) overflow) (\<lambda>den.
          ok_or (checked_add total_out (case checked_div num den of None \<Rightarrow> 0 | Some q \<Rightarrow> q)) overflow))
      else
        and_then (ok_or (checked_mul ro ri) overflow) (\<lambda>num.
        and_then (ok_or (checked_add ri ri) overflow) (\<lambda>den.
        and_then (ok_or (checked_add total_out (case checked_div num den of None \<Rightarrow> 0 | Some q \<Rightarrow> q))
            overflow) (\<lambda>total_out'.
        and_then (ok_or (checked_sub remaining_in ri) overflow) (\<lambda>remaining_in'.
          walk_bins rest remaining_in' total_out')))))"

definition estimate_dlmm_swap_output :: "ledger \<Rightarrow> account_info list \<Rightarrow> u64 \<Rightarrow> bool \<Rightarrow> u64 result" where
  "estimate_dlmm_swap_output l bin_arrays amount_in is_x_to_y =
     (if amount_in = 0 then Ok 0
      else
        (let bins = collect_bins l bin_arrays is_x_to_y in
         if bins = [] then Err (arb_err ARB_EMPTY_BINS)
         else and_then (walk_bins (sort_bins is_x_to_y bins) (ucast amount_in) 0)
                (\<lambda>total_out. Ok (ucast total_out))))"

text \<open>The walk on exact numbers.\<close>

fun walk_quote :: "(int \<times> u64 \<times> u64) list \<Rightarrow> nat \<Rightarrow> nat" where
  "walk_quote [] x = 0"
| "walk_quote ((_, ri, ro) # rest) x =
     (if x \<le> unat ri then cp_out (unat ri) (unat ro) x
      else cp_out (unat ri) (unat ro) (unat ri) + walk_quote rest (x - unat ri))"

definition bins_out :: "(int \<times> u64 \<times> u64) list \<Rightarrow> nat" where
  "bins_out bins = sum_list (map (\<lambda>(_, _, ro). unat ro) bins)"

lemma bins_out_simps [simp]:
  "bins_out [] = 0" "bins_out ((i, ri, ro) # bs) = unat ro + bins_out bs"
  "bins_out (bs @ cs) = bins_out bs + bins_out cs"
  by (simp_all add: bins_out_def)

lemma cp_out_half:
  assumes "x \<le> ri"
  shows "2 * cp_out ri ro x \<le> ro"
proof (cases "ri + x = 0")
  case False
  have "2 * cp_out ri ro x * (ri + x) \<le> 2 * (ro * x)"
    by (simp add: cp_out_def div_times_less_eq_dividend mult.assoc)
  also have "\<dots> \<le> ro * (ri + x)" using assms by (simp add: algebra_simps)
  finally show ?thesis using False by (auto simp only: mult_le_cancel2)
qed (simp add: cp_out_def)

text \<open>No bin ever pays more than half of its output reserve.\<close>

lemma walk_quote_half: "2 * walk_quote bins x \<le> bins_out bins"
proof (induction bins arbitrary: x)
  case (Cons b bins)
  obtain i ri ro where b: "b = (i, ri, ro)" by (cases b)
  show ?case
  proof (cases "x \<le> unat ri")
    case True
    then show ?thesis using cp_out_half [of x "unat ri" "unat ro"] by (simp add: b)
  next
    case False
    then show ?thesis
      using cp_out_half [of "unat ri" "unat ri" "unat ro"] Cons.IH [of "x - unat ri"] by (simp add: b)
  qed
qed simp

lemma bins_out_bound: "bins_out bins \<le> length bins * 2 ^ 64"
proof (induction bins)
  case (Cons b bins)
  then show ?case using unat_u64_bound [of "snd (snd b)"] by (cases b) simp
qed simp

text \<open>The result of \<open>checked_div(..).unwrap_or(0)\<close> is HOL's division.\<close>

lemma unwrap_div: "(case checked_div a b of None \<Rightarrow> 0 | Some q \<Rightarrow> q) = a div b" for a b :: u128
  by (simp add: checked_div_def)

lemma checked_ops_u128:
  "unat a + unat b < 2 ^ 128 \<Longrightarrow> checked_add (a :: u128) b = Some (a + b)"
  "unat a * unat b < 2 ^ 128 \<Longrightarrow> checked_mul (a :: u128) b = Some (a * b)"
  "unat b \<le> unat a \<Longrightarrow> checked_sub (a :: u128) b = Some (a - b)"
  by (simp_all add: checked_add_def checked_mul_def checked_sub_def word_le_nat_alt)

lemma unat_add_u128: "unat a + unat b < 2 ^ 128 \<Longrightarrow> unat (a + b :: u128) = unat a + unat b"
  by (simp add: unat_word_ariths)

lemma unat_mult_u128: "unat a * unat b < 2 ^ 128 \<Longrightarrow> unat (a * b :: u128) = unat a * unat b"
  by (simp add: unat_word_ariths)

lemma unat_bin_step:
  fixes ri ro :: u64 and x :: u128
  assumes "unat x \<le> unat ri"
  shows "checked_mul (ucast ro) x = Some (ucast ro * x)"
    and "checked_add (ucast ri) x = Some (ucast ri + x)"
    and "unat ((ucast ro * x) div (ucast ri + x)) = cp_out (unat ri) (unat ro) (unat x)"
proof -
  have m: "unat ro * unat x < 2 ^ 128"
    using assms unat_u64_bound [of ri] unat_u64_bound [of ro] by (intro mult_u64_u64) auto
  have a: "unat ri + unat x < 2 ^ 128"
    using assms unat_u64_bound [of ri] by simp
  show "checked_mul (ucast ro) x = Some (ucast ro * x)" using m by (simp add: checked_ops_u128)
  show "checked_add (ucast ri) x = Some (ucast ri + x)" using a by (simp add: checked_ops_u128)
  show "unat ((ucast ro * x) div (ucast ri + x)) = cp_out (unat ri) (unat ro) (unat x)"
    using m a by (simp add: unat_div unat_add_u128 unat_mult_u128 cp_out_def)
qed

lemma walk_bins_nat:
  assumes "unat tot + bins_out bins < 2 ^ 128"
  shows "\<exists>t. walk_bins bins left tot = Ok t \<and> unat t = unat tot + walk_quote bins (unat left)"
  using assms
proof (induction bins arbitrary: left tot)
  case (Cons b bins)
  obtain i ri ro where b: "b = (i, ri, ro)" by (cases b)
  have half: "2 * cp_out (unat ri) (unat ro) y \<le> unat ro" if "y \<le> unat ri" for y
    using that by (rule cp_out_half)
  show ?case
  proof (cases "unat left \<le> unat ri")
    case True
    note st = unat_bin_step(1) [OF True, of ro] unat_bin_step(2) [OF True] unat_bin_step(3) [OF True, of ro]
    have le: "left \<le> ucast ri" using True by (simp add: word_le_nat_alt)
    have sum: "unat tot + cp_out (unat ri) (unat ro) (unat left) < 2 ^ 128"
      using half [OF True] Cons.prems by (simp add: b)
    show ?thesis
      using True le sum st by (simp add: b Let_def unwrap_div checked_ops_u128 unat_add_u128)
  next
    case False
    have nle: "\<not> left \<le> ucast ri" using False by (simp add: word_le_nat_alt)
    have self: "unat (ucast ri :: u128) \<le> unat ri" by simp
    note st = unat_bin_step(1) [OF self, of ro] unat_bin_step(2) [OF self] unat_bin_step(3) [OF self, of ro]
    obtain q :: u128 where q_eq: "(ucast ro * ucast ri) div (ucast ri + ucast ri) = q"
      by blast
    have q: "unat q = cp_out (unat ri) (unat ro) (unat ri)" using st(3) unfolding q_eq by simp
    have sum: "unat tot + unat q < 2 ^ 128"
      using half [of "unat ri"] Cons.prems by (simp add: b q)
    have prem: "unat (tot + q) + bins_out bins < 2 ^ 128"
      using half [of "unat ri"] Cons.prems sum q by (simp add: b unat_add_u128)
    have left: "unat (left - ucast ri) = unat left - unat ri"
      using False by (simp add: unat_sub word_le_nat_alt)
    obtain t where "walk_bins bins (left - ucast ri) (tot + q) = Ok t"
      "unat t = unat (tot + q) + walk_quote bins (unat left - unat ri)"
      using Cons.IH [OF prem, of "left - ucast ri"] left by auto
    then show ?thesis
      using False nle sum st(1,2) q q_eq
      by (simp add: b Let_def unwrap_div checked_ops_u128 unat_add_u128)
  qed
qed simp

lemma scan_bins_length: "length (scan_bins data stride k d js) \<le> length js"
  by (induction js) (auto split: option.splits simp: Let_def)

lemma scan_bin_array_length: "length (scan_bin_array data d) \<le> 70"
  using scan_bins_length [of data _ _ d "[0..<70]"]
  by (auto simp: scan_bin_array_def Let_def split: option.splits)

lemma collect_bins_length: "length (collect_bins l arrs d) \<le> 70 * length arrs"
proof (induction arrs)
  case (Cons a arrs)
  then show ?case
    using scan_bin_array_length [of "cell_data (l (acc_key a))" d] by (simp add: collect_bins_def)
qed (simp add: collect_bins_def)

lemma bins_out_sort: "bins_out (sort_bins d bins) = bins_out bins"
proof -
  have "bins_out cs = sum_mset (image_mset (\<lambda>(_, _, ro). unat ro) (mset cs))" for cs
    by (simp add: bins_out_def flip: sum_mset_sum_list)
  then show ?thesis by (simp add: sort_bins_def)
qed

lemma sorted_sort_bins:
  "sorted (map (\<lambda>b. if d then - fst b else fst b) (sort_bins d bins))"
  by (cases d) (simp_all add: sort_bins_def)

lemma estimate_dlmm_walk:
  fixes l bin_arrays d
  defines "bins \<equiv> collect_bins l bin_arrays d"
  assumes "length bin_arrays \<le> 2 ^ 32"
  shows "estimate_dlmm_swap_output l bin_arrays a d =
      (if a = 0 then Ok 0 else if bins = [] then Err (Custom 6011)
       else Ok (of_nat (walk_quote (sort_bins d bins) (unat a))))"
proof -
  have "length bins \<le> 70 * 2 ^ 32"
    using collect_bins_length [of l bin_arrays d] assms(2) by (simp add: bins_def)
  then have "length bins * 2 ^ 64 \<le> 70 * 2 ^ 32 * 2 ^ 64" by (rule mult_le_mono1)
  then have "bins_out (sort_bins d bins) < 2 ^ 128"
    using bins_out_bound [of bins] by (simp add: bins_out_sort)
  then obtain t where t: "walk_bins (sort_bins d bins) (ucast a) 0 = Ok t"
    "unat t = walk_quote (sort_bins d bins) (unat a)"
    using walk_bins_nat [of 0 "sort_bins d bins" "ucast a"] by auto
  have "(ucast t :: u64) = of_nat (unat t)"
    by (simp add: word_unat_eq_iff unat_ucast_u128_u64 unat_of_nat)
  then show ?thesis
    using t by (simp add: Let_def estimate_dlmm_swap_output_def flip: bins_def)
qed

section \<open>Properties\<close>

lemmas quote_eval = cpmm_swap_output_nat additive_eff_def cp_out_def word_unat_eq_iff

text \<open>C10: for all reserves, amounts and fees the 128-bit checked computation returns exactly
  the additive-fee constant-product quote (and the fee as the rest of the input); it is
  \<open>None\<close> only for an empty input reserve or a zero quote, never because of an overflow, and
  the casts to \<open>u64\<close> lose nothing.\<close>

theorem cpmm_swap_output_exact:
  "cpmm_swap_output ri ro a fee =
     (let q = cpmm_quote (unat ri) (unat ro) (unat a) (unat fee) in
      if ri = 0 \<or> q = 0 then None
      else Some (of_nat q, of_nat (unat a - additive_eff (unat fee) (unat a)))) \<and>
   cpmm_quote (unat ri) (unat ro) (unat a) (unat fee) < 2 ^ 64"
proof
  have "cpmm_quote (unat ri) (unat ro) (unat a) (unat fee) \<le> unat ro"
    by (simp add: cpmm_quote_def cp_out_le)
  then show "cpmm_quote (unat ri) (unat ro) (unat a) (unat fee) < 2 ^ 64"
    using unat_u64_bound [of ro] by simp
  show "cpmm_swap_output ri ro a fee =
     (let q = cpmm_quote (unat ri) (unat ro) (unat a) (unat fee) in
      if ri = 0 \<or> q = 0 then None
      else Some (of_nat q, of_nat (unat a - additive_eff (unat fee) (unat a))))"
    unfolding cpmm_swap_output_nat Let_def
    by (auto simp: cpmm_quote_def cp_out_def additive_eff_def)
qed

text \<open>a quote never drains the pool and never lowers the product of the reserves: paying
  \<open>a\<close> in and taking the quote out leaves a product at least as large.\<close>

lemma cpmm_swap_keeps_product:
  assumes "cpmm_swap_output ri ro a fee = Some (out, fee_amount)"
  shows "unat out < unat ro \<and>
    unat ri * unat ro \<le> (unat ri + unat a) * (unat ro - unat out)"
  using cpmm_swap_output_SomeD [OF assms] additive.fee_product [of "unat ri" "unat ro" "unat a" "unat fee"]
  by (simp add: cpmm_quote_def)

text \<open>C11: buying and selling back on the same pool with the reserves the first swap left
  never returns more than was paid, whatever the fee: one pool alone gives no arbitrage.\<close>

theorem cpmm_round_trip_no_profit:
  assumes "cpmm_swap_output ri ro a fee = Some (out, f1)"
    and "unat ri + unat a < 2 ^ 64"
    and "cpmm_swap_output (ro - out) (ri + a) out fee = Some (ret, f2)"
  shows "unat ret \<le> unat a"
proof -
  note first = cpmm_swap_output_SomeD [OF assms(1)]
  note second = cpmm_swap_output_SomeD [OF assms(3)]
  have "unat (ri + a) = unat ri + unat a" using assms(2) by (simp add: unat_word_ariths)
  moreover have "unat (ro - out) = unat ro - unat out"
    using first(6) by (simp add: unat_sub word_le_nat_alt)
  ultimately show ?thesis
    using additive.curve.round_trip [of "unat ro" "unat ri" "unat fee" "unat a"] first(1,5) second(1)
    by (simp add: cpmm_quote_def)
qed

theorem cpmm_round_trip_no_profit_witness:
  "cpmm_swap_output 1000 1000000 100 25 = Some (90081, 1) \<and>
   cpmm_swap_output (1000000 - 90081) (1000 + 100) 90081 25 = Some (98, 225) \<and>
   unat (98 :: u64) \<le> unat (100 :: u64)"
proof -
  have h1: "cpmm_swap_output 1000 1000000 100 25 = Some (90081, 1)"
    by (simp add: quote_eval)
  have h2: "unat (1000 :: u64) + unat (100 :: u64) < 2 ^ 64" by simp
  have h3: "cpmm_swap_output (1000000 - 90081) (1000 + 100) 90081 25 = Some (98, 225)"
    by (simp add: quote_eval)
  show ?thesis using h1 h3 cpmm_round_trip_no_profit [OF h1 h2 h3] by simp
qed

text \<open>on one pool, paying more never buys less.\<close>

lemma cpmm_swap_monotone:
  assumes "cpmm_swap_output ri ro a fee = Some (out, f1)" and "a \<le> b"
  shows "\<exists>out' f2. cpmm_swap_output ri ro b fee = Some (out', f2) \<and> out \<le> out'"
proof -
  note first = cpmm_swap_output_SomeD [OF assms(1)]
  let ?q = "cp_out (unat ri) (unat ro) (additive_eff (unat fee) (unat b))"
  have ge: "unat out \<le> ?q"
    using first(1) additive.fee_mono [of "unat a" "unat b" "unat ri" "unat ro" "unat fee"] assms(2)
    by (simp add: cpmm_quote_def word_le_nat_alt)
  then have nz: "?q \<noteq> 0" using first(3) by simp
  then have e_nz: "additive_eff (unat fee) (unat b) \<noteq> 0" by (metis cp_out_0)
  then have "b \<noteq> 0" by auto
  moreover have "ri \<noteq> 0" "ro \<noteq> 0" using first(4,5) by (auto simp: word_unat_eq_iff)
  ultimately have "cpmm_swap_output ri ro b fee =
      Some (of_nat ?q, of_nat (unat b - additive_eff (unat fee) (unat b)))"
    using nz e_nz by (simp add: cpmm_swap_output_nat)
  moreover have "?q < 2 ^ 64"
    using cp_out_le [of "unat ri" "unat ro"] unat_u64_bound [of ro] by (rule le_less_trans)
  ultimately show ?thesis using ge by (simp add: word_le_nat_alt unat_of_nat_small)
qed

lemma cpmm_swap_monotone_witness:
  "cpmm_swap_output 1000 1000000 100 25 = Some (90081, 1) \<and>
   (\<exists>out' f2. cpmm_swap_output 1000 1000000 200 25 = Some (out', f2) \<and> (90081 :: u64) \<le> out')"
proof -
  have h: "cpmm_swap_output 1000 1000000 100 25 = Some (90081, 1)"
    by (simp add: quote_eval)
  have le: "(100 :: u64) \<le> 200" by simp
  show ?thesis using h cpmm_swap_monotone [OF h le] by blast
qed

text \<open>C12: for any number of bin arrays up to \<open>2 ^ 32\<close> the DLMM estimate is the exact bin walk
  over the liquid bins in price order; it never reports an arithmetic overflow, fails only
  when there is no liquid bin, and quotes at most half of the liquidity it walks over.\<close>

theorem estimate_dlmm_exact:
  assumes "length bin_arrays \<le> 2 ^ 32"
  shows "let bins = collect_bins l bin_arrays d; quote = walk_quote (sort_bins d bins) (unat a) in
    estimate_dlmm_swap_output l bin_arrays a d =
      (if a = 0 then Ok 0 else if bins = [] then Err (Custom 6011) else Ok (of_nat quote)) \<and>
    2 * quote \<le> bins_out bins \<and>
    sorted (map (\<lambda>b. if d then - fst b else fst b) (sort_bins d bins))"
  using estimate_dlmm_walk [OF assms, of l a d]
    walk_quote_half [of "sort_bins d (collect_bins l bin_arrays d)" "unat a"] sorted_sort_bins [of d]
  by (simp add: Let_def bins_out_sort)

definition one_bin_array :: "byte list" where
  "one_bin_array = replicate 16 0 @ [1] @ replicate 39 0 @ u64_to_le 1000 @ u64_to_le 5000"

definition one_bin_ledger :: ledger where
  "one_bin_ledger = (\<lambda>_. \<lparr>cell_lamports = 0, cell_data = one_bin_array\<rparr>)"

definition plain_account :: "pubkey \<Rightarrow> account_info" where
  "plain_account k = \<lparr>acc_key = k, acc_owner = 0, acc_is_signer = False, acc_is_writable = True\<rparr>"

lemma collect_one_bin: "collect_bins one_bin_ledger [plain_account 7] True = [(0, 1000, 5000)]"
proof -
  have upt: "[0..<70] = 0 # 1 # [2..<70]" by (simp add: upt_conv_Cons)
  have len: "length one_bin_array = 72" by (simp add: one_bin_array_def)
  have version: "one_bin_array ! 16 = 1" by (simp add: one_bin_array_def nth_append)
  have index: "u64_from_le (take 8 (drop 8 one_bin_array)) = 0"
    by (simp add: one_bin_array_def u64_from_le_def)
  have bin0: "read_bin_amounts one_bin_array 56 = Some (1000, 5000)"
    unfolding read_bin_amounts_def len by (simp add: one_bin_array_def)
  have bin1: "read_bin_amounts one_bin_array (56 + 128) = None"
    by (simp add: read_bin_amounts_def len)
  show ?thesis
    using bin0 bin1 unfolding collect_bins_def scan_bin_array_def one_bin_ledger_def upt
    by (simp add: len version index bin_stride_def bin_id_of_def sat_i64_def)
qed

theorem estimate_dlmm_exact_witness:
  "estimate_dlmm_swap_output one_bin_ledger [plain_account 7] 100 True = Ok 454 \<and>
   length [plain_account 7] \<le> 2 ^ 32"
proof -
  have h: "length [plain_account 7] \<le> 2 ^ 32" by simp
  show ?thesis
    using h estimate_dlmm_exact [OF h, of one_bin_ledger True 100]
    by (simp add: Let_def collect_one_bin sort_bins_def cp_out_def)
qed

end
