(* ===== verification/Float64.thy ===== *)
theory Float64
  imports Prelude "HOL-Library.Log_Nat"
begin

text \<open>
  IEEE 754 double precision arithmetic as the bot uses it (Rust's \<open>f64\<close>): values are rationals,
  infinities or NaN, and every operation is the exact one followed by rounding to nearest, ties
  to even. Zeros carry no sign: the bot never divides by a zero whose sign could differ, and
  comparisons do not see it. Conversions to integers saturate, as Rust's \<open>as\<close> does.
\<close>

section \<open>Rounding\<close>

text \<open>The binary exponent of a positive rational.\<close>

definition ilog2 :: "rat \<Rightarrow> int" where
  "ilog2 q =
     (let (n, d) = quotient_of q; k = int (floorlog 2 (nat n)) - int (floorlog 2 (nat d))
      in if 2 powi k \<le> q then k else k - 1)"

definition round_even :: "rat \<Rightarrow> int" where
  "round_even x =
     (let f = \<lfloor>x\<rfloor>; r = x - of_int f in
      if r < 1 / 2 then f else if 1 / 2 < r then f + 1 else if even f then f else f + 1)"

definition ulp_exp :: "rat \<Rightarrow> int" where
  "ulp_exp q = max (- 1074) (ilog2 \<bar>q\<bar> - 52)"

definition rnd :: "rat \<Rightarrow> rat" where
  "rnd q = (if q = 0 then 0
     else of_int (round_even (q / 2 powi ulp_exp q)) * 2 powi ulp_exp q)"

subsection \<open>The exponent\<close>

lemma floorlog2_rat:
  fixes n :: int
  assumes "0 < n"
  shows "2 powi (int (floorlog 2 (nat n)) - 1) \<le> (of_int n :: rat)"
    and "(of_int n :: rat) < 2 powi int (floorlog 2 (nat n))"
proof -
  let ?f = "floorlog 2 (nat n)"
  have b: "2 ^ (?f - 1) \<le> nat n" "nat n < 2 ^ ?f"
    using floorlog_bounds [of "nat n" 2] assms by simp_all
  have pos: "0 < ?f" using assms by (metis b(2) gr0I nat_less_eq_zless not_less_eq power_0 less_one zero_less_nat_eq order_less_irrefl)
  have n: "of_int n = (of_nat (nat n) :: rat)" using assms by simp
  have "(2 ^ (?f - 1) :: rat) \<le> of_nat (nat n)" using b(1) by (metis of_nat_le_iff of_nat_numeral of_nat_power)
  then show "2 powi (int ?f - 1) \<le> (of_int n :: rat)"
    using pos unfolding n by (simp add: power_int_def nat_diff_distrib)
  have "(of_nat (nat n) :: rat) < 2 ^ ?f" using b(2) by (metis of_nat_less_iff of_nat_numeral of_nat_power)
  then show "(of_int n :: rat) < 2 powi int ?f" unfolding n by simp
qed

lemma two_powi_less_iff: "(2 :: rat) powi a < 2 powi b \<longleftrightarrow> a < b"
proof
  show "a < b" if "(2 :: rat) powi a < 2 powi b"
  proof (rule ccontr)
    assume "\<not> a < b"
    then have "(2 :: rat) powi b \<le> 2 powi a" by (intro power_int_increasing) simp_all
    with that show False by simp
  qed
qed (simp add: power_int_strict_increasing)

lemma two_powi_le_iff: "(2 :: rat) powi a \<le> 2 powi b \<longleftrightarrow> a \<le> b"
  by (metis two_powi_less_iff not_less)

lemma ilog2_bounds:
  assumes "0 < q"
  shows "2 powi ilog2 q \<le> q" and "q < 2 powi (ilog2 q + 1)"
proof -
  obtain n d where nd: "quotient_of q = (n, d)" by (cases "quotient_of q")
  have d: "0 < d" using quotient_of_denom_pos [OF nd] .
  have q: "q = of_int n / of_int d" using quotient_of_div [OF nd] .
  have n: "0 < n" using assms d by (simp add: q zero_less_divide_iff)
  let ?a = "int (floorlog 2 (nat n))" and ?b = "int (floorlog 2 (nat d))"
  note fn = floorlog2_rat [OF n] and fd = floorlog2_rat [OF d]
  have dpos: "(0 :: rat) < of_int d" using d by simp
  have "(2 :: rat) powi (?a - ?b - 1) * of_int d \<le> 2 powi (?a - ?b - 1) * 2 powi ?b"
    using fd(2) by (intro mult_left_mono) simp_all
  also have "\<dots> = (2 powi (?a - 1) :: rat)" by (subst power_int_add [symmetric]) simp_all
  finally have lo: "2 powi (?a - ?b - 1) \<le> q" using fn(1) dpos by (simp add: q le_divide_eq)
  have "(2 :: rat) powi ?a = 2 powi (?a - ?b + 1) * 2 powi (?b - 1)"
    by (subst power_int_add [symmetric]) simp_all
  also have "\<dots> \<le> 2 powi (?a - ?b + 1) * of_int d"
    using fd(1) by (intro mult_left_mono) simp_all
  finally have "of_int n < 2 powi (?a - ?b + 1) * (of_int d :: rat)" by (rule less_le_trans [OF fn(2)])
  then have hi: "q < 2 powi (?a - ?b + 1)" using dpos by (simp add: q divide_less_eq)
  show "2 powi ilog2 q \<le> q" "q < 2 powi (ilog2 q + 1)"
    using lo hi by (auto simp: ilog2_def nd Let_def)
qed

lemma ilog2_unique:
  assumes "2 powi k \<le> q" "q < 2 powi (k + 1)"
  shows "ilog2 q = k"
proof -
  have "0 < q" using assms(1) by (rule less_le_trans [rotated]) simp
  note b = ilog2_bounds [OF this]
  have "(2 :: rat) powi k < 2 powi (ilog2 q + 1)" using assms(1) b(2) by linarith
  moreover have "(2 :: rat) powi ilog2 q < 2 powi (k + 1)" using assms(2) b(1) by linarith
  ultimately show ?thesis by (simp add: two_powi_less_iff)
qed

lemma ilog2_mono: "0 < q \<Longrightarrow> q \<le> r \<Longrightarrow> ilog2 q \<le> ilog2 r"
proof -
  assume q: "0 < q" "q \<le> r"
  have "(2 :: rat) powi ilog2 q < 2 powi (ilog2 r + 1)"
    using ilog2_bounds [of q] ilog2_bounds [of r] q by linarith
  then show ?thesis by (simp add: two_powi_less_iff)
qed

subsection \<open>Nearest integer\<close>

lemma round_even_iff:
  "round_even x = m \<longleftrightarrow>
    \<bar>x - of_int m\<bar> < 1 / 2 \<or> \<bar>x - of_int m\<bar> = 1 / 2 \<and> even m"
proof -
  define f r where "f = \<lfloor>x\<rfloor>" and "r = x - of_int f"
  have r: "0 \<le> r" "r < 1" and x: "x = of_int f + r" by (simp_all add: r_def f_def) linarith
  have re: "round_even x = (if r < 1 / 2 then f else if 1 / 2 < r then f + 1 else if even f then f else f + 1)"
    by (simp add: round_even_def Let_def r_def f_def)
  have "m = f \<or> m = f + 1" if "\<bar>x - of_int m\<bar> \<le> 1 / 2"
  proof -
    have "x - of_int m \<le> 1 / 2" "of_int m - x \<le> 1 / 2" using that by (simp_all only: abs_le_iff minus_diff_eq)
    then have "of_int (f - 1) < (of_int m :: rat)" "(of_int m :: rat) < of_int (f + 2)"
      using r by (simp_all add: x)
    then show ?thesis unfolding of_int_less_iff by linarith
  qed
  then consider "m = f" | "m = f + 1" | "m \<noteq> f" "m \<noteq> f + 1" "1 / 2 < \<bar>x - of_int m\<bar>"
    by (meson not_le)
  then show ?thesis
  proof cases
    case 1
    then show ?thesis unfolding re using r by (auto simp: x)
  next
    case 2
    have "\<bar>x - of_int m\<bar> = 1 - r" using r by (simp add: x 2)
    then show ?thesis unfolding re using r by (auto simp: 2)
  next
    case 3
    then show ?thesis unfolding re by auto
  qed
qed

lemma round_even_near: "\<bar>x - of_int (round_even x)\<bar> \<le> 1 / 2"
  using round_even_iff [of x "round_even x"] by auto

lemma round_even_of_int [simp]: "round_even (of_int k) = k"
  by (simp add: round_even_iff)

lemma round_even_minus: "round_even (- x) = - round_even x"
  using round_even_iff [of x "round_even x"] by (auto simp: round_even_iff abs_minus_commute)

lemma round_even_mono:
  assumes "x \<le> y"
  shows "round_even x \<le> round_even y"
proof (rule ccontr)
  assume "\<not> round_even x \<le> round_even y"
  then have less: "of_int (round_even y) + 1 \<le> (of_int (round_even x) :: rat)"
    by (metis not_le of_int_1 of_int_add of_int_le_iff zless_imp_add1_zle)
  then have "x = y" using round_even_near [of x] round_even_near [of y] assms
    by (simp add: abs_le_iff)
  then show False using less by simp
qed

subsection \<open>Representable numbers\<close>

definition representable :: "rat \<Rightarrow> bool" where
  "representable q \<longleftrightarrow> (\<exists>m e. \<bar>m\<bar> \<le> 2 ^ 53 \<and> - 1074 \<le> e \<and> q = of_int m * 2 powi e)"

lemma representable_powi [simp]: "- 1074 \<le> e \<Longrightarrow> representable (2 powi e)"
  unfolding representable_def by (rule exI [of _ 1], rule exI [of _ e]) simp

lemma representable_of_int [intro]: "\<bar>n\<bar> \<le> 2 ^ 53 \<Longrightarrow> representable (of_int n)"
  unfolding representable_def by (rule exI [of _ n], rule exI [of _ 0]) simp

lemma representable_half: "\<bar>n\<bar> \<le> 2 ^ 53 \<Longrightarrow> representable (of_int n / 2)"
  unfolding representable_def by (rule exI [of _ n], rule exI [of _ "-1"]) (simp add: power_int_def)

lemma representable_0 [simp]: "representable 0"
  using representable_of_int [of 0] by simp

lemma representable_minus: "representable q \<Longrightarrow> representable (- q)"
proof -
  assume "representable q"
  then obtain m e where "\<bar>m\<bar> \<le> 2 ^ 53" "- 1074 \<le> e" "q = of_int m * 2 powi e"
    unfolding representable_def by blast
  then show ?thesis
    unfolding representable_def by (intro exI [of _ "- m"] exI [of _ e]) simp
qed

lemma integral_rnd:
  assumes "q / 2 powi ulp_exp q = of_int k"
  shows "rnd q = q"
proof -
  have "q = of_int k * 2 powi ulp_exp q" using assms by (simp add: divide_eq_eq)
  then show ?thesis by (simp add: rnd_def assms)
qed

lemma rnd_representable:
  assumes "representable q"
  shows "rnd q = q"
proof (cases "q = 0")
  case False
  from assms obtain m e where m: "\<bar>m\<bar> \<le> 2 ^ 53" and e: "- 1074 \<le> e" and q: "q = of_int m * 2 powi e"
    unfolding representable_def by blast
  let ?u = "ulp_exp q"
  show ?thesis
  proof (cases "?u \<le> e")
    case True
    then have "q / 2 powi ?u = of_int (m * 2 ^ nat (e - ?u))"
      by (simp add: q power_int_diff [symmetric] flip: times_divide_eq_right) (simp add: power_int_def)
    then show ?thesis by (rule integral_rnd)
  next
    case u: False
    then have ue: "?u = ilog2 \<bar>q\<bar> - 52" using e by (simp add: ulp_exp_def)
    have pos: "0 < \<bar>q\<bar>" using False by simp
    have "(2 :: rat) powi (e + 53) \<le> 2 powi ilog2 \<bar>q\<bar>" using u ue by (simp add: two_powi_le_iff)
    also have "\<dots> \<le> \<bar>q\<bar>" using ilog2_bounds [OF pos] by simp
    also have "\<dots> = of_int \<bar>m\<bar> * 2 powi e" by (simp add: q abs_mult)
    finally have ge: "2 powi 53 \<le> (of_int \<bar>m\<bar> :: rat)" by (simp add: power_int_add)
    then have "2 ^ 53 \<le> \<bar>m\<bar>" by (simp add: power_int_def)
    then have m53: "\<bar>m\<bar> = 2 ^ 53" using m by simp
    then have "\<bar>q\<bar> = 2 ^ 53 * 2 powi e" by (simp add: q abs_mult flip: of_int_abs)
    then have q53: "\<bar>q\<bar> = 2 powi (e + 53)" by (simp add: power_int_add power_int_def [of _ 53])
    have "ilog2 \<bar>q\<bar> = e + 53" by (rule ilog2_unique) (simp_all add: q53 two_powi_less_iff)
    then have u1: "?u = e + 1" by (simp add: ue)
    have "q / 2 powi ?u = of_int (sgn m * 2 ^ 52)"
    proof -
      have "m = sgn m * 2 ^ 53" using m53 by (metis sgn_mult_abs)
      then have "q = of_int (sgn m * 2 ^ 52) * 2 powi (e + 1)"
        by (simp add: q power_int_add)
      then have "q / 2 powi (e + 1) = of_int (sgn m * 2 ^ 52)" by (simp only: nonzero_mult_div_cancel_right) simp
      then show ?thesis by (simp only: u1)
    qed
    then show ?thesis by (rule integral_rnd)
  qed
qed (simp add: rnd_def)

lemma rnd_0 [simp]: "rnd 0 = 0"
  by (simp add: rnd_def)

lemma rnd_minus: "rnd (- q) = - rnd q"
  by (simp add: rnd_def ulp_exp_def round_even_minus)

lemma scaled_mono:
  assumes "q \<le> (r :: rat)"
  shows "of_int (round_even (q / 2 powi u)) * 2 powi u \<le> of_int (round_even (r / 2 powi u)) * (2 powi u :: rat)"
  using assms by (intro mult_right_mono) (auto intro!: round_even_mono divide_right_mono)

lemma rnd_mono_pos:
  assumes "0 < q" and "q \<le> r"
  shows "rnd q \<le> rnd r"
proof -
  let ?u = "ulp_exp q" and ?v = "ulp_exp r"
  have uv: "?u \<le> ?v" using ilog2_mono [OF assms] assms by (simp add: ulp_exp_def)
  have qr: "rnd q = of_int (round_even (q / 2 powi ?u)) * 2 powi ?u"
    "rnd r = of_int (round_even (r / 2 powi ?v)) * 2 powi ?v" using assms by (simp_all add: rnd_def)
  show ?thesis
  proof (cases "?u = ?v")
    case True
    then show ?thesis unfolding qr using scaled_mono [OF assms(2)] by simp
  next
    case False
    then have v: "?v = ilog2 r - 52" "?u < ?v" using uv assms by (auto simp: ulp_exp_def)
    have exact: "of_int (round_even (2 powi (?v + 52) / 2 powi u)) * 2 powi u = (2 powi (?v + 52) :: rat)"
      if "u \<le> ?v + 52" for u
    proof -
      have "(2 :: rat) powi (?v + 52) / 2 powi u = of_int (2 ^ nat (?v + 52 - u))"
        using that by (simp flip: power_int_diff) (simp add: power_int_def)
      then have "of_int (round_even (2 powi (?v + 52) / 2 powi u)) = (2 :: rat) powi (?v + 52) / 2 powi u"
        by (simp only: round_even_of_int)
      then show ?thesis by simp
    qed
    have "ilog2 q + 1 \<le> ?v + 52" using v assms by (simp add: ulp_exp_def)
    then have "q \<le> 2 powi (?v + 52)"
      using ilog2_bounds(2) [OF assms(1)] by (meson less_imp_le order.trans two_powi_le_iff)
    from scaled_mono [OF this, of ?u] have "rnd q \<le> 2 powi (?v + 52)"
      unfolding qr using exact [of ?u] v by linarith
    also have "2 powi (?v + 52) \<le> r" using ilog2_bounds(1) [of r] assms v by simp
    from scaled_mono [OF this, of ?v] have "2 powi (?v + 52) \<le> rnd r"
      unfolding qr using exact [of ?v] by linarith
    finally show ?thesis .
  qed
qed

lemma rnd_nonneg: "0 \<le> q \<Longrightarrow> 0 \<le> rnd q"
proof -
  assume q: "0 \<le> q"
  have "round_even 0 \<le> round_even (q / 2 powi ulp_exp q)" using q by (intro round_even_mono) simp
  then show ?thesis using round_even_of_int [of 0] by (simp add: rnd_def)
qed

lemma rnd_mono:
  assumes "q \<le> r"
  shows "rnd q \<le> rnd r"
proof -
  consider "0 < q" | "q \<le> 0" "0 \<le> r" | "r < 0" using assms by linarith
  then show ?thesis
  proof cases
    case 1
    then show ?thesis using assms by (rule rnd_mono_pos)
  next
    case 2
    then have "rnd q \<le> 0" using rnd_nonneg [of "- q"] by (simp add: rnd_minus)
    also have "0 \<le> rnd r" using 2 by (simp add: rnd_nonneg)
    finally show ?thesis .
  next
    case 3
    then show ?thesis using rnd_mono_pos [of "- r" "- q"] assms by (simp add: rnd_minus)
  qed
qed

lemma rnd_le: "q \<le> b \<Longrightarrow> representable b \<Longrightarrow> rnd q \<le> b"
  using rnd_mono [of q b] by (simp add: rnd_representable)

lemma rnd_ge: "b \<le> q \<Longrightarrow> representable b \<Longrightarrow> b \<le> rnd q"
  using rnd_mono [of b q] by (simp add: rnd_representable)

text \<open>Evaluation on a concrete normal number, with its exponent and significand given.\<close>

lemma rnd_eqI:
  assumes "2 powi k \<le> q" "q < 2 powi (k + 1)" "- 1022 \<le> k"
    and "\<bar>q / 2 powi (k - 52) - of_int m\<bar> < 1 / 2"
  shows "rnd q = of_int m * 2 powi (k - 52)"
proof -
  have pos: "0 < q" using assms(1) by (rule less_le_trans [rotated]) simp
  have "ulp_exp q = k - 52" using pos assms(3) by (simp add: ulp_exp_def ilog2_unique [OF assms(1,2)])
  moreover have "round_even (q / 2 powi (k - 52)) = m" using assms(4) by (simp add: round_even_iff)
  ultimately show ?thesis using pos by (simp add: rnd_def)
qed

lemma ulp_exp_le: "0 < q \<Longrightarrow> q < 2 powi k \<Longrightarrow> - 1021 \<le> k \<Longrightarrow> ulp_exp q \<le> k - 53"
  using ilog2_bounds(1) [of q] two_powi_less_iff [of "ilog2 q" k] by (simp add: ulp_exp_def)

lemma rnd_error:
  assumes "0 \<le> q" and "q < 2 powi k" and "- 1021 \<le> k"
  shows "\<bar>rnd q - q\<bar> \<le> 2 powi (k - 54)"
proof (cases "q = 0")
  case False
  let ?u = "ulp_exp q"
  have "\<bar>q / 2 powi ?u - of_int (round_even (q / 2 powi ?u))\<bar> * 2 powi ?u \<le> 1 / 2 * 2 powi ?u"
    by (intro mult_right_mono round_even_near) simp
  then have "\<bar>(q / 2 powi ?u - of_int (round_even (q / 2 powi ?u))) * 2 powi ?u\<bar> \<le> 1 / 2 * 2 powi ?u"
    by (simp add: abs_mult)
  then have "\<bar>q - rnd q\<bar> \<le> 1 / 2 * 2 powi ?u" using False by (simp add: rnd_def left_diff_distrib)
  also have "\<dots> = 2 powi (?u - 1)" by (simp add: power_int_diff)
  also have "\<dots> \<le> 2 powi (k - 54)"
    using ulp_exp_le [of q k] assms False by (simp add: two_powi_le_iff)
  finally show ?thesis by (simp add: abs_minus_commute)
qed simp

section \<open>Values and operations\<close>

text \<open>\<open>Inf True\<close> is the positive infinity.\<close>

datatype f64 = Fin rat | Inf bool | NaN

definition to_f64 :: "rat \<Rightarrow> f64" where
  "to_f64 q = (let r = rnd q in if 2 ^ 1024 \<le> \<bar>r\<bar> then Inf (0 < r) else Fin r)"

fun f_neg :: "f64 \<Rightarrow> f64" where
  "f_neg (Fin a) = Fin (- a)"
| "f_neg (Inf s) = Inf (\<not> s)"
| "f_neg NaN = NaN"

fun f_add :: "f64 \<Rightarrow> f64 \<Rightarrow> f64" where
  "f_add (Fin a) (Fin b) = to_f64 (a + b)"
| "f_add (Fin a) (Inf t) = Inf t"
| "f_add (Inf s) (Fin b) = Inf s"
| "f_add (Inf s) (Inf t) = (if s = t then Inf s else NaN)"
| "f_add _ _ = NaN"

definition f_sub :: "f64 \<Rightarrow> f64 \<Rightarrow> f64" where
  "f_sub x y = f_add x (f_neg y)"

fun f_mul :: "f64 \<Rightarrow> f64 \<Rightarrow> f64" where
  "f_mul (Fin a) (Fin b) = to_f64 (a * b)"
| "f_mul (Fin a) (Inf t) = (if a = 0 then NaN else Inf ((0 < a) = t))"
| "f_mul (Inf s) (Fin b) = (if b = 0 then NaN else Inf (s = (0 < b)))"
| "f_mul (Inf s) (Inf t) = Inf (s = t)"
| "f_mul _ _ = NaN"

fun f_div :: "f64 \<Rightarrow> f64 \<Rightarrow> f64" where
  "f_div (Fin a) (Fin b) =
     (if b \<noteq> 0 then to_f64 (a / b) else if a = 0 then NaN else Inf (0 < a))"
| "f_div (Fin a) (Inf t) = Fin 0"
| "f_div (Inf s) (Fin b) = Inf (s = (0 \<le> b))"
| "f_div _ _ = NaN"

fun f_lt :: "f64 \<Rightarrow> f64 \<Rightarrow> bool" where
  "f_lt (Fin a) (Fin b) = (a < b)"
| "f_lt (Fin a) (Inf t) = t"
| "f_lt (Inf s) (Fin b) = (\<not> s)"
| "f_lt (Inf s) (Inf t) = (\<not> s \<and> t)"
| "f_lt _ _ = False"

text \<open>Rust's \<open>max\<close> and \<open>min\<close> return the other argument for NaN.\<close>

definition f_max :: "f64 \<Rightarrow> f64 \<Rightarrow> f64" where
  "f_max x y = (if x = NaN then y else if f_lt x y then y else x)"

definition f_min :: "f64 \<Rightarrow> f64 \<Rightarrow> f64" where
  "f_min x y = (if x = NaN then y else if f_lt y x then y else x)"

text \<open>Casts: from an unsigned integer, and to one, saturating at \<open>cap\<close>.\<close>

definition f64_of_nat :: "nat \<Rightarrow> f64" where
  "f64_of_nat n = to_f64 (of_nat n)"

fun f64_to_nat :: "nat \<Rightarrow> f64 \<Rightarrow> nat" where
  "f64_to_nat cap (Fin q) = (if q < 0 then 0 else min cap (nat \<lfloor>q\<rfloor>))"
| "f64_to_nat cap (Inf s) = (if s then cap else 0)"
| "f64_to_nat cap NaN = 0"

definition f64_of_u64 :: "u64 \<Rightarrow> f64" where
  "f64_of_u64 w = f64_of_nat (unat w)"

definition f64_as_u64 :: "f64 \<Rightarrow> u64" where
  "f64_as_u64 x = of_nat (f64_to_nat (2 ^ 64 - 1) x)"

definition f64_as_u128 :: "f64 \<Rightarrow> u128" where
  "f64_as_u128 x = of_nat (f64_to_nat (2 ^ 128 - 1) x)"

section \<open>Facts used by the components\<close>

lemma to_f64_Fin:
  assumes "\<bar>q\<bar> \<le> b" and "representable b" and "b < 2 ^ 1024"
  shows "to_f64 q = Fin (rnd q)"
proof -
  have "rnd q \<le> b" using assms by (intro rnd_le) (auto simp: abs_le_iff)
  moreover have "- b \<le> rnd q"
    using assms by (intro rnd_ge representable_minus) (auto simp: abs_le_iff)
  ultimately have "\<bar>rnd q\<bar> < 2 ^ 1024" using assms(3) by (simp add: abs_less_iff) 
  then show ?thesis by (simp add: to_f64_def Let_def)
qed

lemma f64_of_u64_Fin: "f64_of_u64 w = Fin (rnd (of_nat (unat w)))"
  unfolding f64_of_u64_def f64_of_nat_def
proof (rule to_f64_Fin)
  have "(of_nat (unat w) :: rat) \<le> of_nat (2 ^ 64)"
    unfolding of_nat_le_iff using unat_u64_bound [of w] by simp
  then show "\<bar>of_nat (unat w) :: rat\<bar> \<le> 2 powi 64" by (simp add: power_int_def del: of_nat_unat)
  show "representable (2 powi 64)" by (rule representable_powi) simp
qed simp

lemma f64_of_u64_exact: "unat w \<le> 2 ^ 53 \<Longrightarrow> f64_of_u64 w = Fin (of_nat (unat w))"
  using rnd_representable [OF representable_of_int [of "int (unat w)"]]
  by (simp add: f64_of_u64_Fin del: of_nat_unat)

lemma unat_f64_as_u64: "unat (f64_as_u64 x) = f64_to_nat (2 ^ 64 - 1) x"
proof -
  have "f64_to_nat (2 ^ 64 - 1) x \<le> 2 ^ 64 - 1" by (cases x) auto
  then show ?thesis by (simp add: f64_as_u64_def unat_of_nat_small)
qed

definition f64_as_u32 :: "f64 \<Rightarrow> u32" where
  "f64_as_u32 x = of_nat (f64_to_nat (2 ^ 32 - 1) x)"

subsection \<open>Results are representable\<close>

lemma representable_rnd: "representable (rnd q)"
proof (cases "q = 0")
  case False
  let ?u = "ulp_exp q"
  have "\<bar>q\<bar> < 2 powi (ilog2 \<bar>q\<bar> + 1)" using False by (intro ilog2_bounds) simp
  also have "\<dots> \<le> 2 powi (53 + ?u)" unfolding two_powi_le_iff by (simp add: ulp_exp_def)
  also have "\<dots> = 2 ^ 53 * 2 powi ?u" by (simp add: power_int_add)
  finally have "\<bar>q / 2 powi ?u\<bar> \<le> 2 ^ 53" by (simp add: abs_divide divide_le_eq)
  then have "- of_int (2 ^ 53) \<le> q / 2 powi ?u" "q / 2 powi ?u \<le> of_int (2 ^ 53)"
    unfolding abs_le_iff by simp_all
  then have "\<bar>round_even (q / 2 powi ?u)\<bar> \<le> 2 ^ 53"
    using round_even_mono [of "of_int (- (2 ^ 53))" "q / 2 powi ?u"] round_even_mono [of "q / 2 powi ?u" "of_int (2 ^ 53)"]
    unfolding round_even_of_int by (simp add: abs_le_iff)
  then show ?thesis
    unfolding representable_def by (intro exI [of _ "round_even (q / 2 powi ?u)"] exI [of _ ?u])
      (simp add: rnd_def False ulp_exp_def)
qed simp

lemma to_f64_representable: "to_f64 q = Fin r \<Longrightarrow> representable r"
  by (auto simp: to_f64_def Let_def representable_rnd split: if_splits)

lemma representable_double: "representable q \<Longrightarrow> representable (2 * q)"
proof -
  assume "representable q"
  then obtain m e where m: "\<bar>m\<bar> \<le> 2 ^ 53" "- 1074 \<le> e" "q = of_int m * 2 powi e"
    unfolding representable_def by blast
  then have "2 * q = of_int m * 2 powi (e + 1)" by (simp add: power_int_add)
  with m show ?thesis unfolding representable_def by (intro exI [of _ m] exI [of _ "e + 1"]) simp
qed

text \<open>The relative error of rounding, away from the subnormal numbers.\<close>

lemma rnd_rel:
  assumes "2 powi (- 1000) \<le> q"
  shows "\<bar>rnd q - q\<bar> \<le> q / 2 ^ 53"
proof -
  have pos: "0 < q" using assms by (rule less_le_trans [rotated]) simp
  note b = ilog2_bounds [OF pos]
  have "(2 :: rat) powi (- 1000) < 2 powi (ilog2 q + 1)" using assms b(2) by simp
  then have k: "- 1021 \<le> ilog2 q + 1" unfolding two_powi_less_iff by simp
  have "\<bar>rnd q - q\<bar> \<le> 2 powi (ilog2 q + 1 - 54)" using pos b(2) k by (intro rnd_error) simp_all
  also have "\<dots> = 2 powi ilog2 q / 2 ^ 53"
    using power_int_diff [of "2 :: rat" "ilog2 q" 53] by simp
  also have "\<dots> \<le> q / 2 ^ 53" using b(1) by (intro divide_right_mono) simp_all
  finally show ?thesis .
qed

end
