(* ===== verification/Client_Pricing.thy ===== *)
theory Client_Pricing
  imports Pricing Client_Generic Float64
begin

text \<open>
  The bot's estimators. \<open>simulator/mod.rs\<close>, \<open>simulator/pumpswap/math.rs\<close> and
  \<open>simulator/bonding_curve.rs\<close>: the constant product with the fee added to the denominator;
  \<open>executor/atomic/generic_route.rs\<close>: the constant product with the fee taken off the input, for
  Raydium CPMM and Orca; \<open>simulator/dlmm/mod.rs\<close>: the walk over DLMM bins at fixed prices;
  \<open>executor/atomic/mod.rs\<close> and \<open>helpers.rs\<close>: slippage, transaction cost and lamports. Integer
  operators wrap, as in the release build; a division by zero is a panic.
\<close>

section \<open>Fee added to the denominator\<close>

definition div_or_panic :: "u128 \<Rightarrow> u128 \<Rightarrow> u128 client_result" where
  "div_or_panic a b = (if b = 0 then Panic else Ok (a div b))"

text \<open>\<open>(fee * 10000.0) as u128\<close>\<close>

definition fee_to_bps :: "f64 \<Rightarrow> u128" where
  "fee_to_bps fee = f64_as_u128 (f_mul fee (Fin 10000))"

definition bps_to_fee :: "u32 \<Rightarrow> f64" where
  "bps_to_fee fee_bps = f_div (f64_of_nat (unat fee_bps)) (Fin 10000)"

definition estimate_swap_output :: "u64 \<Rightarrow> u64 \<Rightarrow> u64 \<Rightarrow> f64 \<Rightarrow> u64 client_result" where
  "estimate_swap_output input_vault_raw output_vault_raw amount_in fee =
     (let ri = (ucast input_vault_raw :: u128);
          ro = (ucast output_vault_raw :: u128);
          a = (ucast amount_in :: u128);
          fee_bps = fee_to_bps fee in
      and_then (div_or_panic (a * 10000) (10000 + fee_bps)) (\<lambda>a_after_fee.
      let denom = ri + a_after_fee in
      if denom = 0 then Ok 0
      else and_then (div_or_panic (ro * a_after_fee) denom) (\<lambda>out. Ok (ucast out))))"

definition checked_estimate_swap_output :: "u64 \<Rightarrow> u64 \<Rightarrow> u64 \<Rightarrow> u32 \<Rightarrow> u64 option" where
  "checked_estimate_swap_output input_vault_raw output_vault_raw amount_in fee_bps =
     (let ri = (ucast input_vault_raw :: u128);
          ro = (ucast output_vault_raw :: u128);
          a = (ucast amount_in :: u128) in
      if a = 0 then Some 0
      else do {
        denom \<leftarrow> checked_add 10000 (ucast fee_bps);
        num \<leftarrow> checked_mul a 10000;
        effective \<leftarrow> checked_div num denom;
        if effective = 0 then None
        else do {
          numerator \<leftarrow> checked_mul ro effective;
          denominator \<leftarrow> checked_add ri effective;
          if denominator = 0 then None
          else do {
            out \<leftarrow> checked_div numerator denominator;
            if out = 0 then None else Some (ucast out)
          }
        }
      })"

definition estimate_pumpswap_buy_output :: "u64 \<Rightarrow> u64 \<Rightarrow> u64 \<Rightarrow> u32 \<Rightarrow> u64 client_result" where
  "estimate_pumpswap_buy_output quote_amount_in quote_reserves base_reserves fee_bps =
     estimate_swap_output quote_reserves base_reserves quote_amount_in (bps_to_fee fee_bps)"

definition estimate_pumpswap_sell_output :: "u64 \<Rightarrow> u64 \<Rightarrow> u64 \<Rightarrow> u32 \<Rightarrow> u64 client_result" where
  "estimate_pumpswap_sell_output base_amount_in base_reserves quote_reserves fee_bps =
     estimate_swap_output base_reserves quote_reserves base_amount_in (bps_to_fee fee_bps)"

definition checked_pumpswap_buy_output :: "u64 \<Rightarrow> u64 \<Rightarrow> u64 \<Rightarrow> u32 \<Rightarrow> u64 option" where
  "checked_pumpswap_buy_output quote_amount_in quote_reserves base_reserves fee_bps =
     checked_estimate_swap_output quote_reserves base_reserves quote_amount_in fee_bps"

definition checked_pumpswap_sell_output :: "u64 \<Rightarrow> u64 \<Rightarrow> u64 \<Rightarrow> u32 \<Rightarrow> u64 option" where
  "checked_pumpswap_sell_output base_amount_in base_reserves quote_reserves fee_bps =
     checked_estimate_swap_output base_reserves quote_reserves base_amount_in fee_bps"

definition estimate_pumpfun_buy_output :: "u64 \<Rightarrow> u64 \<Rightarrow> u64 \<Rightarrow> u32 \<Rightarrow> u64 client_result" where
  "estimate_pumpfun_buy_output amount_in_sol virtual_sol_reserves virtual_token_reserves fee_bps =
     estimate_swap_output virtual_sol_reserves virtual_token_reserves amount_in_sol (bps_to_fee fee_bps)"

definition estimate_pumpfun_sell_output :: "u64 \<Rightarrow> u64 \<Rightarrow> u64 \<Rightarrow> u32 \<Rightarrow> u64 client_result" where
  "estimate_pumpfun_sell_output amount_in_tokens virtual_sol_reserves virtual_token_reserves fee_bps =
     estimate_swap_output virtual_token_reserves virtual_sol_reserves amount_in_tokens (bps_to_fee fee_bps)"

section \<open>Fee taken off the input\<close>

definition SWAP_FEE_DENOM :: u128 where
  "SWAP_FEE_DENOM = 1000000"

definition CPMM_DEFAULT_TRADE_FEE_RATE :: u64 where
  "CPMM_DEFAULT_TRADE_FEE_RATE = 2500"

definition checked_cp_swap_output :: "u64 \<Rightarrow> u64 \<Rightarrow> u64 \<Rightarrow> u64 \<Rightarrow> u64 option" where
  "checked_cp_swap_output reserve_in reserve_out amount_in fee_rate =
     (if amount_in = 0 \<or> reserve_out = 0 then Some 0
      else
        (let ri = (ucast reserve_in :: u128);
             ro = (ucast reserve_out :: u128);
             a = (ucast amount_in :: u128);
             rate = (ucast fee_rate :: u128) in
         do {
           product \<leftarrow> checked_sub SWAP_FEE_DENOM rate;
           numerator \<leftarrow> checked_mul a product;
           amount_after \<leftarrow> checked_div numerator SWAP_FEE_DENOM;
           if amount_after = 0 then None
           else do {
             num \<leftarrow> checked_mul ro amount_after;
             den \<leftarrow> checked_add ri amount_after;
             if den = 0 then None
             else do {
               out \<leftarrow> checked_div num den;
               if out = 0 then None else Some (ucast out)
             }
           }
         }))"

section \<open>The DLMM walk\<close>

record dlmm_estimate =
  de_out :: u64
  de_bins_consumed :: u32
  de_bins_total :: u32
  de_consumed_bins :: "(int \<times> u64 \<times> u64) list"

definition bin_reserves :: "bool \<Rightarrow> dlmm_bin \<Rightarrow> u128 \<times> u128" where
  "bin_reserves is_x_to_y bin =
     (if is_x_to_y then (ucast (db_amount_x bin), ucast (db_amount_y bin))
      else (ucast (db_amount_y bin), ucast (db_amount_x bin)))"

text \<open>The loop; its state is \<open>remaining_in\<close>, \<open>total_out\<close>, \<open>bins_consumed\<close> and \<open>consumed_bins\<close>.\<close>

fun fill_bins :: "bool \<Rightarrow> dlmm_bin list \<Rightarrow> u128 \<Rightarrow> u128 \<Rightarrow> u32 \<Rightarrow> (int \<times> u64 \<times> u64) list
    \<Rightarrow> u128 \<times> u32 \<times> (int \<times> u64 \<times> u64) list" where
  "fill_bins d [] remaining_in total_out bins_consumed consumed_bins =
     (total_out, bins_consumed, consumed_bins)"
| "fill_bins d (bin # rest) remaining_in total_out bins_consumed consumed_bins =
     (let (reserve_in, reserve_out) = bin_reserves d bin in
      if reserve_in = 0 \<or> reserve_out = 0
      then fill_bins d rest remaining_in total_out bins_consumed consumed_bins
      else
        (let bins_consumed = bins_consumed + 1;
             consumed_bins = (if length consumed_bins < 3
               then consumed_bins @ [(db_bin_id bin, ucast reserve_in, ucast reserve_out)]
               else consumed_bins) in
         if remaining_in \<le> reserve_in
         then (total_out + reserve_out * remaining_in div reserve_in, bins_consumed, consumed_bins)
         else fill_bins d rest (remaining_in - reserve_in) (total_out + reserve_out)
                bins_consumed consumed_bins))"

definition active_bins :: "bool \<Rightarrow> dlmm_bin list \<Rightarrow> dlmm_bin list" where
  "active_bins is_x_to_y bins =
     (let active = filter (\<lambda>b. db_amount_x b > 0 \<or> db_amount_y b > 0) bins in
      if is_x_to_y then sort_key (\<lambda>b. - db_bin_id b) active else sort_key db_bin_id active)"

definition dlmm_after_fee :: "u64 \<Rightarrow> f64 \<Rightarrow> u64" where
  "dlmm_after_fee amount_in fee =
     ucast ((ucast amount_in :: u128) * (10000 - fee_to_bps fee) div 10000)"

definition estimate_dlmm_swap_output_full :: "dlmm_bin list \<Rightarrow> u64 \<Rightarrow> bool \<Rightarrow> f64 \<Rightarrow> dlmm_estimate" where
  "estimate_dlmm_swap_output_full bins amount_in is_x_to_y fee =
     (let amount_after_fee = dlmm_after_fee amount_in fee in
      if bins = [] \<or> amount_after_fee = 0
      then \<lparr>de_out = 0, de_bins_consumed = 0, de_bins_total = 0, de_consumed_bins = []\<rparr>
      else
        (let active = active_bins is_x_to_y bins;
             (total_out, bins_consumed, consumed_bins) =
               fill_bins is_x_to_y active (ucast amount_after_fee) 0 0 [] in
         \<lparr>de_out = ucast total_out, de_bins_consumed = bins_consumed,
          de_bins_total = of_nat (length active), de_consumed_bins = consumed_bins\<rparr>))"

definition client_dlmm_estimate :: "dlmm_bin list \<Rightarrow> u64 \<Rightarrow> bool \<Rightarrow> f64 \<Rightarrow> u64" where
  "client_dlmm_estimate bins amount_in is_x_to_y fee =
     de_out (estimate_dlmm_swap_output_full bins amount_in is_x_to_y fee)"

section \<open>Slippage, cost and lamports\<close>

definition compute_effective_slippage :: "u64 \<Rightarrow> u64 \<Rightarrow> u32 \<Rightarrow> f64" where
  "compute_effective_slippage amount_in reserve_in base_tolerance_bps =
     (let base = f_div (f64_of_nat (unat base_tolerance_bps)) (Fin 10000) in
      if reserve_in = 0 then f_sub (Fin 1) base
      else
        (let impact_ratio = f_div (f64_of_u64 amount_in) (f64_of_u64 reserve_in);
             multiplier = (if f_lt (to_f64 (1 / 100)) impact_ratio then Fin (5 / 2)
               else if f_lt (to_f64 (1 / 1000)) impact_ratio then Fin (3 / 2)
               else Fin 1) in
         f_sub (Fin 1) (f_mul base multiplier)))"

text \<open>\<open>(amount as f64 * slippage) as u64\<close>, the minimum output of every builder.\<close>

definition min_out_of :: "u64 \<Rightarrow> f64 \<Rightarrow> u64" where
  "min_out_of amount slippage = f64_as_u64 (f_mul (f64_of_u64 amount) slippage)"

definition compute_cu_cost_sol :: "u64 \<Rightarrow> u32 \<Rightarrow> f64" where
  "compute_cu_cost_sol compute_unit_price_micro_lamports compute_unit_limit =
     f_add (f_div (f_div
         (f_mul (f64_of_u64 compute_unit_price_micro_lamports) (f64_of_nat (unat compute_unit_limit)))
         (Fin 1000000)) (Fin 1000000000))
       (to_f64 (5 / 1000000))"

definition sol_to_lamports :: "f64 \<Rightarrow> u64" where
  "sol_to_lamports sol =
     (let lamports = f_mul sol (Fin 1000000000) in
      if f_lt lamports (Fin 0) then 0
      else if f_lt (f64_of_u64 (- 1)) lamports then - 1
      else f64_as_u64 lamports)"

definition compute_fee_bps :: "u16 \<Rightarrow> u16 \<Rightarrow> u32" where
  "compute_fee_bps bin_step base_factor =
     (if base_factor = 0 then 100 else max ((ucast bin_step * 10000) div ucast base_factor) 1)"

text \<open>\<open>parse_token_amount\<close> of \<open>pool_cache/types.rs\<close>.\<close>

definition parse_token_amount :: "byte list \<Rightarrow> u64 option" where
  "parse_token_amount data =
     (if length data < 72 then None else Some (u64_from_le (take 8 (drop 64 data))))"

end
