(* ===== verification/Bot_Types.thy ===== *)
theory Bot_Types
  imports Client_Pricing Client_Transactions
begin

text \<open>
  The data the bot's tasks exchange: venues and opportunities (\<open>arbitrage/types.rs\<close>), and the part
  of the configuration the code reads with its validation (\<open>config/types.rs\<close>, \<open>config/mod.rs\<close>).
\<close>

section \<open>Comparisons of floating point numbers\<close>

definition f_le :: "f64 \<Rightarrow> f64 \<Rightarrow> bool" where
  "f_le x y \<longleftrightarrow> f_lt x y \<or> (x = y \<and> x \<noteq> NaN)"

lemma f_le_Fin [simp]: "f_le (Fin a) (Fin b) \<longleftrightarrow> a \<le> b"
  by (auto simp: f_le_def)

lemma f_le_NaN [simp]: "\<not> f_le NaN x" "\<not> f_le x NaN" "\<not> f_lt NaN x" "\<not> f_lt x NaN"
  by (cases x; simp add: f_le_def)+

lemma f_lt_irrefl [simp]: "\<not> f_lt x x"
  by (cases x) auto

lemma f_lt_trans: "f_lt x y \<Longrightarrow> f_lt y z \<Longrightarrow> f_lt x z"
  by (cases x; cases y; cases z) auto

lemma f_not_lt: "\<not> f_lt x y \<Longrightarrow> x \<noteq> NaN \<Longrightarrow> y \<noteq> NaN \<Longrightarrow> f_le y x"
  by (cases x; cases y) (auto simp: f_le_def)

lemma f_le_not_lt: "f_le x y \<Longrightarrow> \<not> f_lt y x"
  by (cases x; cases y) (auto simp: f_le_def)

section \<open>Venues and opportunities\<close>

datatype venue = PumpSwapAmm | MeteoraDlmm | RaydiumAmmv4 | RaydiumCpmm | OrcaWhirlpool

fun venue_name :: "venue \<Rightarrow> string" where
  "venue_name PumpSwapAmm = ''PumpSwap AMM''"
| "venue_name MeteoraDlmm = ''Meteora DLMM''"
| "venue_name RaydiumAmmv4 = ''Raydium AMMv4''"
| "venue_name RaydiumCpmm = ''Raydium CPMM''"
| "venue_name OrcaWhirlpool = ''Orca Whirlpool''"

lemma venue_name_inj: "venue_name v = venue_name w \<longleftrightarrow> v = w"
  by (cases v; cases w) simp_all

record opportunity =
  op_signature :: string
  op_slot :: u64
  op_token_mint :: string
  op_buy_venue :: venue
  op_sell_venue :: venue
  op_buy_price_sol :: f64
  op_sell_price_sol :: f64
  op_price_diff_bps :: u32
  op_investment_sol :: f64
  op_expected_profit_sol :: f64
  op_net_profit_sol :: f64
  op_confidence :: f64
  op_dlmm_fee_bps :: u32

text \<open>\<open>is_opportunity_fresh\<close>; \<open>stream_slot\<close> is the latest slot of the gRPC cache, zero without one.\<close>

definition is_opportunity_fresh :: "u64 \<Rightarrow> u64 \<Rightarrow> u64 \<Rightarrow> u64 \<Rightarrow> bool" where
  "is_opportunity_fresh stream_slot snapshot_slot current_slot max_age \<longleftrightarrow>
     (if snapshot_slot = 0 \<or> current_slot = 0 then False
      else if 0 < stream_slot then True
      else sat_sub current_slot snapshot_slot \<le> max_age)"

lemma fresh_without_stream:
  "is_opportunity_fresh 0 s c m \<longleftrightarrow> s \<noteq> 0 \<and> c \<noteq> 0 \<and> unat c \<le> unat s + unat m"
proof -
  have "c - s \<le> m \<longleftrightarrow> unat c \<le> unat s + unat m" if "s \<le> c"
    using that by (simp add: word_le_nat_alt unat_sub_if' le_diff_conv add.commute)
  then show ?thesis
    by (auto simp: is_opportunity_fresh_def sat_sub_def not_less)
       (simp add: word_less_nat_alt)
qed

section \<open>Configuration\<close>

text \<open>The records of \<open>config/types.rs\<close>, in the order of their fields.\<close>

record bot_config =
  bt_name :: string
  bt_mode :: string
  bt_dry_run :: bool

record solana_config =
  sl_rpc_url :: string
  sl_ws_url :: string
  sl_commitment :: string
  sl_rpc_timeout_secs :: u64
  sl_proxy_url :: "string option"
  sl_fallback_rpc_urls :: "string list"
  sl_sender_enabled :: bool
  sl_sender_swqos_only :: bool
  sl_sender_endpoint :: string

record blacklist_config =
  bl_tokens :: "string list"
  bl_wallets :: "string list"
  bl_programs :: "string list"

record risk_config =
  rc_min_profit_threshold_sol :: f64
  rc_max_single_investment_sol :: f64
  rc_max_daily_loss_sol :: f64
  rc_slippage_tolerance_bps :: u32
  rc_max_tip_sol :: f64
  rc_blacklist :: blacklist_config

record dex_config =
  dc_enabled :: "string list"
  dc_min_pool_tvl_sol :: f64
  dc_pool_fee_bps :: u32
  dc_pumpfun_fee_bps :: u32
  dc_pumpswap_fee_bps :: u32

record scanner_config =
  sc_scan_interval_ms :: u64
  sc_pool_refresh_interval_secs :: u64
  sc_max_pools_per_scan :: nat
  sc_min_price_diff_bps :: u32
  sc_min_pool_liquidity_sol :: f64
  sc_compute_unit_price_micro_lamports :: u64
  sc_compute_unit_limit :: u32
  sc_profit_safety_factor :: f64
  sc_cu_fee_buffer_pct :: u32
  sc_ata_rent_reserve_sol :: f64
  sc_skip_reverify :: bool
  sc_max_pool_share :: f64
  sc_max_absolute_sol_out :: f64
  sc_active_scan_enabled :: bool

definition scanner_config_default :: scanner_config where
  "scanner_config_default =
     \<lparr>sc_scan_interval_ms = 1000, sc_pool_refresh_interval_secs = 120, sc_max_pools_per_scan = 50,
      sc_min_price_diff_bps = 30, sc_min_pool_liquidity_sol = Fin 5,
      sc_compute_unit_price_micro_lamports = 50000, sc_compute_unit_limit = 600000,
      sc_profit_safety_factor = to_f64 (85 / 100), sc_cu_fee_buffer_pct = 20,
      sc_ata_rent_reserve_sol = to_f64 (5 / 1000), sc_skip_reverify = False,
      sc_max_pool_share = to_f64 (2 / 100), sc_max_absolute_sol_out = Fin 2,
      sc_active_scan_enabled = False\<rparr>"

record simulator_config =
  sm_enabled :: bool
  sm_wallet_pubkey :: string

record wallet_config =
  wc_keypair_path :: "string option"
  wc_nonce_account :: "string option"

record arbitrage_config =
  ab_pumpfun_fee_recipient :: string

definition arbitrage_config_default :: arbitrage_config where
  "arbitrage_config_default =
     \<lparr>ab_pumpfun_fee_recipient = ''CebN5WGQ4jvEPvsVU4EoHEpgT1mKQ7AFUbxmAhvFUWrQ''\<rparr>"

record routing_config =
  er_use_onchain_program :: bool
  er_onchain_traffic_pct :: byte
  er_onchain_program_id :: string
  er_onchain_arb_alt :: "string option"

definition routing_config_default :: routing_config where
  "routing_config_default =
     \<lparr>er_use_onchain_program = False, er_onchain_traffic_pct = 0,
      er_onchain_program_id = ''YOUR_PROGRAM_ID'', er_onchain_arb_alt = None\<rparr>"

record grpc_config =
  gc_endpoint :: string
  gc_x_token :: string

record app_config =
  ac_bot :: bot_config
  ac_solana :: solana_config
  ac_risk :: risk_config
  ac_dex :: dex_config
  ac_simulator :: simulator_config
  ac_metrics_port :: u16
  ac_wallet :: wallet_config
  ac_arbitrage :: arbitrage_config
  ac_scanner :: scanner_config
  ac_routing :: routing_config
  ac_grpc :: grpc_config

abbreviation ac_rpc_url :: "app_config \<Rightarrow> string" where
  "ac_rpc_url cfg \<equiv> sl_rpc_url (ac_solana cfg)"

abbreviation ac_ws_url :: "app_config \<Rightarrow> string" where
  "ac_ws_url cfg \<equiv> sl_ws_url (ac_solana cfg)"

abbreviation ac_dry_run :: "app_config \<Rightarrow> bool" where
  "ac_dry_run cfg \<equiv> bt_dry_run (ac_bot cfg)"

abbreviation ac_sender_enabled :: "app_config \<Rightarrow> bool" where
  "ac_sender_enabled cfg \<equiv> sl_sender_enabled (ac_solana cfg)"

abbreviation ac_simulator_enabled :: "app_config \<Rightarrow> bool" where
  "ac_simulator_enabled cfg \<equiv> sm_enabled (ac_simulator cfg)"

text \<open>\<open>validate\<close>: the first violated rule.\<close>

definition config_validate :: "app_config \<Rightarrow> unit client_result" where
  "config_validate cfg =
     run_checks
       [fail_if (ac_rpc_url cfg = '''') (Failed ''solana.rpc_url is empty''),
        fail_if (ac_ws_url cfg = '''') (Failed ''solana.ws_url is empty''),
        fail_if (f_le (rc_min_profit_threshold_sol (ac_risk cfg)) (Fin 0)) (Failed ''risk.min_profit_threshold_sol must be > 0''),
        fail_if (f_le (rc_max_single_investment_sol (ac_risk cfg)) (Fin 0)) (Failed ''risk.max_single_investment_sol must be > 0''),
        fail_if (f_le (rc_max_daily_loss_sol (ac_risk cfg)) (Fin 0)) (Failed ''risk.max_daily_loss_sol must be > 0''),
        fail_if (f_le (rc_max_tip_sol (ac_risk cfg)) (Fin 0)) (Failed ''risk.max_tip_sol must be > 0''),
        fail_if (10000 < dc_pool_fee_bps (ac_dex cfg)) (Failed ''dex.pool_fee_bps must be <= 10000''),
        fail_if (10000 < dc_pumpfun_fee_bps (ac_dex cfg)) (Failed ''dex.pumpfun_fee_bps must be <= 10000''),
        fail_if (10000 < dc_pumpswap_fee_bps (ac_dex cfg)) (Failed ''dex.pumpswap_fee_bps must be <= 10000''),
        fail_if (1000 < sc_cu_fee_buffer_pct (ac_scanner cfg)) (Failed ''scanner.cu_fee_buffer_pct must be <= 1000'')]"

lemma config_validate_Ok:
  "config_validate cfg = Ok () \<longleftrightarrow>
     ac_rpc_url cfg \<noteq> '''' \<and> ac_ws_url cfg \<noteq> '''' \<and>
     \<not> f_le (rc_min_profit_threshold_sol (ac_risk cfg)) (Fin 0) \<and>
     \<not> f_le (rc_max_single_investment_sol (ac_risk cfg)) (Fin 0) \<and>
     \<not> f_le (rc_max_daily_loss_sol (ac_risk cfg)) (Fin 0) \<and>
     \<not> f_le (rc_max_tip_sol (ac_risk cfg)) (Fin 0) \<and>
     dc_pool_fee_bps (ac_dex cfg) \<le> 10000 \<and> dc_pumpfun_fee_bps (ac_dex cfg) \<le> 10000 \<and>
     dc_pumpswap_fee_bps (ac_dex cfg) \<le> 10000 \<and> sc_cu_fee_buffer_pct (ac_scanner cfg) \<le> 1000"
  by (simp add: config_validate_def outcome_simps not_less)

text \<open>\<open>should_use_onchain_program\<close> of \<open>executor/atomic/mod.rs\<close>: the canary reads one byte of the mint.\<close>

definition should_use_onchain_program :: "string \<Rightarrow> routing_config \<Rightarrow> bool" where
  "should_use_onchain_program token_mint cfg =
     (if \<not> er_use_onchain_program cfg then False
      else if er_onchain_arb_alt cfg = None then False
      else
        (let pct = er_onchain_traffic_pct cfg in
         if pct = 0 then False
         else if 100 \<le> pct then True
         else
           (let b = (case token_mint of [] \<Rightarrow> (0 :: nat) | c # _ \<Rightarrow> of_char c) in
            b mod 100 < unat pct)))"

end
