(* ===== verification/Bot_Risk.thy ===== *)
theory Bot_Risk
  imports Bot_Types "HOL-Library.Multiset"
begin

text \<open>
  Runtime risk control: the tracker of \<open>risk/mod.rs\<close> as a state machine. Time is explicit: an instant is a number of
  nanoseconds, a date a number of days. The texts of the breaker's reason are kept as the values
  that are formatted into them.
\<close>

section \<open>The tracker\<close>

definition BREAKER_COOLDOWN_SECS :: nat where
  "BREAKER_COOLDOWN_SECS = 1800"

datatype breaker_reason = LimitProjected f64 | LimitAfterTrade f64 f64

record risk_tracker =
  rt_current_date :: int
  rt_daily_pnl_sol :: f64
  rt_trades_attempted :: u64
  rt_trades_pending :: u64
  rt_trades_succeeded :: u64
  rt_trades_failed_onchain :: u64
  rt_total_net_profit_sol :: f64
  rt_cumulative_failed_fee_sol :: f64
  rt_circuit_breaker :: bool
  rt_breaker_reason :: "breaker_reason option"
  rt_breaker_triggered_at :: "nat option"

definition risk_new :: "int \<Rightarrow> risk_tracker" where
  "risk_new today =
     \<lparr>rt_current_date = today, rt_daily_pnl_sol = Fin 0, rt_trades_attempted = 0, rt_trades_pending = 0,
      rt_trades_succeeded = 0, rt_trades_failed_onchain = 0, rt_total_net_profit_sol = Fin 0,
      rt_cumulative_failed_fee_sol = Fin 0, rt_circuit_breaker = False, rt_breaker_reason = None,
      rt_breaker_triggered_at = None\<rparr>"

text \<open>\<open>Instant::elapsed().as_secs()\<close>: whole seconds, zero for an instant in the future.\<close>

definition elapsed_secs :: "nat \<Rightarrow> nat \<Rightarrow> nat" where
  "elapsed_secs now since = (now - since) div 10 ^ 9"

text \<open>\<open>check_limits\<close>: the breaker with its cooldown, the change of day, then the four limits. The
  breaker part leaves with an answer (\<open>Some False\<close>) or goes on with a new state.\<close>

definition breaker_gate :: "nat \<Rightarrow> risk_tracker \<Rightarrow> risk_tracker option" where
  "breaker_gate now st =
     (if rt_circuit_breaker st
      then (case rt_breaker_triggered_at st of
              Some triggered \<Rightarrow>
                if BREAKER_COOLDOWN_SECS \<le> elapsed_secs now triggered
                then Some (st\<lparr>rt_circuit_breaker := False, rt_breaker_reason := None,
                       rt_breaker_triggered_at := None, rt_daily_pnl_sol := Fin 0\<rparr>)
                else None
            | None \<Rightarrow> None)
      else Some st)"

definition roll_day :: "int \<Rightarrow> risk_tracker \<Rightarrow> risk_tracker" where
  "roll_day today st =
     (if today \<noteq> rt_current_date st
      then st\<lparr>rt_current_date := today, rt_daily_pnl_sol := Fin 0, rt_trades_attempted := 0,
             rt_trades_pending := 0, rt_trades_succeeded := 0, rt_trades_failed_onchain := 0,
             rt_cumulative_failed_fee_sol := Fin 0\<rparr>
      else st)"

definition check_limits :: "nat \<Rightarrow> int \<Rightarrow> opportunity \<Rightarrow> risk_config \<Rightarrow> risk_tracker \<Rightarrow> bool \<times> risk_tracker" where
  "check_limits now today opp risk st =
     (case breaker_gate now st of
        None \<Rightarrow> (False, st)
      | Some st1 \<Rightarrow>
          (let st2 = roll_day today st1 in
           if f_lt (op_net_profit_sol opp) (rc_min_profit_threshold_sol risk) then (False, st2)
           else if f_lt (rc_max_single_investment_sol risk) (op_investment_sol opp) then (False, st2)
           else if f_lt (f_add (rt_daily_pnl_sol st2) (op_net_profit_sol opp)) (f_neg (rc_max_daily_loss_sol risk))
           then (False, st2\<lparr>rt_circuit_breaker := True, rt_breaker_triggered_at := Some now,
                   rt_breaker_reason := Some (LimitProjected (rc_max_daily_loss_sol risk))\<rparr>)
           else (True, st2)))"

definition record_submitted :: "risk_tracker \<Rightarrow> risk_tracker" where
  "record_submitted st =
     st\<lparr>rt_trades_attempted := rt_trades_attempted st + 1, rt_trades_pending := rt_trades_pending st + 1\<rparr>"

definition check_circuit_breaker :: "nat \<Rightarrow> risk_config \<Rightarrow> risk_tracker \<Rightarrow> risk_tracker" where
  "check_circuit_breaker now risk st =
     (if f_lt (rt_daily_pnl_sol st) (f_neg (rc_max_daily_loss_sol risk))
      then st\<lparr>rt_circuit_breaker := True, rt_breaker_triggered_at := Some now,
             rt_breaker_reason := Some (LimitAfterTrade (rt_daily_pnl_sol st) (rc_max_daily_loss_sol risk))\<rparr>
      else st)"

definition record_confirmation :: "nat \<Rightarrow> f64 \<Rightarrow> bool \<Rightarrow> risk_config \<Rightarrow> risk_tracker \<Rightarrow> risk_tracker" where
  "record_confirmation now actual_pnl_sol succeeded risk st =
     (let st1 = st\<lparr>rt_trades_pending := sat_sub (rt_trades_pending st) 1\<rparr>;
          st2 = (if succeeded
                 then st1\<lparr>rt_trades_succeeded := rt_trades_succeeded st1 + 1\<rparr>
                 else st1\<lparr>rt_trades_failed_onchain := rt_trades_failed_onchain st1 + 1,
                          rt_cumulative_failed_fee_sol :=
                            f_add (rt_cumulative_failed_fee_sol st1) (f_max (f_neg actual_pnl_sol) (Fin 0))\<rparr>);
          st3 = st2\<lparr>rt_daily_pnl_sol := f_add (rt_daily_pnl_sol st2) actual_pnl_sol,
                    rt_total_net_profit_sol := f_add (rt_total_net_profit_sol st2) actual_pnl_sol\<rparr> in
      check_circuit_breaker now risk st3)"

definition is_blocked :: "risk_tracker \<Rightarrow> bool" where
  "is_blocked st = rt_circuit_breaker st"

subsection \<open>Steps and runs\<close>

text \<open>What the main loop and the confirmation task do to the tracker, with the time of the event.
  \<open>SubmitFailed\<close> is the counter the main loop bumps when no endpoint takes the transaction.\<close>

datatype risk_event =
    Check nat int opportunity
  | Submitted
  | SubmitFailed
  | Confirmed nat f64 bool

inductive risk_step :: "risk_config \<Rightarrow> risk_tracker \<Rightarrow> risk_event \<Rightarrow> bool \<Rightarrow> risk_tracker \<Rightarrow> bool" for risk where
  check: "check_limits now today opp risk st = (ok, st') \<Longrightarrow> risk_step risk st (Check now today opp) ok st'"
| submitted: "risk_step risk st Submitted False (record_submitted st)"
| failed: "risk_step risk st SubmitFailed False (st\<lparr>rt_trades_attempted := rt_trades_attempted st + 1\<rparr>)"
| confirmed: "risk_step risk st (Confirmed now pnl ok) False (record_confirmation now pnl ok risk st)"

inductive_cases risk_stepE: "risk_step risk st e ok st'"
inductive_simps risk_step_simps [simp]:
  "risk_step risk st (Check now today opp) ok st'"
  "risk_step risk st Submitted ok st'"
  "risk_step risk st SubmitFailed ok st'"
  "risk_step risk st (Confirmed now pnl b) ok st'"

text \<open>A run lists each event with the answer it got; only checks are ever answered with true.\<close>

inductive risk_run :: "risk_config \<Rightarrow> risk_tracker \<Rightarrow> (risk_event \<times> bool) list \<Rightarrow> risk_tracker \<Rightarrow> bool" for risk where
  stop: "risk_run risk st [] st"
| go: "risk_step risk st e ok st' \<Longrightarrow> risk_run risk st' es st'' \<Longrightarrow> risk_run risk st ((e, ok) # es) st''"

definition event_time :: "risk_event \<Rightarrow> nat option" where
  "event_time e = (case e of Check t _ _ \<Rightarrow> Some t | Confirmed t _ _ \<Rightarrow> Some t | _ \<Rightarrow> None)"

subsection \<open>The breaker\<close>

text \<open>The events that trip the breaker, whether or not it is tripped already: a settled trade after which the
  day's result is below the limit, and a check that passes the other limits but whose net profit would
  take the result there. The result a check sees is zero after the cooldown and on a new day.\<close>

definition trips :: "risk_config \<Rightarrow> risk_tracker \<Rightarrow> risk_event \<Rightarrow> bool" where
  "trips risk st e =
     (case e of
        Confirmed now pnl ok \<Rightarrow> f_lt (f_add (rt_daily_pnl_sol st) pnl) (f_neg (rc_max_daily_loss_sol risk))
      | Check now today opp \<Rightarrow>
          (rt_circuit_breaker st \<longrightarrow>
             (\<exists>t. rt_breaker_triggered_at st = Some t \<and> t + 1800 * 10 ^ 9 \<le> now)) \<and>
          \<not> f_lt (op_net_profit_sol opp) (rc_min_profit_threshold_sol risk) \<and>
          \<not> f_lt (rc_max_single_investment_sol risk) (op_investment_sol opp) \<and>
          f_lt (f_add (if rt_circuit_breaker st \<or> today \<noteq> rt_current_date st then Fin 0 else rt_daily_pnl_sol st)
              (op_net_profit_sol opp)) (f_neg (rc_max_daily_loss_sol risk))
      | _ \<Rightarrow> False)"

text \<open>A run with the times of the events that trip the breaker in it; every run is one.\<close>

inductive tripping_run :: "risk_config \<Rightarrow> risk_tracker \<Rightarrow> (risk_event \<times> bool) list \<Rightarrow> nat list \<Rightarrow> risk_tracker \<Rightarrow> bool"
  for risk where
  stop: "tripping_run risk st [] [] st"
| trip: "risk_step risk st e ok st' \<Longrightarrow> trips risk st e \<Longrightarrow> event_time e = Some t \<Longrightarrow>
    tripping_run risk st' es ts st'' \<Longrightarrow> tripping_run risk st ((e, ok) # es) (t # ts) st''"
| quiet: "risk_step risk st e ok st' \<Longrightarrow> \<not> trips risk st e \<Longrightarrow>
    tripping_run risk st' es ts st'' \<Longrightarrow> tripping_run risk st ((e, ok) # es) ts st''"

definition run_times :: "(risk_event \<times> bool) list \<Rightarrow> nat list" where
  "run_times es = List.map_filter (\<lambda>(e, ok). event_time e) es"

lemma trips_timed: "trips risk st e \<Longrightarrow> \<exists>t. event_time e = Some t"
  by (auto simp: trips_def event_time_def split: risk_event.splits)

lemma every_run_trips: "risk_run risk st es st' \<Longrightarrow> \<exists>ts. tripping_run risk st es ts st'"
  by (induction rule: risk_run.induct) (blast intro: tripping_run.intros dest: trips_timed)+

lemma elapsed_cooldown: "BREAKER_COOLDOWN_SECS \<le> elapsed_secs now t \<longleftrightarrow> t + 1800 * 10 ^ 9 \<le> now"
  by (auto simp: elapsed_secs_def BREAKER_COOLDOWN_SECS_def less_eq_div_iff_mult_less_eq)

text \<open>Between two events: the breaker is tripped with the time of the last trip, or that is thirty minutes
  ago, for a clock that has come to \<open>now\<close>.\<close>

definition breaker_inv :: "nat option \<Rightarrow> nat \<Rightarrow> risk_tracker \<Rightarrow> bool" where
  "breaker_inv trip now st \<longleftrightarrow>
     (if rt_circuit_breaker st then trip \<noteq> None \<and> rt_breaker_triggered_at st = trip
      else (\<forall>t. trip = Some t \<longrightarrow> t + 1800 * 10 ^ 9 \<le> now))"

lemma breaker_inv_mono: "breaker_inv trip now st \<Longrightarrow> now \<le> now' \<Longrightarrow> breaker_inv trip now' st"
  by (auto simp: breaker_inv_def split: if_splits intro: order_trans)

text \<open>An event that trips the breaker notes its own time, also where an earlier one is noted; no other event does.\<close>

lemma trip_step:
  assumes "risk_step risk st e ok st'" and "trips risk st e" and "event_time e = Some t"
  shows "breaker_inv (Some t) t st'"
  using assms
  by cases (auto simp: trips_def event_time_def check_limits_def breaker_gate_def roll_day_def elapsed_cooldown
      breaker_inv_def record_confirmation_def check_circuit_breaker_def Let_def split: if_splits option.splits)

lemma quiet_step:
  assumes "risk_step risk st e ok st'" and "\<not> trips risk st e" and "breaker_inv trip now st"
    and "\<forall>t. event_time e = Some t \<longrightarrow> t = now"
  shows "breaker_inv trip now st'"
  using assms
  by cases (auto simp: trips_def event_time_def check_limits_def breaker_gate_def roll_day_def elapsed_cooldown
      breaker_inv_def record_submitted_def record_confirmation_def check_circuit_breaker_def Let_def
      split: if_splits option.splits)

lemma run_breaker_inv:
  assumes "tripping_run risk st es ts st'" and "breaker_inv trip now st" and "sorted (now # run_times es)"
  shows "breaker_inv (if ts = [] then trip else Some (last ts)) (last (now # run_times es)) st'"
  using assms
proof (induction arbitrary: trip now rule: tripping_run.induct)
  case (trip st e ok st' t es ts st'')
  have "run_times ((e, ok) # es) = t # run_times es" using trip.hyps(3) by (simp add: run_times_def map_filter_simps)
  then show ?case
    using trip.IH [OF trip_step [OF trip.hyps(1-3)]] trip.prems(2) by (auto split: if_splits)
next
  case (quiet st e ok st' es ts st'')
  show ?case
  proof (cases "event_time e")
    case None
    then have "run_times ((e, ok) # es) = run_times es" by (simp add: run_times_def map_filter_simps)
    then show ?thesis using quiet.IH [OF quiet_step [OF quiet.hyps(1,2) quiet.prems(1)]] quiet.prems(2) None by simp
  next
    case (Some t)
    then have r: "run_times ((e, ok) # es) = t # run_times es" by (simp add: run_times_def map_filter_simps)
    then have "breaker_inv trip t st" using quiet.prems by (auto intro: breaker_inv_mono)
    then show ?thesis
      using quiet.IH [OF quiet_step [OF quiet.hyps(1,2)]] quiet.prems(2) Some by (auto simp: r split: if_splits)
  qed
qed (simp add: run_times_def map_filter_simps)

text \<open>A tripped breaker answers no for thirty minutes, and then the limits alone decide.\<close>

lemma tripped_check:
  assumes "rt_circuit_breaker st" "rt_breaker_triggered_at st = Some t"
  shows "fst (check_limits now today opp risk st) \<longleftrightarrow> t + 1800 * 10 ^ 9 \<le> now \<and>
    \<not> f_lt (op_net_profit_sol opp) (rc_min_profit_threshold_sol risk) \<and>
    \<not> f_lt (rc_max_single_investment_sol risk) (op_investment_sol opp) \<and>
    \<not> f_lt (f_add (Fin 0) (op_net_profit_sol opp)) (f_neg (rc_max_daily_loss_sol risk))"
  using assms by (simp add: check_limits_def breaker_gate_def elapsed_cooldown roll_day_def Let_def)

lemma check_limits_True:
  assumes "check_limits now today opp risk st = (True, st')"
  shows "\<not> rt_circuit_breaker st'" "\<not> f_lt (op_net_profit_sol opp) (rc_min_profit_threshold_sol risk)"
    "\<not> f_lt (rc_max_single_investment_sol risk) (op_investment_sol opp)"
    "\<not> f_lt (f_add (rt_daily_pnl_sol st') (op_net_profit_sol opp)) (f_neg (rc_max_daily_loss_sol risk))"
    "rt_current_date st' = today"
  using assms
  by (auto simp: check_limits_def breaker_gate_def roll_day_def Let_def split: option.splits if_splits)

section \<open>Properties\<close>

text \<open>C21: After any run of the tracker from its start, with a clock that does not go back, a check within
  thirty minutes of the last trip is answered no and the breaker is tripped, where a settled loss also
  counts as a trip when the breaker is tripped already. As long as it is tripped, the time noted is that of the
  last trip, and the next check is answered yes exactly when thirty minutes have passed since and the limits
  hold with a daily result of zero.\<close>

theorem breaker_blocks_trading:
  assumes "tripping_run risk (risk_new day) es ts st" and "sorted (run_times es @ [now])"
  shows "(ts \<noteq> [] \<and> now < last ts + 1800 * 10 ^ 9 \<longrightarrow>
      rt_circuit_breaker st \<and> \<not> fst (check_limits now today opp risk st)) \<and>
    (rt_circuit_breaker st \<longrightarrow> ts \<noteq> [] \<and> rt_breaker_triggered_at st = Some (last ts) \<and>
      (fst (check_limits now today opp risk st) \<longleftrightarrow> last ts + 1800 * 10 ^ 9 \<le> now \<and>
         \<not> f_lt (op_net_profit_sol opp) (rc_min_profit_threshold_sol risk) \<and>
         \<not> f_lt (rc_max_single_investment_sol risk) (op_investment_sol opp) \<and>
         \<not> f_lt (f_add (Fin 0) (op_net_profit_sol opp)) (f_neg (rc_max_daily_loss_sol risk))))"
proof -
  have "breaker_inv None 0 (risk_new day)" by (simp add: breaker_inv_def risk_new_def)
  moreover have "sorted (0 # run_times es)" using assms(2) by (simp add: sorted_append)
  ultimately have "breaker_inv (if ts = [] then None else Some (last ts)) (last (0 # run_times es)) st"
    by (rule run_breaker_inv [OF assms(1)])
  moreover have "last (0 # run_times es) \<le> now" using assms(2) by (auto simp: sorted_append)
  ultimately have "breaker_inv (if ts = [] then None else Some (last ts)) now st" by (rule breaker_inv_mono)
  then show ?thesis using tripped_check [of st "last ts"] by (auto simp: breaker_inv_def split: if_splits)
qed

definition demo_risk :: risk_config where
  "demo_risk = \<lparr>rc_min_profit_threshold_sol = Fin 0, rc_max_single_investment_sol = Fin 50,
     rc_max_daily_loss_sol = Fin 10, rc_slippage_tolerance_bps = 100, rc_max_tip_sol = Fin 1,
     rc_blacklist = \<lparr>bl_tokens = [], bl_wallets = [], bl_programs = []\<rparr>\<rparr>"

definition demo_opp :: opportunity where
  "demo_opp = \<lparr>op_signature = ''s'', op_slot = 1, op_token_mint = ''m'', op_buy_venue = PumpSwapAmm,
     op_sell_venue = MeteoraDlmm, op_buy_price_sol = Fin 1, op_sell_price_sol = Fin 2,
     op_price_diff_bps = 100, op_investment_sol = Fin 1, op_expected_profit_sol = Fin 1,
     op_net_profit_sol = Fin 1, op_confidence = Fin 1, op_dlmm_fee_bps = 25\<rparr>"

lemma confirmation_stays_tripped:
  "rt_circuit_breaker st \<Longrightarrow> rt_circuit_breaker (record_confirmation now pnl ok risk st)"
  by (simp add: record_confirmation_def check_circuit_breaker_def Let_def)

text \<open>A loss beyond the limit at second 10, a refused check, and another loss at second 600: half an hour after the
  first trip a check is still refused, half an hour after the second it is not.\<close>

definition two_losses :: "(risk_event \<times> bool) list" where
  "two_losses = [(Confirmed (10 * 10 ^ 9) (Fin (- 16)) False, False), (Check (20 * 10 ^ 9) 0 demo_opp, False),
     (Confirmed (600 * 10 ^ 9) (Fin (- 16)) False, False)]"

lemma two_losses_run: "\<exists>st. tripping_run demo_risk (risk_new 0) two_losses [10 * 10 ^ 9, 600 * 10 ^ 9] st \<and> rt_circuit_breaker st"
proof -
  have r: "to_f64 (- 16) = Fin (- 16)" "to_f64 (- 32) = Fin (- 32)"
    using rnd_representable [OF representable_of_int [of "- 16"]] rnd_representable [OF representable_of_int [of "- 32"]]
    by (simp_all add: to_f64_def)
  let ?l1 = "record_confirmation (10 * 10 ^ 9) (Fin (- 16)) False demo_risk (risk_new 0)"
  let ?l2 = "record_confirmation (600 * 10 ^ 9) (Fin (- 16)) False demo_risk ?l1"
  have l1: "rt_circuit_breaker ?l1" "rt_breaker_triggered_at ?l1 = Some (10 * 10 ^ 9)" "rt_daily_pnl_sol ?l1 = Fin (- 16)"
    by (simp_all add: record_confirmation_def check_circuit_breaker_def risk_new_def demo_risk_def Let_def r)
  have l2: "rt_circuit_breaker ?l2"
    by (rule confirmation_stays_tripped [OF l1(1)])
  have c: "check_limits (20 * 10 ^ 9) 0 demo_opp demo_risk ?l1 = (False, ?l1)"
    using l1 by (simp add: check_limits_def breaker_gate_def elapsed_cooldown)
  have t: "trips demo_risk (risk_new 0) (Confirmed (10 * 10 ^ 9) (Fin (- 16)) False)"
    "\<not> trips demo_risk ?l1 (Check (20 * 10 ^ 9) 0 demo_opp)"
    "trips demo_risk ?l1 (Confirmed (600 * 10 ^ 9) (Fin (- 16)) False)"
    using l1 by (simp_all add: trips_def demo_risk_def risk_new_def r)
  have "tripping_run demo_risk ?l1 [(Confirmed (600 * 10 ^ 9) (Fin (- 16)) False, False)] [600 * 10 ^ 9] ?l2"
    by (rule tripping_run.trip [OF _ t(3) _ tripping_run.stop]) (simp_all add: event_time_def)
  then have "tripping_run demo_risk ?l1 [(Check (20 * 10 ^ 9) 0 demo_opp, False),
      (Confirmed (600 * 10 ^ 9) (Fin (- 16)) False, False)] [600 * 10 ^ 9] ?l2"
    by (rule tripping_run.quiet [OF _ t(2), rotated]) (simp only: risk_step_simps c)
  then have "tripping_run demo_risk (risk_new 0) two_losses [10 * 10 ^ 9, 600 * 10 ^ 9] ?l2"
    unfolding two_losses_def by (rule tripping_run.trip [OF _ t(1), rotated 2]) (simp_all add: event_time_def)
  then show ?thesis using l2 by blast
qed

theorem breaker_blocks_trading_witness:
  "\<exists>st. tripping_run demo_risk (risk_new 0) two_losses [10 * 10 ^ 9, 600 * 10 ^ 9] st \<and>
    \<not> fst (check_limits (1810 * 10 ^ 9) 0 demo_opp demo_risk st) \<and>
    fst (check_limits (2400 * 10 ^ 9) 0 demo_opp demo_risk st)"
proof -
  obtain st where st: "tripping_run demo_risk (risk_new 0) two_losses [10 * 10 ^ 9, 600 * 10 ^ 9] st" "rt_circuit_breaker st"
    using two_losses_run by blast
  have r: "to_f64 1 = Fin 1" using rnd_representable [OF representable_of_int [of 1]] by (simp add: to_f64_def)
  have times: "sorted (run_times two_losses @ [1810 * 10 ^ 9])" "sorted (run_times two_losses @ [2400 * 10 ^ 9])"
    by (simp_all add: two_losses_def run_times_def map_filter_simps event_time_def)
  from breaker_blocks_trading [OF st(1) times(1), of 0 demo_opp] breaker_blocks_trading [OF st(1) times(2), of 0 demo_opp]
  show ?thesis using st by (auto simp: demo_risk_def demo_opp_def r)
qed

end
