(* ===== verification/Bot_Confirm.thy ===== *)
theory Bot_Confirm
  imports Bot_Risk
begin

text \<open>
  The confirmation task (\<open>executor/confirmation.rs\<close>): pending transactions, the batch of signature
  statuses, the settlement of each confirmed one in the risk tracker and the trade table, the
  removal with \<open>swap_remove\<close>, and the eviction. \<open>parse_sig\<close> is the SDK's signature parser; what the
  RPC answers is given with each tick. Fields of a pending entry that are only logged are left out.
\<close>

section \<open>State\<close>

record pending_tx =
  pc_signature :: string
  pc_estimated_net_profit_sol :: f64
  pc_priority_fee_sol :: f64
  pc_submitted_slot :: u64
  pc_submitted_at :: nat

text \<open>A status the cluster reports: whether the transaction succeeded.\<close>

type_synonym status = bool

text \<open>What a settlement writes: \<open>trade_update_confirmed\<close> and the argument of \<open>record_confirmation\<close>.\<close>

record settlement =
  st_signature :: string
  st_pnl :: f64
  st_succeeded :: bool
  st_late :: bool

record trade_row =
  tr_signature :: string
  tr_token_mint :: string
  tr_buy_venue :: string
  tr_sell_venue :: string
  tr_investment_sol :: f64
  tr_estimated_profit_sol :: f64
  tr_actual_profit_sol :: "f64 option"
  tr_succeeded :: "bool option"

definition trade_insert_submitted :: "bool \<Rightarrow> trade_row \<Rightarrow> trade_row list \<Rightarrow> trade_row list" where
  "trade_insert_submitted ok row rows =
     (if ok \<and> tr_signature row \<notin> tr_signature ` set rows
      then rows @ [row\<lparr>tr_actual_profit_sol := None, tr_succeeded := None\<rparr>] else rows)"

definition trade_update_confirmed :: "bool \<Rightarrow> string \<Rightarrow> f64 \<Rightarrow> bool \<Rightarrow> trade_row list \<Rightarrow> trade_row list" where
  "trade_update_confirmed ok sig actual_pnl_sol succeeded rows =
     (if ok then map (\<lambda>r. if tr_signature r = sig
        then r\<lparr>tr_actual_profit_sol := Some actual_pnl_sol, tr_succeeded := Some succeeded\<rparr> else r) rows
      else rows)"

section \<open>The actual result\<close>

text \<open>Three attempts to read the transaction; \<open>get_tx k\<close> is the answer to the k-th.\<close>

definition read_with_retry :: "(nat \<Rightarrow> 'a option) \<Rightarrow> 'a option" where
  "read_with_retry get_tx =
     (case get_tx 0 of Some t \<Rightarrow> Some t | None \<Rightarrow>
        (case get_tx 1 of Some t \<Rightarrow> Some t | None \<Rightarrow> get_tx 2))"

definition extract_actual_pnl :: "(nat \<Rightarrow> (u64 list \<times> u64 list) option option) \<Rightarrow> f64 option" where
  "extract_actual_pnl get_tx =
     (case read_with_retry get_tx of
        None \<Rightarrow> None
      | Some None \<Rightarrow> None
      | Some (Some (pre_balances, post_balances)) \<Rightarrow>
          (case (pre_balances, post_balances) of
             (pre # _, post # _) \<Rightarrow>
               (let delta = int (unat post) - int (unat pre) in
                Some (f_div (to_f64 (of_int delta)) (Fin 1000000000)))
           | _ \<Rightarrow> None))"

definition settled_pnl :: "pending_tx \<Rightarrow> f64 option \<Rightarrow> bool \<Rightarrow> f64" where
  "settled_pnl p actual succeeded =
     (case actual of
        Some pnl \<Rightarrow> pnl
      | None \<Rightarrow> if succeeded then pc_estimated_net_profit_sol p
                else f_neg (f_add (pc_priority_fee_sol p) (to_f64 (5 / 1000000))))"

section \<open>Settling a batch\<close>

text \<open>The loop over \<open>statuses\<close>: what is settled, and the indexes to remove. An index past the end of
  \<open>signatures\<close> or \<open>pending\<close> is a panic.\<close>

fun settle :: "nat \<Rightarrow> ('s \<Rightarrow> f64 option) \<Rightarrow> pending_tx list \<Rightarrow> 's list \<Rightarrow> nat \<Rightarrow> status option list
    \<Rightarrow> (settlement list \<times> nat list) client_result" where
  "settle now actual pending signatures i [] = Ok ([], [])"
| "settle now actual pending signatures i (None # statuses) =
     settle now actual pending signatures (Suc i) statuses"
| "settle now actual pending signatures i (Some succeeded # statuses) =
     and_then (idx signatures i) (\<lambda>sig.
     and_then (idx pending i) (\<lambda>p.
     and_then (settle now actual pending signatures (Suc i) statuses) (\<lambda>(done, to_remove).
     Ok (\<lparr>st_signature = pc_signature p, st_pnl = settled_pnl p (actual sig) succeeded,
          st_succeeded = succeeded,
          st_late = (30000 < (now - pc_submitted_at p) div 10 ^ 6)\<rparr> # done, i # to_remove))))"

definition swap_remove :: "nat \<Rightarrow> 'a list \<Rightarrow> 'a list" where
  "swap_remove i xs = butlast (xs[i := xs ! (length xs - 1)])"

definition process_statuses :: "nat \<Rightarrow> ('s \<Rightarrow> f64 option) \<Rightarrow> risk_config \<Rightarrow> pending_tx list \<Rightarrow> 's list
    \<Rightarrow> status option list \<Rightarrow> risk_tracker \<Rightarrow> (settlement list \<times> pending_tx list \<times> risk_tracker) client_result" where
  "process_statuses now actual risk pending signatures statuses tracker =
     and_then (settle now actual pending signatures 0 statuses) (\<lambda>(done, to_remove).
     Ok (done, fold swap_remove (rev to_remove) pending,
         fold (\<lambda>s. record_confirmation now (st_pnl s) (st_succeeded s) risk) done tracker))"

definition evict :: "'a list \<Rightarrow> 'a list" where
  "evict pending = (if 128 < length pending then drop (length pending - 64) pending else pending)"

text \<open>One round of the task: \<open>new\<close> are the submissions received since the last one, \<open>rpc\<close> the
  answer for the signatures (\<open>None\<close> if the request failed).\<close>

definition confirm_tick :: "(string \<Rightarrow> 's option) \<Rightarrow> ('s list \<Rightarrow> status option list option) \<Rightarrow> nat
    \<Rightarrow> ('s \<Rightarrow> f64 option) \<Rightarrow> risk_config \<Rightarrow> pending_tx list \<Rightarrow> pending_tx list \<Rightarrow> risk_tracker
    \<Rightarrow> (settlement list \<times> pending_tx list \<times> risk_tracker) client_result" where
  "confirm_tick parse_sig rpc now actual risk pending new tracker =
     (let pending1 = pending @ new in
      if pending1 = [] then Ok ([], [], tracker)
      else
        (let signatures = List.map_filter (\<lambda>p. parse_sig (pc_signature p)) pending1;
             settled =
               (if signatures = [] then Ok ([], pending1, tracker)
                else case rpc signatures of
                   None \<Rightarrow> Ok ([], pending1, tracker)
                 | Some statuses \<Rightarrow> process_statuses now actual risk pending1 signatures statuses tracker) in
         and_then settled (\<lambda>(done, pending2, tracker2). Ok (done, evict pending2, tracker2))))"

section \<open>Removal\<close>

lemma length_swap_remove [simp]: "length (swap_remove i xs) = length xs - 1"
  by (simp add: swap_remove_def)

lemma take_swap_remove: "i < length xs \<Longrightarrow> j \<le> i \<Longrightarrow> take j (swap_remove i xs) = take j xs"
proof -
  assume "i < length xs" "j \<le> i"
  then have "min j (length xs - 1) = j" by simp
  with \<open>j \<le> i\<close> show ?thesis by (simp add: swap_remove_def butlast_conv_take take_update_cancel)
qed

lemma mset_swap_remove:
  assumes "i < length xs"
  shows "add_mset (xs ! i) (mset (swap_remove i xs)) = mset xs"
proof -
  let ?n = "length xs - 1" and ?ys = "xs[i := xs ! (length xs - 1)]"
  have ne: "?ys \<noteq> []" using assms by auto
  have last: "last ?ys = xs ! ?n"
    using assms unfolding last_conv_nth [OF ne] length_list_update by (subst nth_list_update) auto
  have "add_mset (last ?ys) (mset (butlast ?ys)) = mset ?ys"
    using ne by (metis append_butlast_last_id mset.simps(1,2) union_mset_add_mset_right mset_append add.right_neutral)
  also have "\<dots> = add_mset (xs ! ?n) (mset xs - {#xs ! i#})" using assms by (simp add: mset_update)
  finally have "mset (butlast ?ys) = mset xs - {#xs ! i#}" unfolding last by simp
  then show ?thesis using assms by (simp add: swap_remove_def)
qed

text \<open>Removing from back to front takes out exactly the entries the indexes named at the start.\<close>

lemma mset_swap_removes:
  assumes "sorted_wrt (<) is" and "\<forall>i \<in> set is. i < length xs"
  shows "mset (map ((!) xs) is) + mset (fold swap_remove (rev is) xs) = mset xs"
  using assms
proof (induction "is" arbitrary: xs rule: rev_induct)
  case (snoc i js)
  have lt: "\<forall>j \<in> set js. j < i" and i: "i < length xs" and s: "sorted_wrt (<) js"
    using snoc.prems by (auto simp: sorted_wrt_append)
  let ?ys = "swap_remove i xs"
  have nth: "?ys ! j = xs ! j" if "j < i" for j
    using take_swap_remove [OF i, of "Suc j"] that by (metis Suc_leI lessI nth_take)
  have "mset (map ((!) ?ys) js) + mset (fold swap_remove (rev js) ?ys) = mset ?ys"
    using lt i by (intro snoc.IH s) auto
  moreover have "map ((!) ?ys) js = map ((!) xs) js" using lt nth by simp
  ultimately have a: "mset ?ys = mset (map ((!) xs) js) + mset (fold swap_remove (rev js) ?ys)" by simp
  have e: "mset xs = add_mset (xs ! i) (mset ?ys)" using mset_swap_remove [OF i] by simp
  show ?case unfolding e a by simp
qed simp

section \<open>The settlement of a batch\<close>

text \<open>The indexes of the statuses that arrived.\<close>

definition arrived :: "status option list \<Rightarrow> nat list" where
  "arrived statuses = filter (\<lambda>i. statuses ! i \<noteq> None) [0..<length statuses]"

definition settlement_of :: "nat \<Rightarrow> pending_tx \<Rightarrow> f64 option \<Rightarrow> bool \<Rightarrow> settlement" where
  "settlement_of now p actual succeeded =
     \<lparr>st_signature = pc_signature p, st_pnl = settled_pnl p actual succeeded, st_succeeded = succeeded,
      st_late = (30000 < (now - pc_submitted_at p) div 10 ^ 6)\<rparr>"

lemma arrived_Nil [simp]: "arrived [] = []"
  by (simp add: arrived_def)

lemma arrived_Cons [simp]:
  "arrived (None # statuses) = map Suc (arrived statuses)"
  "arrived (Some b # statuses) = 0 # map Suc (arrived statuses)"
  by (simp_all add: arrived_def upt_conv_Cons map_Suc_upt [symmetric] filter_map o_def del: upt_Suc map_Suc_upt)

lemma settle_eq:
  assumes "length signatures \<le> length pending"
  shows "settle now actual pending signatures i statuses =
    (if \<forall>k \<in> set (arrived statuses). i + k < length signatures
     then Ok (map (\<lambda>k. settlement_of now (pending ! (i + k)) (actual (signatures ! (i + k))) (the (statuses ! k)))
            (arrived statuses), map ((+) i) (arrived statuses))
     else Panic)"
  using assms
proof (induction now actual pending signatures i statuses rule: settle.induct)
  case (3 now actual pending signatures i b statuses)
  then show ?case by (auto simp: o_def idx_def settlement_of_def)
qed (simp_all add: o_def)

lemma sorted_arrived: "sorted_wrt (<) (arrived statuses)" "\<forall>i \<in> set (arrived statuses). i < length statuses"
  unfolding arrived_def by (auto intro: sorted_wrt_filter)

lemma length_map_filter_le: "length (List.map_filter f xs) \<le> length xs"
  by (induction xs) (simp_all add: map_filter_simps split: option.split)

lemma map_filter_total:
  "\<forall>p \<in> set ps. f p \<noteq> None \<Longrightarrow> List.map_filter f ps = map (\<lambda>p. the (f p)) ps"
  by (induction ps) (auto simp: map_filter_simps)

lemma evict_bound: "length (evict xs) \<le> 128"
  by (auto simp: evict_def)

section \<open>Properties\<close>

text \<open>C22: A round of the confirmation task, whatever the parser and the RPC answer. Each status that arrived
  settles the pending transaction at its place in the list, once and in order, under that transaction's own
  signature, with the amount read from the chain for the signature asked at that place, or else with the
  estimate; the tracker is fed those amounts in that order. The settled entries leave the list and all
  others stay in it (as a multiset, since the removal reorders), unless more than 128 stay: then only the
  last 64 of the reordered list are kept, and the others are dropped without being settled. If every signature
  parses, the signature asked at a place is that of the transaction there (otherwise the places are shifted).
  A status beyond the signatures asked is a panic, and a failed request settles nothing.\<close>

theorem confirm_tick_settles:
  "let ps = pending @ new;
       sigs = List.map_filter (\<lambda>p. parse_sig (pc_signature p)) ps;
       ss = (if sigs = [] then [] else case rpc sigs of None \<Rightarrow> [] | Some statuses \<Rightarrow> statuses);
       places = arrived ss; rest = fold swap_remove (rev places) ps in
   if \<exists>i \<in> set places. length sigs \<le> i
   then confirm_tick parse_sig rpc now actual risk pending new tracker = Panic
   else confirm_tick parse_sig rpc now actual risk pending new tracker =
       Ok (map (\<lambda>i. settlement_of now (ps ! i) (actual (sigs ! i)) (the (ss ! i))) places,
           if 128 < length rest then drop (length rest - 64) rest else rest,
           fold (\<lambda>i. record_confirmation now (settled_pnl (ps ! i) (actual (sigs ! i)) (the (ss ! i))) (the (ss ! i)) risk)
             places tracker) \<and>
     distinct places \<and> mset rest + mset (map ((!) ps) places) = mset ps \<and>
     ((\<forall>p \<in> set ps. parse_sig (pc_signature p) \<noteq> None) \<longrightarrow>
        (\<forall>i \<in> set places. parse_sig (pc_signature (ps ! i)) = Some (sigs ! i)))"
proof -
  define ps where "ps = pending @ new"
  define sigs where "sigs = List.map_filter (\<lambda>p. parse_sig (pc_signature p)) ps"
  define ss where "ss = (if sigs = [] then [] else case rpc sigs of None \<Rightarrow> [] | Some statuses \<Rightarrow> statuses)"
  let ?rest = "fold swap_remove (rev (arrived ss)) ps"
  have len: "length sigs \<le> length ps" unfolding sigs_def by (rule length_map_filter_le)
  have tick: "confirm_tick parse_sig rpc now actual risk pending new tracker =
      and_then (process_statuses now actual risk ps sigs ss tracker) (\<lambda>(done, pending2, tracker2). Ok (done, evict pending2, tracker2))"
    unfolding confirm_tick_def Let_def ps_def [symmetric] sigs_def [symmetric]
    by (auto simp: ss_def process_statuses_def evict_def sigs_def split: option.split)
  note st = settle_eq [OF len, of now actual 0 ss, simplified]
  have ok: "confirm_tick parse_sig rpc now actual risk pending new tracker =
       Ok (map (\<lambda>i. settlement_of now (ps ! i) (actual (sigs ! i)) (the (ss ! i))) (arrived ss), evict ?rest,
           fold (\<lambda>i. record_confirmation now (settled_pnl (ps ! i) (actual (sigs ! i)) (the (ss ! i))) (the (ss ! i)) risk)
             (arrived ss) tracker)" if "\<forall>i \<in> set (arrived ss). i < length sigs"
    unfolding tick process_statuses_def using st that
    by (simp add: map_idI fold_map o_def settlement_of_def)
  have panic: "confirm_tick parse_sig rpc now actual risk pending new tracker = Panic"
    if "\<not> (\<forall>i \<in> set (arrived ss). i < length sigs)"
    unfolding tick process_statuses_def st using that by simp
  have m: "mset ?rest + mset (map ((!) ps) (arrived ss)) = mset ps" if "\<forall>i \<in> set (arrived ss). i < length sigs"
  proof -
    have "\<forall>i \<in> set (arrived ss). i < length ps" using that len by (auto intro: less_le_trans)
    from mset_swap_removes [OF sorted_arrived(1) this] show ?thesis by (simp add: add.commute)
  qed
  have p: "parse_sig (pc_signature (ps ! i)) = Some (sigs ! i)"
    if "\<forall>p \<in> set ps. parse_sig (pc_signature p) \<noteq> None" "i < length sigs" for i
  proof -
    have s: "sigs = map (\<lambda>p. the (parse_sig (pc_signature p))) ps"
      unfolding sigs_def by (rule map_filter_total) (rule that(1))
    then have i: "i < length ps" using that(2) by simp
    then have "parse_sig (pc_signature (ps ! i)) \<noteq> None" using that(1) by simp
    with i show ?thesis by (auto simp: s)
  qed
  have d: "distinct (arrived ss)" by (simp add: arrived_def)
  have e: "(\<exists>i \<in> set (arrived ss). length sigs \<le> i) \<longleftrightarrow> \<not> (\<forall>i \<in> set (arrived ss). i < length sigs)"
    by (simp add: not_less)
  show ?thesis
    using ok m d p panic unfolding Let_def ps_def [symmetric] sigs_def [symmetric] ss_def [symmetric] e evict_def [symmetric]
      if_bool_eq_conj by blast
qed

definition demo_pending :: "string \<Rightarrow> pending_tx" where
  "demo_pending sig = \<lparr>pc_signature = sig, pc_estimated_net_profit_sol = Fin 1, pc_priority_fee_sol = Fin 0,
     pc_submitted_slot = 1, pc_submitted_at = 0\<rparr>"

theorem confirm_tick_settles_witness:
  "\<exists>done rest tracker. confirm_tick Some (\<lambda>sigs. Some (map (\<lambda>s. if s = ''b'' then Some True else None) sigs)) 1
      (\<lambda>_. None) demo_risk [demo_pending ''a'', demo_pending ''b''] [demo_pending ''c''] (risk_new 0)
    = Ok (done, rest, tracker) \<and> map st_signature done = [''b''] \<and> rt_trades_succeeded tracker = 1"
  using confirm_tick_settles [of "[demo_pending ''a'', demo_pending ''b'']" "[demo_pending ''c'']" Some
      "\<lambda>sigs. Some (map (\<lambda>s. if s = ''b'' then Some True else None) sigs)" 1 "\<lambda>_. None" demo_risk "risk_new 0"]
  by (auto simp: demo_pending_def map_filter_simps settlement_of_def record_confirmation_def
      check_circuit_breaker_def risk_new_def Let_def)

text \<open>With a signature that does not parse the batch is misaligned: the status of the second entry
  settles the first one, which leaves the list, and the second stays to be settled again.\<close>

lemma confirm_tick_misaligned:
  "\<exists>done tracker. confirm_tick (\<lambda>s. if s = ''bad'' then None else Some s) (\<lambda>sigs. Some (map (\<lambda>_. Some True) sigs)) 1
      (\<lambda>_. None) demo_risk [] [demo_pending ''bad'', demo_pending ''good''] (risk_new 0)
    = Ok (done, [demo_pending ''good''], tracker) \<and> map st_signature done = [''bad'']"
  by (simp add: confirm_tick_def demo_pending_def map_filter_simps process_statuses_def idx_def swap_remove_def
      evict_def)

end
