(* ===== verification/Client_Quotes.thy ===== *)
theory Client_Quotes
  imports Client_Pricing
begin

text \<open>
  What the bot's estimators compute, on exact numbers, and how they relate to the on-chain
  quotes and to what a pool can pay.
\<close>

section \<open>The checked quotes\<close>

lemma checked_estimate_nat:
  fixes ri ro a :: u64 and fee :: u32
  defines "e \<equiv> additive_eff (unat fee) (unat a)"
  defines "out \<equiv> cp_out (unat ri) (unat ro) e"
  shows "checked_estimate_swap_output ri ro a fee =
    (if a = 0 then Some 0 else if e = 0 \<or> out = 0 then None else Some (of_nat out))"
proof (cases "a = 0")
  case False
  have bnd: "unat ri < 2 ^ 64" "unat ro < 2 ^ 64" "unat a < 2 ^ 64" by (rule unat_u64_bound)+
  have fee: "unat fee < 2 ^ 32" using unsigned_less [of fee, where ?'a = nat] by simp
  have nz: "(ucast a :: u128) \<noteq> 0" using False by (simp add: word_unat_eq_iff)
  have e_le: "e \<le> unat a" by (simp add: e_def additive_eff_le)
  obtain denom :: u128 where denom: "checked_add 10000 (ucast fee) = Some denom"
    "unat denom = 10000 + unat fee"
    using checked_add_u128 [of 10000 "ucast fee"] fee by auto
  obtain num :: u128 where num: "checked_mul (ucast a) 10000 = Some num" "unat num = unat a * 10000"
    using checked_mul_u128 [of "ucast a" 10000] bnd by auto
  obtain eff :: u128 where eff: "checked_div num denom = Some eff" "unat eff = e"
    using checked_div_u128 [of denom num] denom num by (auto simp: e_def additive_eff_def)
  obtain nm :: u128 where nm: "checked_mul (ucast ro) eff = Some nm" "unat nm = unat ro * e"
    using checked_mul_u128 [of "ucast ro" eff] mult_u64_u64 [of "unat ro" e] bnd e_le eff by auto
  obtain dn :: u128 where dn: "checked_add (ucast ri) eff = Some dn" "unat dn = unat ri + e"
    using checked_add_u128 [of "ucast ri" eff] bnd e_le eff by auto
  show ?thesis
  proof (cases "e = 0")
    case True
    then have "eff = 0" using eff by (simp add: word_unat_eq_iff)
    then show ?thesis using False nz True denom(1) num(1) eff(1)
      by (simp add: checked_estimate_swap_output_def)
  next
    case e: False
    then have dn_nz: "unat dn \<noteq> 0" using dn by simp
    obtain ot :: u128 where ot: "checked_div nm dn = Some ot" "unat ot = out"
      using checked_div_u128 [of dn nm] dn_nz dn nm by (auto simp: out_def cp_out_def)
    have "out < 2 ^ 64" using cp_out_le [of "unat ri" "unat ro" e] bnd by (simp add: out_def)
    then have "(ucast ot :: u64) = of_nat out" using ot by (simp add: ucast_u128_u64_of_nat)
    moreover have "ot = 0 \<longleftrightarrow> out = 0" "eff \<noteq> 0" "dn \<noteq> 0"
      using ot eff e dn_nz by (auto simp: word_unat_eq_iff)
    ultimately show ?thesis
      using False nz e denom(1) num(1) eff(1) nm(1) dn(1) ot(1)
      by (simp add: checked_estimate_swap_output_def)
  qed
qed (simp add: checked_estimate_swap_output_def)

lemma checked_cp_nat:
  fixes ri ro a rate :: u64
  defines "e \<equiv> subtractive_eff (unat rate) (unat a)"
  defines "out \<equiv> cp_out (unat ri) (unat ro) e"
  shows "checked_cp_swap_output ri ro a rate =
    (if a = 0 \<or> ro = 0 then Some 0
     else if 1000000 < unat rate \<or> e = 0 \<or> out = 0 then None else Some (of_nat out))"
proof (cases "a = 0 \<or> ro = 0 \<or> 1000000 < unat rate")
  case True
  then show ?thesis
    by (auto simp: checked_cp_swap_output_def checked_sub_def SWAP_FEE_DENOM_def word_le_nat_alt)
next
  case False
  have bnd: "unat ri < 2 ^ 64" "unat ro < 2 ^ 64" "unat a < 2 ^ 64" by (rule unat_u64_bound)+
  have e_le: "e \<le> unat a" by (simp add: e_def subtractive_eff_le)
  obtain product :: u128 where product: "checked_sub SWAP_FEE_DENOM (ucast rate) = Some product"
    "unat product = 1000000 - unat rate"
    using checked_sub_u128 [of "ucast rate" SWAP_FEE_DENOM] False by (auto simp: SWAP_FEE_DENOM_def)
  have "unat a * (1000000 - unat rate) < 2 ^ 128"
    by (rule mult_u64_u64) (use bnd in auto)
  then obtain num :: u128 where num: "checked_mul (ucast a) product = Some num"
    "unat num = unat a * (1000000 - unat rate)"
    using checked_mul_u128 [of "ucast a" product] product by auto
  obtain eff :: u128 where eff: "checked_div num SWAP_FEE_DENOM = Some eff" "unat eff = e"
    using checked_div_u128 [of SWAP_FEE_DENOM num] num
    by (auto simp: e_def subtractive_eff_def SWAP_FEE_DENOM_def)
  obtain nm :: u128 where nm: "checked_mul (ucast ro) eff = Some nm" "unat nm = unat ro * e"
    using checked_mul_u128 [of "ucast ro" eff] mult_u64_u64 [of "unat ro" e] bnd e_le eff by auto
  obtain dn :: u128 where dn: "checked_add (ucast ri) eff = Some dn" "unat dn = unat ri + e"
    using checked_add_u128 [of "ucast ri" eff] bnd e_le eff by auto
  show ?thesis
  proof (cases "e = 0")
    case True
    then have "eff = 0" using eff by (simp add: word_unat_eq_iff)
    then show ?thesis using False True product(1) num(1) eff(1)
      by (simp add: checked_cp_swap_output_def)
  next
    case e: False
    then have dn_nz: "unat dn \<noteq> 0" using dn by simp
    obtain ot :: u128 where ot: "checked_div nm dn = Some ot" "unat ot = out"
      using checked_div_u128 [of dn nm] dn_nz dn nm by (auto simp: out_def cp_out_def)
    have "out < 2 ^ 64" using cp_out_le [of "unat ri" "unat ro" e] bnd by (simp add: out_def)
    then have "(ucast ot :: u64) = of_nat out" using ot by (simp add: ucast_u128_u64_of_nat)
    moreover have "ot = 0 \<longleftrightarrow> out = 0" "eff \<noteq> 0" "dn \<noteq> 0"
      using ot eff e dn_nz by (auto simp: word_unat_eq_iff)
    ultimately show ?thesis
      using False e product(1) num(1) eff(1) nm(1) dn(1) ot(1)
      by (simp add: checked_cp_swap_output_def)
  qed
qed

lemma checked_cp_SomeD:
  assumes "checked_cp_swap_output ri ro a rate = Some out"
  shows "unat out = cp_out (unat ri) (unat ro) (subtractive_eff (unat rate) (unat a))"
proof -
  have "cp_out (unat ri) (unat ro) (subtractive_eff (unat rate) (unat a)) < 2 ^ 64"
    using cp_out_le [of "unat ri" "unat ro"] unat_u64_bound [of ro] by (rule le_less_trans)
  then show ?thesis using assms
    by (auto simp: checked_cp_nat unat_of_nat_small cp_out_def split: if_splits)
qed

section \<open>Properties of the quotes\<close>

text \<open>C16: The bot's PumpSwap quote is the program's quote, for every reserve, amount and fee the
  program can hold, except for a zero amount (the bot answers zero, the program an error) and an
  empty input reserve (the bot answers the whole output reserve, the program an error).\<close>

theorem client_quote_is_chain_quote:
  "checked_estimate_swap_output ri ro a (ucast (fee :: u16)) =
    (if a = 0 then Some 0
     else if ri = 0 \<and> ro \<noteq> 0 \<and> additive_eff (unat fee) (unat a) \<noteq> 0 then Some ro
     else map_option fst (cpmm_swap_output ri ro a fee))"
proof -
  have fee: "unat (ucast fee :: u32) = unat fee"
    by (rule unat_ucast_widen) simp
  have full: "cp_out 0 (unat ro) e = unat ro" if "e \<noteq> 0" for e using that by (simp add: cp_out_def)
  show ?thesis
    by (auto simp: checked_estimate_nat cpmm_swap_output_nat fee full word_unat_eq_iff)
       (simp_all add: cp_out_def)
qed

text \<open>A quote of the subtractive model, used for Raydium CPMM and Orca, is the exact floor of
  the constant product after the fee; it never exceeds the output reserve, never lowers the
  product of the reserves, and grows with the amount.\<close>

lemma cp_swap_quote_sound:
  assumes "checked_cp_swap_output ri ro a rate = Some out"
  shows "unat out = cp_out (unat ri) (unat ro) (subtractive_eff (unat rate) (unat a)) \<and>
    unat ri * unat ro \<le> (unat ri + unat a) * (unat ro - unat out) \<and> unat out \<le> unat ro \<and>
    (\<forall>b out'. unat a \<le> unat b \<longrightarrow> checked_cp_swap_output ri ro b rate = Some out' \<longrightarrow> unat out \<le> unat out')"
proof -
  note out = checked_cp_SomeD [OF assms]
  have "unat out \<le> unat out'"
    if "unat a \<le> unat b" "checked_cp_swap_output ri ro b rate = Some out'" for b out'
    unfolding out checked_cp_SomeD [OF that(2)] by (rule subtractive.fee_mono [OF that(1)])
  then show ?thesis
    using out subtractive.fee_product [of "unat ri" "unat ro" "unat a" "unat rate"]
      cp_out_le [of "unat ri" "unat ro"] by auto
qed

section \<open>Fees as floating point numbers\<close>

lemma fee_round_trip:
  assumes "unat bps \<le> 10000"
  shows "fee_to_bps (bps_to_fee bps) \<in> {of_nat (unat bps), of_nat (unat bps - 1)}"
proof -
  define n where "n = unat bps"
  let ?q = "of_nat n / 10000 :: rat"
  have n: "n \<le> 10000" using assms by (simp add: n_def)
  have nr: "(of_nat n :: rat) \<le> 10000" using n by (metis of_nat_le_iff of_nat_numeral)
  have n_f: "f64_of_nat n = Fin (of_nat n)"
  proof -
    have r: "representable (of_nat n)" using representable_of_int [of "int n"] n by simp
    then have "to_f64 (of_nat n) = Fin (rnd (of_nat n))"
      by (rule to_f64_Fin [rotated]) (use nr in auto)
    then show ?thesis by (simp add: f64_of_nat_def rnd_representable [OF r])
  qed
  have q1: "to_f64 ?q = Fin (rnd ?q)"
    by (rule to_f64_Fin [of _ 1]) (use nr representable_of_int [of 1] in auto)
  have err: "\<bar>rnd ?q - ?q\<bar> \<le> 2 powi (1 - 54)" by (rule rnd_error) (use nr in auto)
  define y where "y = rnd ?q * 10000"
  have y: "\<bar>y - of_nat n\<bar> \<le> 1 / 2"
  proof -
    have "y - of_nat n = (rnd ?q - ?q) * 10000" by (simp add: y_def algebra_simps)
    then have "\<bar>y - of_nat n\<bar> = \<bar>rnd ?q - ?q\<bar> * 10000" by (simp only: abs_mult abs_numeral)
    also have "\<dots> \<le> 2 powi (1 - 54) * 10000" using err by (intro mult_right_mono) auto
    also have "\<dots> \<le> 1 / 2" by (simp add: power_int_def power_divide)
    finally show ?thesis .
  qed
  have y_le: "y \<le> of_int (2 * int n + 1) / 2" and y_ge: "of_int (2 * int n - 1) / 2 \<le> y"
  proof -
    have "y - of_nat n \<le> 1 / 2" "of_nat n - y \<le> 1 / 2" using y by (simp_all only: abs_le_iff minus_diff_eq)
    then show "y \<le> of_int (2 * int n + 1) / 2" "of_int (2 * int n - 1) / 2 \<le> y" by simp_all
  qed
  have r_le: "rnd y \<le> of_int (2 * int n + 1) / 2" and r_ge: "of_int (2 * int n - 1) / 2 \<le> rnd y"
    by (rule rnd_le [OF y_le representable_half] rnd_ge [OF y_ge representable_half], use n in simp)+
  have r_0: "0 \<le> rnd y" unfolding y_def by (intro rnd_nonneg mult_nonneg_nonneg rnd_nonneg) simp_all
  have "\<bar>y\<bar> \<le> 20001" using y_le y_ge nr by (simp add: abs_le_iff)
  then have "to_f64 y = Fin (rnd y)"
    by (rule to_f64_Fin) (use representable_of_int [of 20001] in simp_all)
  then have fin: "fee_to_bps (bps_to_fee bps) = of_nat (min (2 ^ 128 - 1) (nat \<lfloor>rnd y\<rfloor>))"
    using r_0 by (simp add: fee_to_bps_def bps_to_fee_def f64_as_u128_def n_f q1 y_def flip: n_def)
  have "\<lfloor>rnd y\<rfloor> \<le> int n" using r_le by (simp add: floor_le_iff)
  moreover have "int n - 1 \<le> \<lfloor>rnd y\<rfloor>" using r_ge by (simp add: le_floor_iff)
  ultimately have "nat \<lfloor>rnd y\<rfloor> = n \<or> nat \<lfloor>rnd y\<rfloor> = n - 1" by linarith
  then show ?thesis using n fin by (auto simp flip: n_def)
qed

lemma fee_29: "fee_to_bps (bps_to_fee 29) = 28"
proof -
  have a: "f64_of_nat 29 = Fin 29"
    using rnd_representable [OF representable_of_int [of 29]] by (simp add: f64_of_nat_def to_f64_def)
  have b: "rnd (29 / 10000) = of_int 6686944726719712 * 2 powi (- 9 - 52)"
    by (rule rnd_eqI) (simp_all add: power_int_def power_divide)
  have c: "rnd (of_int 6686944726719712 * 2 powi (- 9 - 52) * 10000) = of_int 8162774324609023 * 2 powi (4 - 52)"
    by (rule rnd_eqI) (simp_all add: power_int_def power_divide)
  have d: "to_f64 (29 / 10000) = Fin (rnd (29 / 10000))"
    by (rule to_f64_Fin [of _ 1]) (use representable_of_int [of 1] in auto)
  have e: "to_f64 (rnd (29 / 10000) * 10000) = Fin (rnd (rnd (29 / 10000) * 10000))"
    unfolding b by (rule to_f64_Fin [of _ 29]) (use representable_of_int [of 29] in \<open>auto simp: power_int_def power_divide\<close>)
  have f: "\<lfloor>of_int 8162774324609023 * 2 powi (4 - 52) :: rat\<rfloor> = 28"
    by (rule floor_unique) (simp_all add: power_int_def power_divide)
  show ?thesis
    using a d e f unfolding b c fee_to_bps_def bps_to_fee_def f64_as_u128_def by simp
qed

section \<open>The DLMM walk\<close>

definition bin_pair :: "bool \<Rightarrow> dlmm_bin \<Rightarrow> nat \<times> nat" where
  "bin_pair d b = (if d then (unat (db_amount_x b), unat (db_amount_y b))
     else (unat (db_amount_y b), unat (db_amount_x b)))"

fun fill_quote :: "(nat \<times> nat) list \<Rightarrow> nat \<Rightarrow> nat" where
  "fill_quote [] x = 0"
| "fill_quote ((ri, ro) # rest) x =
     (if ri = 0 \<or> ro = 0 then fill_quote rest x
      else if x \<le> ri then ro * x div ri
      else ro + fill_quote rest (x - ri))"

definition pairs_out :: "(nat \<times> nat) list \<Rightarrow> nat" where
  "pairs_out ps = sum_list (map snd ps)"

lemma fill_quote_le: "fill_quote ps x \<le> pairs_out ps"
proof (induction ps x rule: fill_quote.induct)
  case (2 ri ro rest x)
  have "ro * x div ri \<le> ro" if "x \<le> ri" "ri \<noteq> 0"
  proof -
    have "ro * x div ri \<le> ro * ri div ri" using that by (intro div_le_mono) simp
    then show ?thesis using that by simp
  qed
  then show ?case using 2 by (auto simp: pairs_out_def trans_le_add1 trans_le_add2)
qed (simp add: pairs_out_def)

lemma fill_quote_mono: "x \<le> y \<Longrightarrow> fill_quote ps x \<le> fill_quote ps y"
proof (induction ps arbitrary: x y)
  case (Cons p ps)
  obtain ri ro where p: "p = (ri, ro)" by (cases p)
  have "ro * x div ri \<le> ro + z" if "x \<le> ri" "ri \<noteq> 0" for z
  proof -
    have "ro * x div ri \<le> ro * ri div ri" using that by (intro div_le_mono) simp
    then show ?thesis using that by simp
  qed
  then show ?case using Cons by (auto simp: p div_le_mono)
qed simp

lemma fill_quote_0 [simp]: "fill_quote ps 0 = 0"
  by (induction ps) auto

text \<open>A constant-product walk over the same liquid bins never pays more.\<close>

lemma walk_quote_le_fill_quote:
  assumes "\<forall>b \<in> set bins. 0 < fst (snd b)" and "\<forall>b \<in> set bins. 0 < snd (snd b)"
  shows "walk_quote bins x \<le> fill_quote (map (\<lambda>(_, ri, ro). (unat ri, unat ro)) bins) x"
  using assms
proof (induction bins arbitrary: x)
  case (Cons b bins)
  obtain i ri ro where b: "b = (i, ri, ro)" by (cases b)
  have pos: "unat ri \<noteq> 0" "unat ro \<noteq> 0" using Cons.prems by (auto simp: b word_unat_eq_iff word_less_nat_alt)
  have "cp_out (unat ri) (unat ro) x \<le> unat ro * x div unat ri"
    unfolding cp_out_def using pos by (intro div_le_mono2) auto
  then show ?case using Cons cp_out_le [of "unat ri" "unat ro" "unat ri"] pos
    by (auto simp: b add_mono)
qed simp

lemma fill_bins_nat:
  assumes "unat tot + pairs_out (map (bin_pair d) bins) < 2 ^ 128"
  shows "unat (fst (fill_bins d bins left tot c cs))
    = unat tot + fill_quote (map (bin_pair d) bins) (unat left)"
  using assms
proof (induction bins arbitrary: left tot c cs)
  case (Cons b bins)
  obtain ri ro where r: "bin_reserves d b = (ri, ro)" by (cases "bin_reserves d b")
  have p: "bin_pair d b = (unat ri, unat ro)" using r by (auto simp: bin_reserves_def bin_pair_def split: if_splits)
  have bnd: "unat ri < 2 ^ 64" "unat ro < 2 ^ 64"
    using r unat_u64_bound [of "db_amount_x b"] unat_u64_bound [of "db_amount_y b"]
    by (auto simp: bin_reserves_def split: if_splits)
  have sum: "unat tot + (unat ro + pairs_out (map (bin_pair d) bins)) < 2 ^ 128"
    using Cons.prems by (simp add: p pairs_out_def)
  have z: "ri = 0 \<longleftrightarrow> unat ri = 0" "ro = 0 \<longleftrightarrow> unat ro = 0" by (simp_all add: word_unat_eq_iff)
  show ?case
  proof (cases "ri = 0 \<or> ro = 0")
    case True
    then show ?thesis using Cons.IH sum by (auto simp: r p z)
  next
    case False
    show ?thesis
    proof (cases "left \<le> ri")
      case True
      then have le: "unat left \<le> unat ri" by (simp add: word_le_nat_alt)
      have m: "unat ro * unat left < 2 ^ 128" using le bnd by (intro mult_u64_u64) auto
      have q: "unat (ro * left div ri) = unat ro * unat left div unat ri"
        using m by (simp add: unat_div unat_mult_u128)
      have "unat ro * unat left div unat ri \<le> unat ro * unat ri div unat ri" using le by (intro div_le_mono) simp
      then have "unat ro * unat left div unat ri \<le> unat ro" using False by (simp add: z)
      then show ?thesis using False True le sum q by (simp add: r p z Let_def unat_add_u128)
    next
      case left: False
      then have nle: "\<not> unat left \<le> unat ri" by (simp add: word_le_nat_alt)
      have "unat (tot + ro) = unat tot + unat ro" using sum by (simp add: unat_add_u128)
      moreover have "unat (left - ri) = unat left - unat ri" using nle by (simp add: unat_sub word_le_nat_alt)
      ultimately show ?thesis using False left nle sum by (simp add: r p z Let_def Cons.IH)
    qed
  qed
qed simp

lemma dlmm_after_fee_nat:
  assumes "unat (fee_to_bps fee) \<le> 10000"
  shows "unat (dlmm_after_fee a fee) = unat a * (10000 - unat (fee_to_bps fee)) div 10000"
proof -
  let ?f = "fee_to_bps fee"
  have sub: "unat (10000 - ?f) = 10000 - unat ?f" using assms by (simp add: unat_sub word_le_nat_alt)
  have m: "unat a * (10000 - unat ?f) < 2 ^ 128" using unat_u64_bound [of a] by (intro mult_u64_u64) auto
  have le: "unat a * (10000 - unat ?f) div 10000 \<le> unat a"
  proof -
    have "unat a * (10000 - unat ?f) div 10000 \<le> unat a * 10000 div 10000" by (intro div_le_mono) simp
    then show ?thesis by simp
  qed
  have "unat ((ucast a :: u128) * (10000 - ?f) div 10000) = unat a * (10000 - unat ?f) div 10000"
    using m by (simp add: unat_div unat_mult_u128 sub)
  then show ?thesis using le unat_u64_bound [of a] by (simp add: dlmm_after_fee_def unat_ucast_u128_u64)
qed

lemma pairs_out_active: "pairs_out (map (bin_pair d) (active_bins d bins)) \<le> pairs_out (map (bin_pair d) bins)"
proof -
  have perm: "pairs_out (map (bin_pair e) (sort_key k xs)) = pairs_out (map (bin_pair e) xs)"
    for e and k :: "dlmm_bin \<Rightarrow> int" and xs
    by (simp add: pairs_out_def flip: sum_mset_sum_list)
  have "pairs_out (map (bin_pair e) (filter P xs)) \<le> pairs_out (map (bin_pair e) xs)" for e P xs
    by (induction xs) (auto simp: pairs_out_def)
  then show ?thesis by (simp add: active_bins_def Let_def perm)
qed

lemma dlmm_out_fill:
  assumes "pairs_out (map (bin_pair d) bins) < 2 ^ 64"
  shows "unat (de_out (estimate_dlmm_swap_output_full bins a d fee))
    = fill_quote (map (bin_pair d) (active_bins d bins)) (unat (dlmm_after_fee a fee))"
proof -
  let ?ps = "map (bin_pair d) (active_bins d bins)" and ?a = "dlmm_after_fee a fee"
  have le: "fill_quote ?ps (unat ?a) \<le> pairs_out (map (bin_pair d) bins)"
    using fill_quote_le pairs_out_active by (rule le_trans)
  obtain t c cs where f: "fill_bins d (active_bins d bins) (ucast ?a) 0 0 [] = (t, c, cs)"
    by (metis prod_cases3)
  have "pairs_out ?ps < 2 ^ 128" using pairs_out_active [of d bins] assms by simp
  then have t: "unat t = fill_quote ?ps (unat ?a)"
    using fill_bins_nat [of 0 d "active_bins d bins" "ucast ?a" 0 "[]"] by (simp add: f)
  show ?thesis
  proof (cases "bins = [] \<or> ?a = 0")
    case True
    then have "fill_quote ?ps (unat ?a) = 0" by (auto simp: active_bins_def)
    then show ?thesis using True by (simp add: Let_def estimate_dlmm_swap_output_full_def)
  next
    case False
    have "unat (ucast t :: u64) = unat t" using t le assms by (simp add: unat_ucast_u128_u64)
    then show ?thesis using False t by (simp add: Let_def estimate_dlmm_swap_output_full_def f)
  qed
qed

text \<open>C17: The bot's DLMM estimate is the exact walk over the liquid bins in price order, each bin
  filled at its fixed price: it pays at most the liquidity there is, and no intermediate 128-bit
  result overflows.\<close>

theorem dlmm_estimate_exact:
  assumes "pairs_out (map (bin_pair d) bins) < 2 ^ 64"
  shows "let ps = map (bin_pair d) (active_bins d bins); x = unat (dlmm_after_fee a fee);
      est = estimate_dlmm_swap_output_full bins a d fee in
    unat (de_out est) = fill_quote ps x \<and> fill_quote ps x \<le> pairs_out (map (bin_pair d) bins) \<and>
    sorted (map (\<lambda>b. if d then - db_bin_id b else db_bin_id b) (active_bins d bins))"
proof -
  have "sorted (map (\<lambda>b. if d then - db_bin_id b else db_bin_id b) (active_bins d bins))"
    by (cases d) (simp_all add: active_bins_def Let_def)
  moreover have "fill_quote (map (bin_pair d) (active_bins d bins)) x \<le> pairs_out (map (bin_pair d) bins)" for x
    using fill_quote_le pairs_out_active by (rule le_trans)
  ultimately show ?thesis by (simp add: Let_def dlmm_out_fill [OF assms])
qed

definition demo_bin :: dlmm_bin where
  "demo_bin = \<lparr>db_bin_id = 0, db_amount_x = 1000, db_amount_y = 5000, db_reserve_x = 0, db_reserve_y = 0\<rparr>"

lemma zero_fee: "fee_to_bps (Fin 0) = 0" "dlmm_after_fee a (Fin 0) = a"
proof -
  show f: "fee_to_bps (Fin 0) = 0" by (simp add: fee_to_bps_def to_f64_def f64_as_u128_def)
  show "dlmm_after_fee a (Fin 0) = a"
    using dlmm_after_fee_nat [of "Fin 0" a] by (simp add: f word_unat_eq_iff)
qed

theorem dlmm_estimate_exact_witness:
  "unat (de_out (estimate_dlmm_swap_output_full [demo_bin] 100 True (Fin 0))) = 500 \<and>
   pairs_out (map (bin_pair True) [demo_bin]) < 2 ^ 64"
proof -
  have h: "pairs_out (map (bin_pair True) [demo_bin]) < 2 ^ 64"
    by (simp add: pairs_out_def bin_pair_def demo_bin_def)
  show ?thesis
    using dlmm_estimate_exact [OF h, of 100 "Fin 0"] h
    by (simp add: Let_def zero_fee active_bins_def bin_pair_def demo_bin_def)
qed

text \<open>On the same bins, read by the program from the account data and by the bot from its
  cache, the program's DLMM estimate is never above the bot's fee-free one.\<close>

lemma chain_dlmm_below_client:
  assumes "estimate_dlmm_swap_output l bin_arrays a d = Ok chain"
    and "length bin_arrays \<le> 2 ^ 32"
    and "map (\<lambda>(_, ri, ro). (unat ri, unat ro)) (sort_bins d (collect_bins l bin_arrays d))
      = filter (\<lambda>(ri, ro). ri \<noteq> 0 \<and> ro \<noteq> 0) (map (bin_pair d) (active_bins d bins))"
    and "pairs_out (map (bin_pair d) bins) < 2 ^ 64"
  shows "unat chain \<le> unat (de_out (estimate_dlmm_swap_output_full bins a d (Fin 0)))"
proof -
  let ?bs = "sort_bins d (collect_bins l bin_arrays d)" and ?ps = "map (bin_pair d) (active_bins d bins)"
  have filtered: "fill_quote (filter (\<lambda>(ri, ro). ri \<noteq> 0 \<and> ro \<noteq> 0) ps) x = fill_quote ps x" for ps x
    by (induction ps x rule: fill_quote.induct) auto
  have "(unat ri, unat ro) \<in> set (map (\<lambda>(_, ri, ro). (unat ri, unat ro)) ?bs)" if "(i, ri, ro) \<in> set ?bs" for i ri ro
    using that by force
  then have "unat ri \<noteq> 0 \<and> unat ro \<noteq> 0" if "(i, ri, ro) \<in> set ?bs" for i ri ro
    using that unfolding assms(3) by fastforce
  then have pos: "\<forall>b \<in> set ?bs. 0 < fst (snd b)" "\<forall>b \<in> set ?bs. 0 < snd (snd b)"
    by (auto simp: word_neq_0_conv [symmetric] word_unat_eq_iff)
  have client: "unat (de_out (estimate_dlmm_swap_output_full bins a d (Fin 0))) = fill_quote ?ps (unat a)"
    using dlmm_out_fill [OF assms(4)] by (simp add: zero_fee)
  have "walk_quote ?bs (unat a) \<le> fill_quote ?ps (unat a)"
    using walk_quote_le_fill_quote [OF pos, of "unat a"] unfolding assms(3) filtered .
  moreover have "unat chain \<le> walk_quote ?bs (unat a)"
    using assms(1) unfolding estimate_dlmm_walk [OF assms(2)]
    by (auto simp: unat_of_nat split: if_splits)
  ultimately show ?thesis using client by simp
qed

section \<open>The quotes with a floating point fee\<close>

lemma estimate_swap_output_nat:
  assumes "unat (fee_to_bps fee) \<le> 10000"
  shows "estimate_swap_output ri ro a fee
    = Ok (of_nat (cpmm_quote (unat ri) (unat ro) (unat a) (unat (fee_to_bps fee))))"
proof -
  let ?f = "fee_to_bps fee"
  let ?e = "additive_eff (unat ?f) (unat a)"
  have bnd: "unat ri < 2 ^ 64" "unat ro < 2 ^ 64" "unat a < 2 ^ 64" by (rule unat_u64_bound)+
  have den: "unat (10000 + ?f) = 10000 + unat ?f" using assms by (simp add: unat_add_u128)
  have num: "unat ((ucast a :: u128) * 10000) = unat a * 10000" using bnd by (simp add: unat_mult_u128)
  obtain e :: u128 where e: "((ucast a :: u128) * 10000) div (10000 + ?f) = e" by blast
  have ue: "unat e = ?e" using num den by (simp add: additive_eff_def unat_div flip: e)
  have nz: "10000 + ?f \<noteq> 0" using den by (auto simp: word_unat_eq_iff)
  have e_le: "?e \<le> unat a" by (rule additive_eff_le)
  have dn: "unat (ucast ri + e) = unat ri + ?e" using bnd e_le ue by (simp add: unat_add_u128)
  have "unat ro * ?e < 2 ^ 128" using bnd e_le by (intro mult_u64_u64) auto
  then have nm: "unat (ucast ro * e) = unat ro * ?e" using ue by (simp add: unat_mult_u128)
  have q: "unat ((ucast ro * e) div (ucast ri + e)) = cpmm_quote (unat ri) (unat ro) (unat a) (unat ?f)"
    using nm dn by (simp add: cpmm_quote_def cp_out_def unat_div)
  have "cpmm_quote (unat ri) (unat ro) (unat a) (unat ?f) < 2 ^ 64"
    using cp_out_le bnd(2) unfolding cpmm_quote_def by (rule le_less_trans)
  then have c: "(ucast ((ucast ro * e) div (ucast ri + e)) :: u64)
      = of_nat (cpmm_quote (unat ri) (unat ro) (unat a) (unat ?f))"
    using q by (simp add: ucast_u128_u64_of_nat)
  show ?thesis
  proof (cases "ucast ri + e = 0")
    case True
    then have "unat ri + ?e = 0" using dn by simp
    then have "cpmm_quote (unat ri) (unat ro) (unat a) (unat ?f) = 0" by (simp add: cpmm_quote_def cp_out_def)
    then show ?thesis using nz e True by (simp add: estimate_swap_output_def div_or_panic_def Let_def)
  next
    case False
    then show ?thesis using nz e c by (simp add: estimate_swap_output_def div_or_panic_def Let_def)
  qed
qed

text \<open>The unchecked quotes take the fee as a floating point fraction of the basis points and
  multiply it back. For every fee up to 100% the result is the exact quote either for the fee
  itself or for a fee one basis point lower; 29 basis points, for one, are charged as 28, in the
  constant-product quote and in the DLMM estimate alike.\<close>

lemma float_fee_loses_at_most_one:
  assumes "unat bps \<le> 10000"
  shows "\<exists>b. (b = unat bps \<or> b = unat bps - 1) \<and>
      estimate_swap_output ri ro a (bps_to_fee bps) = Ok (of_nat (cpmm_quote (unat ri) (unat ro) (unat a) b)) \<and>
      unat (dlmm_after_fee a (bps_to_fee bps)) = unat a * (10000 - b) div 10000 \<and>
      (bps = 29 \<longrightarrow> b = 28)"
proof -
  let ?b = "unat (fee_to_bps (bps_to_fee bps))"
  have "unat (of_nat (unat bps) :: u128) = unat bps" "unat (of_nat (unat bps - 1) :: u128) = unat bps - 1"
    using assms by (auto intro!: unat_of_nat_small simp del: of_nat_unat)
  then have b: "?b = unat bps \<or> ?b = unat bps - 1" using fee_round_trip [OF assms] by auto
  then have le: "?b \<le> 10000" using assms by linarith
  have "bps = 29 \<longrightarrow> ?b = 28" by (simp add: fee_29)
  then show ?thesis
    using b estimate_swap_output_nat [OF le] dlmm_after_fee_nat [OF le] by blast
qed

section \<open>Slippage and lamports\<close>

lemma unit_interval_f64:
  assumes "0 \<le> x" and "x \<le> 1"
  shows "to_f64 x = Fin (rnd x)" and "0 \<le> rnd x" and "rnd x \<le> 1"
proof -
  have r: "representable 1" using representable_of_int [of 1] by simp
  show "to_f64 x = Fin (rnd x)" by (rule to_f64_Fin [OF _ r]) (use assms in auto)
  show "0 \<le> rnd x" "rnd x \<le> 1" using assms by (auto intro: rnd_nonneg rnd_le r)
qed

lemma slippage_range:
  assumes "unat tol < 4000"
  obtains s where "compute_effective_slippage amount reserve tol = Fin s" "0 \<le> s" "s \<le> 1"
proof -
  define n where "n = unat tol"
  let ?q = "of_nat n / 10000 :: rat"
  have n: "n \<le> 3999" using assms by (simp add: n_def)
  then have nr: "(of_nat n :: rat) \<le> 3999" by (metis of_nat_le_iff of_nat_numeral)
  have r: "representable (of_nat n)" using representable_of_int [of "int n"] n by simp
  have "to_f64 (of_nat n) = Fin (rnd (of_nat n))" by (rule to_f64_Fin [OF _ r]) (use nr in auto)
  then have n_f: "f64_of_nat n = Fin (of_nat n)" by (simp add: f64_of_nat_def rnd_representable [OF r])
  have q: "0 \<le> ?q" "?q \<le> 1" "?q \<le> 13107 / 32768" using nr by simp_all
  have rep: "representable (13107 / 32768)"
    unfolding representable_def by (rule exI [of _ 13107], rule exI [of _ "- 15"]) (simp add: power_int_def power_divide)
  define b where "b = rnd ?q"
  have b: "0 \<le> b" "b \<le> 13107 / 32768" unfolding b_def using rnd_nonneg [OF q(1)] rnd_le [OF q(3) rep] by blast+
  have base: "f_div (f64_of_nat (unat tol)) (Fin 10000) = Fin b"
    using unit_interval_f64 [OF q(1,2)] by (simp add: n_f b_def flip: n_def)
  have sub: "\<exists>s. f_sub (Fin 1) (Fin x) = Fin s \<and> 0 \<le> s \<and> s \<le> 1" if "0 \<le> x" "x \<le> 1" for x
    using unit_interval_f64 [of "1 - x"] that by (simp add: f_sub_def)
  have mul: "\<exists>s. f_sub (Fin 1) (f_mul (Fin b) (Fin m)) = Fin s \<and> 0 \<le> s \<and> s \<le> 1"
    if "m \<in> {1, 3 / 2, 5 / 2}" for m
  proof -
    have m: "0 \<le> m" "m \<le> 5 / 2" using that by auto
    have "b * m \<le> 13107 / 32768 * (5 / 2)" by (rule mult_mono) (use b m in auto)
    then have "0 \<le> b * m" "b * m \<le> 1" using b m by simp_all
    note u = unit_interval_f64 [OF this]
    show ?thesis using sub [OF u(2,3)] by (simp add: u(1))
  qed
  have b1: "b \<le> 1" using b by simp
  have "\<exists>s. compute_effective_slippage amount reserve tol = Fin s \<and> 0 \<le> s \<and> s \<le> 1"
    unfolding compute_effective_slippage_def base Let_def
    using sub [OF b(1) b1] mul [of 1] mul [of "3 / 2"] mul [of "5 / 2"]
    by (simp del: f_mul.simps)
  then show ?thesis using that by blast
qed

text \<open>With a configured tolerance below 40% the minimum output of a leg lies between zero and
  the quote it is derived from, whatever the trade and pool sizes, for every quote a double
  represents exactly.\<close>

lemma min_out_at_most_quote:
  assumes "unat tol < 4000" and "unat quote \<le> 2 ^ 53"
  shows "unat (min_out_of quote (compute_effective_slippage amount reserve tol)) \<le> unat quote"
proof -
  obtain s where s: "compute_effective_slippage amount reserve tol = Fin s" "0 \<le> s" "s \<le> 1"
    using assms(1) by (rule slippage_range)
  let ?w = "of_nat (unat quote) :: rat"
  have r: "representable ?w" using representable_of_int [of "int (unat quote)"] assms(2) by (simp del: of_nat_unat)
  have w: "?w \<le> 2 ^ 53" using assms(2) by (metis of_nat_le_iff of_nat_numeral of_nat_power)
  have x: "0 \<le> ?w * s" "?w * s \<le> ?w" using s by (simp_all add: mult_left_le del: of_nat_unat)
  have f: "to_f64 (?w * s) = Fin (rnd (?w * s))" by (rule to_f64_Fin [OF _ r]) (use x w in auto)
  have "rnd (?w * s) \<le> ?w" by (rule rnd_le [OF x(2) r])
  then have "\<lfloor>rnd (?w * s)\<rfloor> \<le> int (unat quote)" by (simp add: floor_le_iff del: of_nat_unat)
  then have "nat \<lfloor>rnd (?w * s)\<rfloor> \<le> unat quote" by linarith
  then show ?thesis
    using f rnd_nonneg [OF x(1)]
    by (auto simp: min_out_of_def unat_f64_as_u64 f64_of_u64_exact [OF assms(2)] s(1) simp del: of_nat_unat)
qed

lemma sol_to_lamports_Fin:
  "unat (sol_to_lamports (Fin q)) = nat (max 0 (min (2 ^ 64 - 1) \<lfloor>rnd (q * 1000000000)\<rfloor>))"
proof -
  let ?r = "rnd (q * 1000000000)"
  have rep: "representable (2 ^ 64)"
    unfolding representable_def by (rule exI [of _ 1], rule exI [of _ 64]) (simp add: power_int_def)
  have big: "rnd (2 ^ 64 - 1) = 2 ^ 64"
  proof (rule antisym)
    show "rnd (2 ^ 64 - 1) \<le> 2 ^ 64" by (rule rnd_le [OF _ rep]) simp
    have "rnd (2 ^ 64 - 1) = rnd (2 ^ 64 - 1)" ..
    show "2 ^ 64 \<le> rnd (2 ^ 64 - 1)"
      using rnd_eqI [of 63 "2 ^ 64 - 1" "2 ^ 53"] by (simp add: power_int_def)
  qed
  have m1: "unat (- 1 :: u64) = 2 ^ 64 - 1"
    by (simp add: unsigned_minus_1_eq_mask mask_eq_exp_minus_1)
  have max_f: "f64_of_u64 (- 1) = Fin (2 ^ 64)"
    using big by (simp add: f64_of_u64_Fin m1 del: of_nat_unat)
  show ?thesis
  proof (cases "2 ^ 1024 \<le> \<bar>?r\<bar>")
    case True
    then have "to_f64 (q * 1000000000) = Inf (0 < ?r)" by (simp add: to_f64_def)
    moreover have "?r \<le> - (2 ^ 1024) \<or> 2 ^ 1024 \<le> ?r" using True by linarith
    ultimately show ?thesis
      by (auto simp: sol_to_lamports_def Let_def max_f m1 le_floor_iff)
  next
    case False
    then have "to_f64 (q * 1000000000) = Fin ?r" by (simp add: to_f64_def)
    then show ?thesis
      by (auto simp: sol_to_lamports_def Let_def max_f m1 unat_f64_as_u64 le_floor_iff floor_less_iff)
  qed
qed

text \<open>The conversion of SOL to lamports is the rounded product cut off to \<open>u64\<close>; it is monotone.\<close>

lemma sol_to_lamports_saturates:
  "unat (sol_to_lamports (Fin q)) = nat (max 0 (min (2 ^ 64 - 1) \<lfloor>rnd (q * 1000000000)\<rfloor>)) \<and>
   (p \<le> q \<longrightarrow> unat (sol_to_lamports (Fin p)) \<le> unat (sol_to_lamports (Fin q)))"
proof -
  have "rnd (p * 1000000000) \<le> rnd (q * 1000000000)" if "p \<le> q" using that by (intro rnd_mono) simp
  then have "\<lfloor>rnd (p * 1000000000)\<rfloor> \<le> \<lfloor>rnd (q * 1000000000)\<rfloor>" if "p \<le> q"
    using that by (intro floor_mono) simp
  then show ?thesis unfolding sol_to_lamports_Fin by (auto intro: nat_mono max.mono min.mono)
qed

end
