(* ===== verification/Bot_Rpc.thy ===== *)
theory Bot_Rpc
  imports Bot_Types Client_Quotes
begin

text \<open>
  The bot's side of its connections: the endpoint pool (\<open>executor/rpc_pool.rs\<close>) with the failover
  of \<open>main_loop.rs\<close>, the durable nonce (\<open>executor/nonce.rs\<close>), and the replenishing of wrapped SOL
  (\<open>main_loop.rs\<close>) with its in-flight flag.
\<close>

section \<open>The endpoint pool\<close>

text \<open>The counter is a \<open>usize\<close> and wraps. \<open>RpcPool::new\<close> puts the primary endpoint first, so the pool is
  never empty.\<close>

record 'a rpc_pool =
  rp_clients :: "'a list"
  rp_counter :: u64

definition rpc_pool_new :: "'a \<Rightarrow> 'a list \<Rightarrow> 'a rpc_pool" where
  "rpc_pool_new primary fallbacks = \<lparr>rp_clients = primary # fallbacks, rp_counter = 0\<rparr>"

definition rpc_current :: "'a rpc_pool \<Rightarrow> 'a \<times> 'a rpc_pool" where
  "rpc_current p =
     (rp_clients p ! (unat (rp_counter p) mod length (rp_clients p)), p\<lparr>rp_counter := rp_counter p + 1\<rparr>)"

definition rpc_rotate :: "'a rpc_pool \<Rightarrow> 'a \<times> 'a rpc_pool" where
  "rpc_rotate p =
     (rp_clients p ! (unat (rp_counter p) mod length (rp_clients p)), p\<lparr>rp_counter := rp_counter p + 2\<rparr>)"

definition contains :: "string \<Rightarrow> string \<Rightarrow> bool" where
  "contains hay needle = list_ex (\<lambda>i. take (length needle) (drop i hay) = needle) [0..<Suc (length hay)]"

definition is_connection_error :: "string \<Rightarrow> bool" where
  "is_connection_error error_msg =
     list_ex (contains error_msg)
       [''timed out'', ''connection'', ''Connection'', ''deadline'', ''error trying to connect'', ''Timeout'']"

definition maybe_failover :: "string \<Rightarrow> 'a rpc_pool \<Rightarrow> 'a rpc_pool" where
  "maybe_failover error_msg p = (if is_connection_error error_msg then snd (rpc_rotate p) else p)"

text \<open>The endpoints of \<open>k\<close> consecutive calls of \<open>current\<close>.\<close>

primrec picks :: "nat \<Rightarrow> 'a rpc_pool \<Rightarrow> 'a list" where
  "picks 0 p = []"
| "picks (Suc k) p = (let (x, p') = rpc_current p in x # picks k p')"

lemma picks_nth:
  assumes "unat (rp_counter p) + k \<le> 2 ^ 64"
  shows "picks k p = map (\<lambda>i. rp_clients p ! ((unat (rp_counter p) + i) mod length (rp_clients p))) [0..<k]"
  using assms
proof (induction k arbitrary: p)
  case (Suc k)
  let ?p = "p\<lparr>rp_counter := rp_counter p + 1\<rparr>" and ?n = "length (rp_clients p)"
  show ?case
  proof (cases "k = 0")
    case False
    then have u: "unat (rp_counter p + 1) = unat (rp_counter p) + 1"
      using Suc.prems by (simp add: unat_word_ariths)
    have "picks k ?p = map (\<lambda>i. rp_clients p ! ((unat (rp_counter p) + Suc i) mod ?n)) [0..<k]"
      using Suc.IH [of ?p] Suc.prems by (simp add: u)
    then show ?thesis
      unfolding upt_conv_Cons [OF zero_less_Suc] map_Suc_upt [symmetric]
      by (simp add: rpc_current_def o_def del: upt_Suc)
  qed (simp add: rpc_current_def)
qed simp

lemma picks_rotate:
  assumes "unat (rp_counter p) + length (rp_clients p) \<le> 2 ^ 64"
  shows "picks (length (rp_clients p)) p = rotate (unat (rp_counter p)) (rp_clients p)"
  by (rule nth_equalityI) (simp_all add: picks_nth [OF assms] nth_rotate)

section \<open>Durable nonce\<close>

record nonce_data =
  nd_blockhash :: "byte list"
  nd_nonce_value :: u64

definition NONCE_ACCOUNT_SIZE :: nat where
  "NONCE_ACCOUNT_SIZE = 80"

definition parse_nonce_data :: "byte list \<Rightarrow> nonce_data option" where
  "parse_nonce_data data =
     (if length data < NONCE_ACCOUNT_SIZE then None
      else
        (let version = from_le (take 4 data);
             state = from_le (take 4 (drop 4 data)) in
         if version \<noteq> 1 \<or> state \<noteq> 1 then None
         else Some \<lparr>nd_blockhash = take 32 (drop 40 data),
                    nd_nonce_value = u64_from_le (take 8 (drop 8 data))\<rparr>))"

definition fetch_nonce_data :: "(pubkey \<Rightarrow> byte list option) \<Rightarrow> pubkey \<Rightarrow> nonce_data client_result" where
  "fetch_nonce_data account nonce_account =
     and_then (ok_or (account nonce_account) (Failed ''fetch nonce account'')) (\<lambda>data.
     ok_or (parse_nonce_data data) (Failed ''parse nonce account''))"

type_synonym nonce_cache = "(pubkey \<times> nonce_data) option"

definition cached_nonce_data :: "(pubkey \<Rightarrow> byte list option) \<Rightarrow> pubkey \<Rightarrow> nonce_cache
    \<Rightarrow> nonce_data client_result \<times> nonce_cache" where
  "cached_nonce_data account nonce_account cache =
     (let fetch = (case fetch_nonce_data account nonce_account of
                     Ok nd \<Rightarrow> (Ok nd, Some (nonce_account, nd))
                   | r \<Rightarrow> (r, cache)) in
      case cache of
        Some (pk, nd) \<Rightarrow> if pk = nonce_account then (Ok nd, cache) else fetch
      | None \<Rightarrow> fetch)"

definition invalidate_nonce_cache :: "nonce_cache \<Rightarrow> nonce_cache" where
  "invalidate_nonce_cache cache = None"

definition build_advance_nonce_ix :: "pubkey \<Rightarrow> pubkey \<Rightarrow> instruction" where
  "build_advance_nonce_ix nonce_account authority =
     \<lparr>ix_program_id = pubkey_lit ''11111111111111111111111111111111'',
      ix_accounts =
        [meta_new nonce_account False,
         meta_readonly (pubkey_lit ''SysvarRecentB1ockHashes11111111111111111111'') False,
         meta_readonly authority True],
      ix_data = [4, 0, 0, 0]\<rparr>"

text \<open>Once cached, a nonce is returned without a read until it is invalidated.\<close>

lemma nonce_cached:
  assumes "cached_nonce_data account k cache = (Ok nd, cache')"
  shows "cached_nonce_data account' k cache' = (Ok nd, cache')"
proof (cases "\<exists>nd. cache = Some (k, nd)")
  case True
  then show ?thesis using assms by (auto simp: cached_nonce_data_def)
next
  case False
  then have "(case fetch_nonce_data account k of Ok nd \<Rightarrow> (Ok nd, Some (k, nd)) | r \<Rightarrow> (r, cache)) = (Ok nd, cache')"
    using assms by (cases cache) (auto simp: cached_nonce_data_def Let_def)
  then have "cache' = Some (k, nd)" by (cases "fetch_nonce_data account k") auto
  then show ?thesis by (simp add: cached_nonce_data_def)
qed

section \<open>Wrapped SOL\<close>

text \<open>What the RPC answers during one call: the raw token amount of the WSOL account (\<open>None\<close> if it
  does not exist), the lamports of the wallet (zero by default), and whether the block hash and the
  submission succeed. \<open>amount\<close> is the decimal string of an integer, which \<open>parse::<f64>\<close> rounds.\<close>

record wrap_env =
  we_amount :: "u64 option"
  we_native :: u64
  we_blockhash_ok :: bool
  we_send_ok :: bool

definition sat_add :: "u64 \<Rightarrow> u64 \<Rightarrow> u64" where
  "sat_add a b = (if unat a + unat b < 2 ^ 64 then a + b else - 1)"

definition wsol_lamports :: "u64 \<Rightarrow> u64" where
  "wsol_lamports amount = sol_to_lamports (f64_of_u64 amount)"

definition wsol_required :: "risk_config \<Rightarrow> u64 \<Rightarrow> u64" where
  "wsol_required risk investment_lamports =
     sat_add investment_lamports (sol_to_lamports (f_mul (rc_max_single_investment_sol risk) (Fin 2)))"

text \<open>The state is the flag \<open>WRAP_IN_FLIGHT\<close> and the number of timers that will reset it. The result
  is the returned value and the amount of the wrap transaction, if one was sent.\<close>

definition ensure_wsol_balance :: "risk_config \<Rightarrow> u64 \<Rightarrow> wrap_env \<Rightarrow> bool \<times> nat
    \<Rightarrow> bool \<times> u64 option \<times> (bool \<times> nat)" where
  "ensure_wsol_balance risk investment_lamports env s =
     (case we_amount env of
        None \<Rightarrow> (False, None, s)
      | Some amount \<Rightarrow>
          (let wsol = wsol_lamports amount;
               required = wsol_required risk investment_lamports in
           if required \<le> wsol then (False, None, s)
           else
             (let deficit = required - wsol;
                  wrap_amount = min deficit (sat_sub (we_native env) 100000) in
              if wrap_amount < 50000000 then (False, None, s)
              else if fst s then (False, None, s)
              else if \<not> we_blockhash_ok env then (False, None, (True, snd s))
              else if \<not> we_send_ok env then (False, None, (False, snd s))
              else (True, Some wrap_amount, (True, Suc (snd s))))))"

inductive wrap_step :: "risk_config \<Rightarrow> bool \<times> nat \<Rightarrow> u64 option \<Rightarrow> bool \<times> nat \<Rightarrow> bool" for risk where
  call: "ensure_wsol_balance risk investment env s = (r, sent, s') \<Longrightarrow> wrap_step risk s sent s'"
| timer: "wrap_step risk (flag, Suc n) None (False, n)"

inductive wrap_run :: "risk_config \<Rightarrow> bool \<times> nat \<Rightarrow> u64 option list \<Rightarrow> bool \<times> nat \<Rightarrow> bool" for risk where
  stop: "wrap_run risk s [] s"
| go: "wrap_step risk s sent s' \<Longrightarrow> wrap_run risk s' rest s'' \<Longrightarrow> wrap_run risk s (sent # rest) s''"

inductive_cases wrap_stepE: "wrap_step risk s sent s'"

lemma stuck_step: "wrap_step risk (True, 0) sent s' \<Longrightarrow> sent = None \<and> s' = (True, 0)"
  by (elim wrap_stepE) (auto simp: ensure_wsol_balance_def Let_def split: option.splits if_splits)

lemma stuck_run: "wrap_run risk s sents s' \<Longrightarrow> s = (True, 0) \<Longrightarrow> set sents \<subseteq> {None} \<and> s' = (True, 0)"
  by (induction rule: wrap_run.induct) (auto dest: stuck_step)

text \<open>The raw amount is already in lamports, but is converted as if it were SOL.\<close>

lemma wsol_lamports_small:
  assumes "unat amount \<le> 9007199"
  shows "unat (wsol_lamports amount) = unat amount * 10 ^ 9"
proof -
  let ?a = "of_nat (unat amount) :: rat"
  have "f64_of_u64 amount = Fin ?a" using assms by (intro f64_of_u64_exact) simp
  moreover have "representable (of_int (int n * 10 ^ 9))" if "n \<le> 9007199" for n :: nat
    using that by (intro representable_of_int) simp
  then have "representable (of_int (int (unat amount) * 10 ^ 9))" using assms .
  then have "rnd (?a * 1000000000) = of_int (int (unat amount) * 10 ^ 9)"
    by (simp add: rnd_representable del: of_nat_unat)
  moreover have "\<lfloor>?a * 1000000000\<rfloor> = int (unat amount * 10 ^ 9)"
    by (rule floor_unique) simp_all
  ultimately show ?thesis
    using assms by (simp add: wsol_lamports_def sol_to_lamports_Fin del: of_nat_unat)
qed

section \<open>Properties\<close>

text \<open>C24: The pool is fair: as long as the counter does not wrap, any \<open>n\<close> consecutive requests to a
  pool of \<open>n\<close> endpoints go to every endpoint once, in the configured order. A failover, however,
  skips one endpoint too many: after a failed request the failover returns the next endpoint and
  the request after that goes to the endpoint three after the failed one, which is the failed one
  itself for one and for three endpoints.\<close>

theorem rpc_pool_fair:
  assumes "rp_clients p \<noteq> []" and "unat (rp_counter p) + length (rp_clients p) + 3 \<le> 2 ^ 64"
    and "n = length (rp_clients p)" and "distinct (rp_clients p)"
  shows "picks n p = rotate (unat (rp_counter p)) (rp_clients p) \<and>
    set (picks n p) = set (rp_clients p) \<and>
    (let (failed, p1) = rpc_current p; (next, p2) = rpc_rotate p1; (after, p3) = rpc_current p2 in
       next = rp_clients p ! ((unat (rp_counter p) + 1) mod n) \<and>
       after = rp_clients p ! ((unat (rp_counter p) + 3) mod n) \<and>
       (after = failed \<longleftrightarrow> n = 1 \<or> n = 3))"
proof -
  let ?c = "unat (rp_counter p)"
  have u: "unat (rp_counter p + 1) = ?c + 1" "unat (rp_counter p + 3) = ?c + 3"
    using assms(1,2) by (cases "rp_clients p"; simp add: unat_word_ariths)+
  have pos: "0 < n" using assms(1,3) by simp
  have "rp_clients p ! ((?c + 3) mod n) = rp_clients p ! (?c mod n) \<longleftrightarrow> (?c + 3) mod n = ?c mod n"
    using assms(3,4) pos by (simp add: nth_eq_iff_index_eq)
  also have "\<dots> \<longleftrightarrow> n dvd 3" by (metis add.commute mod_eq_dvd_iff_nat add_diff_cancel_left' le_add1)
  also have "\<dots> \<longleftrightarrow> n = 1 \<or> n = 3"
  proof
    assume d: "n dvd 3"
    then have "n \<le> 3" by (simp add: dvd_imp_le)
    moreover have "n \<noteq> 2" using d by auto
    ultimately show "n = 1 \<or> n = 3" using pos by linarith
  qed auto
  finally have three: "rp_clients p ! ((?c + 3) mod n) = rp_clients p ! (?c mod n) \<longleftrightarrow> n = 1 \<or> n = 3" .
  have "picks n p = rotate ?c (rp_clients p)" using picks_rotate [of p] assms(2,3) by simp
  then show ?thesis
    using three by (simp add: rpc_current_def rpc_rotate_def u assms(3) [symmetric] add.assoc)
qed

theorem rpc_pool_fair_witness:
  "set (picks 3 (rpc_pool_new ''a'' [''b'', ''c''])) = {''a'', ''b'', ''c''}"
  using rpc_pool_fair [of "rpc_pool_new ''a'' [''b'', ''c'']" 3] by (simp add: rpc_pool_new_def Let_def case_prod_beta)

text \<open>The replenishing of wrapped SOL can stop for good. If the block hash cannot be read after
  the in-flight flag was set, the flag stays set with no timer to reset it, and then no wrap is
  ever sent again, whatever the balances and the RPC do.\<close>

lemma wrap_stuck_forever:
  assumes "ensure_wsol_balance risk investment env (False, 0) = (r, sent, s)" and "\<not> we_blockhash_ok env"
    and "wsol_required risk investment > wsol_lamports amount" and "we_amount env = Some amount"
    and "50000000 \<le> min (wsol_required risk investment - wsol_lamports amount) (sat_sub (we_native env) 100000)"
    and "wrap_run risk s sents s'"
  shows "r = False \<and> sent = None \<and> s' = (True, 0) \<and> set sents \<subseteq> {None}"
proof -
  have "r = False" "sent = None" "s = (True, 0)"
    using assms(1-5) by (auto simp: ensure_wsol_balance_def Let_def not_less [symmetric])
  then show ?thesis using stuck_run [OF assms(6)] by simp
qed

text \<open>The balance of wrapped SOL is read a billion times too high: below 0.009 SOL, an account
  of \<open>a\<close> lamports counts as \<open>a\<close> SOL, so a wrap is not sent as soon as \<open>a\<close> is the required amount in
  SOL, although the account holds a billionth of it.\<close>

lemma wsol_balance_overestimated:
  assumes "unat amount \<le> 9007199" and "we_amount env = Some amount"
    and "unat (wsol_required risk investment) \<le> unat amount * 10 ^ 9"
  shows "unat (wsol_lamports amount) = unat amount * 10 ^ 9 \<and>
    ensure_wsol_balance risk investment env s = (False, None, s)"
proof -
  have "wsol_required risk investment \<le> wsol_lamports amount"
    using assms(3) wsol_lamports_small [OF assms(1)] by (simp add: word_le_nat_alt)
  then show ?thesis using wsol_lamports_small [OF assms(1)] assms(2) by (simp add: ensure_wsol_balance_def)
qed

end
