(* ===== verification/Bot_Store.thy ===== *)
theory Bot_Store
  imports Client_Transactions
begin

text \<open>
  The bot's persistent state: the tables of \<open>persistence.rs\<close> behind the whitelist
  (\<open>whitelist.rs\<close>), the reserve owner cache (\<open>executor/atomic/onchain_router.rs\<close>) and the pair
  cache (\<open>pool_cache/dlmm/cache.rs\<close>). A table is the list of its rows; a failed SQL statement is
  only logged, so every write takes a flag that says whether it succeeded. What the three caches
  share is stated as the locale \<open>write_through\<close>: a restart, which replaces the memory by what the
  tables hold, is not observable. The time stamps of the rows are not read anywhere.
\<close>

section \<open>Tables\<close>

text \<open>\<open>INSERT OR REPLACE\<close> on the primary key of the first column.\<close>

definition upsert_row :: "bool \<Rightarrow> 'k \<Rightarrow> 'v \<Rightarrow> ('k \<times> 'v) list \<Rightarrow> ('k \<times> 'v) list" where
  "upsert_row ok k v rows = (if ok then filter (\<lambda>r. fst r \<noteq> k) rows @ [(k, v)] else rows)"

text \<open>Collecting rows into a \<open>HashMap\<close>: later rows win.\<close>

definition collect_rows :: "('k \<times> 'v) list \<Rightarrow> ('k \<rightharpoonup> 'v)" where
  "collect_rows rows = map_of (rev rows)"

lemma map_of_filter_key: "x \<noteq> k \<Longrightarrow> map_of (filter (\<lambda>r. fst r \<noteq> k) rows) x = map_of rows x"
  by (induction rows) auto

lemma collect_upsert [simp]: "collect_rows (upsert_row True k v rows) = (collect_rows rows)(k \<mapsto> v)"
proof
  fix x
  have "map_of (rev (filter (\<lambda>r. fst r \<noteq> k) rows)) x = map_of (rev rows) x" if "x \<noteq> k"
    unfolding rev_filter by (rule map_of_filter_key [OF that])
  then show "collect_rows (upsert_row True k v rows) x = ((collect_rows rows)(k \<mapsto> v)) x"
    by (simp add: collect_rows_def upsert_row_def)
qed

lemma distinct_upsert [simp]:
  "distinct (map fst rows) \<Longrightarrow> distinct (map fst (upsert_row ok k v rows))"
  by (auto simp: upsert_row_def distinct_map inj_on_def)

section \<open>Write-through caches\<close>

text \<open>A run of operations on memory and tables; \<open>None\<close> is a restart, which loads the memory anew.\<close>

primrec run_steps :: "('db \<Rightarrow> 'mem) \<Rightarrow> ('op \<Rightarrow> 'mem \<times> 'db \<Rightarrow> 'r \<times> 'mem \<times> 'db) \<Rightarrow> 'op option list
    \<Rightarrow> 'mem \<times> 'db \<Rightarrow> 'r list \<times> 'mem \<times> 'db" where
  "run_steps load step [] s = ([], s)"
| "run_steps load step (x # xs) s =
     (case x of
        None \<Rightarrow> run_steps load step xs (load (snd s), snd s)
      | Some a \<Rightarrow> (let (r, s') = step a s; (rs, t) = run_steps load step xs s' in (r # rs, t)))"

text \<open>
  \<open>load\<close> rebuilds the memory from the tables, \<open>step\<close> is one operation on both. The law says that
  an operation on freshly loaded memory leaves memory and tables in agreement.
\<close>

locale write_through =
  fixes load :: "'db \<Rightarrow> 'mem" and step :: "'op \<Rightarrow> 'mem \<times> 'db \<Rightarrow> 'r \<times> 'mem \<times> 'db"
    and wf :: "'db \<Rightarrow> bool"
  assumes step_load: "wf db \<Longrightarrow> step x (load db, db) = (r, mem', db') \<Longrightarrow> mem' = load db' \<and> wf db'"
begin

lemma run_agrees:
  assumes "wf db" and "run_steps load step xs (load db, db) = (rs, mem', db')"
  shows "mem' = load db' \<and> wf db'"
  using assms
proof (induction xs arbitrary: db rs mem' db')
  case (Cons x xs)
  show ?case
  proof (cases x)
    case None
    then have "run_steps load step xs (load db, db) = (rs, mem', db')" using Cons.prems(2) by simp
    with Cons.prems(1) show ?thesis by (rule Cons.IH)
  next
    case (Some a)
    obtain r m d where s: "step a (load db, db) = (r, m, d)" by (metis prod_cases3)
    have md: "m = load d" "wf d" using step_load [OF Cons.prems(1) s] by auto
    obtain rs1 m1 d1 where t: "run_steps load step xs (load d, d) = (rs1, m1, d1)" by (metis prod_cases3)
    have "mem' = m1" "db' = d1" using Cons.prems(2) by (auto simp: Some s md t)
    then show ?thesis using Cons.IH [OF md(2) t] by simp
  qed
qed auto

lemma restarts_invisible:
  assumes "wf db"
  shows "run_steps load step xs (load db, db) = run_steps load step (filter (\<lambda>x. x \<noteq> None) xs) (load db, db)"
  using assms
proof (induction xs arbitrary: db)
  case (Cons x xs)
  show ?case
  proof (cases x)
    case None
    then show ?thesis using Cons.IH [OF Cons.prems] by simp
  next
    case (Some a)
    obtain r m d where s: "step a (load db, db) = (r, m, d)" by (metis prod_cases3)
    have md: "m = load d" "wf d" using step_load [OF Cons.prems s] by auto
    show ?thesis using Cons.IH [OF md(2)] by (simp add: Some s md)
  qed
qed simp

end

section \<open>The whitelist\<close>

record whitelist =
  wl_profitable :: "string set"
  wl_verified :: "string set"
  wl_all :: "string set"
  wl_blacklisted :: "string set"

type_synonym whitelist_rows = "(string \<times> string) list"

definition whitelist_load_all :: "whitelist_rows \<Rightarrow> string list \<times> string list \<times> string list" where
  "whitelist_load_all rows =
     (map fst (filter (\<lambda>r. snd r = ''profitable'') rows),
      map fst (filter (\<lambda>r. snd r \<noteq> ''profitable'' \<and> snd r \<noteq> ''blacklisted'') rows),
      map fst (filter (\<lambda>r. snd r = ''blacklisted'') rows))"

definition whitelist_upsert :: "bool \<Rightarrow> string \<Rightarrow> string \<Rightarrow> whitelist_rows \<Rightarrow> whitelist_rows" where
  "whitelist_upsert ok mint category rows = upsert_row ok mint category rows"

definition whitelist_delete :: "bool \<Rightarrow> string \<Rightarrow> whitelist_rows \<Rightarrow> whitelist_rows" where
  "whitelist_delete ok mint rows =
     (if ok then filter (\<lambda>r. \<not> (fst r = mint \<and> snd r \<noteq> ''blacklisted'')) rows else rows)"

definition whitelist_get_all_active :: "whitelist_rows \<Rightarrow> string list" where
  "whitelist_get_all_active rows = map fst (filter (\<lambda>r. snd r \<noteq> ''blacklisted'') rows)"

definition whitelist_load :: "whitelist_rows \<Rightarrow> whitelist" where
  "whitelist_load rows =
     (let (profitable, verified, blacklisted) = whitelist_load_all rows in
      \<lparr>wl_profitable = set profitable, wl_verified = set verified,
       wl_all = set profitable \<union> set verified, wl_blacklisted = set blacklisted\<rparr>)"

definition whitelist_contains :: "whitelist \<Rightarrow> string \<Rightarrow> bool" where
  "whitelist_contains wl mint \<longleftrightarrow> mint \<in> wl_all wl"

definition is_blacklisted :: "whitelist \<Rightarrow> string \<Rightarrow> bool" where
  "is_blacklisted wl mint \<longleftrightarrow> mint \<in> wl_blacklisted wl"

definition whitelist_len :: "whitelist \<Rightarrow> nat" where
  "whitelist_len wl = card (wl_all wl)"

definition verify_and_add :: "bool \<Rightarrow> string \<Rightarrow> whitelist \<times> whitelist_rows \<Rightarrow> bool \<times> whitelist \<times> whitelist_rows" where
  "verify_and_add ok mint s =
     (let (wl, db) = s in
      if mint \<in> wl_all wl then (False, wl, db)
      else if mint \<in> wl_blacklisted wl then (False, wl, db)
      else (True,
            wl\<lparr>wl_verified := insert mint (wl_verified wl), wl_all := insert mint (wl_all wl)\<rparr>,
            whitelist_upsert ok mint ''verified'' db))"

definition mark_profitable :: "bool \<Rightarrow> string \<Rightarrow> whitelist \<times> whitelist_rows \<Rightarrow> whitelist \<times> whitelist_rows" where
  "mark_profitable ok mint s =
     (let (wl, db) = s in
      if mint \<in> wl_verified wl
      then (wl\<lparr>wl_verified := wl_verified wl - {mint}, wl_profitable := insert mint (wl_profitable wl)\<rparr>,
            whitelist_upsert ok mint ''profitable'' db)
      else (wl, db))"

text \<open>The disjunction is evaluated from the left: the second set is only touched if the first one
  did not hold the mint.\<close>

definition remove_single_venue :: "bool \<Rightarrow> string \<Rightarrow> whitelist \<times> whitelist_rows \<Rightarrow> bool \<times> whitelist \<times> whitelist_rows" where
  "remove_single_venue ok mint s =
     (let (wl, db) = s in
      if mint \<in> wl_blacklisted wl then (False, wl, db)
      else
        (let in_verified = (mint \<in> wl_verified wl);
             wl1 = (if in_verified then wl\<lparr>wl_verified := wl_verified wl - {mint}\<rparr> else wl);
             in_profitable = (\<not> in_verified \<and> mint \<in> wl_profitable wl1);
             wl2 = (if in_profitable then wl1\<lparr>wl_profitable := wl_profitable wl1 - {mint}\<rparr> else wl1);
             removed = (in_verified \<or> in_profitable) in
         if removed then (True, wl2\<lparr>wl_all := wl_all wl2 - {mint}\<rparr>, whitelist_delete ok mint db)
         else (False, wl2, db)))"

datatype whitelist_op = Verify string | Promote string | RemoveSingle string

fun whitelist_step :: "bool \<Rightarrow> whitelist_op \<Rightarrow> whitelist \<times> whitelist_rows \<Rightarrow> bool \<times> whitelist \<times> whitelist_rows" where
  "whitelist_step ok (Verify mint) s = verify_and_add ok mint s"
| "whitelist_step ok (Promote mint) s = (True, mark_profitable ok mint s)"
| "whitelist_step ok (RemoveSingle mint) s = remove_single_venue ok mint s"

lemmas whitelist_op_defs = verify_and_add_def mark_profitable_def remove_single_venue_def Let_def

subsection \<open>The sets stay consistent\<close>

definition whitelist_ok :: "whitelist \<Rightarrow> bool" where
  "whitelist_ok wl \<longleftrightarrow> wl_all wl = wl_profitable wl \<union> wl_verified wl \<and>
     wl_profitable wl \<inter> wl_verified wl = {} \<and> wl_all wl \<inter> wl_blacklisted wl = {}"

definition rows_ok :: "whitelist_rows \<Rightarrow> bool" where
  "rows_ok rows \<longleftrightarrow> distinct (map fst rows)"

lemma row_unique: "rows_ok rows \<Longrightarrow> (m, c) \<in> set rows \<Longrightarrow> (m, c') \<in> set rows \<Longrightarrow> c = c'"
  unfolding rows_ok_def by (metis eq_key_imp_eq_value)

lemma whitelist_load_sets:
  "wl_profitable (whitelist_load rows) = {m. (m, ''profitable'') \<in> set rows}"
  "wl_blacklisted (whitelist_load rows) = {m. (m, ''blacklisted'') \<in> set rows}"
  "wl_verified (whitelist_load rows)
     = {m. \<exists>c. (m, c) \<in> set rows \<and> c \<noteq> ''profitable'' \<and> c \<noteq> ''blacklisted''}"
  "wl_all (whitelist_load rows) = {m. \<exists>c. (m, c) \<in> set rows \<and> c \<noteq> ''blacklisted''}"
  by (auto simp: whitelist_load_def whitelist_load_all_def image_iff)

lemma whitelist_load_ok: "rows_ok rows \<Longrightarrow> whitelist_ok (whitelist_load rows)"
  unfolding whitelist_ok_def whitelist_load_sets by (auto dest: row_unique)

lemma whitelist_step_ok:
  assumes "whitelist_ok wl" and "whitelist_step ok x (wl, db) = (r, wl', db')"
  shows "whitelist_ok wl'"
  using assms by (cases x) (auto simp: whitelist_op_defs whitelist_ok_def split: if_splits)

lemma whitelist_step_blacklist:
  "whitelist_step ok x (wl, db) = (r, wl', db') \<Longrightarrow> wl_blacklisted wl' = wl_blacklisted wl"
  by (cases x) (auto simp: whitelist_op_defs split: if_splits)

lemma set_whitelist_upsert:
  "set (whitelist_upsert True m c rows) = {r \<in> set rows. fst r \<noteq> m} \<union> {(m, c)}"
  by (auto simp: whitelist_upsert_def upsert_row_def)

lemma rows_ok_upsert: "rows_ok rows \<Longrightarrow> rows_ok (whitelist_upsert ok m c rows)"
  by (simp add: rows_ok_def whitelist_upsert_def)

lemma rows_ok_delete: "rows_ok rows \<Longrightarrow> rows_ok (whitelist_delete ok m rows)"
  by (auto simp: rows_ok_def whitelist_delete_def distinct_map inj_on_def)

lemma whitelist_eqI:
  assumes "wl_profitable a = wl_profitable b" "wl_verified a = wl_verified b"
    "wl_all a = wl_all b" "wl_blacklisted a = wl_blacklisted (b :: whitelist)"
  shows "a = b"
  using assms by (cases a; cases b) simp

lemma verify_and_add_load:
  assumes "rows_ok db" and "verify_and_add True mint (whitelist_load db, db) = (r, wl', db')"
  shows "wl' = whitelist_load db' \<and> rows_ok db'"
proof (cases "r")
  case True
  have n: "mint \<notin> wl_all (whitelist_load db)" "mint \<notin> wl_blacklisted (whitelist_load db)"
    and e: "wl' = (whitelist_load db)\<lparr>wl_verified := insert mint (wl_verified (whitelist_load db)),
        wl_all := insert mint (wl_all (whitelist_load db))\<rparr>" "db' = whitelist_upsert True mint ''verified'' db"
    using assms(2) True by (auto simp: verify_and_add_def split: if_splits)
  have fresh: "\<And>c. (mint, c) \<notin> set db" using n by (auto simp: whitelist_load_sets)
  have "wl' = whitelist_load db'"
    unfolding e
    by (rule whitelist_eqI) (auto simp: whitelist_load_sets set_whitelist_upsert fresh)
  then show ?thesis using assms(1) by (simp add: e rows_ok_upsert)
qed (use assms in \<open>auto simp: verify_and_add_def split: if_splits\<close>)

lemma mark_profitable_load:
  assumes "rows_ok db" and "mark_profitable True mint (whitelist_load db, db) = (wl', db')"
  shows "wl' = whitelist_load db' \<and> rows_ok db'"
proof (cases "mint \<in> wl_verified (whitelist_load db)")
  case True
  then obtain c where c: "(mint, c) \<in> set db" "c \<noteq> ''profitable''" "c \<noteq> ''blacklisted''"
    by (auto simp: whitelist_load_sets)
  have e: "wl' = (whitelist_load db)\<lparr>wl_verified := wl_verified (whitelist_load db) - {mint},
        wl_profitable := insert mint (wl_profitable (whitelist_load db))\<rparr>"
      "db' = whitelist_upsert True mint ''profitable'' db"
    using assms(2) True by (auto simp: mark_profitable_def)
  have u: "\<And>c'. (mint, c') \<in> set db \<longleftrightarrow> c' = c" using c(1) row_unique [OF assms(1)] by blast
  have "wl' = whitelist_load db'"
    unfolding e using c(2,3)
    by (intro whitelist_eqI) (auto simp: whitelist_load_sets set_whitelist_upsert u)
  then show ?thesis using assms(1) by (simp add: e rows_ok_upsert)
qed (use assms in \<open>auto simp: mark_profitable_def\<close>)

lemma remove_single_venue_removed:
  assumes "whitelist_ok wl" and "remove_single_venue ok mint (wl, db) = (True, wl', db')"
  shows "mint \<in> wl_all wl" "mint \<notin> wl_blacklisted wl" "db' = whitelist_delete ok mint db"
    and "wl' = wl\<lparr>wl_verified := wl_verified wl - {mint}, wl_profitable := wl_profitable wl - {mint},
           wl_all := wl_all wl - {mint}\<rparr>"
proof -
  have "wl_profitable wl - {mint} = wl_profitable wl" if "mint \<in> wl_verified wl"
    using that assms(1) by (auto simp: whitelist_ok_def)
  moreover have "wl_verified wl - {mint} = wl_verified wl" if "mint \<notin> wl_verified wl"
    using that by simp
  ultimately show "mint \<in> wl_all wl" "mint \<notin> wl_blacklisted wl" "db' = whitelist_delete ok mint db"
    "wl' = wl\<lparr>wl_verified := wl_verified wl - {mint}, wl_profitable := wl_profitable wl - {mint},
           wl_all := wl_all wl - {mint}\<rparr>"
    using assms by (auto simp: remove_single_venue_def Let_def whitelist_ok_def split: if_splits)
qed

lemma remove_single_venue_load:
  assumes "rows_ok db" and "remove_single_venue True mint (whitelist_load db, db) = (r, wl', db')"
  shows "wl' = whitelist_load db' \<and> rows_ok db'"
proof (cases r)
  case True
  let ?wl = "whitelist_load db"
  have ok: "whitelist_ok ?wl" using assms(1) by (rule whitelist_load_ok)
  have n: "mint \<notin> wl_blacklisted ?wl" and m: "mint \<in> wl_all ?wl" and d: "db' = whitelist_delete True mint db"
    and w: "wl' = ?wl\<lparr>wl_verified := wl_verified ?wl - {mint}, wl_profitable := wl_profitable ?wl - {mint},
         wl_all := wl_all ?wl - {mint}\<rparr>"
    using remove_single_venue_removed [OF ok, of True mint db wl' db'] assms(2) True by auto
  have "wl' = whitelist_load db'"
    unfolding w d using n
    by (intro whitelist_eqI) (auto simp: whitelist_load_sets whitelist_delete_def)
  then show ?thesis using assms(1) by (simp add: d rows_ok_delete)
qed (use assms in \<open>auto simp: whitelist_op_defs split: if_splits\<close>)

interpretation whitelist: write_through whitelist_load "whitelist_step True" rows_ok
proof
  fix db x r mem' db'
  assume "rows_ok db" and "whitelist_step True x (whitelist_load db, db) = (r, mem', db')"
  then show "mem' = whitelist_load db' \<and> rows_ok db'"
    by (cases x) (auto dest: verify_and_add_load mark_profitable_load remove_single_venue_load)
qed

section \<open>The reserve owner cache\<close>

text \<open>
  \<open>DB_TP_CACHE\<close>: which token program owns a DLMM reserve account. \<open>pda\<close> derives the reserve
  addresses and \<open>owners\<close> is the batched RPC read: \<open>None\<close> if the request fails, else the owner of each
  account that exists. Addresses stand for their string forms.
\<close>

record dlmm_meta =
  dm_lb_pair :: string
  dm_token_x_mint :: string
  dm_token_y_mint :: string
  dm_bin_step :: u16
  dm_base_factor :: u16
  dm_bin_array_bitmap_extension :: "string option"

type_synonym owner_rows = "(pubkey \<times> pubkey) list"
type_synonym owner_cache = "pubkey \<rightharpoonup> pubkey"

definition reserve_owners_load_all :: "owner_rows \<Rightarrow> owner_cache" where
  "reserve_owners_load_all rows = collect_rows rows"

definition reserve_owner_save :: "bool \<Rightarrow> pubkey \<Rightarrow> pubkey \<Rightarrow> owner_rows \<Rightarrow> owner_rows" where
  "reserve_owner_save ok reserve_address owner_program rows = upsert_row ok reserve_address owner_program rows"

text \<open>The addresses to fetch: the two reserves of every pool, without those already cached and
  without repetitions, in order.\<close>

definition meta_reserves :: "pda_fn \<Rightarrow> parse_key \<Rightarrow> dlmm_meta \<Rightarrow> pubkey list" where
  "meta_reserves pda parse_key meta =
     (case (parse_key (dm_lb_pair meta), parse_key (dm_token_x_mint meta), parse_key (dm_token_y_mint meta)) of
        (Some lb, Some tx, Some ty) \<Rightarrow>
          map (\<lambda>token. pda [key_bytes lb, key_bytes token] (pubkey_lit DLMM_PROGRAM)) [tx, ty]
      | _ \<Rightarrow> [])"

fun unseen :: "owner_cache \<Rightarrow> pubkey set \<Rightarrow> pubkey list \<Rightarrow> pubkey list" where
  "unseen cache seen [] = []"
| "unseen cache seen (k # ks) =
     (if cache k = None \<and> k \<notin> seen then k # unseen cache (insert k seen) ks
      else unseen cache seen ks)"

function chunks :: "nat \<Rightarrow> 'a list \<Rightarrow> 'a list list" where
  "chunks n xs = (if n = 0 \<or> xs = [] then [] else take n xs # chunks n (drop n xs))"
  by auto
termination by (relation "measure (\<lambda>(n, xs). length xs)") auto

declare chunks.simps [simp del]

lemma concat_chunks: "0 < n \<Longrightarrow> concat (chunks n xs) = xs"
  by (induction n xs rule: chunks.induct) (subst chunks.simps, auto)

definition record_owner :: "bool \<Rightarrow> pubkey \<times> pubkey option \<Rightarrow> owner_cache \<times> owner_rows \<Rightarrow> owner_cache \<times> owner_rows" where
  "record_owner ok entry s =
     (case entry of (pk, acct_opt) \<Rightarrow> case acct_opt of
        None \<Rightarrow> s
      | Some owner \<Rightarrow>
          if owner = pubkey_lit TOKEN_PROGRAM \<or> owner = pubkey_lit TOKEN22_PROGRAM
          then ((fst s)(pk \<mapsto> owner), reserve_owner_save ok pk owner (snd s)) else s)"

definition warm_chunk :: "bool \<Rightarrow> (pubkey list \<Rightarrow> pubkey option list option) \<Rightarrow> pubkey list
    \<Rightarrow> owner_cache \<times> owner_rows \<Rightarrow> owner_cache \<times> owner_rows" where
  "warm_chunk ok owners chunk s =
     (case owners chunk of None \<Rightarrow> s | Some accounts \<Rightarrow> fold (record_owner ok) (zip chunk accounts) s)"

definition warmup_tp_cache :: "pda_fn \<Rightarrow> parse_key \<Rightarrow> bool \<Rightarrow> (pubkey list \<Rightarrow> pubkey option list option)
    \<Rightarrow> dlmm_meta list \<Rightarrow> owner_cache \<times> owner_rows \<Rightarrow> owner_cache \<times> owner_rows" where
  "warmup_tp_cache pda parse_key ok owners metadata s =
     (let to_fetch = unseen (fst s) {} (concat (map (meta_reserves pda parse_key) metadata)) in
      fold (warm_chunk ok owners) (chunks 100 to_fetch) s)"

lemma record_owner_load:
  "record_owner True entry (reserve_owners_load_all db, db) = (m, d) \<Longrightarrow> m = reserve_owners_load_all d"
  by (auto simp: record_owner_def reserve_owners_load_all_def reserve_owner_save_def
      split: prod.splits option.splits if_splits)

lemma fold_load:
  assumes "\<And>x db m d. f x (load db, db) = (m, d) \<Longrightarrow> m = load d"
  shows "fold f xs (load db, db) = (m, d) \<Longrightarrow> m = load d"
proof (induction xs arbitrary: db m d)
  case (Cons x xs)
  obtain m1 d1 where s: "f x (load db, db) = (m1, d1)" by force
  with assms have "m1 = load d1" .
  with Cons s show ?case by simp
qed simp

lemma warm_chunk_load:
  "warm_chunk True owners chunk (reserve_owners_load_all db, db) = (m, d) \<Longrightarrow> m = reserve_owners_load_all d"
  by (auto simp: warm_chunk_def split: option.splits dest: fold_load [OF record_owner_load, rotated])

lemma warmup_load:
  "warmup_tp_cache pda parse_key True owners metadata (reserve_owners_load_all db, db) = (m, d)
    \<Longrightarrow> m = reserve_owners_load_all d"
  unfolding warmup_tp_cache_def Let_def by (rule fold_load [OF warm_chunk_load])

interpretation owners: write_through reserve_owners_load_all
  "\<lambda>(owners, metadata) s. ((), warmup_tp_cache pda parse_key True owners metadata s)" "\<lambda>_. True"
  for pda parse_key
  by unfold_locales (auto dest: warmup_load)

section \<open>The pair cache\<close>

text \<open>
  \<open>DLMM_TOKEN_LBPAIR_CACHE\<close> maps a mint to a pool address. The table's key is the pair of both
  columns, so the same mint can have several rows. It is written only when the first mint is new.
\<close>

type_synonym pair_rows = "(string \<times> string) list"

definition lb_pairs_load_all :: "pair_rows \<Rightarrow> (string \<rightharpoonup> string)" where
  "lb_pairs_load_all rows = collect_rows rows"

definition insert_pair_row :: "bool \<Rightarrow> string \<times> string \<Rightarrow> pair_rows \<Rightarrow> pair_rows" where
  "insert_pair_row ok r rows = (if ok then filter (\<lambda>x. x \<noteq> r) rows @ [r] else rows)"

definition lb_pairs_insert_both :: "bool \<Rightarrow> string \<Rightarrow> string \<Rightarrow> string \<Rightarrow> pair_rows \<Rightarrow> pair_rows" where
  "lb_pairs_insert_both ok mint_a mint_b lb_pair rows =
     insert_pair_row ok (mint_b, lb_pair) (insert_pair_row ok (mint_a, lb_pair) rows)"

definition lb_pairs_replace_all :: "bool \<Rightarrow> pair_rows \<Rightarrow> pair_rows \<Rightarrow> pair_rows" where
  "lb_pairs_replace_all ok entries rows = (if ok then entries else rows)"

definition cache_dlmm_lb_pair :: "bool \<Rightarrow> string \<Rightarrow> string \<Rightarrow> string
    \<Rightarrow> (string \<rightharpoonup> string) \<times> pair_rows \<Rightarrow> (string \<rightharpoonup> string) \<times> pair_rows" where
  "cache_dlmm_lb_pair ok mint_a mint_b lb_pair s =
     (let (cache, rows) = s;
          is_new = (cache mint_a = None);
          cache1 = cache(mint_a \<mapsto> lb_pair, mint_b \<mapsto> lb_pair) in
      (cache1, if is_new then lb_pairs_insert_both ok mint_a mint_b lb_pair rows else rows))"

text \<open>\<open>cleanup_stale_lb_pairs\<close>, the part that concerns this cache: \<open>entries\<close> is the order in which
  the map is written out.\<close>

definition evict_lb_pairs :: "bool \<Rightarrow> string list \<Rightarrow> ((string \<rightharpoonup> string) \<Rightarrow> pair_rows)
    \<Rightarrow> (string \<rightharpoonup> string) \<times> pair_rows \<Rightarrow> (string \<rightharpoonup> string) \<times> pair_rows" where
  "evict_lb_pairs ok stale entries s =
     (let (cache, rows) = s;
          kept = (\<lambda>mint. case cache mint of
             Some lb \<Rightarrow> if lb \<in> set stale then None else Some lb | None \<Rightarrow> None) in
      if stale = [] \<or> kept = cache then (kept, rows)
      else (kept, lb_pairs_replace_all ok (entries kept) rows))"

lemma collect_insert_pair:
  "collect_rows (insert_pair_row True (m, c) rows) m = Some c"
  by (simp add: insert_pair_row_def collect_rows_def)

text \<open>A pool change of a known mint stays in memory only: after a restart the old pool is back.\<close>

lemma changed_pair_lost:
  assumes "cache mint_a = Some old" and "cache = lb_pairs_load_all rows"
    and "cache_dlmm_lb_pair ok mint_a mint_b lb_pair (cache, rows) = (cache', rows')"
  shows "cache' mint_a = Some lb_pair \<and> lb_pairs_load_all rows' mint_a = Some old"
  using assms by (auto simp: cache_dlmm_lb_pair_def)

section \<open>Restarts\<close>

text \<open>C23: The whitelist behaves as if the bot never restarted: from a loaded state, any sequence of
  verifications, promotions and removals with restarts in between gives the same answers, sets and
  rows as the same sequence without them, and the memory is at every point what a restart would
  load, with the profitable and the verified mints disjoint, their union the set used for
  lookups, and no blacklisted mint among them.\<close>

theorem whitelist_restart_invisible:
  assumes "rows_ok db" and "run_steps whitelist_load (whitelist_step True) xs (whitelist_load db, db) = (rs, wl, db')"
  shows "run_steps whitelist_load (whitelist_step True) (filter (\<lambda>x. x \<noteq> None) xs) (whitelist_load db, db) = (rs, wl, db') \<and>
    wl = whitelist_load db' \<and> whitelist_ok wl \<and> rows_ok db'"
  using whitelist.restarts_invisible [OF assms(1), of xs] whitelist.run_agrees [OF assms]
    whitelist_load_ok [of db'] assms(2) by auto

theorem whitelist_restart_invisible_witness:
  "whitelist_ok (fst (snd (run_steps whitelist_load (whitelist_step True) [Some (Verify ''a''), None, Some (Promote ''a'')] (whitelist_load [], []))))"
proof -
  have r: "rows_ok []" by (simp add: rows_ok_def)
  obtain rs wl db' where run: "run_steps whitelist_load (whitelist_step True) [Some (Verify ''a''), None, Some (Promote ''a'')] (whitelist_load [], [])
      = (rs, wl, db')" by (metis prod_cases3)
  show ?thesis using whitelist_restart_invisible [OF r run] unfolding run fst_conv snd_conv by (elim conjE)
qed

end
