(* ===== verification/Bot_Loop.thy ===== *)
theory Bot_Loop
  imports Bot_Confirm Bot_Rpc Bot_Store
begin

text \<open>
  The event loop (\<open>main_loop.rs\<close>): what happens to each opportunity a swap event leads to, from the
  profit threshold to the submission, with the state the loop shares with the other tasks. What
  the network answers on the way is given by a record per opportunity; the scanner's result and
  the builder's result are part of it. Log messages and metrics are left out.
\<close>

section \<open>State and answers\<close>

record bot_state =
  bs_tracker :: risk_tracker
  bs_wrap :: "bool \<times> nat"
  bs_endpoints :: "string rpc_pool"
  bs_whitelist :: "whitelist \<times> whitelist_rows"
  bs_trades :: "trade_row list"
  bs_queue :: "pending_tx list"
  bs_last_jito :: u64

text \<open>The answers for one opportunity, in the order the loop asks. A slot of the stream is zero while
  the stream has not delivered; \<open>fresh_stream\<close> is its value when the freshness is judged. \<open>build\<close> is the
  result of \<open>build_atomic_arbitrage_tx\<close> (the text of the error, or the estimate), \<open>jito\<close> and \<open>send\<close>
  are the signature a submission returns, or the text of its error.\<close>

record loop_env =
  le_now :: nat
  le_today :: int
  le_stream_slot :: u64
  le_rpc_slot :: "u64 option"
  le_fresh_stream :: u64
  le_balance :: "u64 option"
  le_wrap_env :: wrap_env
  le_build :: "string + (u64 \<times> u64) option"
  le_sim_ok :: bool
  le_stream_slot2 :: u64
  le_rpc_slot2 :: "u64 option"
  le_fresh_stream2 :: u64
  le_now_ms :: u64
  le_jito :: "string + string"
  le_send :: "string + string"
  le_db_ok :: bool

datatype verdict = Skipped | Submitted_as string | Submit_failed string | Build_failed string

definition MAX_SLOT_AGE :: u64 where
  "MAX_SLOT_AGE = 20"

text \<open>\<open>cu_cost_sol * (1.0 + buffer_pct) + ata_rent_reserve_sol\<close>\<close>

definition required_sol :: "scanner_config \<Rightarrow> f64 \<Rightarrow> f64" where
  "required_sol sc cu_cost_sol =
     (let buffer_pct = f_div (f64_of_nat (unat (sc_cu_fee_buffer_pct sc))) (Fin 100) in
      f_add (f_mul cu_cost_sol (f_add (Fin 1) buffer_pct)) (sc_ata_rent_reserve_sol sc))"

definition balance_covers :: "scanner_config \<Rightarrow> f64 \<Rightarrow> u64 \<Rightarrow> bool" where
  "balance_covers sc cu_cost_sol lamports \<longleftrightarrow>
     \<not> f_lt (f_div (f64_of_u64 lamports) (Fin 1000000000)) (required_sol sc cu_cost_sol)"

text \<open>\<open>submit_atomic_tx\<close>: a zero slot is an error before anything is sent.\<close>

definition submit_atomic_tx :: "u64 \<Rightarrow> string + string \<Rightarrow> string + string" where
  "submit_atomic_tx min_slot send =
     (if min_slot = 0 then Inl ''min_slot must be > 0; got 0 (unset snapshot slot)'' else send)"

text \<open>The block engine first, when enabled, with its rate limit; the RPC otherwise and as fallback.\<close>

definition submit_transaction :: "bool \<Rightarrow> loop_env \<Rightarrow> opportunity \<Rightarrow> u64 \<Rightarrow> (string + string) \<times> u64" where
  "submit_transaction use_jito env opp last_jito =
     (if use_jito
      then (let (open_gate, last_jito1) = jito_gate last_jito (le_now_ms env) in
            case (if open_gate then le_jito env else Inl ''jito rate limit (1 req/s)'') of
              Inr bundle_id \<Rightarrow> (Inr bundle_id, last_jito1)
            | Inl e \<Rightarrow> (submit_atomic_tx (op_slot opp) (le_send env), last_jito1))
      else (submit_atomic_tx (op_slot opp) (le_send env), last_jito))"

section \<open>One opportunity\<close>

text \<open>The part after a successful submission.\<close>

definition pending_of :: "loop_env \<Rightarrow> opportunity \<Rightarrow> f64 \<Rightarrow> u64 \<Rightarrow> string \<Rightarrow> pending_tx" where
  "pending_of env opp priority_fee_sol slot sig =
     \<lparr>pc_signature = sig, pc_estimated_net_profit_sol = op_net_profit_sol opp,
      pc_priority_fee_sol = priority_fee_sol, pc_submitted_slot = slot, pc_submitted_at = le_now env\<rparr>"

definition trade_of :: "opportunity \<Rightarrow> string \<Rightarrow> trade_row" where
  "trade_of opp sig =
     \<lparr>tr_signature = sig, tr_token_mint = op_token_mint opp, tr_buy_venue = venue_name (op_buy_venue opp),
      tr_sell_venue = venue_name (op_sell_venue opp), tr_investment_sol = op_investment_sol opp,
      tr_estimated_profit_sol = op_net_profit_sol opp, tr_actual_profit_sol = None, tr_succeeded = None\<rparr>"

definition after_submit :: "loop_env \<Rightarrow> string \<Rightarrow> opportunity \<Rightarrow> f64 \<Rightarrow> u64 \<Rightarrow> string \<Rightarrow> bot_state \<Rightarrow> bot_state" where
  "after_submit env mint opp priority_fee_sol slot sig st =
     st\<lparr>bs_whitelist := mark_profitable (le_db_ok env) mint (bs_whitelist st),
        bs_tracker := record_submitted (bs_tracker st),
        bs_queue := bs_queue st @ [pending_of env opp priority_fee_sol slot sig],
        bs_trades := trade_insert_submitted (le_db_ok env) (trade_of opp sig) (bs_trades st)\<rparr>"

definition submit_opportunity :: "app_config \<Rightarrow> f64 \<Rightarrow> loop_env \<Rightarrow> string \<Rightarrow> opportunity \<Rightarrow> bot_state
    \<Rightarrow> verdict \<times> bot_state" where
  "submit_opportunity cfg priority_fee_sol env mint opp st =
     (let pre_submit_slot = (if 0 < le_stream_slot2 env then le_stream_slot2 env
            else (case le_rpc_slot2 env of Some s \<Rightarrow> s | None \<Rightarrow> 0)) in
      if pre_submit_slot = 0 then (Skipped, st)
      else if \<not> is_opportunity_fresh (le_fresh_stream2 env) (op_slot opp) pre_submit_slot MAX_SLOT_AGE
      then (Skipped, st)
      else
        (let (sig_result, last_jito) = submit_transaction (ac_sender_enabled cfg) env opp (bs_last_jito st);
             st1 = st\<lparr>bs_last_jito := last_jito\<rparr> in
         case sig_result of
           Inr sig \<Rightarrow> (Submitted_as sig, after_submit env mint opp priority_fee_sol pre_submit_slot sig st1)
         | Inl e \<Rightarrow>
             (Submit_failed e,
              st1\<lparr>bs_endpoints := maybe_failover e (bs_endpoints st1),
                  bs_tracker := (bs_tracker st1)\<lparr>rt_trades_attempted := rt_trades_attempted (bs_tracker st1) + 1\<rparr>\<rparr>)))"

definition process_opportunity :: "app_config \<Rightarrow> f64 \<Rightarrow> f64 \<Rightarrow> bool \<Rightarrow> loop_env \<Rightarrow> string \<Rightarrow> opportunity
    \<Rightarrow> bot_state \<Rightarrow> verdict \<times> bot_state" where
  "process_opportunity cfg cu_cost_sol priority_fee_sol has_wallet env mint opp st =
     (if f_lt (op_net_profit_sol opp) (rc_min_profit_threshold_sol (ac_risk cfg)) then (Skipped, st)
      else
        (let (allowed, tracker1) = check_limits (le_now env) (le_today env) opp (ac_risk cfg) (bs_tracker st);
             st1 = st\<lparr>bs_tracker := tracker1\<rparr> in
         if \<not> allowed then (Skipped, st1)
         else if ac_dry_run cfg then (Skipped, st1)
         else if \<not> has_wallet then (Skipped, st1)
         else
           (case (if 0 < le_stream_slot env then Some (le_stream_slot env) else le_rpc_slot env) of
              None \<Rightarrow> (Skipped, st1)
            | Some cur_slot \<Rightarrow>
                if \<not> is_opportunity_fresh (le_fresh_stream env) (op_slot opp) cur_slot MAX_SLOT_AGE then (Skipped, st1)
                else
                  (case le_balance env of
                     None \<Rightarrow> (Skipped, st1)
                   | Some lamports \<Rightarrow>
                       if \<not> balance_covers (ac_scanner cfg) cu_cost_sol lamports then (Skipped, st1)
                       else
                         (let (wrapped, sent, wrap1) = ensure_wsol_balance (ac_risk cfg)
                                (sol_to_lamports (op_investment_sol opp)) (le_wrap_env env) (bs_wrap st1);
                              st2 = st1\<lparr>bs_wrap := wrap1\<rparr> in
                          if wrapped then (Skipped, st2)
                          else
                            (case le_build env of
                               Inl e \<Rightarrow> (Build_failed e, st2\<lparr>bs_endpoints := maybe_failover e (bs_endpoints st2)\<rparr>)
                             | Inr estimate \<Rightarrow>
                                 if ac_simulator_enabled cfg \<and> \<not> le_sim_ok env then (Skipped, st2)
                                 else submit_opportunity cfg priority_fee_sol env mint opp st2))))))"

section \<open>One event\<close>

text \<open>A swap event without a mint, or of a blacklisted one, is dropped; else the opportunities the
  scanner found are tried in order, each with its own answers.\<close>

fun process_opps :: "app_config \<Rightarrow> f64 \<Rightarrow> f64 \<Rightarrow> bool \<Rightarrow> string \<Rightarrow> (loop_env \<times> opportunity) list \<Rightarrow> bot_state
    \<Rightarrow> verdict list \<times> bot_state" where
  "process_opps cfg cu fee w mint [] st = ([], st)"
| "process_opps cfg cu fee w mint ((env, opp) # rest) st =
     (let (v, st1) = process_opportunity cfg cu fee w env mint opp st;
          (vs, st2) = process_opps cfg cu fee w mint rest st1 in (v # vs, st2))"

definition process_event :: "app_config \<Rightarrow> f64 \<Rightarrow> f64 \<Rightarrow> bool \<Rightarrow> string option \<Rightarrow> (loop_env \<times> opportunity) list
    \<Rightarrow> bot_state \<Rightarrow> verdict list \<times> bot_state" where
  "process_event cfg cu_cost_sol priority_fee_sol has_wallet mint scanned st =
     (case mint of
        None \<Rightarrow> ([], st)
      | Some m \<Rightarrow>
          if is_blacklisted (fst (bs_whitelist st)) m then ([], st)
          else process_opps cfg cu_cost_sol priority_fee_sol has_wallet m scanned
                 (st\<lparr>bs_endpoints := snd (rpc_current (bs_endpoints st))\<rparr>))"

section \<open>What a submission implies\<close>

lemma fresh_bounds:
  "is_opportunity_fresh stream s c MAX_SLOT_AGE \<longleftrightarrow> s \<noteq> 0 \<and> c \<noteq> 0 \<and> (0 < stream \<or> unat c \<le> unat s + 20)"
  using fresh_without_stream [of s c MAX_SLOT_AGE]
  by (cases "stream = 0") (auto simp: MAX_SLOT_AGE_def is_opportunity_fresh_def word_gt_0)

lemma submit_Submitted:
  assumes "submit_opportunity cfg fee env mint opp st = (Submitted_as sig, st')"
  obtains slot last_jito where
    "(if 0 < le_stream_slot2 env then Some (le_stream_slot2 env) else le_rpc_slot2 env) = Some slot" and "slot \<noteq> 0"
    and "is_opportunity_fresh (le_fresh_stream2 env) (op_slot opp) slot MAX_SLOT_AGE"
    and "submit_transaction (ac_sender_enabled cfg) env opp (bs_last_jito st) = (Inr sig, last_jito)"
    and "st' = after_submit env mint opp fee slot sig (st\<lparr>bs_last_jito := last_jito\<rparr>)"
  using assms by (auto simp: submit_opportunity_def Let_def split: if_splits sum.splits prod.splits option.splits)

lemma submit_not_Submitted:
  assumes "submit_opportunity cfg fee env mint opp st = (v, st')" and "\<forall>sig. v \<noteq> Submitted_as sig"
  shows "bs_queue st' = bs_queue st \<and> bs_trades st' = bs_trades st \<and> bs_whitelist st' = bs_whitelist st"
  using assms by (auto simp: submit_opportunity_def Let_def split: if_splits sum.splits prod.splits)

lemma process_Submitted:
  assumes "process_opportunity cfg cu fee w env mint opp st = (Submitted_as sig, st')"
  obtains tracker1 sent wrap1 estimate cur lamports where
    "check_limits (le_now env) (le_today env) opp (ac_risk cfg) (bs_tracker st) = (True, tracker1)"
    and "\<not> ac_dry_run cfg" and "w"
    and "is_opportunity_fresh (le_fresh_stream env) (op_slot opp) cur MAX_SLOT_AGE"
    and "le_balance env = Some lamports" and "balance_covers (ac_scanner cfg) cu lamports"
    and "ac_simulator_enabled cfg \<longrightarrow> le_sim_ok env"
    and "(if 0 < le_stream_slot env then Some (le_stream_slot env) else le_rpc_slot env) = Some cur"
    and "ensure_wsol_balance (ac_risk cfg) (sol_to_lamports (op_investment_sol opp)) (le_wrap_env env) (bs_wrap st)
      = (False, sent, wrap1)" and "le_build env = Inr estimate"
    and "submit_opportunity cfg fee env mint opp (st\<lparr>bs_tracker := tracker1, bs_wrap := wrap1\<rparr>) = (Submitted_as sig, st')"
  using assms
  by (auto simp: process_opportunity_def Let_def split: if_splits option.splits sum.splits prod.splits)

lemma process_not_Submitted:
  assumes "process_opportunity cfg cu fee w env mint opp st = (v, st')" and "\<forall>sig. v \<noteq> Submitted_as sig"
  shows "bs_queue st' = bs_queue st \<and> bs_trades st' = bs_trades st \<and> bs_whitelist st' = bs_whitelist st"
  using assms
  by (auto simp: process_opportunity_def Let_def dest!: submit_not_Submitted
      split: if_splits option.splits sum.splits prod.splits)

lemma submission_gated_facts:
  assumes "process_opportunity cfg cu fee w env mint opp st = (Submitted_as sig, st')"
  shows "\<not> ac_dry_run cfg" "w" "bs_whitelist st' = mark_profitable (le_db_ok env) mint (bs_whitelist st)"
    "\<exists>slot. bs_queue st' = bs_queue st @ [pending_of env opp fee slot sig]"
proof -
  obtain tracker1 wrap1 where g: "\<not> ac_dry_run cfg" "w"
    and sub: "submit_opportunity cfg fee env mint opp (st\<lparr>bs_tracker := tracker1, bs_wrap := wrap1\<rparr>) = (Submitted_as sig, st')"
    using assms by (rule process_Submitted) blast
  from sub obtain slot last_jito where
    "st' = after_submit env mint opp fee slot sig (st\<lparr>bs_tracker := tracker1, bs_wrap := wrap1, bs_last_jito := last_jito\<rparr>)"
    by (rule submit_Submitted) simp
  then show "\<not> ac_dry_run cfg" "w" "bs_whitelist st' = mark_profitable (le_db_ok env) mint (bs_whitelist st)"
    "\<exists>slot. bs_queue st' = bs_queue st @ [pending_of env opp fee slot sig]"
    using g by (auto simp: after_submit_def)
qed

section \<open>Properties\<close>

text \<open>C19: A transaction is submitted exactly when every gate was passed: the bot is live and has a wallet,
  the net profit reaches the threshold, the risk check is answered yes (the breaker is closed, the
  investment within the limit, the day's result with this trade above the loss limit), the slot of the
  opportunity is set and fresh before the build, the balance covers the fees with their buffer and the
  rent, no wrapping of SOL was sent first, the build succeeded, the simulation succeeded where it is
  enabled, the slot is still fresh before the submission, and the block engine or the endpoint took the
  transaction. The state is then the old one with the trade counted once as attempted and pending, queued
  for confirmation with the slot of the second check, written to the table, and its mint promoted.\<close>

theorem submission_gated:
  "process_opportunity cfg cu fee w env mint opp st = (Submitted_as sig, st') \<longleftrightarrow>
    (\<exists>tracker1 sent wrap1 estimate lamports cur slot last_jito.
      \<not> ac_dry_run cfg \<and> w \<and>
      \<not> f_lt (op_net_profit_sol opp) (rc_min_profit_threshold_sol (ac_risk cfg)) \<and>
      check_limits (le_now env) (le_today env) opp (ac_risk cfg) (bs_tracker st) = (True, tracker1) \<and>
      \<not> rt_circuit_breaker tracker1 \<and>
      \<not> f_lt (rc_max_single_investment_sol (ac_risk cfg)) (op_investment_sol opp) \<and>
      \<not> f_lt (f_add (rt_daily_pnl_sol tracker1) (op_net_profit_sol opp)) (f_neg (rc_max_daily_loss_sol (ac_risk cfg))) \<and>
      (if 0 < le_stream_slot env then Some (le_stream_slot env) else le_rpc_slot env) = Some cur \<and>
      op_slot opp \<noteq> 0 \<and> cur \<noteq> 0 \<and> (0 < le_fresh_stream env \<or> unat cur \<le> unat (op_slot opp) + 20) \<and>
      le_balance env = Some lamports \<and> balance_covers (ac_scanner cfg) cu lamports \<and>
      ensure_wsol_balance (ac_risk cfg) (sol_to_lamports (op_investment_sol opp)) (le_wrap_env env) (bs_wrap st)
        = (False, sent, wrap1) \<and>
      le_build env = Inr estimate \<and> (ac_simulator_enabled cfg \<longrightarrow> le_sim_ok env) \<and>
      (if 0 < le_stream_slot2 env then Some (le_stream_slot2 env) else le_rpc_slot2 env) = Some slot \<and>
      slot \<noteq> 0 \<and> (0 < le_fresh_stream2 env \<or> unat slot \<le> unat (op_slot opp) + 20) \<and>
      submit_transaction (ac_sender_enabled cfg) env opp (bs_last_jito st) = (Inr sig, last_jito) \<and>
      st' = st\<lparr>bs_tracker := record_submitted tracker1, bs_wrap := wrap1, bs_last_jito := last_jito,
        bs_whitelist := mark_profitable (le_db_ok env) mint (bs_whitelist st),
        bs_queue := bs_queue st @ [pending_of env opp fee slot sig],
        bs_trades := trade_insert_submitted (le_db_ok env) (trade_of opp sig) (bs_trades st)\<rparr>)"
  (is "?l \<longleftrightarrow> ?r")
proof
  assume ?l
  then obtain tracker1 sent wrap1 estimate cur lamports where
    c: "check_limits (le_now env) (le_today env) opp (ac_risk cfg) (bs_tracker st) = (True, tracker1)"
    and g: "\<not> ac_dry_run cfg" "w" "is_opportunity_fresh (le_fresh_stream env) (op_slot opp) cur MAX_SLOT_AGE"
      "le_balance env = Some lamports" "balance_covers (ac_scanner cfg) cu lamports"
      "ac_simulator_enabled cfg \<longrightarrow> le_sim_ok env"
      "(if 0 < le_stream_slot env then Some (le_stream_slot env) else le_rpc_slot env) = Some cur"
      "ensure_wsol_balance (ac_risk cfg) (sol_to_lamports (op_investment_sol opp)) (le_wrap_env env) (bs_wrap st)
        = (False, sent, wrap1)" "le_build env = Inr estimate"
    and sub: "submit_opportunity cfg fee env mint opp (st\<lparr>bs_tracker := tracker1, bs_wrap := wrap1\<rparr>) = (Submitted_as sig, st')"
    by (rule process_Submitted)
  from sub obtain slot last_jito where
    "(if 0 < le_stream_slot2 env then Some (le_stream_slot2 env) else le_rpc_slot2 env) = Some slot"
    "slot \<noteq> 0" "is_opportunity_fresh (le_fresh_stream2 env) (op_slot opp) slot MAX_SLOT_AGE"
    "submit_transaction (ac_sender_enabled cfg) env opp (bs_last_jito st) = (Inr sig, last_jito)"
    "st' = after_submit env mint opp fee slot sig (st\<lparr>bs_tracker := tracker1, bs_wrap := wrap1, bs_last_jito := last_jito\<rparr>)"
    by (rule submit_Submitted) simp
  then show ?r using c g check_limits_True [OF c] unfolding fresh_bounds by (auto simp: after_submit_def)
next
  assume ?r
  then show ?l
    by (elim exE conjE) (simp add: process_opportunity_def submit_opportunity_def Let_def fresh_bounds after_submit_def
        split: if_splits)
qed

definition demo_cfg :: app_config where
  "demo_cfg = \<lparr>ac_bot = \<lparr>bt_name = ''b'', bt_mode = ''live'', bt_dry_run = False\<rparr>,
     ac_solana = \<lparr>sl_rpc_url = ''u'', sl_ws_url = ''w'', sl_commitment = ''processed'', sl_rpc_timeout_secs = 30,
       sl_proxy_url = None, sl_fallback_rpc_urls = [], sl_sender_enabled = False, sl_sender_swqos_only = True,
       sl_sender_endpoint = ''s''\<rparr>,
     ac_risk = demo_risk,
     ac_dex = \<lparr>dc_enabled = [], dc_min_pool_tvl_sol = Fin 0, dc_pool_fee_bps = 25, dc_pumpfun_fee_bps = 100,
       dc_pumpswap_fee_bps = 25\<rparr>,
     ac_simulator = \<lparr>sm_enabled = True, sm_wallet_pubkey = ''''\<rparr>, ac_metrics_port = 9090,
     ac_wallet = \<lparr>wc_keypair_path = None, wc_nonce_account = None\<rparr>, ac_arbitrage = arbitrage_config_default,
     ac_scanner = scanner_config_default\<lparr>sc_cu_fee_buffer_pct := 0, sc_ata_rent_reserve_sol := Fin 0\<rparr>,
     ac_routing = \<lparr>er_use_onchain_program = True, er_onchain_traffic_pct = 100,
       er_onchain_program_id = ''p'', er_onchain_arb_alt = Some ''a''\<rparr>,
     ac_grpc = \<lparr>gc_endpoint = '''', gc_x_token = ''''\<rparr>\<rparr>"

definition demo_loop_env :: loop_env where
  "demo_loop_env = \<lparr>le_now = 0, le_today = 0, le_stream_slot = 5, le_rpc_slot = None, le_fresh_stream = 5,
     le_balance = Some 1000000000,
     le_wrap_env = \<lparr>we_amount = None, we_native = 0, we_blockhash_ok = True, we_send_ok = True\<rparr>,
     le_build = Inr (Some (1, 1)), le_sim_ok = True, le_stream_slot2 = 0, le_rpc_slot2 = Some 6,
     le_fresh_stream2 = 0, le_now_ms = 0, le_jito = Inl ''e'', le_send = Inr ''sig'', le_db_ok = True\<rparr>"

definition demo_state :: bot_state where
  "demo_state = \<lparr>bs_tracker = risk_new 0, bs_wrap = (False, 0), bs_endpoints = rpc_pool_new ''e'' [],
     bs_whitelist = (whitelist_load [(''m'', ''verified'')], [(''m'', ''verified'')]), bs_trades = [],
     bs_queue = [], bs_last_jito = 0\<rparr>"

lemma demo_fields:
  "ac_dry_run demo_cfg = False" "ac_sender_enabled demo_cfg = False" "ac_risk demo_cfg = demo_risk"
  "rc_min_profit_threshold_sol demo_risk = Fin 0" "op_net_profit_sol demo_opp = Fin 1" "op_slot demo_opp = 1"
  "le_now demo_loop_env = 0" "le_today demo_loop_env = 0" "le_stream_slot demo_loop_env = 5"
  "le_fresh_stream demo_loop_env = 5" "le_balance demo_loop_env = Some 1000000000"
  "we_amount (le_wrap_env demo_loop_env) = None" "le_build demo_loop_env = Inr (Some (1, 1))"
  "le_sim_ok demo_loop_env = True" "le_stream_slot2 demo_loop_env = 0" "le_rpc_slot2 demo_loop_env = Some 6"
  "le_fresh_stream2 demo_loop_env = 0" "le_send demo_loop_env = Inr ''sig''"
  "bs_tracker demo_state = risk_new 0" "bs_queue demo_state = []"
  by (simp_all add: demo_cfg_def demo_risk_def demo_opp_def demo_loop_env_def demo_state_def)

lemma demo_runs:
  "\<exists>st'. process_opportunity demo_cfg (Fin 0) (Fin 0) True demo_loop_env ''m'' demo_opp demo_state
    = (Submitted_as ''sig'', st')"
proof -
  have r: "rnd 1 = 1" "rnd (- 10) = - 10" "rnd 0 = 0" "rnd 1000000000 = 1000000000" "rnd 100 = 100"
    using rnd_representable [OF representable_of_int [of 1]] rnd_representable [OF representable_of_int [of "-10"]]
      rnd_representable [OF representable_of_int [of 1000000000]] rnd_representable [OF representable_of_int [of 100]]
    by simp_all
  have chk: "check_limits 0 0 demo_opp demo_risk (risk_new 0) = (True, risk_new 0)"
    by (simp add: check_limits_def breaker_gate_def roll_day_def risk_new_def demo_opp_def demo_risk_def to_f64_def r)
  have bal: "balance_covers (ac_scanner demo_cfg) (Fin 0) 1000000000"
    by (simp add: balance_covers_def required_sol_def demo_cfg_def f64_of_nat_def to_f64_def r Let_def
        f64_of_u64_exact)
  have f: "is_opportunity_fresh 0 1 6 20" "is_opportunity_fresh 5 1 5 20"
    by (simp_all add: is_opportunity_fresh_def sat_sub_def)
  show ?thesis
    unfolding process_opportunity_def submit_opportunity_def submit_transaction_def submit_atomic_tx_def
      ensure_wsol_balance_def MAX_SLOT_AGE_def Let_def
    by (simp add: demo_fields chk bal f)
qed

theorem submission_gated_witness:
  "\<exists>slot st'. process_opportunity demo_cfg (Fin 0) (Fin 0) True demo_loop_env ''m'' demo_opp demo_state
      = (Submitted_as ''sig'', st') \<and> unat slot \<le> 21 \<and>
    bs_queue st' = [pending_of demo_loop_env demo_opp (Fin 0) slot ''sig'']"
proof -
  obtain st' where p: "process_opportunity demo_cfg (Fin 0) (Fin 0) True demo_loop_env ''m'' demo_opp demo_state
    = (Submitted_as ''sig'', st')" using demo_runs by blast
  have "\<exists>slot. unat slot \<le> 21 \<and> bs_queue st' = [pending_of demo_loop_env demo_opp (Fin 0) slot ''sig'']"
    using submission_gated [THEN iffD1, OF p] by (intro exI [of _ 6]) (auto simp: demo_fields)
  then show ?thesis using p by blast
qed

text \<open>C20: Over a whole event the confirmation queue grows by exactly the submitted signatures, in
  order, nothing is submitted for an event without a mint or with a blacklisted one, in a dry run
  or without a wallet, and no opportunity, whatever the answers, ever moves a mint to or from the
  blacklist.\<close>

theorem event_submissions:
  assumes "process_event cfg cu fee w mint scanned st = (vs, st')"
  shows "map pc_signature (bs_queue st') = map pc_signature (bs_queue st) @
      concat (map (\<lambda>v. case v of Submitted_as sig \<Rightarrow> [sig] | _ \<Rightarrow> []) vs) \<and>
    wl_blacklisted (fst (bs_whitelist st')) = wl_blacklisted (fst (bs_whitelist st)) \<and>
    (mint = None \<or> (\<exists>m. mint = Some m \<and> is_blacklisted (fst (bs_whitelist st)) m) \<or> ac_dry_run cfg \<or> \<not> w
       \<longrightarrow> bs_queue st' = bs_queue st)"
proof -
  have step: "map pc_signature (bs_queue s1) = map pc_signature (bs_queue s) @
        (case v of Submitted_as sig \<Rightarrow> [sig] | _ \<Rightarrow> []) \<and>
      wl_blacklisted (fst (bs_whitelist s1)) = wl_blacklisted (fst (bs_whitelist s)) \<and>
      (ac_dry_run cfg \<or> \<not> w \<longrightarrow> bs_queue s1 = bs_queue s)"
    if "process_opportunity cfg cu fee w env m opp s = (v, s1)" for env m opp s v s1
  proof (cases "\<exists>sig. v = Submitted_as sig")
    case True
    then obtain sig where v: "v = Submitted_as sig" by blast
    show ?thesis
      using submission_gated_facts [OF that [unfolded v]] v
      by (auto simp: pending_of_def mark_profitable_def Let_def split: prod.splits)
  next
    case False
    then show ?thesis using process_not_Submitted [OF that] by (auto split: verdict.splits)
  qed
  have all: "map pc_signature (bs_queue s1) = map pc_signature (bs_queue s) @
        concat (map (\<lambda>v. case v of Submitted_as sig \<Rightarrow> [sig] | _ \<Rightarrow> []) vs) \<and>
      wl_blacklisted (fst (bs_whitelist s1)) = wl_blacklisted (fst (bs_whitelist s)) \<and>
      (ac_dry_run cfg \<or> \<not> w \<longrightarrow> bs_queue s1 = bs_queue s)"
    if "process_opps cfg cu fee w m scanned s = (vs, s1)" for m s s1
    using that
  proof (induction scanned arbitrary: s vs)
    case (Cons x scanned)
    obtain env opp where x: "x = (env, opp)" by (cases x)
    obtain v s2 where p: "process_opportunity cfg cu fee w env m opp s = (v, s2)" by force
    obtain vs2 s3 where q: "process_opps cfg cu fee w m scanned s2 = (vs2, s3)" by force
    have "vs = v # vs2" "s1 = s3" using Cons.prems by (auto simp: x p q)
    then show ?case using Cons.IH [of s2 vs2] q step [OF p] by simp
  qed simp
  show ?thesis
  proof (cases "mint = None \<or> (\<exists>m. mint = Some m \<and> is_blacklisted (fst (bs_whitelist st)) m)")
    case True
    then have "vs = []" "st' = st" using assms by (auto simp: process_event_def)
    then show ?thesis by simp
  next
    case False
    then obtain m where m: "mint = Some m" "\<not> is_blacklisted (fst (bs_whitelist st)) m" by auto
    then have "process_opps cfg cu fee w m scanned (st\<lparr>bs_endpoints := snd (rpc_current (bs_endpoints st))\<rparr>) = (vs, st')"
      using assms by (simp add: process_event_def)
    from all [OF this] show ?thesis using m by auto
  qed
qed

theorem event_submissions_witness:
  "bs_queue (snd (process_event demo_cfg (Fin 0) (Fin 0) False (Some ''m'') [(demo_loop_env, demo_opp)] demo_state)) = []"
proof -
  obtain vs st' where p: "process_event demo_cfg (Fin 0) (Fin 0) False (Some ''m'') [(demo_loop_env, demo_opp)] demo_state
    = (vs, st')" by force
  show ?thesis using event_submissions [OF p] by (simp add: p demo_fields)
qed

end
