(* ===== verification/Bot_Scanner.thy ===== *)
theory Bot_Scanner
  imports Bot_Types
begin

text \<open>
  The cross-venue scanner: the price records of \<open>arbitrage/prices/mod.rs\<close>, the profit estimate of
  \<open>arbitrage/scanner_queries.rs\<close> (capacity search and golden-section search over the investment),
  and the selection of opportunities of \<open>arbitrage/scanner.rs\<close>, in the arithmetic of the source:
  doubles, and 128-bit products with the division that panics on zero. \<open>10_f64.powi\<close> is taken as
  correctly rounded; it is only used for small exponents. Log messages are left out.
\<close>

section \<open>Price records\<close>

record price_snapshot =
  ps_sol_per_token :: f64
  ps_token_reserves_raw :: u64
  ps_sol_reserves_raw :: u64
  ps_bins :: "dlmm_bin list"
  ps_meme_is_x :: bool
  ps_fee_bps :: u32
  ps_lb_pair :: string
  ps_quote_decimals :: byte

record venue_price =
  vp_venue :: venue
  vp_sol_per_token :: "f64 option"
  vp_pool_prices :: "price_snapshot list"
  vp_token_reserves_raw :: u64
  vp_sol_reserves_raw :: u64
  vp_fee_bps :: u32
  vp_bins :: "dlmm_bin list"
  vp_meme_is_x :: bool

text \<open>Rust's \<open>min_by\<close> keeps the first of equal elements, \<open>max_by\<close> the last.\<close>

fun min_by_price :: "('a \<Rightarrow> f64) \<Rightarrow> 'a list \<Rightarrow> 'a option" where
  "min_by_price f [] = None"
| "min_by_price f (x # xs) = Some (fold (\<lambda>y best. if f_lt (f y) (f best) then y else best) xs x)"

fun max_by_price :: "('a \<Rightarrow> f64) \<Rightarrow> 'a list \<Rightarrow> 'a option" where
  "max_by_price f [] = None"
| "max_by_price f (x # xs) = Some (fold (\<lambda>y best. if f_lt (f y) (f best) then best else y) xs x)"

fun is_finite :: "f64 \<Rightarrow> bool" where
  "is_finite (Fin q) = True"
| "is_finite _ = False"

definition tradable_snapshots :: "venue_price \<Rightarrow> price_snapshot list" where
  "tradable_snapshots vp =
     filter (\<lambda>s. 1000000 \<le> ps_token_reserves_raw s \<and> is_finite (ps_sol_per_token s)) (vp_pool_prices vp)"

definition best_buy_snapshot :: "venue_price \<Rightarrow> price_snapshot option" where
  "best_buy_snapshot vp = min_by_price ps_sol_per_token (tradable_snapshots vp)"

definition best_sell_snapshot :: "venue_price \<Rightarrow> price_snapshot option" where
  "best_sell_snapshot vp = max_by_price ps_sol_per_token (tradable_snapshots vp)"

definition from_single_pool :: "venue \<Rightarrow> f64 option \<Rightarrow> u64 \<Rightarrow> u64 \<Rightarrow> u32 \<Rightarrow> dlmm_bin list \<Rightarrow> bool \<Rightarrow> byte
    \<Rightarrow> venue_price" where
  "from_single_pool venue sol_per_token token_reserves_raw sol_reserves_raw fee_bps bins meme_is_x quote_decimals =
     (let snapshot = (case sol_per_token of
            Some p \<Rightarrow> if f_lt (Fin 0) p
              then [\<lparr>ps_sol_per_token = p, ps_token_reserves_raw = token_reserves_raw,
                     ps_sol_reserves_raw = sol_reserves_raw, ps_bins = bins, ps_meme_is_x = meme_is_x,
                     ps_fee_bps = fee_bps, ps_lb_pair = '''', ps_quote_decimals = quote_decimals\<rparr>]
              else []
          | None \<Rightarrow> []) in
      \<lparr>vp_venue = venue, vp_sol_per_token = sol_per_token, vp_pool_prices = snapshot,
       vp_token_reserves_raw = token_reserves_raw, vp_sol_reserves_raw = sol_reserves_raw,
       vp_fee_bps = fee_bps, vp_bins = bins, vp_meme_is_x = meme_is_x\<rparr>)"

section \<open>The scanner and its profit estimate\<close>

record scanner =
  sn_min_profit_threshold_sol :: f64
  sn_min_price_diff_bps :: u32
  sn_max_investment_sol :: f64
  sn_min_pool_tvl_sol :: f64
  sn_max_tip_sol :: f64
  sn_enabled_venues :: "venue list"
  sn_cu_cost_sol :: f64
  sn_profit_safety_factor :: f64
  sn_pumpfun_fee_bps :: u32
  sn_skip_reverify :: bool
  sn_max_pool_share :: f64
  sn_max_absolute_sol_out :: f64

text \<open>The scanner \<open>main.rs\<close> sets up from the configuration.\<close>

definition scanner_of_config :: "app_config \<Rightarrow> venue list \<Rightarrow> f64 \<Rightarrow> scanner" where
  "scanner_of_config config venues cu_cost_sol =
     \<lparr>sn_min_profit_threshold_sol = rc_min_profit_threshold_sol (ac_risk config),
      sn_min_price_diff_bps = sc_min_price_diff_bps (ac_scanner config),
      sn_max_investment_sol = rc_max_single_investment_sol (ac_risk config),
      sn_min_pool_tvl_sol = sc_min_pool_liquidity_sol (ac_scanner config),
      sn_max_tip_sol = rc_max_tip_sol (ac_risk config), sn_enabled_venues = venues,
      sn_cu_cost_sol = cu_cost_sol,
      sn_profit_safety_factor = sc_profit_safety_factor (ac_scanner config),
      sn_pumpfun_fee_bps = dc_pumpfun_fee_bps (ac_dex config),
      sn_skip_reverify = sc_skip_reverify (ac_scanner config),
      sn_max_pool_share = sc_max_pool_share (ac_scanner config),
      sn_max_absolute_sol_out = sc_max_absolute_sol_out (ac_scanner config)\<rparr>"

definition pow10 :: "int \<Rightarrow> f64" where
  "pow10 n = to_f64 (10 powi n)"

definition quote_unit :: "price_snapshot \<Rightarrow> f64" where
  "quote_unit s = pow10 (int (unat (ps_quote_decimals s)))"

definition fee_rate :: "price_snapshot \<Rightarrow> f64" where
  "fee_rate s = f_div (f64_of_nat (unat (ps_fee_bps s))) (Fin 10000)"

text \<open>One swap in a pool: over the bins if there are any, else constant product with the fee taken
  from the input. \<open>sell\<close> says which side the amount is on.\<close>

definition pool_swap :: "price_snapshot \<Rightarrow> bool \<Rightarrow> u128 \<Rightarrow> u128 client_result" where
  "pool_swap s sell amount =
     (if ps_bins s \<noteq> []
      then Ok (ucast (client_dlmm_estimate (ps_bins s) (ucast amount)
                 (if sell then ps_meme_is_x s else \<not> ps_meme_is_x s) (fee_rate s)))
      else
        (let eff = amount * (10000 - ucast (ps_fee_bps s)) div 10000;
             reserve_in = (if sell then ps_token_reserves_raw s else ps_sol_reserves_raw s);
             reserve_out = (if sell then ps_sol_reserves_raw s else ps_token_reserves_raw s) in
         div_or_panic (eff * ucast reserve_out) (ucast reserve_in + eff)))"

definition simulate_buy :: "price_snapshot \<Rightarrow> f64 \<Rightarrow> u128 client_result" where
  "simulate_buy buy investment =
     (let quote_in = f64_as_u64 (f_mul investment (quote_unit buy)) in pool_swap buy False (ucast quote_in))"

definition f64_of_u128 :: "u128 \<Rightarrow> f64" where
  "f64_of_u128 w = f64_of_nat (unat w)"

definition compute_arb_at_investment :: "scanner \<Rightarrow> price_snapshot \<Rightarrow> price_snapshot \<Rightarrow> f64
    \<Rightarrow> (f64 \<times> f64) client_result" where
  "compute_arb_at_investment self buy sell investment =
     and_then (simulate_buy buy investment) (\<lambda>tokens_got.
     and_then (pool_swap sell True tokens_got) (\<lambda>quote_back_raw.
     let pool_share_cap = f64_as_u128 (f_mul (f64_of_u64 (ps_sol_reserves_raw sell)) (sn_max_pool_share self));
         quote_back = min quote_back_raw pool_share_cap;
         gross = f_sub (f_div (f64_of_u128 quote_back) (quote_unit buy)) investment;
         net = f_sub gross (sn_cu_cost_sol self) in
     Ok (gross, net)))"

text \<open>The capacity search: twelve halvings.\<close>

primrec capacity_loop :: "(f64 \<Rightarrow> u128 client_result) \<Rightarrow> u128 \<Rightarrow> nat \<Rightarrow> f64 \<Rightarrow> f64 \<Rightarrow> f64 client_result" where
  "capacity_loop tokens max_tokens 0 lo hi = Ok lo"
| "capacity_loop tokens max_tokens (Suc k) lo hi =
     (let mid = f_div (f_add lo hi) (Fin 2) in
      and_then (tokens mid) (\<lambda>t.
      if t \<le> max_tokens then capacity_loop tokens max_tokens k mid hi
      else capacity_loop tokens max_tokens k lo mid))"

definition find_max_invest_within_capacity :: "price_snapshot \<Rightarrow> f64 \<Rightarrow> u128 \<Rightarrow> f64 client_result" where
  "find_max_invest_within_capacity buy max_invest max_tokens =
     and_then (simulate_buy buy max_invest) (\<lambda>tokens_at_max.
     if tokens_at_max \<le> max_tokens then Ok max_invest
     else capacity_loop (simulate_buy buy) max_tokens 12 (Fin 0) max_invest)"

text \<open>The golden-section search: the interval \<open>a\<close>, \<open>b\<close>, the two inner points and their values.\<close>

definition inv_phi :: f64 where
  "inv_phi = f_div (Fin 1) (to_f64 (1618033988749895 / 10 ^ 15))"

definition inner_low :: "f64 \<Rightarrow> f64 \<Rightarrow> f64" where
  "inner_low a b = f_sub b (f_mul (f_sub b a) inv_phi)"

definition inner_high :: "f64 \<Rightarrow> f64 \<Rightarrow> f64" where
  "inner_high a b = f_add a (f_mul (f_sub b a) inv_phi)"

primrec golden_loop :: "(f64 \<Rightarrow> f64 client_result) \<Rightarrow> nat \<Rightarrow> f64 \<Rightarrow> f64 \<Rightarrow> f64 \<Rightarrow> f64 \<Rightarrow> f64 \<Rightarrow> f64
    \<Rightarrow> (f64 \<times> f64) client_result" where
  "golden_loop net 0 a b c d fc fd = Ok (a, b)"
| "golden_loop net (Suc k) a b c d fc fd =
     (if f_lt fd fc
      then (let b' = d; d' = c; fd' = fc; c' = inner_low a b' in
            and_then (net c') (\<lambda>fc'. golden_loop net k a b' c' d' fc' fd'))
      else (let a' = c; c' = d; fc' = fd; d' = inner_high a' b in
            and_then (net d') (\<lambda>fd'. golden_loop net k a' b c' d' fc' fd')))"

definition golden_search_profit :: "scanner \<Rightarrow> price_snapshot \<Rightarrow> price_snapshot \<Rightarrow> f64 \<Rightarrow> f64
    \<Rightarrow> (f64 \<times> f64 \<times> f64) client_result" where
  "golden_search_profit self buy sell lo hi =
     (let net = (\<lambda>x. and_then (compute_arb_at_investment self buy sell x) (\<lambda>r. Ok (snd r)));
          c = inner_low lo hi;
          d = inner_high lo hi in
      and_then (net c) (\<lambda>fc.
      and_then (net d) (\<lambda>fd.
      and_then (golden_loop net 12 lo hi c d fc fd) (\<lambda>(a, b).
      let best = f_div (f_add a b) (Fin 2) in
      and_then (compute_arb_at_investment self buy sell best) (\<lambda>(gross, net_profit).
      Ok (best, gross, net_profit))))))"

definition f_clamp01 :: "f64 \<Rightarrow> f64" where
  "f_clamp01 x = (if f_lt x (Fin 0) then Fin 0 else if f_lt (Fin 1) x then Fin 1 else x)"

definition MIN_INVEST :: f64 where
  "MIN_INVEST = to_f64 (1 / 1000)"

definition confidence_of :: "scanner \<Rightarrow> u32 \<Rightarrow> f64 \<Rightarrow> f64" where
  "confidence_of self price_diff_bps best_invest =
     (let price_confidence = f_clamp01 (f_sub (f_div (f64_of_nat (unat price_diff_bps))
            (f64_of_nat (unat (max (sn_min_price_diff_bps self) 1)))) (Fin 1));
          depth_confidence = f_min (f_div best_invest (sn_max_investment_sol self)) (Fin 1) in
      f_div (f_add price_confidence depth_confidence) (Fin 2))"

definition no_estimate :: "f64 \<times> f64 \<times> f64 \<times> f64" where
  "no_estimate = (Fin 0, Fin 0, Fin 0, Fin 0)"

definition estimate_profit :: "scanner \<Rightarrow> price_snapshot \<Rightarrow> price_snapshot \<Rightarrow> u32
    \<Rightarrow> (f64 \<times> f64 \<times> f64 \<times> f64) client_result" where
  "estimate_profit self buy sell price_diff_bps =
     (if ps_sol_reserves_raw buy = 0 \<or> ps_token_reserves_raw buy = 0 \<or>
         ps_sol_reserves_raw sell = 0 \<or> ps_token_reserves_raw sell = 0
      then Ok no_estimate
      else
        (let unit = quote_unit buy;
             quote_cap = f_mul (f_div (f64_of_u64 (ps_sol_reserves_raw buy)) unit) (sn_max_pool_share self);
             max_invest = f_min quote_cap (sn_max_investment_sol self) in
         if f_lt max_invest MIN_INVEST then Ok no_estimate
         else
           (let max_tokens = f64_as_u128 (f_mul (f64_of_u64 (ps_token_reserves_raw sell)) (sn_max_pool_share self)) in
            if max_tokens = 0 then Ok no_estimate
            else
              and_then (find_max_invest_within_capacity buy max_invest max_tokens) (\<lambda>upper.
              if f_lt upper MIN_INVEST then Ok no_estimate
              else
                (let max_out = f_min (f_mul (f_div (f64_of_u64 (ps_sol_reserves_raw sell)) unit) (sn_max_pool_share self))
                       (sn_max_absolute_sol_out self);
                     upper = f_min upper (f_mul max_out (to_f64 (12 / 10))) in
                 if f_lt upper MIN_INVEST then Ok no_estimate
                 else
                   and_then (golden_search_profit self buy sell MIN_INVEST upper) (\<lambda>(best_invest, gross, net).
                   Ok (best_invest, gross, net, confidence_of self price_diff_bps best_invest))))))) "

section \<open>Verification with fresh bins\<close>

text \<open>\<open>refetch_and_verify\<close>: \<open>fresh_bins\<close> is what \<open>fetch_bins_fresh\<close> returned. The side that is not the
  DLMM is always taken as constant product.\<close>

definition cp_leg :: "price_snapshot \<Rightarrow> bool \<Rightarrow> u128 \<Rightarrow> u128 client_result" where
  "cp_leg s sell amount = pool_swap (s\<lparr>ps_bins := []\<rparr>) sell amount"

definition refetch_and_verify :: "scanner \<Rightarrow> dlmm_bin list client_result \<Rightarrow> price_snapshot \<Rightarrow> price_snapshot
    \<Rightarrow> f64 \<Rightarrow> bool \<Rightarrow> f64 client_result" where
  "refetch_and_verify self fresh dlmm_snap other_snap investment dlmm_is_sell =
     and_then fresh (\<lambda>fresh_bins.
     if fresh_bins = [] then Err (Failed ''no fresh bins found'')
     else
       (let rate = fee_rate dlmm_snap; other_unit = quote_unit other_snap in
        if dlmm_is_sell
        then
          and_then (cp_leg other_snap False (ucast (f64_as_u64 (f_mul investment other_unit)))) (\<lambda>tokens_got.
          let sol_back_raw = (ucast (client_dlmm_estimate fresh_bins (ucast tokens_got)
                (ps_meme_is_x dlmm_snap) rate) :: u128);
              max_sol_out = f64_as_u128 (f_min (f_mul (f64_of_u64 (ps_sol_reserves_raw dlmm_snap)) (sn_max_pool_share self))
                (f_mul (sn_max_absolute_sol_out self) (Fin 1000000000)));
              gross = f_sub (f_div (f64_of_u128 (min sol_back_raw max_sol_out)) (Fin 1000000000)) investment in
          Ok (f_sub gross (sn_cu_cost_sol self)))
        else
          (let tokens_got = (ucast (client_dlmm_estimate fresh_bins (f64_as_u64 (f_mul investment (Fin 1000000000)))
                 (\<not> ps_meme_is_x dlmm_snap) rate) :: u128) in
           and_then (cp_leg other_snap True tokens_got) (\<lambda>quote_back_raw.
           let max_out = f64_as_u128 (f_min (f_mul (f64_of_u64 (ps_sol_reserves_raw other_snap)) (sn_max_pool_share self))
                 (f_mul (sn_max_absolute_sol_out self) other_unit));
               gross = f_sub (f_div (f64_of_u128 (min quote_back_raw max_out)) other_unit) investment in
           Ok (f_sub gross (sn_cu_cost_sol self))))))"

section \<open>Opportunities\<close>

definition find_venue :: "venue_price list \<Rightarrow> venue \<Rightarrow> venue_price option" where
  "find_venue venue_prices v = List.find (\<lambda>p. vp_venue p = v) venue_prices"

definition tvl_sol :: "price_snapshot \<Rightarrow> f64" where
  "tvl_sol s = f_mul (f_div (f64_of_u64 (ps_sol_reserves_raw s)) (quote_unit s)) (Fin 2)"

text \<open>The fresh check of one candidate: skipped without a DLMM side, below the threshold, when
  switched off, or when the stream is warm.\<close>

definition passes_reverify :: "scanner \<Rightarrow> (string \<Rightarrow> dlmm_bin list client_result) \<Rightarrow> bool \<Rightarrow> price_snapshot
    \<Rightarrow> price_snapshot \<Rightarrow> f64 \<Rightarrow> f64 \<Rightarrow> bool client_result" where
  "passes_reverify self fetch_bins stream_warm buy_snapshot sell_snapshot investment net_profit =
     (let dlmm_side =
            (if ps_lb_pair sell_snapshot \<noteq> '''' then Some (sell_snapshot, buy_snapshot, True)
             else if ps_lb_pair buy_snapshot \<noteq> '''' then Some (buy_snapshot, sell_snapshot, False)
             else None) in
      case dlmm_side of
        None \<Rightarrow> Ok True
      | Some (dlmm_snap, other_snap, dlmm_is_sell) \<Rightarrow>
          if f_le (sn_min_profit_threshold_sol self) net_profit \<and> \<not> sn_skip_reverify self \<and> \<not> stream_warm
          then (case refetch_and_verify self (fetch_bins (ps_lb_pair dlmm_snap)) dlmm_snap other_snap investment dlmm_is_sell of
                  Ok fresh_net \<Rightarrow> Ok (\<not> f_lt fresh_net (f_mul net_profit (Fin (1 / 2))))
                | Err e \<Rightarrow> Ok False
                | Panic \<Rightarrow> Panic)
          else Ok True)"

definition opp_fee_bps :: "venue \<Rightarrow> venue \<Rightarrow> price_snapshot \<Rightarrow> price_snapshot \<Rightarrow> u32" where
  "opp_fee_bps buy_venue sell_venue buy_snapshot sell_snapshot =
     (if buy_venue = MeteoraDlmm then ps_fee_bps buy_snapshot
      else if sell_venue = MeteoraDlmm then ps_fee_bps sell_snapshot else 25)"

text \<open>The body of the double loop: \<open>None\<close> is a \<open>continue\<close>.\<close>

definition try_pair :: "scanner \<Rightarrow> (string \<Rightarrow> dlmm_bin list client_result) \<Rightarrow> bool \<Rightarrow> string \<Rightarrow> string \<Rightarrow> u64
    \<Rightarrow> venue \<Rightarrow> price_snapshot \<Rightarrow> venue \<Rightarrow> price_snapshot \<Rightarrow> opportunity option client_result" where
  "try_pair self fetch_bins stream_warm mint source slot buy_venue buy_snapshot sell_venue sell_snapshot =
     (let buy_price = ps_sol_per_token buy_snapshot; sell_price = ps_sol_per_token sell_snapshot in
      if f_lt (tvl_sol sell_snapshot) (sn_min_pool_tvl_sol self) then Ok None
      else if f_le sell_price buy_price then Ok None
      else
        (let price_diff = f_sub sell_price buy_price;
             price_diff_bps = f64_as_u32 (f_mul (f_div price_diff buy_price) (Fin 10000)) in
         if price_diff_bps < sn_min_price_diff_bps self then Ok None
         else if 5000 < price_diff_bps then Ok None
         else
           and_then (estimate_profit self buy_snapshot sell_snapshot price_diff_bps)
             (\<lambda>(investment, gross_profit, net_profit, confidence).
           and_then (passes_reverify self fetch_bins stream_warm buy_snapshot sell_snapshot investment net_profit) (\<lambda>verified.
           if \<not> verified then Ok None
           else
             (let max_reasonable_gross = f_mul (f_mul investment (f_div (f64_of_nat (unat price_diff_bps)) (Fin 10000))) (Fin 3) in
              if f_lt (f_max max_reasonable_gross MIN_INVEST) gross_profit then Ok None
              else
                (let safe_profit = f_mul net_profit (sn_profit_safety_factor self) in
                 if f_le safe_profit (Fin 0) \<or> f_lt safe_profit (sn_min_profit_threshold_sol self) then Ok None
                 else Ok (Some
                   \<lparr>op_signature = source, op_slot = slot, op_token_mint = mint, op_buy_venue = buy_venue,
                    op_sell_venue = sell_venue, op_buy_price_sol = buy_price, op_sell_price_sol = sell_price,
                    op_price_diff_bps = price_diff_bps, op_investment_sol = investment,
                    op_expected_profit_sol = gross_profit, op_net_profit_sol = net_profit,
                    op_confidence = confidence,
                    op_dlmm_fee_bps = opp_fee_bps buy_venue sell_venue buy_snapshot sell_snapshot\<rparr>)))))))"

definition sell_candidates :: "scanner \<Rightarrow> venue_price list \<Rightarrow> venue \<Rightarrow> (venue \<times> price_snapshot) list" where
  "sell_candidates self venue_prices buy_venue =
     List.map_filter (\<lambda>v. if v = buy_venue then None
       else map_option (Pair v) (Option.bind (find_venue venue_prices v) best_sell_snapshot)) (sn_enabled_venues self)"

definition buy_candidates :: "scanner \<Rightarrow> venue_price list \<Rightarrow> (venue \<times> price_snapshot) list" where
  "buy_candidates self venue_prices =
     filter (\<lambda>(v, s). \<not> f_lt (tvl_sol s) (sn_min_pool_tvl_sol self))
       (List.map_filter (\<lambda>v. map_option (Pair v) (Option.bind (find_venue venue_prices v) best_buy_snapshot))
         (sn_enabled_venues self))"

definition candidate_pairs :: "scanner \<Rightarrow> venue_price list
    \<Rightarrow> ((venue \<times> price_snapshot) \<times> (venue \<times> price_snapshot)) list" where
  "candidate_pairs self venue_prices =
     concat (map (\<lambda>b. map (Pair b) (sell_candidates self venue_prices (fst b))) (buy_candidates self venue_prices))"

text \<open>The final sort is stable and descending in the net profit; a NaN compares as equal.\<close>

fun insert_desc :: "opportunity \<Rightarrow> opportunity list \<Rightarrow> opportunity list" where
  "insert_desc x [] = [x]"
| "insert_desc x (y # ys) =
     (if f_lt (op_net_profit_sol x) (op_net_profit_sol y) then y # insert_desc x ys else x # y # ys)"

definition sort_by_net :: "opportunity list \<Rightarrow> opportunity list" where
  "sort_by_net xs = foldr insert_desc xs []"

definition build_opps_from_prices :: "scanner \<Rightarrow> (string \<Rightarrow> dlmm_bin list client_result) \<Rightarrow> bool \<Rightarrow> string
    \<Rightarrow> string \<Rightarrow> u64 \<Rightarrow> venue_price list \<Rightarrow> opportunity list client_result" where
  "build_opps_from_prices self fetch_bins stream_warm mint source slot venue_prices =
     and_then (traverse (\<lambda>((bv, bs), (sv, ss)). try_pair self fetch_bins stream_warm mint source slot bv bs sv ss)
        (candidate_pairs self venue_prices)) (\<lambda>found.
     Ok (sort_by_net (List.map_filter (\<lambda>x. x) found)))"

end
