(* ===== verification/Bot_Cache.thy ===== *)
theory Bot_Cache
  imports Bot_Scanner Bot_Rpc "HOL-Library.Char_ord" "HOL-Library.List_Lexorder"
begin

text \<open>
  What the pool caches share (\<open>pool_cache/types.rs\<close>, \<open>pool_cache/mod.rs\<close>) and the account cache of
  the gRPC stream (\<open>grpc_stream/mod.rs\<close>): entries with their age, keys of mint pairs, the lookups,
  the liquidity in SOL. A cache is a map; where the source walks a \<open>HashMap\<close> the order of its keys is
  a parameter. An instant counts nanoseconds from an origin at least \<open>CACHE_TTL_SECS\<close> before the start.
\<close>

section \<open>Entries\<close>

definition CACHE_TTL_SECS :: nat where
  "CACHE_TTL_SECS = 60"

definition NEGATIVE_CACHE_TTL_SECS :: nat where
  "NEGATIVE_CACHE_TTL_SECS = 120"

definition DLMM_RESERVE_TTL_SECS :: nat where
  "DLMM_RESERVE_TTL_SECS = 10"

definition PUMPFUN_RESERVE_TTL_SECS :: nat where
  "PUMPFUN_RESERVE_TTL_SECS = 10"

record 'a cache_entry =
  ce_data :: 'a
  ce_updated_at :: nat
  ce_negative :: bool

definition entry_new :: "nat \<Rightarrow> 'a \<Rightarrow> 'a cache_entry" where
  "entry_new now d = \<lparr>ce_data = d, ce_updated_at = now, ce_negative = False\<rparr>"

definition entry_new_negative :: "nat \<Rightarrow> 'a \<Rightarrow> 'a cache_entry" where
  "entry_new_negative now d = \<lparr>ce_data = d, ce_updated_at = now, ce_negative = True\<rparr>"

definition entry_new_persisted :: "nat \<Rightarrow> 'a \<Rightarrow> 'a cache_entry" where
  "entry_new_persisted now d =
     \<lparr>ce_data = d, ce_updated_at = now - (CACHE_TTL_SECS + 1) * 10 ^ 9, ce_negative = False\<rparr>"

definition age_secs :: "nat \<Rightarrow> 'a cache_entry \<Rightarrow> nat" where
  "age_secs now e = (now - ce_updated_at e) div 10 ^ 9"

definition is_stale :: "nat \<Rightarrow> 'a cache_entry \<Rightarrow> bool" where
  "is_stale now e \<longleftrightarrow>
     (if ce_negative e then NEGATIVE_CACHE_TTL_SECS else CACHE_TTL_SECS) < age_secs now e"

definition next_utc_midnight :: "int \<Rightarrow> int" where
  "next_utc_midnight now = (now div 86400 + 1) * 86400"

text \<open>A new entry is fresh for a minute, one loaded from the database never.\<close>

lemma entry_new_fresh: "now' \<le> now + 60 * 10 ^ 9 \<Longrightarrow> \<not> is_stale now' (entry_new now d)"
proof -
  assume "now' \<le> now + 60 * 10 ^ 9"
  then have "(now' - now) div 10 ^ 9 \<le> 60 * 10 ^ 9 div 10 ^ 9" by (intro div_le_mono) simp
  then show ?thesis by (simp add: is_stale_def entry_new_def age_secs_def CACHE_TTL_SECS_def)
qed

lemma entry_persisted_stale:
  assumes "61 * 10 ^ 9 \<le> now" "now \<le> now'"
  shows "is_stale now' (entry_new_persisted now d)"
proof -
  have "61 * 10 ^ 9 div 10 ^ 9 \<le> (now' - (now - 61 * 10 ^ 9)) div 10 ^ 9" using assms by (intro div_le_mono) simp
  then show ?thesis by (simp add: is_stale_def entry_new_persisted_def age_secs_def CACHE_TTL_SECS_def)
qed

section \<open>Keys\<close>

definition cache_key :: "string \<Rightarrow> string \<Rightarrow> string" where
  "cache_key t0 t1 = (let (a, b) = (if t0 < t1 then (t0, t1) else (t1, t0)) in a @ '':'' @ b)"

lemma cache_key_sym: "cache_key a b = cache_key b a"
proof (cases a b rule: linorder_cases)
  case less
  then show ?thesis by (simp add: cache_key_def less_not_sym)
next
  case greater
  then show ?thesis by (simp add: cache_key_def less_not_sym)
qed simp

lemma split_at_colon:
  assumes "a @ CHR '':'' # b = c @ CHR '':'' # d" and "CHR '':'' \<notin> set a" "CHR '':'' \<notin> set c"
  shows "a = c \<and> b = d"
  using assms
proof (induction a arbitrary: c)
  case Nil
  then show ?case by (cases c) auto
next
  case (Cons x a)
  then show ?case by (cases c) auto
qed

text \<open>Mints contain no colon, so a key determines the pair.\<close>

lemma cache_key_cases:
  obtains "cache_key a b = a @ CHR '':'' # b" | "cache_key a b = b @ CHR '':'' # a"
  by (cases "a < b") (simp_all add: cache_key_def)

lemma cache_key_inj:
  assumes "CHR '':'' \<notin> set a \<union> set b \<union> set c \<union> set d"
  shows "cache_key a b = cache_key c d \<longleftrightarrow> {a, b} = {c, d}"
proof
  assume eq: "cache_key a b = cache_key c d"
  show "{a, b} = {c, d}"
    by (cases a b rule: cache_key_cases; cases c d rule: cache_key_cases)
      (use assms eq in \<open>auto dest!: split_at_colon\<close>)
next
  assume "{a, b} = {c, d}"
  then show "cache_key a b = cache_key c d" using cache_key_sym by (auto simp: doubleton_eq_iff)
qed

section \<open>Decimals and liquidity\<close>

definition guess_decimals :: "string \<Rightarrow> byte" where
  "guess_decimals mint =
     (if mint = NATIVE_SOL_MINT_C then SOL_DECIMALS
      else if mint = USDC_MINT \<or> mint = USDT_MINT then USDC_DECIMALS
      else DEFAULT_DECIMALS)"

definition is_stablecoin :: "string \<Rightarrow> bool" where
  "is_stablecoin mint \<longleftrightarrow> mint = USDC_MINT \<or> mint = USDT_MINT"

record pool_reserves =
  pr_token_0 :: string
  pr_token_1 :: string
  pr_token_0_vault_raw :: u64
  pr_token_1_vault_raw :: u64

definition reserves_from_state :: "pool_state_data \<Rightarrow> pool_reserves" where
  "reserves_from_state s =
     \<lparr>pr_token_0 = ps_token_0_mint s, pr_token_1 = ps_token_1_mint s,
      pr_token_0_vault_raw = ps_token_0_vault_raw s, pr_token_1_vault_raw = ps_token_1_vault_raw s\<rparr>"

definition ui_amount :: "string \<Rightarrow> u64 \<Rightarrow> f64" where
  "ui_amount mint raw = f_div (f64_of_u64 raw) (pow10 (int (unat (guess_decimals mint))))"

definition vault_sol_value :: "f64 \<Rightarrow> string \<Rightarrow> f64 \<Rightarrow> f64 option" where
  "vault_sol_value sol_price mint ui =
     (if mint = NATIVE_SOL_MINT_C then Some ui
      else if f_lt (Fin 0) sol_price \<and> is_stablecoin mint then Some (f_div ui sol_price) else None)"

definition compute_liquidity_sol :: "f64 \<Rightarrow> pool_reserves \<Rightarrow> f64 option" where
  "compute_liquidity_sol sol_price r =
     (let ui0 = ui_amount (pr_token_0 r) (pr_token_0_vault_raw r);
          ui1 = ui_amount (pr_token_1 r) (pr_token_1_vault_raw r) in
      if pr_token_0 r = NATIVE_SOL_MINT_C then Some (f_mul ui0 (Fin 2))
      else if pr_token_1 r = NATIVE_SOL_MINT_C then Some (f_mul ui1 (Fin 2))
      else if f_lt (Fin 0) sol_price
      then (if is_stablecoin (pr_token_0 r) then Some (f_div (f_mul ui0 (Fin 2)) sol_price)
            else if is_stablecoin (pr_token_1 r) then Some (f_div (f_mul ui1 (Fin 2)) sol_price)
            else None)
      else None)"

section \<open>Lookups\<close>

type_synonym 'a cache = "string \<rightharpoonup> 'a cache_entry"

definition get_entry :: "nat \<Rightarrow> string \<Rightarrow> string \<Rightarrow> 'a option cache \<Rightarrow> 'a option" where
  "get_entry now t0 t1 cache =
     (case cache (cache_key t0 t1) of
        None \<Rightarrow> None
      | Some entry \<Rightarrow> if is_stale now entry then None else ce_data entry)"

definition get_pool_state :: "nat \<Rightarrow> string \<Rightarrow> string \<Rightarrow> pool_state_data option cache \<Rightarrow> pool_state_data option" where
  "get_pool_state now t0 t1 cache = get_entry now t0 t1 cache"

record ammv4_pool_info =
  ai_pool_address :: string
  ai_coin_mint :: string
  ai_pc_mint :: string
  ai_coin_vault :: string
  ai_pc_vault :: string
  ai_open_orders :: string
  ai_target_orders :: string
  ai_market :: string
  ai_market_program :: string

definition get_ammv4_pool_info :: "nat \<Rightarrow> string \<Rightarrow> string \<Rightarrow> ammv4_pool_info option cache \<Rightarrow> ammv4_pool_info option" where
  "get_ammv4_pool_info now mint_a mint_b cache = get_entry now mint_a mint_b cache"

definition get_dlmm_reserves :: "nat \<Rightarrow> string \<Rightarrow> string \<Rightarrow> dlmm_pool option cache \<Rightarrow> dlmm_pool option" where
  "get_dlmm_reserves now token_x token_y cache = get_entry now token_x token_y cache"

definition get_whirlpool_reserves :: "nat \<Rightarrow> string \<Rightarrow> string \<Rightarrow> dlmm_pool option cache \<Rightarrow> dlmm_pool option" where
  "get_whirlpool_reserves now token_x token_y cache = get_entry now token_x token_y cache"

text \<open>\<open>get_pool_state_by_mint\<close> walks the keys in \<open>order\<close>; a fresh entry without data ends it (\<open>?\<close>).\<close>

fun pool_state_by_mint :: "nat \<Rightarrow> string \<Rightarrow> pool_state_data option cache \<Rightarrow> string list \<Rightarrow> pool_state_data option" where
  "pool_state_by_mint now mint cache [] = None"
| "pool_state_by_mint now mint cache (key # order) =
     (case cache key of
        None \<Rightarrow> pool_state_by_mint now mint cache order
      | Some entry \<Rightarrow>
          if is_stale now entry then pool_state_by_mint now mint cache order
          else (case ce_data entry of
                  None \<Rightarrow> None
                | Some state \<Rightarrow>
                    if contains key mint then Some state else pool_state_by_mint now mint cache order))"

definition cache_discovered_pool :: "nat \<Rightarrow> string \<Rightarrow> string \<Rightarrow> string \<Rightarrow> string cache \<Rightarrow> string cache" where
  "cache_discovered_pool now mint_a mint_b pool_addr cache =
     cache(cache_key mint_a mint_b \<mapsto> entry_new now pool_addr)"

definition get_discovered_pool :: "nat \<Rightarrow> string \<Rightarrow> string \<Rightarrow> string cache \<Rightarrow> string option" where
  "get_discovered_pool now mint_a mint_b cache =
     (case cache (cache_key mint_a mint_b) of
        None \<Rightarrow> None
      | Some entry \<Rightarrow> if is_stale now entry then None else Some (ce_data entry))"

definition get_reserves_sol :: "nat \<Rightarrow> f64 \<Rightarrow> string \<Rightarrow> string \<Rightarrow> pool_state_data option cache \<Rightarrow> (f64 \<times> f64) option" where
  "get_reserves_sol now sol_price t0 t1 cache =
     (case get_entry now t0 t1 cache of
        None \<Rightarrow> None
      | Some state \<Rightarrow>
          (let r = reserves_from_state state;
               v0 = vault_sol_value sol_price (pr_token_0 r) (ui_amount (pr_token_0 r) (pr_token_0_vault_raw r));
               v1 = vault_sol_value sol_price (pr_token_1 r) (ui_amount (pr_token_1 r) (pr_token_1_vault_raw r)) in
           case (v0, v1) of
             (Some a, Some b) \<Rightarrow> Some (a, b)
           | (Some a, None) \<Rightarrow> Some (a, a)
           | (None, Some b) \<Rightarrow> Some (b, b)
           | (None, None) \<Rightarrow> None))"

section \<open>The account cache of the stream\<close>

record cached_account =
  ca_data :: "byte list"
  ca_slot :: u64
  ca_owner :: "byte list"

record geyser_cache =
  gc_accounts :: "string \<rightharpoonup> cached_account"
  gc_latest_slot :: u64
  gc_blockhash :: pubkey
  gc_blockhash_slot :: u64

definition geyser_default :: geyser_cache where
  "geyser_default = \<lparr>gc_accounts = Map.empty, gc_latest_slot = 0, gc_blockhash = 0, gc_blockhash_slot = 0\<rparr>"

definition geyser_get :: "string \<Rightarrow> geyser_cache \<Rightarrow> byte list option" where
  "geyser_get pubkey c = map_option ca_data (gc_accounts c pubkey)"

definition get_with_slot :: "string \<Rightarrow> geyser_cache \<Rightarrow> (byte list \<times> u64) option" where
  "get_with_slot pubkey c = map_option (\<lambda>e. (ca_data e, ca_slot e)) (gc_accounts c pubkey)"

definition get_owner :: "string \<Rightarrow> geyser_cache \<Rightarrow> byte list option" where
  "get_owner pubkey c = map_option ca_owner (gc_accounts c pubkey)"

definition geyser_put :: "string \<Rightarrow> byte list \<Rightarrow> byte list \<Rightarrow> u64 \<Rightarrow> geyser_cache \<Rightarrow> geyser_cache" where
  "geyser_put pubkey data owner slot c =
     c\<lparr>gc_latest_slot := max (gc_latest_slot c) slot,
       gc_accounts := (gc_accounts c)(pubkey \<mapsto> \<lparr>ca_data = data, ca_slot = slot, ca_owner = owner\<rparr>)\<rparr>"

definition put_blockhash :: "pubkey \<Rightarrow> u64 \<Rightarrow> geyser_cache \<Rightarrow> geyser_cache" where
  "put_blockhash blockhash slot c =
     (if gc_blockhash_slot c < slot then c\<lparr>gc_blockhash := blockhash, gc_blockhash_slot := slot\<rparr> else c)"

definition get_latest_blockhash :: "geyser_cache \<Rightarrow> pubkey option" where
  "get_latest_blockhash c = Some (gc_blockhash c)"

definition get_fresh_blockhash :: "geyser_cache \<Rightarrow> pubkey option" where
  "get_fresh_blockhash c =
     (if 0 < gc_blockhash_slot c \<and> 0 < gc_latest_slot c \<and> sat_sub (gc_latest_slot c) (gc_blockhash_slot c) \<le> 10
      then Some (gc_blockhash c) else None)"

text \<open>The readers' rule: a cached account counts if it is at most two slots behind the stream.\<close>

definition warm_data :: "geyser_cache \<Rightarrow> string \<Rightarrow> byte list option" where
  "warm_data c key =
     (case get_with_slot key c of
        Some (data, slot) \<Rightarrow>
          if 0 < gc_latest_slot c \<and> sat_sub (gc_latest_slot c) slot \<le> 2 then Some data else None
      | None \<Rightarrow> None)"

end
