(* ===== verification/Bot_Bins.thy ===== *)
theory Bot_Bins
  imports Bot_Cache Bot_Store Client_Quotes
begin

text \<open>
  DLMM pools read from the chain: \<open>pool_cache/dlmm/bins.rs\<close> and the optional key of
  \<open>pool_cache/dlmm/mod.rs\<close>. An RPC endpoint is a record of answers: \<open>rv_account\<close> of \<open>get_account\<close>
  (\<open>None\<close> is an error) and \<open>rv_multiple\<close> of \<open>get_multiple_accounts\<close>, which answers key by key or
  fails as a whole. \<open>parse_key\<close> and \<open>show_key\<close> are the SDK's base58 parser and printer. The lemmas
  relate the bot's bin arrays to the ones the on-chain program reads.
\<close>

section \<open>Answers of an endpoint\<close>

record chain_account =
  on_owner :: pubkey
  on_data :: "byte list"

record rpc_view =
  rv_account :: "pubkey \<Rightarrow> chain_account option"
  rv_multiple :: "pubkey list \<Rightarrow> (pubkey \<Rightarrow> chain_account option) option"

definition get_multiple_accounts :: "rpc_view \<Rightarrow> pubkey list \<Rightarrow> chain_account option list option" where
  "get_multiple_accounts rpc keys = map_option (\<lambda>answer. map answer keys) (rv_multiple rpc keys)"

text \<open>\<open>accounts.get(i).and_then(|a| a.as_ref()).and_then(parse_token_amount).unwrap_or(0)\<close>\<close>

definition amount_at :: "chain_account option list \<Rightarrow> nat \<Rightarrow> u64" where
  "amount_at accounts i =
     (case (if i < length accounts then accounts ! i else None) of
        None \<Rightarrow> 0
      | Some a \<Rightarrow> case_option 0 id (parse_token_amount (on_data a)))"

type_synonym show_key = "pubkey \<Rightarrow> string"

section \<open>Little-endian fields\<close>

definition field :: "byte list \<Rightarrow> nat \<Rightarrow> nat \<Rightarrow> byte list" where
  "field data off n = take n (drop off data)"

definition u16_at :: "byte list \<Rightarrow> nat \<Rightarrow> u16" where
  "u16_at data off = of_nat (from_le (field data off 2))"

definition i32_at :: "byte list \<Rightarrow> nat \<Rightarrow> int" where
  "i32_at data off = sint (of_nat (from_le (field data off 4)) :: u32)"

definition u64_at :: "byte list \<Rightarrow> nat \<Rightarrow> u64" where
  "u64_at data off = u64_from_le (field data off 8)"

definition u128_at :: "byte list \<Rightarrow> nat \<Rightarrow> u128" where
  "u128_at data off = of_nat (from_le (field data off 16))"

definition key_at :: "byte list \<Rightarrow> nat \<Rightarrow> pubkey" where
  "key_at data off = key_of_bytes (field data off 32)"

definition i64_to_le :: "int \<Rightarrow> byte list" where
  "i64_to_le x = to_le 8 (nat (x mod 2 ^ 64))"

section \<open>Bin arrays\<close>

fun read_bins :: "byte list \<Rightarrow> nat \<Rightarrow> int \<Rightarrow> nat list \<Rightarrow> dlmm_bin list" where
  "read_bins bdata stride arr_idx [] = []"
| "read_bins bdata stride arr_idx (i # rest) =
     (let offset = 56 + i * stride in
      if offset + 16 > length bdata then []
      else \<lparr>db_bin_id = bin_id_of arr_idx i, db_amount_x = u64_at bdata offset,
             db_amount_y = u64_at bdata (offset + 8), db_reserve_x = 0, db_reserve_y = 0\<rparr>
           # read_bins bdata stride arr_idx rest)"

definition parse_bin_array_data :: "byte list \<Rightarrow> dlmm_bin list" where
  "parse_bin_array_data bdata =
     (if length bdata < 56 then []
      else
        (let arr_idx = sint (u64_at bdata 8);
             version = (if 16 < length bdata then bdata ! 16 else 1) in
         if version = 1 then read_bins bdata 128 arr_idx [0..<70]
         else if version = 2 then read_bins bdata 144 arr_idx [0..<70]
         else []))"

definition parse_optional_pubkey :: "byte list \<Rightarrow> nat \<Rightarrow> pubkey option" where
  "parse_optional_pubkey data offset =
     (if length data < offset + 1 \<or> data ! offset = 0 then None
      else if length data < offset + 33 then None
      else Some (key_at data (offset + 1)))"

text \<open>Rust's division of signed integers truncates toward zero.\<close>

definition trunc_div :: "int \<Rightarrow> int \<Rightarrow> int" where
  "trunc_div a b = sgn a * sgn b * (\<bar>a\<bar> div \<bar>b\<bar>)"

definition BINS_PER_ARRAY :: int where
  "BINS_PER_ARRAY = 70"

definition bin_array_window :: "int \<Rightarrow> int list \<Rightarrow> int list" where
  "bin_array_window active_id offsets =
     (let active_bin_array_idx = trunc_div active_id BINS_PER_ARRAY in
      map (\<lambda>offset. active_bin_array_idx + offset) offsets)"

definition bin_array_pda :: "pda_fn \<Rightarrow> pubkey \<Rightarrow> pubkey \<Rightarrow> int \<Rightarrow> pubkey" where
  "bin_array_pda pda lb_pair dlmm array_idx =
     pda [byte_string ''bin_array'', key_bytes lb_pair, i64_to_le array_idx] dlmm"

section \<open>Fetching a pool\<close>

definition fetch_reserves_with_metadata :: "pda_fn \<Rightarrow> parse_key \<Rightarrow> show_key \<Rightarrow> rpc_view \<Rightarrow> dlmm_meta
    \<Rightarrow> dlmm_pool option" where
  "fetch_reserves_with_metadata pda parse_key show_key rpc meta =
     Option.bind (parse_key (dm_lb_pair meta)) (\<lambda>lb_pair_pk.
     let dlmm = pubkey_lit DLMM_PROGRAM in
     Option.bind (rv_account rpc lb_pair_pk) (\<lambda>lb_pair_acct.
     let data = on_data lb_pair_acct in
     if length data < 152 then None
     else
       (let active_id = i32_at data 76; base_factor = u16_at data 84; bitmap_ext = parse_optional_pubkey data 248 in
        Option.bind (parse_key (dm_token_x_mint meta)) (\<lambda>token_x_pk.
        Option.bind (parse_key (dm_token_y_mint meta)) (\<lambda>token_y_pk.
        let reserve_x_pda = pda [key_bytes lb_pair_pk, key_bytes token_x_pk] dlmm;
            reserve_y_pda = pda [key_bytes lb_pair_pk, key_bytes token_y_pk] dlmm;
            bin_array_pubkeys = map (bin_array_pda pda lb_pair_pk dlmm) (bin_array_window active_id [-2, -1, 0, 1, 2]) in
        Option.bind (get_multiple_accounts rpc (reserve_x_pda # reserve_y_pda # bin_array_pubkeys)) (\<lambda>accounts.
        Some
          \<lparr>dp_lb_pair = dm_lb_pair meta, dp_token_x_mint = dm_token_x_mint meta,
           dp_token_y_mint = dm_token_y_mint meta,
           dp_reserve_x = amount_at accounts 0, dp_reserve_y = amount_at accounts 1,
           dp_reserve_x_address = show_key reserve_x_pda, dp_reserve_y_address = show_key reserve_y_pda,
           dp_bin_array_addresses = map show_key bin_array_pubkeys,
           dp_bins = concat (map (\<lambda>acct. case acct of None \<Rightarrow> [] | Some a \<Rightarrow> parse_bin_array_data (on_data a)) (drop 2 accounts)),
           dp_bin_step = dm_bin_step meta, dp_base_factor = base_factor, dp_active_id = active_id,
           dp_bin_array_bitmap_extension = map_option show_key bitmap_ext,
           dp_sqrt_price = 0, dp_tick_current_index = 0, dp_fee_rate = 0\<rparr>))))))"

text \<open>The account data if the stream has it fresh, else an RPC read.\<close>

definition warm_or_rpc :: "geyser_cache \<Rightarrow> rpc_view \<Rightarrow> string \<Rightarrow> pubkey \<Rightarrow> byte list option" where
  "warm_or_rpc gc rpc key pk =
     (case warm_data gc key of Some data \<Rightarrow> Some data | None \<Rightarrow> map_option on_data (rv_account rpc pk))"

definition fetch_bins_fresh :: "pda_fn \<Rightarrow> parse_key \<Rightarrow> show_key \<Rightarrow> geyser_cache \<Rightarrow> rpc_view \<Rightarrow> string
    \<Rightarrow> dlmm_bin list client_result" where
  "fetch_bins_fresh pda parse_key show_key gc rpc lb_pair =
     and_then (key_or_err parse_key lb_pair) (\<lambda>lb_pair_pk.
     let dlmm = pubkey_lit DLMM_PROGRAM in
     and_then (ok_or (warm_or_rpc gc rpc lb_pair lb_pair_pk) (Failed ''get_account'')) (\<lambda>data.
     if length data < 152 then Err (Failed ''lb_pair account too short'')
     else
       (let addresses = map (bin_array_pda pda lb_pair_pk dlmm) (bin_array_window (i32_at data 76) [-1, 0, 1]);
            hits = List.map_filter (\<lambda>addr. warm_data gc (show_key addr)) addresses;
            rpc_miss = filter (\<lambda>addr. warm_data gc (show_key addr) = None) addresses;
            bins = concat (map parse_bin_array_data hits) in
        if rpc_miss = [] then Ok bins
        else
          and_then (ok_or (get_multiple_accounts rpc rpc_miss) (Failed ''get_multiple_accounts'')) (\<lambda>accounts.
          Ok (bins @ concat (map (\<lambda>acct. parse_bin_array_data (on_data acct)) (List.map_filter id accounts)))))))"

definition fetch_reserves_inner :: "pda_fn \<Rightarrow> parse_key \<Rightarrow> show_key \<Rightarrow> geyser_cache \<Rightarrow> rpc_view \<Rightarrow> pubkey \<Rightarrow> pubkey
    \<Rightarrow> dlmm_pool option" where
  "fetch_reserves_inner pda parse_key show_key gc rpc lb_pair_pk dlmm =
     Option.bind (warm_or_rpc gc rpc (show_key lb_pair_pk) lb_pair_pk) (\<lambda>data.
     if length data < 152 then None
     else
       (let active_id = i32_at data 76; bin_step = u16_at data 80; base_factor = u16_at data 84;
            bitmap_ext = parse_optional_pubkey data 248;
            token_x_mint = show_key (key_at data 88); token_y_mint = show_key (key_at data 120) in
        Option.bind (parse_key token_x_mint) (\<lambda>token_x_pk.
        Option.bind (parse_key token_y_mint) (\<lambda>token_y_pk.
        let reserve_x_pda = pda [key_bytes lb_pair_pk, key_bytes token_x_pk] dlmm;
            reserve_y_pda = pda [key_bytes lb_pair_pk, key_bytes token_y_pk] dlmm;
            try_cache = (\<lambda>k. Option.bind (warm_data gc (show_key k)) parse_token_amount) in
        Option.bind
          (case (try_cache reserve_x_pda, try_cache reserve_y_pda) of
             (Some rx, Some ry) \<Rightarrow> Some (rx, ry)
           | _ \<Rightarrow> map_option (\<lambda>accounts. (amount_at accounts 0, amount_at accounts 1))
                    (get_multiple_accounts rpc [reserve_x_pda, reserve_y_pda])) (\<lambda>(reserve_x, reserve_y).
        let bin_array_addresses = map (\<lambda>array_idx. show_key (bin_array_pda pda lb_pair_pk dlmm array_idx))
              (bin_array_window active_id [-2, -1, 0, 1, 2]);
            hits = List.map_filter (warm_data gc) bin_array_addresses;
            rpc_miss = List.map_filter parse_key (filter (\<lambda>a. warm_data gc a = None) bin_array_addresses) in
        Some
          \<lparr>dp_lb_pair = show_key lb_pair_pk, dp_token_x_mint = token_x_mint, dp_token_y_mint = token_y_mint,
           dp_reserve_x = reserve_x, dp_reserve_y = reserve_y,
           dp_reserve_x_address = show_key reserve_x_pda, dp_reserve_y_address = show_key reserve_y_pda,
           dp_bin_array_addresses = bin_array_addresses,
           dp_bins = concat (map parse_bin_array_data hits)
             @ concat (map (\<lambda>acct. parse_bin_array_data (on_data acct)) (List.map_filter (rv_account rpc) rpc_miss)),
           dp_bin_step = bin_step, dp_base_factor = base_factor, dp_active_id = active_id,
           dp_bin_array_bitmap_extension = map_option show_key bitmap_ext,
           dp_sqrt_price = 0, dp_tick_current_index = 0, dp_fee_rate = 0\<rparr>)))))"

section \<open>The bot's bins are the program's bins\<close>

definition bin_sides :: "bool \<Rightarrow> dlmm_bin \<Rightarrow> int \<times> u64 \<times> u64" where
  "bin_sides d b =
     (if d then (db_bin_id b, db_amount_x b, db_amount_y b) else (db_bin_id b, db_amount_y b, db_amount_x b))"

definition two_sided :: "dlmm_bin \<Rightarrow> bool" where
  "two_sided b \<longleftrightarrow> 0 < db_amount_x b \<and> 0 < db_amount_y b"

lemma scan_bins_read_bins:
  "scan_bins data stride arr_idx d is = map (bin_sides d) (filter two_sided (read_bins data stride arr_idx is))"
proof (induction "is")
  case (Cons i "is")
  show ?case
    using Cons.IH by (cases d; cases "56 + i * stride + 16 > length data")
      (auto simp: read_bin_amounts_def Let_def bin_sides_def two_sided_def u64_at_def field_def add.commute)
qed simp

text \<open>The program keeps exactly the bins with two sides.\<close>

lemma scan_parse_bin_array:
  "scan_bin_array data d = map (bin_sides d) (filter two_sided (parse_bin_array_data data))"
  by (simp add: scan_bin_array_def parse_bin_array_data_def bin_stride_def scan_bins_read_bins Let_def
      u64_at_def field_def)

text \<open>Sorting by a key commutes with a map that keeps the key; it is stable.\<close>

lemma insort_map: "insort_key f (h x) (map h xs) = map h (insort_key (\<lambda>y. f (h y)) x xs)"
  by (induction xs) auto

lemma sort_map: "sort_key f (map h xs) = map h (sort_key (\<lambda>y. f (h y)) xs)"
  by (induction xs) (simp_all add: insort_map)

lemma sorted_bins_eq:
  assumes "bins = concat (map (\<lambda>arr. parse_bin_array_data (cell_data (l (acc_key arr)))) bin_arrays)"
  shows "sort_bins d (collect_bins l bin_arrays d) = map (bin_sides d) (filter two_sided (active_bins d bins))"
proof -
  have collect: "collect_bins l bin_arrays d = map (bin_sides d) (filter two_sided bins)"
    unfolding assms collect_bins_def by (induction bin_arrays) (simp_all add: scan_parse_bin_array)
  have both: "filter two_sided (filter (\<lambda>b. db_amount_x b > 0 \<or> db_amount_y b > 0) bins) = filter two_sided bins"
    by (auto simp: two_sided_def intro!: filter_cong)
  have keys: "fst (bin_sides d b) = db_bin_id b" for b by (simp add: bin_sides_def)
  show ?thesis
    unfolding collect sort_bins_def active_bins_def sort_map keys Let_def filter_sort
    by (simp add: filter_sort both del: filter_filter)
qed

lemma map_bin_sides:
  "map (\<lambda>(_, ri, ro). (unat ri, unat ro)) (map (bin_sides d) (filter two_sided xs))
    = filter (\<lambda>(ri, ro). ri \<noteq> 0 \<and> ro \<noteq> 0) (map (bin_pair d) xs)"
  by (induction xs) (auto simp: bin_sides_def two_sided_def bin_pair_def word_neq_0_conv [symmetric] word_unat_eq_iff)

text \<open>The answers of an endpoint that shows a ledger; an account without data does not exist.\<close>

definition ledger_view :: "(pubkey \<Rightarrow> pubkey) \<Rightarrow> ledger \<Rightarrow> pubkey \<Rightarrow> chain_account option" where
  "ledger_view own l k =
     (if cell_data (l k) = [] then None else Some \<lparr>on_owner = own k, on_data = cell_data (l k)\<rparr>)"

lemma parse_ledger_view:
  "(case ledger_view own l k of None \<Rightarrow> [] | Some a \<Rightarrow> parse_bin_array_data (on_data a))
    = parse_bin_array_data (cell_data (l k))"
  by (simp add: ledger_view_def parse_bin_array_data_def)

lemma client_above_chain:
  assumes bins: "bins = concat (map (\<lambda>arr. parse_bin_array_data (cell_data (l (acc_key arr)))) bin_arrays)"
    and "estimate_dlmm_swap_output l bin_arrays a d = Ok chain" "length bin_arrays \<le> 2 ^ 32"
    and "pairs_out (map (bin_pair d) bins) < 2 ^ 64"
  shows "unat chain \<le> unat (client_dlmm_estimate bins a d (Fin 0))"
  unfolding client_dlmm_estimate_def
  by (rule chain_dlmm_below_client [OF assms(2,3) _ assms(4)])
    (simp only: sorted_bins_eq [OF bins] map_bin_sides)

text \<open>C25: A DLMM pool fetched with its metadata from an endpoint that shows a ledger: what the program
  estimates on that ledger from the bin arrays the pool names never exceeds the bot's fee-free estimate
  on the bins it read, as long as the bins together hold less than \<open>2 ^ 64\<close> of the output token.\<close>

theorem fetched_pool_quote_dominates:
  assumes keys: "\<And>k. parse_key (show_key k) = Some k"
    and fetched: "fetch_reserves_with_metadata pda parse_key show_key rpc meta = Some pool"
    and view: "rv_multiple rpc = (\<lambda>_. Some (ledger_view own l))"
    and arrays: "map (\<lambda>arr. show_key (acc_key arr)) bin_arrays = dp_bin_array_addresses pool"
    and chain: "estimate_dlmm_swap_output l bin_arrays a d = Ok chain"
    and bound: "pairs_out (map (bin_pair d) (dp_bins pool)) < 2 ^ 64"
  shows "unat chain \<le> unat (client_dlmm_estimate (dp_bins pool) a d (Fin 0))"
proof -
  obtain lb_pair_pk data where lb: "dp_bin_array_addresses pool
      = map show_key (map (bin_array_pda pda lb_pair_pk (pubkey_lit DLMM_PROGRAM)) (bin_array_window (i32_at data 76) [-2, -1, 0, 1, 2]))"
    and lb_bins: "dp_bins pool = concat (map (\<lambda>k. parse_bin_array_data (cell_data (l k)))
      (map (bin_array_pda pda lb_pair_pk (pubkey_lit DLMM_PROGRAM)) (bin_array_window (i32_at data 76) [-2, -1, 0, 1, 2])))"
    using fetched unfolding fetch_reserves_with_metadata_def
    by (auto simp: bind_eq_Some_conv Let_def view get_multiple_accounts_def parse_ledger_view comp_def
        simp del: client_keys split: if_splits)
  define ks where "ks = map (bin_array_pda pda lb_pair_pk (pubkey_lit DLMM_PROGRAM))
    (bin_array_window (i32_at data 76) [-2, -1, 0, 1, 2])"
  have ks: "dp_bin_array_addresses pool = map show_key ks" "length ks = 5"
    "dp_bins pool = concat (map (\<lambda>k. parse_bin_array_data (cell_data (l k))) ks)"
    using lb lb_bins unfolding ks_def by (simp_all add: bin_array_window_def Let_def)
  have "inj show_key" using keys by (metis injI option.inject)
  then have "map acc_key bin_arrays = ks"
    using arrays unfolding ks(1) map_map [symmetric, unfolded comp_def, of show_key acc_key]
    by (rule map_injective [rotated])
  then have bins: "dp_bins pool = concat (map (\<lambda>arr. parse_bin_array_data (cell_data (l (acc_key arr)))) bin_arrays)"
    using ks(3) by (auto simp: comp_def)
  have "length bin_arrays \<le> 2 ^ 32" using arg_cong [OF arrays, of length] ks by simp
  then show ?thesis using client_above_chain [OF bins chain _ bound] by simp
qed

definition text_of_key :: show_key where
  "text_of_key k = map (\<lambda>b. char_of (unat b)) (key_bytes k)"

definition key_of_text :: parse_key where
  "key_of_text s = (if length s = 32 then Some (key_of_bytes (byte_string s)) else None)"

lemma key_of_text_of_key: "key_of_text (text_of_key k) = Some k"
proof -
  have "(of_char (char_of (unat b)) :: byte) = b" for b :: byte
  proof -
    have "unat b < 256" using unsigned_less [of b, where ?'a = nat] by simp
    then have "(of_nat (of_char (char_of (unat b))) :: byte) = b" by simp
    then show ?thesis by (simp only: of_nat_of_char)
  qed
  then have "byte_string (text_of_key k) = key_bytes k"
    by (simp add: byte_string_def text_of_key_def comp_def)
  then show ?thesis by (simp add: key_of_text_def text_of_key_def)
qed

definition demo_rpc :: rpc_view where
  "demo_rpc = \<lparr>rv_account = (\<lambda>_. Some \<lparr>on_owner = DLMM_ID, on_data = replicate 152 0\<rparr>),
     rv_multiple = (\<lambda>_. Some (ledger_view (\<lambda>_. DLMM_ID) one_bin_ledger))\<rparr>"

lemma replicate_5: "replicate 5 x = [x, x, x, x, x]"
  by (simp add: numeral_eq_Suc)

lemma parse_one_bin: "parse_bin_array_data one_bin_array = [demo_bin]"
proof -
  have upt: "[0..<70] = 0 # 1 # [2..<70]" by (simp add: upt_conv_Cons)
  have len: "length one_bin_array = 72" by (simp add: one_bin_array_def)
  have "one_bin_array ! 16 = 1" by (simp add: one_bin_array_def nth_append)
  moreover have "u64_at one_bin_array 8 = 0" "u64_at one_bin_array 56 = 1000" "u64_at one_bin_array 64 = 5000"
    by (simp_all add: one_bin_array_def u64_at_def field_def u64_from_le_def [of "replicate _ _"])
  ultimately show ?thesis
    unfolding parse_bin_array_data_def upt
    by (simp add: len bin_id_of_def sat_i64_def demo_bin_def)
qed

theorem fetched_pool_quote_dominates_witness:
  "\<exists>pool. fetch_reserves_with_metadata (\<lambda>_ _. 7) key_of_text text_of_key demo_rpc
       \<lparr>dm_lb_pair = text_of_key 1, dm_token_x_mint = text_of_key 2, dm_token_y_mint = text_of_key 3,
        dm_bin_step = 10, dm_base_factor = 8000, dm_bin_array_bitmap_extension = None\<rparr> = Some pool
     \<and> estimate_dlmm_swap_output one_bin_ledger (replicate 5 (plain_account 7)) 100 True = Ok 454
     \<and> unat (454 :: u64) \<le> unat (client_dlmm_estimate (dp_bins pool) 100 True (Fin 0))"
proof -
  let ?meta = "\<lparr>dm_lb_pair = text_of_key 1, dm_token_x_mint = text_of_key 2, dm_token_y_mint = text_of_key 3,
      dm_bin_step = 10, dm_base_factor = 8000, dm_bin_array_bitmap_extension = None\<rparr>"
  let ?arrays = "replicate 5 (plain_account 7)"
  obtain pool where pool: "fetch_reserves_with_metadata (\<lambda>_ _. 7) key_of_text text_of_key demo_rpc ?meta = Some pool"
    and addr: "dp_bin_array_addresses pool = replicate 5 (text_of_key 7)"
    and bins: "dp_bins pool = concat (replicate 5 (parse_bin_array_data one_bin_array))"
    by (simp add: fetch_reserves_with_metadata_def demo_rpc_def key_of_text_of_key get_multiple_accounts_def
        bin_array_window_def bin_array_pda_def Let_def parse_ledger_view one_bin_ledger_def replicate_5)
  have "collect_bins one_bin_ledger ?arrays True = concat (replicate 5 (collect_bins one_bin_ledger [plain_account 7] True))"
    by (simp add: collect_bins_def replicate_5)
  then have five: "collect_bins one_bin_ledger ?arrays True = replicate 5 (0, 1000, 5000)"
    by (simp add: collect_one_bin replicate_5)
  have chain: "estimate_dlmm_swap_output one_bin_ledger ?arrays 100 True = Ok 454"
    using five by (simp add: estimate_dlmm_walk sort_bins_def cp_out_def replicate_5)
  have bound: "pairs_out (map (bin_pair True) (dp_bins pool)) < 2 ^ 64"
    unfolding bins parse_one_bin by (simp add: pairs_out_def bin_pair_def demo_bin_def replicate_5)
  show ?thesis
    using pool chain fetched_pool_quote_dominates [OF key_of_text_of_key pool _ _ chain bound,
        of "\<lambda>_. DLMM_ID"] addr
    by (auto simp: demo_rpc_def plain_account_def)
qed

section \<open>Which bin arrays are read\<close>

lemma trunc_div_70: "trunc_div a 70 = (if 0 \<le> a \<or> 70 dvd a then a div 70 else a div 70 + 1)"
proof (cases "0 \<le> a")
  case True
  then show ?thesis by (cases "a = 0") (auto simp: trunc_div_def)
next
  case False
  then have s: "trunc_div a 70 = - ((- a) div 70)" by (simp add: trunc_div_def)
  show ?thesis
  proof (cases "70 dvd a")
    case True
    then show ?thesis using s False by (simp add: zdiv_zminus1_eq_if dvd_eq_mod_eq_0)
  next
    case nd: False
    then show ?thesis using s False by (simp add: zdiv_zminus1_eq_if dvd_eq_mod_eq_0)
  qed
qed

text \<open>The three bin arrays read around the active bin always include its own. For an active bin at
  zero or above, or first in its array, they are the one below, its own and the one above; for
  any other negative bin the division truncates upwards, and no array below the active one is read.\<close>

lemma bin_window_around_active:
  assumes "- (2 ^ 31) \<le> active_id" "active_id < 2 ^ 31"
  defines "own \<equiv> active_id div 70"
  shows "bin_id_of own (nat (active_id mod 70)) = active_id
    \<and> bin_array_window active_id [-1, 0, 1]
      = (if 0 \<le> active_id \<or> active_id mod 70 = 0 then [own - 1, own, own + 1] else [own, own + 1, own + 2])"
proof
  have own: "own * 70 + active_id mod 70 = active_id" unfolding own_def by simp
  have rest: "0 \<le> active_id mod 70" "active_id mod 70 < 70" by simp_all
  have "- (2 ^ 31) \<le> own * 70 + 69" "own * 70 < 2 ^ 31" using own rest assms(1,2) by linarith+
  then have "sat_i64 (sat_i64 (own * 70) + int (nat (active_id mod 70))) = active_id"
    using own rest assms(1,2) unfolding sat_i64_def by (simp add: max_def min_def)
  then show "bin_id_of own (nat (active_id mod 70)) = active_id"
    using assms(1,2) by (simp add: bin_id_of_def int_word_sint)
next
  show "bin_array_window active_id [-1, 0, 1]
      = (if 0 \<le> active_id \<or> active_id mod 70 = 0 then [own - 1, own, own + 1] else [own, own + 1, own + 2])"
    unfolding own_def by (simp add: bin_array_window_def BINS_PER_ARRAY_def trunc_div_70 dvd_eq_mod_eq_0 Let_def)
qed

end
