(* ===== verification/Bot_Pools.thy ===== *)
theory Bot_Pools
  imports Bot_Bins
begin

text \<open>
  The readers of the other venues: \<open>pool_cache/bonding_curve/\<close> (Pump.fun), \<open>pool_cache/cpmm.rs\<close>,
  \<open>pool_cache/whirlpool.rs\<close> and the tables behind the last two in \<open>persistence.rs\<close>. The answer of the
  \<open>coins-v2\<close> web service is a parameter. The locks of the caches are not contended and not poisoned.
  The order of the pieces is: Pump.fun, then CPMM, then Whirlpool, then what the last two share.
\<close>

section \<open>Pump.fun\<close>

datatype pump_venue_kind = BondingCurve | PumpSwapPool

record bonding_curve_state =
  bc_mint :: string
  bc_bonding_curve_address :: string
  bc_virtual_sol_reserves :: u64
  bc_virtual_token_reserves :: u64
  bc_real_sol_reserves :: u64
  bc_real_token_reserves :: u64
  bc_complete :: bool
  bc_creator :: string
  bc_venue_kind :: pump_venue_kind

text \<open>\<open>parse_token_amount\<close> of \<open>pda.rs\<close>, with the default of a failed read.\<close>

definition vault_amount :: "chain_account option \<Rightarrow> u64" where
  "vault_amount res = (case res of None \<Rightarrow> 0 | Some a \<Rightarrow> if length (on_data a) < 72 then 0 else u64_at (on_data a) 64)"

definition vault_mint :: "show_key \<Rightarrow> chain_account option \<Rightarrow> string" where
  "vault_mint show_key res = (case res of None \<Rightarrow> '''' | Some a \<Rightarrow> show_key (key_at (on_data a) 0))"

definition read_pumpswap_pool :: "show_key \<Rightarrow> geyser_cache \<Rightarrow> rpc_view \<Rightarrow> pubkey \<Rightarrow> string \<Rightarrow> string
    \<Rightarrow> bonding_curve_state option" where
  "read_pumpswap_pool show_key gc rpc pool_pk pool_addr meme_mint =
     Option.bind (warm_or_rpc gc rpc pool_addr pool_pk) (\<lambda>data.
     if length data < 203 then None
     else
       (let base_res = rv_account rpc (key_at data 139); quote_res = rv_account rpc (key_at data 171);
            base_amount = vault_amount base_res; quote_amount = vault_amount quote_res in
        if base_amount = 0 \<or> quote_amount = 0 then None
        else
          (let base_is_sol = vault_mint show_key base_res = NATIVE_SOL_MINT_C;
               quote_is_sol = vault_mint show_key quote_res = NATIVE_SOL_MINT_C in
           if \<not> base_is_sol \<and> \<not> quote_is_sol then None
           else
             (let (sol_reserves, token_reserves) =
                    (if base_is_sol then (base_amount, quote_amount) else (quote_amount, base_amount)) in
              Some
                \<lparr>bc_mint = meme_mint, bc_bonding_curve_address = pool_addr,
                 bc_virtual_sol_reserves = sol_reserves, bc_virtual_token_reserves = token_reserves,
                 bc_real_sol_reserves = sol_reserves, bc_real_token_reserves = token_reserves,
                 bc_complete = True, bc_creator = '''', bc_venue_kind = PumpSwapPool\<rparr>))))"

definition fetch_pumpswap_reserves_fresh :: "show_key \<Rightarrow> geyser_cache \<Rightarrow> rpc_view \<Rightarrow> pubkey \<Rightarrow> string
    \<Rightarrow> (u64 \<times> u64) client_result" where
  "fetch_pumpswap_reserves_fresh show_key gc rpc pool meme_mint =
     and_then (ok_or (read_pumpswap_pool show_key gc rpc pool (show_key pool) meme_mint)
       (Failed ''failed to read PumpSwap pool'')) (\<lambda>state.
     Ok (bc_virtual_sol_reserves state, bc_virtual_token_reserves state))"

definition bonding_curve_of :: "show_key \<Rightarrow> byte list \<Rightarrow> string \<Rightarrow> string \<Rightarrow> bonding_curve_state" where
  "bonding_curve_of show_key data bc_addr mint =
     \<lparr>bc_mint = mint, bc_bonding_curve_address = bc_addr,
      bc_virtual_sol_reserves = u64_at data 16, bc_virtual_token_reserves = u64_at data 8,
      bc_real_sol_reserves = u64_at data 32, bc_real_token_reserves = u64_at data 24,
      bc_complete = (data ! 48 \<noteq> 0),
      bc_creator = (if 81 \<le> length data then show_key (key_at data 49) else ''''),
      bc_venue_kind = BondingCurve\<rparr>"

definition read_bonding_curve_at :: "show_key \<Rightarrow> rpc_view \<Rightarrow> pubkey \<Rightarrow> string \<Rightarrow> string \<Rightarrow> bonding_curve_state option" where
  "read_bonding_curve_at show_key rpc bc_pk bc_addr mint =
     Option.bind (rv_account rpc bc_pk) (\<lambda>acct.
     if length (on_data acct) < 49 then None else Some (bonding_curve_of show_key (on_data acct) bc_addr mint))"

definition bonding_curve_pda :: "pda_fn \<Rightarrow> pubkey \<Rightarrow> pubkey" where
  "bonding_curve_pda pda mint_pk =
     pda [byte_string ''bonding-curve'', key_bytes mint_pk] (pubkey_lit PUMPFUN_BONDING_CURVE_PROGRAM)"

subsection \<open>The pool address\<close>

record pump_caches =
  pu_pool_addr :: "string \<rightharpoonup> pubkey"
  pu_bonding :: "bonding_curve_state option cache"

definition get_pumpswap_pool_address :: "parse_key \<Rightarrow> string \<Rightarrow> pump_caches \<Rightarrow> pubkey option \<times> pump_caches" where
  "get_pumpswap_pool_address parse_key mint c =
     (case pu_pool_addr c mint of
        Some addr \<Rightarrow> (Some addr, c)
      | None \<Rightarrow>
          (case Option.bind (pu_bonding c mint) ce_data of
             Some state \<Rightarrow>
               (case (if bc_venue_kind state = PumpSwapPool then parse_key (bc_bonding_curve_address state) else None) of
                  Some pk \<Rightarrow> (Some pk, c\<lparr>pu_pool_addr := (pu_pool_addr c)(mint \<mapsto> pk)\<rparr>)
                | None \<Rightarrow> (None, c))
           | None \<Rightarrow> (None, c)))"

definition resolve_pumpswap_pool_address :: "pda_fn \<Rightarrow> parse_key \<Rightarrow> rpc_view \<Rightarrow> string \<Rightarrow> pump_caches
    \<Rightarrow> pubkey option \<times> pump_caches" where
  "resolve_pumpswap_pool_address pda parse_key rpc mint c =
     (let (found, c) = get_pumpswap_pool_address parse_key mint c in
      if found \<noteq> None then (found, c)
      else
        (case Option.bind (parse_key mint) (\<lambda>mint_pk.
              Option.bind (rv_account rpc (bonding_curve_pda pda mint_pk)) (\<lambda>bc_acct.
              let data = on_data bc_acct in
              if length data < 81 then None
              else Some (pda [byte_string ''pool'', to_le 2 0, key_bytes (key_at data 49), key_bytes mint_pk,
                     key_bytes (pubkey_lit NATIVE_SOL_MINT_C)] (pubkey_lit PUMPFUN_AMM_PROGRAM)))) of
           None \<Rightarrow> (None, c)
         | Some pool_addr \<Rightarrow> (Some pool_addr, c\<lparr>pu_pool_addr := (pu_pool_addr c)(mint \<mapsto> pool_addr)\<rparr>)))"

fun fee_recipient_of :: "pda_fn \<Rightarrow> show_key \<Rightarrow> rpc_view \<Rightarrow> string list \<Rightarrow> string option" where
  "fee_recipient_of pda show_key rpc [] = None"
| "fee_recipient_of pda show_key rpc (prog # progs) =
     (case rv_account rpc (pda [byte_string ''global''] (pubkey_lit prog)) of
        Some account \<Rightarrow>
          if 73 \<le> length (on_data account) then Some (show_key (key_at (on_data account) 41))
          else fee_recipient_of pda show_key rpc progs
      | None \<Rightarrow> fee_recipient_of pda show_key rpc progs)"

definition fetch_pumpfun_fee_recipient :: "pda_fn \<Rightarrow> show_key \<Rightarrow> rpc_view \<Rightarrow> string option" where
  "fetch_pumpfun_fee_recipient pda show_key rpc =
     fee_recipient_of pda show_key rpc [PUMPFUN_AMM_PROGRAM, PUMPFUN_BONDING_CURVE_PROGRAM]"

subsection \<open>The price state of a mint\<close>

record coin_v2_meta =
  cv_bonding_curve :: string
  cv_pump_swap_pool :: "string option"
  cv_complete :: bool

text \<open>Paths 1 and 2 of \<open>fetch_bonding_curve\<close>: what is cached and returned, \<open>Inr\<close> when the function
  goes on; \<open>Inl None\<close> is the return without an entry.\<close>

definition liquid_curve :: "bonding_curve_state \<Rightarrow> bool" where
  "liquid_curve s \<longleftrightarrow> 0 < bc_virtual_sol_reserves s \<and> 0 < bc_virtual_token_reserves s"

definition coin_v2_paths :: "parse_key \<Rightarrow> show_key \<Rightarrow> geyser_cache \<Rightarrow> rpc_view \<Rightarrow> string \<Rightarrow> coin_v2_meta
    \<Rightarrow> bonding_curve_state option + unit" where
  "coin_v2_paths parse_key show_key gc rpc mint meta =
     (let pool_state =
            (if cv_complete meta then
               Option.bind (cv_pump_swap_pool meta) (\<lambda>pool_addr.
               Option.bind (parse_key pool_addr) (\<lambda>pool_pk.
                 read_pumpswap_pool show_key gc rpc pool_pk pool_addr mint)) else None);
          curve = Option.bind (parse_key (cv_bonding_curve meta)) (\<lambda>bc_pk.
               read_bonding_curve_at show_key rpc bc_pk (cv_bonding_curve meta) mint) in
      case pool_state of
        Some state \<Rightarrow> Inl (Some state)
      | None \<Rightarrow>
          (case curve of
             Some state \<Rightarrow>
               if liquid_curve state then Inl (Some state)
               else if cv_complete meta \<and> cv_pump_swap_pool meta \<noteq> None then Inl None else Inr ()
           | None \<Rightarrow> if cv_complete meta \<and> cv_pump_swap_pool meta \<noteq> None then Inl None else Inr ()))"

definition remember_pool :: "parse_key \<Rightarrow> string \<Rightarrow> coin_v2_meta \<Rightarrow> pump_caches \<Rightarrow> pump_caches" where
  "remember_pool parse_key mint meta c =
     (case Option.bind (cv_pump_swap_pool meta) parse_key of
        Some pool_pk \<Rightarrow> c\<lparr>pu_pool_addr := (pu_pool_addr c)(mint \<mapsto> pool_pk)\<rparr>
      | None \<Rightarrow> c)"

definition cache_curve :: "nat \<Rightarrow> string \<Rightarrow> bonding_curve_state \<Rightarrow> pump_caches \<Rightarrow> pump_caches" where
  "cache_curve now mint state c = c\<lparr>pu_bonding := (pu_bonding c)(mint \<mapsto> entry_new now (Some state))\<rparr>"

definition pda_fallback :: "pda_fn \<Rightarrow> parse_key \<Rightarrow> show_key \<Rightarrow> rpc_view \<Rightarrow> nat \<Rightarrow> string \<Rightarrow> pump_caches
    \<Rightarrow> bonding_curve_state option \<times> pump_caches" where
  "pda_fallback pda parse_key show_key rpc now mint c =
     (case parse_key mint of
        None \<Rightarrow> (None, c)
      | Some mint_pk \<Rightarrow>
          (let bc_pda = bonding_curve_pda pda mint_pk;
               negative = (None, c\<lparr>pu_bonding := (pu_bonding c)(mint \<mapsto> entry_new_negative now None)\<rparr>) in
           case read_bonding_curve_at show_key rpc bc_pda (show_key bc_pda) mint of
             Some state \<Rightarrow> if liquid_curve state then (Some state, cache_curve now mint state c) else negative
           | None \<Rightarrow> negative))"

definition fetch_bonding_curve :: "pda_fn \<Rightarrow> parse_key \<Rightarrow> show_key \<Rightarrow> geyser_cache \<Rightarrow> rpc_view
    \<Rightarrow> (string \<Rightarrow> coin_v2_meta option) \<Rightarrow> nat \<Rightarrow> string \<Rightarrow> pump_caches \<Rightarrow> bonding_curve_state option \<times> pump_caches" where
  "fetch_bonding_curve pda parse_key show_key gc rpc fetch_coin_v2 now mint c =
     (let refresh =
            (case fetch_coin_v2 mint of
               Some meta \<Rightarrow>
                 (let c = remember_pool parse_key mint meta c in
                  case coin_v2_paths parse_key show_key gc rpc mint meta of
                    Inl (Some state) \<Rightarrow> (Some state, cache_curve now mint state c)
                  | Inl None \<Rightarrow> (None, c)
                  | Inr _ \<Rightarrow> pda_fallback pda parse_key show_key rpc now mint c)
             | None \<Rightarrow> pda_fallback pda parse_key show_key rpc now mint c) in
      case pu_bonding c mint of
        Some entry \<Rightarrow> if age_secs now entry < PUMPFUN_RESERVE_TTL_SECS then (ce_data entry, c) else refresh
      | None \<Rightarrow> refresh)"

section \<open>CPMM\<close>

text \<open>A row of \<open>cpmm_pools\<close> or \<open>whirlpool_pools\<close> has the mints as its primary key.\<close>

type_synonym cpmm_rows = "((string \<times> string) \<times> (string \<times> string)) list"

definition cpmm_pools_load_all :: "cpmm_rows \<Rightarrow> (string \<times> string \<times> string \<times> string) list" where
  "cpmm_pools_load_all rows = map (\<lambda>((mint_a, mint_b), (pool, config)). (mint_a, mint_b, pool, config)) rows"

definition cpmm_pool_save :: "bool \<Rightarrow> string \<Rightarrow> string \<Rightarrow> string \<Rightarrow> string \<Rightarrow> cpmm_rows \<Rightarrow> cpmm_rows" where
  "cpmm_pool_save ok mint_a mint_b pool config rows = upsert_row ok (mint_a, mint_b) (pool, config) rows"

definition insert_if_absent :: "string \<Rightarrow> 'a cache_entry \<Rightarrow> 'a cache \<Rightarrow> 'a cache" where
  "insert_if_absent key entry cache = (if cache key = None then cache(key \<mapsto> entry) else cache)"

definition load_cpmm_pools :: "nat \<Rightarrow> cpmm_rows \<Rightarrow> pool_state_data option cache \<Rightarrow> pool_state_data option cache" where
  "load_cpmm_pools now rows cache =
     fold (\<lambda>(mint_a, mint_b, pool_addr, config_addr). insert_if_absent (cache_key mint_a mint_b)
        (entry_new_persisted now (Some
          \<lparr>ps_pool_pubkey = pool_addr, ps_config_pubkey = config_addr, ps_token_0_mint = mint_a,
           ps_token_1_mint = mint_b, ps_token_0_vault = '''', ps_token_1_vault = '''',
           ps_token_0_vault_raw = 0, ps_token_1_vault_raw = 0\<rparr>)))
       (cpmm_pools_load_all rows) cache"

text \<open>The text order of the two mints decides their order in the seeds of a pool.\<close>

definition sort_mints :: "string \<Rightarrow> string \<Rightarrow> string \<times> string" where
  "sort_mints t0 t1 = (if t0 < t1 then (t0, t1) else (t1, t0))"

definition cpmm_pool_pda :: "pda_fn \<Rightarrow> pubkey \<Rightarrow> pubkey \<Rightarrow> pubkey \<Rightarrow> pubkey" where
  "cpmm_pool_pda pda config t0_pk t1_pk =
     pda [byte_string ''pool'', key_bytes config, key_bytes t0_pk, key_bytes t1_pk] (pubkey_lit CPMM_PROGRAM)"

definition cpmm_vault_pda :: "pda_fn \<Rightarrow> pubkey \<Rightarrow> pubkey \<Rightarrow> pubkey" where
  "cpmm_vault_pda pda pool mint =
     pda [byte_string ''pool_vault'', key_bytes pool, key_bytes mint] (pubkey_lit CPMM_PROGRAM)"

definition cpmm_configs :: "pda_fn \<Rightarrow> pubkey \<Rightarrow> pubkey \<Rightarrow> (pubkey \<times> pubkey) list" where
  "cpmm_configs pda t0_pk t1_pk =
     map (\<lambda>i. let cfg = pda [byte_string ''amm_config'', [0, i]] (pubkey_lit CPMM_PROGRAM) in
                (cfg, cpmm_pool_pda pda cfg t0_pk t1_pk)) [1, 2, 3, 4]"

definition find_cpmm_pool :: "pda_fn \<Rightarrow> rpc_view \<Rightarrow> pubkey \<Rightarrow> pubkey \<Rightarrow> (pubkey \<times> pubkey) option" where
  "find_cpmm_pool pda rpc t0_pk t1_pk =
     (let config0 = pubkey_lit CPMM_AMM_CONFIG_C; pool0 = cpmm_pool_pda pda config0 t0_pk t1_pk in
      if rv_account rpc pool0 \<noteq> None then Some (pool0, config0)
      else
        (let configs = cpmm_configs pda t0_pk t1_pk in
         Option.bind (get_multiple_accounts rpc (map snd configs)) (\<lambda>results.
         map_option (\<lambda>((cfg, pool), _). (pool, cfg)) (List.find (\<lambda>(_, account). account \<noteq> None) (zip configs results)))))"

text \<open>The balances of two vaults; a failed read counts as empty.\<close>

definition vault_amounts :: "rpc_view \<Rightarrow> pubkey \<Rightarrow> pubkey \<Rightarrow> u64 \<times> u64" where
  "vault_amounts rpc vault_0 vault_1 =
     (case get_multiple_accounts rpc [vault_0, vault_1] of
        None \<Rightarrow> (0, 0) | Some accounts \<Rightarrow> (amount_at accounts 0, amount_at accounts 1))"

definition fetch_cpmm_pool :: "pda_fn \<Rightarrow> parse_key \<Rightarrow> show_key \<Rightarrow> rpc_view \<Rightarrow> string \<Rightarrow> string
    \<Rightarrow> pool_state_data option" where
  "fetch_cpmm_pool pda parse_key show_key rpc t0 t1 =
     (let (token_0, token_1) = sort_mints t0 t1 in
      Option.bind (parse_key token_0) (\<lambda>t0_pk.
      Option.bind (parse_key token_1) (\<lambda>t1_pk.
      Option.bind (find_cpmm_pool pda rpc t0_pk t1_pk) (\<lambda>(pool_addr, config_used).
      Option.bind (rv_account rpc pool_addr) (\<lambda>account.
      let data = on_data account in
      if length data < 232 then None
      else
        (let state_mint_0 = show_key (key_at data 168); state_mint_1 = show_key (key_at data 200) in
         if (state_mint_0 \<noteq> token_0 \<or> state_mint_1 \<noteq> token_1) \<and> (state_mint_0 \<noteq> token_1 \<or> state_mint_1 \<noteq> token_0)
         then None
         else
           (let vault_0_addr = cpmm_vault_pda pda pool_addr t0_pk; vault_1_addr = cpmm_vault_pda pda pool_addr t1_pk;
                (amt_0, amt_1) = vault_amounts rpc vault_0_addr vault_1_addr in
            Some
              \<lparr>ps_pool_pubkey = show_key pool_addr, ps_config_pubkey = show_key config_used,
               ps_token_0_mint = state_mint_0, ps_token_1_mint = state_mint_1,
               ps_token_0_vault = show_key vault_0_addr, ps_token_1_vault = show_key vault_1_addr,
               ps_token_0_vault_raw = amt_0, ps_token_1_vault_raw = amt_1\<rparr>)))))))"

text \<open>The tail of \<open>fetch_cpmm_pool\<close>: a pool found is written to its table.\<close>

definition persist_cpmm :: "bool \<Rightarrow> pool_state_data option \<Rightarrow> cpmm_rows \<Rightarrow> cpmm_rows" where
  "persist_cpmm ok state rows =
     (case state of None \<Rightarrow> rows
      | Some s \<Rightarrow> cpmm_pool_save ok (ps_token_0_mint s) (ps_token_1_mint s) (ps_pool_pubkey s) (ps_config_pubkey s) rows)"

definition liquidity_of_state :: "f64 \<Rightarrow> pool_state_data option \<Rightarrow> f64 option" where
  "liquidity_of_state sol_price state =
     Option.bind state (\<lambda>s. compute_liquidity_sol sol_price (reserves_from_state s))"

definition fetch_cpmm_now :: "pda_fn \<Rightarrow> parse_key \<Rightarrow> show_key \<Rightarrow> rpc_view \<Rightarrow> f64 \<Rightarrow> bool \<Rightarrow> nat \<Rightarrow> string \<Rightarrow> string
    \<Rightarrow> pool_state_data option cache \<times> cpmm_rows \<Rightarrow> f64 option \<times> pool_state_data option cache \<times> cpmm_rows" where
  "fetch_cpmm_now pda parse_key show_key rpc sol_price ok now t0 t1 c =
     (let (cache, rows) = c; key = cache_key t0 t1;
          refresh =
            (let state = fetch_cpmm_pool pda parse_key show_key rpc t0 t1 in
             (liquidity_of_state sol_price state, cache(key \<mapsto> entry_new now state), persist_cpmm ok state rows)) in
      case cache key of
        Some entry \<Rightarrow> if is_stale now entry then refresh else (liquidity_of_state sol_price (ce_data entry), cache, rows)
      | None \<Rightarrow> refresh)"

definition read_pool_state_at :: "pda_fn \<Rightarrow> parse_key \<Rightarrow> show_key \<Rightarrow> rpc_view \<Rightarrow> string \<Rightarrow> pool_state_data option" where
  "read_pool_state_at pda parse_key show_key rpc pool_addr =
     Option.bind (parse_key pool_addr) (\<lambda>pool_pk.
     Option.bind (rv_account rpc pool_pk) (\<lambda>account.
     let data = on_data account in
     if length data < 232 then None
     else
       (let token_0_mint = show_key (key_at data 168); token_1_mint = show_key (key_at data 200) in
        Option.bind (parse_key token_0_mint) (\<lambda>t0_pk.
        Option.bind (parse_key token_1_mint) (\<lambda>t1_pk.
        let vault_0_addr = cpmm_vault_pda pda pool_pk t0_pk; vault_1_addr = cpmm_vault_pda pda pool_pk t1_pk;
            (amt_0, amt_1) = vault_amounts rpc vault_0_addr vault_1_addr in
        Some
          \<lparr>ps_pool_pubkey = pool_addr, ps_config_pubkey = show_key (key_at data 8),
           ps_token_0_mint = token_0_mint, ps_token_1_mint = token_1_mint,
           ps_token_0_vault = show_key vault_0_addr, ps_token_1_vault = show_key vault_1_addr,
           ps_token_0_vault_raw = amt_0, ps_token_1_vault_raw = amt_1\<rparr>)))))"

definition addr_key :: "string \<Rightarrow> string" where
  "addr_key pool_addr = ''addr:'' @ pool_addr"

definition fetch_cpmm_by_address :: "pda_fn \<Rightarrow> parse_key \<Rightarrow> show_key \<Rightarrow> rpc_view \<Rightarrow> nat \<Rightarrow> string
    \<Rightarrow> pool_state_data option cache \<Rightarrow> pool_state_data option \<times> pool_state_data option cache" where
  "fetch_cpmm_by_address pda parse_key show_key rpc now pool_addr cache =
     (let key = addr_key pool_addr;
          refresh =
            (let state = read_pool_state_at pda parse_key show_key rpc pool_addr;
                 cache1 = cache(key \<mapsto> entry_new now state) in
             (state,
              case state of None \<Rightarrow> cache1
              | Some s \<Rightarrow>
                  (let mint_key = cache_key (ps_token_0_mint s) (ps_token_1_mint s);
                       should_insert = (case cache1 mint_key of None \<Rightarrow> True | Some entry \<Rightarrow> ce_data entry = None) in
                   if should_insert then cache1(mint_key \<mapsto> entry_new now (Some s)) else cache1))) in
      case cache key of
        Some entry \<Rightarrow> if is_stale now entry then refresh else (ce_data entry, cache)
      | None \<Rightarrow> refresh)"

text \<open>\<open>scan_and_fetch_cpmm\<close>: the first account of a transaction that is a CPMM pool and not yet cached.
  An account that does not exist ends the loop (\<open>?\<close>); \<open>uncached\<close> and \<open>pks\<close> are paired by index, so an
  address that does not parse shifts them against each other (out of range it would panic, but
  there are never more keys than addresses).\<close>

fun scan_cpmm_accounts :: "pubkey \<Rightarrow> (string \<times> chain_account option) list \<Rightarrow> string list" where
  "scan_cpmm_accounts cpmm_pk [] = []"
| "scan_cpmm_accounts cpmm_pk ((addr, account) # rest) =
     (case account of
        None \<Rightarrow> []
      | Some a \<Rightarrow> if on_owner a \<noteq> cpmm_pk \<or> length (on_data a) < 240 then scan_cpmm_accounts cpmm_pk rest
                  else addr # scan_cpmm_accounts cpmm_pk rest)"

fun first_cpmm_pool :: "pda_fn \<Rightarrow> parse_key \<Rightarrow> show_key \<Rightarrow> rpc_view \<Rightarrow> f64 \<Rightarrow> nat \<Rightarrow> string list
    \<Rightarrow> pool_state_data option cache \<Rightarrow> f64 option \<times> pool_state_data option cache" where
  "first_cpmm_pool pda parse_key show_key rpc sol_price now [] cache = (None, cache)"
| "first_cpmm_pool pda parse_key show_key rpc sol_price now (addr # rest) cache =
     (let (state, cache1) = fetch_cpmm_by_address pda parse_key show_key rpc now addr cache in
      case state of
        Some s \<Rightarrow>
          (map_option (\<lambda>(a, b). f_max (f_add a b) (Fin 0))
             (get_reserves_sol now sol_price (ps_token_0_mint s) (ps_token_1_mint s) cache1), cache1)
      | None \<Rightarrow> first_cpmm_pool pda parse_key show_key rpc sol_price now rest cache1)"

definition scan_and_fetch_cpmm :: "pda_fn \<Rightarrow> parse_key \<Rightarrow> show_key \<Rightarrow> rpc_view \<Rightarrow> f64 \<Rightarrow> nat \<Rightarrow> string list
    \<Rightarrow> pool_state_data option cache \<Rightarrow> f64 option \<times> pool_state_data option cache" where
  "scan_and_fetch_cpmm pda parse_key show_key rpc sol_price now accts cache =
     (let uncached = filter (\<lambda>a. cache (addr_key a) = None) accts in
      if uncached = [] then (None, cache)
      else
        (case get_multiple_accounts rpc (List.map_filter parse_key uncached) of
           None \<Rightarrow> (None, cache)
         | Some resp \<Rightarrow>
             first_cpmm_pool pda parse_key show_key rpc sol_price now
               (scan_cpmm_accounts (pubkey_lit CPMM_PROGRAM) (zip uncached resp)) cache))"

section \<open>Whirlpool\<close>

type_synonym whirlpool_rows = "((string \<times> string) \<times> (string \<times> int)) list"

definition whirlpool_pools_load_all :: "whirlpool_rows \<Rightarrow> (string \<times> string \<times> string \<times> int) list" where
  "whirlpool_pools_load_all rows = map (\<lambda>((mint_a, mint_b), (pool, ts)). (mint_a, mint_b, pool, ts)) rows"

definition whirlpool_pool_save :: "bool \<Rightarrow> string \<Rightarrow> string \<Rightarrow> string \<Rightarrow> u16 \<Rightarrow> whirlpool_rows \<Rightarrow> whirlpool_rows" where
  "whirlpool_pool_save ok mint_a mint_b pool tick_spacing rows =
     upsert_row ok (mint_a, mint_b) (pool, uint tick_spacing) rows"

definition whirlpool_state :: "string \<Rightarrow> string \<Rightarrow> string \<Rightarrow> u64 \<times> u64 \<Rightarrow> string \<times> string \<Rightarrow> u16 \<Rightarrow> u128 \<Rightarrow> int \<Rightarrow> u16
    \<Rightarrow> dlmm_pool" where
  "whirlpool_state pool_addr mint_a mint_b reserves vaults tick_spacing sqrt_price tick fee =
     \<lparr>dp_lb_pair = pool_addr, dp_token_x_mint = mint_a, dp_token_y_mint = mint_b,
      dp_reserve_x = fst reserves, dp_reserve_y = snd reserves,
      dp_reserve_x_address = fst vaults, dp_reserve_y_address = snd vaults,
      dp_bin_array_addresses = [], dp_bins = [], dp_bin_step = tick_spacing, dp_base_factor = 0,
      dp_active_id = 0, dp_bin_array_bitmap_extension = None, dp_sqrt_price = sqrt_price,
      dp_tick_current_index = tick, dp_fee_rate = fee\<rparr>"

definition load_whirlpool_pools :: "nat \<Rightarrow> whirlpool_rows \<Rightarrow> dlmm_pool option cache \<Rightarrow> dlmm_pool option cache" where
  "load_whirlpool_pools now rows cache =
     fold (\<lambda>(mint_a, mint_b, pool_addr, tick_spacing). insert_if_absent (cache_key mint_a mint_b)
        (entry_new_persisted now (Some
          (whirlpool_state pool_addr mint_a mint_b (0, 0) ('''', '''') (word_of_int tick_spacing) 0 0 0))))
       (whirlpool_pools_load_all rows) cache"

definition TICK_SPACINGS :: "u16 list" where
  "TICK_SPACINGS = [64, 128, 1, 8, 256, 32]"

definition whirlpool_pda :: "pda_fn \<Rightarrow> pubkey \<Rightarrow> pubkey \<Rightarrow> u16 \<Rightarrow> pubkey" where
  "whirlpool_pda pda mint_a mint_b ts =
     pda [byte_string ''whirlpool'', key_bytes (pubkey_lit WHIRLPOOL_CONFIG_C), key_bytes mint_a, key_bytes mint_b,
       to_le 2 (unat ts)] (pubkey_lit WHIRLPOOL_PROGRAM)"

text \<open>The first candidate that exists, is owned by the program and is long enough.\<close>

definition usable_whirlpool :: "chain_account option \<Rightarrow> bool" where
  "usable_whirlpool account =
     (case account of None \<Rightarrow> False
      | Some a \<Rightarrow> on_owner a = pubkey_lit WHIRLPOOL_PROGRAM \<and> 245 \<le> length (on_data a))"

definition fetch_whirlpool_pool :: "pda_fn \<Rightarrow> parse_key \<Rightarrow> show_key \<Rightarrow> rpc_view \<Rightarrow> string \<Rightarrow> string
    \<Rightarrow> dlmm_pool option" where
  "fetch_whirlpool_pool pda parse_key show_key rpc t0 t1 =
     (let (mint_a, mint_b) = sort_mints t0 t1 in
      Option.bind (parse_key mint_a) (\<lambda>mint_a_pk.
      Option.bind (parse_key mint_b) (\<lambda>mint_b_pk.
      let candidates = map (\<lambda>ts. (whirlpool_pda pda mint_a_pk mint_b_pk ts, ts)) TICK_SPACINGS in
      Option.bind (get_multiple_accounts rpc (map fst candidates)) (\<lambda>results.
      Option.bind (List.find (\<lambda>(_, account). usable_whirlpool account) (zip candidates results))
        (\<lambda>((pool_addr, tick_spacing), account).
      Option.bind account (\<lambda>a.
      let pool_data = on_data a;
          token_mint_a = show_key (key_at pool_data 101); token_mint_b = show_key (key_at pool_data 181);
          vault_a = show_key (key_at pool_data 133); vault_b = show_key (key_at pool_data 213) in
      Option.bind (parse_key vault_a) (\<lambda>vault_a_pk.
      Option.bind (parse_key vault_b) (\<lambda>vault_b_pk.
      let (amt_a, amt_b) = vault_amounts rpc vault_a_pk vault_b_pk;
          reserves = (if token_mint_a = mint_a then (amt_a, amt_b) else (amt_b, amt_a)) in
      Some (whirlpool_state (show_key pool_addr) token_mint_a token_mint_b reserves (vault_a, vault_b) tick_spacing
        (u128_at pool_data 65) (i32_at pool_data 81) (u16_at pool_data 45)))))))))) "

definition persist_whirlpool :: "bool \<Rightarrow> dlmm_pool option \<Rightarrow> whirlpool_rows \<Rightarrow> whirlpool_rows" where
  "persist_whirlpool ok state rows =
     (case state of None \<Rightarrow> rows
      | Some s \<Rightarrow> whirlpool_pool_save ok (dp_token_x_mint s) (dp_token_y_mint s) (dp_lb_pair s) (dp_bin_step s) rows)"

definition fetch_whirlpool_by_mints :: "pda_fn \<Rightarrow> parse_key \<Rightarrow> show_key \<Rightarrow> rpc_view \<Rightarrow> bool \<Rightarrow> nat \<Rightarrow> string \<Rightarrow> string
    \<Rightarrow> dlmm_pool option cache \<times> whirlpool_rows \<Rightarrow> dlmm_pool option \<times> dlmm_pool option cache \<times> whirlpool_rows" where
  "fetch_whirlpool_by_mints pda parse_key show_key rpc ok now mint_a mint_b c =
     (let (cache, rows) = c; key = cache_key mint_a mint_b;
          refresh =
            (let state = fetch_whirlpool_pool pda parse_key show_key rpc mint_a mint_b in
             (state, cache(key \<mapsto> entry_new now state), persist_whirlpool ok state rows)) in
      case cache key of
        Some entry \<Rightarrow> if is_stale now entry then refresh else (ce_data entry, cache, rows)
      | None \<Rightarrow> refresh)"

definition whirlpool_liquidity :: "f64 \<Rightarrow> dlmm_pool option \<Rightarrow> f64 option" where
  "whirlpool_liquidity sol_price state =
     Option.bind state (\<lambda>r. compute_liquidity_sol sol_price
       \<lparr>pr_token_0 = dp_token_x_mint r, pr_token_1 = dp_token_y_mint r,
        pr_token_0_vault_raw = dp_reserve_x r, pr_token_1_vault_raw = dp_reserve_y r\<rparr>)"

definition fetch_whirlpool_now :: "pda_fn \<Rightarrow> parse_key \<Rightarrow> show_key \<Rightarrow> rpc_view \<Rightarrow> f64 \<Rightarrow> bool \<Rightarrow> nat \<Rightarrow> string \<Rightarrow> string
    \<Rightarrow> dlmm_pool option cache \<times> whirlpool_rows \<Rightarrow> f64 option \<times> dlmm_pool option cache \<times> whirlpool_rows" where
  "fetch_whirlpool_now pda parse_key show_key rpc sol_price ok now t0 t1 c =
     (let (state, c') = fetch_whirlpool_by_mints pda parse_key show_key rpc ok now t0 t1 c in
      (whirlpool_liquidity sol_price state, c'))"

definition fetch_whirlpool_by_address :: "parse_key \<Rightarrow> show_key \<Rightarrow> rpc_view \<Rightarrow> string \<Rightarrow> dlmm_pool option" where
  "fetch_whirlpool_by_address parse_key show_key rpc pool_addr =
     Option.bind (parse_key pool_addr) (\<lambda>pool_pk.
     Option.bind (rv_account rpc pool_pk) (\<lambda>account.
     let data = on_data account in
     if length data < 245 then None
     else
       (let vault_a = show_key (key_at data 133); vault_b = show_key (key_at data 213) in
        Option.bind (parse_key vault_a) (\<lambda>vault_a_pk.
        Option.bind (parse_key vault_b) (\<lambda>vault_b_pk.
        Some (whirlpool_state pool_addr (show_key (key_at data 101)) (show_key (key_at data 181))
          (vault_amounts rpc vault_a_pk vault_b_pk) (vault_a, vault_b) 0
          (u128_at data 65) (i32_at data 81) (u16_at data 45)))))))"

end
