(* ===== verification/Bot_Discovery.thy ===== *)
theory Bot_Discovery
  imports Bot_Pools
begin

text \<open>
  Finding the DLMM pools of a pair: \<open>pool_cache/dlmm/discovery.rs\<close>, \<open>gpa.rs\<close>, \<open>cache.rs\<close>,
  \<open>reserves.rs\<close> and the metadata table of \<open>persistence.rs\<close>. The state is the four caches with the two
  tables behind them. The environment is a record: the endpoint, the stream, the answers of
  \<open>getProgramAccounts\<close> as decoded items, the order in which a \<open>HashMap\<close> is walked, and whether writes
  to the database succeed. An instant is a natural number, a Unix time an integer.
\<close>

section \<open>Items of \<open>getProgramAccounts\<close>\<close>

type_synonym gpa_item = "string option \<times> byte list option"

definition gpa_pool :: "parse_key \<Rightarrow> gpa_item \<Rightarrow> (pubkey \<times> int \<times> u16 \<times> u16 \<times> pubkey option) option" where
  "gpa_pool parse_key item =
     Option.bind (Option.bind (fst item) parse_key) (\<lambda>pk.
     Option.bind (snd item) (\<lambda>data.
     if length data < 152 then None
     else Some (pk, i32_at data 76, u16_at data 80, u16_at data 84, parse_optional_pubkey data 248)))"

definition discover_lb_pairs_via_gpa :: "parse_key \<Rightarrow> gpa_item list \<Rightarrow> (pubkey \<times> int \<times> u16 \<times> u16 \<times> pubkey option) list" where
  "discover_lb_pairs_via_gpa parse_key items = List.map_filter (gpa_pool parse_key) items"

section \<open>State\<close>

type_synonym metadata_cache = "string \<rightharpoonup> dlmm_meta list"
type_synonym metadata_rows = "(string \<times> dlmm_meta) list"

record dlmm_caches =
  dc_reserves :: "dlmm_pool option cache"
  dc_metadata :: metadata_cache
  dc_zero_skip :: "string \<rightharpoonup> int"
  dc_lb_pair :: "string \<rightharpoonup> string"
  dc_pair_rows :: pair_rows
  dc_meta_rows :: metadata_rows

record dlmm_env =
  dv_pda :: pda_fn
  dv_parse :: parse_key
  dv_show :: show_key
  dv_geyser :: geyser_cache
  dv_rpc :: rpc_view
  dv_gpa :: "string \<Rightarrow> string \<Rightarrow> gpa_item list"
  dv_meta_order :: "metadata_cache \<Rightarrow> string list"
  dv_pair_entries :: "(string \<rightharpoonup> string) \<Rightarrow> pair_rows"
  dv_db_ok :: bool

section \<open>The metadata table\<close>

text \<open>The primary key is the pair of key and pool; a second row for it is refused.\<close>

fun insert_meta_rows :: "metadata_rows \<Rightarrow> metadata_rows \<Rightarrow> metadata_rows" where
  "insert_meta_rows [] rows = rows"
| "insert_meta_rows ((key, m) # entries) rows =
     insert_meta_rows entries
       (if list_ex (\<lambda>(k, x). k = key \<and> dm_lb_pair x = dm_lb_pair m) rows then rows else rows @ [(key, m)])"

definition dlmm_metadata_replace_all :: "bool \<Rightarrow> metadata_rows \<Rightarrow> metadata_rows \<Rightarrow> metadata_rows" where
  "dlmm_metadata_replace_all ok entries rows = (if ok then insert_meta_rows entries [] else rows)"

definition dlmm_metadata_load_all :: "metadata_rows \<Rightarrow> metadata_rows" where
  "dlmm_metadata_load_all rows = rows"

definition metadata_entries :: "(metadata_cache \<Rightarrow> string list) \<Rightarrow> metadata_cache \<Rightarrow> metadata_rows" where
  "metadata_entries order cache =
     concat (map (\<lambda>k. case cache k of None \<Rightarrow> [] | Some ms \<Rightarrow> map (Pair k) ms) (order cache))"

definition save_metadata_cache :: "dlmm_env \<Rightarrow> dlmm_caches \<Rightarrow> dlmm_caches" where
  "save_metadata_cache env c =
     c\<lparr>dc_meta_rows := dlmm_metadata_replace_all (dv_db_ok env)
         (metadata_entries (dv_meta_order env) (dc_metadata c)) (dc_meta_rows c)\<rparr>"

definition push_meta :: "string \<times> dlmm_meta \<Rightarrow> metadata_cache \<Rightarrow> metadata_cache" where
  "push_meta row m = m(fst row \<mapsto> case_option [] id (m (fst row)) @ [snd row])"

definition load_metadata_cache :: "metadata_rows \<Rightarrow> metadata_cache \<Rightarrow> metadata_cache" where
  "load_metadata_cache table cache =
     (let rows = dlmm_metadata_load_all table in
      if rows = [] then cache else cache ++ fold push_meta rows Map.empty)"

definition load_lb_pair_cache :: "dlmm_caches \<Rightarrow> dlmm_caches" where
  "load_lb_pair_cache c =
     c\<lparr>dc_lb_pair := dc_lb_pair c ++ lb_pairs_load_all (dc_pair_rows c),
       dc_metadata := load_metadata_cache (dc_meta_rows c) (dc_metadata c)\<rparr>"

definition all_dlmm_metadata :: "(metadata_cache \<Rightarrow> string list) \<Rightarrow> metadata_cache \<Rightarrow> dlmm_meta list" where
  "all_dlmm_metadata order cache = concat (map (\<lambda>k. case_option [] id (cache k)) (order cache))"

section \<open>Pools that could not be read\<close>

definition evict_metas :: "string list \<Rightarrow> metadata_cache \<Rightarrow> metadata_cache" where
  "evict_metas stale m k =
     (case m k of None \<Rightarrow> None
      | Some ms \<Rightarrow> (let kept = filter (\<lambda>x. dm_lb_pair x \<notin> set stale) ms in if kept = [] then None else Some kept))"

definition evict_reserves :: "string list \<Rightarrow> dlmm_pool option cache \<Rightarrow> dlmm_pool option cache" where
  "evict_reserves stale cache k =
     (case cache k of None \<Rightarrow> None
      | Some e \<Rightarrow> (case ce_data e of Some r \<Rightarrow> if dp_lb_pair r \<in> set stale then None else Some e | None \<Rightarrow> Some e))"

definition cleanup_stale_lb_pairs :: "dlmm_env \<Rightarrow> pubkey list \<Rightarrow> dlmm_pool option list \<Rightarrow> dlmm_caches \<Rightarrow> dlmm_caches" where
  "cleanup_stale_lb_pairs env all_lb_pairs all_reserves c =
     (let stale = map (\<lambda>(pair, _). dv_show env pair) (filter (\<lambda>(_, res). res = None) (zip all_lb_pairs all_reserves)) in
      if stale = [] then c
      else
        (let (pairs, rows) = evict_lb_pairs (dv_db_ok env) stale (dv_pair_entries env) (dc_lb_pair c, dc_pair_rows c);
             c1 = c\<lparr>dc_lb_pair := pairs, dc_pair_rows := rows, dc_reserves := evict_reserves stale (dc_reserves c),
                    dc_metadata := evict_metas stale (dc_metadata c)\<rparr> in
         if list_ex (\<lambda>m. dm_lb_pair m \<in> set stale) (all_dlmm_metadata (dv_meta_order env) (dc_metadata c))
         then save_metadata_cache env c1 else c1))"

section \<open>\<open>fetch_dlmm_by_mints\<close>\<close>

definition sol_reserve :: "string \<Rightarrow> dlmm_pool \<Rightarrow> u64" where
  "sol_reserve sol_mint r = (if dp_token_x_mint r = sol_mint then dp_reserve_x r else dp_reserve_y r)"

text \<open>\<open>max_by_key\<close> keeps the last of equal elements.\<close>

fun max_by_key :: "('a \<Rightarrow> 'b::linorder) \<Rightarrow> 'a list \<Rightarrow> 'a option" where
  "max_by_key f [] = None"
| "max_by_key f (x # xs) = Some (fold (\<lambda>y best. if f y < f best then best else y) xs x)"

definition best_pool :: "string \<Rightarrow> dlmm_pool list \<Rightarrow> dlmm_pool option" where
  "best_pool sol_mint rs = max_by_key (sol_reserve sol_mint) rs"

definition mark_skip :: "int \<Rightarrow> string list \<Rightarrow> (string \<rightharpoonup> int) \<Rightarrow> (string \<rightharpoonup> int)" where
  "mark_skip until lbs skip = fold (\<lambda>lb s. s(lb \<mapsto> until)) lbs skip"

definition cached_metas :: "int \<Rightarrow> string \<Rightarrow> dlmm_caches \<Rightarrow> dlmm_meta list" where
  "cached_metas now_ts key c =
     filter (\<lambda>m. case dc_zero_skip c (dm_lb_pair m) of None \<Rightarrow> True | Some until \<Rightarrow> until \<le> now_ts)
       (case_option [] id (dc_metadata c key))"

definition drop_dead :: "dlmm_env \<Rightarrow> string \<Rightarrow> string list \<Rightarrow> dlmm_caches \<Rightarrow> dlmm_caches" where
  "drop_dead env key dead c =
     (if dead = [] then c
      else case dc_metadata c key of
             None \<Rightarrow> c
           | Some ms \<Rightarrow>
               (let kept = filter (\<lambda>m. dm_lb_pair m \<notin> set dead) ms in
                save_metadata_cache env (c\<lparr>dc_metadata := (dc_metadata c)(key := if kept = [] then None else Some kept)\<rparr>)))"

text \<open>The fast path over the known pools: the usable ones, and the state with the skip list, the dead
  pools and, when there is a usable one, the deepest pool.\<close>

definition fast_results :: "dlmm_env \<Rightarrow> dlmm_meta list \<Rightarrow> (dlmm_meta \<times> dlmm_pool option) list" where
  "fast_results env metas =
     map (\<lambda>m. (m, fetch_reserves_with_metadata (dv_pda env) (dv_parse env) (dv_show env) (dv_rpc env) m)) metas"

definition fast_below :: "string \<Rightarrow> u64 \<Rightarrow> (dlmm_meta \<times> dlmm_pool option) list \<Rightarrow> string list" where
  "fast_below sol_mint min_reserve results =
     map (\<lambda>(m, _). dm_lb_pair m)
       (filter (\<lambda>(_, res). case res of Some r \<Rightarrow> sol_reserve sol_mint r < min_reserve | None \<Rightarrow> False) results)"

definition fast_dead :: "(dlmm_meta \<times> dlmm_pool option) list \<Rightarrow> string list" where
  "fast_dead results = map (\<lambda>(m, _). dm_lb_pair m) (filter (\<lambda>(_, res). res = None) results)"

definition fast_usable :: "string \<Rightarrow> u64 \<Rightarrow> (dlmm_meta \<times> dlmm_pool option) list \<Rightarrow> dlmm_pool list" where
  "fast_usable sol_mint min_reserve results =
     filter (\<lambda>r. min_reserve \<le> sol_reserve sol_mint r) (List.map_filter snd results)"

definition fast_path :: "dlmm_env \<Rightarrow> nat \<Rightarrow> int \<Rightarrow> string \<Rightarrow> u64 \<Rightarrow> string \<Rightarrow> dlmm_meta list \<Rightarrow> dlmm_caches
    \<Rightarrow> dlmm_pool list \<times> dlmm_caches" where
  "fast_path env now now_ts sol_mint min_reserve key metas c =
     (let results = fast_results env metas;
          usable = fast_usable sol_mint min_reserve results;
          c1 = c\<lparr>dc_zero_skip := mark_skip (now_ts + 1800) (fast_below sol_mint min_reserve results) (dc_zero_skip c)\<rparr>;
          c2 = drop_dead env key (fast_dead results) c1 in
      (usable,
       if usable = [] then c2
       else c2\<lparr>dc_reserves := (dc_reserves c2)(key \<mapsto> entry_new now (best_pool sol_mint usable))\<rparr>))"

definition new_pairs :: "pubkey list \<Rightarrow> pubkey list \<Rightarrow> pubkey list" where
  "new_pairs known found = rev (fold (\<lambda>pk news. if pk \<in> set known \<or> pk \<in> set news then news else pk # news) found [])"

definition metadata_of :: "dlmm_pool \<Rightarrow> dlmm_meta" where
  "metadata_of r =
     \<lparr>dm_lb_pair = dp_lb_pair r, dm_token_x_mint = dp_token_x_mint r, dm_token_y_mint = dp_token_y_mint r,
      dm_bin_step = dp_bin_step r, dm_base_factor = dp_base_factor r,
      dm_bin_array_bitmap_extension = dp_bin_array_bitmap_extension r\<rparr>"

definition cache_no_pool :: "nat \<Rightarrow> string \<Rightarrow> dlmm_caches \<Rightarrow> dlmm_caches" where
  "cache_no_pool now key c = c\<lparr>dc_reserves := (dc_reserves c)(key \<mapsto> entry_new_negative now None)\<rparr>"

text \<open>What happens to the pools read in a full discovery.\<close>

definition take_pools :: "dlmm_env \<Rightarrow> nat \<Rightarrow> int \<Rightarrow> string \<Rightarrow> u64 \<Rightarrow> string \<Rightarrow> dlmm_pool list \<Rightarrow> dlmm_caches
    \<Rightarrow> dlmm_pool list \<times> dlmm_caches" where
  "take_pools env now now_ts sol_mint min_reserve key pools c =
     (let ours = filter (\<lambda>r. dp_token_x_mint r = sol_mint \<or> dp_token_y_mint r = sol_mint) pools;
          below = filter (\<lambda>r. sol_reserve sol_mint r < min_reserve) ours;
          valid = filter (\<lambda>r. \<not> sol_reserve sol_mint r < min_reserve) ours;
          c1 = c\<lparr>dc_zero_skip := mark_skip (next_utc_midnight now_ts) (map dp_lb_pair below) (dc_zero_skip c)\<rparr> in
      if valid = [] then ([], cache_no_pool now key c1)
      else
        (valid, save_metadata_cache env
          (c1\<lparr>dc_reserves := (dc_reserves c1)(key \<mapsto> entry_new now (best_pool sol_mint valid)),
              dc_metadata := (dc_metadata c1)(key \<mapsto> map metadata_of valid)\<rparr>)))"

definition full_discovery :: "dlmm_env \<Rightarrow> nat \<Rightarrow> int \<Rightarrow> string \<Rightarrow> string \<Rightarrow> u64 \<Rightarrow> string \<Rightarrow> dlmm_caches
    \<Rightarrow> dlmm_pool list \<times> dlmm_caches" where
  "full_discovery env now now_ts sol_mint meme_mint min_reserve key c =
     (let known = (case Option.bind (dc_lb_pair c meme_mint) (dv_parse env) of None \<Rightarrow> [] | Some pk \<Rightarrow> [pk]);
          found = map fst (discover_lb_pairs_via_gpa (dv_parse env) (dv_gpa env sol_mint meme_mint)
                    @ discover_lb_pairs_via_gpa (dv_parse env) (dv_gpa env meme_mint sol_mint));
          news = new_pairs known found;
          all_lb_pairs = known @ news;
          c1 = (if news = [] then c
                else (let (pairs, rows) = cache_dlmm_lb_pair (dv_db_ok env) sol_mint meme_mint (dv_show env (hd news))
                            (dc_lb_pair c, dc_pair_rows c) in
                      c\<lparr>dc_lb_pair := pairs, dc_pair_rows := rows\<rparr>)) in
      if all_lb_pairs = [] then ([], cache_no_pool now key c1)
      else
        (let all_reserves = map (\<lambda>pk. fetch_reserves_inner (dv_pda env) (dv_parse env) (dv_show env) (dv_geyser env)
                 (dv_rpc env) pk (pubkey_lit DLMM_PROGRAM)) all_lb_pairs;
             c2 = cleanup_stale_lb_pairs env all_lb_pairs all_reserves c1 in
         take_pools env now now_ts sol_mint min_reserve key (List.map_filter id all_reserves) c2))"

definition fetch_dlmm_by_mints :: "dlmm_env \<Rightarrow> nat \<Rightarrow> int \<Rightarrow> string \<Rightarrow> string \<Rightarrow> u64 \<Rightarrow> dlmm_caches
    \<Rightarrow> dlmm_pool list \<times> dlmm_caches" where
  "fetch_dlmm_by_mints env now now_ts sol_mint meme_mint min_reserve c =
     (let key = cache_key sol_mint meme_mint;
          refresh =
            (let metas = cached_metas now_ts key c in
             if metas = [] then full_discovery env now now_ts sol_mint meme_mint min_reserve key c
             else
               (let (usable, c1) = fast_path env now now_ts sol_mint min_reserve key metas c in
                if usable = [] then full_discovery env now now_ts sol_mint meme_mint min_reserve key c1
                else (usable, c1))) in
      case dc_reserves c key of
        Some e \<Rightarrow> if age_secs now e < DLMM_RESERVE_TTL_SECS then (case_option [] (\<lambda>r. [r]) (ce_data e), c) else refresh
      | None \<Rightarrow> refresh)"

end
