(* ===== verification/Bot_Pool_Properties.thy ===== *)
theory Bot_Pool_Properties
  imports Bot_Pools
begin

text \<open>
  Properties of the pool readers: what a cache answers between two reads of the chain (the locale
  \<open>read_through\<close>, interpreted for three caches), that pools persisted for a fast restart are never
  used, and the order of the mints in the address of a pool.
\<close>

section \<open>Caches in front of a read\<close>

text \<open>\<open>fetch\<close> answers from a fresh entry; else it reads, and keeps what it read if \<open>kept\<close>.\<close>

locale read_through =
  fixes lookup :: "'c \<Rightarrow> 'k \<Rightarrow> 'e cache_entry option"
    and fresh :: "nat \<Rightarrow> 'e cache_entry \<Rightarrow> bool"
    and answer :: "'e cache_entry \<Rightarrow> 'r"
    and kept :: "'r \<Rightarrow> bool"
    and fetch :: "nat \<Rightarrow> 'k \<Rightarrow> 'c \<Rightarrow> 'r \<times> 'c"
  assumes hit: "lookup c k = Some e \<Longrightarrow> fresh now e \<Longrightarrow> fetch now k c = (answer e, c)"
    and miss: "(\<forall>e. lookup c k = Some e \<longrightarrow> \<not> fresh now e) \<Longrightarrow> fetch now k c = (r, c') \<Longrightarrow> kept r
      \<Longrightarrow> \<exists>d. lookup c' k = Some (entry_new now d) \<and> answer (entry_new now d) = r"
begin

lemma fetch_again:
  assumes "\<forall>e. lookup c k = Some e \<longrightarrow> \<not> fresh now e" "fetch now k c = (r, c')" "kept r"
    and "\<And>d. fresh t (entry_new now d)"
  shows "fetch t k c' = (r, c')"
  using miss [OF assms(1-3)] hit assms(4) by blast

text \<open>Any number of fetches in the time a new entry is fresh is one read of the chain.\<close>

lemma fetch_many:
  assumes "\<forall>e. lookup c k = Some e \<longrightarrow> \<not> fresh now e" "fetch now k c = (r, c')" "kept r"
    and "\<And>t d. t \<in> set ts \<Longrightarrow> fresh t (entry_new now d)"
  shows "fold (\<lambda>t (rs, s). let (x, s') = fetch t k s in (rs @ [x], s')) ts ([], c') = (replicate (length ts) r, c')"
  using assms(4)
proof (induction ts rule: rev_induct)
  case (snoc t ts)
  then show ?case using fetch_again [OF assms(1-3), of t] by (simp add: replicate_append_same)
qed simp

end

lemma fresh_young: "t \<le> now + 60 * 10 ^ 9 \<Longrightarrow> \<not> is_stale t (entry_new now d)"
  by (rule entry_new_fresh)

lemma young_age: "t < now + s * 10 ^ 9 \<Longrightarrow> 0 < s \<Longrightarrow> age_secs t (entry_new now d) < s"
  by (simp add: age_secs_def entry_new_def less_mult_imp_div_less)

interpretation cpmm_cache: read_through
  "\<lambda>c (t0, t1). fst c (cache_key t0 t1)" "\<lambda>now e. \<not> is_stale now e"
  "\<lambda>e. liquidity_of_state sol_price (ce_data e)" "\<lambda>_. True"
  "\<lambda>now (t0, t1). fetch_cpmm_now pda parse_key show_key rpc sol_price ok now t0 t1"
  for sol_price pda parse_key show_key rpc ok
  by unfold_locales
    (auto simp: fetch_cpmm_now_def Let_def entry_new_def split: option.splits if_splits prod.splits)

interpretation whirlpool_cache: read_through
  "\<lambda>c (t0, t1). fst c (cache_key t0 t1)" "\<lambda>now e. \<not> is_stale now e" ce_data "\<lambda>_. True"
  "\<lambda>now (t0, t1). fetch_whirlpool_by_mints pda parse_key show_key rpc ok now t0 t1"
  for pda parse_key show_key rpc ok
  by unfold_locales
    (auto simp: fetch_whirlpool_by_mints_def Let_def entry_new_def split: option.splits if_splits prod.splits)

lemma pda_fallback_Some:
  "pda_fallback pda parse_key show_key rpc now mint c = (Some s, c') \<Longrightarrow> c' = cache_curve now mint s c"
  by (auto simp: pda_fallback_def Let_def split: option.splits if_splits)

interpretation pump_cache: read_through
  "\<lambda>c mint. pu_bonding c mint" "\<lambda>now e. age_secs now e < PUMPFUN_RESERVE_TTL_SECS" ce_data "\<lambda>r. r \<noteq> None"
  "fetch_bonding_curve pda parse_key show_key gc rpc coin_v2"
  for pda parse_key show_key gc rpc coin_v2
proof unfold_locales
  fix c :: pump_caches and k e now
  assume "pu_bonding c k = Some e" "age_secs now e < PUMPFUN_RESERVE_TTL_SECS"
  then show "fetch_bonding_curve pda parse_key show_key gc rpc coin_v2 now k c = (ce_data e, c)"
    by (simp add: fetch_bonding_curve_def)
next
  fix c c' :: pump_caches and k now r
  assume "\<forall>e. pu_bonding c k = Some e \<longrightarrow> \<not> age_secs now e < PUMPFUN_RESERVE_TTL_SECS"
    and f: "fetch_bonding_curve pda parse_key show_key gc rpc coin_v2 now k c = (r, c')" and "r \<noteq> None"
  then obtain s where "r = Some s" "\<exists>c0. c' = cache_curve now k s c0"
    by (fastforce simp: fetch_bonding_curve_def Let_def dest!: pda_fallback_Some
        split: option.splits if_splits sum.splits)
  then show "\<exists>d. pu_bonding c' k = Some (entry_new now d) \<and> ce_data (entry_new now d) = r"
    by (auto simp: cache_curve_def entry_new_def)
qed

text \<open>A Pump.fun price state read from the chain is the answer to every query of the next ten
  seconds, which leave the caches unchanged.\<close>

lemma pump_state_kept:
  assumes "\<forall>e. pu_bonding c mint = Some e \<longrightarrow> \<not> age_secs now e < PUMPFUN_RESERVE_TTL_SECS"
    and "fetch_bonding_curve pda parse_key show_key gc rpc coin_v2 now mint c = (Some s, c')"
    and "\<And>t. t \<in> set ts \<Longrightarrow> t < now + 10 * 10 ^ 9"
  shows "fold (\<lambda>t (rs, c). let (r, c') = fetch_bonding_curve pda parse_key show_key gc rpc coin_v2 t mint c in (rs @ [r], c'))
    ts ([], c') = (replicate (length ts) (Some s), c')"
  by (rule pump_cache.fetch_many [OF assms(1,2)])
    (use assms(3) in \<open>auto simp: PUMPFUN_RESERVE_TTL_SECS_def intro!: young_age\<close>)

section \<open>Persisted pools\<close>

text \<open>What a reader sees of a cache: its entries that are not stale.\<close>

definition live :: "nat \<Rightarrow> 'a cache \<Rightarrow> 'a cache" where
  "live now c k = (case c k of Some e \<Rightarrow> if is_stale now e then None else Some e | None \<Rightarrow> None)"

lemma live_update: "\<not> is_stale now e \<Longrightarrow> live now (c(k \<mapsto> e)) = (live now c)(k \<mapsto> e)"
  by (auto simp: live_def fun_eq_iff)

lemma live_stale_insert:
  "c k = None \<Longrightarrow> is_stale now e \<Longrightarrow> live now (insert_if_absent k e c) = live now c"
  by (auto simp: live_def insert_if_absent_def fun_eq_iff)

lemma live_insert_persisted:
  assumes "61 * 10 ^ 9 \<le> start" "start \<le> now"
  shows "live now (insert_if_absent k (entry_new_persisted start d) c) = live now c"
  using entry_persisted_stale [OF assms, of d] by (auto simp: live_def insert_if_absent_def fun_eq_iff)

lemma get_entry_live: "get_entry now t0 t1 c = (case live now c (cache_key t0 t1) of None \<Rightarrow> None | Some e \<Rightarrow> ce_data e)"
  by (simp add: get_entry_def live_def split: option.splits)

lemma load_cpmm_live:
  assumes "61 * 10 ^ 9 \<le> start" "start \<le> now"
  shows "live now (load_cpmm_pools start rows c) = live now c"
proof -
  let ?step = "\<lambda>(mint_a, mint_b, pool_addr, config_addr). insert_if_absent (cache_key mint_a mint_b)
        (entry_new_persisted start (Some
          \<lparr>ps_pool_pubkey = pool_addr, ps_config_pubkey = config_addr, ps_token_0_mint = mint_a,
           ps_token_1_mint = mint_b, ps_token_0_vault = '''', ps_token_1_vault = '''',
           ps_token_0_vault_raw = 0, ps_token_1_vault_raw = 0\<rparr>))"
  have "live now (fold ?step xs c) = live now c" for xs
    by (induction xs arbitrary: c) (auto simp: live_insert_persisted [OF assms])
  then show ?thesis unfolding load_cpmm_pools_def .
qed

lemma load_whirlpool_live:
  assumes "61 * 10 ^ 9 \<le> start" "start \<le> now"
  shows "live now (load_whirlpool_pools start rows c) = live now c"
proof -
  let ?step = "\<lambda>(mint_a, mint_b, pool_addr, tick_spacing). insert_if_absent (cache_key mint_a mint_b)
        (entry_new_persisted start (Some
          (whirlpool_state pool_addr mint_a mint_b (0, 0) ('''', '''') (word_of_int tick_spacing) 0 0 0)))"
  have "live now (fold ?step xs c) = live now c" for xs
    by (induction xs arbitrary: c) (auto simp: live_insert_persisted [OF assms])
  then show ?thesis unfolding load_whirlpool_pools_def .
qed

lemma fetch_cpmm_now_by_live:
  "fetch_cpmm_now pda parse_key show_key rpc sol_price ok now t0 t1 (c, rows) =
     (case live now c (cache_key t0 t1) of
        Some e \<Rightarrow> (liquidity_of_state sol_price (ce_data e), c, rows)
      | None \<Rightarrow> (let state = fetch_cpmm_pool pda parse_key show_key rpc t0 t1 in
          (liquidity_of_state sol_price state, c(cache_key t0 t1 \<mapsto> entry_new now state), persist_cpmm ok state rows)))"
  by (simp add: fetch_cpmm_now_def live_def Let_def split: option.splits)

lemma fetch_cpmm_now_live:
  assumes "live now c = live now d"
    and "fetch_cpmm_now pda parse_key show_key rpc sol_price ok now t0 t1 (c, rows) = (r, c', rows')"
  shows "\<exists>d'. fetch_cpmm_now pda parse_key show_key rpc sol_price ok now t0 t1 (d, rows) = (r, d', rows')
    \<and> live now d' = live now c'"
proof -
  have young: "\<not> is_stale now (entry_new now x)" for x :: "pool_state_data option"
    by (rule entry_new_fresh) simp
  show ?thesis
    using assms unfolding fetch_cpmm_now_by_live
    by (cases "live now d (cache_key t0 t1)") (auto simp: Let_def live_update [OF young])
qed

text \<open>The pools of the database, loaded at the start so that \<open>restarts don't require PDA derivation\<close>,
  never play a part in a query: at any later time, whatever the database held, the query answers as
  it would from an empty cache, with the same reads of the chain, and afterwards every pair is
  looked up with the same result.\<close>

lemma persisted_cpmm_pools_unused:
  assumes "61 * 10 ^ 9 \<le> start" "start \<le> now"
  shows "\<exists>liq loaded empty rows'.
      fetch_cpmm_now pda parse_key show_key rpc sol_price ok now t0 t1 (load_cpmm_pools start db Map.empty, rows)
        = (liq, loaded, rows')
    \<and> fetch_cpmm_now pda parse_key show_key rpc sol_price ok now t0 t1 (Map.empty, rows) = (liq, empty, rows')
    \<and> (\<forall>a b. get_pool_state now a b loaded = get_pool_state now a b empty)"
proof -
  obtain liq loaded rows' where
    l: "fetch_cpmm_now pda parse_key show_key rpc sol_price ok now t0 t1 (load_cpmm_pools start db Map.empty, rows)
      = (liq, loaded, rows')" by (metis prod_cases3)
  show ?thesis
    using l fetch_cpmm_now_live [OF load_cpmm_live [OF assms] l]
    unfolding get_pool_state_def get_entry_live by fastforce
qed

text \<open>Worse, an entry from the database blocks the one way in which a pool found in a transaction gets
  into the cache of its pair: the pair stays without a price.\<close>

lemma persisted_blocks_discovered:
  assumes "fetch_cpmm_by_address pda parse_key show_key rpc now pool_addr c = (Some s, c')"
    and "c (addr_key pool_addr) = None" "addr_key pool_addr \<noteq> cache_key (ps_token_0_mint s) (ps_token_1_mint s)"
    and "c (cache_key (ps_token_0_mint s) (ps_token_1_mint s)) = Some (entry_new_persisted start (Some old))"
    and "61 * 10 ^ 9 \<le> start" "start \<le> now"
  shows "get_pool_state now (ps_token_0_mint s) (ps_token_1_mint s) c' = None"
  using assms(1-4) entry_persisted_stale [OF assms(5,6), of "Some old"]
  by (auto simp: fetch_cpmm_by_address_def Let_def get_pool_state_def get_entry_def entry_new_persisted_def
      split: if_splits)

section \<open>The order of the mints\<close>

text \<open>The value of a base58 text, digit by digit.\<close>

lemma b58_value_acc: "b58_value acc cs = map_option (\<lambda>v. acc * 58 ^ length cs + v) (b58_value 0 cs)"
proof (induction cs arbitrary: acc)
  case (Cons ch cs)
  show ?case
  proof (cases "b58_digit ch")
    case (Some d)
    show ?thesis
      using Cons.IH [of "58 * acc + d"] Cons.IH [of d] Some
      by (cases "b58_value 0 cs") (simp_all add: algebra_simps)
  qed simp
qed simp

lemma b58_digit_bound: "b58_digit ch = Some d \<Longrightarrow> d < 58"
  by (auto simp: b58_digit_def Let_def split: if_splits)

lemma b58_value_bound: "b58_value 0 cs = Some v \<Longrightarrow> v < 58 ^ length cs"
proof (induction cs arbitrary: v)
  case (Cons ch cs)
  from Cons.prems obtain d where d: "b58_digit ch = Some d" and acc: "b58_value d cs = Some v"
    by (auto split: option.splits)
  then obtain w where w: "b58_value 0 cs = Some w" and v: "v = d * 58 ^ length cs + w"
    unfolding b58_value_acc [of d] by auto
  have "d * 58 ^ length cs + w < (d + 1) * 58 ^ length cs" using Cons.IH [OF w] by (simp add: algebra_simps)
  also have "\<dots> \<le> 58 * 58 ^ length cs" using b58_digit_bound [OF d] by (intro mult_right_mono) auto
  finally show ?case using v by simp
qed simp

text \<open>The first of 44 digits of a key is at most \<open>J\<close>, as \<open>2 ^ 256 < 18 * 58 ^ 43\<close>.\<close>

lemma first_digit:
  assumes "b58_value 0 (ch # cs) = Some v" "length cs = 43" "v < 2 ^ 256" "ch \<noteq> CHR ''1''"
  shows "58 ^ 43 \<le> v" and "ch < CHR ''S''"
proof -
  from assms(1) obtain d where d: "b58_digit ch = Some d" and acc: "b58_value d cs = Some v"
    by (auto split: option.splits)
  then obtain w where v: "v = d * 58 ^ 43 + w"
    unfolding b58_value_acc [of d] by (auto simp: assms(2))
  have "(of_char ch :: nat) \<noteq> 49"
  proof
    assume "(of_char ch :: nat) = 49"
    then have "(of_char ch :: nat) = of_char (CHR ''1'')" by simp
    then show False using assms(4) by (simp only: of_char_eq_iff)
  qed
  then have "d \<noteq> 0" using d by (auto simp: b58_digit_def Let_def split: if_splits)
  then show "58 ^ 43 \<le> v" unfolding v by (cases d) auto
  have "d * 58 ^ 43 < 2 ^ 256" using assms(3) v by linarith
  moreover have "(2 :: nat) ^ 256 < 18 * 58 ^ 43" by simp
  ultimately have "d * 58 ^ 43 < 18 * 58 ^ 43" by (rule less_trans)
  then have "d < 18" by (simp only: mult_less_cancel2)
  then have "(of_char ch :: nat) < 83" using d by (auto simp: b58_digit_def Let_def split: if_splits)
  then show "ch < CHR ''S''" by (simp add: less_char_def)
qed

text \<open>The bot orders the two mints of a pool by their base58 texts, the programs by their keys. For SOL
  the two orders disagree on every mint with a text of the full 44 characters: the text says the
  mint comes first, its key is the larger one.\<close>

lemma sol_sorted_last:
  assumes "length mint = 44" "hd mint \<noteq> CHR ''1''" "b58_value 0 mint = Some v" "v < 2 ^ 256"
  shows "sort_mints NATIVE_SOL_MINT_C mint = (mint, NATIVE_SOL_MINT_C)
    \<and> sort_mints mint NATIVE_SOL_MINT_C = (mint, NATIVE_SOL_MINT_C)
    \<and> pubkey_lit NATIVE_SOL_MINT_C < pubkey_lit mint"
proof -
  obtain ch cs where mint: "mint = ch # cs" and len: "length cs = 43" using assms(1) by (cases mint) auto
  note first = first_digit [OF assms(3) [unfolded mint] len assms(4)]
  have ch: "ch \<noteq> CHR ''1''" using assms(2) by (simp add: mint)
  have before: "mint < NATIVE_SOL_MINT_C" using first(2) [OF ch] by (simp add: mint NATIVE_SOL_MINT_C_def)
  have "\<exists>u. b58_value 0 NATIVE_SOL_MINT_C = Some u" by (simp add: NATIVE_SOL_MINT_C_def b58_digit_def)
  then obtain u where u: "b58_value 0 NATIVE_SOL_MINT_C = Some u" ..
  have "length NATIVE_SOL_MINT_C = 43" by (simp add: NATIVE_SOL_MINT_C_def)
  then have "u < 58 ^ 43" using b58_value_bound [OF u] by simp
  then have uv: "u < v" using first(1) [OF ch] by (rule less_le_trans)
  have unats: "unat (pubkey_lit mint) = v" "unat (pubkey_lit NATIVE_SOL_MINT_C) = u"
    using assms(3,4) u uv unfolding pubkey_lit_def by (simp_all del: of_nat_unat add: unat_of_nat_small)
  then have "pubkey_lit NATIVE_SOL_MINT_C < pubkey_lit mint" using uv by (simp only: word_less_nat_alt)
  then show ?thesis using before less_not_sym [OF before] unfolding sort_mints_def by simp
qed

end
