(* ===== verification/Bot_Discovery_Properties.thy ===== *)
theory Bot_Discovery_Properties
  imports Bot_Discovery Bot_Pool_Properties
begin

text \<open>
  Properties of the pool discovery: the pools a query returns contain the quote mint and are deep enough,
  as is everything the caches keep for the pair; the metadata table survives a restart; a query
  repeated within ten seconds sees one pool only; an endpoint that does not answer makes the bot
  forget the pair, in memory and in the database.
\<close>

section \<open>Selecting the deepest pool\<close>

lemma fold_max_in: "fold (\<lambda>y best. if f y < f best then best else y) xs x \<in> insert x (set xs)"
  by (induction xs arbitrary: x) (auto split: if_splits)

lemma fold_max_ge:
  "f y \<le> f (fold (\<lambda>y best. if f y < f best then best else y) xs (x :: 'a) :: 'a) \<or> y \<notin> insert x (set xs)"
  for f :: "'a \<Rightarrow> 'b::linorder"
proof (induction xs arbitrary: x y)
  case (Cons z xs)
  let ?m = "if f z < f x then x else z"
  have m: "f x \<le> f ?m" "f z \<le> f ?m" by auto
  have "f ?m \<le> f (fold (\<lambda>y best. if f y < f best then best else y) xs ?m)"
    using Cons.IH [of ?m ?m] by blast
  then show ?case using m Cons.IH [of y ?m] by (auto intro: order_trans)
qed auto

lemma max_by_key_Some: "max_by_key f xs = Some m \<Longrightarrow> m \<in> set xs \<and> (\<forall>y \<in> set xs. f y \<le> f m)"
proof (cases xs)
  case (Cons x ys)
  assume "max_by_key f xs = Some m"
  then have m: "m = fold (\<lambda>y best. if f y < f best then best else y) ys x" using Cons by simp
  have "m \<in> set xs" unfolding m Cons using fold_max_in [of f ys x] by simp
  moreover have "f y \<le> f m" if "y \<in> set xs" for y
    using that fold_max_ge [of f y ys x] unfolding m Cons by auto
  ultimately show ?thesis by blast
qed simp

lemma max_by_key_None [simp]: "max_by_key f xs = None \<longleftrightarrow> xs = []"
  by (cases xs) auto

section \<open>Pools that contain the quote mint\<close>

definition has_mint :: "string \<Rightarrow> dlmm_pool \<Rightarrow> bool" where
  "has_mint sol r \<longleftrightarrow> dp_token_x_mint r = sol \<or> dp_token_y_mint r = sol"

definition meta_has_mint :: "string \<Rightarrow> dlmm_meta \<Rightarrow> bool" where
  "meta_has_mint sol m \<longleftrightarrow> dm_token_x_mint m = sol \<or> dm_token_y_mint m = sol"

text \<open>\<open>asked\<close> holds the instants and thresholds of the queries made for the pair so far: the cached pool met
  the threshold of the query that stored it.\<close>

definition pair_sound :: "string \<Rightarrow> (nat \<times> u64) set \<Rightarrow> string \<Rightarrow> dlmm_caches \<Rightarrow> bool" where
  "pair_sound sol asked key c \<longleftrightarrow>
     (\<forall>e r. dc_reserves c key = Some e \<and> ce_data e = Some r \<longrightarrow> has_mint sol r \<and>
        (\<exists>m. (ce_updated_at e, m) \<in> asked \<and> m \<le> sol_reserve sol r)) \<and>
     (\<forall>ms m. dc_metadata c key = Some ms \<and> m \<in> set ms \<longrightarrow> meta_has_mint sol m)"

lemma fetched_with_metadata:
  "fetch_reserves_with_metadata pda parse_key show_key rpc m = Some r \<Longrightarrow>
     dp_lb_pair r = dm_lb_pair m \<and> dp_token_x_mint r = dm_token_x_mint m \<and> dp_token_y_mint r = dm_token_y_mint m"
  by (auto simp: fetch_reserves_with_metadata_def bind_eq_Some_conv Let_def split: if_splits)

lemma save_metadata_keeps [simp]:
  "dc_metadata (save_metadata_cache env c) = dc_metadata c"
  "dc_reserves (save_metadata_cache env c) = dc_reserves c"
  "dc_lb_pair (save_metadata_cache env c) = dc_lb_pair c"
  "dc_pair_rows (save_metadata_cache env c) = dc_pair_rows c"
  "dc_zero_skip (save_metadata_cache env c) = dc_zero_skip c"
  by (simp_all add: save_metadata_cache_def)

lemma pair_sound_mono:
  assumes "pair_sound sol asked key c"
    and "dc_reserves c' key = dc_reserves c key \<or> dc_reserves c' key = None"
    and "\<And>ms. dc_metadata c' key = Some ms \<Longrightarrow> \<exists>ms'. dc_metadata c key = Some ms' \<and> set ms \<subseteq> set ms'"
  shows "pair_sound sol asked key c'"
  unfolding pair_sound_def
proof (intro conjI allI impI)
  fix e r
  assume "dc_reserves c' key = Some e \<and> ce_data e = Some r"
  then have "dc_reserves c key = Some e" "ce_data e = Some r" using assms(2) by auto
  then show "has_mint sol r" "\<exists>m. (ce_updated_at e, m) \<in> asked \<and> m \<le> sol_reserve sol r"
    using assms(1) unfolding pair_sound_def by blast+
next
  fix ms m
  assume m: "dc_metadata c' key = Some ms \<and> m \<in> set ms"
  then obtain ms' where "dc_metadata c key = Some ms'" "m \<in> set ms'" using assms(3) by blast
  then show "meta_has_mint sol m" using assms(1) unfolding pair_sound_def by blast
qed

lemma pair_sound_store:
  assumes "pair_sound sol asked key c" "(t, min_reserve) \<in> asked" "\<And>r. d = Some r \<Longrightarrow> has_mint sol r \<and> min_reserve \<le> sol_reserve sol r"
  shows "pair_sound sol asked key (c\<lparr>dc_reserves := (dc_reserves c)(key \<mapsto> \<lparr>ce_data = d, ce_updated_at = t, ce_negative = n\<rparr>)\<rparr>)"
  using assms unfolding pair_sound_def by auto

lemma drop_dead_sound:
  assumes "pair_sound sol asked key c"
  shows "pair_sound sol asked key (drop_dead env key dead c)"
  using assms by (auto simp: drop_dead_def Let_def split: option.splits
      intro!: pair_sound_mono [OF assms] dest: filter_is_subset [THEN subsetD])

lemma cleanup_sound:
  assumes "pair_sound sol asked key c"
  shows "pair_sound sol asked key (cleanup_stale_lb_pairs env ps rs c)"
  by (rule pair_sound_mono [OF assms])
    (auto simp: cleanup_stale_lb_pairs_def Let_def evict_reserves_def evict_metas_def
      split: option.splits if_splits prod.splits)

lemma in_fast_usable:
  "r \<in> set (fast_usable sol min_reserve (fast_results env metas)) \<longleftrightarrow> min_reserve \<le> sol_reserve sol r \<and>
     (\<exists>m \<in> set metas. fetch_reserves_with_metadata (dv_pda env) (dv_parse env) (dv_show env) (dv_rpc env) m = Some r)"
  unfolding fast_usable_def fast_results_def by (induction metas) (auto simp: List.map_filter_simps split: option.splits)

lemma fast_usable_sound:
  assumes "\<forall>m \<in> set metas. meta_has_mint sol m" "r \<in> set (fast_usable sol min_reserve (fast_results env metas))"
  shows "has_mint sol r \<and> min_reserve \<le> sol_reserve sol r"
  using assms fetched_with_metadata unfolding in_fast_usable has_mint_def meta_has_mint_def by metis

lemma best_pool_sound:
  assumes "\<forall>r \<in> set rs. has_mint sol r \<and> min_reserve \<le> sol_reserve sol r" "best_pool sol rs = Some r"
  shows "has_mint sol r \<and> min_reserve \<le> sol_reserve sol r"
  using assms unfolding best_pool_def by (blast dest: max_by_key_Some)

lemma fast_path_sound:
  assumes c: "pair_sound sol asked key c" and q: "(now, min_reserve) \<in> asked" and metas: "\<forall>m \<in> set metas. meta_has_mint sol m"
    and f: "fast_path env now now_ts sol min_reserve key metas c = (usable, c')"
  shows "pair_sound sol asked key c' \<and> (\<forall>r \<in> set usable. has_mint sol r \<and> min_reserve \<le> sol_reserve sol r)"
proof -
  have us: "usable = fast_usable sol min_reserve (fast_results env metas)"
    using f by (simp add: fast_path_def Let_def)
  have ok: "\<forall>r \<in> set usable. has_mint sol r \<and> min_reserve \<le> sol_reserve sol r"
    unfolding us using fast_usable_sound [OF metas] by blast
  have "pair_sound sol asked key (c\<lparr>dc_zero_skip := x\<rparr>)" for x
    by (rule pair_sound_mono [OF c]) simp_all
  then have c2: "pair_sound sol asked key (drop_dead env key d (c\<lparr>dc_zero_skip := x\<rparr>))" for d x
    by (intro drop_dead_sound)
  have "pair_sound sol asked key c'"
  proof (cases "usable = []")
    case True
    then show ?thesis using f c2 unfolding us by (auto simp: fast_path_def Let_def)
  next
    case False
    then show ?thesis
      using f pair_sound_store [OF c2 q best_pool_sound [OF ok]] unfolding us
      by (auto simp: fast_path_def Let_def entry_new_def)
  qed
  then show ?thesis using ok by blast
qed

lemma take_pools_sound:
  assumes c: "pair_sound sol asked key c" and q: "(now, min_reserve) \<in> asked"
    and f: "take_pools env now now_ts sol min_reserve key pools c = (rs, c')"
  shows "pair_sound sol asked key c' \<and> (\<forall>r \<in> set rs. has_mint sol r \<and> min_reserve \<le> sol_reserve sol r)"
proof -
  define valid where "valid = filter (\<lambda>r. \<not> sol_reserve sol r < min_reserve)
    (filter (\<lambda>r. dp_token_x_mint r = sol \<or> dp_token_y_mint r = sol) pools)"
  have rs: "rs = valid" using f by (auto simp: take_pools_def Let_def valid_def split: if_splits)
  have ok: "\<forall>r \<in> set rs. has_mint sol r \<and> min_reserve \<le> sol_reserve sol r"
    unfolding rs valid_def has_mint_def by auto
  have base: "pair_sound sol asked key (c\<lparr>dc_zero_skip := x\<rparr>)" for x by (rule pair_sound_mono [OF c]) simp_all
  show ?thesis
  proof (cases "valid = []")
    case True
    then show ?thesis
      using f ok pair_sound_store [OF base q, of None] unfolding valid_def
      by (auto simp: take_pools_def Let_def cache_no_pool_def entry_new_negative_def)
  next
    case False
    have best: "has_mint sol r \<and> min_reserve \<le> sol_reserve sol r" if "best_pool sol valid = Some r" for r
      using best_pool_sound [OF ok that [folded rs]] .
    have metas: "meta_has_mint sol m" if "m \<in> metadata_of ` set valid" for m
      using that ok unfolding rs has_mint_def meta_has_mint_def metadata_of_def by auto
    have r: "dc_reserves c' key = Some (entry_new now (best_pool sol valid))"
      and m: "dc_metadata c' key = Some (map metadata_of valid)"
      using f False unfolding valid_def by (auto simp: take_pools_def Let_def split: if_splits)
    have "pair_sound sol asked key c'"
      unfolding pair_sound_def r m using best metas q by (auto simp: entry_new_def)
    then show ?thesis using ok by blast
  qed
qed

lemma full_discovery_sound:
  assumes c: "pair_sound sol asked key c" and q: "(now, min_reserve) \<in> asked"
    and f: "full_discovery env now now_ts sol meme min_reserve key c = (rs, c')"
  shows "pair_sound sol asked key c' \<and> (\<forall>r \<in> set rs. has_mint sol r \<and> min_reserve \<le> sol_reserve sol r)"
proof -
  have base: "pair_sound sol asked key (c\<lparr>dc_lb_pair := x, dc_pair_rows := y\<rparr>)" for x y
    by (rule pair_sound_mono [OF c]) simp_all
  have none: "pair_sound sol asked key (cache_no_pool now key d)" if "pair_sound sol asked key d" for d
    using pair_sound_store [OF that q, of None] by (simp add: cache_no_pool_def entry_new_negative_def)
  show ?thesis
    using f c q base unfolding full_discovery_def Let_def
    by (auto split: if_splits prod.splits option.splits intro!: none cleanup_sound
        dest!: take_pools_sound [rotated 2])
qed

lemma pair_sound_asked: "pair_sound sol asked key c \<Longrightarrow> asked \<subseteq> asked' \<Longrightarrow> pair_sound sol asked' key c"
  unfolding pair_sound_def by blast

text \<open>C26: Every pool a query returns holds the quote mint on one side, and at least the reserve of it that this
  query, or one for the same pair less than ten seconds before, demanded; when no such answer is cached, it
  is the reserve this query demanded: whatever the chain, the stream, \<open>getProgramAccounts\<close> and the database
  answer. The caches stay sound for the pair: the cached pool met the threshold of the query that stored
  it, and every known pool holds the quote mint.\<close>

theorem fetched_pools_sound:
  assumes "pair_sound sol asked (cache_key sol meme) c"
    and "fetch_dlmm_by_mints env now now_ts sol meme min_reserve c = (rs, c')"
  shows "pair_sound sol (insert (now, min_reserve) asked) (cache_key sol meme) c'
    \<and> (\<forall>r \<in> set rs. (dp_token_x_mint r = sol \<or> dp_token_y_mint r = sol) \<and>
        (\<exists>(t, m) \<in> insert (now, min_reserve) asked. (now - t) div 10 ^ 9 < 10 \<and> m \<le> sol_reserve sol r))
    \<and> ((\<forall>e. dc_reserves c (cache_key sol meme) = Some e \<longrightarrow> 10 \<le> age_secs now e) \<longrightarrow>
        (\<forall>r \<in> set rs. min_reserve \<le> sol_reserve sol r))"
proof -
  let ?key = "cache_key sol meme" and ?asked = "insert (now, min_reserve) asked"
  let ?ok = "\<lambda>(rs, c'). pair_sound sol ?asked ?key c' \<and> (\<forall>r \<in> set rs. has_mint sol r \<and> min_reserve \<le> sol_reserve sol r)"
  have q: "(now, min_reserve) \<in> ?asked" by simp
  have sound: "pair_sound sol ?asked ?key c" using assms(1) by (rule pair_sound_asked) blast
  have metas: "\<forall>m \<in> set (cached_metas now_ts ?key c). meta_has_mint sol m"
    using assms(1) by (cases "dc_metadata c ?key") (auto simp: cached_metas_def pair_sound_def)
  have full: "?ok (full_discovery env now now_ts sol meme min_reserve ?key d)" if "pair_sound sol ?asked ?key d" for d
    using full_discovery_sound [OF that q] by (auto split: prod.splits)
  let ?refresh = "let metas = cached_metas now_ts ?key c in
     if metas = [] then full_discovery env now now_ts sol meme min_reserve ?key c
     else (let (usable, c1) = fast_path env now now_ts sol min_reserve ?key metas c in
       if usable = [] then full_discovery env now now_ts sol meme min_reserve ?key c1 else (usable, c1))"
  obtain usable c1 where f: "fast_path env now now_ts sol min_reserve ?key (cached_metas now_ts ?key c) c = (usable, c1)"
    by (cases "fast_path env now now_ts sol min_reserve ?key (cached_metas now_ts ?key c) c")
  note fast = fast_path_sound [OF sound q metas f]
  have refresh: "?ok ?refresh"
    using full [OF sound] full fast unfolding Let_def f by (auto simp: f)
  show ?thesis
  proof (cases "\<exists>e. dc_reserves c ?key = Some e \<and> age_secs now e < DLMM_RESERVE_TTL_SECS")
    case True
    then obtain e where e: "dc_reserves c ?key = Some e" "age_secs now e < 10"
      by (auto simp: DLMM_RESERVE_TTL_SECS_def)
    then have "rs = case_option [] (\<lambda>r. [r]) (ce_data e)" "c' = c"
      using assms(2) by (simp_all add: fetch_dlmm_by_mints_def Let_def DLMM_RESERVE_TTL_SECS_def)
    then show ?thesis
      using sound assms(1) e by (auto simp: pair_sound_def age_secs_def has_mint_def split: option.splits)
  next
    case False
    then have "fetch_dlmm_by_mints env now now_ts sol meme min_reserve c = ?refresh"
      unfolding fetch_dlmm_by_mints_def Let_def by (auto split: option.splits)
    then have "?ok (rs, c')" using refresh assms(2) by (simp only:)
    then show ?thesis by (auto simp: has_mint_def)
  qed
qed

section \<open>A repeated query\<close>

lemma take_pools_cached:
  assumes "take_pools env now now_ts sol min_reserve key pools c = (rs, c')" "rs \<noteq> []"
  shows "dc_reserves c' key = Some (entry_new now (best_pool sol rs))"
  using assms by (auto simp: take_pools_def Let_def split: if_splits)

lemma fetched_best_cached:
  assumes "\<forall>e. dc_reserves c (cache_key sol meme) = Some e \<longrightarrow> \<not> age_secs now e < DLMM_RESERVE_TTL_SECS"
    and "fetch_dlmm_by_mints env now now_ts sol meme min_reserve c = (rs, c')" "rs \<noteq> []"
  shows "dc_reserves c' (cache_key sol meme) = Some (entry_new now (best_pool sol rs))"
proof -
  have full: "dc_reserves c' (cache_key sol meme) = Some (entry_new now (best_pool sol rs))"
    if "full_discovery env now now_ts sol meme min_reserve (cache_key sol meme) d = (rs, c')" for d
    using that assms(3) unfolding full_discovery_def Let_def
    by (auto split: if_splits prod.splits option.splits dest: take_pools_cached)
  have fast: "dc_reserves c' (cache_key sol meme) = Some (entry_new now (best_pool sol rs))"
    if "fast_path env now now_ts sol min_reserve (cache_key sol meme) metas c = (rs, c')" for metas
    using that assms(3) by (auto simp: fast_path_def Let_def)
  show ?thesis
    using assms full fast unfolding fetch_dlmm_by_mints_def Let_def
    by (auto split: option.splits prod.splits if_splits)
qed

text \<open>A query repeated within ten seconds, for the same pair, does not see the pools of the first answer
  but the deepest of them alone.\<close>

lemma repeated_query_one_pool:
  assumes "\<forall>e. dc_reserves c (cache_key sol meme) = Some e \<longrightarrow> \<not> age_secs now e < DLMM_RESERVE_TTL_SECS"
    and "fetch_dlmm_by_mints env now now_ts sol meme min_reserve c = (rs, c')" "rs \<noteq> []"
    and "t < now + 10 * 10 ^ 9"
  shows "\<exists>best \<in> set rs. (\<forall>r \<in> set rs. sol_reserve sol r \<le> sol_reserve sol best)
    \<and> fetch_dlmm_by_mints env' t t_ts sol meme min_reserve' c' = ([best], c')"
proof -
  obtain best where b: "best_pool sol rs = Some best"
    using assms(3) by (cases "best_pool sol rs") (auto simp: best_pool_def)
  have "age_secs t (entry_new now x) < DLMM_RESERVE_TTL_SECS" for x :: "dlmm_pool option"
    unfolding DLMM_RESERVE_TTL_SECS_def by (rule young_age) (use assms(4) in simp_all)
  moreover have "ce_data (entry_new now x) = x" for x :: "dlmm_pool option" by (simp add: entry_new_def)
  ultimately have "fetch_dlmm_by_mints env' t t_ts sol meme min_reserve' c' = ([best], c')"
    using fetched_best_cached [OF assms(1-3)] by (simp add: fetch_dlmm_by_mints_def Let_def b)
  then show ?thesis using b max_by_key_Some [of "sol_reserve sol" rs best] unfolding best_pool_def by blast
qed

section \<open>The metadata table across a restart\<close>

definition metadata_ok :: "(metadata_cache \<Rightarrow> string list) \<Rightarrow> metadata_cache \<Rightarrow> bool" where
  "metadata_ok order m \<longleftrightarrow> set (order m) = dom m \<and> distinct (order m)
     \<and> (\<forall>ms \<in> ran m. ms \<noteq> [] \<and> distinct (map dm_lb_pair ms))"

definition rows_for :: "string \<Rightarrow> metadata_rows \<Rightarrow> dlmm_meta list" where
  "rows_for k rows = map snd (filter (\<lambda>r. fst r = k) rows)"

lemma rows_for_simps [simp]:
  "rows_for k [] = []" "rows_for k ((k', m) # rows) = (if k' = k then m # rows_for k rows else rows_for k rows)"
  "rows_for k (xs @ ys) = rows_for k xs @ rows_for k ys"
  by (simp_all add: rows_for_def)

lemma push_rows: "fold push_meta rows m k = (if rows_for k rows = [] then m k else Some (case_option [] id (m k) @ rows_for k rows))"
  by (induction rows arbitrary: m) (auto simp: push_meta_def)

lemma insert_meta_rows_new:
  assumes "distinct (map (\<lambda>(k, m). (k, dm_lb_pair m)) (rows @ entries))"
  shows "insert_meta_rows entries rows = rows @ entries"
  using assms
proof (induction entries arbitrary: rows)
  case (Cons e entries)
  obtain key m where e: "e = (key, m)" by (cases e)
  have "\<not> list_ex (\<lambda>(k, x). k = key \<and> dm_lb_pair x = dm_lb_pair m) rows"
    using Cons.prems by (force simp: e list_ex_iff)
  then show ?case using Cons.IH [of "rows @ [(key, m)]"] Cons.prems by (simp add: e)
qed simp

lemma rows_for_map_Pair [simp]: "rows_for k (map (Pair k') ms) = (if k' = k then ms else [])"
  by (induction ms) auto

lemma rows_for_entries:
  assumes "distinct ks"
  shows "rows_for k (concat (map (\<lambda>k. case m k of None \<Rightarrow> [] | Some ms \<Rightarrow> map (Pair k) ms) ks))
    = (if k \<in> set ks then case_option [] id (m k) else [])"
  using assms by (induction ks) (auto split: option.splits)

lemma entries_distinct:
  assumes "distinct ks" "\<forall>ms \<in> ran m. distinct (map dm_lb_pair ms)"
  shows "distinct (map (\<lambda>(k, m). (k, dm_lb_pair m)) (concat (map (\<lambda>k. case m k of None \<Rightarrow> [] | Some ms \<Rightarrow> map (Pair k) ms) ks)))"
  using assms(1)
proof (induction ks)
  case (Cons k ks)
  have "distinct (map (\<lambda>(k, m). (k, dm_lb_pair m)) (case m k of None \<Rightarrow> [] | Some ms \<Rightarrow> map (Pair k) ms))"
    using assms(2) by (auto simp: distinct_map inj_on_def ran_def split: option.splits)
  then show ?case using Cons by (auto split: option.splits)
qed simp

text \<open>C28: What the metadata cache holds is what a restart loads, up to the order of the pools of a pair: the
  table may return its rows in any order.\<close>

theorem metadata_restart:
  assumes "metadata_ok (dv_meta_order env) (dc_metadata c)" "dv_db_ok env"
    and "mset table = mset (dc_meta_rows (save_metadata_cache env c))"
  shows "map_option mset (load_metadata_cache table Map.empty k) = map_option mset (dc_metadata c k)"
proof -
  let ?m = "dc_metadata c" and ?ks = "dv_meta_order env (dc_metadata c)"
  let ?entries = "metadata_entries (dv_meta_order env) ?m"
  have ok: "distinct ?ks" "set ?ks = dom ?m" "\<forall>ms \<in> ran ?m. ms \<noteq> [] \<and> distinct (map dm_lb_pair ms)"
    using assms(1) by (auto simp: metadata_ok_def)
  have "dc_meta_rows (save_metadata_cache env c) = ?entries"
    using assms(2) ok insert_meta_rows_new [of "[]" ?entries] entries_distinct [of ?ks ?m]
    by (simp add: save_metadata_cache_def dlmm_metadata_replace_all_def metadata_entries_def)
  then have table: "mset (rows_for k table) = mset (rows_for k ?entries)"
    using assms(3) by (simp add: rows_for_def)
  have rows: "rows_for k ?entries = case_option [] id (?m k)"
    using ok(1,2) by (auto simp: metadata_entries_def rows_for_entries domIff split: option.splits)
  have load: "load_metadata_cache table Map.empty k = (if rows_for k table = [] then None else Some (rows_for k table))"
    by (auto simp: load_metadata_cache_def dlmm_metadata_load_all_def push_rows Let_def map_add_def)
  show ?thesis
  proof (cases "?m k")
    case None
    then show ?thesis using table rows load by simp
  next
    case (Some ms)
    then have "ms \<noteq> []" using ok(3) by (auto simp: ran_def)
    then show ?thesis using table rows load Some by auto
  qed
qed

section \<open>An endpoint that does not answer\<close>

lemma warm_none: "gc_accounts gc = Map.empty \<Longrightarrow> warm_data gc k = None"
  by (simp add: warm_data_def get_with_slot_def)

lemma dead_endpoint_pool:
  assumes "rv_account rpc = (\<lambda>_. None)" "gc_accounts gc = Map.empty"
  shows "fetch_reserves_with_metadata pda parse_key show_key rpc m = None"
    and "fetch_reserves_inner pda parse_key show_key gc rpc pk dlmm = None"
  using assms(1) warm_none [OF assms(2)]
  by (auto simp: fetch_reserves_with_metadata_def fetch_reserves_inner_def warm_or_rpc_def Let_def bind_eq_None_conv)

lemma saved_rows_have_keys:
  "(k, m) \<in> set (insert_meta_rows entries rows) \<Longrightarrow> (k, m) \<in> set entries \<union> set rows"
  by (induction entries rows rule: insert_meta_rows.induct) (auto split: if_splits)

lemma saved_without_key:
  assumes "dv_db_ok env" "dc_metadata c key = None" "(k, m) \<in> set (dc_meta_rows (save_metadata_cache env c))"
  shows "k \<noteq> key"
  using assms
  by (auto simp: save_metadata_cache_def dlmm_metadata_replace_all_def metadata_entries_def
      dest!: saved_rows_have_keys split: option.splits)

text \<open>An endpoint that fails to answer for a moment is taken for the deletion of the pools on the chain:
  one query makes the bot forget every pool of the pair, in its caches and in both tables.\<close>

lemma endpoint_failure_forgets_pair:
  assumes failing: "rv_account (dv_rpc env) = (\<lambda>_. None)" "gc_accounts (dv_geyser env) = Map.empty" "dv_gpa env = (\<lambda>_ _. [])"
    and db: "dv_db_ok env" "\<And>m. m \<subseteq>\<^sub>m dc_lb_pair c \<Longrightarrow> collect_rows (dv_pair_entries env m) = m"
    and old: "\<forall>e. dc_reserves c (cache_key sol meme) = Some e \<longrightarrow> \<not> age_secs now e < DLMM_RESERVE_TTL_SECS"
    and known: "dc_metadata c (cache_key sol meme) = Some ms" "ms \<noteq> []" "dc_zero_skip c = Map.empty"
    and pair: "dc_lb_pair c meme = Some lb" "dv_parse env lb = Some pk" "dv_show env pk = lb"
    and f: "fetch_dlmm_by_mints env now now_ts sol meme min_reserve c = (rs, c')"
  shows "rs = [] \<and> dc_metadata c' (cache_key sol meme) = None \<and> dc_lb_pair c' meme = None
    \<and> lb_pairs_load_all (dc_pair_rows c') meme = None
    \<and> (\<forall>(k, m) \<in> set (dc_meta_rows c'). k \<noteq> cache_key sol meme)"
proof -
  let ?key = "cache_key sol meme"
  have metas: "cached_metas now_ts ?key c = ms" using known by (simp add: cached_metas_def)
  have results: "fast_results env ms = map (\<lambda>m. (m, None)) ms"
    using dead_endpoint_pool(1) [OF failing(1,2)] by (simp add: fast_results_def)
  have none: "fast_usable sol min_reserve (fast_results env ms) = []" "fast_below sol min_reserve (fast_results env ms) = []"
    "fast_dead (fast_results env ms) = map dm_lb_pair ms"
    unfolding results fast_usable_def fast_below_def fast_dead_def
    by (induction ms) (simp_all add: List.map_filter_simps)
  define c1 where "c1 = save_metadata_cache env (c\<lparr>dc_metadata := (dc_metadata c)(?key := None)\<rparr>)"
  have fast: "fast_path env now now_ts sol min_reserve ?key ms c = ([], c1)"
    using known(1,2) by (simp add: fast_path_def Let_def none drop_dead_def mark_skip_def c1_def filter_False)
  define c2 where "c2 = cleanup_stale_lb_pairs env [pk] [None] c1"
  have full: "full_discovery env now now_ts sol meme min_reserve ?key c1
      = take_pools env now now_ts sol min_reserve ?key [] c2"
    using pair dead_endpoint_pool(2) [OF failing(1,2)]
    by (simp add: full_discovery_def c1_def c2_def failing(3) discover_lb_pairs_via_gpa_def List.map_filter_simps new_pairs_def)
  have "fetch_dlmm_by_mints env now now_ts sol meme min_reserve c = take_pools env now now_ts sol min_reserve ?key [] c2"
    using old known(2) full by (auto simp: fetch_dlmm_by_mints_def Let_def metas fast split: option.splits)
  then have c': "rs = []" "c' = cache_no_pool now ?key (c2\<lparr>dc_zero_skip := dc_zero_skip c2\<rparr>)"
    using f by (simp_all add: take_pools_def mark_skip_def)
  define kept where "kept = (\<lambda>mint. case dc_lb_pair c mint of
    Some l \<Rightarrow> if l \<in> set [lb] then None else Some l | None \<Rightarrow> None)"
  have forgotten: "kept meme = None" using pair(1) by (simp add: kept_def)
  then have "kept \<noteq> dc_lb_pair c" using pair(1) by auto
  then have pairs: "evict_lb_pairs True [lb] (dv_pair_entries env) (dc_lb_pair c, rows) = (kept, dv_pair_entries env kept)" for rows
    by (simp add: evict_lb_pairs_def Let_def lb_pairs_replace_all_def flip: kept_def)
  have c2: "dc_lb_pair c2 = kept" "dc_pair_rows c2 = dv_pair_entries env kept" "dc_metadata c2 ?key = None"
    using pairs db(1) pair(3)
    by (auto simp: c2_def cleanup_stale_lb_pairs_def Let_def c1_def evict_metas_def)
  have rows1: "k \<noteq> ?key" if "(k, m) \<in> set (dc_meta_rows c1)" for k m
    using saved_without_key [OF db(1) _ that [unfolded c1_def]] by simp
  define d where "d = c1\<lparr>dc_lb_pair := kept, dc_pair_rows := dv_pair_entries env kept,
    dc_reserves := evict_reserves [lb] (dc_reserves c1), dc_metadata := evict_metas [lb] (dc_metadata c1)\<rparr>"
  have "c2 = d \<or> c2 = save_metadata_cache env d"
    using pairs db(1) pair(3) by (auto simp: c2_def cleanup_stale_lb_pairs_def Let_def c1_def d_def)
  moreover have "dc_metadata d ?key = None" "dc_meta_rows d = dc_meta_rows c1"
    by (simp_all add: d_def c1_def evict_metas_def)
  ultimately have rows2: "k \<noteq> ?key" if "(k, m) \<in> set (dc_meta_rows c2)" for k m
    using that rows1 [of k m] saved_without_key [OF db(1), of d ?key k m] by auto
  have sub: "kept \<subseteq>\<^sub>m dc_lb_pair c" by (auto simp: kept_def map_le_def split: option.splits)
  show ?thesis
    using c' c2 rows2 db(2) [OF sub] forgotten by (auto simp: cache_no_pool_def lb_pairs_load_all_def)
qed

definition demo_pair_meta :: dlmm_meta where
  "demo_pair_meta = \<lparr>dm_lb_pair = text_of_key 1, dm_token_x_mint = ''meme'', dm_token_y_mint = ''sol'',
     dm_bin_step = 10, dm_base_factor = 8000, dm_bin_array_bitmap_extension = None\<rparr>"

definition demo_known :: dlmm_caches where
  "demo_known = \<lparr>dc_reserves = Map.empty, dc_metadata = [''meme:sol'' \<mapsto> [demo_pair_meta]], dc_zero_skip = Map.empty,
     dc_lb_pair = [''meme'' \<mapsto> text_of_key 1], dc_pair_rows = [(''meme'', text_of_key 1)],
     dc_meta_rows = [(''meme:sol'', demo_pair_meta)]\<rparr>"

definition demo_dead_env :: dlmm_env where
  "demo_dead_env = \<lparr>dv_pda = (\<lambda>_ _. 7), dv_parse = key_of_text, dv_show = text_of_key, dv_geyser = geyser_default,
     dv_rpc = \<lparr>rv_account = (\<lambda>_. None), rv_multiple = (\<lambda>_. None)\<rparr>, dv_gpa = (\<lambda>_ _. []),
     dv_meta_order = (\<lambda>m. if m ''meme:sol'' = None then [] else [''meme:sol'']),
     dv_pair_entries = (\<lambda>m. case m ''meme'' of None \<Rightarrow> [] | Some lb \<Rightarrow> [(''meme'', lb)]), dv_db_ok = True\<rparr>"

lemma one_entry:
  assumes "m \<subseteq>\<^sub>m [k \<mapsto> v]"
  shows "collect_rows (case m k of None \<Rightarrow> [] | Some lb \<Rightarrow> [(k, lb)]) = m"
proof
  fix x
  have "m x = None" if "x \<noteq> k" using assms that by (auto simp: map_le_def dom_def)
  then show "collect_rows (case m k of None \<Rightarrow> [] | Some lb \<Rightarrow> [(k, lb)]) x = m x"
    by (cases "x = k") (auto simp: collect_rows_def split: option.splits)
qed

section \<open>A concrete discovery\<close>

text \<open>Every account is the same 152 zero bytes: an empty pool of the two keys zero, found by
  \<open>getProgramAccounts\<close> under two addresses.\<close>

definition demo_env_two :: dlmm_env where
  "demo_env_two = \<lparr>dv_pda = (\<lambda>_ _. 7), dv_parse = key_of_text, dv_show = text_of_key, dv_geyser = geyser_default,
     dv_rpc = \<lparr>rv_account = (\<lambda>_. Some \<lparr>on_owner = 0, on_data = replicate 152 0\<rparr>),
               rv_multiple = (\<lambda>_. Some (\<lambda>_. None))\<rparr>,
     dv_gpa = (\<lambda>a b. if a = text_of_key 0 then [(Some (text_of_key 1), Some (replicate 152 0)),
                                                  (Some (text_of_key 2), Some (replicate 152 0))] else []),
     dv_meta_order = (\<lambda>_. []), dv_pair_entries = (\<lambda>_. []), dv_db_ok = True\<rparr>"

definition no_dlmm_caches :: dlmm_caches where
  "no_dlmm_caches = \<lparr>dc_reserves = Map.empty, dc_metadata = Map.empty, dc_zero_skip = Map.empty,
     dc_lb_pair = Map.empty, dc_pair_rows = [], dc_meta_rows = []\<rparr>"

lemma text_of_key_inj: "text_of_key a = text_of_key b \<longleftrightarrow> a = b"
  using key_of_text_of_key by (metis option.inject)

lemma demo_inner:
  "\<exists>r. fetch_reserves_inner (\<lambda>_ _. 7) key_of_text text_of_key geyser_default (dv_rpc demo_env_two) k (pubkey_lit DLMM_PROGRAM) = Some r
     \<and> dp_lb_pair r = text_of_key k \<and> dp_token_x_mint r = text_of_key 0 \<and> dp_reserve_x r = 0"
proof -
  have w: "warm_data geyser_default x = None" for x by (rule warm_none) (simp add: geyser_default_def)
  have z: "key_at (replicate 152 0) n = 0" if "n \<le> 120" for n
    using that by (simp add: key_at_def field_def key_of_bytes_def)
  show ?thesis
    by (simp add: fetch_reserves_inner_def warm_or_rpc_def w demo_env_two_def z key_of_text_of_key Let_def
        get_multiple_accounts_def amount_at_def del: client_keys)
qed

lemma demo_two_pools:
  "\<exists>r1 r2 c'. fetch_dlmm_by_mints demo_env_two 100 0 (text_of_key 0) ''meme'' 0 no_dlmm_caches = ([r1, r2], c')
     \<and> dp_lb_pair r1 = text_of_key 1 \<and> dp_lb_pair r2 = text_of_key 2"
proof -
  obtain r1 r2 where
    r1: "fetch_reserves_inner (\<lambda>_ _. 7) key_of_text text_of_key geyser_default (dv_rpc demo_env_two) 1 (pubkey_lit DLMM_PROGRAM) = Some r1"
      "dp_lb_pair r1 = text_of_key 1" "dp_token_x_mint r1 = text_of_key 0" "dp_reserve_x r1 = 0"
    and r2: "fetch_reserves_inner (\<lambda>_ _. 7) key_of_text text_of_key geyser_default (dv_rpc demo_env_two) 2 (pubkey_lit DLMM_PROGRAM) = Some r2"
      "dp_lb_pair r2 = text_of_key 2" "dp_token_x_mint r2 = text_of_key 0" "dp_reserve_x r2 = 0"
    using demo_inner [of 1] demo_inner [of 2] by blast
  have "length (text_of_key 0) \<noteq> length ''meme''" by (simp add: text_of_key_def)
  then have ne: "''meme'' \<noteq> text_of_key 0" "text_of_key 0 \<noteq> ''meme''" by metis+
  have gpa: "map fst (discover_lb_pairs_via_gpa key_of_text (dv_gpa demo_env_two (text_of_key 0) ''meme'')) = [1, 2]"
    "discover_lb_pairs_via_gpa key_of_text (dv_gpa demo_env_two ''meme'' (text_of_key 0)) = []"
    using ne by (simp_all add: demo_env_two_def discover_lb_pairs_via_gpa_def List.map_filter_simps gpa_pool_def
        key_of_text_of_key)
  have env: "dv_parse demo_env_two = key_of_text" "dv_show demo_env_two = text_of_key" "dv_pda demo_env_two = (\<lambda>_ _. 7)"
    "dv_geyser demo_env_two = geyser_default" by (simp_all add: demo_env_two_def)
  have news: "new_pairs [] [1, 2] = [1, 2]" by (simp add: new_pairs_def)
  show ?thesis
    using r1 r2 gpa
    by (auto simp: fetch_dlmm_by_mints_def no_dlmm_caches_def cached_metas_def full_discovery_def env news Let_def
        cleanup_stale_lb_pairs_def take_pools_def List.map_filter_simps sol_reserve_def map_add_def
        simp del: client_keys split: prod.splits)
qed

text \<open>Two queries, the second one within a second and with a threshold: it gets the one pool the first has cached.\<close>

theorem fetched_pools_sound_witness:
  "\<exists>rs c' r. fetch_dlmm_by_mints demo_env_two 100 0 (text_of_key 0) ''meme'' 0 no_dlmm_caches = (rs, c') \<and> length rs = 2 \<and>
     fetch_dlmm_by_mints demo_env_two (10 ^ 9) 1 (text_of_key 0) ''meme'' 1 c' = ([r], c') \<and>
     pair_sound (text_of_key 0) {(10 ^ 9, 1), (100, 0)} (cache_key (text_of_key 0) ''meme'') c' \<and>
     (dp_token_x_mint r = text_of_key 0 \<or> dp_token_y_mint r = text_of_key 0)"
proof -
  let ?sol = "text_of_key 0"
  obtain r1 r2 c' where f: "fetch_dlmm_by_mints demo_env_two 100 0 ?sol ''meme'' 0 no_dlmm_caches = ([r1, r2], c')"
    using demo_two_pools by blast
  have start: "pair_sound ?sol {} (cache_key ?sol ''meme'') no_dlmm_caches"
    by (simp add: pair_sound_def no_dlmm_caches_def)
  from fetched_pools_sound [OF this f] have c': "pair_sound ?sol {(100, 0)} (cache_key ?sol ''meme'') c'" by simp
  have "\<forall>e. dc_reserves no_dlmm_caches (cache_key ?sol ''meme'') = Some e \<longrightarrow> \<not> age_secs 100 e < DLMM_RESERVE_TTL_SECS"
    by (simp add: no_dlmm_caches_def)
  from repeated_query_one_pool [OF this f, of "10 ^ 9" demo_env_two 1 1]
  obtain r where r: "fetch_dlmm_by_mints demo_env_two (10 ^ 9) 1 ?sol ''meme'' 1 c' = ([r], c')" by auto
  from fetched_pools_sound [OF c' r] show ?thesis using f r by auto
qed

theorem metadata_restart_witness:
  "map_option mset (load_metadata_cache (dc_meta_rows (save_metadata_cache demo_dead_env demo_known)) Map.empty ''meme:sol'')
     = Some {#demo_pair_meta#}"
proof -
  have "metadata_ok (dv_meta_order demo_dead_env) (dc_metadata demo_known)" "dv_db_ok demo_dead_env"
    by (simp_all add: metadata_ok_def demo_dead_env_def demo_known_def)
  from metadata_restart [OF this refl, of "''meme:sol''"] show ?thesis by (simp add: demo_known_def)
qed

end
