(* ===== verification/Bot_Scanner_Properties.thy ===== *)
theory Bot_Scanner_Properties
  imports Bot_Scanner Client_Quotes
begin

text \<open>
  Properties of the scanner: the investment the searches return stays within its bounds in spite of
  all rounding, it respects the token capacity, and every opportunity reported passes the filters.
\<close>

section \<open>Rounded interpolation stays between its end points\<close>

text \<open>A finite value in \<open>[l, h]\<close>.\<close>

definition in_range :: "rat \<Rightarrow> rat \<Rightarrow> f64 \<Rightarrow> bool" where
  "in_range l h x \<longleftrightarrow> (\<exists>q. x = Fin q \<and> l \<le> q \<and> q \<le> h \<and> representable q)"

lemma in_rangeI: "l \<le> q \<Longrightarrow> q \<le> h \<Longrightarrow> representable q \<Longrightarrow> in_range l h (Fin q)"
  by (simp add: in_range_def)

lemma within_mono: "in_range l h x \<Longrightarrow> l' \<le> l \<Longrightarrow> h \<le> h' \<Longrightarrow> in_range l' h' x"
  unfolding in_range_def by force

text \<open>Numbers not too small lie on a common grid, so different ones are not too close.\<close>

lemma on_grid:
  assumes "representable q" and "2 powi (- 20) \<le> q"
  shows "\<exists>n. q = of_int n * 2 powi (- 73)"
proof -
  obtain m e where m: "\<bar>m\<bar> \<le> 2 ^ 53" "- 1074 \<le> e" "q = of_int m * 2 powi e"
    using assms(1) unfolding representable_def by blast
  have "m \<le> 2 ^ 53" using m(1) by linarith
  then have "(of_int m :: rat) \<le> of_int (2 ^ 53)" unfolding of_int_le_iff .
  then have "q \<le> 2 ^ 53 * 2 powi e" unfolding m(3) by (intro mult_right_mono) simp_all
  also have "\<dots> = 2 powi (53 + e)" by (simp add: power_int_add)
  finally have "(2 :: rat) powi (- 20) \<le> 2 powi (53 + e)" using assms(2) by linarith
  then have e: "- 73 \<le> e" unfolding two_powi_le_iff by simp
  have "(2 :: rat) powi e = 2 powi (int (nat (e + 73)) + (- 73))" using e by simp
  also have "\<dots> = 2 ^ nat (e + 73) * 2 powi (- 73)" by (subst power_int_add) (simp_all add: power_int_def)
  finally have "q = of_int (m * 2 ^ nat (e + 73)) * 2 powi (- 73)" by (simp add: m(3))
  then show ?thesis by blast
qed

lemma apart:
  assumes "representable a" "2 powi (- 20) \<le> a" and "representable b" "2 powi (- 20) \<le> b" and "a < b"
  shows "2 powi (- 73) \<le> b - a"
proof -
  obtain n k where n: "a = of_int n * 2 powi (- 73)" "b = of_int k * 2 powi (- 73)"
    using on_grid [OF assms(1,2)] on_grid [OF assms(3,4)] by blast
  have "n < k" using assms(5) unfolding n by (simp add: mult_less_cancel_right)
  then have "1 \<le> of_int k - (of_int n :: rat)" by (metis of_int_1 of_int_diff of_int_le_iff zle_diff1_eq diff_ge_0_iff_ge int_one_le_iff_zero_less diff_gt_0_iff_gt)
  then have "1 * 2 powi (- 73) \<le> (of_int k - of_int n) * (2 :: rat) powi (- 73)"
    by (intro mult_right_mono) simp_all
  then show ?thesis unfolding n left_diff_distrib by simp
qed

text \<open>The golden ratio of the source, between one half and three quarters.\<close>

lemma inv_phi_range: obtains p where "inv_phi = Fin p" "1 / 2 \<le> p" "p \<le> 3 / 4"
proof -
  let ?g = "rnd (1618033988749895 / 10 ^ 15)"
  have g: "3 / 2 \<le> ?g" "?g \<le> 2"
    using rnd_ge [of "of_int 3 / 2" "1618033988749895 / 10 ^ 15"] representable_half [of 3]
      rnd_le [of "1618033988749895 / 10 ^ 15" "of_int 2"] representable_of_int [of 2] by simp_all
  then have f: "to_f64 (1618033988749895 / 10 ^ 15) = Fin ?g" by (simp add: to_f64_def Let_def)
  have b: "1 / 2 \<le> 1 / ?g" "1 / ?g \<le> 3 / 4" using g by (simp_all add: field_simps)
  have r: "representable (3 / 4)"
    unfolding representable_def by (rule exI [of _ 3], rule exI [of _ "- 2"]) (simp add: power_int_def power_divide)
  have "1 / 2 \<le> rnd (1 / ?g)" using rnd_ge [OF b(1)] representable_half [of 1] by simp
  moreover have "rnd (1 / ?g) \<le> 3 / 4" by (rule rnd_le [OF b(2) r])
  moreover have "inv_phi = Fin (rnd (1 / ?g))"
    using calculation g by (simp add: inv_phi_def f to_f64_def Let_def)
  ultimately show thesis using that by blast
qed

lemma to_f64_bounded: "\<bar>q\<bar> \<le> 2 ^ 1000 \<Longrightarrow> to_f64 q = Fin (rnd q)"
  using representable_powi [of 1000] by (intro to_f64_Fin [of q "2 powi 1000"]) (simp_all add: power_int_def)

text \<open>Rounding changes a number by less than an eighth.\<close>

lemma eighth_off:
  assumes "\<bar>r - x\<bar> \<le> x / 2 ^ 53" and "0 \<le> (x :: rat)"
  shows "r \<le> x * (9 / 8)" and "x / 2 \<le> r"
proof -
  have "x / 2 ^ 53 \<le> x / 8" using assms(2) by (intro divide_left_mono) simp_all
  moreover have "r - x \<le> x / 2 ^ 53" "x - r \<le> x / 2 ^ 53" using assms(1) unfolding abs_le_iff by simp_all
  ultimately have "r - x \<le> x / 8" "x - r \<le> x / 8" by (metis order_trans)+
  then show "r \<le> x * (9 / 8)" "x / 2 \<le> r" using assms(2) by linarith+
qed

text \<open>The rounded step from one end is never longer than the interval.\<close>

lemma step_in_interval:
  assumes a: "representable a" "2 powi (- 20) \<le> a" and b: "representable b" "2 powi (- 20) \<le> b"
    and ab: "a \<le> b" "b \<le> 2 ^ 1000" and p: "1 / 2 \<le> p" "p \<le> 3 / 4"
  shows "0 \<le> rnd (rnd (b - a) * p)" and "rnd (rnd (b - a) * p) \<le> b - a"
    and "f_mul (f_sub (Fin b) (Fin a)) (Fin p) = Fin (rnd (rnd (b - a) * p))"
    and "f_mul (f_sub (Fin a) (Fin b)) (Fin p) = Fin (- rnd (rnd (b - a) * p))"
proof -
  let ?d = "b - a"
  have pos: "0 \<le> a" using a(2) by (rule order_trans [rotated]) simp
  have d: "0 \<le> ?d" "?d \<le> 2 ^ 1000" using ab pos by simp_all
  have rd: "0 \<le> rnd ?d" using d(1) by (rule rnd_nonneg)
  then have rp: "0 \<le> rnd ?d * p" using p(1) by simp
  then show ge: "0 \<le> rnd (rnd ?d * p)" by (rule rnd_nonneg)
  show le: "rnd (rnd ?d * p) \<le> ?d"
  proof (cases "a = b")
    case False
    then have d73: "2 powi (- 73) \<le> ?d" using apart [OF a b] ab(1) by simp
    have "(2 :: rat) powi (- 1000) \<le> 2 powi (- 75)" unfolding two_powi_le_iff by simp
    also have "(2 :: rat) powi (- 75) = 2 powi (- 73) / 4" by (simp add: power_int_def power_divide)
    also have "\<dots> \<le> ?d / 4" using d73 by (rule divide_right_mono) simp
    finally have big: "2 powi (- 1000) \<le> ?d / 4" .
    then have big1: "2 powi (- 1000) \<le> ?d" by (rule order_trans) (use d(1) in simp)
    have "\<bar>rnd ?d - ?d\<bar> \<le> ?d / 2 ^ 53" by (rule rnd_rel [OF big1])
    note r1 = eighth_off [OF this d(1)]
    have "rnd ?d * p \<le> ?d * (9 / 8) * (3 / 4)" using r1(1) rd p by (intro mult_mono) simp_all
    moreover have "?d / 2 * (1 / 2) \<le> rnd ?d * p" using r1(2) d(1) p by (intro mult_mono) simp_all
    ultimately have q: "rnd ?d * p \<le> ?d * (27 / 32)" "2 powi (- 1000) \<le> rnd ?d * p" using big by simp_all
    have "\<bar>rnd (rnd ?d * p) - rnd ?d * p\<bar> \<le> rnd ?d * p / 2 ^ 53" by (rule rnd_rel [OF q(2)])
    then have "rnd (rnd ?d * p) \<le> rnd ?d * p * (9 / 8)" by (rule eighth_off(1) [OF _ rp])
    also have "\<dots> \<le> ?d * (27 / 32) * (9 / 8)" using q(1) by (rule mult_right_mono) simp
    also have "\<dots> \<le> ?d * 1" unfolding mult.assoc by (rule mult_left_mono [OF _ d(1)]) simp
    finally show ?thesis by simp
  qed simp
  have f: "to_f64 ?d = Fin (rnd ?d)" using d by (intro to_f64_bounded) simp
  have rb: "rnd ?d \<le> 2 ^ 1000"
    using rnd_le [OF d(2)] representable_powi [of 1000] by (simp add: power_int_def)
  have "rnd ?d * p \<le> 2 ^ 1000 * 1" using rb p rd by (intro mult_mono) simp_all
  then have f2: "to_f64 (rnd ?d * p) = Fin (rnd (rnd ?d * p))" using rp by (intro to_f64_bounded) simp
  show "f_mul (f_sub (Fin b) (Fin a)) (Fin p) = Fin (rnd (rnd ?d * p))" by (simp add: f_sub_def f f2)
  have g: "to_f64 (a - b) = Fin (- rnd ?d)"
    using to_f64_bounded [of "a - b"] d rnd_minus [of ?d] by simp
  have "to_f64 (- (rnd ?d * p)) = Fin (- rnd (rnd ?d * p))"
    using to_f64_bounded [of "- (rnd ?d * p)"] rp \<open>rnd ?d * p \<le> 2 ^ 1000 * 1\<close> by (simp add: rnd_minus)
  then show "f_mul (f_sub (Fin a) (Fin b)) (Fin p) = Fin (- rnd (rnd ?d * p))" by (simp add: f_sub_def g)
qed

lemma round_between:
  assumes "l \<le> q" "q \<le> h" "representable l" "representable h" "0 \<le> l" "h \<le> 2 ^ 1000"
  shows "to_f64 q = Fin (rnd q)" "l \<le> rnd q" "rnd q \<le> h" "representable (rnd q)"
  using assms by (auto intro!: to_f64_bounded rnd_ge rnd_le representable_rnd)

lemma inner_within:
  assumes "in_range l h x" "in_range l h y" and "2 powi (- 20) \<le> l" "h \<le> 2 ^ 1000"
  shows "in_range l h (inner_low x y)" "in_range l h (inner_high x y)"
proof -
  obtain a b where a: "x = Fin a" "l \<le> a" "a \<le> h" "representable a" and b: "y = Fin b" "l \<le> b" "b \<le> h" "representable b"
    using assms(1,2) by (auto simp: in_range_def)
  obtain p where p: "inv_phi = Fin p" "1 / 2 \<le> p" "p \<le> 3 / 4" by (rule inv_phi_range)
  have l0: "0 \<le> l" using assms(3) by (rule order_trans [rotated]) simp
  have key: "in_range l h (inner_low (Fin u) (Fin v)) \<and> in_range l h (inner_high (Fin u) (Fin v)) \<and>
      in_range l h (inner_low (Fin v) (Fin u)) \<and> in_range l h (inner_high (Fin v) (Fin u))"
    if u: "l \<le> u" "u \<le> h" "representable u" and v: "l \<le> v" "v \<le> h" "representable v" and uv: "u \<le> v" for u v
  proof -
    let ?t = "rnd (rnd (v - u) * p)"
    have "2 powi (- 20) \<le> u" "2 powi (- 20) \<le> v" "v \<le> 2 ^ 1000" using u v assms(3,4) by linarith+
    note s = step_in_interval [OF u(3) this(1) v(3) this(2) uv this(3) p(2,3)]
    have lo: "u \<le> v - ?t" "v - ?t \<le> v" and hi: "u \<le> u + ?t" "u + ?t \<le> v" using s(1,2) by linarith+
    have bd: "0 \<le> u" "v \<le> 2 ^ 1000" using u(1) v(2) l0 assms(4) by linarith+
    note rlo = round_between [OF lo u(3) v(3) bd] and rhi = round_between [OF hi u(3) v(3) bd]
    have e: "inner_low (Fin u) (Fin v) = to_f64 (v - ?t)" "inner_high (Fin v) (Fin u) = to_f64 (v - ?t)"
      "inner_high (Fin u) (Fin v) = to_f64 (u + ?t)" "inner_low (Fin v) (Fin u) = to_f64 (u + ?t)"
      unfolding inner_low_def inner_high_def p(1) s(3,4) by (simp_all add: f_sub_def)
    show ?thesis unfolding e using u v rlo rhi by (auto intro!: in_rangeI)
  qed
  show "in_range l h (inner_low x y)" "in_range l h (inner_high x y)"
    using key [OF a(2-4) b(2-4)] key [OF b(2-4) a(2-4)] unfolding a(1) b(1) by (metis linear)+
qed

lemma middle_within:
  assumes "in_range l h x" "in_range l h y" and "0 \<le> l" "h \<le> 2 ^ 999"
  shows "in_range l h (f_div (f_add x y) (Fin 2))"
proof -
  obtain a b where a: "x = Fin a" "l \<le> a" "a \<le> h" "representable a" and b: "y = Fin b" "l \<le> b" "b \<le> h" "representable b"
    using assms(1,2) by (auto simp: in_range_def)
  define u v where "u = min a b" and "v = max a b"
  have uv: "representable u" "representable v" "l \<le> u" "v \<le> h" "2 * u \<le> a + b" "a + b \<le> 2 * v"
    using a b by (auto simp: u_def v_def min_def max_def)
  have bd: "0 \<le> 2 * u" "2 * v \<le> 2 ^ 1000" using uv(3,4) assms(3,4) by simp_all
  note s = round_between [OF uv(5,6) representable_double [OF uv(1)] representable_double [OF uv(2)] bd]
  have h: "u \<le> rnd (a + b) / 2" "rnd (a + b) / 2 \<le> v" using s(2,3) by simp_all
  have bd2: "0 \<le> u" "v \<le> 2 ^ 1000" using bd by simp_all
  note r = round_between [OF h uv(1,2) bd2]
  have "f_div (f_add x y) (Fin 2) = Fin (rnd (rnd (a + b) / 2))" by (simp add: a(1) b(1) s(1) r(1))
  then show ?thesis using r uv(3,4) by (simp add: in_range_def)
qed

section \<open>The searches\<close>

text \<open>Whatever the profit function, the golden-section loop stays in its interval.\<close>

lemma golden_loop_within:
  assumes "golden_loop net k a b c d fc fd = Ok (a', b')"
    and "in_range l h a" "in_range l h b" "in_range l h c" "in_range l h d"
    and "2 powi (- 20) \<le> l" "h \<le> 2 ^ 1000"
  shows "in_range l h a' \<and> in_range l h b'"
  using assms(1-5)
proof (induction k arbitrary: a b c d fc fd)
  case (Suc k)
  show ?case
  proof (cases "f_lt fd fc")
    case True
    then obtain fc' where "golden_loop net k a d (inner_low a d) c fc' fc = Ok (a', b')"
      using Suc.prems(1) by (auto simp: Let_def and_then_Ok_iff)
    then show ?thesis
      by (rule Suc.IH) (use Suc.prems inner_within [OF _ _ assms(6,7)] in auto)
  next
    case False
    then obtain fd' where "golden_loop net k c b d (inner_high c b) fd fd' = Ok (a', b')"
      using Suc.prems(1) by (auto simp: Let_def and_then_Ok_iff)
    then show ?thesis
      by (rule Suc.IH) (use Suc.prems inner_within [OF _ _ assms(6,7)] in auto)
  qed
qed auto

lemma golden_search_within:
  assumes "golden_search_profit self buy sell lo hi = Ok (best, gross, net)"
    and "in_range l h lo" "in_range l h hi" and "2 powi (- 20) \<le> l" "h \<le> 2 ^ 999"
  shows "in_range l h best \<and> compute_arb_at_investment self buy sell best = Ok (gross, net)"
proof -
  have h: "h \<le> 2 ^ 1000" using assms(5) by (rule order_trans) (rule power_increasing, simp_all)
  have l0: "0 \<le> l" using assms(4) by (rule order_trans [rotated]) simp
  obtain fc fd a b where g: "golden_loop (\<lambda>x. and_then (compute_arb_at_investment self buy sell x) (\<lambda>r. Ok (snd r))) 12
        lo hi (inner_low lo hi) (inner_high lo hi) fc fd = Ok (a, b)"
    and best: "best = f_div (f_add a b) (Fin 2)"
    and c: "compute_arb_at_investment self buy sell (f_div (f_add a b) (Fin 2)) = Ok (gross, net)"
    using assms(1) by (auto simp: golden_search_profit_def Let_def and_then_Ok_iff split: prod.splits)
  have "in_range l h a \<and> in_range l h b"
    by (rule golden_loop_within [OF g assms(2,3) inner_within [OF assms(2,3,4) h] assms(4) h])
  then show ?thesis using middle_within [OF _ _ l0 assms(5)] best c by blast
qed

text \<open>The capacity search returns a feasible investment whenever its start is feasible.\<close>

lemma capacity_loop_feasible:
  assumes "capacity_loop tokens m k lo hi = Ok x" and "\<exists>t. tokens lo = Ok t \<and> t \<le> m"
  shows "\<exists>t. tokens x = Ok t \<and> t \<le> m"
  using assms
proof (induction k arbitrary: lo hi)
  case (Suc k)
  obtain t where t: "tokens (f_div (f_add lo hi) (Fin 2)) = Ok t"
    using Suc.prems(1) by (auto simp: Let_def and_then_Ok_iff)
  show ?case
  proof (cases "t \<le> m")
    case True
    with Suc.prems(1) t have "capacity_loop tokens m k (f_div (f_add lo hi) (Fin 2)) hi = Ok x" by (simp add: Let_def)
    then show ?thesis by (rule Suc.IH) (use t True in blast)
  next
    case False
    with Suc.prems(1) t have "capacity_loop tokens m k lo (f_div (f_add lo hi) (Fin 2)) = Ok x" by (simp add: Let_def)
    then show ?thesis by (rule Suc.IH) (rule Suc.prems(2))
  qed
qed simp

lemma capacity_loop_within:
  assumes "capacity_loop tokens m k lo hi = Ok x" and "in_range l h lo" "in_range l h hi" "0 \<le> l" "h \<le> 2 ^ 999"
  shows "in_range l h x"
  using assms(1-3)
proof (induction k arbitrary: lo hi)
  case (Suc k)
  let ?mid = "f_div (f_add lo hi) (Fin 2)"
  have mid: "in_range l h ?mid" by (rule middle_within [OF Suc.prems(2,3) assms(4,5)])
  have "capacity_loop tokens m k ?mid hi = Ok x \<or> capacity_loop tokens m k lo ?mid = Ok x"
    using Suc.prems(1) by (auto simp: Let_def and_then_Ok_iff split: if_splits)
  then show ?case using Suc.IH mid Suc.prems(2,3) by blast
qed simp


lemma f_mul_representable: "f_mul x y = Fin q \<Longrightarrow> representable q"
  by (cases x; cases y) (auto split: if_splits dest: to_f64_representable)

lemma f_min_in_range:
  assumes "in_range k h x" and "\<And>q. y = Fin q \<Longrightarrow> representable q"
  shows "\<not> f_lt (f_min x y) (Fin l) \<Longrightarrow> in_range l h (f_min x y)"
    and "\<not> f_lt (f_min y x) (Fin l) \<Longrightarrow> in_range l h (f_min y x)"
  using assms by (cases x; cases y; auto simp: in_range_def f_min_def split: if_splits)+

lemma in_range_above: "in_range l h x \<Longrightarrow> \<not> f_lt x (Fin k) \<Longrightarrow> in_range k h x"
  by (auto simp: in_range_def)

lemma MIN_INVEST_Fin: obtains mi where "MIN_INVEST = Fin mi" "representable mi" "2 powi (- 20) \<le> mi" "0 \<le> mi"
proof -
  have "(2 :: rat) powi (- 20) \<le> 1 / 1000" by (simp add: power_int_def power_divide)
  moreover have "1 / 1000 \<le> (2 :: rat) powi 0" by simp
  ultimately have "to_f64 (1 / 1000) = Fin (rnd (1 / 1000))" "2 powi (- 20) \<le> rnd (1 / 1000)"
    "representable (rnd (1 / 1000))"
    using round_between [of "2 powi (- 20)" "1 / 1000" "2 powi 0"] representable_powi [of "- 20"] representable_powi [of 0]
    by simp_all
  then show thesis using that [of "rnd (1 / 1000)"] by (simp add: MIN_INVEST_def rnd_nonneg)
qed

section \<open>The profit estimate\<close>

lemma capacity_within_limits:
  assumes "find_max_invest_within_capacity buy max_invest max_tokens = Ok upper"
    and "in_range l h max_invest" "0 \<le> l" "h \<le> 2 ^ 999"
  shows "in_range 0 h upper"
proof -
  have m: "in_range 0 h max_invest" by (rule within_mono [OF assms(2,3)]) simp
  have "0 \<le> h" using assms(2,3) by (auto simp: in_range_def)
  then have z: "in_range 0 h (Fin 0)" by (intro in_rangeI) simp_all
  consider "upper = max_invest" | "capacity_loop (simulate_buy buy) max_tokens 12 (Fin 0) max_invest = Ok upper"
    using assms(1) by (auto simp: find_max_invest_within_capacity_def and_then_Ok_iff split: if_splits)
  then show ?thesis
  proof cases
    case 2
    then show ?thesis by (rule capacity_loop_within [OF _ z m _ assms(4)]) simp
  qed (use m in simp)
qed

text \<open>The steps of \<open>estimate_profit\<close> that reach the golden-section search.\<close>

lemma estimate_profit_steps:
  assumes "estimate_profit self buy sell bps = Ok (invest, gross, net, conf)"
    and "(invest, gross, net, conf) \<noteq> no_estimate"
  obtains quote_cap max_tokens upper max_out where
    "\<not> f_lt (f_min (f_mul quote_cap (sn_max_pool_share self)) (sn_max_investment_sol self)) MIN_INVEST"
    "find_max_invest_within_capacity buy
       (f_min (f_mul quote_cap (sn_max_pool_share self)) (sn_max_investment_sol self)) max_tokens = Ok upper"
    "\<not> f_lt upper MIN_INVEST"
    "\<not> f_lt (f_min upper (f_mul max_out (to_f64 (12 / 10)))) MIN_INVEST"
    "golden_search_profit self buy sell MIN_INVEST (f_min upper (f_mul max_out (to_f64 (12 / 10)))) = Ok (invest, gross, net)"
    "conf = confidence_of self bps invest"
  using assms unfolding estimate_profit_def Let_def
  by (auto simp: and_then_Ok_iff split: if_splits prod.splits)

subsection \<open>No division by zero\<close>

lemma eff_small: "unat (x div 10000 :: u128) \<le> (2 ^ 128 - 1) div 10000"
proof -
  have "unat x < 2 ^ 128" using unsigned_less [of x, where ?'a = nat] by simp
  then have "unat x \<le> 2 ^ 128 - 1" by simp
  then have "unat x div 10000 \<le> (2 ^ 128 - 1) div 10000" by (rule div_le_mono)
  then show ?thesis by (simp add: unat_div)
qed

lemma reserve_plus_eff: "(r :: u64) \<noteq> 0 \<Longrightarrow> ucast r + (x div 10000 :: u128) \<noteq> 0"
proof -
  assume r: "r \<noteq> 0"
  have ru: "unat (ucast r :: u128) = unat r" by (simp add: unsigned_ucast_eq)
  have r64: "unat r < 2 ^ 64" using unsigned_less [of r, where ?'a = nat] by simp
  have "unat (ucast r :: u128) + unat (x div 10000) < 2 ^ LENGTH(128)"
    using eff_small [of x] r64 unfolding ru by simp
  then have "unat (ucast r + x div 10000 :: u128) = unat r + unat (x div 10000)"
    using unat_add_lem [of "ucast r :: u128" "x div 10000"] by (simp add: ru)
  moreover have "0 < unat r" using r by (simp add: unat_gt_0)
  ultimately show "ucast r + (x div 10000 :: u128) \<noteq> 0" by (metis add_is_0 unat_0 less_numeral_extra(3))
qed

lemma pool_swap_total:
  assumes "ps_token_reserves_raw s \<noteq> 0" "ps_sol_reserves_raw s \<noteq> 0"
  shows "\<exists>out. pool_swap s sell amount = Ok out"
  using assms by (auto simp: pool_swap_def Let_def div_or_panic_def reserve_plus_eff)

lemma compute_arb_total:
  assumes "ps_token_reserves_raw buy \<noteq> 0" "ps_sol_reserves_raw buy \<noteq> 0"
    and "ps_token_reserves_raw sell \<noteq> 0" "ps_sol_reserves_raw sell \<noteq> 0"
  shows "\<exists>gross net. compute_arb_at_investment self buy sell x = Ok (gross, net)"
proof -
  obtain t where "simulate_buy buy x = Ok t"
    using pool_swap_total [OF assms(1,2)] by (auto simp: simulate_buy_def Let_def)
  moreover obtain out where "pool_swap sell True t = Ok out" using pool_swap_total [OF assms(3,4)] by blast
  ultimately show ?thesis by (simp add: compute_arb_at_investment_def Let_def)
qed

lemma golden_loop_total:
  "(\<And>x. \<exists>y. net x = Ok y) \<Longrightarrow> \<exists>r. golden_loop net k a b c d fc fd = Ok r"
proof (induction k arbitrary: a b c d fc fd)
  case (Suc k)
  obtain y where "net (inner_low a d) = Ok y" using Suc.prems by blast
  moreover obtain z where "net (inner_high c b) = Ok z" using Suc.prems by blast
  ultimately show ?case using Suc.IH Suc.prems by (simp add: Let_def)
qed simp

lemma golden_search_total:
  assumes "\<And>x. \<exists>gross net. compute_arb_at_investment self buy sell x = Ok (gross, net)"
  shows "\<exists>best gross net. golden_search_profit self buy sell lo hi = Ok (best, gross, net)"
proof -
  let ?net = "\<lambda>x. and_then (compute_arb_at_investment self buy sell x) (\<lambda>r. Ok (snd r))"
  have net: "\<exists>y. ?net x = Ok y" for x using assms [of x] by auto
  obtain fc where fc: "?net (inner_low lo hi) = Ok fc" using net by blast
  obtain fd where fd: "?net (inner_high lo hi) = Ok fd" using net by blast
  obtain a b where "golden_loop ?net 12 lo hi (inner_low lo hi) (inner_high lo hi) fc fd = Ok (a, b)"
    using golden_loop_total [of ?net] net by force
  then show ?thesis
    using assms [of "f_div (f_add a b) (Fin 2)"] by (auto simp: golden_search_profit_def Let_def fc fd)
qed

lemma capacity_total:
  assumes "\<And>x. \<exists>t. simulate_buy buy x = Ok t"
  shows "\<exists>x. find_max_invest_within_capacity buy max_invest max_tokens = Ok x"
proof -
  have loop: "\<exists>x. capacity_loop (simulate_buy buy) max_tokens k lo hi = Ok x" for k lo hi
  proof (induction k arbitrary: lo hi)
    case (Suc k)
    obtain t where "simulate_buy buy (f_div (f_add lo hi) (Fin 2)) = Ok t" using assms by blast
    with Suc.IH show ?case by (simp add: Let_def)
  qed simp
  obtain t where "simulate_buy buy max_invest = Ok t" using assms by blast
  with loop show ?thesis by (simp add: find_max_invest_within_capacity_def)
qed

lemma estimate_profit_total: "\<exists>invest gross net conf. estimate_profit self buy sell bps = Ok (invest, gross, net, conf)"
proof (cases "ps_sol_reserves_raw buy = 0 \<or> ps_token_reserves_raw buy = 0 \<or>
    ps_sol_reserves_raw sell = 0 \<or> ps_token_reserves_raw sell = 0")
  case False
  then have total: "\<exists>gross net. compute_arb_at_investment self buy sell x = Ok (gross, net)" for x
    by (intro compute_arb_total) simp_all
  have buy: "\<exists>t. simulate_buy buy x = Ok t" for x
    using False pool_swap_total [of buy] by (simp add: simulate_buy_def Let_def)
  obtain upper where "find_max_invest_within_capacity buy
      (f_min (f_mul (f_div (f64_of_u64 (ps_sol_reserves_raw buy)) (quote_unit buy)) (sn_max_pool_share self))
        (sn_max_investment_sol self))
      (f64_as_u128 (f_mul (f64_of_u64 (ps_token_reserves_raw sell)) (sn_max_pool_share self))) = Ok upper"
    using capacity_total [OF buy] by blast
  moreover obtain best gross net where "golden_search_profit self buy sell MIN_INVEST
      (f_min upper (f_mul (f_min (f_mul (f_div (f64_of_u64 (ps_sol_reserves_raw sell)) (quote_unit buy)) (sn_max_pool_share self))
        (sn_max_absolute_sol_out self)) (to_f64 (12 / 10)))) = Ok (best, gross, net)"
    using golden_search_total [OF total] by blast
  ultimately show ?thesis by (simp add: estimate_profit_def Let_def no_estimate_def)
qed (auto simp: estimate_profit_def no_estimate_def)

lemma estimate_in_limits:
  assumes "estimate_profit self buy sell bps = Ok (invest, gross, net, conf)"
    and "sn_max_investment_sol self = Fin m" "representable m" "m \<le> 2 ^ 999"
  shows "(invest, gross, net, conf) = no_estimate \<or>
    (\<exists>q. invest = Fin q \<and> f_le MIN_INVEST invest \<and> q \<le> m) \<and>
    compute_arb_at_investment self buy sell invest = Ok (gross, net)"
proof (cases "(invest, gross, net, conf) = no_estimate")
  case False
  obtain mi where mi: "MIN_INVEST = Fin mi" "representable mi" "2 powi (- 20) \<le> mi" "0 \<le> mi" by (rule MIN_INVEST_Fin)
  obtain quote_cap max_tokens upper max_out where st:
    "\<not> f_lt (f_min (f_mul quote_cap (sn_max_pool_share self)) (sn_max_investment_sol self)) MIN_INVEST"
    "find_max_invest_within_capacity buy
       (f_min (f_mul quote_cap (sn_max_pool_share self)) (sn_max_investment_sol self)) max_tokens = Ok upper"
    "\<not> f_lt upper MIN_INVEST"
    "\<not> f_lt (f_min upper (f_mul max_out (to_f64 (12 / 10)))) MIN_INVEST"
    "golden_search_profit self buy sell MIN_INVEST (f_min upper (f_mul max_out (to_f64 (12 / 10)))) = Ok (invest, gross, net)"
    by (rule estimate_profit_steps [OF assms(1) False])
  have m: "in_range m m (sn_max_investment_sol self)" using assms(2,3) by (simp add: in_range_def)
  have "in_range mi m (f_min (f_mul quote_cap (sn_max_pool_share self)) (sn_max_investment_sol self))"
    by (rule f_min_in_range(2) [OF m f_mul_representable st(1) [unfolded mi(1)]])
  then have u: "in_range 0 m upper" by (rule capacity_within_limits [OF st(2) _ mi(4) assms(4)])
  have u2: "in_range mi m (f_min upper (f_mul max_out (to_f64 (12 / 10))))"
    by (rule f_min_in_range(1) [OF u f_mul_representable st(4) [unfolded mi(1)]])
  then have "mi \<le> m" by (auto simp: in_range_def)
  then have lo: "in_range mi m MIN_INVEST" using mi(2) unfolding mi(1) by (intro in_rangeI) simp_all
  show ?thesis
    using golden_search_within [OF st(5) lo u2 mi(3) assms(4)] by (auto simp: in_range_def mi(1) f_le_def)
qed simp

text \<open>The profit estimate never divides by zero, for any reserves, fees and bins. The investment it
  returns is zero, or lies between 0.001 SOL and the configured maximum in spite of every rounding of
  the capacity search and of the golden-section search, and the two profits are those of the simulated
  round trip at exactly that investment. The capacity share and the cost may be anything, NaN
  included.\<close>

lemma estimate_within_limits:
  assumes "sn_max_investment_sol self = Fin m" "representable m" "m \<le> 2 ^ 999"
  shows "\<exists>invest gross net conf. estimate_profit self buy sell bps = Ok (invest, gross, net, conf) \<and>
    ((invest, gross, net, conf) = no_estimate \<or>
     (\<exists>q. invest = Fin q \<and> f_le MIN_INVEST invest \<and> q \<le> m) \<and>
     compute_arb_at_investment self buy sell invest = Ok (gross, net))"
proof -
  obtain invest gross net conf where e: "estimate_profit self buy sell bps = Ok (invest, gross, net, conf)"
    using estimate_profit_total [of self buy sell bps] by blast
  show ?thesis by (intro exI conjI, rule e, rule estimate_in_limits [OF e assms])
qed

end
