(* ===== verification/Bot_Opportunities.thy ===== *)
theory Bot_Opportunities
  imports Bot_Scanner_Properties
begin

text \<open>
  The opportunities the scanner reports: what every one of them satisfies, and the order of the list.
\<close>

section \<open>The opportunities\<close>

text \<open>The best snapshots have finite prices.\<close>

lemma fold_pick_mem:
  assumes "\<And>y b. pick y b = y \<or> pick y b = b"
  shows "fold pick xs x \<in> insert x (set xs)"
proof (induction xs arbitrary: x)
  case (Cons y xs)
  then show ?case using assms [of y x] by (metis fold_simps(2) insert_iff list.simps(15))
qed simp

lemma best_snapshot_tradable:
  "best_buy_snapshot vp = Some s \<Longrightarrow> s \<in> set (tradable_snapshots vp)"
  "best_sell_snapshot vp = Some s \<Longrightarrow> s \<in> set (tradable_snapshots vp)"
proof -
  have sub: "min_by_price f xs = Some x \<Longrightarrow> x \<in> set xs" "max_by_price f xs = Some x \<Longrightarrow> x \<in> set xs"
    for f :: "price_snapshot \<Rightarrow> f64" and xs x
  proof -
    have lo: "fold (\<lambda>y b. if f_lt (f y) (f b) then y else b) ys y \<in> insert y (set ys)" for y ys
      by (rule fold_pick_mem) simp
    have hi: "fold (\<lambda>y b. if f_lt (f y) (f b) then b else y) ys y \<in> insert y (set ys)" for y ys
      by (rule fold_pick_mem) simp
    show "min_by_price f xs = Some x \<Longrightarrow> x \<in> set xs" "max_by_price f xs = Some x \<Longrightarrow> x \<in> set xs"
      using lo hi by (cases xs; auto)+
  qed
  show "best_buy_snapshot vp = Some s \<Longrightarrow> s \<in> set (tradable_snapshots vp)"
    "best_sell_snapshot vp = Some s \<Longrightarrow> s \<in> set (tradable_snapshots vp)"
    unfolding best_buy_snapshot_def best_sell_snapshot_def by (erule sub)+
qed

lemma tradable_price: "s \<in> set (tradable_snapshots vp) \<Longrightarrow> \<exists>q. ps_sol_per_token s = Fin q"
  by (cases "ps_sol_per_token s") (auto simp: tradable_snapshots_def)

lemma candidate_pairD:
  assumes "((bv, bs), (sv, ss)) \<in> set (candidate_pairs self vps)"
  shows "bv \<noteq> sv" "bv \<in> set (sn_enabled_venues self)" "sv \<in> set (sn_enabled_venues self)"
    "Option.bind (find_venue vps bv) best_buy_snapshot = Some bs"
    "Option.bind (find_venue vps sv) best_sell_snapshot = Some ss"
  using assms unfolding candidate_pairs_def buy_candidates_def sell_candidates_def map_filter_def
  by (auto simp: bind_eq_Some_conv split: if_splits)

text \<open>Profits are never NaN when the investment and the configured cost are numbers.\<close>

lemma to_f64_not_NaN [simp]: "to_f64 q \<noteq> NaN"
  by (simp add: to_f64_def Let_def)

lemma quote_unit_pos: "quote_unit s = Inf True \<or> (\<exists>u. quote_unit s = Fin u \<and> 1 \<le> u)"
proof -
  let ?n = "unat (ps_quote_decimals s)"
  have "(1 :: rat) \<le> 10 ^ ?n" by simp
  then have "1 \<le> rnd (10 ^ ?n)" using rnd_ge [of "of_int 1" "10 ^ ?n"] representable_of_int [of 1] by simp
  then show ?thesis by (auto simp: quote_unit_def pow10_def to_f64_def Let_def power_int_def)
qed

lemma f64_of_nat_not_NaN [simp]: "f64_of_nat n \<noteq> NaN"
  by (simp add: f64_of_nat_def)

lemma f64_of_nat_not_neg: "f64_of_nat n \<noteq> Inf False"
  using rnd_nonneg [of "of_nat n"] by (auto simp: f64_of_nat_def to_f64_def Let_def)

lemma div_unit_not_NaN: "f_div (f64_of_u128 w) (quote_unit s) = NaN \<Longrightarrow> \<exists>b. f64_of_u128 w = Inf b"
  using quote_unit_pos [of s] by (cases "f64_of_u128 w") (auto simp: f64_of_u128_def)

lemma f64_of_u128_Fin: "\<exists>q. f64_of_u128 w = Fin q"
proof -
  have "unat w < 2 ^ 128" using unsigned_less [of w, where ?'a = nat] by simp
  then have "(of_nat (unat w) :: rat) < of_nat (2 ^ 128)" unfolding of_nat_less_iff .
  moreover have "(of_nat (2 ^ 128) :: rat) \<le> 2 ^ 1000" unfolding of_nat_power of_nat_numeral by (rule power_increasing) simp_all
  moreover have "0 \<le> (of_nat (unat w) :: rat)" by (rule of_nat_0_le_iff)
  ultimately have "\<bar>of_nat (unat w)\<bar> \<le> (2 :: rat) ^ 1000" unfolding abs_le_iff by linarith
  from to_f64_bounded [OF this] show ?thesis by (simp add: f64_of_u128_def f64_of_nat_def)
qed

lemma compute_arb_number:
  assumes "compute_arb_at_investment self buy sell (Fin q) = Ok (gross, net)" and "sn_cu_cost_sol self = Fin c"
  shows "gross \<noteq> NaN" "net \<noteq> NaN"
proof -
  obtain got where g: "gross = f_sub (f_div (f64_of_u128 got) (quote_unit buy)) (Fin q)" and n: "net = f_sub gross (Fin c)"
    using assms by (auto simp: compute_arb_at_investment_def Let_def and_then_Ok_iff)
  have "f_div (f64_of_u128 got) (quote_unit buy) \<noteq> NaN" using div_unit_not_NaN [of got buy] f64_of_u128_Fin [of got] by auto
  then show "gross \<noteq> NaN" unfolding g by (cases "f_div (f64_of_u128 got) (quote_unit buy)") (simp_all add: f_sub_def)
  then show "net \<noteq> NaN" unfolding n by (cases gross) (simp_all add: f_sub_def)
qed

subsection \<open>Soundness of one candidate\<close>

text \<open>What the report of an opportunity promises, in terms of the snapshots it was made from.\<close>

definition sound_opportunity :: "scanner \<Rightarrow> venue_price list \<Rightarrow> opportunity \<Rightarrow> bool" where
  "sound_opportunity self vps o' \<longleftrightarrow>
     (\<exists>bs ss.
       op_buy_venue o' \<noteq> op_sell_venue o' \<and>
       {op_buy_venue o', op_sell_venue o'} \<subseteq> set (sn_enabled_venues self) \<and>
       Option.bind (find_venue vps (op_buy_venue o')) best_buy_snapshot = Some bs \<and>
       Option.bind (find_venue vps (op_sell_venue o')) best_sell_snapshot = Some ss \<and>
       op_buy_price_sol o' = ps_sol_per_token bs \<and> op_sell_price_sol o' = ps_sol_per_token ss \<and>
       f_lt (op_buy_price_sol o') (op_sell_price_sol o') \<and>
       sn_min_price_diff_bps self \<le> op_price_diff_bps o' \<and> op_price_diff_bps o' \<le> 5000 \<and>
       f_le MIN_INVEST (op_investment_sol o') \<and> f_le (op_investment_sol o') (sn_max_investment_sol self) \<and>
       compute_arb_at_investment self bs ss (op_investment_sol o') =
         Ok (op_expected_profit_sol o', op_net_profit_sol o') \<and>
       (let safe = f_mul (op_net_profit_sol o') (sn_profit_safety_factor self) in
        f_lt (Fin 0) safe \<and> f_le (sn_min_profit_threshold_sol self) safe))"

text \<open>A configuration of numbers: no NaN among the limits.\<close>

definition numeric_limits :: "scanner \<Rightarrow> bool" where
  "numeric_limits self \<longleftrightarrow>
     (\<exists>m c f t. sn_max_investment_sol self = Fin m \<and> representable m \<and> m \<le> 2 ^ 999 \<and>
        sn_cu_cost_sol self = Fin c \<and> sn_profit_safety_factor self = Fin f \<and> 0 < f \<and>
        sn_min_profit_threshold_sol self = Fin t)"

lemma try_pair_Some:
  assumes "try_pair self fetch_bins warm mint source slot bv bs sv ss = Ok (Some o')"
  obtains investment gross net conf where
    "estimate_profit self bs ss (op_price_diff_bps o') = Ok (investment, gross, net, conf)"
    "op_buy_venue o' = bv" "op_sell_venue o' = sv"
    "op_buy_price_sol o' = ps_sol_per_token bs" "op_sell_price_sol o' = ps_sol_per_token ss"
    "op_investment_sol o' = investment" "op_expected_profit_sol o' = gross" "op_net_profit_sol o' = net"
    "\<not> f_le (ps_sol_per_token ss) (ps_sol_per_token bs)"
    "sn_min_price_diff_bps self \<le> op_price_diff_bps o'" "op_price_diff_bps o' \<le> 5000"
    "\<not> f_le (f_mul net (sn_profit_safety_factor self)) (Fin 0)"
    "\<not> f_lt (f_mul net (sn_profit_safety_factor self)) (sn_min_profit_threshold_sol self)"
  using assms unfolding try_pair_def Let_def
  by (auto simp: and_then_Ok_iff not_less split: if_splits prod.splits)

lemma f_mul_number: "x \<noteq> NaN \<Longrightarrow> 0 < f \<Longrightarrow> f_mul x (Fin f) \<noteq> NaN"
  by (cases x) auto

lemma try_pair_sound:
  assumes t: "try_pair self fetch_bins warm mint source slot bv bs sv ss = Ok (Some o')"
    and p: "((bv, bs), (sv, ss)) \<in> set (candidate_pairs self vps)" and n: "numeric_limits self"
  shows "sound_opportunity self vps o' \<and> op_net_profit_sol o' \<noteq> NaN"
proof -
  obtain m c f t where lim: "sn_max_investment_sol self = Fin m" "representable m" "m \<le> 2 ^ 999"
    "sn_cu_cost_sol self = Fin c" "sn_profit_safety_factor self = Fin f" "0 < f"
    "sn_min_profit_threshold_sol self = Fin t"
    using n by (auto simp: numeric_limits_def)
  obtain investment gross net conf where
    est: "estimate_profit self bs ss (op_price_diff_bps o') = Ok (investment, gross, net, conf)"
    and o': "op_buy_venue o' = bv" "op_sell_venue o' = sv"
    "op_buy_price_sol o' = ps_sol_per_token bs" "op_sell_price_sol o' = ps_sol_per_token ss"
    "op_investment_sol o' = investment" "op_expected_profit_sol o' = gross" "op_net_profit_sol o' = net"
    and price: "\<not> f_le (ps_sol_per_token ss) (ps_sol_per_token bs)"
    and bps: "sn_min_price_diff_bps self \<le> op_price_diff_bps o'" "op_price_diff_bps o' \<le> 5000"
    and safe: "\<not> f_le (f_mul net (sn_profit_safety_factor self)) (Fin 0)"
    "\<not> f_lt (f_mul net (sn_profit_safety_factor self)) (sn_min_profit_threshold_sol self)"
    by (rule try_pair_Some [OF t])
  note c = candidate_pairD [OF p]
  obtain vb where vb: "bs \<in> set (tradable_snapshots vb)"
    using c(4) by (auto simp: bind_eq_Some_conv dest: best_snapshot_tradable)
  obtain vs where vs: "ss \<in> set (tradable_snapshots vs)"
    using c(5) by (auto simp: bind_eq_Some_conv dest: best_snapshot_tradable)
  have lt: "f_lt (ps_sol_per_token bs) (ps_sol_per_token ss)"
    using tradable_price [OF vb] tradable_price [OF vs] price by auto
  have "net \<noteq> Fin 0" using safe(1) by (auto simp: lim to_f64_def)
  then have "(investment, gross, net, conf) \<noteq> no_estimate" by (simp add: no_estimate_def)
  then obtain q where q: "investment = Fin q" "f_le MIN_INVEST investment" "q \<le> m"
    "compute_arb_at_investment self bs ss investment = Ok (gross, net)"
    using estimate_in_limits [OF est lim(1-3)] by blast
  have net: "net \<noteq> NaN" using compute_arb_number [OF q(4) [unfolded q(1)] lim(4)] by simp
  have num: "f_mul net (Fin f) \<noteq> NaN" using net lim(6) by (rule f_mul_number)
  have "f_lt (Fin 0) (f_mul net (Fin f))" using safe(1) num unfolding lim by (cases "f_mul net (Fin f)") (auto simp: f_le_def)
  moreover have "f_le (Fin t) (f_mul net (Fin f))" using safe(2) num unfolding lim by (intro f_not_lt) simp_all
  ultimately show ?thesis
    unfolding sound_opportunity_def Let_def o' lim using c lt bps q net by (intro conjI exI [of _ bs] exI [of _ ss]) simp_all
qed

subsection \<open>The order of the report\<close>

abbreviation net_desc :: "opportunity list \<Rightarrow> bool" where
  "net_desc \<equiv> sorted_wrt (\<lambda>x y. f_le (op_net_profit_sol y) (op_net_profit_sol x))"

lemma f_le_total: "x \<noteq> NaN \<Longrightarrow> y \<noteq> NaN \<Longrightarrow> \<not> f_lt x y \<Longrightarrow> f_le y x"
  by (rule f_not_lt)

lemma f_le_trans: "f_le x y \<Longrightarrow> f_le y z \<Longrightarrow> f_le x z"
  using f_lt_trans by (auto simp: f_le_def)

lemma mset_insert_desc: "mset (insert_desc x ys) = add_mset x (mset ys)"
  by (induction ys) auto

lemma set_insert_desc: "set (insert_desc x ys) = insert x (set ys)"
  by (induction ys) auto

lemma insert_desc_sorted:
  assumes "net_desc ys" "\<forall>y \<in> insert x (set ys). op_net_profit_sol y \<noteq> NaN"
  shows "net_desc (insert_desc x ys)"
  using assms
proof (induction ys)
  case (Cons y ys)
  show ?case
  proof (cases "f_lt (op_net_profit_sol x) (op_net_profit_sol y)")
    case True
    then show ?thesis using Cons by (auto simp: set_insert_desc f_le_def)
  next
    case False
    then have "f_le (op_net_profit_sol y) (op_net_profit_sol x)" using Cons.prems(2) by (intro f_not_lt) auto
    then show ?thesis using Cons.prems False by (auto intro: f_le_trans)
  qed
qed simp

lemma sort_by_net_mset: "mset (sort_by_net xs) = mset xs"
  by (induction xs) (simp_all add: sort_by_net_def mset_insert_desc)

lemma sort_by_net_sorted: "\<forall>x \<in> set xs. op_net_profit_sol x \<noteq> NaN \<Longrightarrow> net_desc (sort_by_net xs)"
proof (induction xs)
  case (Cons x xs)
  have "set (sort_by_net xs) = set xs" using sort_by_net_mset by (metis set_mset_mset)
  with Cons show ?case by (auto simp: sort_by_net_def intro!: insert_desc_sorted)
qed (simp add: sort_by_net_def)

lemma traverse_Ok_mem: "traverse f xs = Ok ys \<Longrightarrow> y \<in> set ys \<Longrightarrow> \<exists>x \<in> set xs. f x = Ok y"
  by (induction xs arbitrary: ys) (auto simp: and_then_Ok_iff)

text \<open>Every opportunity reported comes from a pair of candidates.\<close>

lemma build_opps_found:
  assumes "build_opps_from_prices self fetch_bins warm mint source slot vps = Ok opps" and "o' \<in> set opps"
  obtains bv bs sv ss where "((bv, bs), (sv, ss)) \<in> set (candidate_pairs self vps)"
    and "try_pair self fetch_bins warm mint source slot bv bs sv ss = Ok (Some o')"
proof -
  obtain found where f: "traverse (\<lambda>((bv, bs), (sv, ss)). try_pair self fetch_bins warm mint source slot bv bs sv ss)
      (candidate_pairs self vps) = Ok found" and opps: "opps = sort_by_net (List.map_filter (\<lambda>x. x) found)"
    using assms(1) by (auto simp: build_opps_from_prices_def and_then_Ok_iff)
  have "set opps = set (List.map_filter (\<lambda>x. x) found)"
    unfolding opps using sort_by_net_mset by (metis set_mset_mset)
  then have "Some o' \<in> set found" using assms(2) by (auto simp: map_filter_def)
  from traverse_Ok_mem [OF f this] show ?thesis using that by auto
qed

lemma try_pair_mint:
  assumes "try_pair self fetch_bins warm mint source slot bv bs sv ss = Ok (Some o')"
  shows "op_token_mint o' = mint"
  using assms unfolding try_pair_def Let_def
  by (auto simp: and_then_Ok_iff split: if_splits prod.splits)

lemma build_opps_sound:
  assumes "build_opps_from_prices self fetch_bins warm mint source slot vps = Ok opps" and "o' \<in> set opps"
    and "numeric_limits self"
  shows "sound_opportunity self vps o'" "op_net_profit_sol o' \<noteq> NaN" "op_token_mint o' = mint"
proof -
  obtain bv bs sv ss where p: "((bv, bs), (sv, ss)) \<in> set (candidate_pairs self vps)"
    "try_pair self fetch_bins warm mint source slot bv bs sv ss = Ok (Some o')"
    using assms(1,2) by (rule build_opps_found)
  show "sound_opportunity self vps o'" "op_net_profit_sol o' \<noteq> NaN" using try_pair_sound [OF p(2,1) assms(3)] by simp_all
  show "op_token_mint o' = mint" using p(2) by (rule try_pair_mint)
qed

text \<open>C18: Every opportunity the scanner reports buys and sells on two different enabled venues at their
  best tradable pools, the selling price is strictly higher, by at least the configured difference and
  at most 50 percent; the investment lies between 0.001 SOL and the configured maximum; the profits are
  those of the simulated round trip at that investment, and the net profit less the safety margin is
  positive and reaches the configured threshold. The list is sorted by net profit, best first. This
  needs limits that are numbers: a NaN limit is passed by every comparison.\<close>

theorem opportunities_sound:
  assumes "build_opps_from_prices self fetch_bins warm mint source slot vps = Ok opps"
    and "numeric_limits self"
  shows "(\<forall>o' \<in> set opps. sound_opportunity self vps o') \<and> net_desc opps"
proof
  show "\<forall>o' \<in> set opps. sound_opportunity self vps o'" using build_opps_sound(1) [OF assms(1) _ assms(2)] by blast
  obtain found where f: "traverse (\<lambda>((bv, bs), (sv, ss)). try_pair self fetch_bins warm mint source slot bv bs sv ss)
      (candidate_pairs self vps) = Ok found" and opps: "opps = sort_by_net (List.map_filter (\<lambda>x. x) found)"
    using assms(1) by (auto simp: build_opps_from_prices_def and_then_Ok_iff)
  have "set opps = set (List.map_filter (\<lambda>x. x) found)" unfolding opps using sort_by_net_mset by (metis set_mset_mset)
  then show "net_desc opps"
    using build_opps_sound(2) [OF assms(1) _ assms(2)] unfolding opps by (intro sort_by_net_sorted) auto
qed

section \<open>A concrete report\<close>

text \<open>Two constant product pools whose prices differ by a quarter, and a maximal investment of
  0.001 SOL.\<close>

definition milli :: rat where
  "milli = 1152921504606847 / 2 ^ 60"

definition demo_buy :: price_snapshot where
  "demo_buy = \<lparr>ps_sol_per_token = Fin 1, ps_token_reserves_raw = 1000001000000,
     ps_sol_reserves_raw = 1000000000000, ps_bins = [], ps_meme_is_x = False, ps_fee_bps = 0,
     ps_lb_pair = '''', ps_quote_decimals = 9\<rparr>"

definition demo_sell :: price_snapshot where
  "demo_sell = \<lparr>ps_sol_per_token = Fin (5 / 4), ps_token_reserves_raw = 999999000000,
     ps_sol_reserves_raw = 1250000000000, ps_bins = [], ps_meme_is_x = False, ps_fee_bps = 0,
     ps_lb_pair = '''', ps_quote_decimals = 9\<rparr>"

definition demo_scanner :: scanner where
  "demo_scanner = \<lparr>sn_min_profit_threshold_sol = Fin (1 / 2 ^ 13), sn_min_price_diff_bps = 50,
     sn_max_investment_sol = Fin milli, sn_min_pool_tvl_sol = Fin 1, sn_max_tip_sol = Fin 1,
     sn_enabled_venues = [PumpSwapAmm, RaydiumCpmm], sn_cu_cost_sol = Fin 0,
     sn_profit_safety_factor = Fin 1, sn_pumpfun_fee_bps = 100, sn_skip_reverify = False, sn_max_pool_share = Fin (1 / 2),
     sn_max_absolute_sol_out = Fin 10\<rparr>"

definition demo_price :: "venue \<Rightarrow> price_snapshot \<Rightarrow> venue_price" where
  "demo_price v s = \<lparr>vp_venue = v, vp_sol_per_token = Some (ps_sol_per_token s), vp_pool_prices = [s],
     vp_token_reserves_raw = ps_token_reserves_raw s, vp_sol_reserves_raw = ps_sol_reserves_raw s,
     vp_fee_bps = ps_fee_bps s, vp_bins = [], vp_meme_is_x = False\<rparr>"

definition demo_prices :: "venue_price list" where
  "demo_prices = [demo_price PumpSwapAmm demo_buy, demo_price RaydiumCpmm demo_sell]"

lemmas demo_pool = demo_buy_def demo_sell_def demo_scanner_def

lemma to_f64_rep: "representable q \<Longrightarrow> \<bar>q\<bar> \<le> 2 ^ 1000 \<Longrightarrow> to_f64 q = Fin q"
  using to_f64_bounded [of q] by (simp add: rnd_representable)

lemma to_f64_numeral: "(numeral n :: int) \<le> 2 ^ 53 \<Longrightarrow> to_f64 (numeral n) = Fin (numeral n)"
proof -
  assume n: "(numeral n :: int) \<le> 2 ^ 53"
  then have "representable (of_int (numeral n))" by (intro representable_of_int) simp
  moreover have "of_int (numeral n) \<le> (of_int (2 ^ 53) :: rat)" using n unfolding of_int_le_iff .
  then have "(numeral n :: rat) \<le> 2 ^ 53" unfolding of_int_numeral of_int_power .
  then have "(numeral n :: rat) \<le> 2 ^ 1000" by (rule order_trans) (rule power_increasing, simp_all)
  then have "\<bar>numeral n :: rat\<bar> \<le> 2 ^ 1000" unfolding abs_numeral .
  ultimately show ?thesis by (intro to_f64_rep) simp_all
qed

lemma milli_exact: "MIN_INVEST = Fin milli" "representable milli" "0 \<le> milli" "milli \<le> 1"
proof -
  have r: "rnd (1 / 1000) = of_int 4611686018427388 * 2 powi (- 10 - 52)"
    by (rule rnd_eqI) (simp_all add: power_int_def power_divide)
  then have v: "rnd (1 / 1000) = milli" by (simp add: milli_def power_int_def power_divide)
  show "representable milli" using representable_rnd [of "1 / 1000"] by (simp add: v)
  have "\<bar>1 / 1000 :: rat\<bar> \<le> 2 ^ 1000" by simp
  from to_f64_bounded [OF this] show "MIN_INVEST = Fin milli" by (simp add: MIN_INVEST_def v)
qed (simp_all add: milli_def)

lemma demo_unit: "quote_unit demo_buy = Fin 1000000000" "quote_unit demo_sell = Fin 1000000000"
  by (simp_all add: demo_pool quote_unit_def pow10_def power_int_def to_f64_numeral)

lemma milli_lamports: "f64_as_u64 (f_mul (Fin milli) (Fin 1000000000)) = 1000000"
proof -
  have r: "rnd (milli * 1000000000) = of_int 8589934592000000 * 2 powi (19 - 52)"
    by (rule rnd_eqI) (simp_all add: power_int_def power_divide milli_def)
  have "\<bar>milli * 1000000000\<bar> \<le> 2 ^ 1000" by (simp add: milli_def)
  from to_f64_bounded [OF this] have "f_mul (Fin milli) (Fin 1000000000) = Fin 1000000"
    unfolding f_mul.simps r by (simp add: power_int_def power_divide)
  then show ?thesis by (simp add: f64_as_u64_def)
qed

lemma demo_simulate: "simulate_buy demo_buy (Fin milli) = Ok 1000000"
  unfolding simulate_buy_def demo_unit milli_lamports Let_def
  by (simp add: pool_swap_def demo_buy_def div_or_panic_def)

lemma half_powers: "representable (1 / 2 ^ 13)" "representable (1 / 2 ^ 11)" "representable (5 / 2 ^ 12)"
  "representable (3 / 2 ^ 11)" "representable (1 / 4)"
  unfolding representable_def
  by (rule exI [of _ 1], rule exI [of _ "- 13"], simp add: power_int_def power_divide)
     (rule exI [of _ 1], rule exI [of _ "- 11"], simp add: power_int_def power_divide,
      rule exI [of _ 5], rule exI [of _ "- 12"], simp add: power_int_def power_divide,
      rule exI [of _ 3], rule exI [of _ "- 11"], simp add: power_int_def power_divide,
      rule exI [of _ 1], rule exI [of _ "- 2"], simp add: power_int_def power_divide)

lemma demo_compute:
  obtains g where "compute_arb_at_investment demo_scanner demo_buy demo_sell (Fin milli) = Ok (Fin g, Fin g)"
    "1 / 2 ^ 13 \<le> g" "g < milli" "representable g"
proof -
  let ?b = "rnd (1 / 800)" and ?g = "rnd (rnd (1 / 800) - milli)"
  have b: "5 / 2 ^ 12 \<le> ?b" "?b \<le> 3 / 2 ^ 11" by (rule rnd_ge [OF _ half_powers(3)], simp) (rule rnd_le [OF _ half_powers(4)], simp)
  then have d: "1 / 2 ^ 13 \<le> ?b - milli" "?b - milli \<le> 1 / 2 ^ 11" by (simp_all add: milli_def)
  have g: "1 / 2 ^ 13 \<le> ?g" "?g \<le> 1 / 2 ^ 11" by (rule rnd_ge [OF d(1) half_powers(1)], rule rnd_le [OF d(2) half_powers(2)])
  have f: "to_f64 (1 / 800) = Fin ?b" by (rule to_f64_bounded) simp
  have fd: "to_f64 (?b - milli) = Fin ?g" using d by (intro to_f64_bounded) (simp add: abs_le_iff)
  have fg: "to_f64 ?g = Fin ?g" using g by (intro to_f64_rep representable_rnd) (simp add: abs_le_iff)
  have sell: "pool_swap demo_sell True 1000000 = Ok 1250000"
    by (simp add: pool_swap_def demo_sell_def div_or_panic_def)
  have cap: "f64_as_u128 (f_mul (f64_of_u64 (ps_sol_reserves_raw demo_sell)) (sn_max_pool_share demo_scanner)) = 625000000000"
    by (simp add: demo_pool f64_of_u64_def f64_of_nat_def to_f64_numeral f64_as_u128_def)
  have "compute_arb_at_investment demo_scanner demo_buy demo_sell (Fin milli) = Ok (Fin ?g, Fin ?g)"
    by (simp add: compute_arb_at_investment_def demo_simulate sell cap demo_unit f64_of_u128_def f64_of_nat_def
        to_f64_numeral f f_sub_def fd fg) (simp add: demo_scanner_def fg Let_def)
  then show thesis using that [of ?g] g representable_rnd by (simp add: milli_def)
qed

lemma f_min_above: "x = NaN \<or> f_le y x \<Longrightarrow> f_min x y = y" "y = NaN \<or> f_le x y \<Longrightarrow> f_min x y = x"
  by (cases x; cases y; auto simp: f_min_def f_le_def)+

lemma demo_golden:
  obtains g where "golden_search_profit demo_scanner demo_buy demo_sell (Fin milli) (Fin milli) = Ok (Fin milli, Fin g, Fin g)"
    "1 / 2 ^ 13 \<le> g" "g < milli" "representable g"
proof -
  obtain g where g: "compute_arb_at_investment demo_scanner demo_buy demo_sell (Fin milli) = Ok (Fin g, Fin g)"
    "1 / 2 ^ 13 \<le> g" "g < milli" "representable g" by (rule demo_compute)
  have total: "\<exists>gross net. compute_arb_at_investment demo_scanner demo_buy demo_sell x = Ok (gross, net)" for x
    by (rule compute_arb_total) (simp_all add: demo_pool)
  obtain best gross net where s: "golden_search_profit demo_scanner demo_buy demo_sell (Fin milli) (Fin milli) = Ok (best, gross, net)"
    using golden_search_total [OF total] by blast
  have r: "in_range milli milli (Fin milli)" using milli_exact(2) by (intro in_rangeI) simp_all
  have lo: "2 powi (- 20) \<le> milli" by (simp add: milli_def power_int_def power_divide)
  have "milli \<le> 2 ^ 0" using milli_exact(4) by simp
  also have "(2 :: rat) ^ 0 \<le> 2 ^ 999" by (rule power_increasing) simp_all
  finally have hi: "milli \<le> 2 ^ 999" .
  have "best = Fin milli \<and> compute_arb_at_investment demo_scanner demo_buy demo_sell best = Ok (gross, net)"
    using golden_search_within [OF s r r lo hi] by (auto simp: in_range_def)
  then show thesis using that s g by auto
qed

lemma demo_estimate:
  obtains g conf where "estimate_profit demo_scanner demo_buy demo_sell bps = Ok (Fin milli, Fin g, Fin g, conf)"
    "1 / 2 ^ 13 \<le> g" "g < milli" "representable g"
proof -
  obtain g where g: "golden_search_profit demo_scanner demo_buy demo_sell (Fin milli) (Fin milli) = Ok (Fin milli, Fin g, Fin g)"
    "1 / 2 ^ 13 \<le> g" "g < milli" "representable g" by (rule demo_golden)
  have cap: "f_min (f_mul (f_div (f64_of_u64 (ps_sol_reserves_raw demo_buy)) (Fin 1000000000)) (sn_max_pool_share demo_scanner))
      (sn_max_investment_sol demo_scanner) = Fin milli"
    by (simp add: demo_pool f64_of_u64_def f64_of_nat_def to_f64_numeral f_min_def milli_def)
  have tok: "f64_as_u128 (f_mul (f64_of_u64 (ps_token_reserves_raw demo_sell)) (sn_max_pool_share demo_scanner)) = 499999500000"
    by (simp add: demo_pool f64_of_u64_def f64_of_nat_def to_f64_numeral f64_as_u128_def)
  have find: "find_max_invest_within_capacity demo_buy (Fin milli) 499999500000 = Ok (Fin milli)"
    by (simp add: find_max_invest_within_capacity_def demo_simulate)
  have out: "f_min (f_mul (f_div (f64_of_u64 (ps_sol_reserves_raw demo_sell)) (Fin 1000000000)) (sn_max_pool_share demo_scanner))
      (sn_max_absolute_sol_out demo_scanner) = Fin 10"
    by (simp add: demo_pool f64_of_u64_def f64_of_nat_def to_f64_numeral f_min_def)
  let ?r = "rnd (6 / 5)"
  have r: "1 \<le> ?r" "?r \<le> 2"
    using rnd_ge [of "of_int 1" "6 / 5"] rnd_le [of "6 / 5" "of_int 2"] representable_of_int [of 1] representable_of_int [of 2]
    by simp_all
  have f: "to_f64 (6 / 5) = Fin ?r" by (rule to_f64_bounded) simp
  have f2: "to_f64 (10 * ?r) = Fin (rnd (10 * ?r))" using r by (intro to_f64_bounded) simp
  have "1 \<le> rnd (10 * ?r)" using rnd_ge [of "of_int 1" "10 * ?r"] representable_of_int [of 1] r by simp
  then have up: "f_min (Fin milli) (f_mul (Fin 10) (to_f64 (6 / 5))) = Fin milli"
    using milli_exact(4) by (intro f_min_above(2)) (simp add: f f2)
  have nz: "ps_sol_reserves_raw demo_buy \<noteq> 0" "ps_token_reserves_raw demo_buy \<noteq> 0"
    "ps_sol_reserves_raw demo_sell \<noteq> 0" "ps_token_reserves_raw demo_sell \<noteq> 0" by (simp_all add: demo_pool)
  have "estimate_profit demo_scanner demo_buy demo_sell bps =
      Ok (Fin milli, Fin g, Fin g, confidence_of demo_scanner bps (Fin milli))"
    unfolding estimate_profit_def Let_def demo_unit milli_exact(1) cap tok
    by (simp add: nz find out up g(1) del: f_mul.simps)
  then show thesis using that g by blast
qed

lemma f_max_above: "\<not> f_lt y z \<Longrightarrow> y \<noteq> NaN \<Longrightarrow> \<not> f_lt (f_max x y) z"
  by (cases x; cases y; cases z) (auto simp: f_max_def split: if_splits)

lemma demo_try_pair:
  obtains o' where "try_pair demo_scanner fetch_bins warm mint source slot PumpSwapAmm demo_buy RaydiumCpmm demo_sell = Ok (Some o')"
proof -
  obtain g conf where g: "estimate_profit demo_scanner demo_buy demo_sell 2500 = Ok (Fin milli, Fin g, Fin g, conf)"
    "1 / 2 ^ 13 \<le> g" "g < milli" "representable g" by (rule demo_estimate)
  have "\<bar>g\<bar> \<le> 1" using g(2,3) milli_exact(4) unfolding abs_le_iff by simp
  then have "\<bar>g\<bar> \<le> 2 ^ 1000" by (rule order_trans) simp
  then have fg: "to_f64 g = Fin g" by (rule to_f64_rep [OF g(4)])
  have tvl: "\<not> f_lt (tvl_sol demo_sell) (sn_min_pool_tvl_sol demo_scanner)"
    by (simp add: tvl_sol_def demo_unit) (simp add: demo_pool f64_of_u64_def f64_of_nat_def to_f64_numeral)
  have bps: "f64_as_u32 (f_mul (f_div (f_sub (ps_sol_per_token demo_sell) (ps_sol_per_token demo_buy))
      (ps_sol_per_token demo_buy)) (Fin 10000)) = 2500"
    by (simp add: demo_pool f_sub_def to_f64_rep half_powers to_f64_numeral f64_as_u32_def)
  have verified: "passes_reverify demo_scanner fetch_bins warm demo_buy demo_sell inv net = Ok True" for inv net
    by (simp add: passes_reverify_def demo_pool)
  have price: "\<not> f_le (ps_sol_per_token demo_sell) (ps_sol_per_token demo_buy)" by (simp add: demo_pool)
  have top: "\<not> f_lt (f_max x MIN_INVEST) (Fin g)" for x
    using g(3) by (intro f_max_above) (simp_all add: milli_exact(1))
  have "0 < g" by (rule less_le_trans [OF _ g(2)]) simp
  then have pos: "\<not> g \<le> 0" unfolding not_le .
  have safe: "f_mul (Fin g) (sn_profit_safety_factor demo_scanner) = Fin g"
    "f_lt (Fin g) (sn_min_profit_threshold_sol demo_scanner) = False" "f_le (Fin g) (Fin 0) = False"
    "sn_min_price_diff_bps demo_scanner = 50"
    using g(2) fg pos by (simp_all add: demo_scanner_def)
  have "\<exists>o'. try_pair demo_scanner fetch_bins warm mint source slot PumpSwapAmm demo_buy RaydiumCpmm demo_sell = Ok (Some o')"
    unfolding try_pair_def Let_def bps by (simp add: tvl price g(1) verified top safe pos del: f_mul.simps)
  then show thesis using that by blast
qed

lemma demo_pairs: "candidate_pairs demo_scanner demo_prices = [((PumpSwapAmm, demo_buy), (RaydiumCpmm, demo_sell)),
    ((RaydiumCpmm, demo_sell), (PumpSwapAmm, demo_buy))]"
proof -
  have f: "find_venue demo_prices PumpSwapAmm = Some (demo_price PumpSwapAmm demo_buy)"
    "find_venue demo_prices RaydiumCpmm = Some (demo_price RaydiumCpmm demo_sell)"
    by (simp_all add: find_venue_def demo_prices_def demo_price_def)
  have b: "best_buy_snapshot (demo_price v demo_buy) = Some demo_buy" "best_sell_snapshot (demo_price v demo_buy) = Some demo_buy"
    "best_buy_snapshot (demo_price v demo_sell) = Some demo_sell" "best_sell_snapshot (demo_price v demo_sell) = Some demo_sell" for v
    by (simp_all add: best_buy_snapshot_def best_sell_snapshot_def tradable_snapshots_def demo_price_def) (simp_all add: demo_pool)
  have t: "\<not> f_lt (tvl_sol demo_buy) (Fin 1)" "\<not> f_lt (tvl_sol demo_sell) (Fin 1)"
    by (simp_all add: tvl_sol_def demo_unit) (simp_all add: demo_pool f64_of_u64_def f64_of_nat_def to_f64_numeral)
  have e: "sn_enabled_venues demo_scanner = [PumpSwapAmm, RaydiumCpmm]" "sn_min_pool_tvl_sol demo_scanner = Fin 1"
    by (simp_all add: demo_scanner_def)
  show ?thesis by (simp add: candidate_pairs_def buy_candidates_def sell_candidates_def map_filter_simps e f b t)
qed

lemma demo_build: obtains o' where
  "build_opps_from_prices demo_scanner (\<lambda>_. Err (Failed ''no account'')) False mint source slot demo_prices = Ok [o']"
proof -
  obtain o' where o': "try_pair demo_scanner (\<lambda>_. Err (Failed ''no account'')) False mint source slot PumpSwapAmm demo_buy RaydiumCpmm demo_sell
      = Ok (Some o')" by (rule demo_try_pair)
  have tvl: "f_lt (tvl_sol demo_buy) (sn_min_pool_tvl_sol demo_scanner) = False"
    by (simp add: tvl_sol_def demo_unit) (simp add: demo_pool f64_of_u64_def f64_of_nat_def to_f64_numeral)
  have no: "try_pair demo_scanner (\<lambda>_. Err (Failed ''no account'')) False mint source slot RaydiumCpmm demo_sell PumpSwapAmm demo_buy = Ok None"
    unfolding try_pair_def Let_def tvl by (simp add: demo_pool)
  show thesis using that [of o']
    by (simp add: build_opps_from_prices_def demo_pairs o' no map_filter_simps sort_by_net_def)
qed

lemma demo_numeric: "numeric_limits demo_scanner" "milli \<le> 2 ^ 999"
proof -
  have "milli \<le> 2 ^ 0" using milli_exact(4) by simp
  also have "(2 :: rat) ^ 0 \<le> 2 ^ 999" by (rule power_increasing) simp_all
  finally show "milli \<le> 2 ^ 999" .
  then show "numeric_limits demo_scanner" using milli_exact(2) unfolding numeric_limits_def
    by (intro exI [of _ milli] exI [of _ 0] exI [of _ 1] exI [of _ "1 / 2 ^ 13"]) (simp add: demo_scanner_def)
qed

theorem opportunities_sound_witness:
  "\<exists>o'. build_opps_from_prices demo_scanner (\<lambda>_. Err (Failed ''no account'')) False ''mint'' ''source'' 7 demo_prices = Ok [o'] \<and>
     sound_opportunity demo_scanner demo_prices o'"
proof -
  obtain o' where "build_opps_from_prices demo_scanner (\<lambda>_. Err (Failed ''no account'')) False ''mint'' ''source'' 7 demo_prices = Ok [o']"
    by (rule demo_build)
  with opportunities_sound [OF this demo_numeric(1)] show ?thesis by auto
qed

end
