(* ===== verification/Bot_Prices.thy ===== *)
theory Bot_Prices
  imports Bot_Discovery Bot_Opportunities
begin

text \<open>
  The price queries of the five venues, \<open>arbitrage/prices/price_query.rs\<close>, the scan of a mint over the
  enabled venues (\<open>arbitrage/scanner_queries.rs\<close>, \<open>arbitrage/scanner.rs\<close>), and the choice of a SOL
  price (\<open>price.rs\<close>). The caches of the venues are threaded through the queries; \<open>join_all\<close> runs them
  concurrently, but each query has caches of its own. \<open>powi\<close> is Rust's \<open>f64::powi\<close>, whose
  rounding is not specified for large exponents, and so a parameter. A query sees one state of the
  chain: an account read twice has the same answer.
\<close>

section \<open>Sources of the SOL price\<close>

text \<open>A source is asked twice; \<open>None\<close> is an error of the request. Waiting is not modelled.\<close>

definition try_source :: "f64 option \<times> f64 option \<Rightarrow> f64 option" where
  "try_source answers =
     (let valid = (\<lambda>a. case a of Some p \<Rightarrow> f_lt (Fin 0) p | None \<Rightarrow> False) in
      if valid (fst answers) then fst answers else if valid (snd answers) then snd answers else None)"

definition fetch_price :: "(f64 option \<times> f64 option) list \<Rightarrow> f64 option" where
  "fetch_price sources = (case List.map_filter try_source sources of [] \<Rightarrow> None | p # _ \<Rightarrow> Some p)"

definition refresh_price :: "(f64 option \<times> f64 option) list \<Rightarrow> f64 \<Rightarrow> f64" where
  "refresh_price sources sol_price = (case fetch_price sources of Some p \<Rightarrow> p | None \<Rightarrow> sol_price)"

section \<open>Prices\<close>

definition is_sane_dlmm_price :: "f64 \<Rightarrow> bool" where
  "is_sane_dlmm_price price \<longleftrightarrow>
     is_finite price \<and> f_le (to_f64 (1 / 10 ^ 12)) price \<and> f_le price (Fin 1000000)"

definition raw_to_sol_per_token :: "u64 \<Rightarrow> u64 \<Rightarrow> string \<Rightarrow> f64 option" where
  "raw_to_sol_per_token sol_raw token_raw token_mint =
     (if token_raw = 0 then None
      else
        (let token_decimals = guess_decimals token_mint;
             ratio = f_div (f64_of_u64 sol_raw) (f64_of_u64 token_raw);
             adj = pow10 (9 - int (unat token_decimals)) in
         Some (f_div ratio adj)))"

definition no_pool_price :: "venue \<Rightarrow> u32 \<Rightarrow> venue_price" where
  "no_pool_price venue fee_bps = from_single_pool venue None 0 0 fee_bps [] False 9"

text \<open>The environment of a scan, and the caches of the venues.\<close>

record scan_env =
  se_dlmm :: dlmm_env
  se_coin_v2 :: "string \<Rightarrow> coin_v2_meta option"
  se_powi :: "f64 \<Rightarrow> int \<Rightarrow> f64"
  se_sol_price :: f64
  se_now :: nat
  se_now_ts :: int
  se_cpmm_order :: "string list"

record venue_caches =
  vc_pump :: pump_caches
  vc_dlmm :: dlmm_caches
  vc_ammv4_pools :: "ammv4_pool_info option cache"
  vc_cpmm :: "pool_state_data option cache"
  vc_cpmm_rows :: cpmm_rows
  vc_cpmm_discovered :: "string cache"
  vc_whirlpool :: "dlmm_pool option cache"
  vc_whirlpool_rows :: whirlpool_rows
  vc_whirlpool_discovered :: "string cache"

subsection \<open>Pump.fun\<close>

definition query_pumpfun_price :: "scan_env \<Rightarrow> string \<Rightarrow> u32 \<Rightarrow> venue_caches \<Rightarrow> venue_price \<times> venue_caches" where
  "query_pumpfun_price env mint fee_bps c =
     (let d = se_dlmm env;
          (state, pump) = fetch_bonding_curve (dv_pda d) (dv_parse d) (dv_show d) (dv_geyser d) (dv_rpc d)
             (se_coin_v2 env) (se_now env) mint (vc_pump c) in
      (case state of
         Some s \<Rightarrow>
           if bc_venue_kind s = PumpSwapPool \<and> 0 < bc_virtual_sol_reserves s \<and> 0 < bc_virtual_token_reserves s
           then from_single_pool PumpSwapAmm
                  (raw_to_sol_per_token (bc_virtual_sol_reserves s) (bc_virtual_token_reserves s) mint)
                  (bc_virtual_token_reserves s) (bc_virtual_sol_reserves s) fee_bps [] False 9
           else no_pool_price PumpSwapAmm fee_bps
       | None \<Rightarrow> no_pool_price PumpSwapAmm fee_bps,
       c\<lparr>vc_pump := pump\<rparr>))"

subsection \<open>DLMM\<close>

definition sum_amounts :: "(dlmm_bin \<Rightarrow> u64) \<Rightarrow> dlmm_bin list \<Rightarrow> u64" where
  "sum_amounts amount bins = fold (\<lambda>b acc. sat_add acc (amount b)) bins 0"

definition dlmm_price :: "(f64 \<Rightarrow> int \<Rightarrow> f64) \<Rightarrow> string \<Rightarrow> byte \<Rightarrow> f64 \<Rightarrow> dlmm_pool \<Rightarrow> f64" where
  "dlmm_price f_powi quote_mint decimals sol_price r =
     (let meme_is_x = (dp_token_x_mint r \<noteq> quote_mint);
          s = f_div (f64_of_nat (unat (dp_bin_step r))) (Fin 10000);
          bin_price = f_powi (f_add (Fin 1) s) (dp_active_id r);
          quote_per_token = (if meme_is_x then bin_price else f_div (Fin 1) bin_price) in
      if decimals \<noteq> 9 \<and> f_lt (Fin 0) sol_price then f_div quote_per_token sol_price else quote_per_token)"

definition dlmm_snapshot :: "(f64 \<Rightarrow> int \<Rightarrow> f64) \<Rightarrow> string \<Rightarrow> byte \<Rightarrow> f64 \<Rightarrow> dlmm_pool \<Rightarrow> price_snapshot option" where
  "dlmm_snapshot f_powi quote_mint decimals sol_price r =
     (let meme_is_x = (dp_token_x_mint r \<noteq> quote_mint);
          sol_per_token = dlmm_price f_powi quote_mint decimals sol_price r;
          total_x = sum_amounts db_amount_x (dp_bins r); total_y = sum_amounts db_amount_y (dp_bins r) in
      if \<not> is_sane_dlmm_price sol_per_token then None
      else Some
        \<lparr>ps_sol_per_token = sol_per_token, ps_token_reserves_raw = (if meme_is_x then total_x else total_y),
         ps_sol_reserves_raw = (if meme_is_x then total_y else total_x), ps_bins = dp_bins r,
         ps_meme_is_x = meme_is_x, ps_fee_bps = compute_fee_bps (dp_bin_step r) (dp_base_factor r),
         ps_lb_pair = dp_lb_pair r, ps_quote_decimals = decimals\<rparr>)"

definition build_snapshots :: "(f64 \<Rightarrow> int \<Rightarrow> f64) \<Rightarrow> dlmm_pool list \<Rightarrow> string \<Rightarrow> byte \<Rightarrow> f64 \<Rightarrow> price_snapshot list" where
  "build_snapshots f_powi pools quote_mint decimals sol_price =
     List.map_filter (dlmm_snapshot f_powi quote_mint decimals sol_price) pools"

fun insert_price :: "f64 \<Rightarrow> f64 list \<Rightarrow> f64 list" where
  "insert_price x [] = [x]"
| "insert_price x (y # ys) = (if f_lt y x then y # insert_price x ys else x # y # ys)"

definition median_price :: "f64 list \<Rightarrow> f64" where
  "median_price prices = foldr insert_price prices [] ! (length prices div 2)"

definition query_dlmm_price :: "scan_env \<Rightarrow> string \<Rightarrow> u64 \<Rightarrow> venue_caches \<Rightarrow> venue_price \<times> venue_caches" where
  "query_dlmm_price env mint min_reserve_lamports c =
     (let (sol_pools, dlmm1) = fetch_dlmm_by_mints (se_dlmm env) (se_now env) (se_now_ts env) NATIVE_SOL_MINT_C mint
             min_reserve_lamports (vc_dlmm c);
          sol_snapshots = build_snapshots (se_powi env) sol_pools NATIVE_SOL_MINT_C 9 (Fin 1);
          (usdc_snapshots, dlmm2) =
            (if f_lt (Fin 0) (se_sol_price env) then
               (let (usdc_pools, dlmm2) = fetch_dlmm_by_mints (se_dlmm env) (se_now env) (se_now_ts env) USDC_MINT mint
                       min_reserve_lamports dlmm1 in
                (build_snapshots (se_powi env) usdc_pools USDC_MINT 6 (se_sol_price env), dlmm2))
             else ([], dlmm1));
          snapshots = sol_snapshots @ usdc_snapshots in
      (if snapshots = []
       then \<lparr>vp_venue = MeteoraDlmm, vp_sol_per_token = None, vp_pool_prices = [], vp_token_reserves_raw = 0,
             vp_sol_reserves_raw = 0, vp_fee_bps = 25, vp_bins = [], vp_meme_is_x = False\<rparr>
       else \<lparr>vp_venue = MeteoraDlmm, vp_sol_per_token = Some (median_price (map ps_sol_per_token snapshots)),
             vp_pool_prices = snapshots, vp_token_reserves_raw = 0, vp_sol_reserves_raw = 0,
             vp_fee_bps = ps_fee_bps (hd snapshots), vp_bins = [], vp_meme_is_x = False\<rparr>,
       c\<lparr>vc_dlmm := dlmm2\<rparr>))"

subsection \<open>AMM v4\<close>

definition read_ammv4_vault_amounts :: "parse_key \<Rightarrow> rpc_view \<Rightarrow> string \<Rightarrow> string \<Rightarrow> (u64 \<times> u64) option" where
  "read_ammv4_vault_amounts parse_key rpc vault_a vault_b =
     Option.bind (parse_key vault_a) (\<lambda>va.
     Option.bind (parse_key vault_b) (\<lambda>vb.
     Option.bind (get_multiple_accounts rpc [va, vb]) (\<lambda>accounts.
     Option.bind (Option.bind (accounts ! 0) (\<lambda>a. parse_token_amount (on_data a))) (\<lambda>a.
     Option.bind (Option.bind (accounts ! 1) (\<lambda>b. parse_token_amount (on_data b))) (\<lambda>b.
     Some (a, b))))))"

definition usdc_to_sol :: "f64 \<Rightarrow> f64 \<Rightarrow> f64 option" where
  "usdc_to_sol sol_price usdc_per_token =
     (if f_lt (Fin 0) sol_price then Some (f_div usdc_per_token sol_price) else None)"

definition ammv4_quote :: "scan_env \<Rightarrow> string \<Rightarrow> venue_caches \<Rightarrow> string \<times> byte \<Rightarrow> venue_price option" where
  "ammv4_quote env mint c quote =
     (let (quote_mint, decimals) = quote in
      Option.bind (get_ammv4_pool_info (se_now env) quote_mint mint (vc_ammv4_pools c)) (\<lambda>info.
      Option.bind (read_ammv4_vault_amounts (dv_parse (se_dlmm env)) (dv_rpc (se_dlmm env)) (ai_coin_vault info) (ai_pc_vault info))
        (\<lambda>(coin_vault, pc_vault).
      let (quote_reserves, token_reserves) =
            (if ai_coin_mint info = quote_mint then (coin_vault, pc_vault) else (pc_vault, coin_vault));
          sol_per_token =
            (if decimals = 6
             then usdc_to_sol (se_sol_price env)
                    (f_div (f_div (f64_of_u64 quote_reserves) (f64_of_u64 token_reserves))
                       (pow10 (6 - int (unat (guess_decimals mint)))))
             else raw_to_sol_per_token quote_reserves token_reserves mint) in
      Some (from_single_pool RaydiumAmmv4 sol_per_token token_reserves quote_reserves 25 [] False decimals))))"

definition query_ammv4_price :: "scan_env \<Rightarrow> string \<Rightarrow> venue_caches \<Rightarrow> venue_price" where
  "query_ammv4_price env mint c =
     (case List.map_filter (ammv4_quote env mint c) [(NATIVE_SOL_MINT_C, 9), (USDC_MINT, 6)] of
        p # _ \<Rightarrow> p | [] \<Rightarrow> no_pool_price RaydiumAmmv4 25)"

subsection \<open>CPMM\<close>

definition cpmm_sol_price :: "string \<Rightarrow> pool_state_data \<Rightarrow> venue_price" where
  "cpmm_sol_price mint s =
     (let (sol_reserves, token_reserves) =
            (if ps_token_0_mint s = NATIVE_SOL_MINT_C then (ps_token_0_vault_raw s, ps_token_1_vault_raw s)
             else (ps_token_1_vault_raw s, ps_token_0_vault_raw s)) in
      from_single_pool RaydiumCpmm (raw_to_sol_per_token sol_reserves token_reserves mint)
        token_reserves sol_reserves 25 [] False 9)"

definition cpmm_any_price :: "f64 \<Rightarrow> string \<Rightarrow> pool_state_data \<Rightarrow> venue_price" where
  "cpmm_any_price sol_price mint s =
     (let quote =
            (if ps_token_0_mint s = mint
             then Some (ps_token_0_vault_raw s, ps_token_1_vault_raw s, ps_token_1_mint s)
             else if ps_token_1_mint s = mint
             then Some (ps_token_1_vault_raw s, ps_token_0_vault_raw s, ps_token_0_mint s) else None) in
      case quote of
        None \<Rightarrow> no_pool_price RaydiumCpmm 25
      | Some (meme_reserves_raw, quote_reserves_raw, quote_mint) \<Rightarrow>
          (let price_in_quote = f_div (f64_of_u64 quote_reserves_raw) (f64_of_u64 meme_reserves_raw);
               (sol_per_token, quote_decimals) =
                 (if is_stablecoin quote_mint \<and> f_lt (Fin 0) sol_price then (Some (f_div price_in_quote sol_price), 6)
                  else if quote_mint = NATIVE_SOL_MINT_C then (Some price_in_quote, 9)
                  else (None, 9)) in
           from_single_pool RaydiumCpmm sol_per_token meme_reserves_raw quote_reserves_raw 25 [] False quote_decimals))"

definition query_cpmm_price :: "scan_env \<Rightarrow> string \<Rightarrow> venue_caches \<Rightarrow> venue_price \<times> venue_caches" where
  "query_cpmm_price env mint c =
     (let d = se_dlmm env; now = se_now env;
          (cpmm1, rows1) =
            (if get_pool_state now NATIVE_SOL_MINT_C mint (vc_cpmm c) = None
             then snd (fetch_cpmm_now (dv_pda d) (dv_parse d) (dv_show d) (dv_rpc d) (se_sol_price env) (dv_db_ok d) now
                         NATIVE_SOL_MINT_C mint (vc_cpmm c, vc_cpmm_rows c))
             else (vc_cpmm c, vc_cpmm_rows c));
          c1 = c\<lparr>vc_cpmm := cpmm1, vc_cpmm_rows := rows1\<rparr> in
      case get_pool_state now NATIVE_SOL_MINT_C mint cpmm1 of
        Some s \<Rightarrow> (cpmm_sol_price mint s, c1)
      | None \<Rightarrow>
          (let (state, cpmm2) =
                 (case get_discovered_pool now NATIVE_SOL_MINT_C mint (vc_cpmm_discovered c) of
                    Some pool_addr \<Rightarrow> fetch_cpmm_by_address (dv_pda d) (dv_parse d) (dv_show d) (dv_rpc d) now pool_addr cpmm1
                  | None \<Rightarrow> (None, cpmm1));
               c2 = c1\<lparr>vc_cpmm := cpmm2\<rparr> in
           case state of
             Some s \<Rightarrow> (cpmm_sol_price mint s, c2)
           | None \<Rightarrow>
               (case pool_state_by_mint now mint cpmm2 (se_cpmm_order env) of
                  None \<Rightarrow> (no_pool_price RaydiumCpmm 25, c2)
                | Some s \<Rightarrow> (cpmm_any_price (se_sol_price env) mint s, c2))))"

subsection \<open>Whirlpool\<close>

definition whirlpool_price :: "f64 \<Rightarrow> string \<Rightarrow> string \<Rightarrow> dlmm_pool \<Rightarrow> venue_price" where
  "whirlpool_price sol_price quote_mint mint r =
     (let (quote_reserves, token_reserves) =
            (if dp_token_x_mint r = quote_mint then (dp_reserve_x r, dp_reserve_y r) else (dp_reserve_y r, dp_reserve_x r)) in
      if quote_mint = NATIVE_SOL_MINT_C
      then from_single_pool OrcaWhirlpool (raw_to_sol_per_token quote_reserves token_reserves mint)
             token_reserves quote_reserves 25 [] False 9
      else from_single_pool OrcaWhirlpool
             (if 0 < token_reserves
              then Some (f_div (f_div (f64_of_u64 quote_reserves) (f64_of_u64 token_reserves)) sol_price) else None)
             token_reserves quote_reserves 25 [] False 6)"

text \<open>The three ways to a Whirlpool with a given quote mint: the cache, the derived address (through the
  cache again), and an address seen in a transaction.\<close>

definition find_whirlpool :: "scan_env \<Rightarrow> string \<Rightarrow> string \<Rightarrow> venue_caches \<Rightarrow> dlmm_pool option \<times> venue_caches" where
  "find_whirlpool env quote_mint mint c =
     (let d = se_dlmm env; now = se_now env in
      case get_whirlpool_reserves now quote_mint mint (vc_whirlpool c) of
        Some r \<Rightarrow> (Some r, c)
      | None \<Rightarrow>
          (let (state, pools, rows) = fetch_whirlpool_by_mints (dv_pda d) (dv_parse d) (dv_show d) (dv_rpc d) (dv_db_ok d) now
                   quote_mint mint (vc_whirlpool c, vc_whirlpool_rows c);
               c1 = c\<lparr>vc_whirlpool := pools, vc_whirlpool_rows := rows\<rparr> in
           case (if state = None then None else get_whirlpool_reserves now quote_mint mint pools) of
             Some r \<Rightarrow> (Some r, c1)
           | None \<Rightarrow>
               (Option.bind (get_discovered_pool now quote_mint mint (vc_whirlpool_discovered c))
                  (fetch_whirlpool_by_address (dv_parse d) (dv_show d) (dv_rpc d)), c1)))"

definition query_whirlpool_price :: "scan_env \<Rightarrow> string \<Rightarrow> venue_caches \<Rightarrow> venue_price \<times> venue_caches" where
  "query_whirlpool_price env mint c =
     (let (sol_pool, c1) = find_whirlpool env NATIVE_SOL_MINT_C mint c in
      case sol_pool of
        Some r \<Rightarrow> (whirlpool_price (se_sol_price env) NATIVE_SOL_MINT_C mint r, c1)
      | None \<Rightarrow>
          if f_lt (Fin 0) (se_sol_price env) then
            (let (usdc_pool, c2) = find_whirlpool env USDC_MINT mint c1 in
             case usdc_pool of
               Some r \<Rightarrow> (whirlpool_price (se_sol_price env) USDC_MINT mint r, c2)
             | None \<Rightarrow> (no_pool_price OrcaWhirlpool 25, c2))
          else (no_pool_price OrcaWhirlpool 25, c1))"

section \<open>The scan\<close>

definition query_venue :: "scan_env \<Rightarrow> scanner \<Rightarrow> string \<Rightarrow> venue \<Rightarrow> venue_caches \<Rightarrow> venue_price \<times> venue_caches" where
  "query_venue env self mint venue c =
     (case venue of
        PumpSwapAmm \<Rightarrow> query_pumpfun_price env mint (sn_pumpfun_fee_bps self) c
      | MeteoraDlmm \<Rightarrow> query_dlmm_price env mint (sol_to_lamports (sn_min_pool_tvl_sol self)) c
      | RaydiumAmmv4 \<Rightarrow> (query_ammv4_price env mint c, c)
      | RaydiumCpmm \<Rightarrow> query_cpmm_price env mint c
      | OrcaWhirlpool \<Rightarrow> query_whirlpool_price env mint c)"

fun query_venues :: "scan_env \<Rightarrow> scanner \<Rightarrow> string \<Rightarrow> venue list \<Rightarrow> venue_caches \<Rightarrow> venue_price list \<times> venue_caches" where
  "query_venues env self mint [] c = ([], c)"
| "query_venues env self mint (v # vs) c =
     (let (p, c1) = query_venue env self mint v c; (ps, c2) = query_venues env self mint vs c1 in (p # ps, c2))"

definition query_prices :: "scan_env \<Rightarrow> scanner \<Rightarrow> string \<Rightarrow> venue_caches \<Rightarrow> venue_price list \<times> venue_caches" where
  "query_prices env self mint c = query_venues env self mint (sn_enabled_venues self) c"

definition priced_venues :: "venue_price list \<Rightarrow> nat" where
  "priced_venues vps =
     length (filter (\<lambda>p. f_lt (Fin 0) (case vp_sol_per_token p of Some x \<Rightarrow> x | None \<Rightarrow> Fin 0)) vps)"

text \<open>The slot of a scan: the stream's, or one RPC answer, which counts as zero when it fails.\<close>

definition snapshot_slot :: "geyser_cache \<Rightarrow> u64 option \<Rightarrow> u64" where
  "snapshot_slot gc slot_answer =
     (if 0 < gc_latest_slot gc then gc_latest_slot gc else case_option 0 id slot_answer)"

definition scan_fetch_bins :: "scan_env \<Rightarrow> string \<Rightarrow> dlmm_bin list client_result" where
  "scan_fetch_bins env =
     (let d = se_dlmm env in fetch_bins_fresh (dv_pda d) (dv_parse d) (dv_show d) (dv_geyser d) (dv_rpc d))"

definition scan_inner :: "scan_env \<Rightarrow> scanner \<Rightarrow> string \<Rightarrow> string \<Rightarrow> u64 \<Rightarrow> venue_caches
    \<Rightarrow> opportunity list client_result \<times> venue_caches" where
  "scan_inner env self mint source slot c =
     (let (venue_prices, c1) = query_prices env self mint c in
      (build_opps_from_prices self (scan_fetch_bins env) (0 < gc_latest_slot (dv_geyser (se_dlmm env))) mint source slot
         venue_prices, c1))"

definition scan_by_mint :: "scan_env \<Rightarrow> u64 option \<Rightarrow> scanner \<Rightarrow> string \<Rightarrow> venue_caches
    \<Rightarrow> opportunity list client_result \<times> venue_caches" where
  "scan_by_mint env slot_answer self mint c =
     scan_inner env self mint ''scanner'' (snapshot_slot (dv_geyser (se_dlmm env)) slot_answer) c"

definition is_single_venue_rpc :: "scan_env \<Rightarrow> scanner \<Rightarrow> string \<Rightarrow> venue_caches \<Rightarrow> bool \<times> venue_caches" where
  "is_single_venue_rpc env self mint c =
     (let (venue_prices, c1) = query_prices env self mint c in (priced_venues venue_prices < 2, c1))"

definition scan_and_check_single :: "scan_env \<Rightarrow> u64 option \<Rightarrow> scanner \<Rightarrow> string \<Rightarrow> venue_caches
    \<Rightarrow> (opportunity list client_result \<times> bool) \<times> venue_caches" where
  "scan_and_check_single env slot_answer self mint c =
     (let slot = snapshot_slot (dv_geyser (se_dlmm env)) slot_answer;
          (venue_prices, c1) = query_prices env self mint c in
      ((build_opps_from_prices self (scan_fetch_bins env) (0 < gc_latest_slot (dv_geyser (se_dlmm env))) mint ''scanner'' slot
          venue_prices, priced_venues venue_prices < 2), c1))"

end
