(* ===== verification/Bot_Builders.thy ===== *)
theory Bot_Builders
  imports Bot_Prices Client_Generic
begin

text \<open>
  The pair builders of \<open>executor/atomic/\<close> and their dispatch, \<open>build_atomic_arbitrage_tx\<close> in \<open>mod.rs\<close>:
  from an opportunity to the transaction that is submitted. A builder is a function of the process-wide
  caches (\<open>build_state\<close>) that returns its result and the caches it leaves. The chain is the view of
  \<open>scan_env\<close>; one builder runs at one instant, so what two readers ask at the same time is answered
  alike. \<open>bu_compile\<close> is the SDK's \<open>Message::try_compile\<close> followed by signing: a transaction is its message,
  and the two compute budget instructions are the SDK's. \<open>bu_slot\<close> is \<open>get_slot\<close> with its default
  of zero, \<open>bu_table\<close> the lookup table the RPC and the SDK's parser deliver for a key.
\<close>

section \<open>State, environment and the \<open>?\<close> operator\<close>

record build_state =
  bd_caches :: venue_caches
  bd_pool_meta :: "pubkey \<rightharpoonup> pool_meta"
  bd_token_programs :: "string \<rightharpoonup> pubkey"
  bd_alt :: "(pubkey \<times> table_account \<times> u64) option"
  bd_fee_recipient :: "pubkey option"
  bd_tip_tables :: "pubkey \<rightharpoonup> pubkey list"

record build_env =
  bu_scan :: scan_env
  bu_wallet :: pubkey
  bu_slot :: u64
  bu_table :: "pubkey \<Rightarrow> table_account option"
  bu_table_data :: "pubkey \<Rightarrow> byte list option"
  bu_blockhash :: "(pubkey \<times> u64) option"
  bu_cu_price :: "u64 \<Rightarrow> instruction"
  bu_cu_limit :: "u32 \<Rightarrow> instruction"
  bu_compile :: "pubkey \<Rightarrow> instruction list \<Rightarrow> table_account list \<Rightarrow> byte list \<Rightarrow> message_v0 client_result"

abbreviation bu_pda :: "build_env \<Rightarrow> pda_fn" where "bu_pda env \<equiv> dv_pda (se_dlmm (bu_scan env))"
abbreviation bu_parse :: "build_env \<Rightarrow> parse_key" where "bu_parse env \<equiv> dv_parse (se_dlmm (bu_scan env))"
abbreviation bu_show :: "build_env \<Rightarrow> show_key" where "bu_show env \<equiv> dv_show (se_dlmm (bu_scan env))"
abbreviation bu_rpc :: "build_env \<Rightarrow> rpc_view" where "bu_rpc env \<equiv> dv_rpc (se_dlmm (bu_scan env))"
abbreviation bu_geyser :: "build_env \<Rightarrow> geyser_cache" where "bu_geyser env \<equiv> dv_geyser (se_dlmm (bu_scan env))"
abbreviation bu_now :: "build_env \<Rightarrow> nat" where "bu_now env \<equiv> se_now (bu_scan env)"

text \<open>The arguments all pair builders share.\<close>

record build_job =
  jb_opp :: opportunity
  jb_config :: app_config
  jb_sol_mint :: pubkey
  jb_meme_mint :: pubkey
  jb_token_program :: pubkey
  jb_sol_token_program :: pubkey
  jb_user_sol_ata :: pubkey
  jb_user_meme_ata :: pubkey
  jb_investment :: u64
  jb_blockhash :: pubkey

type_synonym 'a step = "build_state \<Rightarrow> 'a client_result \<times> build_state"

definition bthen :: "'a step \<Rightarrow> ('a \<Rightarrow> 'b step) \<Rightarrow> 'b step" where
  "bthen m f st =
     (case m st of (Ok x, st1) \<Rightarrow> f x st1 | (Err e, st1) \<Rightarrow> (Err e, st1) | (Panic, st1) \<Rightarrow> (Panic, st1))"

definition lift :: "'a client_result \<Rightarrow> 'a step" where
  "lift r st = (r, st)"

lemma bthen_Ok_iff [outcome_simps]:
  "fst (bthen m f st) = Ok y \<longleftrightarrow> (\<exists>x. fst (m st) = Ok x \<and> fst (f x (snd (m st))) = Ok y)"
  by (auto simp: bthen_def split: prod.splits outcome.splits)

lemma lift_simps [simp]: "fst (lift r st) = r" "snd (lift r st) = st"
  by (simp_all add: lift_def)

lemma bthen_simps [simp]:
  "bthen (lift (Ok x)) f = f x" "bthen (lift (Err e)) f = lift (Err e)" "bthen (lift Panic) f = lift Panic"
  by (auto simp: bthen_def lift_def)

section \<open>What the builders read\<close>

definition detect_token_program :: "build_env \<Rightarrow> pubkey \<Rightarrow> pubkey step" where
  "detect_token_program env mint st =
     (let key = bu_show env mint in
      case bd_token_programs st key of
        Some tp \<Rightarrow> (Ok tp, st)
      | None \<Rightarrow>
          (case rv_account (bu_rpc env) mint of
             None \<Rightarrow> (Err (Failed ''get_account''), st)
           | Some account \<Rightarrow>
               (let token22 = pubkey_lit TOKEN22_PROGRAM; token = pubkey_lit TOKEN_PROGRAM;
                    tp = (if on_owner account = token22 then token22 else token) in
                (Ok tp, st\<lparr>bd_token_programs := (bd_token_programs st)(key \<mapsto> tp)\<rparr>))))"

definition resolve_pool :: "build_env \<Rightarrow> build_job \<Rightarrow> pubkey step" where
  "resolve_pool env j st =
     (let (found, pump) = resolve_pumpswap_pool_address (bu_pda env) (bu_parse env) (bu_rpc env)
            (bu_show env (jb_meme_mint j)) (vc_pump (bd_caches st)) in
      (ok_or found (Failed ''pool address not found''), st\<lparr>bd_caches := (bd_caches st)\<lparr>vc_pump := pump\<rparr>\<rparr>))"

text \<open>\<open>fetch_pumpswap_meta_and_reserves\<close>: the metadata from its cache or the pool account, then the two vaults.
  A vault shorter than a token account is a slice out of range.\<close>

definition pumpswap_meta :: "build_env \<Rightarrow> pubkey \<Rightarrow> pool_meta step" where
  "pumpswap_meta env pool st =
     (case bd_pool_meta st pool of
        Some m \<Rightarrow> (Ok m, st)
      | None \<Rightarrow>
          (case rv_account (bu_rpc env) pool of
             None \<Rightarrow> (Err (Failed ''fetch pumpswap pool account''), st)
           | Some account \<Rightarrow>
               (case parse_pumpswap_pool_meta (on_data account) of
                  None \<Rightarrow> (Err (Failed ''parse pumpswap pool metadata''), st)
                | Some m \<Rightarrow> (Ok m, st\<lparr>bd_pool_meta := (bd_pool_meta st)(pool \<mapsto> m)\<rparr>))))"

definition parse_spl_token_amount :: "byte list \<Rightarrow> u64 client_result" where
  "parse_spl_token_amount data = (if length data < 72 then Panic else Ok (u64_at data 64))"

definition read_pubkey_at :: "byte list \<Rightarrow> nat \<Rightarrow> pubkey client_result" where
  "read_pubkey_at data off = (if length data < off + 32 then Panic else Ok (key_at data off))"

definition pumpswap_vault_reserves :: "build_env \<Rightarrow> pool_meta \<Rightarrow> (u64 \<times> u64) client_result" where
  "pumpswap_vault_reserves env meta =
     and_then (ok_or (rv_account (bu_rpc env) (pm_pool_base_token_account meta)) (Failed ''base vault read'')) (\<lambda>base.
     and_then (ok_or (rv_account (bu_rpc env) (pm_pool_quote_token_account meta)) (Failed ''quote vault read'')) (\<lambda>quote.
     and_then (parse_spl_token_amount (on_data base)) (\<lambda>base_amount.
     and_then (parse_spl_token_amount (on_data quote)) (\<lambda>quote_amount.
     and_then (read_pubkey_at (on_data base) 0) (\<lambda>base_mint.
     and_then (read_pubkey_at (on_data quote) 0) (\<lambda>quote_mint.
     if bu_show env base_mint = NATIVE_SOL_MINT_C then Ok (base_amount, quote_amount)
     else if bu_show env quote_mint = NATIVE_SOL_MINT_C then Ok (quote_amount, base_amount)
     else Err (Failed ''PumpSwap pool not SOL-denominated'')))))))"

definition fetch_pumpswap_meta_and_reserves :: "build_env \<Rightarrow> pubkey \<Rightarrow> (pool_meta \<times> u64 \<times> u64) step" where
  "fetch_pumpswap_meta_and_reserves env pool =
     bthen (pumpswap_meta env pool) (\<lambda>meta.
     bthen (lift (pumpswap_vault_reserves env meta)) (\<lambda>(sol_res, tok_res).
     lift (Ok (meta, sol_res, tok_res))))"

definition cached_dlmm :: "build_env \<Rightarrow> build_job \<Rightarrow> dlmm_pool step" where
  "cached_dlmm env j st =
     (ok_or (get_dlmm_reserves (bu_now env) NATIVE_SOL_MINT_C (op_token_mint (jb_opp j))
         (dc_reserves (vc_dlmm (bd_caches st)))) (Failed ''DLMM reserves not cached''), st)"

definition cached_whirlpool :: "build_env \<Rightarrow> build_job \<Rightarrow> dlmm_pool step" where
  "cached_whirlpool env j st =
     (ok_or (get_whirlpool_reserves (bu_now env) (bu_show env (jb_sol_mint j)) (bu_show env (jb_meme_mint j))
         (vc_whirlpool (bd_caches st))) (Failed ''Whirlpool reserves not cached''), st)"

definition cached_cpmm :: "build_env \<Rightarrow> build_job \<Rightarrow> pool_state_data step" where
  "cached_cpmm env j st =
     (let pools = vc_cpmm (bd_caches st); meme = bu_show env (jb_meme_mint j);
          found = (case get_pool_state (bu_now env) (bu_show env (jb_sol_mint j)) meme pools of
              Some s \<Rightarrow> Some s
            | None \<Rightarrow> pool_state_by_mint (bu_now env) meme pools (se_cpmm_order (bu_scan env))) in
      (ok_or found (Failed ''CPMM pool state not cached''), st))"

text \<open>The SOL side first.\<close>

definition cpmm_sides :: "build_env \<Rightarrow> build_job \<Rightarrow> pool_state_data \<Rightarrow> u64 \<times> u64" where
  "cpmm_sides env j s =
     (if ps_token_0_mint s = bu_show env (jb_sol_mint j) then (ps_token_0_vault_raw s, ps_token_1_vault_raw s)
      else (ps_token_1_vault_raw s, ps_token_0_vault_raw s))"

definition whirlpool_sides :: "build_env \<Rightarrow> build_job \<Rightarrow> dlmm_pool \<Rightarrow> u64 \<times> u64" where
  "whirlpool_sides env j r =
     (if dp_token_x_mint r = bu_show env (jb_sol_mint j) then (dp_reserve_x r, dp_reserve_y r)
      else (dp_reserve_y r, dp_reserve_x r))"

definition dlmm_sides :: "dlmm_pool \<Rightarrow> u64 \<times> u64" where
  "dlmm_sides d =
     (if dp_token_x_mint d = NATIVE_SOL_MINT_C then (dp_reserve_x d, dp_reserve_y d)
      else (dp_reserve_y d, dp_reserve_x d))"

section \<open>What the builders compute\<close>

text \<open>The two ways the investment is capped to a third of the pool's SOL.\<close>

definition cap_third :: "u64 \<Rightarrow> u64 \<Rightarrow> u64" where
  "cap_third r investment = (if 0 < r \<and> r div 3 < investment then r div 3 else investment)"

definition cap_min :: "u64 \<Rightarrow> u64 \<Rightarrow> u64" where
  "cap_min r investment = min investment (max (r div 3) 1)"

definition slippage_of :: "build_job \<Rightarrow> u64 \<Rightarrow> u64 \<Rightarrow> f64" where
  "slippage_of j amount reserve =
     compute_effective_slippage amount reserve (rc_slippage_tolerance_bps (ac_risk (jb_config j)))"

definition dlmm_fee :: "build_job \<Rightarrow> f64" where
  "dlmm_fee j = f_div (f64_of_nat (unat (op_dlmm_fee_bps (jb_opp j)))) (Fin 10000)"

definition fresh_net :: "build_job \<Rightarrow> u64 \<Rightarrow> f64" where
  "fresh_net j sol_out =
     (let cu_cost_sol = compute_cu_cost_sol (sc_compute_unit_price_micro_lamports (ac_scanner (jb_config j)))
            (sc_compute_unit_limit (ac_scanner (jb_config j)));
          fresh_gross = f_sub (f_div (f64_of_u64 sol_out) (Fin 1000000000)) (op_investment_sol (jb_opp j)) in
      f_sub fresh_gross cu_cost_sol)"

definition check_fresh :: "build_job \<Rightarrow> u64 \<Rightarrow> unit client_result" where
  "check_fresh j sol_out =
     fail_if (f_lt (fresh_net j sol_out) (rc_min_profit_threshold_sol (ac_risk (jb_config j)))) (Failed ''R2-M01 reject'')"

definition check_floor :: "build_job \<Rightarrow> u64 \<Rightarrow> unit client_result" where
  "check_floor j sol_out =
     fail_if (f_lt (fresh_net j sol_out) (f_mul (op_net_profit_sol (jb_opp j)) (Fin (1 / 2))))
       (Failed ''R2-M01 reject: below half of the original net'')"

section \<open>Assembly\<close>

definition alt_table :: "build_env \<Rightarrow> pubkey \<Rightarrow> table_account step" where
  "alt_table env alt_addr st =
     (let (cache, r) = get_alt (bu_slot env) (bu_table env alt_addr) (bd_alt st) alt_addr in (r, st\<lparr>bd_alt := cache\<rparr>))"

definition compile_tx :: "build_env \<Rightarrow> build_job \<Rightarrow> instruction list \<Rightarrow> message_v0 step" where
  "compile_tx env j ixs =
     bthen (lift (ok_or (er_onchain_arb_alt (ac_routing (jb_config j))) (Failed ''onchain_arb_alt not configured''))) (\<lambda>alt_str.
     bthen (lift (key_or_err (bu_parse env) alt_str)) (\<lambda>alt_addr.
     bthen (alt_table env alt_addr) (\<lambda>alt.
     lift (bu_compile env (bu_wallet env) ixs [alt] (key_bytes (jb_blockhash j))))))"

definition budget_ixs :: "build_env \<Rightarrow> build_job \<Rightarrow> instruction list" where
  "budget_ixs env j =
     [bu_cu_price env (sc_compute_unit_price_micro_lamports (ac_scanner (jb_config j))),
      bu_cu_limit env (sc_compute_unit_limit (ac_scanner (jb_config j)))]"

definition meme_ata :: "build_env \<Rightarrow> build_job \<Rightarrow> pubkey" where
  "meme_ata env j = ata_addr (bu_pda env) (bu_wallet env) (jb_meme_mint j) (jb_token_program j)"

definition onchain_ixs :: "build_env \<Rightarrow> build_job \<Rightarrow> instruction \<Rightarrow> instruction list" where
  "onchain_ixs env j arb_ix =
     budget_ixs env j
     @ [create_ata_idempotent_ix_v2 (bu_wallet env) (meme_ata env j) (bu_wallet env) (jb_meme_mint j) (jb_token_program j),
        arb_ix]"

text \<open>The end of the ten generic builders: the route instruction with a demanded profit of one lamport, and
  the transaction around it.\<close>

definition finish_generic :: "build_env \<Rightarrow> build_job \<Rightarrow> u64 \<Rightarrow> u64 \<Rightarrow> byte \<Rightarrow> byte
    \<Rightarrow> cpmm_section option \<Rightarrow> whirlpool_section option \<Rightarrow> pumpswap_section option \<Rightarrow> dlmm_section option
    \<Rightarrow> cpmm_section option \<Rightarrow> whirlpool_section option \<Rightarrow> pumpswap_section option \<Rightarrow> dlmm_section option
    \<Rightarrow> byte \<Rightarrow> byte \<Rightarrow> bool \<Rightarrow> u64 \<Rightarrow> u64 \<Rightarrow> (message_v0 \<times> u64 \<times> u64) step" where
  "finish_generic env j investment min_meme buy_kind sell_kind bc bw bp bd sc sw sp sd buy_remaining sell_remaining
      sol_is_x est_meme est_sol =
     bthen (lift (build_generic_route (bu_pda env) (bu_parse env) (bu_wallet env) (jb_user_sol_ata j) (meme_ata env j)
         (jb_meme_mint j) (jb_sol_mint j) investment min_meme 1 buy_kind sell_kind bc bw bp bd sc sw sp sd
         buy_remaining sell_remaining sol_is_x (jb_token_program j) (jb_sol_token_program j)
         (er_onchain_program_id (ac_routing (jb_config j))))) (\<lambda>arb_ix.
     bthen (compile_tx env j (onchain_ixs env j arb_ix)) (\<lambda>tx.
     lift (Ok (tx, est_meme, est_sol))))"

section \<open>The generic builders\<close>

type_synonym built = "message_v0 \<times> u64 \<times> u64"

definition build_onchain_cpmm_to_whirlpool_tx :: "build_env \<Rightarrow> build_job \<Rightarrow> built step" where
  "build_onchain_cpmm_to_whirlpool_tx env j =
     bthen (cached_cpmm env j) (\<lambda>cpmm_state.
     bthen (cached_whirlpool env j) (\<lambda>wp_reserves.
     let (cpmm_sol, cpmm_meme) = cpmm_sides env j cpmm_state;
         (wp_sol, wp_meme) = whirlpool_sides env j wp_reserves;
         investment = jb_investment j in
     bthen (lift (ok_or (checked_cp_swap_output cpmm_sol cpmm_meme investment CPMM_DEFAULT_TRADE_FEE_RATE)
         (Failed ''CPMM buy overflow''))) (\<lambda>meme_out_est.
     let min_meme_out = min_out_of meme_out_est (slippage_of j investment cpmm_sol) in
     bthen (lift (ok_or (checked_cp_swap_output wp_meme wp_sol min_meme_out (ucast (dp_fee_rate wp_reserves)))
         (Failed ''Whirlpool sell overflow''))) (\<lambda>sol_out_est.
     bthen (lift (check_fresh j sol_out_est)) (\<lambda>_.
     bthen (lift (cpmm_section_data (bu_parse env) cpmm_state)) (\<lambda>cpmm_buy.
     bthen (lift (whirlpool_section_data (bu_pda env) (bu_parse env) wp_reserves)) (\<lambda>wp_sell.
     finish_generic env j investment min_meme_out DEX_KIND_CPMM_C DEX_KIND_WHIRLPOOL_C
       (Some cpmm_buy) None None None None (Some wp_sell) None None 0 0 True meme_out_est sol_out_est)))))))"

definition build_onchain_whirlpool_to_cpmm_tx :: "build_env \<Rightarrow> build_job \<Rightarrow> built step" where
  "build_onchain_whirlpool_to_cpmm_tx env j =
     bthen (cached_cpmm env j) (\<lambda>cpmm_state.
     bthen (cached_whirlpool env j) (\<lambda>wp_reserves.
     let (cpmm_sol, cpmm_meme) = cpmm_sides env j cpmm_state;
         (wp_sol, wp_meme) = whirlpool_sides env j wp_reserves;
         investment = cap_third wp_sol (jb_investment j) in
     bthen (lift (ok_or (checked_cp_swap_output wp_sol wp_meme investment (ucast (dp_fee_rate wp_reserves)))
         (Failed ''Whirlpool buy overflow''))) (\<lambda>meme_out_est.
     let min_meme_out = min_out_of meme_out_est (slippage_of j investment wp_sol) in
     bthen (lift (ok_or (checked_cp_swap_output cpmm_meme cpmm_sol min_meme_out CPMM_DEFAULT_TRADE_FEE_RATE)
         (Failed ''CPMM sell overflow''))) (\<lambda>sol_out_est.
     bthen (lift (check_fresh j sol_out_est)) (\<lambda>_.
     bthen (lift (whirlpool_section_data (bu_pda env) (bu_parse env) wp_reserves)) (\<lambda>wp_buy.
     bthen (lift (cpmm_section_data (bu_parse env) cpmm_state)) (\<lambda>cpmm_sell.
     finish_generic env j investment min_meme_out DEX_KIND_WHIRLPOOL_C DEX_KIND_CPMM_C
       None (Some wp_buy) None None (Some cpmm_sell) None None None 0 0 True meme_out_est sol_out_est)))))))"

definition build_onchain_pump_to_cpmm_tx :: "build_env \<Rightarrow> build_job \<Rightarrow> built step" where
  "build_onchain_pump_to_cpmm_tx env j =
     bthen (resolve_pool env j) (\<lambda>pool.
     bthen (fetch_pumpswap_meta_and_reserves env pool) (\<lambda>(pool_meta, fresh_sol_res, fresh_tok_res).
     bthen (cached_cpmm env j) (\<lambda>cpmm_state.
     let (cpmm_sol, cpmm_meme) = cpmm_sides env j cpmm_state;
         investment = cap_min fresh_sol_res (jb_investment j);
         fee_bps = dc_pumpswap_fee_bps (ac_dex (jb_config j)) in
     bthen (lift (ok_or (checked_pumpswap_buy_output investment fresh_sol_res fresh_tok_res fee_bps)
         (Failed ''PumpSwap buy overflow''))) (\<lambda>meme_out_est.
     let min_meme_out = min_out_of meme_out_est (slippage_of j investment fresh_sol_res) in
     bthen (lift (ok_or (checked_cp_swap_output cpmm_meme cpmm_sol min_meme_out CPMM_DEFAULT_TRADE_FEE_RATE)
         (Failed ''CPMM sell overflow''))) (\<lambda>sol_out_est.
     bthen (lift (check_fresh j sol_out_est)) (\<lambda>_.
     bthen (lift (pumpswap_section_data pool_meta pool)) (\<lambda>pump_data.
     bthen (lift (cpmm_section_data (bu_parse env) cpmm_state)) (\<lambda>cpmm_data.
     finish_generic env j investment min_meme_out DEX_KIND_PUMPSWAP_C DEX_KIND_CPMM_C
       None None (Some pump_data) None (Some cpmm_data) None None None (ss_remaining_count pump_data) 0 True
       meme_out_est sol_out_est))))))))"

definition build_onchain_cpmm_to_pump_tx :: "build_env \<Rightarrow> build_job \<Rightarrow> built step" where
  "build_onchain_cpmm_to_pump_tx env j =
     bthen (cached_cpmm env j) (\<lambda>cpmm_state.
     bthen (resolve_pool env j) (\<lambda>pool.
     bthen (fetch_pumpswap_meta_and_reserves env pool) (\<lambda>(pool_meta, fresh_sol_res, fresh_tok_res).
     let (cpmm_sol, cpmm_meme) = cpmm_sides env j cpmm_state;
         investment = jb_investment j;
         fee_bps = dc_pumpswap_fee_bps (ac_dex (jb_config j)) in
     bthen (lift (ok_or (checked_cp_swap_output cpmm_sol cpmm_meme investment CPMM_DEFAULT_TRADE_FEE_RATE)
         (Failed ''CPMM buy overflow''))) (\<lambda>meme_out_est.
     let min_meme_out = min_out_of meme_out_est (slippage_of j investment cpmm_sol) in
     bthen (lift (ok_or (checked_pumpswap_sell_output min_meme_out fresh_tok_res fresh_sol_res fee_bps)
         (Failed ''PumpSwap sell overflow''))) (\<lambda>sol_out_est.
     bthen (lift (check_fresh j sol_out_est)) (\<lambda>_.
     bthen (lift (cpmm_section_data (bu_parse env) cpmm_state)) (\<lambda>cpmm_data.
     bthen (lift (pumpswap_section_data pool_meta pool)) (\<lambda>pump_data.
     finish_generic env j investment min_meme_out DEX_KIND_CPMM_C DEX_KIND_PUMPSWAP_C
       (Some cpmm_data) None None None None None (Some pump_data) None 0 (ss_remaining_count pump_data) True
       meme_out_est sol_out_est))))))))"

definition build_onchain_dlmm_to_whirlpool_tx :: "build_env \<Rightarrow> build_job \<Rightarrow> built step" where
  "build_onchain_dlmm_to_whirlpool_tx env j =
     bthen (cached_dlmm env j) (\<lambda>dlmm.
     bthen (cached_whirlpool env j) (\<lambda>wp_reserves.
     bthen (lift (scan_fetch_bins (bu_scan env) (dp_lb_pair dlmm))) (\<lambda>fresh_bins.
     let sol_is_x = (dp_token_x_mint dlmm = NATIVE_SOL_MINT_C);
         investment = jb_investment j;
         meme_out_est = de_out (estimate_dlmm_swap_output_full fresh_bins investment sol_is_x (dlmm_fee j)) in
     bthen (lift (fail_if (meme_out_est = 0) (Failed ''DLMM estimate returned 0''))) (\<lambda>_.
     let min_meme_out = min_out_of meme_out_est
           (slippage_of j investment (if sol_is_x then dp_reserve_x dlmm else dp_reserve_y dlmm));
         (wp_sol, wp_meme) = whirlpool_sides env j wp_reserves in
     bthen (lift (ok_or (checked_cp_swap_output wp_meme wp_sol min_meme_out (ucast (dp_fee_rate wp_reserves)))
         (Failed ''Whirlpool sell overflow''))) (\<lambda>sol_out_est.
     bthen (lift (check_fresh j sol_out_est)) (\<lambda>_.
     bthen (lift (dlmm_section_data (bu_pda env) (bu_parse env) dlmm (jb_token_program j))) (\<lambda>dlmm_data.
     bthen (lift (whirlpool_section_data (bu_pda env) (bu_parse env) wp_reserves)) (\<lambda>wp_data.
     finish_generic env j investment min_meme_out DEX_KIND_DLMM_C DEX_KIND_WHIRLPOOL_C
       None None None (Some dlmm_data) None (Some wp_data) None None (ds_bin_count dlmm_data) 0 sol_is_x
       meme_out_est sol_out_est))))))))"

text \<open>Two builders sell into a DLMM pool and take half of the token amount for the lamports when the bins
  give nothing.\<close>

definition sell_estimate_or_half :: "u64 \<Rightarrow> u64 \<Rightarrow> u64" where
  "sell_estimate_or_half est_out min_meme = (if est_out = 0 then min_meme div 2 else est_out)"

definition build_onchain_whirlpool_to_dlmm_tx :: "build_env \<Rightarrow> build_job \<Rightarrow> built step" where
  "build_onchain_whirlpool_to_dlmm_tx env j =
     bthen (cached_whirlpool env j) (\<lambda>wp_reserves.
     bthen (cached_dlmm env j) (\<lambda>dlmm.
     let (wp_sol, wp_meme) = whirlpool_sides env j wp_reserves;
         investment = cap_min wp_sol (jb_investment j) in
     bthen (lift (ok_or (checked_cp_swap_output wp_sol wp_meme investment (ucast (dp_fee_rate wp_reserves)))
         (Failed ''Whirlpool buy overflow''))) (\<lambda>meme_out_est.
     let min_meme_out = min_out_of meme_out_est (slippage_of j investment wp_sol) in
     bthen (lift (scan_fetch_bins (bu_scan env) (dp_lb_pair dlmm))) (\<lambda>fresh_bins.
     let sol_is_x = (dp_token_x_mint dlmm = NATIVE_SOL_MINT_C);
         dlmm_est = estimate_dlmm_swap_output_full fresh_bins min_meme_out (\<not> sol_is_x) (dlmm_fee j);
         sol_out_est = sell_estimate_or_half (de_out dlmm_est) min_meme_out in
     bthen (lift (check_fresh j sol_out_est)) (\<lambda>_.
     bthen (lift (whirlpool_section_data (bu_pda env) (bu_parse env) wp_reserves)) (\<lambda>wp_data.
     bthen (lift (dlmm_section_data (bu_pda env) (bu_parse env) dlmm (jb_token_program j))) (\<lambda>dlmm_data.
     finish_generic env j investment min_meme_out DEX_KIND_WHIRLPOOL_C DEX_KIND_DLMM_C
       None (Some wp_data) None None None None None (Some dlmm_data) 0 (ds_bin_count dlmm_data) True
       meme_out_est sol_out_est)))))))"

definition build_onchain_pump_to_whirlpool_tx :: "build_env \<Rightarrow> build_job \<Rightarrow> built step" where
  "build_onchain_pump_to_whirlpool_tx env j =
     bthen (resolve_pool env j) (\<lambda>pool.
     bthen (fetch_pumpswap_meta_and_reserves env pool) (\<lambda>(pool_meta, fresh_sol, fresh_tok).
     bthen (cached_whirlpool env j) (\<lambda>wp.
     let (wp_sol, wp_meme) = whirlpool_sides env j wp;
         investment = cap_min fresh_sol (jb_investment j);
         fee_bps = dc_pumpswap_fee_bps (ac_dex (jb_config j)) in
     bthen (lift (ok_or (checked_pumpswap_buy_output investment fresh_sol fresh_tok fee_bps)
         (Failed ''PumpSwap buy overflow''))) (\<lambda>meme_out.
     let min_meme = min_out_of meme_out (slippage_of j investment fresh_sol) in
     bthen (lift (ok_or (checked_cp_swap_output wp_meme wp_sol min_meme (ucast (dp_fee_rate wp)))
         (Failed ''Whirlpool sell overflow''))) (\<lambda>sol_out.
     bthen (lift (check_fresh j sol_out)) (\<lambda>_.
     bthen (lift (pumpswap_section_data pool_meta pool)) (\<lambda>pd.
     bthen (lift (whirlpool_section_data (bu_pda env) (bu_parse env) wp)) (\<lambda>wd.
     finish_generic env j investment min_meme DEX_KIND_PUMPSWAP_C DEX_KIND_WHIRLPOOL_C
       None None (Some pd) None None (Some wd) None None (ss_remaining_count pd) 0 True meme_out sol_out))))))))"

definition build_onchain_whirlpool_to_pump_tx :: "build_env \<Rightarrow> build_job \<Rightarrow> built step" where
  "build_onchain_whirlpool_to_pump_tx env j =
     bthen (cached_whirlpool env j) (\<lambda>wp.
     bthen (resolve_pool env j) (\<lambda>pool.
     bthen (fetch_pumpswap_meta_and_reserves env pool) (\<lambda>(pool_meta, fresh_sol, fresh_tok).
     let (wp_sol, wp_meme) = whirlpool_sides env j wp;
         investment = cap_min wp_sol (jb_investment j);
         fee_bps = dc_pumpswap_fee_bps (ac_dex (jb_config j)) in
     bthen (lift (ok_or (checked_cp_swap_output wp_sol wp_meme investment (ucast (dp_fee_rate wp)))
         (Failed ''Whirlpool buy overflow''))) (\<lambda>meme_out.
     let min_meme = min_out_of meme_out (slippage_of j investment wp_sol) in
     bthen (lift (ok_or (checked_pumpswap_sell_output min_meme fresh_tok fresh_sol fee_bps)
         (Failed ''PumpSwap sell overflow''))) (\<lambda>sol_out.
     bthen (lift (check_fresh j sol_out)) (\<lambda>_.
     bthen (lift (whirlpool_section_data (bu_pda env) (bu_parse env) wp)) (\<lambda>wd.
     bthen (lift (pumpswap_section_data pool_meta pool)) (\<lambda>pd.
     finish_generic env j investment min_meme DEX_KIND_WHIRLPOOL_C DEX_KIND_PUMPSWAP_C
       None (Some wd) None None None None (Some pd) None 0 (ss_remaining_count pd) True meme_out sol_out))))))))"

definition build_onchain_cpmm_to_dlmm_tx :: "build_env \<Rightarrow> build_job \<Rightarrow> built step" where
  "build_onchain_cpmm_to_dlmm_tx env j =
     bthen (cached_cpmm env j) (\<lambda>cpmm.
     bthen (cached_dlmm env j) (\<lambda>dlmm.
     let (cpmm_sol, cpmm_meme) = cpmm_sides env j cpmm;
         investment = jb_investment j in
     bthen (lift (ok_or (checked_cp_swap_output cpmm_sol cpmm_meme investment CPMM_DEFAULT_TRADE_FEE_RATE)
         (Failed ''CPMM buy overflow''))) (\<lambda>meme_out.
     let min_meme = min_out_of meme_out (slippage_of j investment cpmm_sol) in
     bthen (lift (scan_fetch_bins (bu_scan env) (dp_lb_pair dlmm))) (\<lambda>fresh_bins.
     let sol_is_x = (dp_token_x_mint dlmm = NATIVE_SOL_MINT_C);
         dlmm_est = estimate_dlmm_swap_output_full fresh_bins min_meme (\<not> sol_is_x) (dlmm_fee j);
         sol_out = sell_estimate_or_half (de_out dlmm_est) min_meme in
     bthen (lift (check_fresh j sol_out)) (\<lambda>_.
     bthen (lift (cpmm_section_data (bu_parse env) cpmm)) (\<lambda>cd.
     bthen (lift (dlmm_section_data (bu_pda env) (bu_parse env) dlmm (jb_token_program j))) (\<lambda>dd.
     finish_generic env j investment min_meme DEX_KIND_CPMM_C DEX_KIND_DLMM_C
       (Some cd) None None None None None None (Some dd) 0 (ds_bin_count dd) True meme_out sol_out)))))))"

definition build_onchain_dlmm_to_cpmm_tx :: "build_env \<Rightarrow> build_job \<Rightarrow> built step" where
  "build_onchain_dlmm_to_cpmm_tx env j =
     bthen (cached_dlmm env j) (\<lambda>dlmm.
     bthen (cached_cpmm env j) (\<lambda>cpmm.
     let (cpmm_sol, cpmm_meme) = cpmm_sides env j cpmm;
         investment = jb_investment j in
     bthen (lift (scan_fetch_bins (bu_scan env) (dp_lb_pair dlmm))) (\<lambda>fresh_bins.
     let sol_is_x = (dp_token_x_mint dlmm = NATIVE_SOL_MINT_C);
         meme_out = de_out (estimate_dlmm_swap_output_full fresh_bins investment sol_is_x (dlmm_fee j)) in
     bthen (lift (fail_if (meme_out = 0) (Failed ''DLMM estimate 0''))) (\<lambda>_.
     let min_meme = min_out_of meme_out
           (slippage_of j investment (if sol_is_x then dp_reserve_x dlmm else dp_reserve_y dlmm)) in
     bthen (lift (ok_or (checked_cp_swap_output cpmm_meme cpmm_sol min_meme CPMM_DEFAULT_TRADE_FEE_RATE)
         (Failed ''CPMM sell overflow''))) (\<lambda>sol_out.
     bthen (lift (check_fresh j sol_out)) (\<lambda>_.
     bthen (lift (dlmm_section_data (bu_pda env) (bu_parse env) dlmm (jb_token_program j))) (\<lambda>dd.
     bthen (lift (cpmm_section_data (bu_parse env) cpmm)) (\<lambda>cd.
     finish_generic env j investment min_meme DEX_KIND_DLMM_C DEX_KIND_CPMM_C
       None None None (Some dd) (Some cd) None None None (ds_bin_count dd) 0 sol_is_x meme_out sol_out))))))))"

end
