(* ===== verification/Bot_Direct_Builders.thy ===== *)
theory Bot_Direct_Builders
  imports Bot_Builders Client_Routes
begin

text \<open>
  The builders between Pump.fun and DLMM: through the fixed routes of the on-chain program
  (\<open>builders_legacy.rs\<close>), and without the program, as a list of swaps, for a graduated token
  (\<open>pump_amm_to_dlmm.rs\<close>, \<open>dlmm_amm_to_pump.rs\<close>) and for one on its bonding curve
  (\<open>pump_bonding_to_dlmm.rs\<close>, \<open>dlmm_bonding_to_pump.rs\<close>). Then the dispatch over the venue pairs and the tip.
\<close>

section \<open>The fixed routes\<close>

definition build_onchain_pump_to_dlmm_tx :: "build_env \<Rightarrow> build_job \<Rightarrow> built step" where
  "build_onchain_pump_to_dlmm_tx env j =
     bthen (resolve_pool env j) (\<lambda>pool.
     bthen (cached_dlmm env j) (\<lambda>dlmm.
     bthen (fetch_pumpswap_meta_and_reserves env pool) (\<lambda>(pool_meta, fresh_sol_res, fresh_tok_res).
     bthen (lift (scan_fetch_bins (bu_scan env) (dp_lb_pair dlmm))) (\<lambda>fresh_bins.
     let investment = cap_third fresh_sol_res (jb_investment j) in
     bthen (lift (ok_or (checked_pumpswap_buy_output investment fresh_sol_res fresh_tok_res
           (dc_pumpswap_fee_bps (ac_dex (jb_config j)))) (Failed ''PumpSwap buy overflow''))) (\<lambda>meme_out_est.
     let min_meme_out = min_out_of meme_out_est (slippage_of j investment fresh_sol_res);
         is_x_to_y = (dp_token_x_mint dlmm = NATIVE_SOL_MINT_C);
         sol_out_est = de_out (estimate_dlmm_swap_output_full fresh_bins min_meme_out (\<not> is_x_to_y) (dlmm_fee j)) in
     bthen (lift (fail_if (sol_out_est = 0) (Failed ''DLMM bin estimate returned 0''))) (\<lambda>_.
     bthen (lift (check_fresh j sol_out_est)) (\<lambda>_.
     bthen (lift (build_route_pump_to_dlmm (bu_pda env) (bu_parse env) (bu_wallet env) (jb_user_sol_ata j) (meme_ata env j)
         (jb_meme_mint j) investment min_meme_out 1 dlmm pool_meta pool (jb_token_program j)
         (er_onchain_program_id (ac_routing (jb_config j))) 0)) (\<lambda>(arb_ix, _).
     bthen (compile_tx env j (onchain_ixs env j arb_ix)) (\<lambda>tx.
     lift (Ok (tx, meme_out_est, sol_out_est)))))))))))"

definition build_onchain_dlmm_to_pump_tx :: "build_env \<Rightarrow> build_job \<Rightarrow> built step" where
  "build_onchain_dlmm_to_pump_tx env j =
     bthen (resolve_pool env j) (\<lambda>pool.
     bthen (cached_dlmm env j) (\<lambda>dlmm.
     bthen (fetch_pumpswap_meta_and_reserves env pool) (\<lambda>(pool_meta, fresh_sol_res, fresh_tok_res).
     bthen (lift (scan_fetch_bins (bu_scan env) (dp_lb_pair dlmm))) (\<lambda>fresh_bins.
     let investment = cap_third fresh_sol_res (jb_investment j);
         sol_is_x = (dp_token_x_mint dlmm = NATIVE_SOL_MINT_C);
         meme_out_est = de_out (estimate_dlmm_swap_output_full fresh_bins investment sol_is_x (dlmm_fee j)) in
     bthen (lift (fail_if (meme_out_est = 0) (Failed ''DLMM bin estimate returned 0''))) (\<lambda>_.
     let min_meme_out = min_out_of meme_out_est (slippage_of j investment (fst (dlmm_sides dlmm)));
         min_sol_out = 1 in
     bthen (lift (ok_or (checked_pumpswap_sell_output min_meme_out fresh_tok_res fresh_sol_res
           (dc_pumpswap_fee_bps (ac_dex (jb_config j)))) (Failed ''PumpSwap sell overflow''))) (\<lambda>sol_out_est.
     bthen (lift (check_fresh j sol_out_est)) (\<lambda>_.
     bthen (lift (check_floor j sol_out_est)) (\<lambda>_.
     bthen (lift (build_route_dlmm_to_pump (bu_pda env) (bu_parse env) (bu_wallet env) (jb_user_sol_ata j) (meme_ata env j)
         (jb_meme_mint j) investment min_sol_out 1 dlmm pool_meta pool (jb_token_program j)
         (er_onchain_program_id (ac_routing (jb_config j))) 0)) (\<lambda>(arb_ix, _).
     bthen (compile_tx env j (onchain_ixs env j arb_ix)) (\<lambda>tx.
     lift (Ok (tx, meme_out_est, sol_out_est))))))))))))"

section \<open>The direct swaps\<close>

text \<open>The DLMM swap, the same block in the four builders: token programs by the position of SOL, every bin
  array of the pool, no host fee account.\<close>

definition direct_dlmm_ix :: "build_env \<Rightarrow> build_job \<Rightarrow> dlmm_pool \<Rightarrow> pubkey \<Rightarrow> pubkey \<Rightarrow> u64 \<Rightarrow> u64
    \<Rightarrow> instruction client_result" where
  "direct_dlmm_ix env j dlmm token_in token_out amount_in min_out =
     (let parse_key = bu_parse env;
          program_of = (\<lambda>mint. if mint = NATIVE_SOL_MINT_C then jb_sol_token_program j else jb_token_program j);
          dlmm_program = pubkey_lit DLMM_PROGRAM in
      and_then (key_or_err parse_key (dp_lb_pair dlmm)) (\<lambda>lb_pair.
      and_then (key_or_err parse_key (dp_reserve_x_address dlmm)) (\<lambda>reserve_x.
      and_then (key_or_err parse_key (dp_reserve_y_address dlmm)) (\<lambda>reserve_y.
      and_then (key_or_err parse_key (dp_token_x_mint dlmm)) (\<lambda>token_x_mint.
      and_then (key_or_err parse_key (dp_token_y_mint dlmm)) (\<lambda>token_y_mint.
      let oracle = bu_pda env [byte_string ''oracle'', key_bytes lb_pair] dlmm_program in
      and_then (traverse (key_unwrap parse_key) (dp_bin_array_addresses dlmm)) (\<lambda>bin_ext.
      let bitmap_ext = Option.bind (dp_bin_array_bitmap_extension dlmm) parse_key in
      Ok (build_dlmm_swap2_ix (bu_wallet env) lb_pair bin_ext reserve_x reserve_y token_in token_out
            token_x_mint token_y_mint oracle (pubkey_lit DLMM_EVENT_AUTHORITY) amount_in min_out
            (program_of (dp_token_x_mint dlmm)) (program_of (dp_token_y_mint dlmm)) (pubkey_lit MEMO_PROGRAM)
            dlmm_program bitmap_ext None))))))))"

definition direct_prefix :: "build_env \<Rightarrow> build_job \<Rightarrow> instruction list" where
  "direct_prefix env j =
     budget_ixs env j
     @ [create_ata_idempotent_ix_v2 (bu_wallet env) (jb_user_sol_ata j) (bu_wallet env) (jb_sol_mint j) (jb_sol_token_program j),
        create_ata_idempotent_ix_v2 (bu_wallet env) (jb_user_meme_ata j) (bu_wallet env) (jb_meme_mint j) (jb_token_program j)]"

definition wrap_ixs :: "build_env \<Rightarrow> build_job \<Rightarrow> u64 \<Rightarrow> instruction list" where
  "wrap_ixs env j lamports =
     [system_transfer_ix (bu_wallet env) (jb_user_sol_ata j) lamports,
      sync_native_ix (jb_user_sol_ata j) (jb_sol_token_program j)]"

definition build_pumpswap_amm_buy_dlmm_sell :: "build_env \<Rightarrow> build_job \<Rightarrow> bonding_curve_state \<Rightarrow> message_v0 step" where
  "build_pumpswap_amm_buy_dlmm_sell env j bc =
     bthen (lift (key_or_err (bu_parse env) (bc_bonding_curve_address bc))) (\<lambda>pool.
     bthen (cached_dlmm env j) (\<lambda>dlmm.
     bthen (fetch_pumpswap_meta_and_reserves env pool) (\<lambda>(pool_meta, fresh_sol_res, fresh_tok_res).
     bthen (lift (scan_fetch_bins (bu_scan env) (dp_lb_pair dlmm))) (\<lambda>fresh_bins.
     let investment = jb_investment j in
     bthen (lift (ok_or (checked_pumpswap_buy_output investment fresh_sol_res fresh_tok_res
           (dc_pumpswap_fee_bps (ac_dex (jb_config j)))) (Failed ''PumpSwap buy overflow''))) (\<lambda>meme_out_est.
     let min_meme_out = min_out_of meme_out_est (slippage_of j investment fresh_sol_res);
         sell_amount = min_meme_out;
         sell_slippage = slippage_of j sell_amount (snd (dlmm_sides dlmm));
         is_x_to_y = (dp_token_x_mint dlmm = NATIVE_SOL_MINT_C);
         sol_out_est = client_dlmm_estimate fresh_bins sell_amount (\<not> is_x_to_y) (dlmm_fee j) in
     bthen (lift (fail_if (sol_out_est = 0) (Failed ''DLMM bin estimate returned 0''))) (\<lambda>_.
     let min_sol_out = min_out_of sol_out_est sell_slippage in
     bthen (lift (check_fresh j sol_out_est)) (\<lambda>_.
     bthen (lift (check_floor j sol_out_est)) (\<lambda>_.
     let buy_ix = build_pumpswap_buy_ix (bu_pda env) (bu_wallet env) pool (jb_meme_mint j) (jb_sol_mint j)
           (jb_user_meme_ata j) (jb_user_sol_ata j) (pm_pool_base_token_account pool_meta)
           (pm_pool_quote_token_account pool_meta) (jb_token_program j) (jb_sol_token_program j) investment min_meme_out
           True (pm_coin_creator pool_meta) (pm_is_cashback_coin pool_meta) (pubkey_lit PUMPSWAP_BUYBACK_FEE_RECIPIENT)
           (pick_pumpswap_protocol_fee_recipient (pm_is_mayhem_mode pool_meta)) in
     bthen (lift (direct_dlmm_ix env j dlmm (jb_user_meme_ata j) (jb_user_sol_ata j) sell_amount min_sol_out)) (\<lambda>sell_ix.
     compile_tx env j (direct_prefix env j @ wrap_ixs env j investment
       @ [buy_ix, sell_ix, close_wsol_ata_ix (jb_user_sol_ata j) (bu_wallet env) (jb_sol_token_program j)]))))))))))"

definition build_dlmm_buy_pumpswap_amm_sell :: "build_env \<Rightarrow> build_job \<Rightarrow> bonding_curve_state \<Rightarrow> dlmm_pool
    \<Rightarrow> message_v0 step" where
  "build_dlmm_buy_pumpswap_amm_sell env j bc dlmm =
     bthen (lift (key_or_err (bu_parse env) (bc_bonding_curve_address bc))) (\<lambda>pool.
     bthen (fetch_pumpswap_meta_and_reserves env pool) (\<lambda>(pool_meta, fresh_sol_res, fresh_tok_res).
     bthen (lift (scan_fetch_bins (bu_scan env) (dp_lb_pair dlmm))) (\<lambda>fresh_bins.
     let investment = jb_investment j;
         sol_is_x = (dp_token_x_mint dlmm = NATIVE_SOL_MINT_C);
         buy_slippage = slippage_of j investment (fst (dlmm_sides dlmm));
         meme_out_est = client_dlmm_estimate fresh_bins investment sol_is_x (dlmm_fee j) in
     bthen (lift (fail_if (meme_out_est = 0) (Failed ''DLMM bin estimate returned 0''))) (\<lambda>_.
     let min_meme_out = min_out_of meme_out_est buy_slippage;
         sell_amount = min_meme_out;
         sell_slippage = slippage_of j sell_amount fresh_tok_res in
     bthen (lift (ok_or (checked_pumpswap_sell_output sell_amount fresh_tok_res fresh_sol_res
           (dc_pumpswap_fee_bps (ac_dex (jb_config j)))) (Failed ''PumpSwap sell overflow''))) (\<lambda>sol_out_est.
     let min_sol_out = min_out_of sol_out_est sell_slippage in
     bthen (lift (check_fresh j sol_out_est)) (\<lambda>_.
     bthen (lift (check_floor j sol_out_est)) (\<lambda>_.
     bthen (lift (direct_dlmm_ix env j dlmm (jb_user_sol_ata j) (jb_user_meme_ata j) investment min_meme_out)) (\<lambda>buy_ix.
     let sell_ix = build_pumpswap_sell_ix (bu_pda env) (bu_wallet env) pool (jb_meme_mint j) (jb_sol_mint j)
           (jb_user_meme_ata j) (jb_user_sol_ata j) (pm_pool_base_token_account pool_meta)
           (pm_pool_quote_token_account pool_meta) (jb_token_program j) (jb_sol_token_program j) sell_amount min_sol_out
           (pm_coin_creator pool_meta) (pm_is_cashback_coin pool_meta) (pubkey_lit PUMPSWAP_BUYBACK_FEE_RECIPIENT)
           (pick_pumpswap_protocol_fee_recipient (pm_is_mayhem_mode pool_meta)) in
     compile_tx env j (direct_prefix env j @ wrap_ixs env j investment
       @ [buy_ix, sell_ix, close_wsol_ata_ix (jb_user_sol_ata j) (bu_wallet env) (jb_sol_token_program j)])))))))))"

text \<open>The fee recipient of the bonding curve program is cached for the life of the process.\<close>

definition resolve_pumpfun_fee_recipient :: "build_env \<Rightarrow> app_config \<Rightarrow> build_state \<Rightarrow> pubkey \<times> build_state" where
  "resolve_pumpfun_fee_recipient env config st =
     (case bd_fee_recipient st of
        Some pk \<Rightarrow> (pk, st)
      | None \<Rightarrow>
          (let addr_str = (case fetch_pumpfun_fee_recipient (bu_pda env) (bu_show env) (bu_rpc env) of
                 Some s \<Rightarrow> s | None \<Rightarrow> ab_pumpfun_fee_recipient (ac_arbitrage config));
               pk = (case bu_parse env addr_str of
                 Some k \<Rightarrow> k | None \<Rightarrow> pubkey_lit ''CebN5WGQ4jvEPvsVU4EoHEpgT1mKQ7AFUbxmAhvFUWrQ'') in
           (pk, st\<lparr>bd_fee_recipient := Some pk\<rparr>)))"

definition curve_of :: "build_env \<Rightarrow> build_job \<Rightarrow> bonding_curve_state step" where
  "curve_of env j st =
     (let sc = bu_scan env;
          (state, pump) = fetch_bonding_curve (bu_pda env) (bu_parse env) (bu_show env) (bu_geyser env) (bu_rpc env)
            (se_coin_v2 sc) (bu_now env) (op_token_mint (jb_opp j)) (vc_pump (bd_caches st)) in
      (ok_or state (Failed ''bonding curve not found''), st\<lparr>bd_caches := (bd_caches st)\<lparr>vc_pump := pump\<rparr>\<rparr>))"

definition fee_recipient_step :: "build_env \<Rightarrow> build_job \<Rightarrow> pubkey step" where
  "fee_recipient_step env j st =
     (let (pk, st1) = resolve_pumpfun_fee_recipient env (jb_config j) st in (Ok pk, st1))"

definition build_pumpswap_buy_dlmm_sell :: "build_env \<Rightarrow> build_job \<Rightarrow> message_v0 step" where
  "build_pumpswap_buy_dlmm_sell env j =
     bthen (cached_dlmm env j) (\<lambda>dlmm.
     bthen (curve_of env j) (\<lambda>bc.
     bthen (lift (scan_fetch_bins (bu_scan env) (dp_lb_pair dlmm))) (\<lambda>fresh_bins.
     if bc_venue_kind bc = PumpSwapPool then build_pumpswap_amm_buy_dlmm_sell env j bc
     else
       bthen (lift (key_or_err (bu_parse env) (bc_bonding_curve_address bc))) (\<lambda>bonding_curve.
       let bc_meme_ata = ata_addr (bu_pda env) bonding_curve (jb_meme_mint j) (jb_token_program j);
           investment = jb_investment j in
       bthen (fee_recipient_step env j) (\<lambda>fee_recipient.
       bthen (lift (estimate_pumpfun_buy_output investment (bc_virtual_sol_reserves bc) (bc_virtual_token_reserves bc)
           (dc_pumpfun_fee_bps (ac_dex (jb_config j))))) (\<lambda>meme_out_est.
       let min_meme_out = min_out_of meme_out_est (slippage_of j investment (bc_virtual_sol_reserves bc));
           (sol_reserve_for_sell, meme_reserve_for_sell) = dlmm_sides dlmm;
           sell_amount = meme_out_est;
           sell_slippage = slippage_of j sell_amount meme_reserve_for_sell;
           is_x_to_y = (dp_token_x_mint dlmm = NATIVE_SOL_MINT_C);
           bin_est = client_dlmm_estimate fresh_bins sell_amount (\<not> is_x_to_y) (dlmm_fee j) in
       bthen (lift (if bin_est = 0
           then estimate_swap_output meme_reserve_for_sell sol_reserve_for_sell sell_amount (dlmm_fee j)
           else Ok bin_est)) (\<lambda>sol_out_est.
       let min_sol_out = min_out_of sol_out_est sell_slippage;
           buy_ix = build_pumpfun_buy_ix (bu_pda env) (bu_wallet env) (jb_meme_mint j) bonding_curve bc_meme_ata
             (jb_user_meme_ata j) fee_recipient investment min_meme_out (jb_token_program j) in
       bthen (lift (direct_dlmm_ix env j dlmm (jb_user_meme_ata j) (jb_user_sol_ata j) sell_amount min_sol_out)) (\<lambda>sell_ix.
       compile_tx env j (direct_prefix env j @ [buy_ix, sell_ix])))))))))"

definition build_dlmm_buy_pumpswap_sell :: "build_env \<Rightarrow> build_job \<Rightarrow> message_v0 step" where
  "build_dlmm_buy_pumpswap_sell env j =
     bthen (cached_dlmm env j) (\<lambda>dlmm.
     bthen (curve_of env j) (\<lambda>bc.
     bthen (lift (scan_fetch_bins (bu_scan env) (dp_lb_pair dlmm))) (\<lambda>fresh_bins.
     if bc_venue_kind bc = PumpSwapPool then build_dlmm_buy_pumpswap_amm_sell env j bc dlmm
     else
       bthen (lift (key_or_err (bu_parse env) (bc_bonding_curve_address bc))) (\<lambda>bonding_curve.
       let bc_meme_ata = ata_addr (bu_pda env) bonding_curve (jb_meme_mint j) (jb_token_program j);
           investment = jb_investment j in
       bthen (fee_recipient_step env j) (\<lambda>fee_recipient.
       let sol_is_x = (dp_token_x_mint dlmm = NATIVE_SOL_MINT_C);
           (sol_reserve, meme_reserve_for_buy) = dlmm_sides dlmm;
           buy_slippage = slippage_of j investment sol_reserve;
           bin_est = client_dlmm_estimate fresh_bins investment sol_is_x (dlmm_fee j) in
       bthen (lift (if bin_est = 0
           then estimate_swap_output sol_reserve meme_reserve_for_buy investment (dlmm_fee j)
           else Ok bin_est)) (\<lambda>meme_out_est.
       let min_meme_out = min_out_of meme_out_est buy_slippage;
           sell_slippage = slippage_of j meme_out_est (bc_virtual_token_reserves bc) in
       bthen (lift (estimate_pumpfun_sell_output meme_out_est (bc_virtual_sol_reserves bc) (bc_virtual_token_reserves bc)
           (dc_pumpfun_fee_bps (ac_dex (jb_config j))))) (\<lambda>sol_out_est.
       let min_sol_out = min_out_of sol_out_est sell_slippage in
       bthen (lift (direct_dlmm_ix env j dlmm (jb_user_sol_ata j) (jb_user_meme_ata j) investment min_meme_out)) (\<lambda>buy_ix.
       let sell_ix = build_pumpfun_sell_ix (bu_pda env) (bu_wallet env) (jb_meme_mint j) bonding_curve bc_meme_ata
             (jb_user_meme_ata j) fee_recipient meme_out_est min_sol_out (jb_token_program j) in
       compile_tx env j (direct_prefix env j @ [buy_ix, sell_ix])))))))))"

section \<open>The dispatch\<close>

text \<open>The \<open>match\<close> over the venue pair. The direct builders report no estimates.\<close>

definition without_estimate :: "message_v0 step \<Rightarrow> built step" where
  "without_estimate m = bthen m (\<lambda>tx. lift (Ok (tx, 0, 0)))"

definition build_pair_tx :: "build_env \<Rightarrow> build_job \<Rightarrow> built step" where
  "build_pair_tx env j =
     (let onchain = should_use_onchain_program (op_token_mint (jb_opp j)) (ac_routing (jb_config j)) in
      case (op_buy_venue (jb_opp j), op_sell_venue (jb_opp j)) of
        (PumpSwapAmm, MeteoraDlmm) \<Rightarrow>
          if onchain then build_onchain_pump_to_dlmm_tx env j else without_estimate (build_pumpswap_buy_dlmm_sell env j)
      | (MeteoraDlmm, PumpSwapAmm) \<Rightarrow>
          if onchain then build_onchain_dlmm_to_pump_tx env j else without_estimate (build_dlmm_buy_pumpswap_sell env j)
      | (RaydiumCpmm, OrcaWhirlpool) \<Rightarrow> build_onchain_cpmm_to_whirlpool_tx env j
      | (OrcaWhirlpool, RaydiumCpmm) \<Rightarrow> build_onchain_whirlpool_to_cpmm_tx env j
      | (PumpSwapAmm, RaydiumCpmm) \<Rightarrow> build_onchain_pump_to_cpmm_tx env j
      | (RaydiumCpmm, PumpSwapAmm) \<Rightarrow> build_onchain_cpmm_to_pump_tx env j
      | (MeteoraDlmm, OrcaWhirlpool) \<Rightarrow> build_onchain_dlmm_to_whirlpool_tx env j
      | (OrcaWhirlpool, MeteoraDlmm) \<Rightarrow> build_onchain_whirlpool_to_dlmm_tx env j
      | (PumpSwapAmm, OrcaWhirlpool) \<Rightarrow> build_onchain_pump_to_whirlpool_tx env j
      | (OrcaWhirlpool, PumpSwapAmm) \<Rightarrow> build_onchain_whirlpool_to_pump_tx env j
      | (RaydiumCpmm, MeteoraDlmm) \<Rightarrow> build_onchain_cpmm_to_dlmm_tx env j
      | (MeteoraDlmm, RaydiumCpmm) \<Rightarrow> build_onchain_dlmm_to_cpmm_tx env j
      | _ \<Rightarrow> lift (Err (Failed ''unsupported venue pair for atomic TX'')))"

text \<open>The tip: the message is taken apart, the transfer appended, the whole compiled and signed again.\<close>

definition tip_step :: "build_env \<Rightarrow> message_v0 \<Rightarrow> message_v0 step" where
  "tip_step env tx st =
     (let (tables, alts) = get_alt_accounts_sync (bu_table_data env) (bd_tip_tables st) (mv_lookups tx) in
      (and_then (inject_jito_tip (bu_parse env) (bu_wallet env) tx alts) (\<lambda>instructions.
       bu_compile env (bu_wallet env) instructions alts (mv_recent_blockhash tx)),
       st\<lparr>bd_tip_tables := tables\<rparr>))"

record tx_estimate =
  te_invest_sol :: f64
  te_est_meme :: u64
  te_est_sol_out :: u64

definition choose_blockhash :: "build_env \<Rightarrow> (pubkey \<times> u64) client_result" where
  "choose_blockhash env =
     (case get_fresh_blockhash (bu_geyser env) of
        Some bh \<Rightarrow> Ok (bh, sat_add (gc_latest_slot (bu_geyser env)) 150)
      | None \<Rightarrow> ok_or (bu_blockhash env) (Failed ''get_latest_blockhash_with_commitment''))"

definition job_of :: "build_env \<Rightarrow> app_config \<Rightarrow> opportunity \<Rightarrow> pubkey \<Rightarrow> pubkey \<Rightarrow> pubkey \<Rightarrow> build_job" where
  "job_of env config opp blockhash meme_mint token_program =
     (let sol_mint = pubkey_lit NATIVE_SOL_MINT_C; sol_token_program = pubkey_lit TOKEN_PROGRAM in
      \<lparr>jb_opp = opp, jb_config = config, jb_sol_mint = sol_mint, jb_meme_mint = meme_mint,
       jb_token_program = token_program, jb_sol_token_program = sol_token_program,
       jb_user_sol_ata = ata_addr (bu_pda env) (bu_wallet env) sol_mint sol_token_program,
       jb_user_meme_ata = ata_addr (bu_pda env) (bu_wallet env) meme_mint token_program,
       jb_investment = sol_to_lamports (op_investment_sol opp), jb_blockhash = blockhash\<rparr>)"

definition build_atomic_arbitrage_tx :: "build_env \<Rightarrow> app_config \<Rightarrow> opportunity
    \<Rightarrow> (message_v0 \<times> u64 \<times> tx_estimate option) step" where
  "build_atomic_arbitrage_tx env config opp =
     bthen (lift (choose_blockhash env)) (\<lambda>(blockhash, last_valid_block_height).
     bthen (lift (key_or_err (bu_parse env) (op_token_mint opp))) (\<lambda>meme_mint.
     bthen (detect_token_program env meme_mint) (\<lambda>token_program.
     bthen (build_pair_tx env (job_of env config opp blockhash meme_mint token_program)) (\<lambda>(tx, est_meme, est_sol_out).
     bthen (if ac_sender_enabled config then tip_step env tx else lift (Ok tx)) (\<lambda>tx.
     lift (Ok (tx, last_valid_block_height,
       (if 0 < est_meme \<or> 0 < est_sol_out
        then Some \<lparr>te_invest_sol = op_investment_sol opp, te_est_meme = est_meme, te_est_sol_out = est_sol_out\<rparr>
        else None))))))))"

end
