(* ===== verification/Bot_Price_Properties.thy ===== *)
theory Bot_Price_Properties
  imports Bot_Prices
begin

text \<open>
  What the prices of two venues mean to one another. The PumpSwap price is the ratio of the reserves
  divided by a thousand, for the decimals of SOL and a token; the price of a DLMM pool is the ratio
  itself. The scanner compares the two as they are.
\<close>

section \<open>Rounding, from above\<close>

lemma rnd_above:
  assumes "0 \<le> q" "q = 0 \<or> 1 / 2 ^ 100 \<le> q"
  shows "rnd q \<le> q * (1 + 1 / 10000)"
proof (cases "q = 0")
  case False
  then have q: "1 / 2 ^ 100 \<le> q" using assms(2) by blast
  have "(2 :: rat) powi (- 1000) \<le> 2 powi (- 100)" by (rule power_int_increasing) simp_all
  then have "2 powi (- 1000) \<le> q" using q by (simp add: power_int_def power_divide)
  from rnd_rel [OF this] have "rnd q \<le> q + q / 2 ^ 53" by linarith
  also have "\<dots> \<le> q + q / 10000" using assms(1) by (intro add_left_mono divide_left_mono) simp_all
  finally show ?thesis by (simp add: algebra_simps)
qed simp

lemma rnd_below:
  assumes "1 \<le> q"
  shows "q \<le> rnd q * (1 + 1 / 10000)"
proof -
  have "(2 :: rat) powi (- 1000) \<le> 2 powi 0" by (rule power_int_increasing) simp_all
  then have "2 powi (- 1000) \<le> q" using assms by simp
  from rnd_rel [OF this] have a: "q - q / 2 ^ 53 \<le> rnd q" by linarith
  have "q / 2 ^ 53 \<le> q / 20000" using assms by (intro divide_left_mono) simp_all
  with a have b: "q - q / 20000 \<le> rnd q" by linarith
  have "q \<le> (q - q / 20000) * (1 + 1 / 10000)" using assms by (simp add: algebra_simps)
  also have "\<dots> \<le> rnd q * (1 + 1 / 10000)" using b by (rule mult_right_mono) simp
  finally show ?thesis .
qed

lemma guess_decimals_meme:
  "mint \<noteq> NATIVE_SOL_MINT_C \<Longrightarrow> \<not> is_stablecoin mint \<Longrightarrow> guess_decimals mint = 6"
  by (simp add: guess_decimals_def is_stablecoin_def DEFAULT_DECIMALS_def)

lemma pow10_3: "pow10 3 = Fin 1000"
  using to_f64_numeral [of "num.Bit0 (num.Bit0 (num.Bit0 (num.Bit1 (num.Bit0 (num.Bit1 (num.Bit1 (num.Bit1 (num.Bit1 num.One))))))))"]
  by (simp add: pow10_def)

text \<open>The PumpSwap price is at most the ratio of the reserves over 999.\<close>

lemma raw_price_above:
  assumes "raw_to_sol_per_token sol tok mint = Some price" "mint \<noteq> NATIVE_SOL_MINT_C" "\<not> is_stablecoin mint"
  shows "\<exists>p. price = Fin p \<and> representable p \<and> 999 * p * of_nat (unat tok) \<le> of_nat (unat sol)"
proof -
  define s t :: rat where "s = of_nat (unat sol)" and "t = of_nat (unat tok)"
  have tok: "tok \<noteq> 0" using assms(1) by (auto simp: raw_to_sol_per_token_def)
  then have "1 \<le> unat tok" by (simp add: Suc_le_eq unat_gt_0)
  then have t1: "1 \<le> t" unfolding t_def using of_nat_le_iff [of 1 "unat tok"] by (simp del: of_nat_unat)
  have s0: "0 \<le> s" "s = 0 \<or> 1 \<le> s"
    unfolding s_def using of_nat_le_iff [of 1 "unat sol"] by (cases "unat sol = 0"; simp del: of_nat_unat)+
  have "unat sol \<le> 2 ^ 64" "unat tok \<le> 2 ^ 64" using unat_u64_bound [of sol] unat_u64_bound [of tok] by simp_all
  then have le: "s \<le> 2 ^ 64" "t \<le> 2 ^ 64"
    unfolding s_def t_def using of_nat_le_iff [of "unat sol" "2 ^ 64"] of_nat_le_iff [of "unat tok" "2 ^ 64"]
    by (simp_all del: of_nat_unat)
  have rep1: "representable 1" using representable_of_int [of 1] by simp
  have rep64: "representable (2 ^ 64)" using representable_powi [of 64] by simp
  define a b where "a = rnd s" and "b = rnd t"
  have a: "0 \<le> a" "a = 0 \<or> 1 \<le> a" "a \<le> 2 ^ 64" "a \<le> s * (1 + 1 / 10000)"
    unfolding a_def using s0 le rnd_above [of s] rep1 rep64
    by (auto intro: rnd_nonneg rnd_ge rnd_le order_trans [of _ 1])
  have b: "1 \<le> b" "b \<le> 2 ^ 64" "t \<le> b * (1 + 1 / 10000)"
    unfolding b_def using t1 le rnd_below [OF t1] rep1 rep64 by (auto intro: rnd_ge rnd_le)
  have ab: "0 \<le> a / b" "a / b \<le> 2 ^ 64" using a b by (auto simp: divide_le_eq intro: order_trans [of a "2 ^ 64"])
  have ab_low: "a / b = 0 \<or> 1 / 2 ^ 64 \<le> a / b" using a(2) b by (auto simp: divide_simps)
  define r where "r = rnd (a / b)"
  have rep_64: "representable (1 / 2 ^ 64)" using representable_powi [of "- 64"] by (simp add: power_int_def power_divide)
  have ab_low': "a / b = 0 \<or> 1 / 2 ^ 100 \<le> a / b"
  proof (cases "a / b = 0")
    case False
    then have "1 / 2 ^ 64 \<le> a / b" using ab_low by blast
    moreover have "(1 :: rat) / 2 ^ 100 \<le> 1 / 2 ^ 64" by simp
    ultimately show ?thesis by linarith
  qed simp
  have r0: "0 \<le> r" unfolding r_def using ab(1) by (rule rnd_nonneg)
  have r_le: "r \<le> 2 ^ 64" unfolding r_def using ab(2) rep64 by (intro rnd_le)
  have r_ab: "r \<le> a / b * (1 + 1 / 10000)" unfolding r_def using ab(1) ab_low' by (rule rnd_above)
  have r_low: "r = 0 \<or> 1 / 2 ^ 64 \<le> r" 
  proof (cases "a / b = 0")
    case False
    then have "1 / 2 ^ 64 \<le> a / b" using ab_low by blast
    then show ?thesis unfolding r_def using rep_64 by (intro disjI2 rnd_ge)
  qed (simp only: r_def rnd_0 simp_thms)
  note r = r0 r_low r_le r_ab
  have big: "(2 :: rat) ^ 64 \<le> 2 ^ 1000" by (rule power_increasing) simp_all
  have r1: "f_div (f64_of_u64 sol) (f64_of_u64 tok) = Fin r"
    using to_f64_bounded [of "a / b"] ab b(1) big by (simp add: f64_of_u64_Fin r_def a_def b_def s_def t_def del: of_nat_unat)
  have p1: "price = Fin (rnd (r / 1000))"
    using assms(1) tok r(1,3) big to_f64_bounded [of "r / 1000"]
    by (auto simp: raw_to_sol_per_token_def Let_def r1 guess_decimals_meme [OF assms(2,3)] pow10_3)
  have "rnd (r / 1000) \<le> r / 1000 * (1 + 1 / 10000)" using r(1,2) by (intro rnd_above) (auto simp: divide_simps)
  also have "\<dots> \<le> a / b * (1 + 1 / 10000) / 1000 * (1 + 1 / 10000)"
    using r(4) by (intro mult_right_mono divide_right_mono) simp_all
  finally have "rnd (r / 1000) * b \<le> a * ((1 + 1 / 10000) / 1000 * (1 + 1 / 10000))"
    using b(1) by (simp add: divide_simps mult_ac)
  also have "\<dots> \<le> s * (1 + 1 / 10000) * ((1 + 1 / 10000) / 1000 * (1 + 1 / 10000))"
    using a(4) by (rule mult_right_mono) simp
  finally have pb: "rnd (r / 1000) * b \<le> s * ((1 + 1 / 10000) ^ 3 / 1000)" by (simp add: power3_eq_cube mult_ac)
  have "0 \<le> rnd (r / 1000)" using r(1) by (intro rnd_nonneg) simp
  then have "rnd (r / 1000) * t \<le> rnd (r / 1000) * (b * (1 + 1 / 10000))" using b(3) by (rule mult_left_mono [rotated])
  also have "\<dots> = rnd (r / 1000) * b * (1 + 1 / 10000)" by simp
  also have "\<dots> \<le> s * ((1 + 1 / 10000) ^ 3 / 1000) * (1 + 1 / 10000)" using pb by (rule mult_right_mono) simp
  finally have "rnd (r / 1000) * t \<le> s * ((1 + 1 / 10000) ^ 3 / 1000 * (1 + 1 / 10000))" by (simp add: mult_ac)
  also have "\<dots> \<le> s * (1 / 999)" using s0(1) by (intro mult_left_mono) (simp_all add: power3_eq_cube)
  finally have "999 * rnd (r / 1000) * t \<le> s" by (simp add: field_simps)
  then show ?thesis using p1 representable_rnd by (auto simp: s_def t_def)
qed

section \<open>The two venues in one scan\<close>

lemma query_venue_venue: "vp_venue (fst (query_venue env self mint v c)) = v"
proof (cases v)
  case MeteoraDlmm
  then show ?thesis by (simp add: query_venue_def query_dlmm_price_def Let_def split: prod.splits)
next
  case RaydiumAmmv4
  have "vp_venue p = RaydiumAmmv4" if "ammv4_quote env mint c q = Some p" for p q
    using that by (auto simp: ammv4_quote_def Let_def from_single_pool_def bind_eq_Some_conv split: prod.splits if_splits)
  then have all: "vp_venue p = RaydiumAmmv4" if "p \<in> set (List.map_filter (ammv4_quote env mint c) xs)" for p xs
    using that by (auto simp: map_filter_def)
  have "vp_venue (query_ammv4_price env mint c) = RaydiumAmmv4"
  proof (cases "List.map_filter (ammv4_quote env mint c) [(NATIVE_SOL_MINT_C, 9), (USDC_MINT, 6)]")
    case (Cons p ps)
    have "vp_venue p = RaydiumAmmv4" by (rule all [of _ "[(NATIVE_SOL_MINT_C, 9), (USDC_MINT, 6)]"]) (simp only: Cons list.set_intros)
    with Cons show ?thesis by (simp only: query_ammv4_price_def list.case)
  qed (simp only: query_ammv4_price_def no_pool_price_def from_single_pool_def list.case Let_def venue_price.simps)
  then show ?thesis using RaydiumAmmv4 by (simp add: query_venue_def)
qed (simp_all add: query_venue_def query_pumpfun_price_def query_cpmm_price_def query_whirlpool_price_def
      cpmm_sol_price_def cpmm_any_price_def whirlpool_price_def no_pool_price_def from_single_pool_def Let_def
      split: prod.splits option.splits)

text \<open>Only the Pump.fun query touches the Pump.fun caches.\<close>

lemma find_whirlpool_pump: "vc_pump (snd (find_whirlpool env q mint c)) = vc_pump c"
  by (simp add: find_whirlpool_def Let_def split: option.splits prod.splits)

lemma query_venue_pump: "v \<noteq> PumpSwapAmm \<Longrightarrow> vc_pump (snd (query_venue env self mint v c)) = vc_pump c"
proof (cases v)
  case OrcaWhirlpool
  have "vc_pump c1 = vc_pump c0" if "find_whirlpool env q mint c0 = (r, c1)" for q c0 r c1
    using find_whirlpool_pump [of env q mint c0] by (simp add: that)
  then show ?thesis using OrcaWhirlpool
    by (simp add: query_venue_def query_whirlpool_price_def split: prod.splits option.splits)
qed (simp_all add: query_venue_def query_dlmm_price_def query_cpmm_price_def Let_def split: prod.splits option.splits)

lemma find_pump_venue:
  "find_venue (fst (query_venues env self mint vs c)) PumpSwapAmm = Some vp
     \<Longrightarrow> vp = fst (query_pumpfun_price env mint (sn_pumpfun_fee_bps self) c)"
proof (induction vs arbitrary: c)
  case (Cons v vs)
  obtain p c1 where q: "query_venue env self mint v c = (p, c1)" by (cases "query_venue env self mint v c")
  then have "vp_venue p = v" using query_venue_venue [of env self mint v c] by simp
  then show ?case
  proof (cases "v = PumpSwapAmm")
    case False
    then have "vc_pump c1 = vc_pump c" using q query_venue_pump [of v env self mint c] by simp
    moreover have "find_venue (fst (query_venues env self mint vs c1)) PumpSwapAmm = Some vp"
      using Cons.prems q \<open>vp_venue p = v\<close> False by (simp add: find_venue_def split: prod.splits)
    moreover have "fst (query_pumpfun_price env mint (sn_pumpfun_fee_bps self) c1)
        = fst (query_pumpfun_price env mint (sn_pumpfun_fee_bps self) c)"
      unfolding query_pumpfun_price_def Let_def \<open>vc_pump c1 = vc_pump c\<close> by (simp split: prod.splits)
    ultimately show ?thesis using Cons.IH by simp
  qed (use Cons.prems q in \<open>simp add: find_venue_def query_venue_def split: prod.splits\<close>)
qed (simp add: find_venue_def)

text \<open>Only the DLMM query touches the DLMM caches.\<close>

lemma query_venue_dlmm: "v \<noteq> MeteoraDlmm \<Longrightarrow> vc_dlmm (snd (query_venue env self mint v c)) = vc_dlmm c"
proof (cases v)
  case OrcaWhirlpool
  have "vc_dlmm (snd (find_whirlpool env q mint c0)) = vc_dlmm c0" for q c0
    by (simp add: find_whirlpool_def Let_def split: option.splits prod.splits)
  then have "vc_dlmm c1 = vc_dlmm c0" if "find_whirlpool env q mint c0 = (r, c1)" for q c0 r c1
    using that by (metis snd_conv)
  then show ?thesis using OrcaWhirlpool
    by (simp add: query_venue_def query_whirlpool_price_def split: prod.splits option.splits)
qed (simp_all add: query_venue_def query_pumpfun_price_def query_cpmm_price_def Let_def split: prod.splits option.splits)

abbreviation dlmm_answer :: "scan_env \<Rightarrow> scanner \<Rightarrow> string \<Rightarrow> venue_caches \<Rightarrow> venue_price" where
  "dlmm_answer env self mint c \<equiv> fst (query_dlmm_price env mint (sol_to_lamports (sn_min_pool_tvl_sol self)) c)"

lemma find_dlmm_venue:
  "find_venue (fst (query_venues env self mint vs c)) MeteoraDlmm = Some vp \<Longrightarrow> vp = dlmm_answer env self mint c"
proof (induction vs arbitrary: c)
  case (Cons v vs)
  obtain p c1 where q: "query_venue env self mint v c = (p, c1)" by (cases "query_venue env self mint v c")
  then have "vp_venue p = v" using query_venue_venue [of env self mint v c] by simp
  then show ?case
  proof (cases "v = MeteoraDlmm")
    case False
    then have "vc_dlmm c1 = vc_dlmm c" using q query_venue_dlmm [of v env self mint c] by simp
    then have "dlmm_answer env self mint c1 = dlmm_answer env self mint c"
      unfolding query_dlmm_price_def Let_def by (simp split: prod.splits)
    moreover have "find_venue (fst (query_venues env self mint vs c1)) MeteoraDlmm = Some vp"
      using Cons.prems q \<open>vp_venue p = v\<close> False by (simp add: find_venue_def split: prod.splits)
    ultimately show ?thesis using Cons.IH by simp
  qed (use Cons.prems q in \<open>simp add: find_venue_def query_venue_def split: prod.splits\<close>)
qed (simp add: find_venue_def)

text \<open>What the active bin of a pool with SOL trades for: lamports per unit of the token.\<close>

definition lamports_per_unit :: "(f64 \<Rightarrow> int \<Rightarrow> f64) \<Rightarrow> dlmm_pool \<Rightarrow> f64" where
  "lamports_per_unit f_powi r =
     (let y_per_x = f_powi (f_add (Fin 1) (f_div (f64_of_nat (unat (dp_bin_step r))) (Fin 10000))) (dp_active_id r) in
      if dp_token_x_mint r = NATIVE_SOL_MINT_C then f_div (Fin 1) y_per_x else y_per_x)"

abbreviation sol_dlmm_pools :: "scan_env \<Rightarrow> scanner \<Rightarrow> string \<Rightarrow> venue_caches \<Rightarrow> dlmm_pool list" where
  "sol_dlmm_pools env self mint c \<equiv> fst (fetch_dlmm_by_mints (se_dlmm env) (se_now env) (se_now_ts env)
     NATIVE_SOL_MINT_C mint (sol_to_lamports (sn_min_pool_tvl_sol self)) (vc_dlmm c))"

text \<open>A price of the DLMM answer is the active bin's of a pool with SOL, or one of a pool with USDC.\<close>

lemma dlmm_answer_price:
  assumes "p \<in> set (vp_pool_prices (dlmm_answer env self mint c))"
  shows "(\<exists>r \<in> set (sol_dlmm_pools env self mint c). ps_sol_per_token p = lamports_per_unit (se_powi env) r) \<or>
    ps_quote_decimals p = 6 \<and> f_lt (Fin 0) (se_sol_price env)"
proof -
  have sol: "\<exists>r \<in> set pools. ps_sol_per_token p = lamports_per_unit f_powi r"
    if "p \<in> set (build_snapshots f_powi pools NATIVE_SOL_MINT_C 9 x)" for f_powi pools x
    using that by (auto simp: build_snapshots_def map_filter_def dlmm_snapshot_def dlmm_price_def lamports_per_unit_def Let_def
        split: if_splits)
  have usdc: "ps_quote_decimals p = 6" if "p \<in> set (build_snapshots f_powi pools USDC_MINT 6 x)" for f_powi pools x
    using that by (auto simp: build_snapshots_def map_filter_def dlmm_snapshot_def Let_def split: if_splits)
  from assms show ?thesis
    unfolding query_dlmm_price_def Let_def
    by (auto split: prod.splits if_splits dest: sol usdc)
qed

abbreviation pump_state :: "scan_env \<Rightarrow> string \<Rightarrow> venue_caches \<Rightarrow> bonding_curve_state option" where
  "pump_state env mint c \<equiv>
     fst (fetch_bonding_curve (dv_pda (se_dlmm env)) (dv_parse (se_dlmm env)) (dv_show (se_dlmm env))
       (dv_geyser (se_dlmm env)) (dv_rpc (se_dlmm env)) (se_coin_v2 env) (se_now env) mint (vc_pump c))"

lemma pump_snapshot:
  assumes "p \<in> set (vp_pool_prices (fst (query_pumpfun_price env mint fee c)))"
  obtains st where "pump_state env mint c = Some st"
    "raw_to_sol_per_token (bc_virtual_sol_reserves st) (bc_virtual_token_reserves st) mint = Some (ps_sol_per_token p)"
    "f_lt (Fin 0) (ps_sol_per_token p)"
  using assms
  by (auto simp: query_pumpfun_price_def no_pool_price_def from_single_pool_def Let_def
      split: prod.splits option.splits if_splits)

text \<open>A difference of more than the lower price counts as at least 10000 basis points.\<close>

lemma diff_above:
  assumes "representable b" "0 < b" "2 * b < s"
  shows "5000 < f64_as_u32 (f_mul (f_div (f_sub (Fin s) (Fin b)) (Fin b)) (Fin 10000))"
proof -
  define d where "d = f_mul (f_div (f_sub (Fin s) (Fin b)) (Fin b)) (Fin 10000)"
  have up: "(\<exists>r. to_f64 q = Fin r \<and> l \<le> r) \<or> to_f64 q = Inf True" if "l \<le> q" "representable l" "0 \<le> l" for q l
    using that rnd_ge [of l q] by (auto simp: to_f64_def Let_def)
  have "(\<exists>r. f_sub (Fin s) (Fin b) = Fin r \<and> b \<le> r) \<or> f_sub (Fin s) (Fin b) = Inf True"
    using up [of b "s - b"] assms by (auto simp: f_sub_def)
  then have "(\<exists>r. f_div (f_sub (Fin s) (Fin b)) (Fin b) = Fin r \<and> 1 \<le> r) \<or> f_div (f_sub (Fin s) (Fin b)) (Fin b) = Inf True"
  proof
    assume "\<exists>r. f_sub (Fin s) (Fin b) = Fin r \<and> b \<le> r"
    then obtain r where r: "f_sub (Fin s) (Fin b) = Fin r" "1 \<le> r / b" using assms(2) by auto
    show ?thesis using up [OF r(2)] r(1) assms(2) representable_of_int [of 1] by simp
  qed (use assms(2) in simp)
  then have "(\<exists>r. d = Fin r \<and> 10000 \<le> r) \<or> d = Inf True"
    unfolding d_def
  proof
    assume "\<exists>r. f_div (f_sub (Fin s) (Fin b)) (Fin b) = Fin r \<and> 1 \<le> r"
    then obtain r where r: "f_div (f_sub (Fin s) (Fin b)) (Fin b) = Fin r" "10000 \<le> r * 10000" by auto
    show "(\<exists>r. f_mul (f_div (f_sub (Fin s) (Fin b)) (Fin b)) (Fin 10000) = Fin r \<and> 10000 \<le> r) \<or>
        f_mul (f_div (f_sub (Fin s) (Fin b)) (Fin b)) (Fin 10000) = Inf True"
      using up [OF r(2)] r(1) representable_of_int [of 10000] by simp
  qed simp
  then have "5000 < f64_as_u32 d"
  proof
    assume "\<exists>r. d = Fin r \<and> 10000 \<le> r"
    then obtain r where r: "d = Fin r" "10000 \<le> r" by blast
    then have "10000 \<le> min (2 ^ 32 - 1) (nat \<lfloor>r\<rfloor>)" by (simp add: le_nat_iff le_floor_iff)
    with r show ?thesis by (simp add: f64_as_u32_def word_less_nat_alt unat_of_nat_small del: of_nat_min)
  qed (simp add: f64_as_u32_def word_less_nat_alt unat_of_nat_small)
  then show ?thesis by (simp add: d_def)
qed

text \<open>No difference above half of the lower price passes, so the higher price is at most the double.\<close>

lemma pair_price_bound:
  assumes "try_pair self fetch_bins warm mint source slot bv bs sv ss = Ok (Some o')"
    and "ps_sol_per_token bs = Fin b" "representable b" "0 < b" "ps_sol_per_token ss = Fin s"
  shows "s \<le> 2 * b"
proof (rule ccontr)
  assume "\<not> s \<le> 2 * b"
  then have "5000 < f64_as_u32 (f_mul (f_div (f_sub (Fin s) (Fin b)) (Fin b)) (Fin 10000))"
    using assms(3,4) by (intro diff_above) simp_all
  moreover have "\<not> 5000 < f64_as_u32 (f_mul (f_div (f_sub (Fin s) (Fin b)) (Fin b)) (Fin 10000))"
    using assms(1,2,5) unfolding try_pair_def Let_def by (auto split: if_splits)
  ultimately show False by blast
qed

text \<open>A reported opportunity passed the body of the double loop.\<close>

lemma reported_from_pair:
  assumes "build_opps_from_prices self fetch_bins warm mint source slot vps = Ok opps" "o' \<in> set opps"
  obtains bv bs sv ss where "((bv, bs), (sv, ss)) \<in> set (candidate_pairs self vps)"
    "try_pair self fetch_bins warm mint source slot bv bs sv ss = Ok (Some o')"
proof -
  obtain found where f: "traverse (\<lambda>((bv, bs), (sv, ss)). try_pair self fetch_bins warm mint source slot bv bs sv ss)
      (candidate_pairs self vps) = Ok found" and opps: "opps = sort_by_net (List.map_filter (\<lambda>x. x) found)"
    using assms(1) by (auto simp: build_opps_from_prices_def and_then_Ok_iff)
  have "set opps = set (List.map_filter (\<lambda>x. x) found)" unfolding opps using sort_by_net_mset by (metis set_mset_mset)
  then have "Some o' \<in> set found" using assms(2) by (auto simp: map_filter_def)
  then show thesis using traverse_Ok_mem [OF f] that by force
qed

text \<open>The buying snapshot of a reported pair and the selling one.\<close>

lemma candidate_snapshots:
  assumes "((bv, bs), (sv, ss)) \<in> set (candidate_pairs self vps)"
  shows "\<exists>vp. find_venue vps bv = Some vp \<and> bs \<in> set (tradable_snapshots vp)"
    and "\<exists>vp. find_venue vps sv = Some vp \<and> ss \<in> set (tradable_snapshots vp)"
  using candidate_pairD(4,5) [OF assms] by (auto simp: bind_eq_Some_conv dest: best_snapshot_tradable)

lemma pump_price_low:
  assumes "find_venue (fst (query_prices env self mint c)) PumpSwapAmm = Some vp" "p \<in> set (tradable_snapshots vp)"
    and "pump_state env mint c = Some st" "mint \<noteq> NATIVE_SOL_MINT_C" "\<not> is_stablecoin mint"
  shows "\<exists>x. ps_sol_per_token p = Fin x \<and> representable x \<and> 0 < x
    \<and> 999 * x * of_nat (unat (bc_virtual_token_reserves st)) \<le> of_nat (unat (bc_virtual_sol_reserves st))"
proof -
  have "vp = fst (query_pumpfun_price env mint (sn_pumpfun_fee_bps self) c)"
    using find_pump_venue assms(1) unfolding query_prices_def by blast
  then have "p \<in> set (vp_pool_prices (fst (query_pumpfun_price env mint (sn_pumpfun_fee_bps self) c)))"
    using assms(2) by (simp add: tradable_snapshots_def)
  then obtain st' where "pump_state env mint c = Some st'" and
    r: "raw_to_sol_per_token (bc_virtual_sol_reserves st') (bc_virtual_token_reserves st') mint = Some (ps_sol_per_token p)"
    and "f_lt (Fin 0) (ps_sol_per_token p)"
    by (rule pump_snapshot)
  then show ?thesis using raw_price_above [OF r assms(4,5)] assms(3) by auto
qed

lemma ratio_apart:
  "q \<le> 2 * x \<Longrightarrow> 999 * x * n \<le> m \<Longrightarrow> m < 499 * q * n \<Longrightarrow> 0 \<le> n \<Longrightarrow> 0 < x \<Longrightarrow> False" for q x m n :: rat
proof -
  assume a: "q \<le> 2 * x" "999 * x * n \<le> m" "m < 499 * q * n" "0 \<le> n" "0 < x"
  have "q * n \<le> 2 * x * n" using a(1,4) by (rule mult_right_mono)
  moreover have "0 \<le> x * n" using a(4,5) by simp
  ultimately show False using a(2,3) by (simp add: mult.assoc)
qed

text \<open>C27: A scan never reports an opportunity between a PumpSwap pool and a DLMM pool quoted in SOL of about the
  same price, or of one that differs enough to be worth trading: if in every such DLMM pool the active bin
  trades for more than a 499th of the lamports per unit that the PumpSwap reserves stand at, what is reported
  between the two venues, in either direction, is with a DLMM pool quoted in USDC. For the PumpSwap price
  is divided by a thousand for the decimals of the token, that of a SOL-quoted DLMM pool is not, and a
  difference above half of the lower price is refused.\<close>

theorem equal_pools_never_paired:
  assumes "fst (scan_inner env self mint source slot c) = Ok opps"
    and "mint \<noteq> NATIVE_SOL_MINT_C" "\<not> is_stablecoin mint"
    and "pump_state env mint c = Some st"
    and "\<And>r q. r \<in> set (sol_dlmm_pools env self mint c) \<Longrightarrow> lamports_per_unit (se_powi env) r = Fin q \<Longrightarrow>
      of_nat (unat (bc_virtual_sol_reserves st)) < 499 * q * of_nat (unat (bc_virtual_token_reserves st))"
  shows "\<forall>o' \<in> set opps. {op_buy_venue o', op_sell_venue o'} = {PumpSwapAmm, MeteoraDlmm} \<longrightarrow>
    f_lt (Fin 0) (se_sol_price env) \<and>
    (\<exists>d \<in> set (vp_pool_prices (dlmm_answer env self mint c)). ps_quote_decimals d = 6 \<and>
       ps_sol_per_token d = (if op_buy_venue o' = MeteoraDlmm then op_buy_price_sol o' else op_sell_price_sol o'))"
proof (intro ballI impI)
  fix o'
  assume o': "o' \<in> set opps" and venues: "{op_buy_venue o', op_sell_venue o'} = {PumpSwapAmm, MeteoraDlmm}"
  let ?vps = "fst (query_prices env self mint c)" and ?ds = "vp_pool_prices (dlmm_answer env self mint c)"
  let ?sol = "of_nat (unat (bc_virtual_sol_reserves st)) :: rat" and ?tok = "of_nat (unat (bc_virtual_token_reserves st)) :: rat"
  have "build_opps_from_prices self (scan_fetch_bins env) (0 < gc_latest_slot (dv_geyser (se_dlmm env))) mint source slot ?vps = Ok opps"
    using assms(1) by (simp add: scan_inner_def split: prod.splits)
  then obtain bv bs sv ss where p: "((bv, bs), (sv, ss)) \<in> set (candidate_pairs self ?vps)"
    and t: "try_pair self (scan_fetch_bins env) (0 < gc_latest_slot (dv_geyser (se_dlmm env))) mint source slot bv bs sv ss
      = Ok (Some o')"
    using reported_from_pair o' by blast
  have v: "op_buy_venue o' = bv" "op_sell_venue o' = sv" "\<not> f_le (ps_sol_per_token ss) (ps_sol_per_token bs)"
    by (rule try_pair_Some [OF t], simp)+
  have prices: "op_buy_price_sol o' = ps_sol_per_token bs" "op_sell_price_sol o' = ps_sol_per_token ss"
    by (rule try_pair_Some [OF t], simp)+
  note pump = pump_price_low [OF _ _ assms(4,2,3)] and snapshots = candidate_snapshots [OF p]
  have dlmm: "d \<in> set ?ds \<and> ((\<exists>q. ps_sol_per_token d = Fin q \<and> ?sol < 499 * q * ?tok) \<or>
      ps_quote_decimals d = 6 \<and> f_lt (Fin 0) (se_sol_price env))"
    if "find_venue ?vps MeteoraDlmm = Some vp" "d \<in> set (tradable_snapshots vp)" for vp d
  proof -
    have "vp = dlmm_answer env self mint c" using find_dlmm_venue that(1) unfolding query_prices_def by blast
    then have d: "d \<in> set ?ds" using that(2) by (simp add: tradable_snapshots_def)
    then show ?thesis using dlmm_answer_price [OF d] tradable_price [OF that(2)] assms(5) by auto
  qed
  consider "bv = PumpSwapAmm" "sv = MeteoraDlmm" | "bv = MeteoraDlmm" "sv = PumpSwapAmm"
    using venues v(1,2) by (auto simp: doubleton_eq_iff)
  then show "f_lt (Fin 0) (se_sol_price env) \<and> (\<exists>d \<in> set ?ds. ps_quote_decimals d = 6 \<and>
       ps_sol_per_token d = (if op_buy_venue o' = MeteoraDlmm then op_buy_price_sol o' else op_sell_price_sol o'))"
  proof cases
    case 1
    obtain x where x: "ps_sol_per_token bs = Fin x" "representable x" "0 < x" "999 * x * ?tok \<le> ?sol"
      using snapshots(1) pump 1(1) by blast
    have "\<not> (ps_sol_per_token ss = Fin q \<and> ?sol < 499 * q * ?tok)" for q
      using ratio_apart [OF pair_price_bound [OF t x(1-3)] x(4) _ of_nat_0_le_iff x(3)] by blast
    then show ?thesis using snapshots(2) dlmm 1 v(1) prices(2) by (metis venue.distinct(1))
  next
    case 2
    obtain x where x: "ps_sol_per_token ss = Fin x" "0 < x" "999 * x * ?tok \<le> ?sol"
      using snapshots(2) pump 2(2) by blast
    have "\<not> (ps_sol_per_token bs = Fin q \<and> ?sol < 499 * q * ?tok)" for q
    proof
      assume q: "ps_sol_per_token bs = Fin q \<and> ?sol < 499 * q * ?tok"
      then have "q \<le> 2 * x" using v(3) x(1,2) by (simp add: f_le_def)
      from ratio_apart [OF this x(3) _ of_nat_0_le_iff x(2)] q show False by blast
    qed
    then show ?thesis using snapshots(1) dlmm 2 v(1) prices(1) by metis
  qed
qed

section \<open>A concrete scan\<close>

text \<open>Two fresh cache entries: a PumpSwap pool and a DLMM pool, both with as many lamports as token units.\<close>

definition even_curve :: bonding_curve_state where
  "even_curve = \<lparr>bc_mint = ''meme'', bc_bonding_curve_address = '''', bc_virtual_sol_reserves = 1000000000000,
     bc_virtual_token_reserves = 1000000000000, bc_real_sol_reserves = 0, bc_real_token_reserves = 0,
     bc_complete = True, bc_creator = '''', bc_venue_kind = PumpSwapPool\<rparr>"

definition even_pool :: dlmm_pool where
  "even_pool = \<lparr>dp_lb_pair = ''pool'', dp_token_x_mint = ''meme'', dp_token_y_mint = NATIVE_SOL_MINT_C,
     dp_reserve_x = 0, dp_reserve_y = 0, dp_reserve_x_address = '''', dp_reserve_y_address = '''',
     dp_bin_array_addresses = [],
     dp_bins = [\<lparr>db_bin_id = 0, db_amount_x = 1000000000000, db_amount_y = 1000000000000, db_reserve_x = 0, db_reserve_y = 0\<rparr>],
     dp_bin_step = 0, dp_base_factor = 0, dp_active_id = 0, dp_bin_array_bitmap_extension = None,
     dp_sqrt_price = 0, dp_tick_current_index = 0, dp_fee_rate = 0\<rparr>"

definition even_env :: scan_env where
  "even_env = \<lparr>se_dlmm = \<lparr>dv_pda = (\<lambda>_ _. 7), dv_parse = key_of_text, dv_show = text_of_key, dv_geyser = geyser_default,
       dv_rpc = \<lparr>rv_account = (\<lambda>_. None), rv_multiple = (\<lambda>_. None)\<rparr>, dv_gpa = (\<lambda>_ _. []),
       dv_meta_order = (\<lambda>_. []), dv_pair_entries = (\<lambda>_. []), dv_db_ok = True\<rparr>,
     se_coin_v2 = (\<lambda>_. None), se_powi = (\<lambda>_ _. Fin 1), se_sol_price = Fin 0, se_now = 100, se_now_ts = 0,
     se_cpmm_order = []\<rparr>"

definition even_caches :: venue_caches where
  "even_caches = \<lparr>vc_pump = \<lparr>pu_pool_addr = Map.empty, pu_bonding = [''meme'' \<mapsto> entry_new 100 (Some even_curve)]\<rparr>,
     vc_dlmm = \<lparr>dc_reserves = [cache_key NATIVE_SOL_MINT_C ''meme'' \<mapsto> entry_new 100 (Some even_pool)],
       dc_metadata = Map.empty, dc_zero_skip = Map.empty, dc_lb_pair = Map.empty, dc_pair_rows = [], dc_meta_rows = []\<rparr>,
     vc_ammv4_pools = Map.empty, vc_cpmm = Map.empty, vc_cpmm_rows = [], vc_cpmm_discovered = Map.empty,
     vc_whirlpool = Map.empty, vc_whirlpool_rows = [], vc_whirlpool_discovered = Map.empty\<rparr>"

definition even_scanner :: scanner where
  "even_scanner = demo_scanner\<lparr>sn_enabled_venues := [PumpSwapAmm, MeteoraDlmm]\<rparr>"

lemma even_mint: "''meme'' \<noteq> NATIVE_SOL_MINT_C" "\<not> is_stablecoin ''meme''"
  by (simp_all add: is_stablecoin_def NATIVE_SOL_MINT_C_def USDC_MINT_def USDT_MINT_def)

lemma even_pump_state: "pump_state even_env ''meme'' even_caches = Some even_curve"
  by (simp add: fetch_bonding_curve_def even_env_def even_caches_def entry_new_def age_secs_def PUMPFUN_RESERVE_TTL_SECS_def)

abbreviation even_pump_snapshot :: price_snapshot where
  "even_pump_snapshot \<equiv> \<lparr>ps_sol_per_token = Fin milli, ps_token_reserves_raw = 1000000000000,
     ps_sol_reserves_raw = 1000000000000, ps_bins = [], ps_meme_is_x = False, ps_fee_bps = 100, ps_lb_pair = '''',
     ps_quote_decimals = 9\<rparr>"

abbreviation even_dlmm_snapshot :: price_snapshot where
  "even_dlmm_snapshot \<equiv> \<lparr>ps_sol_per_token = Fin 1, ps_token_reserves_raw = 1000000000000,
     ps_sol_reserves_raw = 1000000000000, ps_bins = dp_bins even_pool, ps_meme_is_x = True, ps_fee_bps = compute_fee_bps 0 0,
     ps_lb_pair = ''pool'', ps_quote_decimals = 9\<rparr>"

lemma even_pump_price:
  "vp_pool_prices (fst (query_pumpfun_price even_env ''meme'' 100 even_caches)) = [even_pump_snapshot]"
proof -
  have "raw_to_sol_per_token 1000000000000 1000000000000 ''meme'' = Some (Fin milli)"
    using milli_exact(1)
    by (simp add: raw_to_sol_per_token_def guess_decimals_meme even_mint pow10_3 f64_of_u64_def f64_of_nat_def to_f64_numeral
        MIN_INVEST_def to_f64_rep representable_of_int [of 1, simplified])
  moreover have "0 < milli" by (simp add: milli_def)
  ultimately show ?thesis using even_pump_state
    by (auto simp: query_pumpfun_price_def Let_def from_single_pool_def even_curve_def split: prod.splits)
qed

lemma even_clock: "se_now even_env = 100" "se_now_ts even_env = 0"
  by (simp_all add: even_env_def)

lemma even_sol_pools:
  "fst (fetch_dlmm_by_mints (se_dlmm even_env) 100 0 NATIVE_SOL_MINT_C ''meme'' m (vc_dlmm even_caches)) = [even_pool]"
  by (simp add: fetch_dlmm_by_mints_def even_caches_def age_secs_def entry_new_def DLMM_RESERVE_TTL_SECS_def)

lemma even_dlmm_price:
  assumes "vc_dlmm c = vc_dlmm even_caches"
  shows "vp_pool_prices (fst (query_dlmm_price even_env ''meme'' m c)) = [even_dlmm_snapshot]"
proof -
  have "rnd (1 / 10 ^ 12) \<le> 1" using representable_of_int [of 1] by (intro rnd_le) simp_all
  then have "is_sane_dlmm_price (Fin 1)"
    using to_f64_bounded [of "1 / 10 ^ 12"] by (auto simp: is_sane_dlmm_price_def f_le_def)
  moreover note even_sol_pools [of m]
  ultimately show ?thesis
    by (auto simp: query_dlmm_price_def assms Let_def build_snapshots_def dlmm_snapshot_def dlmm_price_def even_mint sum_amounts_def
        sat_add_def even_env_def split: prod.splits) (simp_all add: even_pool_def even_mint)
qed

lemma even_unit: "quote_unit even_pump_snapshot = Fin 1000000000" "quote_unit even_dlmm_snapshot = Fin 1000000000"
  by (simp_all add: quote_unit_def pow10_def power_int_def to_f64_numeral)

lemma even_tvl: "tvl_sol even_pump_snapshot = Fin 2000" "tvl_sol even_dlmm_snapshot = Fin 2000"
  unfolding tvl_sol_def even_unit
  by (simp_all add: f64_of_u64_def f64_of_nat_def to_f64_numeral)

lemma even_candidates:
  assumes "vp_venue pump = PumpSwapAmm" "vp_pool_prices pump = [even_pump_snapshot]"
    and "vp_venue dlmm = MeteoraDlmm" "vp_pool_prices dlmm = [even_dlmm_snapshot]"
  shows "candidate_pairs even_scanner [pump, dlmm] =
    [((PumpSwapAmm, even_pump_snapshot), (MeteoraDlmm, even_dlmm_snapshot)),
     ((MeteoraDlmm, even_dlmm_snapshot), (PumpSwapAmm, even_pump_snapshot))]"
proof -
  have t: "tradable_snapshots pump = [even_pump_snapshot]" "tradable_snapshots dlmm = [even_dlmm_snapshot]"
    by (simp_all add: tradable_snapshots_def assms)
  show ?thesis
    by (simp add: candidate_pairs_def buy_candidates_def sell_candidates_def find_venue_def assms(1,3) even_scanner_def
        best_buy_snapshot_def best_sell_snapshot_def t even_tvl demo_scanner_def)
qed

lemma even_pairs_rejected:
  "try_pair even_scanner fb warm m src slot PumpSwapAmm even_pump_snapshot MeteoraDlmm even_dlmm_snapshot = Ok None"
  "try_pair even_scanner fb warm m src slot MeteoraDlmm even_dlmm_snapshot PumpSwapAmm even_pump_snapshot = Ok None"
proof -
  have m: "0 < milli" "2 * milli < 1" by (simp_all add: milli_def)
  have "5000 < f64_as_u32 (f_mul (f_div (f_sub (Fin 1) (Fin milli)) (Fin milli)) (Fin 10000))"
    by (rule diff_above [OF milli_exact(2) m])
  then show "try_pair even_scanner fb warm m src slot PumpSwapAmm even_pump_snapshot MeteoraDlmm even_dlmm_snapshot = Ok None"
    using m by (simp add: try_pair_def Let_def)
  show "try_pair even_scanner fb warm m src slot MeteoraDlmm even_dlmm_snapshot PumpSwapAmm even_pump_snapshot = Ok None"
    using m by (simp add: try_pair_def Let_def f_le_def)
qed

text \<open>Both pairs of the two venues are candidates of the scan, and neither is reported.\<close>

theorem equal_pools_never_paired_witness:
  "length (candidate_pairs even_scanner (fst (query_prices even_env even_scanner ''meme'' even_caches))) = 2 \<and>
   (\<exists>opps. fst (scan_inner even_env even_scanner ''meme'' ''scanner'' 0 even_caches) = Ok opps \<and>
     (\<forall>o' \<in> set opps. {op_buy_venue o', op_sell_venue o'} \<noteq> {PumpSwapAmm, MeteoraDlmm}))"
proof -
  obtain pump c1 where q1: "query_pumpfun_price even_env ''meme'' 100 even_caches = (pump, c1)" by (metis prod.exhaust)
  have c1: "vc_dlmm c1 = vc_dlmm even_caches"
    using arg_cong [OF q1, of "\<lambda>x. vc_dlmm (snd x)"] by (simp add: query_pumpfun_price_def Let_def split: prod.splits)
  let ?m = "sol_to_lamports (sn_min_pool_tvl_sol even_scanner)"
  obtain dlmm c2 where q2: "query_dlmm_price even_env ''meme'' ?m c1 = (dlmm, c2)" by (metis prod.exhaust)
  have v: "vp_venue pump = PumpSwapAmm" "vp_venue dlmm = MeteoraDlmm"
    using query_venue_venue [of even_env even_scanner "''meme''" PumpSwapAmm even_caches] q1
      query_venue_venue [of even_env even_scanner "''meme''" MeteoraDlmm c1] q2
    by (simp_all add: query_venue_def even_scanner_def demo_scanner_def)
  have s: "vp_pool_prices pump = [even_pump_snapshot]" "vp_pool_prices dlmm = [even_dlmm_snapshot]"
    using even_pump_price q1 even_dlmm_price [OF c1, of ?m] q2 by simp_all
  have prices: "fst (query_prices even_env even_scanner ''meme'' even_caches) = [pump, dlmm]"
    using q1 q2 by (simp add: query_prices_def query_venue_def even_scanner_def demo_scanner_def)
  note cands = even_candidates [OF v(1) s(1) v(2) s(2)]
  have scan: "fst (scan_inner even_env even_scanner ''meme'' ''scanner'' 0 even_caches) = Ok []"
    by (simp add: scan_inner_def build_opps_from_prices_def split_beta prices cands even_pairs_rejected sort_by_net_def)
  have pools: "sol_dlmm_pools even_env even_scanner ''meme'' even_caches = [even_pool]"
    by (simp only: even_clock even_sol_pools)
  have "lamports_per_unit (se_powi even_env) even_pool = Fin 1"
    by (simp add: lamports_per_unit_def even_env_def even_pool_def even_mint)
  with equal_pools_never_paired [OF scan even_mint even_pump_state] pools
  have "\<forall>o' \<in> set ([] :: opportunity list). {op_buy_venue o', op_sell_venue o'} = {PumpSwapAmm, MeteoraDlmm} \<longrightarrow>
      f_lt (Fin 0) (se_sol_price even_env)"
    by (auto simp: even_curve_def)
  moreover have "\<not> f_lt (Fin 0) (se_sol_price even_env)" by (simp add: even_env_def)
  ultimately show ?thesis using scan by (auto simp: prices cands)
qed

end
