(* ===== verification/Bot_Build_Properties.thy ===== *)
theory Bot_Build_Properties
  imports Bot_Direct_Builders Client_Properties Bot_Price_Properties Bot_Loop
begin

text \<open>
  Properties of the pair builders: the terms of every transaction that goes through the on-chain program,
  what becomes of an opportunity that buys on a Whirlpool, what the builders make of a DLMM pool without
  liquidity, what the direct builders wrap, buy and sell, and which venue pairs are refused.
\<close>

section \<open>The terms of a program transaction\<close>

text \<open>The first leg as the builders quote it for \<open>amt\<close> lamports: the SOL reserve \<open>r\<close> of the pool of the venue it
  buys on, read from the cache (PumpSwap: from the chain), and the tokens \<open>em\<close> that venue's quote gives.\<close>

definition first_leg :: "build_env \<Rightarrow> build_job \<Rightarrow> build_state \<Rightarrow> u64 \<Rightarrow> u64 \<Rightarrow> u64 \<Rightarrow> bool" where
  "first_leg env j st amt r em =
     (case op_buy_venue (jb_opp j) of
        RaydiumCpmm \<Rightarrow> (\<exists>s. fst (cached_cpmm env j st) = Ok s \<and> r = fst (cpmm_sides env j s) \<and>
          checked_cp_swap_output r (snd (cpmm_sides env j s)) amt CPMM_DEFAULT_TRADE_FEE_RATE = Some em)
      | OrcaWhirlpool \<Rightarrow> (\<exists>w. fst (cached_whirlpool env j st) = Ok w \<and> r = fst (whirlpool_sides env j w) \<and>
          checked_cp_swap_output r (snd (whirlpool_sides env j w)) amt (ucast (dp_fee_rate w)) = Some em)
      | MeteoraDlmm \<Rightarrow> (\<exists>d bins. fst (cached_dlmm env j st) = Ok d \<and> r = fst (dlmm_sides d) \<and>
          scan_fetch_bins (bu_scan env) (dp_lb_pair d) = Ok bins \<and> em \<noteq> 0 \<and>
          em = de_out (estimate_dlmm_swap_output_full bins amt (dp_token_x_mint d = NATIVE_SOL_MINT_C) (dlmm_fee j)))
      | PumpSwapAmm \<Rightarrow> (\<exists>pool m tok. fst (resolve_pool env j st) = Ok pool \<and>
          fst (fetch_pumpswap_meta_and_reserves env pool (snd (resolve_pool env j st))) = Ok (m, r, tok) \<and>
          checked_pumpswap_buy_output amt r tok (dc_pumpswap_fee_bps (ac_dex (jb_config j))) = Some em)
      | _ \<Rightarrow> False)"

text \<open>The second leg as they quote it for \<open>tokens\<close> tokens. On a DLMM pool whose bins give nothing, the
  fixed route refuses and the two generic builders take half the number of tokens.\<close>

definition second_leg :: "build_env \<Rightarrow> build_job \<Rightarrow> build_state \<Rightarrow> u64 \<Rightarrow> u64 \<Rightarrow> bool" where
  "second_leg env j st tokens es =
     (case op_sell_venue (jb_opp j) of
        RaydiumCpmm \<Rightarrow> (\<exists>s. fst (cached_cpmm env j st) = Ok s \<and>
          checked_cp_swap_output (snd (cpmm_sides env j s)) (fst (cpmm_sides env j s)) tokens CPMM_DEFAULT_TRADE_FEE_RATE = Some es)
      | OrcaWhirlpool \<Rightarrow> (\<exists>w. fst (cached_whirlpool env j st) = Ok w \<and>
          checked_cp_swap_output (snd (whirlpool_sides env j w)) (fst (whirlpool_sides env j w)) tokens (ucast (dp_fee_rate w)) = Some es)
      | MeteoraDlmm \<Rightarrow> (\<exists>d bins out. fst (cached_dlmm env j st) = Ok d \<and>
          scan_fetch_bins (bu_scan env) (dp_lb_pair d) = Ok bins \<and>
          out = de_out (estimate_dlmm_swap_output_full bins tokens (dp_token_x_mint d \<noteq> NATIVE_SOL_MINT_C) (dlmm_fee j)) \<and>
          (if op_buy_venue (jb_opp j) = PumpSwapAmm then out \<noteq> 0 \<and> es = out
           else es = (if out = 0 then tokens div 2 else out)))
      | PumpSwapAmm \<Rightarrow> (\<exists>pool m sol tok. fst (resolve_pool env j st) = Ok pool \<and>
          fst (fetch_pumpswap_meta_and_reserves env pool (snd (resolve_pool env j st))) = Ok (m, sol, tok) \<and>
          checked_pumpswap_sell_output tokens tok sol (dc_pumpswap_fee_bps (ac_dex (jb_config j))) = Some es)
      | _ \<Rightarrow> False)"

text \<open>What a transaction through the program has in common, whatever the pair: the four instructions; a
  demanded profit of one lamport; an investment that is not raised; as the minimum of the first leg its
  quote reduced by the slippage, except from DLMM to PumpSwap, whose route carries the minimum of the sale
  instead, which is one; and a net profit, of the quote of the second leg for that reduced amount, that is
  not below the threshold.\<close>

definition program_terms :: "build_env \<Rightarrow> build_job \<Rightarrow> build_state \<Rightarrow> built \<Rightarrow> bool" where
  "program_terms env j st b =
     (let (tx, em, es) = b in
      \<exists>arb_ix alt r. bu_compile env (bu_wallet env) (onchain_ixs env j arb_ix) [alt] (key_bytes (jb_blockhash j)) = Ok tx \<and>
        length (ix_data arb_ix) = 36 \<and>
        (let rx = route_ix_of (ix_data arb_ix); amt = rx_amount_in rx; guaranteed = min_out_of em (slippage_of j amt r) in
         rx_min_profit rx = 1 \<and> amt \<le> jb_investment j \<and> first_leg env j st amt r em \<and>
         rx_min_intermediate rx =
           (if op_buy_venue (jb_opp j) = MeteoraDlmm \<and> op_sell_venue (jb_opp j) = PumpSwapAmm then 1 else guaranteed) \<and>
         second_leg env j st guaranteed es) \<and>
        \<not> f_lt (fresh_net j es) (rc_min_profit_threshold_sol (ac_risk (jb_config j))))"

text \<open>Reading one pool does not change what is read of another.\<close>

lemma cached_state [simp]:
  "snd (cached_dlmm env j st) = st" "snd (cached_cpmm env j st) = st" "snd (cached_whirlpool env j st) = st"
  by (simp_all add: cached_dlmm_def cached_cpmm_def cached_whirlpool_def Let_def)

lemma resolve_caches [simp]: "bd_caches (snd (resolve_pool env j st)) = (bd_caches st)\<lparr>vc_pump := snd (resolve_pumpswap_pool_address
    (bu_pda env) (bu_parse env) (bu_rpc env) (bu_show env (jb_meme_mint j)) (vc_pump (bd_caches st)))\<rparr>"
  by (simp add: resolve_pool_def split: prod.splits)

lemma pumpswap_caches [simp]: "bd_caches (snd (fetch_pumpswap_meta_and_reserves env pool st)) = bd_caches st"
  by (auto simp: fetch_pumpswap_meta_and_reserves_def bthen_def lift_def pumpswap_meta_def
      split: prod.splits outcome.splits option.splits)

lemma cached_reads [simp]:
  "fst (cached_dlmm env j (snd (resolve_pool env j st))) = fst (cached_dlmm env j st)"
  "fst (cached_cpmm env j (snd (resolve_pool env j st))) = fst (cached_cpmm env j st)"
  "fst (cached_whirlpool env j (snd (resolve_pool env j st))) = fst (cached_whirlpool env j st)"
  "fst (cached_dlmm env j (snd (fetch_pumpswap_meta_and_reserves env pool st))) = fst (cached_dlmm env j st)"
  "fst (cached_cpmm env j (snd (fetch_pumpswap_meta_and_reserves env pool st))) = fst (cached_cpmm env j st)"
  "fst (cached_whirlpool env j (snd (fetch_pumpswap_meta_and_reserves env pool st))) = fst (cached_whirlpool env j st)"
  by (simp_all add: cached_dlmm_def cached_cpmm_def cached_whirlpool_def Let_def)

lemma caps_le: "cap_third r i \<le> i" "cap_min r i \<le> i"
  by (auto simp: cap_third_def cap_min_def)

lemma compile_tx_Ok:
  "fst (compile_tx env j ixs st) = Ok tx \<Longrightarrow>
     \<exists>alt. bu_compile env (bu_wallet env) ixs [alt] (key_bytes (jb_blockhash j)) = Ok tx"
  by (auto simp: compile_tx_def outcome_simps)

lemma check_fresh_Ok:
  "check_fresh j s = Ok () \<longleftrightarrow> \<not> f_lt (fresh_net j s) (rc_min_profit_threshold_sol (ac_risk (jb_config j)))"
  by (simp add: check_fresh_def outcome_simps)

lemma generic_data:
  assumes "build_generic_route pda parse_key wallet us um mint sol invest min_meme min_profit
      bk sk bc bw bp bd sc sw sp sd brem srem bsx mtp stp prog_id = Ok ix"
  obtains c1 c2 where "ix_data ix = build_ix_data ROUTE_DISC invest min_profit min_meme False bsx c1 c2"
  using assms by (auto simp: build_generic_route_def Let_def and_then_Ok_iff build_ix_data_def)

lemma finish_generic_OkE:
  assumes "fst (finish_generic env j amt m bk sk bc bw bp bd sc sw sp sd br sr sx em es st) = Ok b"
  obtains tx arb_ix where "b = (tx, em, es)"
    "build_generic_route (bu_pda env) (bu_parse env) (bu_wallet env) (jb_user_sol_ata j) (meme_ata env j)
         (jb_meme_mint j) (jb_sol_mint j) amt m 1 bk sk bc bw bp bd sc sw sp sd br sr sx (jb_token_program j)
         (jb_sol_token_program j) (er_onchain_program_id (ac_routing (jb_config j))) = Ok arb_ix"
    "\<exists>alt. bu_compile env (bu_wallet env) (onchain_ixs env j arb_ix) [alt] (key_bytes (jb_blockhash j)) = Ok tx"
  using assms by (auto simp: finish_generic_def outcome_simps dest!: compile_tx_Ok intro!: that)

lemma program_termsI:
  assumes "ix_data arb_ix = build_ix_data disc amt 1 m False sx c1 c2" "length disc = 8"
    and "m = (if op_buy_venue (jb_opp j) = MeteoraDlmm \<and> op_sell_venue (jb_opp j) = PumpSwapAmm then 1
      else min_out_of em (slippage_of j amt r))"
    and "first_leg env j st amt r em" "second_leg env j st (min_out_of em (slippage_of j amt r)) es"
    and "amt \<le> jb_investment j" and "check_fresh j es = Ok ()"
    and "\<exists>alt. bu_compile env (bu_wallet env) (onchain_ixs env j arb_ix) [alt] (key_bytes (jb_blockhash j)) = Ok tx"
  shows "program_terms env j st (tx, em, es)"
proof -
  have "length (ix_data arb_ix) = 36" "route_ix_of (ix_data arb_ix) =
      \<lparr>rx_amount_in = amt, rx_min_profit = 1, rx_min_intermediate = m, rx_track_volume = False,
       rx_sol_is_x = sx, rx_first_count = unat c1, rx_second_count = unat c2\<rparr>"
    using built_ix_data [OF assms(2)] by (simp_all add: assms(1))
  with assms(3-8) show ?thesis
    unfolding program_terms_def check_fresh_Ok Let_def prod.case
    by (elim exE) (intro exI [of _ arb_ix] exI [of _ r] exI conjI, auto)
qed

lemma finish_generic_terms:
  assumes "fst (finish_generic env j amt (min_out_of em (slippage_of j amt r)) bk sk bc bw bp bd sc sw sp sd br sr sx em es st1)
      = Ok b"
    and "\<not> (op_buy_venue (jb_opp j) = MeteoraDlmm \<and> op_sell_venue (jb_opp j) = PumpSwapAmm)"
    and "first_leg env j st amt r em" "second_leg env j st (min_out_of em (slippage_of j amt r)) es"
    and "amt \<le> jb_investment j" and "check_fresh j es = Ok ()"
  shows "program_terms env j st b"
  using assms(1)
proof (rule finish_generic_OkE)
  fix tx arb_ix
  assume "b = (tx, em, es)"
    and "build_generic_route (bu_pda env) (bu_parse env) (bu_wallet env) (jb_user_sol_ata j) (meme_ata env j)
         (jb_meme_mint j) (jb_sol_mint j) amt (min_out_of em (slippage_of j amt r)) 1 bk sk bc bw bp bd sc sw sp sd br sr sx
         (jb_token_program j) (jb_sol_token_program j) (er_onchain_program_id (ac_routing (jb_config j))) = Ok arb_ix"
    and "\<exists>alt. bu_compile env (bu_wallet env) (onchain_ixs env j arb_ix) [alt] (key_bytes (jb_blockhash j)) = Ok tx"
  then show ?thesis using assms(2-6)
    by (auto elim!: generic_data intro!: program_termsI [OF _ disc_length(3)])
qed

lemmas built_simps = outcome_simps Let_def case_prod_beta

lemmas leg_simps = built_simps first_leg_def second_leg_def ok_or_Ok_iff dlmm_sides_def sell_estimate_or_half_def fail_if_def

abbreviation trades :: "build_job \<Rightarrow> venue \<Rightarrow> venue \<Rightarrow> bool" where
  "trades j bv sv \<equiv> op_buy_venue (jb_opp j) = bv \<and> op_sell_venue (jb_opp j) = sv"

lemma cpmm_whirlpool_terms:
  "trades j RaydiumCpmm OrcaWhirlpool \<Longrightarrow> fst (build_onchain_cpmm_to_whirlpool_tx env j st) = Ok b \<Longrightarrow> program_terms env j st b"
  "trades j OrcaWhirlpool RaydiumCpmm \<Longrightarrow> fst (build_onchain_whirlpool_to_cpmm_tx env j st) = Ok b \<Longrightarrow> program_terms env j st b"
  unfolding build_onchain_cpmm_to_whirlpool_tx_def build_onchain_whirlpool_to_cpmm_tx_def
  by (auto simp: leg_simps elim!: finish_generic_terms intro: caps_le)

lemma pump_cpmm_terms:
  "trades j PumpSwapAmm RaydiumCpmm \<Longrightarrow> fst (build_onchain_pump_to_cpmm_tx env j st) = Ok b \<Longrightarrow> program_terms env j st b"
  "trades j RaydiumCpmm PumpSwapAmm \<Longrightarrow> fst (build_onchain_cpmm_to_pump_tx env j st) = Ok b \<Longrightarrow> program_terms env j st b"
  unfolding build_onchain_pump_to_cpmm_tx_def build_onchain_cpmm_to_pump_tx_def
  by (auto simp: leg_simps elim!: finish_generic_terms intro: caps_le)

lemma dlmm_whirlpool_terms:
  "trades j MeteoraDlmm OrcaWhirlpool \<Longrightarrow> fst (build_onchain_dlmm_to_whirlpool_tx env j st) = Ok b \<Longrightarrow> program_terms env j st b"
  "trades j OrcaWhirlpool MeteoraDlmm \<Longrightarrow> fst (build_onchain_whirlpool_to_dlmm_tx env j st) = Ok b \<Longrightarrow> program_terms env j st b"
  unfolding build_onchain_dlmm_to_whirlpool_tx_def build_onchain_whirlpool_to_dlmm_tx_def
  by (auto simp: leg_simps elim!: finish_generic_terms intro: caps_le)

lemma pump_whirlpool_terms:
  "trades j PumpSwapAmm OrcaWhirlpool \<Longrightarrow> fst (build_onchain_pump_to_whirlpool_tx env j st) = Ok b \<Longrightarrow> program_terms env j st b"
  "trades j OrcaWhirlpool PumpSwapAmm \<Longrightarrow> fst (build_onchain_whirlpool_to_pump_tx env j st) = Ok b \<Longrightarrow> program_terms env j st b"
  unfolding build_onchain_pump_to_whirlpool_tx_def build_onchain_whirlpool_to_pump_tx_def
  by (auto simp: leg_simps elim!: finish_generic_terms intro: caps_le)

lemma dlmm_cpmm_terms:
  "trades j RaydiumCpmm MeteoraDlmm \<Longrightarrow> fst (build_onchain_cpmm_to_dlmm_tx env j st) = Ok b \<Longrightarrow> program_terms env j st b"
  "trades j MeteoraDlmm RaydiumCpmm \<Longrightarrow> fst (build_onchain_dlmm_to_cpmm_tx env j st) = Ok b \<Longrightarrow> program_terms env j st b"
  unfolding build_onchain_cpmm_to_dlmm_tx_def build_onchain_dlmm_to_cpmm_tx_def
  by (auto simp: leg_simps elim!: finish_generic_terms intro: caps_le)

lemma pump_to_dlmm_terms:
  "trades j PumpSwapAmm MeteoraDlmm \<Longrightarrow> fst (build_onchain_pump_to_dlmm_tx env j st) = Ok b \<Longrightarrow> program_terms env j st b"
  unfolding build_onchain_pump_to_dlmm_tx_def
  by (auto simp: leg_simps elim!: build_pump_to_dlmm_OkE dest!: compile_tx_Ok
      intro!: program_termsI [OF _ disc_length(1)] intro: caps_le)

lemma dlmm_to_pump_terms:
  "trades j MeteoraDlmm PumpSwapAmm \<Longrightarrow> fst (build_onchain_dlmm_to_pump_tx env j st) = Ok b \<Longrightarrow> program_terms env j st b"
  unfolding build_onchain_dlmm_to_pump_tx_def
  by (auto simp: leg_simps elim!: build_dlmm_to_pump_OkE dest!: compile_tx_Ok
      intro!: program_termsI [OF _ disc_length(2)] intro: caps_le)

definition through_program :: "app_config \<Rightarrow> opportunity \<Rightarrow> bool" where
  "through_program config opp \<longleftrightarrow>
     should_use_onchain_program (op_token_mint opp) (ac_routing config) \<or>
     {op_buy_venue opp, op_sell_venue opp} \<noteq> {PumpSwapAmm, MeteoraDlmm}"

lemmas pair_terms = cpmm_whirlpool_terms pump_cpmm_terms dlmm_whirlpool_terms pump_whirlpool_terms dlmm_cpmm_terms
  pump_to_dlmm_terms dlmm_to_pump_terms

lemma pair_transaction_terms:
  assumes "through_program (jb_config j) (jb_opp j)" and "fst (build_pair_tx env j st) = Ok b"
  shows "program_terms env j st b"
  using assms pair_terms [of j]
  by (cases "op_buy_venue (jb_opp j)"; cases "op_sell_venue (jb_opp j)")
    (auto simp: build_pair_tx_def through_program_def Let_def split: if_splits)

text \<open>C29: Every transaction the bot builds through its program, for any of the twelve venue pairs, consists of four
  instructions, to which a tip is added when the sender is enabled. The last of the four demands a profit of one
  lamport, invests at most what the scanner asked for, and requires of the first leg the tokens its venue quotes
  from the pool read, reduced by the slippage for that pool's reserve; only from DLMM to PumpSwap the minimum is
  one, of the sale. The second leg is quoted for the reduced amount, and its net profit is not below the
  threshold.\<close>

theorem program_transaction_terms:
  assumes "through_program config opp" and "fst (build_atomic_arbitrage_tx env config opp st) = Ok (tx, height, estimate)"
  shows "\<exists>blockhash meme_mint token_program tx0 em es st2.
    let j = job_of env config opp blockhash meme_mint token_program;
        st1 = snd (detect_token_program env meme_mint st) in
    choose_blockhash env = Ok (blockhash, height) \<and> bu_parse env (op_token_mint opp) = Some meme_mint \<and>
    fst (detect_token_program env meme_mint st) = Ok token_program \<and>
    program_terms env j st1 (tx0, em, es) \<and>
    (if ac_sender_enabled config then fst (tip_step env tx0 st2) = Ok tx else tx = tx0)"
proof -
  from assms(2) obtain blockhash meme_mint token_program tx0 em es st2 where
    b: "choose_blockhash env = Ok (blockhash, height)" "bu_parse env (op_token_mint opp) = Some meme_mint"
      "fst (detect_token_program env meme_mint st) = Ok token_program"
    and p: "fst (build_pair_tx env (job_of env config opp blockhash meme_mint token_program)
        (snd (detect_token_program env meme_mint st))) = Ok (tx0, em, es)"
    and t: "if ac_sender_enabled config then fst (tip_step env tx0 st2) = Ok tx else tx = tx0"
    by (auto simp: build_atomic_arbitrage_tx_def built_simps key_or_err_def ok_or_Ok_iff split: if_splits)
  let ?j = "job_of env config opp blockhash meme_mint token_program"
  have "through_program (jb_config ?j) (jb_opp ?j)" using assms(1) by (simp add: job_of_def Let_def)
  from pair_transaction_terms [OF this p] b t show ?thesis unfolding Let_def by blast
qed

section \<open>Buying on a Whirlpool\<close>

lemma whirlpool_buy_finish:
  assumes "op_buy_venue (jb_opp j) = OrcaWhirlpool" and "fst (build_pair_tx env j st) = Ok b"
  shows "\<exists>amt m sk bc bw bp bd sc sw sp sd br sr sx em es st1.
    fst (finish_generic env j amt m (wire_kind Whirlpool) sk bc bw bp bd sc sw sp sd br sr sx em es st1) = Ok b"
  using assms
  by (cases "op_sell_venue (jb_opp j)")
    (auto simp: build_pair_tx_def built_simps build_onchain_whirlpool_to_cpmm_tx_def build_onchain_whirlpool_to_dlmm_tx_def
      build_onchain_whirlpool_to_pump_tx_def; blast)+

text \<open>C30: Whatever opportunity that buys on a Whirlpool the bot builds a transaction for, the
  program refuses the instruction, for every owner of the accounts, every ledger and every behaviour of
  the invoked programs.\<close>

theorem whirlpool_buys_never_execute:
  assumes "op_buy_venue (jb_opp j) = OrcaWhirlpool" and "fst (build_pair_tx env j st) = Ok (tx, est_meme, est_sol)"
  shows "\<exists>arb_ix alt.
    bu_compile env (bu_wallet env) (onchain_ixs env j arb_ix) [alt] (key_bytes (jb_blockhash j)) = Ok tx \<and>
    (\<forall>cpi program_id owner l l'. process_instruction (bu_pda env) cpi program_id
       (load_accounts owner (ix_accounts arb_ix)) (ix_data arb_ix) l \<noteq> Ok l')"
proof -
  obtain amt m sk bc bw bp bd sc sw sp sd br sr sx em es st1 where
    "fst (finish_generic env j amt m (wire_kind Whirlpool) sk bc bw bp bd sc sw sp sd br sr sx em es st1)
      = Ok (tx, est_meme, est_sol)"
    using whirlpool_buy_finish [OF assms] by blast
  then obtain arb_ix where g: "build_generic_route (bu_pda env) (bu_parse env) (bu_wallet env) (jb_user_sol_ata j)
        (meme_ata env j) (jb_meme_mint j) (jb_sol_mint j) amt m 1 (wire_kind Whirlpool) sk bc bw bp bd sc sw sp sd br sr sx
        (jb_token_program j) (jb_sol_token_program j) (er_onchain_program_id (ac_routing (jb_config j))) = Ok arb_ix"
    and "\<exists>alt. bu_compile env (bu_wallet env) (onchain_ixs env j arb_ix) [alt] (key_bytes (jb_blockhash j)) = Ok tx"
    by (elim finish_generic_OkE) simp
  moreover from g obtain c1 c2 where "ix_data arb_ix = build_ix_data ROUTE_DISC amt 1 m False sx c1 c2"
    by (rule generic_data)
  ultimately show ?thesis
    using client_whirlpool_buy_rejected [OF g] by (auto simp: process_eq built_ix_data [OF disc_length(3)])
qed

section \<open>A DLMM pool without liquidity\<close>

lemma no_bins_estimate: "de_out (estimate_dlmm_swap_output_full [] amt d fee) = 0"
  by (simp add: estimate_dlmm_swap_output_full_def Let_def)

definition dlmm_of :: "build_env \<Rightarrow> build_job \<Rightarrow> build_state \<Rightarrow> dlmm_pool option" where
  "dlmm_of env j st = get_dlmm_reserves (bu_now env) NATIVE_SOL_MINT_C (op_token_mint (jb_opp j))
     (dc_reserves (vc_dlmm (bd_caches st)))"

lemma cached_dlmm_Ok: "fst (cached_dlmm env j st) = Ok d \<longleftrightarrow> dlmm_of env j st = Some d"
  by (simp add: cached_dlmm_def dlmm_of_def ok_or_Ok_iff)

lemma reads_keep_dlmm:
  "dlmm_of env j (snd (resolve_pool env j st)) = dlmm_of env j st"
  "dlmm_of env j (snd (cached_whirlpool env j st)) = dlmm_of env j st"
  "dlmm_of env j (snd (cached_cpmm env j st)) = dlmm_of env j st"
  "dlmm_of env j (snd (cached_dlmm env j st)) = dlmm_of env j st"
  by (simp_all add: resolve_pool_def cached_whirlpool_def cached_cpmm_def cached_dlmm_def dlmm_of_def Let_def
      split: prod.splits)

lemma finish_generic_estimates:
  "fst (finish_generic env j amt m bk sk bc bw bp bd sc sw sp sd br sr sx em es st) = Ok (tx, a, b) \<Longrightarrow> a = em \<and> b = es"
  by (elim finish_generic_OkE) simp

lemma empty_pool_refused:
  assumes "dlmm_of env j st = Some d" and "scan_fetch_bins (bu_scan env) (dp_lb_pair d) = Ok []"
  shows "fst (build_onchain_dlmm_to_whirlpool_tx env j st) \<noteq> Ok b"
    and "fst (build_onchain_dlmm_to_cpmm_tx env j st) \<noteq> Ok b"
    and "fst (build_onchain_dlmm_to_pump_tx env j st) \<noteq> Ok b"
    and "fst (build_onchain_pump_to_dlmm_tx env j st) \<noteq> Ok b"
proof -
  show "fst (build_onchain_dlmm_to_whirlpool_tx env j st) \<noteq> Ok b"
    using assms by (auto simp: build_onchain_dlmm_to_whirlpool_tx_def built_simps cached_dlmm_Ok no_bins_estimate)
  show "fst (build_onchain_dlmm_to_cpmm_tx env j st) \<noteq> Ok b"
    using assms by (auto simp: build_onchain_dlmm_to_cpmm_tx_def built_simps cached_dlmm_Ok no_bins_estimate)
  show "fst (build_onchain_dlmm_to_pump_tx env j st) \<noteq> Ok b"
    using assms by (auto simp: build_onchain_dlmm_to_pump_tx_def built_simps cached_dlmm_Ok reads_keep_dlmm no_bins_estimate)
  show "fst (build_onchain_pump_to_dlmm_tx env j st) \<noteq> Ok b"
    using assms by (auto simp: build_onchain_pump_to_dlmm_tx_def built_simps cached_dlmm_Ok reads_keep_dlmm no_bins_estimate)
qed

lemma empty_pool_half:
  assumes "dlmm_of env j st = Some d" and "scan_fetch_bins (bu_scan env) (dp_lb_pair d) = Ok []"
    and "fst (build_onchain_whirlpool_to_dlmm_tx env j st) = Ok (tx, em, es) \<or>
      fst (build_onchain_cpmm_to_dlmm_tx env j st) = Ok (tx, em, es)"
  shows "\<exists>amt r. amt \<le> jb_investment j \<and> es = min_out_of em (slippage_of j amt r) div 2"
  using assms
  by (auto simp: build_onchain_whirlpool_to_dlmm_tx_def build_onchain_cpmm_to_dlmm_tx_def built_simps cached_dlmm_Ok
      reads_keep_dlmm no_bins_estimate sell_estimate_or_half_def dest!: finish_generic_estimates intro: caps_le order_refl)

text \<open>When the DLMM pool has no bins, every builder that buys from it and the fixed route that
  sells into it refuse. The generic builders that sell into it build a transaction all the same: they take for
  the lamports received half the number of tokens, and check the profit threshold against that.\<close>

lemma empty_dlmm_pool_priced:
  assumes "through_program (jb_config j) (jb_opp j)" and "MeteoraDlmm \<in> {op_buy_venue (jb_opp j), op_sell_venue (jb_opp j)}"
    and "dlmm_of env j st = Some d" and "scan_fetch_bins (bu_scan env) (dp_lb_pair d) = Ok []"
    and "fst (build_pair_tx env j st) = Ok (tx, est_meme, est_sol)"
  shows "op_sell_venue (jb_opp j) = MeteoraDlmm \<and> op_buy_venue (jb_opp j) \<in> {RaydiumCpmm, OrcaWhirlpool} \<and>
    (\<exists>amt r. amt \<le> jb_investment j \<and> est_sol = min_out_of est_meme (slippage_of j amt r) div 2)"
  using assms(1,2,5) empty_pool_refused [OF assms(3,4), of "(tx, est_meme, est_sol)"]
    empty_pool_half [OF assms(3,4), of tx est_meme est_sol]
  by (cases "op_buy_venue (jb_opp j)"; cases "op_sell_venue (jb_opp j)")
    (auto simp: build_pair_tx_def through_program_def Let_def split: if_splits)

section \<open>The direct swaps\<close>

text \<open>The amounts in the data of the two swap instructions.\<close>

lemma swap_data:
  "ix_data (build_pumpswap_buy_ix pda u p m q ub uq pb pq bt qt spend min_out tv cc cb br fr)
     = PUMPSWAP_BUY_DISCRIMINATOR @ u64_to_le spend @ u64_to_le min_out @ [of_bool tv]"
  "ix_data (build_dlmm_swap2_ix u lp bins rx ry ti to xm ym orc ea amt out xp yp memo ep be hf)
     = DLMM_SWAP2_DISCRIMINATOR @ u64_to_le amt @ u64_to_le out @ u32_to_le 0"
  "ix_data (build_pumpfun_buy_ix pda u m bc abc au fr lamports min_out tp)
     = PUMPFUN_BUY_DISCRIMINATOR @ u64_to_le lamports @ u64_to_le min_out"
  by (simp_all add: build_pumpswap_buy_ix_def build_dlmm_swap2_ix_def build_pumpfun_buy_ix_def Let_def)

lemma direct_dlmm_data:
  "direct_dlmm_ix env j d ti to amt out = Ok ix \<Longrightarrow>
     ix_data ix = DLMM_SWAP2_DISCRIMINATOR @ u64_to_le amt @ u64_to_le out @ u32_to_le 0"
  by (auto simp: direct_dlmm_ix_def Let_def outcome_simps swap_data)

lemma direct_prefix_length [simp]: "length (direct_prefix env j) = 4"
  by (simp add: direct_prefix_def budget_ixs_def)

lemma nth_direct_prefix [simp]:
  "4 \<le> n \<Longrightarrow> (direct_prefix env j @ xs) ! n = xs ! (n - 4)"
  by (simp add: nth_append)

lemma graduated_amounts:
  assumes "fst (build_pumpswap_amm_buy_dlmm_sell env j bc st) = Ok tx"
  obtains ixs alt m out es where "bu_compile env (bu_wallet env) ixs [alt] (key_bytes (jb_blockhash j)) = Ok tx"
    "length ixs = 9" "ixs ! 4 = system_transfer_ix (bu_wallet env) (jb_user_sol_ata j) (jb_investment j)"
    "ix_data (ixs ! 6) = PUMPSWAP_BUY_DISCRIMINATOR @ u64_to_le (jb_investment j) @ u64_to_le m @ [1]"
    "ix_data (ixs ! 7) = DLMM_SWAP2_DISCRIMINATOR @ u64_to_le m @ u64_to_le out @ u32_to_le 0"
    "check_fresh j es = Ok ()" "\<exists>r. out = min_out_of es (slippage_of j m r)"
  using assms
  by (auto simp: build_pumpswap_amm_buy_dlmm_sell_def built_simps wrap_ixs_def swap_data
      dest!: compile_tx_Ok direct_dlmm_data intro!: that)

lemma curve_amounts:
  assumes "fst (curve_of env j st) = Ok bc" and "bc_venue_kind bc \<noteq> PumpSwapPool"
    and "fst (build_pumpswap_buy_dlmm_sell env j st) = Ok tx"
  obtains ixs alt est out r where "bu_compile env (bu_wallet env) ixs [alt] (key_bytes (jb_blockhash j)) = Ok tx"
    "length ixs = 6"
    "ix_data (ixs ! 4) = PUMPFUN_BUY_DISCRIMINATOR @ u64_to_le (jb_investment j)
       @ u64_to_le (min_out_of est (slippage_of j (jb_investment j) r))"
    "ix_data (ixs ! 5) = DLMM_SWAP2_DISCRIMINATOR @ u64_to_le est @ u64_to_le out @ u32_to_le 0"
proof -
  have "snd (cached_dlmm env j st) = st" by (simp add: cached_dlmm_def)
  with assms show thesis
    by (auto simp: build_pumpswap_buy_dlmm_sell_def built_simps swap_data
        dest!: compile_tx_Ok direct_dlmm_data intro!: that)
qed

section \<open>A concrete build\<close>

text \<open>A Whirlpool with three SOL against eight trillion token units, and a DLMM pool whose bin arrays do not
  exist.\<close>

definition dry_pool :: dlmm_pool where
  "dry_pool = \<lparr>dp_lb_pair = ''pair'', dp_token_x_mint = NATIVE_SOL_MINT_C, dp_token_y_mint = ''meme'',
     dp_reserve_x = 3000000000, dp_reserve_y = 8000000000000, dp_reserve_x_address = ''vault x'', dp_reserve_y_address = ''vault y'',
     dp_bin_array_addresses = [''bins''], dp_bins = [], dp_bin_step = 1, dp_base_factor = 0, dp_active_id = 0,
     dp_bin_array_bitmap_extension = None, dp_sqrt_price = 0, dp_tick_current_index = 0, dp_fee_rate = 0\<rparr>"

definition dry_curve :: bonding_curve_state where
  "dry_curve = even_curve\<lparr>bc_venue_kind := BondingCurve, bc_bonding_curve_address := ''curve''\<rparr>"

definition dry_scan :: scan_env where
  "dry_scan = even_env\<lparr>se_dlmm := (se_dlmm even_env)\<lparr>dv_parse := (\<lambda>_. Some 9),
     dv_show := (\<lambda>k. if k = pubkey_lit NATIVE_SOL_MINT_C then NATIVE_SOL_MINT_C else ''meme''),
     dv_rpc := \<lparr>rv_account = (\<lambda>_. Some \<lparr>on_owner = DLMM_ID, on_data = replicate 152 0\<rparr>),
       rv_multiple = (\<lambda>_. Some (\<lambda>_. None))\<rparr>\<rparr>\<rparr>"

definition dry_message :: message_v0 where
  "dry_message = \<lparr>mv_num_readonly_unsigned = 1, mv_account_keys = [100], mv_recent_blockhash = [3],
     mv_instructions = [], mv_lookups = []\<rparr>"

definition dry_env :: build_env where
  "dry_env = \<lparr>bu_scan = dry_scan, bu_wallet = 100, bu_slot = 0,
     bu_table = (\<lambda>k. Some \<lparr>ta_key = k, ta_addresses = []\<rparr>), bu_table_data = (\<lambda>_. None), bu_blockhash = Some (7, 0),
     bu_cu_price = (\<lambda>_. \<lparr>ix_program_id = 0, ix_accounts = [], ix_data = []\<rparr>),
     bu_cu_limit = (\<lambda>_. \<lparr>ix_program_id = 0, ix_accounts = [], ix_data = []\<rparr>),
     bu_compile = (\<lambda>_ _ _ _. Ok dry_message)\<rparr>"

definition dry_opp :: "venue \<Rightarrow> opportunity" where
  "dry_opp buy = demo_opp\<lparr>op_token_mint := ''meme'', op_buy_venue := buy, op_dlmm_fee_bps := 0\<rparr>"

definition dry_cfg :: app_config where
  "dry_cfg = demo_cfg\<lparr>ac_dex := (ac_dex demo_cfg)\<lparr>dc_pumpfun_fee_bps := 0\<rparr>,
     ac_risk := demo_risk\<lparr>rc_slippage_tolerance_bps := 0, rc_min_profit_threshold_sol := Fin 1\<rparr>,
     ac_scanner := scanner_config_default\<lparr>sc_compute_unit_price_micro_lamports := 0\<rparr>\<rparr>"

definition dry_job :: "venue \<Rightarrow> build_job" where
  "dry_job buy = job_of dry_env dry_cfg (dry_opp buy) 7 9 TOKEN_ID"

definition dry_state :: build_state where
  "dry_state = \<lparr>bd_caches = even_caches
       \<lparr>vc_pump := \<lparr>pu_pool_addr = Map.empty, pu_bonding = [''meme'' \<mapsto> entry_new 100 (Some dry_curve)]\<rparr>,
        vc_dlmm := (vc_dlmm even_caches)\<lparr>dc_reserves := [cache_key NATIVE_SOL_MINT_C ''meme'' \<mapsto> entry_new 100 (Some dry_pool)]\<rparr>,
        vc_whirlpool := [cache_key NATIVE_SOL_MINT_C ''meme'' \<mapsto> entry_new 100 (Some dry_pool)]\<rparr>,
     bd_pool_meta = Map.empty, bd_token_programs = [''meme'' \<mapsto> TOKEN_ID], bd_alt = None, bd_fee_recipient = Some 5,
     bd_tip_tables = Map.empty\<rparr>"

lemma sol_not_9 [simp]: "NATIVE_SOL_MINT \<noteq> 9"
  by (simp add: NATIVE_SOL_MINT_def b58_eval)

lemmas dry_job_defs = dry_job_def job_of_def Let_def dry_opp_def dry_cfg_def

lemma dry_reads:
  "cached_whirlpool dry_env (dry_job v) dry_state = (Ok dry_pool, dry_state)"
  "cached_dlmm dry_env (dry_job v) dry_state = (Ok dry_pool, dry_state)"
  "dlmm_of dry_env (dry_job v) dry_state = Some dry_pool"
  "curve_of dry_env (dry_job v) dry_state = (Ok dry_curve, dry_state)"
  by (simp_all add: cached_whirlpool_def cached_dlmm_def dlmm_of_def curve_of_def get_whirlpool_reserves_def get_dlmm_reserves_def
      get_entry_def dry_env_def dry_scan_def even_env_def dry_job_defs demo_opp_def dry_state_def even_caches_def entry_new_def
      is_stale_def age_secs_def fetch_bonding_curve_def PUMPFUN_RESERVE_TTL_SECS_def CACHE_TTL_SECS_def)

lemma dry_bins: "scan_fetch_bins (bu_scan dry_env) (dp_lb_pair dry_pool) = Ok []"
  by (simp add: scan_fetch_bins_def fetch_bins_fresh_def dry_env_def dry_scan_def even_env_def key_or_err_def
      warm_or_rpc_def warm_data_def get_with_slot_def geyser_default_def get_multiple_accounts_def Let_def
      List.map_filter_def)

lemma dry_fields:
  "op_token_mint (jb_opp (dry_job v)) = ''meme''" "op_buy_venue (jb_opp (dry_job v)) = v"
  "op_sell_venue (jb_opp (dry_job v)) = MeteoraDlmm" "op_investment_sol (jb_opp (dry_job v)) = Fin 1"
  "rc_min_profit_threshold_sol (ac_risk (jb_config (dry_job v))) = Fin 1"
  "jb_investment (dry_job v) = 1000000000"
proof -
  have "unat (sol_to_lamports (Fin 1)) = 1000000000"
    using rnd_representable [OF representable_of_int [of 1000000000]] by (simp add: sol_to_lamports_Fin)
  then show "jb_investment (dry_job v) = 1000000000"
    by (simp add: dry_job_defs demo_opp_def word_unat_eq_iff)
qed (simp_all add: dry_job_defs demo_opp_def)

lemma f0: "to_f64 0 = Fin 0" "to_f64 1 = Fin 1"
  using to_f64_rep [of 0] to_f64_rep [OF representable_of_int [of 1]] by simp_all

lemma dry_slippage: "slippage_of (dry_job v) a r = Fin 1"
proof -
  have "f_div (f64_of_nat 0) (Fin 10000) = Fin 0" by (simp add: f64_of_nat_def f0)
  moreover have "f_mul (Fin 0) (Fin x) = Fin 0" "f_sub (Fin 1) (Fin 0) = Fin 1" for x
    by (simp_all add: f_sub_def f0)
  ultimately show ?thesis
    by (simp add: slippage_of_def dry_job_defs compute_effective_slippage_def Let_def)
qed

lemma dry_sides: "whirlpool_sides dry_env (dry_job v) dry_pool = (3000000000, 8000000000000)"
  by (simp add: whirlpool_sides_def dry_pool_def dry_env_def dry_scan_def dry_job_defs)

lemma dry_quote: "checked_cp_swap_output 3000000000 8000000000000 1000000000 0 = Some 2000000000000"
  by (simp add: checked_cp_swap_output_def SWAP_FEE_DENOM_def checked_sub_def checked_mul_def checked_div_def
      checked_add_def word_arith_nat_div)

lemma dry_min: "min_out_of 2000000000000 (Fin 1) = 2000000000000"
  by (simp add: min_out_of_def f64_of_u64_def f64_of_nat_def to_f64_numeral f64_as_u64_def)

lemma dry_fresh: "check_fresh (dry_job v) 1000000000000 = Ok ()"
proof -
  define c where "c = rnd (1 / 200000)"
  have c: "0 \<le> c" "c \<le> 1"
    unfolding c_def using representable_of_int [of 1] by (auto intro: rnd_nonneg rnd_le)
  have "(1 :: rat) \<le> 2 ^ 1000" by simp
  then have "\<bar>c\<bar> \<le> 2 ^ 1000" using c by linarith
  then have "to_f64 c = Fin c" unfolding c_def by (rule to_f64_rep [OF representable_rnd])
  moreover have "to_f64 (1 / 200000) = Fin c" unfolding c_def by (rule to_f64_bounded) simp
  moreover have "\<bar>999 - c\<bar> \<le> 2 ^ 1000" using c by simp
  then have "to_f64 (999 - c) = Fin (rnd (999 - c))" by (rule to_f64_bounded)
  moreover have "1 \<le> rnd (999 - c)" using c representable_of_int [of 1] by (intro rnd_ge) auto
  ultimately show ?thesis
    using c by (simp add: check_fresh_def fresh_net_def dry_fields dry_job_defs compute_cu_cost_sol_def Let_def f64_of_u64_def
        f64_of_nat_def to_f64_numeral f0 f_sub_def scanner_config_default_def demo_opp_def)
qed

lemma dry_parse: "key_or_err (bu_parse dry_env) s = Ok 9" "key_unwrap (bu_parse dry_env) s = Ok 9"
  by (simp_all add: dry_env_def dry_scan_def key_or_err_def key_unwrap_def)

lemma dry_sections:
  "\<exists>w. whirlpool_section_data (bu_pda dry_env) (bu_parse dry_env) dry_pool = Ok w"
  "\<exists>d. dlmm_section_data (bu_pda dry_env) (bu_parse dry_env) dry_pool tp = Ok d"
  by (simp_all add: whirlpool_section_data_def dlmm_section_data_def dry_parse Let_def dry_pool_def)

lemma dry_table: "\<exists>t. fst (alt_table dry_env k st) = Ok t"
  by (auto simp: alt_table_def get_alt_def dry_env_def Let_def split: prod.splits option.splits)

lemma dry_compile: "fst (compile_tx dry_env (dry_job v) ixs st) = Ok dry_message"
proof -
  have "er_onchain_arb_alt (ac_routing (jb_config (dry_job v))) = Some ''a''" by (simp add: dry_job_defs demo_cfg_def)
  moreover have "bu_compile dry_env w ixs ts bh = Ok dry_message" for w ts bh by (simp add: dry_env_def)
  ultimately show ?thesis using dry_table by (auto simp: compile_tx_def dry_parse outcome_simps)
qed

lemma dry_cap: "cap_min 3000000000 1000000000 = 1000000000"
  by (simp add: cap_min_def word_arith_nat_div)

lemma dry_half: "sell_estimate_or_half 0 2000000000000 = 1000000000000"
  by (simp add: sell_estimate_or_half_def word_arith_nat_div)

lemma dry_route:
  "\<exists>ix. build_generic_route (bu_pda dry_env) (bu_parse dry_env) wallet us um mint sol amt m 1 DEX_KIND_WHIRLPOOL_C
      DEX_KIND_DLMM_C None (Some w) None None None None None (Some d) 0 n True tp stp prog = Ok ix"
  by (simp add: build_generic_route_def Let_def section_or_err_def dry_parse)

lemma dry_builds:
  "fst (build_pair_tx dry_env (dry_job OrcaWhirlpool) dry_state) = Ok (dry_message, 2000000000000, 1000000000000)"
proof -
  let ?j = "dry_job OrcaWhirlpool"
  obtain w d where s: "whirlpool_section_data (bu_pda dry_env) (bu_parse dry_env) dry_pool = Ok w"
    "dlmm_section_data (bu_pda dry_env) (bu_parse dry_env) dry_pool (jb_token_program ?j) = Ok d"
    using dry_sections by blast
  have fee: "dp_fee_rate dry_pool = 0" by (simp add: dry_pool_def)
  have f: "fst (finish_generic dry_env ?j amt m DEX_KIND_WHIRLPOOL_C DEX_KIND_DLMM_C None (Some w) None None None None None
      (Some d) 0 n True em es st) = Ok (dry_message, em, es)" for amt m n em es st
    using dry_route [of "bu_wallet dry_env" "jb_user_sol_ata ?j"] by (auto simp: finish_generic_def outcome_simps dry_compile)
  have "fst (build_onchain_whirlpool_to_dlmm_tx dry_env ?j dry_state) = Ok (dry_message, 2000000000000, 1000000000000)"
    unfolding build_onchain_whirlpool_to_dlmm_tx_def
    by (simp add: bthen_Ok_iff dry_reads dry_sides dry_fields dry_cap fee dry_quote dry_slippage dry_min dry_bins
        no_bins_estimate dry_half dry_fresh s f [simplified])
  then show ?thesis by (simp add: build_pair_tx_def dry_fields)
qed

lemma dry_transaction:
  "fst (build_atomic_arbitrage_tx dry_env dry_cfg (dry_opp OrcaWhirlpool) dry_state)
     = Ok (dry_message, 0, Some \<lparr>te_invest_sol = Fin 1, te_est_meme = 2000000000000, te_est_sol_out = 1000000000000\<rparr>)"
proof -
  have "choose_blockhash dry_env = Ok (7, 0)"
    by (simp add: choose_blockhash_def dry_env_def dry_scan_def even_env_def geyser_default_def get_fresh_blockhash_def)
  moreover have "detect_token_program dry_env 9 dry_state = (Ok TOKEN_ID, dry_state)"
    by (simp add: detect_token_program_def dry_env_def dry_scan_def dry_state_def Let_def)
  moreover have "op_investment_sol (dry_opp v) = Fin 1" "\<not> ac_sender_enabled dry_cfg" for v
    by (simp_all add: dry_opp_def dry_cfg_def demo_opp_def demo_cfg_def)
  ultimately show ?thesis
    using dry_builds by (simp add: build_atomic_arbitrage_tx_def bthen_Ok_iff dry_parse dry_job_def)
qed

theorem program_transaction_terms_witness:
  "\<exists>blockhash meme_mint token_program em es.
    choose_blockhash dry_env = Ok (blockhash, 0) \<and> bu_parse dry_env ''meme'' = Some meme_mint \<and>
    program_terms dry_env (job_of dry_env dry_cfg (dry_opp OrcaWhirlpool) blockhash meme_mint token_program)
      (snd (detect_token_program dry_env meme_mint dry_state)) (dry_message, em, es)"
proof -
  have t: "through_program dry_cfg (dry_opp OrcaWhirlpool)"
    by (simp add: through_program_def dry_opp_def demo_opp_def doubleton_eq_iff)
  have "\<not> ac_sender_enabled dry_cfg" "op_token_mint (dry_opp v) = ''meme''" for v
    by (simp_all add: dry_opp_def dry_cfg_def demo_cfg_def)
  then show ?thesis
    using program_transaction_terms [OF t dry_transaction] unfolding Let_def
    by (elim exE conjE) (intro exI conjI, assumption, simp_all)
qed

theorem whirlpool_buys_never_execute_witness:
  "\<exists>arb_ix alt. bu_compile dry_env (bu_wallet dry_env) (onchain_ixs dry_env (dry_job OrcaWhirlpool) arb_ix) [alt]
      (key_bytes (jb_blockhash (dry_job OrcaWhirlpool))) = Ok dry_message \<and>
    (\<forall>cpi program_id owner l l'. process_instruction (bu_pda dry_env) cpi program_id
      (load_accounts owner (ix_accounts arb_ix)) (ix_data arb_ix) l \<noteq> Ok l')"
  by (rule whirlpool_buys_never_execute [OF _ dry_builds]) (simp add: dry_fields)

text \<open>Without the program, a token that has graduated is bought and sold in amounts that fit: the SOL
  wrapped is what the buy spends, and the sale is of the amount the buy guarantees. On the bonding curve
  the sale is of the whole estimate, of which the buy guarantees only the part left by the slippage.\<close>

lemma direct_sale_amounts:
  assumes "fst (curve_of env j st) = Ok bc" and "fst (build_pumpswap_buy_dlmm_sell env j st) = Ok tx"
  shows "\<exists>ixs alt. bu_compile env (bu_wallet env) ixs [alt] (key_bytes (jb_blockhash j)) = Ok tx \<and>
    (if bc_venue_kind bc = PumpSwapPool
     then ixs ! 4 = system_transfer_ix (bu_wallet env) (jb_user_sol_ata j) (jb_investment j) \<and>
       (\<exists>m out. ix_data (ixs ! 6) = PUMPSWAP_BUY_DISCRIMINATOR @ u64_to_le (jb_investment j) @ u64_to_le m @ [1] \<and>
          ix_data (ixs ! 7) = DLMM_SWAP2_DISCRIMINATOR @ u64_to_le m @ u64_to_le out @ u32_to_le 0)
     else \<exists>est out r. ix_data (ixs ! 4) = PUMPFUN_BUY_DISCRIMINATOR @ u64_to_le (jb_investment j)
            @ u64_to_le (min_out_of est (slippage_of j (jb_investment j) r)) \<and>
          ix_data (ixs ! 5) = DLMM_SWAP2_DISCRIMINATOR @ u64_to_le est @ u64_to_le out @ u32_to_le 0)"
proof (cases "bc_venue_kind bc = PumpSwapPool")
  case True
  have "snd (cached_dlmm env j st) = st" by (simp add: cached_dlmm_def)
  with True assms obtain st1 where "fst (build_pumpswap_amm_buy_dlmm_sell env j bc st1) = Ok tx"
    by (auto simp: build_pumpswap_buy_dlmm_sell_def built_simps)
  then show ?thesis using True by (elim graduated_amounts) auto
next
  case False
  show ?thesis by (rule curve_amounts [OF assms(1) False assms(2)]) (use False in auto)
qed

lemma no_fee: "bps_to_fee 0 = Fin 0" "dlmm_fee (dry_job v) = Fin 0"
    "\<exists>x. estimate_swap_output a b c (Fin 0) = Ok x"
proof -
  show "bps_to_fee 0 = Fin 0" by (simp add: bps_to_fee_def f64_of_nat_def f0)
  show "dlmm_fee (dry_job v) = Fin 0" by (simp add: dlmm_fee_def dry_job_defs f64_of_nat_def f0)
  show "\<exists>x. estimate_swap_output a b c (Fin 0) = Ok x"
    by (simp add: estimate_swap_output_def fee_to_bps_def f0 f64_as_u128_def div_or_panic_def Let_def)
qed

lemma dry_direct_dlmm: "\<exists>ix. direct_dlmm_ix dry_env (dry_job v) dry_pool ti to amt out = Ok ix"
  by (simp add: direct_dlmm_ix_def dry_parse Let_def) (simp add: dry_pool_def dry_parse)

lemma dry_curve_builds: "fst (build_pumpswap_buy_dlmm_sell dry_env (dry_job PumpSwapAmm) dry_state) = Ok dry_message"
proof -
  let ?j = "dry_job PumpSwapAmm"
  have curve: "bc_venue_kind dry_curve \<noteq> PumpSwapPool" by (simp add: dry_curve_def)
  have fee: "dc_pumpfun_fee_bps (ac_dex (jb_config ?j)) = 0" by (simp add: dry_job_defs)
  have recipient: "fee_recipient_step dry_env ?j dry_state = (Ok 5, dry_state)"
    by (simp add: fee_recipient_step_def resolve_pumpfun_fee_recipient_def dry_state_def)
  have none: "client_dlmm_estimate [] amt d f = 0" for amt d f by (simp add: client_dlmm_estimate_def no_bins_estimate)
  show ?thesis
    unfolding build_pumpswap_buy_dlmm_sell_def
    using no_fee(3) dry_direct_dlmm
    by (simp add: bthen_Ok_iff dry_reads dry_bins curve dry_parse recipient estimate_pumpfun_buy_output_def fee no_fee
        none dry_compile Let_def case_prod_beta)
qed

end
