(* ===== verification/Bot_Stream.thy ===== *)
theory Bot_Stream
  imports Bot_Cache
begin

text \<open>
  The gRPC stream (\<open>grpc_stream/mod.rs\<close>): what an update does to the account cache, from which slot a
  new connection is replayed, and which keys of a transaction the RabbitStream reader passes on. The
  connection itself is left out: a stream is the list of what it delivers. \<open>parse_hash\<close> is the
  SDK's parser, \<open>show_key\<close> its printer.
\<close>

section \<open>Updates\<close>

text \<open>An account update may lack its account: key, data and owner in raw bytes.\<close>

datatype stream_update =
  Account_update "(byte list \<times> byte list \<times> byte list) option" u64
| Block_meta string u64
| Other_update

datatype stream_item = Update stream_update | Recv_error string

definition key_or_zero :: "byte list \<Rightarrow> pubkey" where
  "key_or_zero bs = (if length bs = 32 then key_of_bytes bs else key_of_bytes (replicate 32 0))"

fun apply_update :: "(pubkey \<Rightarrow> string) \<Rightarrow> (string \<Rightarrow> pubkey option) \<Rightarrow> stream_update \<Rightarrow> geyser_cache \<Rightarrow> geyser_cache" where
  "apply_update show_key parse_hash (Account_update info slot) c =
     (case info of
        None \<Rightarrow> c
      | Some (pubkey, data, owner) \<Rightarrow> geyser_put (show_key (key_or_zero pubkey)) data owner slot c)"
| "apply_update show_key parse_hash (Block_meta blockhash slot) c =
     (if blockhash = [] then c
      else (case parse_hash blockhash of None \<Rightarrow> c | Some hash \<Rightarrow> put_blockhash hash slot c))"
| "apply_update show_key parse_hash Other_update c = c"

section \<open>Connections\<close>

record stream_state =
  st_startup_slot :: u64
  st_cache :: geyser_cache

definition replay_from :: "stream_state \<Rightarrow> u64 option" where
  "replay_from st =
     (let startup = st_startup_slot st; latest = gc_latest_slot (st_cache st) in
      if startup = 0 then None
      else if 500 < latest then Some (latest - 500)
      else if 1000 < startup then Some (startup - 1000)
      else None)"

text \<open>A connection either does not come about (\<open>Inl\<close> the error) or delivers items until it ends.\<close>

definition slot_pruned :: "string \<Rightarrow> bool" where
  "slot_pruned msg \<longleftrightarrow> contains msg ''past the valid range'' \<or> contains msg ''broadcast from''"

fun run_stream :: "(pubkey \<Rightarrow> string) \<Rightarrow> (string \<Rightarrow> pubkey option) \<Rightarrow> stream_item list \<Rightarrow> stream_state
    \<Rightarrow> string option \<times> stream_state" where
  "run_stream show_key parse_hash [] st = (None, st)"
| "run_stream show_key parse_hash (Update u # items) st =
     run_stream show_key parse_hash items (st\<lparr>st_cache := apply_update show_key parse_hash u (st_cache st)\<rparr>)"
| "run_stream show_key parse_hash (Recv_error msg # items) st =
     (if slot_pruned msg then (Some (''from_slot pruned: '' @ msg), st\<lparr>st_startup_slot := 0\<rparr>)
      else run_stream show_key parse_hash items st)"

definition after_connection :: "string option \<Rightarrow> stream_state \<Rightarrow> stream_state" where
  "after_connection err st =
     (case err of
        None \<Rightarrow> st\<lparr>st_startup_slot := 0\<rparr>
      | Some e \<Rightarrow>
          if slot_pruned e \<or> contains e ''failed to get replay position'' then st\<lparr>st_startup_slot := 0\<rparr> else st)"

text \<open>One round of the reconnection loop, with the slot a subscription of this round asks for.\<close>

definition connection :: "(pubkey \<Rightarrow> string) \<Rightarrow> (string \<Rightarrow> pubkey option) \<Rightarrow> string + stream_item list \<Rightarrow> stream_state
    \<Rightarrow> u64 option \<times> stream_state" where
  "connection show_key parse_hash answer st =
     (case answer of
        Inl err \<Rightarrow> (replay_from st, after_connection (Some err) st)
      | Inr items \<Rightarrow>
          (let (err, st') = run_stream show_key parse_hash items st in (replay_from st, after_connection err st')))"

primrec connections :: "(pubkey \<Rightarrow> string) \<Rightarrow> (string \<Rightarrow> pubkey option) \<Rightarrow> (string + stream_item list) list \<Rightarrow> stream_state
    \<Rightarrow> u64 option list \<times> stream_state" where
  "connections show_key parse_hash [] st = ([], st)"
| "connections show_key parse_hash (a # answers) st =
     (let (from, st1) = connection show_key parse_hash a st; (froms, st2) = connections show_key parse_hash answers st1 in
      (from # froms, st2))"

section \<open>RabbitStream\<close>

definition skip_prefixes :: "string list" where
  "skip_prefixes =
    [''11111111111111111111111111111111'',
     ''ComputeBudget111111111111111111111111111111'',
     ''ATokenGPvbdGVxr1b2hvZbsiqW5xWH25efTNsLJA8knL'',
     ''TokenkegQfeZyiNwAJbNbGKPFXCWuBvf9Ss623VQ5DA'',
     ''TokenzQdBNbLqP5VEhdkAS6EPFLC1PHnBqCXEpPxuEb'']"

definition rabbit_candidates :: "(pubkey \<Rightarrow> string) \<Rightarrow> pubkey list \<Rightarrow> byte list list \<Rightarrow> string list" where
  "rabbit_candidates show_key programs account_keys =
     filter (\<lambda>pk_str. pk_str \<notin> set skip_prefixes \<and> pk_str \<notin> set (map show_key programs))
       (map (\<lambda>bs. show_key (key_or_zero bs)) (filter (\<lambda>bs. length bs = 32) account_keys))"

section \<open>What the readers see\<close>

text \<open>The account versions a list of updates delivers, in their order.\<close>

fun delivered :: "(pubkey \<Rightarrow> string) \<Rightarrow> stream_update list \<Rightarrow> (string \<times> byte list \<times> u64) list" where
  "delivered show_key [] = []"
| "delivered show_key (Account_update (Some (pubkey, data, owner)) slot # us) =
     (show_key (key_or_zero pubkey), data, slot) # delivered show_key us"
| "delivered show_key (_ # us) = delivered show_key us"

definition versions :: "(pubkey \<Rightarrow> string) \<Rightarrow> string \<Rightarrow> stream_update list \<Rightarrow> (byte list \<times> u64) list" where
  "versions show_key key us = map snd (filter (\<lambda>v. fst v = key) (delivered show_key us))"

lemma put_blockhash_keeps [simp]:
  "gc_accounts (put_blockhash h s c) = gc_accounts c" "gc_latest_slot (put_blockhash h s c) = gc_latest_slot c"
  by (simp_all add: put_blockhash_def)

lemma lookup_put [simp]:
  "get_with_slot key (geyser_put k data owner slot c) = (if key = k then Some (data, slot) else get_with_slot key c)"
  by (simp add: get_with_slot_def geyser_put_def)

lemma lookup_blockhash [simp]: "get_with_slot key (put_blockhash h s c) = get_with_slot key c"
  by (simp add: get_with_slot_def)

lemma lookup_after:
  "get_with_slot key (fold (apply_update show_key parse_hash) us c) =
     (if versions show_key key us = [] then get_with_slot key c else Some (last (versions show_key key us)))"
  by (induction show_key us arbitrary: c rule: delivered.induct) (auto simp: versions_def split: option.split)

lemma latest_after:
  "gc_latest_slot (fold (apply_update show_key parse_hash) us c) =
     fold max (map (\<lambda>v. snd (snd v)) (delivered show_key us)) (gc_latest_slot c)"
  by (induction show_key us arbitrary: c rule: delivered.induct) (auto simp: geyser_put_def max.commute split: option.split)

text \<open>The connections of the bot's life: which of them leave the anchor alone.\<close>

definition leaves_anchor :: "string + stream_item list \<Rightarrow> bool" where
  "leaves_anchor answer =
     (case answer of Inl e \<Rightarrow> \<not> slot_pruned e \<and> \<not> contains e ''failed to get replay position'' | Inr _ \<Rightarrow> False)"

lemma contains_iff: "contains hay needle \<longleftrightarrow> (\<exists>a b. hay = a @ needle @ b)"
proof
  assume "contains hay needle"
  then obtain i where i: "take (length needle) (drop i hay) = needle" by (auto simp: contains_def list_ex_iff)
  have "hay = take i hay @ take (length needle) (drop i hay) @ drop (length needle) (drop i hay)"
    by (simp only: append_take_drop_id)
  with i show "\<exists>a b. hay = a @ needle @ b" by metis
next
  assume "\<exists>a b. hay = a @ needle @ b"
  then obtain a b where "hay = a @ needle @ b" by blast
  then show "contains hay needle"
    by (auto simp: contains_def list_ex_iff intro!: bexI [of _ "length a"] simp del: upt_Suc)
qed

lemma contains_append: "contains msg needle \<Longrightarrow> contains (pre @ msg) needle"
  unfolding contains_iff by (metis append.assoc)

lemma run_stream_error:
  "run_stream show_key parse_hash items st = (Some e, st') \<Longrightarrow> slot_pruned e"
proof (induction show_key parse_hash items st rule: run_stream.induct)
  case (3 show_key parse_hash msg items st)
  then show ?case
    using contains_append [of msg _ "''from_slot pruned: ''"]
    by (cases "slot_pruned msg") (auto simp: slot_pruned_def simp del: append.simps)
qed simp_all

lemma anchor_after_stream:
  "st_startup_slot (snd (connection show_key parse_hash (Inr items) st)) = 0"
  using run_stream_error [of show_key parse_hash items st]
  by (auto simp: connection_def after_connection_def split: prod.split option.split)

lemma connections_Cons [simp]:
  "fst (connections show_key parse_hash (a # answers) st) =
     fst (connection show_key parse_hash a st) #
     fst (connections show_key parse_hash answers (snd (connection show_key parse_hash a st)))"
  by (simp add: case_prod_beta)

declare connections.simps(2) [simp del]

lemma anchor_gone:
  assumes "st_startup_slot st = 0"
  shows "fst (connections show_key parse_hash answers st) = map (\<lambda>_. None) answers"
  using assms
proof (induction answers arbitrary: st)
  case (Cons a answers)
  have "st_startup_slot (snd (connection show_key parse_hash a st)) = 0"
    using Cons.prems anchor_after_stream [of show_key parse_hash _ st]
    by (cases a) (auto simp: connection_def after_connection_def split: prod.split option.split)
  moreover have "fst (connection show_key parse_hash a st) = None"
    using Cons.prems by (cases a) (simp_all add: connection_def replay_from_def split: prod.split)
  ultimately show ?case using Cons.IH [of "snd (connection show_key parse_hash a st)"]
    by simp
qed simp

lemma failed_connection:
  "connection show_key parse_hash (Inl e) st =
     (replay_from st, if leaves_anchor (Inl e) then st else st\<lparr>st_startup_slot := 0\<rparr>)"
  by (simp add: connection_def after_connection_def leaves_anchor_def)

text \<open>C35: The replay is asked for by the first attempts to connect only, from a thousand slots before the
  slot at the start. Once a connection has delivered anything, however it ended, no later one asks
  for a replay.\<close>

theorem replay_before_first_connection_only:
  "fst (connections show_key parse_hash answers \<lparr>st_startup_slot = s, st_cache = geyser_default\<rparr>) =
     map (\<lambda>i. if list_all leaves_anchor (take i answers) \<and> 1000 < s then Some (s - 1000) else None)
       [0..<length answers]"
proof (induction answers)
  case (Cons a answers)
  let ?st = "\<lparr>st_startup_slot = s, st_cache = geyser_default\<rparr>"
  have first: "fst (connection show_key parse_hash a ?st) = (if 1000 < s then Some (s - 1000) else None)"
    by (cases a) (auto simp: connection_def replay_from_def geyser_default_def split: prod.split)
  have shift: "[0..<length (a # answers)] = 0 # map Suc [0..<length answers]"
    by (simp add: upt_conv_Cons map_Suc_upt del: upt_Suc)
  show ?case
  proof (cases "leaves_anchor a")
    case True
    then obtain e where "a = Inl e" by (cases a) (auto simp: leaves_anchor_def)
    with True have "snd (connection show_key parse_hash a ?st) = ?st" by (simp add: failed_connection)
    with Cons.IH first True show ?thesis unfolding shift by (simp add: comp_def)
  next
    case False
    then have "st_startup_slot (snd (connection show_key parse_hash a ?st)) = 0"
      using anchor_after_stream [of show_key parse_hash _ ?st] by (cases a) (auto simp: failed_connection)
    from anchor_gone [OF this, of show_key parse_hash answers] first False show ?thesis
      unfolding shift by (simp add: comp_def map_replicate_const)
  qed
qed simp

text \<open>A reader of the cache gets the version of an account that was delivered last, if its slot is
  at most two behind the highest slot delivered for any account, and nothing otherwise: an older version that
  comes in late takes the place of a newer one.\<close>

lemma reader_sees_last_delivered:
  assumes "versions show_key key us \<noteq> []"
  shows "warm_data (fold (apply_update show_key parse_hash) us c) key =
    (let (data, slot) = last (versions show_key key us);
         newest = fold max (map (\<lambda>v. snd (snd v)) (delivered show_key us)) (gc_latest_slot c) in
     if 0 < newest \<and> sat_sub newest slot \<le> 2 then Some data else None)"
  using assms by (simp add: warm_data_def lookup_after latest_after case_prod_beta Let_def)

end
