(* ===== verification/Bot_Listener.thy ===== *)
theory Bot_Listener
  imports Bot_Discovery Bot_Stream
begin

text \<open>
  Where the bot hears of tokens: the websocket listener (\<open>listener/helpers.rs\<close>, one event of
  \<open>listener/mod.rs\<close>), the readers of fetched transactions (\<open>listener/extract.rs\<close>), the scan of recent
  signatures (\<open>discovery.rs\<close>), the task of \<open>main.rs\<close> that checks the candidates, and
  \<open>verify_dual_presence\<close> of \<open>main_loop.rs\<close>. The subscriptions and the JSON texts are left out: an event or
  a fetched transaction is what the code looks up in it, \<open>None\<close> where the member is missing or has
  another type. Texts are ASCII. A prometheus counter is the number of its increments.
\<close>

section \<open>Texts\<close>

definition mask_url :: "string \<Rightarrow> string" where
  "mask_url url =
     (if CHR ''?'' \<in> set url then takeWhile (\<lambda>c. c \<noteq> CHR ''?'') url @ ''?...''
      else if 50 < length url then take 50 url @ ''...''
      else url)"

definition between :: "char \<Rightarrow> char \<Rightarrow> char \<Rightarrow> bool" where
  "between lo hi c \<longleftrightarrow> (of_char lo :: nat) \<le> of_char c \<and> (of_char c :: nat) \<le> of_char hi"

definition is_alphanumeric :: "char \<Rightarrow> bool" where
  "is_alphanumeric c \<longleftrightarrow>
     between (CHR ''0'') (CHR ''9'') c \<or> between (CHR ''A'') (CHR ''Z'') c \<or> between (CHR ''a'') (CHR ''z'') c"

text \<open>\<open>log.split(|c| !c.is_alphanumeric())\<close>, empty pieces included.\<close>

primrec split_log :: "string \<Rightarrow> string list" where
  "split_log [] = [[]]"
| "split_log (c # cs) =
     (let rest = split_log cs in if is_alphanumeric c then (c # hd rest) # tl rest else [] # rest)"

definition is_base58 :: "string \<Rightarrow> bool" where
  "is_base58 s =
     list_all (\<lambda>b. between (CHR ''1'') (CHR ''9'') b \<or> between (CHR ''A'') (CHR ''H'') b
       \<or> between (CHR ''J'') (CHR ''N'') b \<or> between (CHR ''P'') (CHR ''Z'') b
       \<or> between (CHR ''a'') (CHR ''k'') b \<or> between (CHR ''m'') (CHR ''z'') b) s"

definition KNOWN_FILTER :: "string list" where
  "KNOWN_FILTER =
    [''pAMMBay6oceH9fJKBRHGP5D4bD4sWpmSwMn52FMfXEA'',
     ''LBUZKhRxPF3XUpBCjp4YzTKgLccjZhTSDM9YuVaPwxo'',
     ''So11111111111111111111111111111111111111112'',
     ''EPjFWdd5AufqSSqeM2qN1xzybapC8G4wEGGkZwyTDt1v'',
     ''Es9vMFrzaCERmJfrF4H2FYD4KCoNkY11McCe8BenwNYB'',
     ''CebN5WGQ4jvEPvsVU4EoHEpgT1mKQ7AFUbxmAhvFUWrQ'',
     ''11111111111111111111111111111111'',
     ''TokenkegQfeZyiNwAJbNbGKPFXCWuBvf9Ss623VQ5DA'',
     ''ATokenGPvbdGVxr1b2hvZbsiqW5xWH25efTNsLJA8knL'',
     ''ComputeBudget111111111111111111111111111111'',
     ''whirLbMiicVdio4qvUfM5KAg6Ct8VwpYzGff3uctyCc'']"

definition pubkey_token :: "string \<Rightarrow> bool" where
  "pubkey_token token \<longleftrightarrow> 32 \<le> length token \<and> length token \<le> 44 \<and> is_base58 token"

text \<open>A set of strings is its list of elements; the order in which it is walked comes with each event.\<close>

definition extract_mint_candidates :: "string list \<Rightarrow> string list" where
  "extract_mint_candidates logs =
     remdups (filter (\<lambda>token. pubkey_token token \<and> token \<notin> set KNOWN_FILTER) (concat (map split_log logs)))"

fun determine_program :: "string list \<Rightarrow> string" where
  "determine_program [] = ''unknown''"
| "determine_program (l # logs) =
     (if contains l ''pAMMBay6oceH'' then ''pumpfun''
      else if contains l ''LBUZKhRx'' then ''dlmm''
      else if contains l ''CPMMoo8L3F4'' then ''cpmm''
      else if contains l ''whirLbMiicVd'' then ''whirlpool''
      else determine_program logs)"

section \<open>One event of the listener\<close>

datatype fetch_task = Fetch_lb_pair string | Fetch_cpmm_pool string | Fetch_whirlpool string

record feed_metrics =
  fm_pumpfun :: nat
  fm_dlmm :: nat
  fm_cpmm :: nat
  fm_whirlpool :: nat
  fm_filtered :: nat

record feed =
  fd_count :: u64
  fd_filtered :: u64
  fd_by_program :: "string \<rightharpoonup> u64"
  fd_seen_mints :: "string set"
  fd_processed_sigs :: "string set"
  fd_events :: "string list"
  fd_discovery :: "string list"
  fd_tasks :: "fetch_task list"
  fd_metrics :: feed_metrics

definition feed_start :: "string list \<Rightarrow> string list \<Rightarrow> feed_metrics \<Rightarrow> feed" where
  "feed_start events discovery metrics =
     \<lparr>fd_count = 0, fd_filtered = 0, fd_by_program = Map.empty, fd_seen_mints = {}, fd_processed_sigs = {},
      fd_events = events, fd_discovery = discovery, fd_tasks = [], fd_metrics = metrics\<rparr>"

record log_event =
  ev_failed :: bool
  ev_signature :: string
  ev_logs :: "string list"

text \<open>What the listener sees at an event: the whitelist, the pool caches, the order of the candidate set,
  and whether the receiver of the events is alive.\<close>

record listen_env =
  lv_now :: nat
  lv_whitelist :: whitelist
  lv_dlmm :: "dlmm_pool option cache"
  lv_cpmm_found :: "string cache"
  lv_whirlpool_found :: "string cache"
  lv_whirlpool :: "dlmm_pool option cache"
  lv_walk :: "string list \<Rightarrow> string list"
  lv_open :: bool

definition EVENT_CAPACITY :: nat where
  "EVENT_CAPACITY = 4096"

definition has_trade :: "string list \<Rightarrow> bool" where
  "has_trade logs = list_ex (\<lambda>l. contains l ''Swap'' \<or> contains l ''Buy'' \<or> contains l ''Sell'') logs"

text \<open>\<open>HashSet::insert\<close> for each element in turn: those that were new, and the set.\<close>

primrec admit_all :: "string list \<Rightarrow> string set \<Rightarrow> string list \<times> string set" where
  "admit_all [] seen = ([], seen)"
| "admit_all (c # cs) seen =
     (let (new, seen') = admit_all cs (insert c seen) in (if c \<in> seen then new else c # new, seen'))"

definition clear_above :: "nat \<Rightarrow> string set \<Rightarrow> string set" where
  "clear_above limit seen = (if limit < card seen then {} else seen)"

definition feed_unmatched :: "string list \<Rightarrow> feed \<Rightarrow> feed" where
  "feed_unmatched candidates f =
     (let (new, seen) = admit_all candidates (fd_seen_mints f) in
      f\<lparr>fd_filtered := fd_filtered f + 1,
        fd_metrics := (fd_metrics f)\<lparr>fm_filtered := fm_filtered (fd_metrics f) + 1\<rparr>,
        fd_discovery := fd_discovery f @ new,
        fd_seen_mints := clear_above 10000 seen\<rparr>)"

definition count_program :: "string \<Rightarrow> feed \<Rightarrow> feed" where
  "count_program program f =
     (let m = fd_metrics f in
      f\<lparr>fd_by_program := (fd_by_program f)(program \<mapsto> case_option 0 id (fd_by_program f program) + 1),
        fd_metrics :=
          (if program = ''pumpfun'' then m\<lparr>fm_pumpfun := fm_pumpfun m + 1\<rparr>
           else if program = ''dlmm'' then m\<lparr>fm_dlmm := fm_dlmm m + 1\<rparr>
           else if program = ''cpmm'' then m\<lparr>fm_cpmm := fm_cpmm m + 1\<rparr>
           else if program = ''whirlpool'' then m\<lparr>fm_whirlpool := fm_whirlpool m + 1\<rparr>
           else m)\<rparr>)"

text \<open>A full channel drops the event.\<close>

definition try_send :: "string \<Rightarrow> feed \<Rightarrow> feed" where
  "try_send mint f = (if length (fd_events f) < EVENT_CAPACITY then f\<lparr>fd_events := fd_events f @ [mint]\<rparr> else f)"

definition spawn_once :: "string \<Rightarrow> fetch_task \<Rightarrow> feed \<Rightarrow> feed" where
  "spawn_once sig task f =
     (if sig \<in> fd_processed_sigs f then f
      else f\<lparr>fd_processed_sigs := insert sig (fd_processed_sigs f), fd_tasks := fd_tasks f @ [task]\<rparr>)"

definition spawn_fetches :: "listen_env \<Rightarrow> string \<Rightarrow> string \<Rightarrow> string \<Rightarrow> feed \<Rightarrow> feed" where
  "spawn_fetches env program mint sig f =
     (let f1 =
            (if program = ''dlmm'' \<and> get_dlmm_reserves (lv_now env) NATIVE_SOL_MINT_C mint (lv_dlmm env) = None
             then (let f' = spawn_once sig (Fetch_lb_pair sig) f in
                   f'\<lparr>fd_processed_sigs := clear_above 1024 (fd_processed_sigs f')\<rparr>)
             else f);
          f2 =
            (if program = ''cpmm''
                \<and> get_discovered_pool (lv_now env) NATIVE_SOL_MINT_C mint (lv_cpmm_found env) = None
             then spawn_once sig (Fetch_cpmm_pool sig) f1
             else f1) in
      if program = ''whirlpool''
         \<and> get_discovered_pool (lv_now env) NATIVE_SOL_MINT_C mint (lv_whirlpool_found env) = None
         \<and> get_whirlpool_reserves (lv_now env) NATIVE_SOL_MINT_C mint (lv_whirlpool env) = None
      then spawn_once sig (Fetch_whirlpool sig) f2
      else f2)"

text \<open>The body of the loop; \<open>False\<close> where it returns because nobody receives the events.\<close>

definition listen_event :: "listen_env \<Rightarrow> log_event \<Rightarrow> feed \<Rightarrow> bool \<times> feed" where
  "listen_event env ev f =
     (if ev_failed ev then (True, f)
      else if \<not> has_trade (ev_logs ev) then (True, f)
      else
        (let candidates = lv_walk env (extract_mint_candidates (ev_logs ev)) in
         case List.find (whitelist_contains (lv_whitelist env)) candidates of
           None \<Rightarrow> (True, feed_unmatched candidates f)
         | Some mint \<Rightarrow>
             (let program = determine_program (ev_logs ev); f1 = count_program program f in
              if lv_open env
              then (let f2 = spawn_fetches env program mint (ev_signature ev) (try_send mint f1) in
                    (True, f2\<lparr>fd_count := fd_count f2 + 1\<rparr>))
              else (False, f1))))"

section \<open>Reading a fetched transaction\<close>

text \<open>An inner instruction: its program index and its list of account indices. \<open>pt_inner\<close> holds, per
  outer instruction, the list of the inner ones. The \<open>?\<close> operator ends the whole search.\<close>

type_synonym inner_ix = "u64 option \<times> u64 option list option"

record parsed_tx =
  pt_keys :: "string option list option"
  pt_inner :: "inner_ix list option list option"
  pt_logs :: "string option list option"

definition get_at :: "'a list \<Rightarrow> nat \<Rightarrow> 'a option" where
  "get_at xs i = (if i < length xs then Some (xs ! i) else None)"

datatype scan = Abort | Continue | Found "nat list"

fun scan_instructions :: "string \<Rightarrow> string list \<Rightarrow> inner_ix list \<Rightarrow> scan" where
  "scan_instructions prog keys [] = Continue"
| "scan_instructions prog keys ((prog_idx, accounts) # ixs) =
     (case prog_idx of
        None \<Rightarrow> Abort
      | Some n \<Rightarrow>
          if get_at keys (unat n) = Some prog
          then (case accounts of None \<Rightarrow> Abort | Some accts \<Rightarrow> Found (map unat (List.map_filter id accts)))
          else scan_instructions prog keys ixs)"

fun search_inner :: "string \<Rightarrow> string list \<Rightarrow> inner_ix list option list \<Rightarrow> scan" where
  "search_inner prog keys [] = Continue"
| "search_inner prog keys (None # inner) = Abort"
| "search_inner prog keys (Some ixs # inner) =
     (case scan_instructions prog keys ixs of Continue \<Rightarrow> search_inner prog keys inner | r \<Rightarrow> r)"

definition swap_accounts :: "string \<Rightarrow> parsed_tx \<Rightarrow> (string list \<times> nat list) option" where
  "swap_accounts prog tx =
     Option.bind (pt_keys tx) (\<lambda>ks.
     Option.bind (pt_inner tx) (\<lambda>inner.
     let keys = List.map_filter id ks in
     case search_inner prog keys inner of Found accts \<Rightarrow> Some (keys, accts) | _ \<Rightarrow> None))"

text \<open>\<open>account_keys.get(*acct_indices.get(i)?)?\<close>\<close>

definition account_key :: "string list \<times> nat list \<Rightarrow> nat \<Rightarrow> string option" where
  "account_key s i = Option.bind (get_at (snd s) i) (get_at (fst s))"

definition extract_lb_pair_from_tx :: "parsed_tx \<Rightarrow> (string \<times> string \<times> string) option" where
  "extract_lb_pair_from_tx tx =
     Option.bind (swap_accounts ''LBUZKhRxPF3XUpBCjp4YzTKgLccjZhTSDM9YuVaPwxo'' tx) (\<lambda>s.
     Option.bind (account_key s 0) (\<lambda>lb_pair.
     Option.bind (account_key s 5) (\<lambda>mint_a.
     Option.bind (account_key s 6) (\<lambda>mint_b.
       Some (mint_a, mint_b, lb_pair)))))"

definition extract_cpmm_pool_from_tx :: "parsed_tx \<Rightarrow> (string \<times> string \<times> string) option" where
  "extract_cpmm_pool_from_tx tx =
     Option.bind (swap_accounts ''CPMMoo8L3F4NbTegBCKVNunggL7H1ZpdTHKxQB5qKP1C'' tx) (\<lambda>s.
     Option.bind (account_key s 3) (\<lambda>pool_addr.
     Option.bind (account_key s 10) (\<lambda>mint_a.
     Option.bind (account_key s 11) (\<lambda>mint_b.
       Some (mint_a, mint_b, pool_addr)))))"

text \<open>\<open>account_data\<close> is the decoded data of the second request.\<close>

definition extract_whirlpool_from_tx :: "show_key \<Rightarrow> (string \<Rightarrow> byte list option) \<Rightarrow> parsed_tx
    \<Rightarrow> (string \<times> string \<times> string) option" where
  "extract_whirlpool_from_tx show_key account_data tx =
     Option.bind (swap_accounts ''whirLbMiicVdio4qvUfM5KAg6Ct8VwpYzGff3uctyCc'' tx) (\<lambda>s.
     Option.bind (account_key s 2) (\<lambda>pool_addr.
     Option.bind (account_data pool_addr) (\<lambda>data.
       if length data < 243 then None
       else Some (show_key (key_at data 99), show_key (key_at data 179), pool_addr))))"

text \<open>The background task an event spawned: the pool goes to its cache, the mints to the candidates.\<close>

record fetch_env =
  fv_now :: nat
  fv_show :: show_key
  fv_tx :: "string \<Rightarrow> parsed_tx option"
  fv_data :: "string \<Rightarrow> byte list option"
  fv_db_ok :: bool

record found_pools =
  fp_lb_pair :: "(string \<rightharpoonup> string) \<times> pair_rows"
  fp_cpmm :: "string cache"
  fp_whirlpool :: "string cache"

fun run_fetch_task :: "fetch_env \<Rightarrow> fetch_task \<Rightarrow> found_pools \<Rightarrow> string list \<times> found_pools" where
  "run_fetch_task env (Fetch_lb_pair sig) p =
     (case Option.bind (fv_tx env sig) extract_lb_pair_from_tx of
        None \<Rightarrow> ([], p)
      | Some (mint_a, mint_b, lb_pair) \<Rightarrow>
          ([mint_a, mint_b], p\<lparr>fp_lb_pair := cache_dlmm_lb_pair (fv_db_ok env) mint_a mint_b lb_pair (fp_lb_pair p)\<rparr>))"
| "run_fetch_task env (Fetch_cpmm_pool sig) p =
     (case Option.bind (fv_tx env sig) extract_cpmm_pool_from_tx of
        None \<Rightarrow> ([], p)
      | Some (mint_a, mint_b, pool_addr) \<Rightarrow>
          ([mint_a, mint_b], p\<lparr>fp_cpmm := cache_discovered_pool (fv_now env) mint_a mint_b pool_addr (fp_cpmm p)\<rparr>))"
| "run_fetch_task env (Fetch_whirlpool sig) p =
     (case Option.bind (fv_tx env sig) (extract_whirlpool_from_tx (fv_show env) (fv_data env)) of
        None \<Rightarrow> ([], p)
      | Some (mint_a, mint_b, pool_addr) \<Rightarrow>
          ([mint_a, mint_b],
           p\<lparr>fp_whirlpool := cache_discovered_pool (fv_now env) mint_a mint_b pool_addr (fp_whirlpool p)\<rparr>))"

section \<open>The scan of recent signatures\<close>

definition SIGNATURE_LIMIT :: nat where
  "SIGNATURE_LIMIT = 15"

text \<open>An entry: its signature and whether its error is present and not null.\<close>

definition fetch_signatures :: "(string option \<times> bool) list option \<Rightarrow> string list" where
  "fetch_signatures answer =
     (case answer of
        None \<Rightarrow> []
      | Some entries \<Rightarrow> List.map_filter (\<lambda>(sig, failed). if failed then None else sig) entries)"

definition BACKSCAN_FILTER :: "string list" where
  "BACKSCAN_FILTER =
    [''pAMMBay6oceH9fJKBRHGP5D4bD4sWpmSwMn52FMfXEA'',
     ''LBUZKhRxPF3XUpBCjp4YzTKgLccjZhTSDM9YuVaPwxo'',
     ''So11111111111111111111111111111111111111112'',
     ''EPjFWdd5AufqSSqeM2qN1xzybapC8G4wEGGkZwyTDt1v'',
     ''Es9vMFrzaCERmJfrF4H2FYD4KCoNkY11McCe8BenwNYB'',
     ''11111111111111111111111111111111'',
     ''TokenkegQfeZyiNwAJbNbGKPFXCWuBvf9Ss623VQ5DA'',
     ''ATokenGPvbdGVxr1b2hvZbsiqW5xWH25efTNsLJA8knL'',
     ''ComputeBudget111111111111111111111111111111'',
     ''CPMMoo8L3F4NbTegBCKVNunggL7H1ZpdTHKxQB5qKP1C'',
     ''whirLbMiicVdio4qvUfM5KAg6Ct8VwpYzGff3uctyCc'']"

definition fetch_tx_mints :: "parsed_tx option \<Rightarrow> string list" where
  "fetch_tx_mints tx =
     (case tx of
        None \<Rightarrow> []
      | Some result \<Rightarrow>
          (let account_keys = List.map_filter id (case_option [] id (pt_keys result));
               logs = List.map_filter id (case_option [] id (pt_logs result));
               log_candidates = concat (map (\<lambda>log. filter pubkey_token (split_log log)) logs);
               all_candidates = filter (\<lambda>s. s \<notin> set BACKSCAN_FILTER \<and> is_base58 s) (account_keys @ log_candidates) in
           fst (admit_all all_candidates {})))"

text \<open>One round: both programs, only signatures not seen, and what goes to the candidate channel.\<close>

record backscan_env =
  be_signatures :: "string \<Rightarrow> (string option \<times> bool) list option"
  be_tx :: "string \<Rightarrow> parsed_tx option"

definition backscan_program :: "backscan_env \<Rightarrow> string \<Rightarrow> string set \<Rightarrow> string list \<times> string set" where
  "backscan_program env prog seen =
     (let (fresh, seen') = admit_all (fetch_signatures (be_signatures env prog)) seen in
      (concat (map (\<lambda>sig. fetch_tx_mints (be_tx env sig)) fresh), seen'))"

definition backscan_cycle :: "backscan_env \<Rightarrow> string set \<Rightarrow> string list \<times> string set" where
  "backscan_cycle env seen =
     (let (mints1, seen1) = backscan_program env PUMPFUN_AMM_PROGRAM seen;
          (mints2, seen2) = backscan_program env ''LBUZKhRxPF3XUpBCjp4YzTKgLccjZhTSDM9YuVaPwxo'' seen1 in
      (mints1 @ mints2, clear_above 10000 seen2))"

section \<open>Checking the candidates\<close>

record presence_env =
  pe_dlmm :: dlmm_env
  pe_coin :: "string \<Rightarrow> coin_v2_meta option"
  pe_sol_price :: f64
  pe_now :: nat
  pe_now_ts :: int

record presence_caches =
  pk_pump :: pump_caches
  pk_dlmm :: dlmm_caches
  pk_cpmm :: "pool_state_data option cache \<times> cpmm_rows"
  pk_whirlpool :: "dlmm_pool option cache \<times> whirlpool_rows"

definition verify_dual_presence :: "presence_env \<Rightarrow> string \<Rightarrow> presence_caches \<Rightarrow> bool \<times> presence_caches" where
  "verify_dual_presence env mint c =
     (let d = pe_dlmm env; sol = NATIVE_SOL_MINT_C;
          (bc, pump) = fetch_bonding_curve (dv_pda d) (dv_parse d) (dv_show d) (dv_geyser d) (dv_rpc d) (pe_coin env)
             (pe_now env) mint (pk_pump c);
          (pools, dlmm) = fetch_dlmm_by_mints d (pe_now env) (pe_now_ts env) sol mint 0 (pk_dlmm c);
          (liq, cpmm) = fetch_cpmm_now (dv_pda d) (dv_parse d) (dv_show d) (dv_rpc d) (pe_sol_price env) (dv_db_ok d)
             (pe_now env) sol mint (pk_cpmm c);
          (wp, whirlpool) = fetch_whirlpool_by_mints (dv_pda d) (dv_parse d) (dv_show d) (dv_rpc d) (dv_db_ok d)
             (pe_now env) sol mint (pk_whirlpool c);
          has_pumpswap = (case bc of Some s \<Rightarrow> bc_venue_kind s = PumpSwapPool | None \<Rightarrow> False);
          has_dlmm = (pools \<noteq> []);
          has_cpmm = (liq \<noteq> None);
          has_whirlpool = (wp \<noteq> None);
          count = length (filter id [has_pumpswap, has_dlmm, has_cpmm, has_whirlpool]) in
      (2 \<le> count, \<lparr>pk_pump = pump, pk_dlmm = dlmm, pk_cpmm = cpmm, pk_whirlpool = whirlpool\<rparr>))"

text \<open>One batch of at most 64 candidates. \<open>verify\<close> is the presence check with whatever state it keeps.\<close>

record discovery_state =
  ds_whitelist :: "whitelist \<times> whitelist_rows"
  ds_discovered :: nat
  ds_size_gauge :: nat

definition discover_mint :: "bool \<Rightarrow> (string \<Rightarrow> 'c \<Rightarrow> bool \<times> 'c) \<Rightarrow> string \<Rightarrow> discovery_state \<times> 'c
    \<Rightarrow> discovery_state \<times> 'c" where
  "discover_mint ok verify mint s =
     (let (ds, c) = s in
      if whitelist_contains (fst (ds_whitelist ds)) mint then (ds, c)
      else
        (let (dual, c') = verify mint c in
         if \<not> dual then (ds, c')
         else
           (let (added, wl) = verify_and_add ok mint (ds_whitelist ds) in
            if \<not> added then (ds\<lparr>ds_whitelist := wl\<rparr>, c')
            else (ds\<lparr>ds_whitelist := wl, ds_discovered := ds_discovered ds + 1,
                     ds_size_gauge := whitelist_len (fst wl)\<rparr>, c'))))"

definition discovery_batch :: "bool \<Rightarrow> (string \<Rightarrow> 'c \<Rightarrow> bool \<times> 'c) \<Rightarrow> string list \<Rightarrow> discovery_state \<times> 'c
    \<Rightarrow> discovery_state \<times> 'c" where
  "discovery_batch ok verify buf s = fold (discover_mint ok verify) (remdups_adj (sort buf)) s"

end
