(* ===== verification/Bot_Listener_Properties.thy ===== *)
theory Bot_Listener_Properties
  imports Bot_Listener Client_Onchain Bot_Price_Properties
begin

text \<open>
  What the listener, the readers of fetched transactions and the discovery task guarantee, and what they
  do not: the events that go out, the bounds of the sets kept between events, the pools taken from
  the program's own swaps, the outcome of a batch of candidates.
\<close>

section \<open>Tokens of a log line\<close>

lemma split_log_ne [simp]: "split_log s \<noteq> []"
  by (cases s) (auto simp: Let_def)

lemma split_log_token: "\<forall>c \<in> set t. is_alphanumeric c \<Longrightarrow> split_log t = [t]"
  by (induction t) (simp_all add: Let_def)

lemma split_log_first:
  "\<forall>c \<in> set t. is_alphanumeric c \<Longrightarrow> \<not> is_alphanumeric c \<Longrightarrow> split_log (t @ c # cs) = t # split_log cs"
  by (induction t) (simp_all add: Let_def)

text \<open>The pieces and the separators between them make up the line.\<close>

lemma split_log_infix:
  assumes "t \<in> set (split_log s)"
  shows "\<exists>a b. s = a @ t @ b"
  using assms
proof (induction s arbitrary: t)
  case (Cons c cs)
  obtain h ts where hs: "split_log cs = h # ts" by (cases "split_log cs") auto
  have pre: "\<exists>b. cs = hd (split_log cs) @ b" for cs
  proof (induction cs)
    case (Cons d ds)
    then show ?case by (auto simp: Let_def)
  qed simp
  show ?case
  proof (cases "t \<in> set (split_log cs)")
    case True
    then obtain a b where "cs = a @ t @ b" using Cons.IH by blast
    then have "c # cs = (c # a) @ t @ b" by simp
    then show ?thesis by blast
  next
    case False
    with Cons.prems hs consider "t = []" | "t = c # h" by (auto simp: Let_def split: if_splits)
    then show ?thesis
    proof cases
      case 1
      then show ?thesis by (metis append_Nil)
    next
      case 2
      with pre [of cs] hs obtain b where "c # cs = [] @ t @ b" by auto
      then show ?thesis by blast
    qed
  qed
qed simp

text \<open>The alphabet is that of the base58 coder.\<close>

lemma is_base58_digits: "is_base58 s \<longleftrightarrow> (\<forall>c \<in> set s. b58_digit c \<noteq> None)"
  by (auto simp: is_base58_def list_all_iff between_def b58_digit_def Let_def)

lemma candidate_props:
  assumes "m \<in> set (extract_mint_candidates logs)"
  shows "pubkey_token m" "m \<notin> set KNOWN_FILTER" "\<exists>l \<in> set logs. \<exists>a b. l = a @ m @ b"
  using assms by (auto simp: extract_mint_candidates_def dest!: split_log_infix)

section \<open>The sets between events\<close>

lemma admit_all_set [simp]: "snd (admit_all cs seen) = seen \<union> set cs"
  by (induction cs arbitrary: seen) (auto simp: case_prod_beta)

lemma admit_all_new: "set (fst (admit_all cs seen)) = set cs - seen" "distinct (fst (admit_all cs seen))"
proof (induction cs arbitrary: seen)
  case (Cons c cs)
  {
    case 1
    show ?case using Cons.IH(1) [of "insert c seen"] by (auto simp: case_prod_beta)
  next
    case 2
    show ?case using Cons.IH [of "insert c seen"] by (auto simp: case_prod_beta)
  }
qed auto

lemma clear_above_bound: "card (clear_above n s) \<le> n"
  by (auto simp: clear_above_def)

lemma finite_clear: "finite s \<Longrightarrow> finite (clear_above n s)"
  by (simp add: clear_above_def)

lemma clear_above_subset: "clear_above n s \<subseteq> s"
  by (auto simp: clear_above_def)

section \<open>One event\<close>

lemma feed_fields [simp]:
  "fd_events (feed_unmatched cs f) = fd_events f"
  "fd_processed_sigs (feed_unmatched cs f) = fd_processed_sigs f"
  "fd_discovery (feed_unmatched cs f) = fd_discovery f @ fst (admit_all cs (fd_seen_mints f))"
  "fd_seen_mints (feed_unmatched cs f) = clear_above 10000 (fd_seen_mints f \<union> set cs)"
  "fd_events (count_program p f) = fd_events f" "fd_seen_mints (count_program p f) = fd_seen_mints f"
  "fd_discovery (count_program p f) = fd_discovery f" "fd_processed_sigs (count_program p f) = fd_processed_sigs f"
  "fd_seen_mints (try_send m f) = fd_seen_mints f" "fd_discovery (try_send m f) = fd_discovery f"
  "fd_processed_sigs (try_send m f) = fd_processed_sigs f"
  "fd_events (try_send m f) = (if length (fd_events f) < EVENT_CAPACITY then fd_events f @ [m] else fd_events f)"
  by (simp_all add: feed_unmatched_def count_program_def try_send_def case_prod_beta Let_def)

lemma spawn_fields [simp]:
  "fd_events (spawn_once s t f) = fd_events f" "fd_events (spawn_fetches env p m s f) = fd_events f"
  "fd_seen_mints (spawn_once s t f) = fd_seen_mints f" "fd_seen_mints (spawn_fetches env p m s f) = fd_seen_mints f"
  "fd_discovery (spawn_once s t f) = fd_discovery f" "fd_discovery (spawn_fetches env p m s f) = fd_discovery f"
  "fd_processed_sigs (spawn_once s t f) = insert s (fd_processed_sigs f)"
  by (auto simp: spawn_once_def spawn_fetches_def Let_def)

definition trade_event :: "log_event \<Rightarrow> bool" where
  "trade_event ev \<longleftrightarrow> \<not> ev_failed ev \<and> has_trade (ev_logs ev)"

definition known_mints :: "listen_env \<Rightarrow> log_event \<Rightarrow> string set" where
  "known_mints env ev =
     {m \<in> set (extract_mint_candidates (ev_logs ev)). whitelist_contains (lv_whitelist env) m}"

text \<open>Whether the listener knows no pool of the mint on the program of the trade, and the task that fetches the
  transaction to learn one.\<close>

definition pool_missing :: "listen_env \<Rightarrow> string \<Rightarrow> string \<Rightarrow> bool" where
  "pool_missing env program mint \<longleftrightarrow>
     program = ''dlmm'' \<and> get_dlmm_reserves (lv_now env) NATIVE_SOL_MINT_C mint (lv_dlmm env) = None \<or>
     program = ''cpmm'' \<and> get_discovered_pool (lv_now env) NATIVE_SOL_MINT_C mint (lv_cpmm_found env) = None \<or>
     program = ''whirlpool'' \<and> get_discovered_pool (lv_now env) NATIVE_SOL_MINT_C mint (lv_whirlpool_found env) = None \<and>
       get_whirlpool_reserves (lv_now env) NATIVE_SOL_MINT_C mint (lv_whirlpool env) = None"

definition fetch_for :: "string \<Rightarrow> string \<Rightarrow> fetch_task" where
  "fetch_for program sig =
     (if program = ''dlmm'' then Fetch_lb_pair sig else if program = ''cpmm'' then Fetch_cpmm_pool sig
      else Fetch_whirlpool sig)"

text \<open>The pool such a task reads from the transaction, with its two mints.\<close>

definition fetched_pool :: "fetch_env \<Rightarrow> string \<Rightarrow> string \<Rightarrow> (string \<times> string \<times> string) option" where
  "fetched_pool fenv program sig =
     Option.bind (fv_tx fenv sig)
       (if program = ''dlmm'' then extract_lb_pair_from_tx else if program = ''cpmm'' then extract_cpmm_pool_from_tx
        else extract_whirlpool_from_tx (fv_show fenv) (fv_data fenv))"

lemma spawn_fetches_tasks:
  "fd_tasks (spawn_fetches env p m s f) =
     fd_tasks f @ (if pool_missing env p m \<and> s \<notin> fd_processed_sigs f then [fetch_for p s] else [])"
  by (auto simp: spawn_fetches_def pool_missing_def fetch_for_def spawn_once_def Let_def)

lemma spawn_fetches_sigs:
  "fd_processed_sigs (spawn_fetches env p m s f) =
     (if \<not> pool_missing env p m then fd_processed_sigs f
      else if p = ''dlmm'' then clear_above 1024 (insert s (fd_processed_sigs f)) else insert s (fd_processed_sigs f))"
  by (auto simp: spawn_fetches_def pool_missing_def spawn_once_def Let_def insert_absorb)

lemma feed_tasks [simp]:
  "fd_tasks (try_send m f) = fd_tasks f" "fd_tasks (count_program p f) = fd_tasks f" "fd_tasks (feed_unmatched cs f) = fd_tasks f"
  by (simp_all add: try_send_def count_program_def feed_unmatched_def Let_def case_prod_beta)

lemma run_fetch_for:
  "fst (run_fetch_task fenv (fetch_for p s) pools) =
     (case fetched_pool fenv p s of None \<Rightarrow> [] | Some (mint_a, mint_b, _) \<Rightarrow> [mint_a, mint_b])"
  by (auto simp: fetch_for_def fetched_pool_def split: option.splits)

text \<open>C31: A failed transaction, or one without a trade, changes nothing. A trade that mentions a whitelisted mint
  proposes no candidate. Unless the receiver is gone, one such mint, a piece of a log line, is chosen: it goes out as
  one event, dropped when the channel is full; and if no pool of it is known on the program of the trade and
  the signature was not read before, one task is spawned, which later proposes the two mints of the pool it
  finds in the transaction. A trade that mentions no whitelisted mint sends no event, spawns no task, and proposes exactly the
  candidates not seen before, each once.\<close>

theorem listen_event_outcome:
  assumes walk: "\<And>xs. set (lv_walk env xs) = set xs" and result: "(go, f') = listen_event env ev f"
  shows "if \<not> trade_event ev then go \<and> f' = f
    else if known_mints env ev \<noteq> {}
    then fd_discovery f' = fd_discovery f \<and> go = lv_open env \<and>
      (if lv_open env
       then \<exists>m \<in> known_mints env ev. pubkey_token m \<and> (\<exists>l \<in> set (ev_logs ev). contains l m) \<and>
         fd_events f' = fd_events f @ (if length (fd_events f) < EVENT_CAPACITY then [m] else []) \<and>
         (let program = determine_program (ev_logs ev); sig = ev_signature ev in
          if pool_missing env program m \<and> sig \<notin> fd_processed_sigs f
          then \<exists>task. fd_tasks f' = fd_tasks f @ [task] \<and>
            (\<forall>fenv pools. fst (run_fetch_task fenv task pools) =
               (case fetched_pool fenv program sig of None \<Rightarrow> [] | Some (mint_a, mint_b, _) \<Rightarrow> [mint_a, mint_b]))
          else fd_tasks f' = fd_tasks f)
       else fd_events f' = fd_events f \<and> fd_tasks f' = fd_tasks f)
    else go \<and> fd_events f' = fd_events f \<and> fd_tasks f' = fd_tasks f \<and>
      (\<exists>new. fd_discovery f' = fd_discovery f @ new \<and> distinct new \<and>
         set new = set (extract_mint_candidates (ev_logs ev)) - fd_seen_mints f)"
proof (cases "trade_event ev")
  case True
  then have t: "\<not> ev_failed ev" "has_trade (ev_logs ev)" by (auto simp: trade_event_def)
  let ?cs = "lv_walk env (extract_mint_candidates (ev_logs ev))"
  show ?thesis
  proof (cases "List.find (whitelist_contains (lv_whitelist env)) ?cs")
    case None
    then have "known_mints env ev = {}" by (auto simp: known_mints_def find_None_iff walk)
    moreover have "go" "f' = feed_unmatched ?cs f" using t None result by (simp_all add: listen_event_def)
    ultimately show ?thesis using True admit_all_new [of ?cs "fd_seen_mints f"] by (auto simp: walk)
  next
    case (Some m)
    then have "m \<in> set ?cs" "whitelist_contains (lv_whitelist env) m" by (auto simp: find_Some_iff)
    then have m: "m \<in> known_mints env ev" by (simp add: known_mints_def walk)
    then have p: "pubkey_token m" "\<exists>l \<in> set (ev_logs ev). contains l m"
      using candidate_props [of m "ev_logs ev"] by (auto simp: known_mints_def contains_iff)
    have "go = lv_open env" "fd_discovery f' = fd_discovery f"
      "\<not> lv_open env \<Longrightarrow> fd_events f' = fd_events f \<and> fd_tasks f' = fd_tasks f"
      "lv_open env \<Longrightarrow> fd_events f' = fd_events f @ (if length (fd_events f) < EVENT_CAPACITY then [m] else [])"
      "lv_open env \<Longrightarrow> fd_tasks f' = fd_tasks f @ (if pool_missing env (determine_program (ev_logs ev)) m
         \<and> ev_signature ev \<notin> fd_processed_sigs f then [fetch_for (determine_program (ev_logs ev)) (ev_signature ev)] else [])"
      using Some t result by (auto simp: listen_event_def Let_def spawn_fetches_tasks split: if_splits)
    with m p True show ?thesis by (cases "lv_open env") (auto simp: Let_def run_fetch_for)
  qed
qed (use result in \<open>auto simp: listen_event_def trade_event_def split: if_splits\<close>)

section \<open>The feed over time\<close>

text \<open>Events, the event loop and the discovery task taking from their channels, and finished fetches.\<close>

inductive feed_reach :: "feed \<Rightarrow> bool" where
  start: "length events \<le> EVENT_CAPACITY \<Longrightarrow> feed_reach (feed_start events discovery metrics)"
| event: "feed_reach f \<Longrightarrow> feed_reach (snd (listen_event env ev f))"
| receive: "feed_reach f \<Longrightarrow> fd_events f = m # rest \<Longrightarrow> feed_reach (f\<lparr>fd_events := rest\<rparr>)"
| discover: "feed_reach f \<Longrightarrow> feed_reach (f\<lparr>fd_discovery := drop n (fd_discovery f)\<rparr>)"
| fetched: "feed_reach f \<Longrightarrow> fd_tasks f = a @ t # b \<Longrightarrow>
    feed_reach (f\<lparr>fd_tasks := a @ b, fd_discovery := fd_discovery f @ fst (run_fetch_task env t pools)\<rparr>)"

lemma admit_all_finite [simp]: "finite (snd (admit_all cs seen)) = finite seen"
  by (induction cs arbitrary: seen) (simp_all add: case_prod_beta)

lemma listen_event_bounds:
  "finite (fd_seen_mints f) \<Longrightarrow> finite (fd_seen_mints (snd (listen_event env ev f)))"
  "card (fd_seen_mints f) \<le> 10000 \<Longrightarrow> card (fd_seen_mints (snd (listen_event env ev f))) \<le> 10000"
  "length (fd_events f) \<le> EVENT_CAPACITY \<Longrightarrow> length (fd_events (snd (listen_event env ev f))) \<le> EVENT_CAPACITY"
  by (auto simp: listen_event_def Let_def clear_above_bound finite_clear split: option.split)

text \<open>A whitelisted mint traded on the CPMM, again and again.\<close>

definition leak_mint :: string where
  "leak_mint = replicate 32 (CHR ''2'')"

definition leak_env :: listen_env where
  "leak_env =
     \<lparr>lv_now = 0, lv_whitelist = \<lparr>wl_profitable = {}, wl_verified = {leak_mint}, wl_all = {leak_mint}, wl_blacklisted = {}\<rparr>,
      lv_dlmm = Map.empty, lv_cpmm_found = Map.empty, lv_whirlpool_found = Map.empty, lv_whirlpool = Map.empty,
      lv_walk = id, lv_open = True\<rparr>"

definition leak_log :: string where
  "leak_log = ''CPMMoo8L3F4'' @ CHR '' '' # ''Swap'' @ CHR '' '' # leak_mint"

definition leak_event :: "string \<Rightarrow> log_event" where
  "leak_event sig = \<lparr>ev_failed = False, ev_signature = sig, ev_logs = [leak_log]\<rparr>"

lemma leak_tokens: "split_log leak_log = [''CPMMoo8L3F4'', ''Swap'', leak_mint]"
proof -
  have a: "\<forall>c \<in> set ''CPMMoo8L3F4''. is_alphanumeric c" "\<forall>c \<in> set ''Swap''. is_alphanumeric c"
      "\<forall>c \<in> set leak_mint. is_alphanumeric c" "\<not> is_alphanumeric (CHR '' '')"
    by (simp_all add: leak_mint_def is_alphanumeric_def between_def)
  show ?thesis
    unfolding leak_log_def split_log_first [OF a(1,4)] split_log_first [OF a(2,4)] split_log_token [OF a(3)] ..
qed

lemma leak_reads:
  "has_trade (ev_logs (leak_event sig))" "extract_mint_candidates (ev_logs (leak_event sig)) = [leak_mint]"
  "determine_program (ev_logs (leak_event sig)) = ''cpmm''"
proof -
  have "contains leak_log ''Swap''"
    unfolding contains_iff leak_log_def by (rule exI [of _ "''CPMMoo8L3F4 ''"], simp)
  then show "has_trade (ev_logs (leak_event sig))" by (simp add: has_trade_def leak_event_def)
  have "pubkey_token leak_mint" by (simp add: pubkey_token_def leak_mint_def is_base58_def list_all_iff between_def)
  moreover have "leak_mint \<notin> set KNOWN_FILTER" by (simp add: leak_mint_def KNOWN_FILTER_def numeral_eq_Suc)
  moreover have "\<not> pubkey_token ''CPMMoo8L3F4''" "\<not> pubkey_token ''Swap''" by (simp_all add: pubkey_token_def)
  ultimately show "extract_mint_candidates (ev_logs (leak_event sig)) = [leak_mint]"
    by (simp add: extract_mint_candidates_def leak_event_def leak_tokens)
  have "contains leak_log ''CPMMoo8L3F4''" unfolding contains_iff leak_log_def by (rule exI [of _ "[]"]) simp
  moreover have "\<not> contains leak_log ''pAMMBay6oceH''" "\<not> contains leak_log ''LBUZKhRx''"
    by (simp_all add: contains_def leak_log_def leak_mint_def upt_conv_Cons numeral_eq_Suc)
  ultimately show "determine_program (ev_logs (leak_event sig)) = ''cpmm''"
    by (simp add: leak_event_def)
qed

lemma leak_step:
  "fd_processed_sigs (snd (listen_event leak_env (leak_event sig) f)) = insert sig (fd_processed_sigs f)"
proof -
  have "\<not> ev_failed (leak_event sig)" "ev_signature (leak_event sig) = sig"
    "whitelist_contains (lv_whitelist leak_env) leak_mint" "lv_walk leak_env = id" "lv_open leak_env"
    "pool_missing leak_env ''cpmm'' leak_mint"
    by (simp_all add: leak_event_def whitelist_contains_def leak_env_def get_discovered_pool_def pool_missing_def)
  then show ?thesis
    by (simp add: listen_event_def leak_reads spawn_fetches_sigs Let_def)
qed

lemma processed_sigs_grow: "\<exists>f. feed_reach f \<and> fd_processed_sigs f = (\<lambda>k. replicate k (CHR ''s'')) ` {..<n}"
proof (induction n)
  case 0
  have "feed_reach (feed_start [] [] m)" for m by (rule start) simp
  then show ?case by (force simp: feed_start_def)
next
  case (Suc n)
  then obtain f where f: "feed_reach f" "fd_processed_sigs f = (\<lambda>k. replicate k (CHR ''s'')) ` {..<n}" by blast
  let ?f = "snd (listen_event leak_env (leak_event (replicate n (CHR ''s''))) f)"
  have "feed_reach ?f" using f(1) by (rule event)
  moreover have "fd_processed_sigs ?f = (\<lambda>k. replicate k (CHR ''s'')) ` {..<Suc n}"
    by (simp add: leak_step f(2) lessThan_Suc)
  ultimately show ?case by blast
qed

text \<open>The events at which the listener clears the signatures: a trade on the DLMM, of a whitelisted mint of
  which no DLMM pool is cached.\<close>

definition dlmm_fetched :: "listen_env \<Rightarrow> log_event \<Rightarrow> bool" where
  "dlmm_fetched env ev \<longleftrightarrow> trade_event ev \<and> lv_open env \<and> determine_program (ev_logs ev) = ''dlmm'' \<and>
     (case List.find (whitelist_contains (lv_whitelist env)) (lv_walk env (extract_mint_candidates (ev_logs ev))) of
        None \<Rightarrow> False
      | Some m \<Rightarrow> get_dlmm_reserves (lv_now env) NATIVE_SOL_MINT_C m (lv_dlmm env) = None)"

lemma listen_event_sigs:
  defines "s f \<equiv> fd_processed_sigs f"
  shows "if dlmm_fetched env ev then s (snd (listen_event env ev f)) = clear_above 1024 (insert (ev_signature ev) (s f))
    else s (snd (listen_event env ev f)) \<in> {s f, insert (ev_signature ev) (s f)}"
  by (auto simp: s_def dlmm_fetched_def trade_event_def listen_event_def Let_def spawn_fetches_sigs pool_missing_def
      split: option.split)

lemma listen_event_sigs_finite:
  "finite (fd_processed_sigs f) \<Longrightarrow> finite (fd_processed_sigs (snd (listen_event env ev f)))"
  using listen_event_sigs [of env ev f] by (auto simp: finite_clear split: if_splits)

text \<open>C36: The set of mints already fed never holds more than ten thousand, the event channel never more than
  its capacity. The set of signatures already read is cut to at most 1024 at an event that fetches a DLMM transaction: it is
  emptied if it is larger with the new signature. No other event removes any, and without such events it grows
  beyond every number.\<close>

theorem feed_bounds:
  assumes "feed_reach f"
  shows "finite (fd_seen_mints f) \<and> card (fd_seen_mints f) \<le> 10000 \<and> length (fd_events f) \<le> EVENT_CAPACITY \<and>
    (let old = fd_processed_sigs f; new = fd_processed_sigs (snd (listen_event env ev f));
         added = insert (ev_signature ev) old in
     finite old \<and>
     (if dlmm_fetched env ev then card new \<le> 1024 \<and> new = (if card added \<le> 1024 then added else {})
      else new = old \<or> new = added)) \<and>
    (\<exists>g. feed_reach g \<and> card (fd_processed_sigs g) = n)"
proof -
  have "finite (fd_seen_mints f) \<and> card (fd_seen_mints f) \<le> 10000 \<and> length (fd_events f) \<le> EVENT_CAPACITY
      \<and> finite (fd_processed_sigs f)"
    using assms by (induction rule: feed_reach.induct) (auto simp: feed_start_def listen_event_bounds listen_event_sigs_finite)
  moreover obtain g where "feed_reach g" "fd_processed_sigs g = (\<lambda>k. replicate k (CHR ''s'')) ` {..<n}"
    using processed_sigs_grow by blast
  moreover have "inj_on (\<lambda>k. replicate k (CHR ''s'')) {..<n}" by (auto simp: inj_on_def dest: arg_cong [where f = length])
  ultimately show ?thesis
    using listen_event_sigs [of env ev f] by (auto simp: card_image clear_above_def Let_def split: if_splits)
qed

definition no_counts :: feed_metrics where
  "no_counts = \<lparr>fm_pumpfun = 0, fm_dlmm = 0, fm_cpmm = 0, fm_whirlpool = 0, fm_filtered = 0\<rparr>"

text \<open>A trade on the DLMM of a mint whose pool is not cached.\<close>

definition bins_log :: string where
  "bins_log = ''LBUZKhRx'' @ CHR '' '' # ''Swap'' @ CHR '' '' # leak_mint"

definition bins_event :: log_event where
  "bins_event = \<lparr>ev_failed = False, ev_signature = ''s'', ev_logs = [bins_log]\<rparr>"

lemma bins_fetched: "dlmm_fetched leak_env bins_event"
proof -
  have a: "\<forall>c \<in> set ''LBUZKhRx''. is_alphanumeric c" "\<forall>c \<in> set ''Swap''. is_alphanumeric c"
      "\<forall>c \<in> set leak_mint. is_alphanumeric c" "\<not> is_alphanumeric (CHR '' '')"
    by (simp_all add: leak_mint_def is_alphanumeric_def between_def)
  have "split_log bins_log = [''LBUZKhRx'', ''Swap'', leak_mint]"
    unfolding bins_log_def split_log_first [OF a(1,4)] split_log_first [OF a(2,4)] split_log_token [OF a(3)] ..
  moreover have "\<not> pubkey_token ''LBUZKhRx''" "\<not> pubkey_token ''Swap''" by (simp_all add: pubkey_token_def)
  moreover have "pubkey_token leak_mint" by (simp add: pubkey_token_def leak_mint_def is_base58_def list_all_iff between_def)
  moreover have "leak_mint \<notin> set KNOWN_FILTER" by (simp add: leak_mint_def KNOWN_FILTER_def numeral_eq_Suc)
  ultimately have "extract_mint_candidates (ev_logs bins_event) = [leak_mint]"
    by (simp add: extract_mint_candidates_def bins_event_def)
  moreover have "contains bins_log ''Swap''"
    unfolding contains_iff bins_log_def by (rule exI [of _ "''LBUZKhRx ''"], simp)
  then have "trade_event bins_event" by (simp add: trade_event_def has_trade_def bins_event_def)
  moreover have "contains bins_log ''LBUZKhRx''" unfolding contains_iff bins_log_def by (rule exI [of _ "[]"]) simp
  moreover have "\<not> contains bins_log ''pAMMBay6oceH''"
    by (simp add: contains_def bins_log_def leak_mint_def upt_conv_Cons numeral_eq_Suc)
  ultimately show ?thesis
    by (simp add: dlmm_fetched_def bins_event_def leak_env_def whitelist_contains_def get_dlmm_reserves_def get_entry_def)
qed

theorem feed_bounds_witness:
  "card (fd_seen_mints (feed_start [''m''] [] no_counts)) \<le> 10000 \<and>
    fd_processed_sigs (snd (listen_event leak_env bins_event (feed_start [''m''] [] no_counts))) = {''s''} \<and>
    (\<exists>g. feed_reach g \<and> card (fd_processed_sigs g) = 5000 \<and>
       fd_processed_sigs (snd (listen_event leak_env bins_event g)) = {})"
proof -
  have s: "feed_reach (feed_start [''m''] [] no_counts)" by (rule start) (simp add: EVENT_CAPACITY_def)
  obtain g where g: "feed_reach g" "card (fd_processed_sigs g) = 5000"
    using feed_bounds [OF s, of leak_env bins_event 5000] by blast
  have "5000 \<le> card (insert ''s'' (fd_processed_sigs g))" using card_insert_le [of "fd_processed_sigs g" "''s''"] g(2) by simp
  then have "fd_processed_sigs (snd (listen_event leak_env bins_event g)) = {}"
    using feed_bounds [OF g(1), of leak_env bins_event] bins_fetched by (simp add: Let_def bins_event_def)
  moreover have "fd_processed_sigs (snd (listen_event leak_env bins_event (feed_start [''m''] [] no_counts))) = {''s''}"
    using feed_bounds [OF s, of leak_env bins_event] bins_fetched by (simp add: Let_def bins_event_def feed_start_def)
  ultimately show ?thesis using g by (auto simp: feed_start_def)
qed

text \<open>The same event with and without a whitelist.\<close>

theorem listen_event_outcome_witness:
  "(let f' = snd (listen_event leak_env (leak_event ''s'') (feed_start [] [] no_counts)) in
    fd_events f' = [leak_mint] \<and> fd_discovery f' = [] \<and> length (fd_tasks f') = 1) \<and>
   set (fd_discovery (snd (listen_event (leak_env\<lparr>lv_whitelist := whitelist_load []\<rparr>) (leak_event ''s'') (feed_start [] [] no_counts))))
     = {leak_mint}"
proof -
  have t: "trade_event (leak_event ''s'')" using leak_reads(1) by (simp add: trade_event_def leak_event_def)
  have w: "lv_walk leak_env = id" "lv_open leak_env" "whitelist_contains (lv_whitelist leak_env) leak_mint"
    and m: "pool_missing leak_env ''cpmm'' leak_mint"
    by (simp_all add: leak_env_def whitelist_contains_def pool_missing_def get_discovered_pool_def)
  have k: "known_mints leak_env (leak_event ''s'') = {leak_mint}"
    using w by (auto simp: known_mints_def leak_reads)
  have e: "known_mints (leak_env\<lparr>lv_whitelist := whitelist_load []\<rparr>) (leak_event ''s'') = {}"
    by (simp add: known_mints_def whitelist_contains_def whitelist_load_def whitelist_load_all_def Let_def)
  have "fd_events (feed_start [] [] no_counts) = []" "fd_discovery (feed_start [] [] no_counts) = []"
    "fd_tasks (feed_start [] [] no_counts) = []" "fd_seen_mints (feed_start [] [] no_counts) = {}"
    "fd_processed_sigs (feed_start [] [] no_counts) = {}" "0 < EVENT_CAPACITY"
    by (simp_all add: feed_start_def EVENT_CAPACITY_def)
  then show ?thesis
    using listen_event_outcome [of leak_env, OF _ prod.collapse, of "leak_event ''s''" "feed_start [] [] no_counts"]
      listen_event_outcome [of "leak_env\<lparr>lv_whitelist := whitelist_load []\<rparr>", OF _ prod.collapse, of "leak_event ''s''" "feed_start [] [] no_counts"]
      t w k e m leak_reads(2,3)
    by (auto simp: Let_def)
qed

section \<open>The discovery task\<close>

text \<open>The venues on which \<open>verify_dual_presence\<close> finds a mint: a graduated PumpSwap pool, a DLMM pool of any size, a CPMM
  pool whose liquidity is known, a Whirlpool; each from its cache when that is fresh, from the chain otherwise.\<close>

definition present_on :: "presence_env \<Rightarrow> string \<Rightarrow> presence_caches \<Rightarrow> venue set" where
  "present_on env mint c =
     (let d = pe_dlmm env; sol = NATIVE_SOL_MINT_C in
      {v. v = PumpSwapAmm \<and> (\<exists>s. fst (fetch_bonding_curve (dv_pda d) (dv_parse d) (dv_show d) (dv_geyser d) (dv_rpc d)
              (pe_coin env) (pe_now env) mint (pk_pump c)) = Some s \<and> bc_venue_kind s = PumpSwapPool)} \<union>
      {v. v = MeteoraDlmm \<and> fst (fetch_dlmm_by_mints d (pe_now env) (pe_now_ts env) sol mint 0 (pk_dlmm c)) \<noteq> []} \<union>
      {v. v = RaydiumCpmm \<and> fst (fetch_cpmm_now (dv_pda d) (dv_parse d) (dv_show d) (dv_rpc d) (pe_sol_price env) (dv_db_ok d)
              (pe_now env) sol mint (pk_cpmm c)) \<noteq> None} \<union>
      {v. v = OrcaWhirlpool \<and> fst (fetch_whirlpool_by_mints (dv_pda d) (dv_parse d) (dv_show d) (dv_rpc d) (dv_db_ok d)
              (pe_now env) sol mint (pk_whirlpool c)) \<noteq> None})"

lemma card_flags:
  assumes "distinct [a, b, c, d]"
  shows "card ({v. v = a \<and> P} \<union> {v. v = b \<and> Q} \<union> {v. v = c \<and> R} \<union> {v. v = d \<and> S}) = length (filter id [P, Q, R, S])"
proof -
  have e: "{v. v = x \<and> X} = (if X then {x} else {})" for x X by auto
  show ?thesis using assms unfolding e by simp
qed

lemma verify_present: "fst (verify_dual_presence env m c) \<longleftrightarrow> 2 \<le> card (present_on env m c)"
proof -
  have "card (present_on env m c) = length (filter id
    [\<exists>s. fst (fetch_bonding_curve (dv_pda (pe_dlmm env)) (dv_parse (pe_dlmm env)) (dv_show (pe_dlmm env)) (dv_geyser (pe_dlmm env))
        (dv_rpc (pe_dlmm env)) (pe_coin env) (pe_now env) m (pk_pump c)) = Some s \<and> bc_venue_kind s = PumpSwapPool,
     fst (fetch_dlmm_by_mints (pe_dlmm env) (pe_now env) (pe_now_ts env) NATIVE_SOL_MINT_C m 0 (pk_dlmm c)) \<noteq> [],
     fst (fetch_cpmm_now (dv_pda (pe_dlmm env)) (dv_parse (pe_dlmm env)) (dv_show (pe_dlmm env)) (dv_rpc (pe_dlmm env))
        (pe_sol_price env) (dv_db_ok (pe_dlmm env)) (pe_now env) NATIVE_SOL_MINT_C m (pk_cpmm c)) \<noteq> None,
     fst (fetch_whirlpool_by_mints (dv_pda (pe_dlmm env)) (dv_parse (pe_dlmm env)) (dv_show (pe_dlmm env)) (dv_rpc (pe_dlmm env))
        (dv_db_ok (pe_dlmm env)) (pe_now env) NATIVE_SOL_MINT_C m (pk_whirlpool c)) \<noteq> None])"
    unfolding present_on_def Let_def by (rule card_flags) simp
  moreover have "(case x of Some s \<Rightarrow> P s | None \<Rightarrow> False) \<longleftrightarrow> (\<exists>s. x = Some s \<and> P s)" for x and P :: "bonding_curve_state \<Rightarrow> bool"
    by (cases x) auto
  ultimately show ?thesis by (simp add: verify_dual_presence_def Let_def case_prod_beta)
qed

text \<open>The candidates in turn, those on the whitelist passed over: each is looked up with the clock and the chain of its
  turn (\<open>envs\<close>) and the caches the lookups before left, and those found on two venues are kept.\<close>

primrec found_in_turn :: "(string \<Rightarrow> presence_env) \<Rightarrow> string set \<Rightarrow> string list \<Rightarrow> presence_caches \<Rightarrow> string list" where
  "found_in_turn envs known [] c = []"
| "found_in_turn envs known (m # ms) c =
     (if m \<in> known then found_in_turn envs known ms c
      else (let rest = found_in_turn envs known ms (snd (verify_dual_presence (envs m) m c)) in
            if 2 \<le> card (present_on (envs m) m c) then m # rest else rest))"

abbreviation presence_check :: "(string \<Rightarrow> presence_env) \<Rightarrow> string \<Rightarrow> presence_caches \<Rightarrow> bool \<times> presence_caches" where
  "presence_check envs \<equiv> \<lambda>m. verify_dual_presence (envs m) m"

lemma found_subset: "set (found_in_turn envs known ms c) \<subseteq> set ms - known"
  by (induction ms arbitrary: c) (auto simp: Let_def)

lemma found_known: "m \<notin> set ms \<Longrightarrow> found_in_turn envs (insert m known) ms c = found_in_turn envs known ms c"
  by (induction ms arbitrary: c) (auto simp: Let_def)

lemma discover_fold:
  assumes "distinct buf"
  defines "wl \<equiv> \<lambda>ds. fst (ds_whitelist ds)"
  shows "let ds' = fst (fold (discover_mint ok (presence_check envs)) buf (ds, c));
      new = set (found_in_turn envs (wl_all (wl ds)) buf c) - wl_blacklisted (wl ds) in
    wl_all (wl ds') = wl_all (wl ds) \<union> new \<and> wl_verified (wl ds') = wl_verified (wl ds) \<union> new \<and>
    wl_profitable (wl ds') = wl_profitable (wl ds) \<and> wl_blacklisted (wl ds') = wl_blacklisted (wl ds) \<and>
    ds_discovered ds' = ds_discovered ds + card new \<and>
    ds_size_gauge ds' = (if new = {} then ds_size_gauge ds else card (wl_all (wl ds')))"
  using assms(1)
proof (induction buf arbitrary: ds c)
  case Nil
  then show ?case by simp
next
  case (Cons m buf)
  obtain ds1 c1 where step: "discover_mint ok (presence_check envs) m (ds, c) = (ds1, c1)" by fastforce
  have d: "m \<notin> set buf" "distinct buf" using Cons.prems by simp_all
  have dual: "fst (verify_dual_presence (envs m) m c) \<longleftrightarrow> 2 \<le> card (present_on (envs m) m c)" by (rule verify_present)
  let ?new = "\<lambda>ds buf c. set (found_in_turn envs (wl_all (wl ds)) buf c) - wl_blacklisted (wl ds)"
  have fin: "finite (?new ds1 buf c1)" "m \<notin> ?new ds1 buf c1"
    using d found_subset [of envs "wl_all (wl ds1)" buf c1] by auto
  show ?case
  proof (cases "2 \<le> card (present_on (envs m) m c) \<and> m \<notin> wl_all (wl ds) \<and> m \<notin> wl_blacklisted (wl ds)")
    case True
    with step dual have ds1: "wl ds1 = (wl ds)\<lparr>wl_verified := insert m (wl_verified (wl ds)), wl_all := insert m (wl_all (wl ds))\<rparr>"
        "ds_discovered ds1 = ds_discovered ds + 1" "ds_size_gauge ds1 = card (wl_all (wl ds1))"
        and c1: "c1 = snd (verify_dual_presence (envs m) m c)"
      by (auto simp: discover_mint_def whitelist_contains_def verify_and_add_def whitelist_len_def wl_def
          case_prod_beta Let_def split: if_splits)
    have "?new ds (m # buf) c = insert m (?new ds1 buf c1)"
      using True d by (auto simp: ds1 c1 found_known Let_def)
    moreover define N where "N = ?new ds1 buf c1"
    ultimately have "?new ds (m # buf) c = insert m N" "finite N" "m \<notin> N" using fin by simp_all
    with Cons.IH [OF d(2), of ds1 c1] step ds1 show ?thesis
      unfolding Let_def N_def [symmetric] by (cases "N = {}") auto
  next
    case False
    with step dual have "wl ds1 = wl ds" "ds_discovered ds1 = ds_discovered ds" "ds_size_gauge ds1 = ds_size_gauge ds"
        and c1: "c1 = (if m \<in> wl_all (wl ds) then c else snd (verify_dual_presence (envs m) m c))"
      by (auto simp: discover_mint_def whitelist_contains_def verify_and_add_def wl_def case_prod_beta Let_def split: if_splits)
    moreover from False this(1) have "?new ds (m # buf) c = ?new ds1 buf c1"
      by (auto simp: c1 Let_def)
    ultimately show ?thesis using Cons.IH [OF d(2), of ds1 c1] step by (simp add: Let_def)
  qed
qed

text \<open>C32: The discovery task takes a batch of candidates in alphabetical order, each once. It adds to the
  whitelist exactly those that, at their turn and in the caches the lookups before left, are found on two venues,
  and that are neither on it nor blacklisted; the other sets do not change, and counter and gauge follow. No
  other task touches whitelist or caches in between.\<close>

theorem discovery_batch_outcome:
  "let ds' = fst (discovery_batch ok (\<lambda>m. verify_dual_presence (envs m) m) buf (ds, c));
       wl = fst (ds_whitelist ds); wl' = fst (ds_whitelist ds');
       new = set (found_in_turn envs (wl_all wl) (sorted_list_of_set (set buf)) c) - wl_blacklisted wl in
   wl_all wl' = wl_all wl \<union> new \<and> wl_verified wl' = wl_verified wl \<union> new \<and> new \<inter> wl_all wl = {} \<and>
   wl_profitable wl' = wl_profitable wl \<and> wl_blacklisted wl' = wl_blacklisted wl \<and>
   ds_discovered ds' = ds_discovered ds + card new \<and>
   ds_size_gauge ds' = (if new = {} then ds_size_gauge ds else card (wl_all wl'))"
proof -
  have "distinct (remdups_adj xs)" if "sorted xs" for xs :: "string list"
    using that by (induction xs rule: remdups_adj.induct) (auto simp: less_le)
  then have "remdups_adj (sort buf) = sorted_list_of_set (set buf)"
    by (intro sorted_distinct_set_unique) (simp_all add: sorted_remdups_adj)
  then show ?thesis
    using discover_fold [of "sorted_list_of_set (set buf)" ok envs ds c]
      found_subset [of envs "wl_all (fst (ds_whitelist ds))" "sorted_list_of_set (set buf)" c]
    unfolding discovery_batch_def Let_def by auto
qed

text \<open>One mint whose PumpSwap pool and DLMM pool are cached, one known to be on neither and not on the CPMM, and one
  already on the whitelist.\<close>

definition demo_discovery :: discovery_state where
  "demo_discovery = \<lparr>ds_whitelist = (whitelist_load [(''a'', ''verified'')], []), ds_discovered = 3, ds_size_gauge = 1\<rparr>"

definition demo_presence :: presence_env where
  "demo_presence = \<lparr>pe_dlmm = se_dlmm even_env, pe_coin = (\<lambda>_. None), pe_sol_price = Fin 0, pe_now = 100, pe_now_ts = 0\<rparr>"

definition demo_seen :: presence_caches where
  "demo_seen = \<lparr>
     pk_pump = \<lparr>pu_pool_addr = Map.empty,
       pu_bonding = [''meme'' \<mapsto> entry_new 100 (Some even_curve), ''thin'' \<mapsto> entry_new 100 None]\<rparr>,
     pk_dlmm = (vc_dlmm even_caches)\<lparr>dc_reserves := (\<lambda>k. if k = cache_key NATIVE_SOL_MINT_C ''meme''
       then Some (entry_new 100 (Some even_pool)) else Some (entry_new 100 None))\<rparr>,
     pk_cpmm = (\<lambda>_. Some (entry_new 100 None), []), pk_whirlpool = (Map.empty, [])\<rparr>"

definition demo_batch :: discovery_state where
  "demo_batch = fst (discovery_batch True (\<lambda>m. verify_dual_presence demo_presence m) [''thin'', ''meme'', ''a'', ''meme'']
     (demo_discovery, demo_seen))"

lemma demo_reads:
  assumes "pk_pump c = pk_pump demo_seen" "pk_dlmm c = pk_dlmm demo_seen" "pk_cpmm c = pk_cpmm demo_seen"
  shows "2 \<le> card (present_on demo_presence ''meme'' c)" "\<not> 2 \<le> card (present_on demo_presence ''thin'' c)"
    and "pk_pump (snd (verify_dual_presence demo_presence ''meme'' c)) = pk_pump demo_seen"
    and "pk_dlmm (snd (verify_dual_presence demo_presence ''meme'' c)) = pk_dlmm demo_seen"
    and "pk_cpmm (snd (verify_dual_presence demo_presence ''meme'' c)) = pk_cpmm demo_seen"
proof -
  have k: "cache_key NATIVE_SOL_MINT_C ''thin'' \<noteq> cache_key NATIVE_SOL_MINT_C ''meme''"
    by (simp add: cache_key_def NATIVE_SOL_MINT_C_def)
  note c = demo_seen_def demo_presence_def even_env_def entry_new_def age_secs_def is_stale_def PUMPFUN_RESERVE_TTL_SECS_def
    DLMM_RESERVE_TTL_SECS_def CACHE_TTL_SECS_def liquidity_of_state_def even_curve_def even_caches_def
  show "2 \<le> card (present_on demo_presence ''meme'' c)" "\<not> 2 \<le> card (present_on demo_presence ''thin'' c)"
    using k by (simp_all add: verify_present [symmetric] verify_dual_presence_def assms fetch_bonding_curve_def
        fetch_dlmm_by_mints_def fetch_cpmm_now_def c case_prod_beta Let_def)
  show "pk_pump (snd (verify_dual_presence demo_presence ''meme'' c)) = pk_pump demo_seen"
    "pk_dlmm (snd (verify_dual_presence demo_presence ''meme'' c)) = pk_dlmm demo_seen"
    "pk_cpmm (snd (verify_dual_presence demo_presence ''meme'' c)) = pk_cpmm demo_seen"
    by (simp_all add: verify_dual_presence_def assms fetch_bonding_curve_def
        fetch_dlmm_by_mints_def fetch_cpmm_now_def c case_prod_beta)
qed

theorem discovery_batch_outcome_witness:
  "wl_all (fst (ds_whitelist demo_batch)) = {''a'', ''meme''} \<and> ds_discovered demo_batch = 4 \<and> ds_size_gauge demo_batch = 2"
proof -
  let ?wl = "whitelist_load [(''a'', ''verified'')]"
  have "sorted_list_of_set (set [''thin'', ''meme'', ''a'', ''meme'']) = [''a'', ''meme'', ''thin'']"
    unfolding sorted_list_of_set_sort_remdups by (simp add: less_eq_list_code less_eq_char_def less_char_def)
  moreover have "wl_all ?wl = {''a''}" "wl_blacklisted ?wl = {}"
    by (auto simp: whitelist_load_def whitelist_load_all_def Let_def)
  ultimately have "set (found_in_turn (\<lambda>_. demo_presence) (wl_all ?wl) (sorted_list_of_set (set [''thin'', ''meme'', ''a'', ''meme'']))
      demo_seen) = {''meme''}"
    using demo_reads(1) [of demo_seen] demo_reads(2-5) [of "snd (verify_dual_presence demo_presence ''meme'' demo_seen)"]
      demo_reads(3-5) [of demo_seen] by (simp add: Let_def)
  then show ?thesis
    using discovery_batch_outcome [of True "\<lambda>_. demo_presence" "[''thin'', ''meme'', ''a'', ''meme'']" demo_discovery demo_seen]
      \<open>wl_all ?wl = {''a''}\<close> \<open>wl_blacklisted ?wl = {}\<close>
    by (simp add: demo_batch_def demo_discovery_def Let_def insert_commute)
qed

section \<open>The scan of recent signatures\<close>

text \<open>A round reads the transactions of the successful signatures not seen, each once, and passes on their
  candidates; none of them is a known program, and no signature of the round is read again until the set is
  cleared.\<close>

lemma fetch_tx_mints_clean: "m \<in> set (fetch_tx_mints tx) \<Longrightarrow> is_base58 m \<and> m \<notin> set BACKSCAN_FILTER"
  by (auto simp: fetch_tx_mints_def admit_all_new Let_def split: option.splits)

lemma backscan_program_reads:
  "set (fst (backscan_program env prog seen)) =
     (\<Union>sig \<in> set (fetch_signatures (be_signatures env prog)) - seen. set (fetch_tx_mints (be_tx env sig)))"
  "snd (backscan_program env prog seen) = seen \<union> set (fetch_signatures (be_signatures env prog))"
  by (simp_all add: backscan_program_def case_prod_beta admit_all_new)

lemma backscan_idle:
  assumes "\<And>prog. set (fetch_signatures (be_signatures env prog)) \<subseteq> seen"
  shows "fst (backscan_cycle env seen) = []"
proof -
  have "backscan_program env prog seen = ([], seen)" for prog
  proof -
    have none: "set (fetch_signatures (be_signatures env prog)) - seen = {}" using assms [of prog] by blast
    have "set (fst (backscan_program env prog seen)) = {}" unfolding backscan_program_reads none by simp
    moreover have "snd (backscan_program env prog seen) = seen" using none by (simp add: backscan_program_reads(2) Un_absorb2)
    ultimately show ?thesis by (simp add: prod_eq_iff)
  qed
  then show ?thesis by (simp add: backscan_cycle_def)
qed

end
