(* ===== verification/Bot_Ammv4.thy ===== *)
theory Bot_Ammv4
  imports Bot_Pools
begin

text \<open>
  The AMM v4 pools (\<open>pool_cache/ammv4.rs\<close>): the pool state among the accounts of a transaction, its
  vaults found by searching the mints in the raw bytes, its liquidity in SOL. Answers that may be
  missing are \<open>Err ()\<close> and slices out of range panic. \<open>fetch_ammv4_vaults\<close> asks for two accounts and gets
  two answers. The log messages, and their reads of texts that exist, are left out.
\<close>

type_synonym 'a maybe = "(unit, 'a) outcome"

section \<open>Searching the state\<close>

text \<open>\<open>data.windows(32).position(|w| w == key)\<close>\<close>

definition window_position :: "byte list \<Rightarrow> byte list \<Rightarrow> nat option" where
  "window_position data key = List.find (\<lambda>i. field data i 32 = key) [0..<length data - 31]"

definition vault_pair :: "show_key \<Rightarrow> byte list \<Rightarrow> nat \<Rightarrow> string \<times> string" where
  "vault_pair show_key data pos = (show_key (key_at data pos), show_key (key_at data (pos + 32)))"

definition find_vaults_in_pool_data :: "show_key \<Rightarrow> byte list \<Rightarrow> pubkey \<Rightarrow> pubkey \<Rightarrow> (string \<times> string) option" where
  "find_vaults_in_pool_data show_key data mint_a mint_b =
     Option.bind (window_position data (key_bytes mint_a)) (\<lambda>pos_a.
     if 64 \<le> pos_a \<and> pos_a + 32 < length data - 32 \<and> field data (pos_a + 32) 32 = key_bytes mint_b
     then Some (vault_pair show_key data (pos_a - 64))
     else if 32 \<le> pos_a \<and> pos_a + 32 \<le> length data - 32
        \<and> field data (pos_a - 32) 32 = key_bytes mint_b \<and> 96 \<le> pos_a
     then Some (vault_pair show_key data (pos_a - 96))
     else None)"

text \<open>\<open>read_pk\<close>; an offset that wraps below zero is past the end as well.\<close>

definition read_pk :: "show_key \<Rightarrow> byte list \<Rightarrow> int \<Rightarrow> string maybe" where
  "read_pk show_key data off =
     (if off < 0 \<or> int (length data) < off + 32 then Panic else Ok (show_key (key_at data (nat off))))"

definition parse_ammv4_with_mints :: "show_key \<Rightarrow> byte list \<Rightarrow> pubkey \<Rightarrow> pubkey \<Rightarrow> string \<Rightarrow> ammv4_pool_info maybe" where
  "parse_ammv4_with_mints show_key data coin_mint pc_mint pool_address =
     and_then (ok_or (window_position data (key_bytes coin_mint)) ()) (\<lambda>pos.
     if length data < pos + 64 \<or> field data (pos + 32) 32 \<noteq> key_bytes pc_mint then Err ()
     else
       (let rd = (\<lambda>off. read_pk show_key data (int pos + off)) in
        and_then (rd 0) (\<lambda>coin.
        and_then (rd 32) (\<lambda>pc.
        and_then (rd (- 64)) (\<lambda>coin_vault.
        and_then (rd (- 32)) (\<lambda>pc_vault.
        and_then (rd 96) (\<lambda>open_orders.
        and_then (rd 128) (\<lambda>target_orders.
        and_then (rd 160) (\<lambda>market.
        and_then (rd 192) (\<lambda>market_program.
          Ok \<lparr>ai_pool_address = pool_address, ai_coin_mint = coin, ai_pc_mint = pc, ai_coin_vault = coin_vault,
              ai_pc_vault = pc_vault, ai_open_orders = open_orders, ai_target_orders = target_orders,
              ai_market = market, ai_market_program = market_program\<rparr>))))))))))"

definition parse_ammv4_full_state :: "parse_key \<Rightarrow> show_key \<Rightarrow> byte list \<Rightarrow> string \<Rightarrow> string \<Rightarrow> string
    \<Rightarrow> ammv4_pool_info maybe" where
  "parse_ammv4_full_state parse_key show_key data mint_a mint_b pool_address =
     and_then (ok_or (parse_key mint_a) ()) (\<lambda>a.
     and_then (ok_or (parse_key mint_b) ()) (\<lambda>b.
     case parse_ammv4_with_mints show_key data a b pool_address of
       Err _ \<Rightarrow> parse_ammv4_with_mints show_key data b a pool_address
     | r \<Rightarrow> r))"

section \<open>Liquidity\<close>

definition fetch_ammv4_vaults :: "parse_key \<Rightarrow> rpc_view \<Rightarrow> f64 \<Rightarrow> string \<Rightarrow> string \<Rightarrow> string \<Rightarrow> string \<Rightarrow> f64 option" where
  "fetch_ammv4_vaults parse_key rpc sol_price vault_a vault_b mint_a mint_b =
     Option.bind (parse_key vault_a) (\<lambda>va.
     Option.bind (parse_key vault_b) (\<lambda>vb.
     Option.bind (get_multiple_accounts rpc [va, vb]) (\<lambda>accounts.
     Option.bind (Option.bind (accounts ! 0) (\<lambda>a. parse_token_amount (on_data a))) (\<lambda>raw_a.
     Option.bind (Option.bind (accounts ! 1) (\<lambda>a. parse_token_amount (on_data a))) (\<lambda>raw_b.
     let ui_a = ui_amount mint_a raw_a; ui_b = ui_amount mint_b raw_b in
     if mint_a = NATIVE_SOL_MINT_C then Some (f_mul ui_a (Fin 2))
     else if mint_b = NATIVE_SOL_MINT_C then Some (f_mul ui_b (Fin 2))
     else if f_lt (Fin 0) sol_price
     then (if is_stablecoin mint_a then Some (f_div (f_mul ui_a (Fin 2)) sol_price)
           else if is_stablecoin mint_b then Some (f_div (f_mul ui_b (Fin 2)) sol_price)
           else None)
     else None)))))"

text \<open>The first account that is a pool decides, and a missing account before it ends the search.\<close>

fun first_ammv4 :: "parse_key \<Rightarrow> show_key \<Rightarrow> rpc_view \<Rightarrow> f64 \<Rightarrow> string \<Rightarrow> string \<Rightarrow> (pubkey \<times> chain_account option) list
    \<Rightarrow> (f64 \<times> string \<times> byte list) option" where
  "first_ammv4 parse_key show_key rpc sol_price mint_a mint_b [] = None"
| "first_ammv4 parse_key show_key rpc sol_price mint_a mint_b ((pk, acct_opt) # rest) =
     Option.bind acct_opt (\<lambda>acct.
     if on_owner acct \<noteq> pubkey_lit AMM_V4_PROGRAM \<or> length (on_data acct) < 700 \<or> 800 < length (on_data acct)
     then first_ammv4 parse_key show_key rpc sol_price mint_a mint_b rest
     else
       Option.bind (parse_key mint_a) (\<lambda>a.
       Option.bind (parse_key mint_b) (\<lambda>b.
       Option.bind (case find_vaults_in_pool_data show_key (on_data acct) a b of
                      None \<Rightarrow> find_vaults_in_pool_data show_key (on_data acct) b a | r \<Rightarrow> r) (\<lambda>(va, vb).
       Option.bind (fetch_ammv4_vaults parse_key rpc sol_price va vb mint_a mint_b) (\<lambda>liq.
         Some (liq, show_key pk, on_data acct))))))"

definition discover_and_fetch_ammv4 :: "parse_key \<Rightarrow> show_key \<Rightarrow> rpc_view \<Rightarrow> f64 \<Rightarrow> string list \<Rightarrow> string \<Rightarrow> string
    \<Rightarrow> (f64 \<times> string \<times> byte list) option" where
  "discover_and_fetch_ammv4 parse_key show_key rpc sol_price accounts mint_a mint_b =
     (let pks = List.map_filter parse_key accounts in
      Option.bind (get_multiple_accounts rpc pks) (\<lambda>resp.
        first_ammv4 parse_key show_key rpc sol_price mint_a mint_b (zip pks resp)))"

record ammv4_caches =
  mc_reserves :: "f64 option cache"
  mc_pools :: "ammv4_pool_info option cache"

text \<open>\<open>accounts\<close> is the JSON list, if the text is one. A panic leaves the caches as they are.\<close>

definition fetch_ammv4_now :: "parse_key \<Rightarrow> show_key \<Rightarrow> rpc_view \<Rightarrow> f64 \<Rightarrow> nat \<Rightarrow> string list option \<Rightarrow> string \<Rightarrow> string
    \<Rightarrow> ammv4_caches \<Rightarrow> f64 maybe \<times> ammv4_caches" where
  "fetch_ammv4_now parse_key show_key rpc sol_price now accounts mint_a mint_b c =
     (let mint_key = cache_key mint_a mint_b;
          refresh =
            (case Option.bind accounts (\<lambda>accts.
                    if AMM_V4_PROGRAM \<notin> set accts then None
                    else discover_and_fetch_ammv4 parse_key show_key rpc sol_price accts mint_a mint_b) of
               None \<Rightarrow> (Err (), c)
             | Some (liq, pool_addr, pool_data) \<Rightarrow>
                 if \<not> f_lt (Fin 0) liq then (Ok liq, c)
                 else
                   (let reserves = (mc_reserves c)(mint_key \<mapsto> entry_new now (Some liq)) in
                    case parse_ammv4_full_state parse_key show_key pool_data mint_a mint_b pool_addr of
                      Panic \<Rightarrow> (Panic, c)
                    | Err _ \<Rightarrow> (Ok liq, c\<lparr>mc_reserves := reserves\<rparr>)
                    | Ok pool_info \<Rightarrow>
                        (Ok liq, c\<lparr>mc_pools := (mc_pools c)(mint_key \<mapsto> entry_new now (Some pool_info)),
                                   mc_reserves := reserves\<rparr>))) in
      case mc_reserves c mint_key of
        Some entry \<Rightarrow> if is_stale now entry then refresh else (ok_or (ce_data entry) (), c)
      | None \<Rightarrow> refresh)"

section \<open>Pools and their vaults\<close>

lemma to_le_from_le: "length bs = n \<Longrightarrow> to_le n (from_le bs) = bs"
proof (induction bs arbitrary: n)
  case (Cons b bs)
  have "unat b < 256" using unsigned_less [of b, where ?'a = nat] by simp
  with Cons show ?case by auto
qed simp

lemma key_bytes_of: "length bs = 32 \<Longrightarrow> key_bytes (key_of_bytes bs) = bs"
proof -
  assume l: "length bs = 32"
  have "from_le (rev bs) < 256 ^ 32" using from_le_bound [of "rev bs"] l by simp
  then have "unat (of_nat (from_le (rev bs)) :: pubkey) = from_le (rev bs)" by (simp add: unat_of_nat)
  with l show ?thesis by (simp add: key_bytes_def key_of_bytes_def to_le_from_le)
qed

text \<open>The state of a pool holds coin vault, pc vault, coin mint, pc mint and another key in a row; \<open>p\<close> is where
  the coin mint is found first, and the pc mint is found first behind it.\<close>

definition pool_layout :: "byte list \<Rightarrow> nat \<Rightarrow> pubkey \<Rightarrow> pubkey \<Rightarrow> bool" where
  "pool_layout data p coin pc \<longleftrightarrow>
     64 \<le> p \<and> p + 96 < length data \<and>
     window_position data (key_bytes coin) = Some p \<and> window_position data (key_bytes pc) = Some (p + 32) \<and>
     field data p 32 = key_bytes coin \<and> field data (p + 32) 32 = key_bytes pc \<and>
     field data (p + 64) 32 \<noteq> key_bytes coin"

text \<open>Coin vault and pc vault come out in this order, whichever mint is given first.\<close>

lemma vaults_of_layout:
  assumes "pool_layout data p coin pc"
  shows "find_vaults_in_pool_data show_key data coin pc = Some (vault_pair show_key data (p - 64))"
    and "find_vaults_in_pool_data show_key data pc coin = Some (vault_pair show_key data (p - 64))"
proof -
  have "p + 32 < length data - 32" and "p + 32 + 32 \<le> length data - 32" and "p + 32 + 32 = p + 64"
    and "p + 32 - 32 = p" and "p + 32 - 96 = p - 64" and "96 \<le> p + 32" and "32 \<le> p + 32"
    using assms by (auto simp: pool_layout_def)
  with assms show "find_vaults_in_pool_data show_key data coin pc = Some (vault_pair show_key data (p - 64))"
    and "find_vaults_in_pool_data show_key data pc coin = Some (vault_pair show_key data (p - 64))"
    unfolding pool_layout_def find_vaults_in_pool_data_def by (simp_all only: bind.simps simp_thms if_True if_False)
qed

lemma parse_panics_iff:
  "parse_ammv4_with_mints show_key data coin pc addr = Panic \<longleftrightarrow>
     (\<exists>p. window_position data (key_bytes coin) = Some p \<and> p + 64 \<le> length data \<and>
        field data (p + 32) 32 = key_bytes pc \<and> (p < 64 \<or> length data < p + 224))"
  by (cases "window_position data (key_bytes coin)")
    (auto simp: parse_ammv4_with_mints_def ok_or_def read_pk_def Let_def)

text \<open>The liquidity of a pool whose pc side is SOL is twice its SOL if the token is named first, and
  twice the amount of the token, read as lamports, if SOL is.\<close>

lemma ammv4_liquidity_depends_on_order:
  assumes layout: "pool_layout (on_data state) p coin pc"
    and pool: "on_owner state = pubkey_lit AMM_V4_PROGRAM" "700 \<le> length (on_data state)" "length (on_data state) \<le> 800"
    and mints: "mint \<noteq> NATIVE_SOL_MINT_C" "parse_key mint = Some coin" "parse_key NATIVE_SOL_MINT_C = Some pc"
    and vaults: "coin_vault = key_at (on_data state) (p - 64)" "pc_vault = key_at (on_data state) (p - 32)"
    and coder: "parse_key (show_key coin_vault) = Some coin_vault" "parse_key (show_key pc_vault) = Some pc_vault"
    and rpc: "get_multiple_accounts rpc [coin_vault, pc_vault] = Some [Some a, Some b]"
    and amounts: "parse_token_amount (on_data a) = Some coin_amount" "parse_token_amount (on_data b) = Some pc_amount"
  shows "first_ammv4 parse_key show_key rpc price mint NATIVE_SOL_MINT_C [(pk, Some state)] =
      Some (f_mul (ui_amount NATIVE_SOL_MINT_C pc_amount) (Fin 2), show_key pk, on_data state) \<and>
    first_ammv4 parse_key show_key rpc price NATIVE_SOL_MINT_C mint [(pk, Some state)] =
      Some (f_mul (ui_amount NATIVE_SOL_MINT_C coin_amount) (Fin 2), show_key pk, on_data state)"
proof -
  have "p - 64 + 32 = p - 32" using layout by (simp add: pool_layout_def)
  then have pair: "vault_pair show_key (on_data state) (p - 64) = (show_key coin_vault, show_key pc_vault)"
    using vaults by (simp add: vault_pair_def)
  show ?thesis
    using pool mints coder rpc amounts vaults_of_layout [OF layout, of show_key]
    by (simp add: pair fetch_ammv4_vaults_def Let_def)
qed

lemma window_position_first:
  assumes "length x = 32" and "hd x \<notin> set pre"
  shows "window_position (pre @ x @ rest) x = Some (length pre)"
proof -
  have "field (pre @ x @ rest) j 32 \<noteq> x" if "j < length pre" for j
  proof
    assume "field (pre @ x @ rest) j 32 = x"
    then have "hd x = hd (field (pre @ x @ rest) j 32)" by simp
    also have "\<dots> = pre ! j" using that by (simp add: field_def hd_drop_conv_nth)
    finally show False using assms(2) that by (metis nth_mem)
  qed
  moreover have "field (pre @ x @ rest) (length pre) 32 = x"
    using assms(1) by (simp add: field_def)
  moreover have "length pre < length (pre @ x @ rest) - 31" using assms(1) by simp
  ultimately show ?thesis
    unfolding window_position_def find_Some_iff by (intro exI [of _ "length pre"]) (auto simp del: upt_Suc)
qed

text \<open>A pool of 752 bytes with its four keys from byte 336 on.\<close>

definition amm_key :: "byte \<Rightarrow> byte list" where
  "amm_key b = b # replicate 31 0"

definition amm_pool :: "byte list" where
  "amm_pool = replicate 336 0 @ amm_key 1 @ amm_key 2 @ amm_key 3 @ amm_key 4 @ replicate 288 0"

definition amm_vault :: "u64 \<Rightarrow> chain_account" where
  "amm_vault amount = \<lparr>on_owner = 0, on_data = replicate 64 0 @ u64_to_le amount\<rparr>"

lemma amm_fields:
  "field amm_pool 336 32 = amm_key 1" "field amm_pool 368 32 = amm_key 2"
  "field amm_pool 400 32 = amm_key 3" "field amm_pool 432 32 = amm_key 4"
  "field amm_pool 464 32 = replicate 32 0" "length amm_pool = 752"
  by (simp_all add: field_def amm_pool_def amm_key_def)

lemma amm_positions:
  "window_position amm_pool (amm_key 3) = Some 400" "window_position amm_pool (amm_key 4) = Some 432"
  using window_position_first [of "amm_key 3" "replicate 336 0 @ amm_key 1 @ amm_key 2" "amm_key 4 @ replicate 288 0"]
    window_position_first [of "amm_key 4" "replicate 336 0 @ amm_key 1 @ amm_key 2 @ amm_key 3" "replicate 288 0"]
  by (simp_all add: amm_pool_def amm_key_def)

lemma amm_layout: "pool_layout amm_pool 400 (key_of_bytes (amm_key 3)) (key_of_bytes (amm_key 4))"
proof -
  have "replicate 32 (0 :: byte) ! 0 \<noteq> amm_key 3 ! 0" by (simp add: amm_key_def)
  then have "replicate 32 (0 :: byte) \<noteq> amm_key 3" by metis
  moreover have "key_bytes (key_of_bytes (amm_key b)) = amm_key b" for b by (simp add: key_bytes_of amm_key_def)
  ultimately show ?thesis unfolding pool_layout_def using amm_fields amm_positions by simp
qed

definition amm_parse :: parse_key where
  "amm_parse s =
     (if s = ''coin'' then Some (key_of_bytes (amm_key 3))
      else if s = NATIVE_SOL_MINT_C then Some (key_of_bytes (amm_key 4))
      else if s = ''v'' then Some (key_of_bytes (amm_key 1))
      else if s = ''w'' then Some (key_of_bytes (amm_key 2)) else None)"

definition amm_show :: show_key where
  "amm_show k =
     (if k = key_of_bytes (amm_key 1) then ''v'' else if k = key_of_bytes (amm_key 2) then ''w'' else ''pool'')"

definition amm_rpc :: rpc_view where
  "amm_rpc = \<lparr>rv_account = \<lambda>_. None,
     rv_multiple = \<lambda>_. Some (\<lambda>k. Some (amm_vault (if k = key_of_bytes (amm_key 1) then 7 else 5)))\<rparr>"

definition amm_state :: chain_account where
  "amm_state = \<lparr>on_owner = pubkey_lit AMM_V4_PROGRAM, on_data = amm_pool\<rparr>"

lemma amm_vault_keys:
  "key_at amm_pool 336 = key_of_bytes (amm_key 1)" "key_at amm_pool 368 = key_of_bytes (amm_key 2)"
  "key_of_bytes (amm_key 2) \<noteq> key_of_bytes (amm_key 1)"
proof -
  have "key_bytes (key_of_bytes (amm_key 1)) \<noteq> key_bytes (key_of_bytes (amm_key 2))"
    by (simp add: key_bytes_of amm_key_def)
  then show "key_of_bytes (amm_key 2) \<noteq> key_of_bytes (amm_key 1)" by metis
qed (simp_all add: key_at_def amm_fields)

lemma amm_vault_amount: "parse_token_amount (on_data (amm_vault n)) = Some n"
  by (simp add: parse_token_amount_def amm_vault_def)

lemma ammv4_liquidity_example:
  "first_ammv4 amm_parse amm_show amm_rpc NaN ''coin'' NATIVE_SOL_MINT_C [(0, Some amm_state)] =
      Some (f_mul (ui_amount NATIVE_SOL_MINT_C 5) (Fin 2), amm_show 0, amm_pool) \<and>
    first_ammv4 amm_parse amm_show amm_rpc NaN NATIVE_SOL_MINT_C ''coin'' [(0, Some amm_state)] =
      Some (f_mul (ui_amount NATIVE_SOL_MINT_C 7) (Fin 2), amm_show 0, amm_pool)"
proof -
  have d: "on_data amm_state = amm_pool" "on_owner amm_state = pubkey_lit AMM_V4_PROGRAM"
    by (simp_all add: amm_state_def)
  show ?thesis
    using ammv4_liquidity_depends_on_order [where state = amm_state and p = 400 and coin = "key_of_bytes (amm_key 3)"
        and pc = "key_of_bytes (amm_key 4)" and mint = "''coin''" and parse_key = amm_parse
        and coin_vault = "key_of_bytes (amm_key 1)" and pc_vault = "key_of_bytes (amm_key 2)" and show_key = amm_show
        and rpc = amm_rpc and a = "amm_vault 7" and b = "amm_vault 5" and coin_amount = 7 and pc_amount = 5
        and price = NaN and pk = 0]
      amm_layout amm_fields(6)
    by (simp add: d amm_vault_keys amm_vault_amount amm_parse_def amm_show_def amm_rpc_def
        get_multiple_accounts_def NATIVE_SOL_MINT_C_def)
qed

end
