(* ===== verification/Bot_Extraction.thy ===== *)
theory Bot_Extraction
  imports Bot_Listener_Properties Bot_Ammv4
begin

text \<open>
  The readers of fetched transactions (\<open>listener/extract.rs\<close>) against the instructions the on-chain program
  itself issues and against the pool reader of \<open>pool_cache/whirlpool.rs\<close>. \<open>compiled\<close> relates an inner instruction
  of an RPC answer to the instruction it stands for.
\<close>

section \<open>Inner instructions\<close>

definition compiled :: "show_key \<Rightarrow> string list \<Rightarrow> instruction \<Rightarrow> inner_ix \<Rightarrow> bool" where
  "compiled show_key keys ix c \<longleftrightarrow>
     (\<exists>p as. c = (Some p, Some (map Some as)) \<and> get_at keys (unat p) = Some (show_key (ix_program_id ix)) \<and>
        list_all2 (\<lambda>a m. get_at keys (unat a) = Some (show_key (meta_pubkey m))) as (ix_accounts ix))"

text \<open>The transaction \<open>tx\<close> holds \<open>ix\<close> as the first inner instruction of its program.\<close>

definition first_swap :: "show_key \<Rightarrow> string \<Rightarrow> instruction \<Rightarrow> parsed_tx \<Rightarrow> bool" where
  "first_swap show_key prog ix tx \<longleftrightarrow>
     show_key (ix_program_id ix) = prog \<and>
     (\<exists>keys before c after groups. pt_keys tx = Some (map Some keys) \<and>
        pt_inner tx = Some (Some (before @ c # after) # groups) \<and> compiled show_key keys ix c \<and>
        (\<forall>b \<in> set before. \<exists>n. fst b = Some n \<and> get_at keys (unat n) \<noteq> Some prog))"

lemma map_filter_Some [simp]: "List.map_filter id (map Some xs) = xs"
  by (induction xs) (simp_all add: List.map_filter_simps)

lemma scan_skips:
  "\<forall>b \<in> set before. \<exists>n. fst b = Some n \<and> get_at keys (unat n) \<noteq> Some prog \<Longrightarrow>
     scan_instructions prog keys (before @ rest) = scan_instructions prog keys rest"
  by (induction before) auto

lemma first_swap_accounts:
  assumes "first_swap show_key prog ix tx"
  obtains s where "swap_accounts prog tx = Some s"
    and "\<And>i. i < length (ix_accounts ix) \<Longrightarrow> account_key s i = Some (show_key (meta_pubkey (ix_accounts ix ! i)))"
proof -
  obtain keys before c after groups p as
    where tx: "pt_keys tx = Some (map Some keys)" "pt_inner tx = Some (Some (before @ c # after) # groups)"
      and skip: "\<forall>b \<in> set before. \<exists>n. fst b = Some n \<and> get_at keys (unat n) \<noteq> Some prog"
      and c: "c = (Some p, Some (map Some as))" "get_at keys (unat p) = Some prog"
      and as: "list_all2 (\<lambda>a m. get_at keys (unat a) = Some (show_key (meta_pubkey m))) as (ix_accounts ix)"
    using assms by (auto simp: first_swap_def compiled_def)
  have "swap_accounts prog tx = Some (keys, map unat as)"
    using tx c scan_skips [OF skip] by (simp add: swap_accounts_def)
  moreover have "account_key (keys, map unat as) i = Some (show_key (meta_pubkey (ix_accounts ix ! i)))"
    if "i < length (ix_accounts ix)" for i
    using as that by (auto simp: account_key_def get_at_def list_all2_conv_all_nth)
  ultimately show thesis by (rule that)
qed

section \<open>The program's own swaps\<close>

text \<open>C33: From a DLMM swap the program issues, the reader takes the user's receiving account and the mint
  of token X for the two mints. The pair cache learns the pool for these two only, and the candidates
  to check are these two: the mint of token Y stays unknown.\<close>

theorem own_dlmm_swap_misread:
  assumes built: "build_swap2 accounts base amount xm ym xp yp user tin tout bins = Ok ix"
    and range: "base + DLMM_FIXED_LEN + bins \<le> length accounts" "\<forall>i \<in> {xm, ym, xp, yp, user, tin, tout}. i < length accounts"
    and tx: "fv_tx env sig = Some tx" "first_swap (fv_show env) ''LBUZKhRxPF3XUpBCjp4YzTKgLccjZhTSDM9YuVaPwxo'' ix tx"
    and run: "run_fetch_task env (Fetch_lb_pair sig) pools = (mints, pools')"
  shows "mints = [fv_show env (acc_key (accounts ! tout)), fv_show env (acc_key (accounts ! xm))] \<and>
    fst (fp_lb_pair pools') = (fst (fp_lb_pair pools))
      (fv_show env (acc_key (accounts ! tout)) \<mapsto> fv_show env (acc_key (accounts ! (base + 1))),
       fv_show env (acc_key (accounts ! xm)) \<mapsto> fv_show env (acc_key (accounts ! (base + 1))))"
proof -
  have ix: "ix = dlmm_swap2_ix accounts base amount xm ym xp yp user tin tout bins"
    using built build_swap2_in_range [OF range, of amount] by simp
  then have accts: "16 \<le> length (ix_accounts ix)" "meta_pubkey (ix_accounts ix ! 0) = acc_key (accounts ! (base + 1))"
    "meta_pubkey (ix_accounts ix ! 5) = acc_key (accounts ! tout)" "meta_pubkey (ix_accounts ix ! 6) = acc_key (accounts ! xm)"
    by (simp_all add: dlmm_swap2_ix_def slot_meta_def)
  obtain s where s: "swap_accounts ''LBUZKhRxPF3XUpBCjp4YzTKgLccjZhTSDM9YuVaPwxo'' tx = Some s"
    and keys: "\<And>i. i < length (ix_accounts ix) \<Longrightarrow> account_key s i = Some (fv_show env (meta_pubkey (ix_accounts ix ! i)))"
    using first_swap_accounts [OF tx(2)] by blast
  from accts(1) have "0 < length (ix_accounts ix)" "5 < length (ix_accounts ix)" "6 < length (ix_accounts ix)" by linarith+
  note k = this [THEN keys, unfolded accts]
  have "extract_lb_pair_from_tx tx = Some (fv_show env (acc_key (accounts ! tout)), fv_show env (acc_key (accounts ! xm)),
      fv_show env (acc_key (accounts ! (base + 1))))"
    unfolding extract_lb_pair_from_tx_def s by (simp add: k)
  with run tx(1) show ?thesis by (auto simp: cache_dlmm_lb_pair_def case_prod_beta Let_def)
qed

text \<open>From the CPMM swap the program issues, the two token programs are taken for the mints.\<close>

lemma own_cpmm_swap_misread:
  assumes built: "build_cpmm_swap accounts base amount min_out payer im om ia oa ip op memo = Ok ix"
    and range: "base + 13 \<le> length accounts" "\<forall>i \<in> {payer, im, om, ia, oa, ip, op, memo}. i < length accounts"
    and tx: "first_swap show_key ''CPMMoo8L3F4NbTegBCKVNunggL7H1ZpdTHKxQB5qKP1C'' ix tx"
  shows "extract_cpmm_pool_from_tx tx =
    Some (show_key (acc_key (accounts ! ip)), show_key (acc_key (accounts ! op)), show_key (acc_key (accounts ! (base + 3))))"
proof -
  have ix: "ix = cpmm_swap_ix accounts base amount min_out payer im om ia oa ip op memo"
    using built build_cpmm_swap_in_range [OF range, of amount min_out] by simp
  obtain s where s: "swap_accounts ''CPMMoo8L3F4NbTegBCKVNunggL7H1ZpdTHKxQB5qKP1C'' tx = Some s"
    and keys: "\<And>i. i < length (ix_accounts ix) \<Longrightarrow> account_key s i = Some (show_key (meta_pubkey (ix_accounts ix ! i)))"
    using first_swap_accounts [OF tx] by blast
  show ?thesis
    unfolding extract_cpmm_pool_from_tx_def s using keys [of 3] keys [of 10] keys [of 11]
    by (simp add: ix cpmm_swap_ix_def slot_meta_def)
qed

section \<open>Whirlpools\<close>

lemma key_at_nth: "off + 32 \<le> length d \<Longrightarrow> j < 32 \<Longrightarrow> key_bytes (key_at d off) ! j = d ! (off + j)"
  by (simp add: key_at_def key_bytes_of field_def)

lemma to_le_nth: "i < n \<Longrightarrow> to_le n v ! i = of_nat (v div 256 ^ i mod 256)"
proof (induction n arbitrary: i v)
  case (Suc n)
  then show ?case by (cases i) (simp_all add: div_mult2_eq)
qed simp

definition sol_key :: pubkey where
  "sol_key = pubkey_lit NATIVE_SOL_MINT_C"

lemma sol_bytes: "key_bytes sol_key ! 0 \<noteq> key_bytes sol_key ! 2" "key_bytes sol_key ! 0 \<noteq> key_bytes sol_key ! 4"
  unfolding key_bytes_def
  by (simp_all add: rev_nth to_le_nth sol_key_def NATIVE_SOL_MINT_C_def b58_eval)

text \<open>Two bytes before the mints stand the first thirty bytes of each, two places on.\<close>

lemma shifted_mints_differ:
  assumes "245 \<le> length d" and "sol_key \<in> {key_at d 101, key_at d 181}"
  shows "{key_at d 99, key_at d 179} \<noteq> {key_at d 101, key_at d 181}"
proof
  assume eq: "{key_at d 99, key_at d 179} = {key_at d 101, key_at d 181}"
  have shift: "key_bytes (key_at d 99) ! (j + 2) = key_bytes (key_at d 101) ! j"
    "key_bytes (key_at d 179) ! (j + 2) = key_bytes (key_at d 181) ! j" if "j < 30" for j
    using assms(1) that by (simp_all add: key_at_nth)
  from eq consider "key_at d 99 = key_at d 101" "key_at d 179 = key_at d 181"
    | "key_at d 99 = key_at d 181" "key_at d 179 = key_at d 101" by (auto simp: doubleton_eq_iff)
  then show False
  proof cases
    case 1
    with shift [of 0] assms(2) sol_bytes(1) show False by (auto simp: numeral_eq_Suc)
  next
    case 2
    with shift [of 0] shift [of 2] assms(2) sol_bytes(2) show False by (auto simp: numeral_eq_Suc)
  qed
qed

text \<open>C34: The reader of Whirlpool swaps takes the mints two bytes too early, so a pool of SOL and a token is cached
  under another pair: no lookup of the pair finds what the listener has discovered.\<close>

theorem sol_whirlpool_never_found:
  assumes coder: "\<And>k. parse_key (fv_show env k) = Some k" "\<And>k. CHR '':'' \<notin> set (fv_show env k)"
      "fv_show env sol_key = NATIVE_SOL_MINT_C"
    and pools: "\<And>addr d. fv_data env addr = Some d \<Longrightarrow> 245 \<le> length d \<and> {key_at d 101, key_at d 181} = {sol_key, mint}"
    and run: "run_fetch_task env (Fetch_whirlpool sig) pools = (mints, pools')"
  shows "get_discovered_pool t NATIVE_SOL_MINT_C (fv_show env mint) (fp_whirlpool pools') =
    get_discovered_pool t NATIVE_SOL_MINT_C (fv_show env mint) (fp_whirlpool pools)"
proof (cases "Option.bind (fv_tx env sig) (extract_whirlpool_from_tx (fv_show env) (fv_data env))")
  case None
  with run show ?thesis by simp
next
  case (Some r)
  have inj: "fv_show env k = fv_show env k' \<longleftrightarrow> k = k'" for k k' by (metis coder(1) option.inject)
  obtain addr d where d: "fv_data env addr = Some d" and r: "r = (fv_show env (key_at d 99), fv_show env (key_at d 179), addr)"
    using Some by (auto simp: extract_whirlpool_from_tx_def bind_eq_Some_conv split: if_splits)
  have "{key_at d 99, key_at d 179} \<noteq> {sol_key, mint}"
    using shifted_mints_differ [of d] pools [OF d] by auto
  then have "{fv_show env (key_at d 99), fv_show env (key_at d 179)} \<noteq> {NATIVE_SOL_MINT_C, fv_show env mint}"
    unfolding coder(3) [symmetric] by (auto simp: doubleton_eq_iff inj)
  moreover have "CHR '':'' \<notin> set NATIVE_SOL_MINT_C" using coder(2) [of sol_key] coder(3) by simp
  ultimately have "cache_key (fv_show env (key_at d 99)) (fv_show env (key_at d 179)) \<noteq>
      cache_key NATIVE_SOL_MINT_C (fv_show env mint)"
    using coder(2) by (subst cache_key_inj) auto
  with run Some r show ?thesis by (auto simp: get_discovered_pool_def cache_discovered_pool_def)
qed

section \<open>Concrete transactions\<close>

text \<open>A coder that writes a key in unary, and SOL under its name.\<close>

definition unary_show :: show_key where
  "unary_show k = (if k = sol_key then NATIVE_SOL_MINT_C else replicate (unat k) (CHR ''x''))"

definition unary_parse :: parse_key where
  "unary_parse s = (if s = NATIVE_SOL_MINT_C then Some sol_key else Some (of_nat (length s)))"

lemma unary_coder: "unary_parse (unary_show k) = Some k" "CHR '':'' \<notin> set (unary_show k)"
proof -
  have "replicate n (CHR ''x'') \<noteq> NATIVE_SOL_MINT_C" for n by (cases n) (simp_all add: NATIVE_SOL_MINT_C_def)
  then show "unary_parse (unary_show k) = Some k" by (simp add: unary_show_def unary_parse_def)
  show "CHR '':'' \<notin> set (unary_show k)" by (simp add: unary_show_def NATIVE_SOL_MINT_C_def)
qed

text \<open>A Whirlpool of SOL and the key 0, swapped in the transaction \<open>s\<close>.\<close>

definition demo_whirlpool :: "byte list" where
  "demo_whirlpool = replicate 101 0 @ key_bytes sol_key @ replicate 48 0 @ replicate 64 0"

definition demo_tx :: "string \<Rightarrow> nat \<Rightarrow> parsed_tx" where
  "demo_tx prog n = \<lparr>pt_keys = Some (map Some (prog # map (\<lambda>i. replicate i (CHR ''a'')) [0..<n])),
     pt_inner = Some [Some [(Some 0, Some (map (\<lambda>i. Some (of_nat (Suc i))) [0..<n]))]], pt_logs = None\<rparr>"

definition demo_fetch :: fetch_env where
  "demo_fetch = \<lparr>fv_now = 0, fv_show = unary_show,
     fv_tx = \<lambda>_. Some (demo_tx ''whirLbMiicVdio4qvUfM5KAg6Ct8VwpYzGff3uctyCc'' 4),
     fv_data = \<lambda>_. Some demo_whirlpool, fv_db_ok = True\<rparr>"

definition no_pools :: found_pools where
  "no_pools = \<lparr>fp_lb_pair = (Map.empty, []), fp_cpmm = Map.empty, fp_whirlpool = Map.empty\<rparr>"

lemma demo_whirlpool_mints:
  "length demo_whirlpool = 245" "key_at demo_whirlpool 101 = sol_key" "key_at demo_whirlpool 181 = 0"
proof -
  have "field demo_whirlpool 101 32 = key_bytes sol_key" "field demo_whirlpool 181 32 = replicate 32 0"
    by (simp_all add: demo_whirlpool_def field_def)
  then show "key_at demo_whirlpool 101 = sol_key" "key_at demo_whirlpool 181 = 0"
    unfolding key_at_def by (simp, simp add: key_of_bytes_def)
qed (simp add: demo_whirlpool_def)

text \<open>The swap is found, and the pool cached, all the same.\<close>

lemma demo_whirlpool_found:
  "fst (run_fetch_task demo_fetch (Fetch_whirlpool s) no_pools) =
     [unary_show (key_at demo_whirlpool 99), unary_show (key_at demo_whirlpool 179)]"
  by (simp add: demo_fetch_def demo_tx_def extract_whirlpool_from_tx_def swap_accounts_def get_at_def account_key_def
      demo_whirlpool_mints(1) upt_conv_Cons List.map_filter_simps)

theorem sol_whirlpool_never_found_witness:
  "get_discovered_pool 0 NATIVE_SOL_MINT_C (unary_show 0)
     (fp_whirlpool (snd (run_fetch_task demo_fetch (Fetch_whirlpool ''s'') no_pools))) = None"
  using sol_whirlpool_never_found [where env = demo_fetch and parse_key = unary_parse and mint = 0 and sig = "''s''"
      and pools = no_pools and t = 0, OF _ _ _ _ surjective_pairing] unary_coder demo_whirlpool_mints
  by (auto simp: demo_fetch_def no_pools_def get_discovered_pool_def unary_show_def)

text \<open>A DLMM swap over sixteen accounts, whose keys are their positions.\<close>

definition demo_swap_infos :: "account_info list" where
  "demo_swap_infos = map (\<lambda>i. \<lparr>acc_key = of_nat i, acc_owner = 0, acc_is_signer = False, acc_is_writable = True\<rparr>) [0..<16]"

definition demo_name :: show_key where
  "demo_name k = (if k = 0 then ''LBUZKhRxPF3XUpBCjp4YzTKgLccjZhTSDM9YuVaPwxo'' else replicate (unat k) (CHR ''a''))"

definition demo_slots :: "nat list" where
  "demo_slots = [1, 2, 3, 4, 14, 15, 9, 10, 5, 6, 13, 11, 12, 7, 8, 0]"

definition demo_swap_tx :: parsed_tx where
  "demo_swap_tx = \<lparr>pt_keys = Some (map (\<lambda>i. Some (demo_name (of_nat i))) [0..<16]),
     pt_inner = Some [Some [(Some 0, Some (map (\<lambda>i. Some (of_nat i)) demo_slots))]], pt_logs = None\<rparr>"

definition demo_swap_env :: fetch_env where
  "demo_swap_env = \<lparr>fv_now = 0, fv_show = demo_name, fv_tx = \<lambda>_. Some demo_swap_tx, fv_data = \<lambda>_. None, fv_db_ok = True\<rparr>"

definition demo_swap_ix :: instruction where
  "demo_swap_ix = dlmm_swap2_ix demo_swap_infos 0 7 9 10 11 12 13 14 15 0"

lemma demo_accounts_nth: "i < 16 \<Longrightarrow> acc_key (demo_swap_infos ! i) = of_nat i"
  by (simp add: demo_swap_infos_def)

lemma demo_swap_built: "build_swap2 demo_swap_infos 0 7 9 10 11 12 13 14 15 0 = Ok demo_swap_ix"
  unfolding demo_swap_ix_def by (rule build_swap2_in_range) (simp_all add: demo_swap_infos_def)

lemma demo_swap_metas: "map meta_pubkey (ix_accounts demo_swap_ix) = map of_nat demo_slots"
  by (simp add: demo_swap_ix_def dlmm_swap2_ix_def slot_meta_def demo_slots_def demo_accounts_nth)

lemma demo_swap_compiled:
  "first_swap demo_name ''LBUZKhRxPF3XUpBCjp4YzTKgLccjZhTSDM9YuVaPwxo'' demo_swap_ix demo_swap_tx"
proof -
  let ?keys = "map (\<lambda>i. demo_name (of_nat i)) [0..<16]"
  have prog: "ix_program_id demo_swap_ix = 0"
    using demo_accounts_nth [of 0] by (simp add: demo_swap_ix_def dlmm_swap2_ix_def)
  have small: "i < 16 \<Longrightarrow> unat (of_nat i :: u64) = i" for i by (simp add: unat_of_nat)
  have key: "get_at ?keys (unat (of_nat i :: u64)) = Some (demo_name (of_nat i))" if "i < 16" for i
    using that by (simp add: get_at_def small del: upt_Suc)
  have range: "\<forall>i \<in> set demo_slots. i < 16" by (simp add: demo_slots_def)
  have "list_all2 (\<lambda>a k. get_at ?keys (unat a) = Some (demo_name k)) (map (of_nat :: nat \<Rightarrow> u64) demo_slots) (map of_nat demo_slots)"
    using range key by (auto simp: list_all2_conv_all_nth)
  then have "list_all2 (\<lambda>a m. get_at ?keys (unat a) = Some (demo_name (meta_pubkey m))) (map (of_nat :: nat \<Rightarrow> u64) demo_slots)
      (ix_accounts demo_swap_ix)"
    unfolding demo_swap_metas [symmetric] by (simp add: list.rel_map)
  then have "compiled demo_name ?keys demo_swap_ix (Some 0, Some (map Some (map of_nat demo_slots)))"
    using key [of 0] unfolding compiled_def prog
    by (intro exI [of _ 0] exI [of _ "map of_nat demo_slots"]) simp
  then show ?thesis
    unfolding first_swap_def prog demo_swap_tx_def
    by (intro conjI exI [of _ ?keys] exI [of _ "[]"] exI [of _ "(Some 0, Some (map Some (map of_nat demo_slots)))"])
      (simp_all add: demo_name_def comp_def)
qed

theorem own_dlmm_swap_misread_witness:
  "fst (run_fetch_task demo_swap_env (Fetch_lb_pair ''s'') no_pools) = [demo_name 15, demo_name 9] \<and>
   fst (fp_lb_pair (snd (run_fetch_task demo_swap_env (Fetch_lb_pair ''s'') no_pools))) =
     [demo_name 15 \<mapsto> demo_name 1, demo_name 9 \<mapsto> demo_name 1]"
proof -
  have env: "fv_tx demo_swap_env ''s'' = Some demo_swap_tx" "fv_show demo_swap_env = demo_name"
    by (simp_all add: demo_swap_env_def)
  have len: "length demo_swap_infos = 16" by (simp add: demo_swap_infos_def)
  show ?thesis
    using own_dlmm_swap_misread [OF demo_swap_built _ _ env(1) _ surjective_pairing, of no_pools]
      demo_swap_compiled demo_accounts_nth [of 15] demo_accounts_nth [of 9] demo_accounts_nth [of 1]
    by (simp add: env(2) len no_pools_def)
qed

end
