(* ===== verification/Bot_System.thy ===== *)
theory Bot_System
  imports Bot_Loop Bot_Prices Bot_Extraction
begin

text \<open>
  The tasks of the bot together (\<open>main.rs\<close>, \<open>listener/mod.rs\<close>): what \<open>main\<close> sets up and the steps of the
  listener, the background reads, the backscan, the discovery, the event loop and the confirmations,
  in any order, and restarts. The tasks share the whitelist, the risk tracker, the channels and the
  database. The pool caches and whatever the network answers come with each step, so every content
  is allowed for. A process ends when its main task panics; \<open>restart\<close> starts another one on the same
  database.
\<close>

section \<open>The listener's connection\<close>

definition SUBSCRIBED :: "string list" where
  "SUBSCRIBED =
    [''pAMMBay6oceH9fJKBRHGP5D4bD4sWpmSwMn52FMfXEA'', ''LBUZKhRxPF3XUpBCjp4YzTKgLccjZhTSDM9YuVaPwxo'',
     ''CPMMoo8L3F4NbTegBCKVNunggL7H1ZpdTHKxQB5qKP1C'', ''whirLbMiicVdio4qvUfM5KAg6Ct8VwpYzGff3uctyCc'']"

text \<open>The programs a connection listens to; \<open>None\<close> is an error.\<close>

definition connect_listener :: "bool \<Rightarrow> (string \<Rightarrow> bool) \<Rightarrow> string list option" where
  "connect_listener conn_ok subscribe =
     (if \<not> conn_ok then None
      else (let merged = filter subscribe SUBSCRIBED in if merged = [] then None else Some merged))"

text \<open>The loop over the events, which ends with the stream or when nobody receives.\<close>

fun listen_all :: "(listen_env \<times> log_event) list \<Rightarrow> feed \<Rightarrow> feed" where
  "listen_all [] f = f"
| "listen_all ((env, ev) # items) f =
     (let (go_on, f') = listen_event env ev f in if go_on then listen_all items f' else f')"

definition dual_listen_loop :: "bool \<Rightarrow> (string \<Rightarrow> bool) \<Rightarrow> (listen_env \<times> log_event) list \<Rightarrow> feed \<Rightarrow> feed" where
  "dual_listen_loop conn_ok subscribe items f =
     (case connect_listener conn_ok subscribe of
        None \<Rightarrow> f
      | Some programs \<Rightarrow>
          listen_all items ((feed_start (fd_events f) (fd_discovery f) (fd_metrics f))\<lparr>fd_tasks := fd_tasks f\<rparr>))"

text \<open>Seconds before the connection with the given number of earlier ones.\<close>

definition reconnect_delay :: "nat \<Rightarrow> nat" where
  "reconnect_delay retry = (if 0 < retry then 2 ^ min retry 5 else 0)"

section \<open>State\<close>

record system =
  sy_bot :: bot_state
  sy_feed :: feed
  sy_backscanned :: "string set"
  sy_pending :: "pending_tx list"
  sy_discovered :: nat
  sy_size_gauge :: nat
  sy_running :: bool

definition main_venues :: "venue list" where
  "main_venues = [PumpSwapAmm, MeteoraDlmm, RaydiumCpmm, OrcaWhirlpool]"

definition main_cu_cost :: "app_config \<Rightarrow> f64" where
  "main_cu_cost cfg =
     compute_cu_cost_sol (sc_compute_unit_price_micro_lamports (ac_scanner cfg)) (sc_compute_unit_limit (ac_scanner cfg))"

definition main_priority_fee :: "app_config \<Rightarrow> f64" where
  "main_priority_fee cfg = f_sub (main_cu_cost cfg) (to_f64 (5 / 1000000))"

definition main_scanner :: "app_config \<Rightarrow> scanner" where
  "main_scanner cfg = scanner_of_config cfg main_venues (main_cu_cost cfg)"

text \<open>The wallet: without one the bot only goes on in a dry run.\<close>

definition main_wallet :: "app_config \<Rightarrow> bool \<Rightarrow> bool option" where
  "main_wallet cfg keypair_ok = (if keypair_ok then Some True else if ac_dry_run cfg then Some False else None)"

definition main_start :: "app_config \<Rightarrow> int \<Rightarrow> whitelist_rows \<Rightarrow> trade_row list \<Rightarrow> system" where
  "main_start cfg today rows trades =
     (let wl = whitelist_load rows in
      \<lparr>sy_bot = \<lparr>bs_tracker = risk_new today, bs_wrap = (False, 0),
         bs_endpoints = rpc_pool_new (sl_rpc_url (ac_solana cfg)) (sl_fallback_rpc_urls (ac_solana cfg)),
         bs_whitelist = (wl, rows), bs_trades = trades, bs_queue = [], bs_last_jito = 0\<rparr>,
       sy_feed = feed_start [] [] \<lparr>fm_pumpfun = 0, fm_dlmm = 0, fm_cpmm = 0, fm_whirlpool = 0, fm_filtered = 0\<rparr>,
       sy_backscanned = {}, sy_pending = [], sy_discovered = 0, sy_size_gauge = whitelist_len wl,
       sy_running = True\<rparr>)"

section \<open>The steps\<close>

definition sys_wl :: "system \<Rightarrow> whitelist" where
  "sys_wl s = fst (bs_whitelist (sy_bot s))"

text \<open>One event reaches the listener.\<close>

definition listen_step :: "listen_env \<Rightarrow> log_event \<Rightarrow> system \<Rightarrow> system" where
  "listen_step env ev s =
     s\<lparr>sy_feed := snd (listen_event (env\<lparr>lv_whitelist := sys_wl s, lv_open := sy_running s\<rparr>) ev (sy_feed s))\<rparr>"

text \<open>The connection ends and a new one is opened.\<close>

definition reconnect_step :: "bool \<Rightarrow> (string \<Rightarrow> bool) \<Rightarrow> system \<Rightarrow> system" where
  "reconnect_step conn_ok subscribe s = s\<lparr>sy_feed := dual_listen_loop conn_ok subscribe [] (sy_feed s)\<rparr>"

text \<open>The i-th background read ends.\<close>

definition fetch_step :: "fetch_env \<Rightarrow> found_pools \<Rightarrow> nat \<Rightarrow> system \<Rightarrow> system" where
  "fetch_step env pools i s =
     (let f = sy_feed s in
      case get_at (fd_tasks f) i of
        None \<Rightarrow> s
      | Some task \<Rightarrow>
          s\<lparr>sy_feed := f\<lparr>fd_tasks := take i (fd_tasks f) @ drop (Suc i) (fd_tasks f),
              fd_discovery := fd_discovery f @ fst (run_fetch_task env task pools)\<rparr>\<rparr>)"

definition backscan_step :: "backscan_env \<Rightarrow> system \<Rightarrow> system" where
  "backscan_step env s =
     (let (mints, seen) = backscan_cycle env (sy_backscanned s); f = sy_feed s in
      s\<lparr>sy_backscanned := seen, sy_feed := f\<lparr>fd_discovery := fd_discovery f @ mints\<rparr>\<rparr>)"

text \<open>A batch: what arrived within five seconds, at most 64 candidates.\<close>

definition discover_step :: "presence_env \<Rightarrow> presence_caches \<Rightarrow> nat \<Rightarrow> system \<Rightarrow> system" where
  "discover_step env caches n s =
     (let f = sy_feed s; k = min n 64;
          (ds, caches') = discovery_batch (dv_db_ok (pe_dlmm env)) (verify_dual_presence env) (take k (fd_discovery f))
            (\<lparr>ds_whitelist = bs_whitelist (sy_bot s), ds_discovered = sy_discovered s,
              ds_size_gauge = sy_size_gauge s\<rparr>, caches) in
      s\<lparr>sy_feed := f\<lparr>fd_discovery := drop k (fd_discovery f)\<rparr>,
        sy_bot := (sy_bot s)\<lparr>bs_whitelist := ds_whitelist ds\<rparr>,
        sy_discovered := ds_discovered ds, sy_size_gauge := ds_size_gauge ds\<rparr>)"

text \<open>The event loop takes one event; \<open>answers k\<close> is for the k-th opportunity. The scan is not run for a
  blacklisted mint, and a panic in it ends the process.\<close>

definition event_step :: "app_config \<Rightarrow> bool \<Rightarrow> scan_env \<Rightarrow> u64 option \<Rightarrow> venue_caches \<Rightarrow> (nat \<Rightarrow> loop_env)
    \<Rightarrow> system \<Rightarrow> system" where
  "event_step cfg has_wallet env slot caches answers s =
     (case fd_events (sy_feed s) of
        [] \<Rightarrow> s
      | mint # rest \<Rightarrow>
          (let s1 = s\<lparr>sy_feed := (sy_feed s)\<lparr>fd_events := rest\<rparr>\<rparr> in
           if is_blacklisted (sys_wl s) mint then s1
           else
             (case fst (scan_by_mint env slot (main_scanner cfg) mint caches) of
                Ok opps \<Rightarrow>
                  s1\<lparr>sy_bot := snd (process_event cfg (main_cu_cost cfg) (main_priority_fee cfg) has_wallet (Some mint)
                       (map (\<lambda>k. (answers k, opps ! k)) [0..<length opps]) (sy_bot s))\<rparr>
              | _ \<Rightarrow> s1\<lparr>sy_running := False\<rparr>)))"

text \<open>A signature is its 64 bytes.\<close>

type_synonym signature = "byte list"

text \<open>A round of the confirmation task. The database takes the results in the order of the settlements.\<close>

definition confirm_step :: "app_config \<Rightarrow> (string \<Rightarrow> signature option) \<Rightarrow> (signature list \<Rightarrow> status option list option) \<Rightarrow> nat
    \<Rightarrow> (signature \<Rightarrow> f64 option) \<Rightarrow> bool \<Rightarrow> system \<Rightarrow> system client_result" where
  "confirm_step cfg parse_sig rpc now actual db_ok s =
     (let b = sy_bot s in
      and_then (confirm_tick parse_sig rpc now actual (ac_risk cfg) (sy_pending s) (bs_queue b) (bs_tracker b))
        (\<lambda>(done, pending, tracker).
      Ok (s\<lparr>sy_pending := pending,
            sy_bot := b\<lparr>bs_queue := [], bs_tracker := tracker,
              bs_trades := fold (\<lambda>x. trade_update_confirmed db_ok (st_signature x) (st_pnl x) (st_succeeded x)) done
                (bs_trades b)\<rparr>\<rparr>)))"

definition restart_step :: "app_config \<Rightarrow> int \<Rightarrow> system \<Rightarrow> system" where
  "restart_step cfg today s = main_start cfg today (snd (bs_whitelist (sy_bot s))) (bs_trades (sy_bot s))"

text \<open>A confirmation round fails only if the cluster answers more statuses than it was asked for; what
  happens after that is left out.\<close>

inductive system_step :: "app_config \<Rightarrow> bool \<Rightarrow> system \<Rightarrow> system \<Rightarrow> bool" for cfg w where
  listened: "(\<And>xs. set (lv_walk env xs) = set xs) \<Longrightarrow> system_step cfg w s (listen_step env ev s)"
| reconnected: "system_step cfg w s (reconnect_step conn_ok subscribe s)"
| fetched: "system_step cfg w s (fetch_step env pools i s)"
| backscanned: "system_step cfg w s (backscan_step env s)"
| discovered: "sy_running s \<Longrightarrow> system_step cfg w s (discover_step env caches n s)"
| handled: "sy_running s \<Longrightarrow> system_step cfg w s (event_step cfg w env slot caches answers s)"
| confirmed: "confirm_step cfg parse_sig rpc now actual ok s = Ok s' \<Longrightarrow> system_step cfg w s s'"
| restarted: "system_step cfg w s (restart_step cfg today s)"

end
