(* ===== verification/Bot_System_Properties.thy ===== *)
theory Bot_System_Properties
  imports Bot_System
begin

text \<open>
  What holds in every state the tasks can reach together, whatever the network, the logs and the
  database answer and in whatever order they run: the whitelist and its table, the events that
  wait, and the trades the bot has written.
\<close>

section \<open>The whitelist and its table\<close>

definition whitelist_inv :: "string set \<Rightarrow> whitelist \<times> whitelist_rows \<Rightarrow> bool" where
  "whitelist_inv bl s \<longleftrightarrow>
     whitelist_ok (fst s) \<and> wl_blacklisted (fst s) = bl \<and> rows_ok (snd s) \<and> {m. (m, ''blacklisted'') \<in> set (snd s)} = bl"

lemma upsert_blacklist:
  assumes "(m, ''blacklisted'') \<notin> set rows" and "c \<noteq> ''blacklisted''"
  shows "(x, ''blacklisted'') \<in> set (whitelist_upsert ok m c rows) \<longleftrightarrow> (x, ''blacklisted'') \<in> set rows"
  using assms by (cases "x = m"; cases ok) (auto simp: whitelist_upsert_def upsert_row_def)

lemma whitelist_inv_step:
  assumes "whitelist_inv bl s"
  shows "whitelist_inv bl (snd (verify_and_add ok m s))" "whitelist_inv bl (mark_profitable ok m s)"
proof -
  obtain wl db where s: "s = (wl, db)" by (cases s)
  note inv = assms [unfolded whitelist_inv_def s fst_conv snd_conv]
  have rows: "(x, ''blacklisted'') \<in> set (whitelist_upsert ok m c db) \<longleftrightarrow> (x, ''blacklisted'') \<in> set db"
    if "m \<notin> wl_blacklisted wl" "c \<noteq> ''blacklisted''" for x c
    using that inv by (intro upsert_blacklist) auto
  have disj: "m \<notin> wl_blacklisted wl" if "m \<in> wl_verified wl" using that inv by (auto simp: whitelist_ok_def)
  show "whitelist_inv bl (snd (verify_and_add ok m s))"
    using inv by (auto simp: s whitelist_inv_def verify_and_add_def whitelist_ok_def rows_ok_upsert rows)
  show "whitelist_inv bl (mark_profitable ok m s)"
    using inv disj by (auto simp: s whitelist_inv_def mark_profitable_def whitelist_ok_def rows_ok_upsert rows)
qed

lemma whitelist_all_grows:
  "wl_all (fst s) \<subseteq> wl_all (fst (snd (verify_and_add ok m s)))" "wl_all (fst (mark_profitable ok m s)) = wl_all (fst s)"
  by (auto simp: verify_and_add_def mark_profitable_def split: prod.splits)

lemma whitelist_inv_load:
  "rows_ok rows \<Longrightarrow> whitelist_inv {m. (m, ''blacklisted'') \<in> set rows} (whitelist_load rows, rows)"
  by (simp add: whitelist_inv_def whitelist_load_ok whitelist_load_sets)

lemma discovery_whitelist:
  assumes "whitelist_inv bl (ds_whitelist ds)"
  shows "whitelist_inv bl (ds_whitelist (fst (discovery_batch ok verify buf (ds, c)))) \<and>
    wl_all (fst (ds_whitelist ds)) \<subseteq> wl_all (fst (ds_whitelist (fst (discovery_batch ok verify buf (ds, c)))))"
proof -
  have one: "whitelist_inv bl (ds_whitelist (fst (discover_mint ok verify m (ds, c)))) \<and>
      wl_all (fst (ds_whitelist ds)) \<subseteq> wl_all (fst (ds_whitelist (fst (discover_mint ok verify m (ds, c)))))"
    if "whitelist_inv bl (ds_whitelist ds)" for m ds c
    using whitelist_inv_step(1) [OF that, of ok m] whitelist_all_grows(1) [of "ds_whitelist ds" ok m] that
    by (auto simp: discover_mint_def Let_def split: prod.splits)
  have "whitelist_inv bl (ds_whitelist (fst (fold (discover_mint ok verify) ms (ds, c)))) \<and>
      wl_all (fst (ds_whitelist ds)) \<subseteq> wl_all (fst (ds_whitelist (fst (fold (discover_mint ok verify) ms (ds, c)))))"
    for ms using assms
  proof (induction ms arbitrary: ds c)
    case (Cons m ms)
    obtain ds1 c1 where s: "discover_mint ok verify m (ds, c) = (ds1, c1)" by fastforce
    show ?case using one [OF Cons.prems, of m c] Cons.IH [of ds1 c1] by (auto simp: s)
  qed simp
  then show ?thesis by (simp add: discovery_batch_def)
qed

section \<open>The trades\<close>

text \<open>A row the bot may write: of a mint that is not blacklisted, on two different venues, with an
  investment within the limits and an estimate that reaches the threshold.\<close>

definition sound_row :: "app_config \<Rightarrow> string set \<Rightarrow> trade_row \<Rightarrow> bool" where
  "sound_row cfg bl t \<longleftrightarrow> tr_token_mint t \<notin> bl \<and>
     (\<exists>buy sell. buy \<noteq> sell \<and> {buy, sell} \<subseteq> set main_venues \<and>
        tr_buy_venue t = venue_name buy \<and> tr_sell_venue t = venue_name sell) \<and>
     f_le MIN_INVEST (tr_investment_sol t) \<and> f_le (tr_investment_sol t) (rc_max_single_investment_sol (ac_risk cfg)) \<and>
     f_le (rc_min_profit_threshold_sol (ac_risk cfg)) (tr_estimated_profit_sol t)"

definition trades_inv :: "app_config \<Rightarrow> bool \<Rightarrow> string set \<Rightarrow> string set \<Rightarrow> trade_row list \<Rightarrow> bool" where
  "trades_inv cfg w bl sigs rows \<longleftrightarrow>
     (\<forall>t \<in> set rows. tr_signature t \<in> sigs \<or> sound_row cfg bl t \<and> \<not> ac_dry_run cfg \<and> w)"

lemma trades_inv_confirmed:
  "trades_inv cfg w bl sigs rows \<Longrightarrow> trades_inv cfg w bl sigs (trade_update_confirmed ok sig pnl succeeded rows)"
  by (auto simp: trades_inv_def trade_update_confirmed_def sound_row_def)

lemma trades_inv_settled:
  "trades_inv cfg w bl sigs rows \<Longrightarrow>
    trades_inv cfg w bl sigs (fold (\<lambda>x. trade_update_confirmed ok (st_signature x) (st_pnl x) (st_succeeded x)) done rows)"
  by (induction "done" arbitrary: rows) (auto intro: trades_inv_confirmed)

lemma scan_row:
  assumes "fst (scan_by_mint env slot (main_scanner cfg) mint c) = Ok opps" and "opp \<in> set opps"
    and "numeric_limits (main_scanner cfg)" and "mint \<notin> bl"
    and "\<not> f_lt (op_net_profit_sol opp) (rc_min_profit_threshold_sol (ac_risk cfg))"
  shows "sound_row cfg bl ((trade_of opp sig)\<lparr>tr_actual_profit_sol := None, tr_succeeded := None\<rparr>)"
proof -
  obtain vps where b: "build_opps_from_prices (main_scanner cfg) (scan_fetch_bins env)
      (0 < gc_latest_slot (dv_geyser (se_dlmm env))) mint ''scanner'' (snapshot_slot (dv_geyser (se_dlmm env)) slot) vps = Ok opps"
    using assms(1) by (auto simp: scan_by_mint_def scan_inner_def case_prod_beta)
  have s: "sound_opportunity (main_scanner cfg) vps opp" and n: "op_net_profit_sol opp \<noteq> NaN"
    using build_opps_sound [OF b assms(2,3)] by blast+
  have "f_le (rc_min_profit_threshold_sol (ac_risk cfg)) (op_net_profit_sol opp)"
    using f_le_total [OF n _ assms(5)] assms(3) by (auto simp: numeric_limits_def main_scanner_def scanner_of_config_def)
  with s build_opps_sound(3) [OF b assms(2,3)] assms(4) show ?thesis
    by (auto simp: sound_row_def trade_of_def sound_opportunity_def main_scanner_def scanner_of_config_def)
qed

text \<open>One opportunity, then all of an event.\<close>

lemma process_rows:
  assumes "process_opportunity cfg cu fee w env mint opp st = (v, st')"
    and inv: "whitelist_inv bl (bs_whitelist st)" "trades_inv cfg w bl sigs (bs_trades st)"
    and row: "\<And>sig. \<not> f_lt (op_net_profit_sol opp) (rc_min_profit_threshold_sol (ac_risk cfg)) \<Longrightarrow>
      sound_row cfg bl ((trade_of opp sig)\<lparr>tr_actual_profit_sol := None, tr_succeeded := None\<rparr>)"
  shows "whitelist_inv bl (bs_whitelist st') \<and> trades_inv cfg w bl sigs (bs_trades st') \<and>
    wl_all (fst (bs_whitelist st')) = wl_all (fst (bs_whitelist st))"
proof (cases "\<exists>sig. v = Submitted_as sig")
  case True
  then obtain sig where p: "process_opportunity cfg cu fee w env mint opp st = (Submitted_as sig, st')" using assms(1) by blast
  have t: "\<not> f_lt (op_net_profit_sol opp) (rc_min_profit_threshold_sol (ac_risk cfg))"
    using p by (auto simp: process_opportunity_def split: if_splits)
  obtain tracker1 wrap1 where g: "\<not> ac_dry_run cfg" "w"
    and sub: "submit_opportunity cfg fee env mint opp (st\<lparr>bs_tracker := tracker1, bs_wrap := wrap1\<rparr>) = (Submitted_as sig, st')"
    using p by (rule process_Submitted) blast
  from sub obtain slot last_jito where
    "st' = after_submit env mint opp fee slot sig (st\<lparr>bs_tracker := tracker1, bs_wrap := wrap1, bs_last_jito := last_jito\<rparr>)"
    by (rule submit_Submitted) simp
  then have st': "bs_whitelist st' = mark_profitable (le_db_ok env) mint (bs_whitelist st)"
    "bs_trades st' = trade_insert_submitted (le_db_ok env) (trade_of opp sig) (bs_trades st)"
    by (simp_all add: after_submit_def)
  have "trades_inv cfg w bl sigs (bs_trades st')"
    using inv(2) row [OF t, of sig] g by (auto simp: st' trades_inv_def trade_insert_submitted_def)
  then show ?thesis using whitelist_inv_step(2) [OF inv(1)] by (simp add: st' whitelist_all_grows(2))
next
  case False
  then show ?thesis using process_not_Submitted [OF assms(1)] inv by simp
qed

lemma process_opps_rows:
  assumes "whitelist_inv bl (bs_whitelist st)" "trades_inv cfg w bl sigs (bs_trades st)"
    and "\<And>env opp sig. (env, opp) \<in> set scanned \<Longrightarrow>
      \<not> f_lt (op_net_profit_sol opp) (rc_min_profit_threshold_sol (ac_risk cfg)) \<Longrightarrow>
      sound_row cfg bl ((trade_of opp sig)\<lparr>tr_actual_profit_sol := None, tr_succeeded := None\<rparr>)"
    and "st' = snd (process_opps cfg cu fee w mint scanned st)"
  shows "whitelist_inv bl (bs_whitelist st') \<and> trades_inv cfg w bl sigs (bs_trades st') \<and>
    wl_all (fst (bs_whitelist st')) = wl_all (fst (bs_whitelist st))"
  using assms(1-3) unfolding assms(4)
proof (induction scanned arbitrary: st)
  case (Cons x scanned)
  obtain env opp where x: "x = (env, opp)" by (cases x)
  obtain v s2 where p: "process_opportunity cfg cu fee w env mint opp st = (v, s2)" by force
  have "whitelist_inv bl (bs_whitelist s2) \<and> trades_inv cfg w bl sigs (bs_trades s2) \<and>
      wl_all (fst (bs_whitelist s2)) = wl_all (fst (bs_whitelist st))"
    by (rule process_rows [OF p Cons.prems(1,2)]) (use Cons.prems(3) [of env opp] x in simp)
  moreover have "whitelist_inv bl (bs_whitelist s') \<and> trades_inv cfg w bl sigs (bs_trades s') \<and>
      wl_all (fst (bs_whitelist s')) = wl_all (fst (bs_whitelist s2))"
    if "s' = snd (process_opps cfg cu fee w mint scanned s2)" "whitelist_inv bl (bs_whitelist s2)"
      "trades_inv cfg w bl sigs (bs_trades s2)" for s'
    unfolding that(1) by (rule Cons.IH [OF that(2,3)]) (use Cons.prems(3) in auto)
  ultimately show ?case by (simp add: x p case_prod_beta)
qed simp

section \<open>Every reachable state\<close>

definition system_inv :: "app_config \<Rightarrow> bool \<Rightarrow> string set \<Rightarrow> string set \<Rightarrow> system \<Rightarrow> bool" where
  "system_inv cfg w bl sigs s \<longleftrightarrow>
     whitelist_inv bl (bs_whitelist (sy_bot s)) \<and> set (fd_events (sy_feed s)) \<subseteq> wl_all (sys_wl s) \<and>
     length (fd_events (sy_feed s)) \<le> EVENT_CAPACITY \<and> trades_inv cfg w bl sigs (bs_trades (sy_bot s))"

lemma listen_event_events:
  assumes "\<And>xs. set (lv_walk env xs) = set xs"
  shows "set (fd_events (snd (listen_event env ev f))) \<subseteq> set (fd_events f) \<union> wl_all (lv_whitelist env)"
    and "length (fd_events f) \<le> EVENT_CAPACITY \<Longrightarrow> length (fd_events (snd (listen_event env ev f))) \<le> EVENT_CAPACITY"
  by (auto simp: listen_event_def Let_def find_Some_iff whitelist_contains_def split: option.splits if_splits)

lemmas system_step_defs = system_inv_def sys_wl_def reconnect_step_def fetch_step_def backscan_step_def
  discover_step_def confirm_step_def dual_listen_loop_def feed_start_def

lemma main_start_inv:
  assumes "rows_ok rows" and "trades_inv cfg w {m. (m, ''blacklisted'') \<in> set rows} sigs trades"
  shows "system_inv cfg w {m. (m, ''blacklisted'') \<in> set rows} sigs (main_start cfg today rows trades)"
  using assms whitelist_inv_load [OF assms(1)]
  by (simp add: system_inv_def main_start_def feed_start_def sys_wl_def Let_def)

lemma event_step_inv:
  assumes "system_inv cfg w bl sigs s" and "numeric_limits (main_scanner cfg)"
  shows "system_inv cfg w bl sigs (event_step cfg w env slot caches answers s)"
proof (cases "fd_events (sy_feed s)")
  case Nil
  then show ?thesis using assms(1) by (simp add: event_step_def)
next
  case (Cons mint rest)
  let ?s1 = "s\<lparr>sy_feed := (sy_feed s)\<lparr>fd_events := rest\<rparr>\<rparr>"
  have s1: "system_inv cfg w bl sigs ?s1" and b: "wl_blacklisted (sys_wl s) = bl"
    using assms(1) Cons by (auto simp: system_inv_def sys_wl_def whitelist_inv_def)
  show ?thesis
  proof (cases "is_blacklisted (sys_wl s) mint")
    case True
    then show ?thesis using s1 Cons by (simp add: event_step_def)
  next
    case fresh: False
    show ?thesis
    proof (cases "fst (scan_by_mint env slot (main_scanner cfg) mint caches)")
      case (Ok opps)
      let ?scanned = "map (\<lambda>k. (answers k, opps ! k)) [0..<length opps]"
      let ?st = "(sy_bot s)\<lparr>bs_endpoints := snd (rpc_current (bs_endpoints (sy_bot s)))\<rparr>"
      let ?st' = "snd (process_opps cfg (main_cu_cost cfg) (main_priority_fee cfg) w mint ?scanned ?st)"
      have "whitelist_inv bl (bs_whitelist ?st') \<and> trades_inv cfg w bl sigs (bs_trades ?st') \<and>
          wl_all (fst (bs_whitelist ?st')) = wl_all (fst (bs_whitelist ?st))"
      proof (rule process_opps_rows [OF _ _ _ refl])
        show "whitelist_inv bl (bs_whitelist ?st)" "trades_inv cfg w bl sigs (bs_trades ?st)"
          using assms(1) by (simp_all add: system_inv_def)
        show "sound_row cfg bl ((trade_of opp sig)\<lparr>tr_actual_profit_sol := None, tr_succeeded := None\<rparr>)"
          if "(env, opp) \<in> set ?scanned" "\<not> f_lt (op_net_profit_sol opp) (rc_min_profit_threshold_sol (ac_risk cfg))"
          for env opp sig
          by (rule scan_row [OF Ok _ assms(2) _ that(2)]) (use that(1) fresh b in \<open>auto simp: is_blacklisted_def\<close>)
      qed
      moreover have "event_step cfg w env slot caches answers s = ?s1\<lparr>sy_bot := ?st'\<rparr>"
        using fresh Cons Ok by (simp add: event_step_def process_event_def sys_wl_def)
      ultimately show ?thesis using s1 by (simp add: system_inv_def sys_wl_def)
    qed (use s1 fresh Cons in \<open>simp_all add: event_step_def system_inv_def sys_wl_def\<close>)
  qed
qed

lemma system_step_inv:
  assumes "system_step cfg w s s'" and "system_inv cfg w bl sigs s" and "numeric_limits (main_scanner cfg)"
  shows "system_inv cfg w bl sigs s'"
  using assms(1)
proof cases
  case (listened env ev)
  then show ?thesis
    using assms(2) listen_event_events [where env = "env\<lparr>lv_whitelist := sys_wl s, lv_open := sy_running s\<rparr>"
        and ev = ev and f = "sy_feed s"]
    by (auto simp: system_inv_def listen_step_def sys_wl_def)
next
  case (discovered env caches n)
  have "whitelist_inv bl (ds_whitelist \<lparr>ds_whitelist = bs_whitelist (sy_bot s), ds_discovered = sy_discovered s,
      ds_size_gauge = sy_size_gauge s\<rparr>)" using assms(2) by (simp add: system_inv_def)
  from discovery_whitelist [OF this, of "dv_db_ok (pe_dlmm env)" "verify_dual_presence env"
      "take (min n 64) (fd_discovery (sy_feed s))" caches]
  show ?thesis using discovered assms(2) by (simp add: system_step_defs case_prod_beta Let_def) blast
next
  case restarted
  have "whitelist_inv bl (bs_whitelist (sy_bot s))" "trades_inv cfg w bl sigs (bs_trades (sy_bot s))"
    using assms(2) by (auto simp: system_inv_def)
  then show ?thesis
    unfolding restarted restart_step_def using main_start_inv [of "snd (bs_whitelist (sy_bot s))" cfg w sigs]
    by (auto simp: whitelist_inv_def)
next
  case handled
  then show ?thesis using event_step_inv [OF assms(2,3)] by simp
qed (use assms in \<open>auto simp: system_step_defs case_prod_beta Let_def and_then_Ok_iff trades_inv_settled
    split: option.splits\<close>)

text \<open>While the events are received, a connection's loop is the sequence of its single steps.\<close>

lemma listen_all_steps:
  "\<forall>(env, ev) \<in> set items. lv_open env \<Longrightarrow> listen_all items f = fold (\<lambda>(env, ev). snd \<circ> listen_event env ev) items f"
proof (induction items arbitrary: f)
  case (Cons x items)
  obtain env ev where x: "x = (env, ev)" by (cases x)
  have "fst (listen_event env ev f)"
    using Cons.prems by (auto simp: x listen_event_def Let_def split: option.splits)
  then show ?case using Cons by (simp add: x case_prod_beta)
qed simp

lemma reconnect_delay_le: "reconnect_delay retry \<le> 32"
  using power_increasing [of "min retry 5" 5 "2 :: nat"] by (simp add: reconnect_delay_def)

text \<open>C4: In every state the tasks reach, over any number of restarts and whatever fails: the blacklist
  is the one of the table at the start, in memory and in the table, and no mint is on both lists; every
  waiting event is of a whitelisted mint and they are at most 4096; and every trade written since is of a
  mint that is not blacklisted, on two different venues, with an investment within the limits and an
  estimate that reaches the threshold. In a dry run or without a wallet no trade is written at all.\<close>

theorem system_safe:
  assumes "(system_step cfg w)\<^sup>*\<^sup>* (main_start cfg today rows trades) s"
    and "rows_ok rows" and "numeric_limits (main_scanner cfg)" and "bl = {m. (m, ''blacklisted'') \<in> set rows}"
  shows "wl_blacklisted (sys_wl s) = bl \<and> {m. (m, ''blacklisted'') \<in> set (snd (bs_whitelist (sy_bot s)))} = bl \<and>
    wl_all (sys_wl s) \<inter> bl = {} \<and>
    set (fd_events (sy_feed s)) \<subseteq> wl_all (sys_wl s) \<and> length (fd_events (sy_feed s)) \<le> EVENT_CAPACITY \<and>
    (\<forall>t \<in> set (bs_trades (sy_bot s)). tr_signature t \<in> tr_signature ` set trades \<or>
       sound_row cfg bl t \<and> \<not> ac_dry_run cfg \<and> w)"
proof -
  have "system_inv cfg w bl (tr_signature ` set trades) s"
    using assms(1)
  proof (induction rule: rtranclp_induct)
    case base
    show ?case unfolding assms(4) by (rule main_start_inv [OF assms(2)]) (simp add: trades_inv_def)
  next
    case (step s1 s2)
    then show ?case using system_step_inv assms(3) by blast
  qed
  then show ?thesis by (auto simp: system_inv_def whitelist_inv_def trades_inv_def whitelist_ok_def sys_wl_def)
qed

definition sys_cfg :: app_config where
  "sys_cfg = demo_cfg\<lparr>ac_scanner := scanner_config_default
     \<lparr>sc_compute_unit_price_micro_lamports := 0, sc_profit_safety_factor := Fin 1\<rparr>\<rparr>"

definition sys_rows :: whitelist_rows where
  "sys_rows = [(leak_mint, ''verified''), (''bad'', ''blacklisted'')]"

text \<open>A trade of a whitelisted mint is heard.\<close>

definition sys_heard :: system where
  "sys_heard = listen_step leak_env (leak_event ''s'') (main_start sys_cfg 0 sys_rows [])"

lemma sys_limits: "numeric_limits (main_scanner sys_cfg)"
proof -
  have z: "to_f64 0 = Fin 0" using to_f64_rep [of 0] by simp
  have c: "to_f64 (1 / 200000) = Fin (rnd (1 / 200000))" by (rule to_f64_bounded) simp
  have "0 \<le> rnd (1 / 200000)" "rnd (1 / 200000) \<le> 1"
    using representable_of_int [of 1] by (auto intro: rnd_nonneg rnd_le)
  then have "\<bar>rnd (1 / 200000)\<bar> \<le> 2 ^ 1000" by (simp add: order_trans)
  then have "to_f64 (rnd (1 / 200000)) = Fin (rnd (1 / 200000))" by (rule to_f64_rep [OF representable_rnd])
  then have "main_cu_cost sys_cfg = Fin (rnd (1 / 200000))"
    by (simp add: main_cu_cost_def sys_cfg_def compute_cu_cost_sol_def f64_of_u64_def f64_of_nat_def to_f64_numeral z c
        scanner_config_default_def)
  then show ?thesis
    using representable_of_int [of 50]
    by (simp add: numeric_limits_def main_scanner_def scanner_of_config_def sys_cfg_def demo_cfg_def demo_risk_def)
qed

theorem system_safe_witness:
  "wl_blacklisted (sys_wl sys_heard) = {''bad''} \<and> fd_events (sy_feed sys_heard) = [leak_mint] \<and>
    leak_mint \<in> wl_all (sys_wl sys_heard)"
proof -
  have reach: "(system_step sys_cfg True)\<^sup>*\<^sup>* (main_start sys_cfg 0 sys_rows []) sys_heard"
    unfolding sys_heard_def by (intro r_into_rtranclp system_step.listened) (simp add: leak_env_def)
  have "rows_ok sys_rows" by (simp add: rows_ok_def sys_rows_def leak_mint_def numeral_eq_Suc)
  moreover have "{''bad''} = {m. (m, ''blacklisted'') \<in> set sys_rows}" by (auto simp: sys_rows_def)
  moreover have "fd_events (sy_feed sys_heard) = [leak_mint]"
  proof -
    have "\<not> ev_failed (leak_event ''s'')" "lv_walk leak_env = id" by (simp_all add: leak_event_def leak_env_def)
    moreover have "whitelist_contains (whitelist_load sys_rows) leak_mint"
      by (simp add: whitelist_contains_def whitelist_load_def whitelist_load_all_def sys_rows_def Let_def)
    ultimately show ?thesis
      by (simp add: sys_heard_def listen_step_def listen_event_def leak_reads main_start_def sys_wl_def feed_start_def
          EVENT_CAPACITY_def Let_def)
  qed
  ultimately show ?thesis using system_safe [OF reach _ sys_limits, of "{''bad''}"] by simp
qed

end
