(* ===== verification/Bot_Start.thy ===== *)
theory Bot_Start
  imports Bot_Loop Bot_Prices
begin

text \<open>
  The start of the bot and its side tasks: the numbers it parses, the configuration with its
  environment (\<open>config/mod.rs\<close>), the wallet and the first funding (\<open>main.rs\<close>), the price sources
  (\<open>price.rs\<close>), the tick of the active scan (\<open>main_loop.rs\<close>) and the sender's second lookup table cache and
  its answer (\<open>executor/sender.rs\<close>). The files of the environment and the table files are parameters,
  as is the deserialization of the tables; a JSON answer is a value of the type below.
\<close>

section \<open>Numbers in texts\<close>

text \<open>\<open>str::parse\<close> for \<open>bool\<close>, the unsigned integers and \<open>f64\<close>.\<close>

definition parse_bool :: "string \<Rightarrow> bool option" where
  "parse_bool s = (if s = ''true'' then Some True else if s = ''false'' then Some False else None)"

definition is_digit :: "char \<Rightarrow> bool" where
  "is_digit c \<longleftrightarrow> 48 \<le> (of_char c :: nat) \<and> (of_char c :: nat) \<le> 57"

definition digits_value :: "string \<Rightarrow> nat" where
  "digits_value s = fold (\<lambda>c n. 10 * n + (of_char c - 48)) s 0"

definition parse_unsigned :: "nat \<Rightarrow> string \<Rightarrow> nat option" where
  "parse_unsigned limit s =
     (let ds = (case s of c # cs \<Rightarrow> if c = CHR ''+'' then cs else s | [] \<Rightarrow> []) in
      if ds = [] \<or> \<not> list_all is_digit ds then None
      else if digits_value ds < limit then Some (digits_value ds) else None)"

definition parse_u64 :: "string \<Rightarrow> u64 option" where
  "parse_u64 s = map_option of_nat (parse_unsigned (2 ^ 64) s)"

definition parse_u32 :: "string \<Rightarrow> u32 option" where
  "parse_u32 s = map_option of_nat (parse_unsigned (2 ^ 32) s)"

definition lower :: "char \<Rightarrow> char" where
  "lower c = (let n = of_char c :: nat in if 65 \<le> n \<and> n \<le> 90 then char_of (n + 32) else c)"

definition take_sign :: "string \<Rightarrow> bool \<times> string" where
  "take_sign s =
     (case s of
        [] \<Rightarrow> (False, [])
      | c # cs \<Rightarrow> if c = CHR ''-'' then (True, cs) else if c = CHR ''+'' then (False, cs) else (False, s))"

text \<open>The exponent part: absent, or a letter, a sign and at least one digit, up to the end.\<close>

definition parse_exponent :: "string \<Rightarrow> int option" where
  "parse_exponent s =
     (case s of
        [] \<Rightarrow> Some 0
      | c # cs \<Rightarrow>
          if lower c \<noteq> CHR ''e'' then None
          else
            (let (negative, ds) = take_sign cs in
             if ds = [] \<or> \<not> list_all is_digit ds then None
             else Some (if negative then - int (digits_value ds) else int (digits_value ds))))"

definition parse_decimal :: "string \<Rightarrow> rat option" where
  "parse_decimal s =
     (let whole = takeWhile is_digit s; rest = dropWhile is_digit s;
          (frac, tail) =
            (case rest of
               c # cs \<Rightarrow> if c = CHR ''.'' then (takeWhile is_digit cs, dropWhile is_digit cs) else ([], rest)
             | [] \<Rightarrow> ([], [])) in
      if whole = [] \<and> frac = [] then None
      else map_option (\<lambda>e. of_nat (digits_value (whole @ frac)) * 10 powi (e - int (length frac))) (parse_exponent tail))"

definition parse_f64 :: "string \<Rightarrow> f64 option" where
  "parse_f64 s =
     (let (negative, body) = take_sign s; word = map lower body in
      if word = ''nan'' then Some NaN
      else if word = ''inf'' \<or> word = ''infinity'' then Some (Inf (\<not> negative))
      else map_option (\<lambda>q. to_f64 (if negative then - q else q)) (parse_decimal body))"

section \<open>The environment\<close>

type_synonym env = "string \<rightharpoonup> string"

text \<open>\<open>dotenvy\<close>: the assignments of a file, \<open>None\<close> when it cannot be read. A variable that is set stays.\<close>

type_synonym env_files = "string \<Rightarrow> (string \<times> string) list option"

definition set_missing :: "string \<times> string \<Rightarrow> env \<Rightarrow> env" where
  "set_missing kv env = (case env (fst kv) of None \<Rightarrow> env(fst kv \<mapsto> snd kv) | Some _ \<Rightarrow> env)"

definition load_env_file :: "env_files \<Rightarrow> string \<Rightarrow> env \<Rightarrow> env" where
  "load_env_file files name env = (case files name of None \<Rightarrow> env | Some kvs \<Rightarrow> fold set_missing kvs env)"

definition app_env :: "env \<Rightarrow> string option" where
  "app_env env = (case env ''APP_ENV'' of Some e \<Rightarrow> if e = [] then None else Some e | None \<Rightarrow> None)"

definition load_env :: "env_files \<Rightarrow> env \<Rightarrow> env" where
  "load_env files env =
     (let env1 = (case app_env env of Some e \<Rightarrow> load_env_file files (''.env.'' @ e) env | None \<Rightarrow> env) in
      load_env_file files ''.env.local'' (load_env_file files ''.env'' env1))"

text \<open>The table files in the order they are merged, the later ones winning.\<close>

definition config_sources :: "env \<Rightarrow> string list" where
  "config_sources env =
     ''config.toml'' # (case app_env env of Some e \<Rightarrow> [''config-'' @ e @ ''.toml''] | None \<Rightarrow> [])"

definition apply_env_str :: "env \<Rightarrow> string \<Rightarrow> (string \<Rightarrow> 'c \<Rightarrow> 'c) \<Rightarrow> 'c \<Rightarrow> 'c" where
  "apply_env_str env var path cfg = (case env var of Some v \<Rightarrow> path v cfg | None \<Rightarrow> cfg)"

definition apply_env_parsed :: "env \<Rightarrow> (string \<Rightarrow> 'a option) \<Rightarrow> string \<Rightarrow> ('a \<Rightarrow> 'c \<Rightarrow> 'c) \<Rightarrow> 'c \<Rightarrow> 'c" where
  "apply_env_parsed env parse var path cfg =
     (case env var of
        Some v \<Rightarrow> (case parse v of Some n \<Rightarrow> path n cfg | None \<Rightarrow> cfg)
      | None \<Rightarrow> cfg)"

definition override_solana :: "env \<Rightarrow> solana_config \<Rightarrow> solana_config" where
  "override_solana env c =
     apply_env_parsed env parse_u64 ''SOLANA_RPC_TIMEOUT_SECS'' (\<lambda>n c. c\<lparr>sl_rpc_timeout_secs := n\<rparr>)
      (apply_env_str env ''SOLANA_COMMITMENT'' (\<lambda>v c. c\<lparr>sl_commitment := v\<rparr>)
        (apply_env_str env ''SOLANA_WS_URL'' (\<lambda>v c. c\<lparr>sl_ws_url := v\<rparr>)
          (apply_env_str env ''SOLANA_RPC_URL'' (\<lambda>v c. c\<lparr>sl_rpc_url := v\<rparr>) c)))"

definition override_bot :: "env \<Rightarrow> bot_config \<Rightarrow> bot_config" where
  "override_bot env c =
     apply_env_parsed env parse_bool ''BOT_DRY_RUN'' (\<lambda>b c. c\<lparr>bt_dry_run := b\<rparr>)
      (apply_env_str env ''BOT_MODE'' (\<lambda>v c. c\<lparr>bt_mode := v\<rparr>) c)"

definition override_risk :: "env \<Rightarrow> risk_config \<Rightarrow> risk_config" where
  "override_risk env c =
     apply_env_parsed env parse_f64 ''RISK_MAX_TIP_SOL'' (\<lambda>x c. c\<lparr>rc_max_tip_sol := x\<rparr>)
      (apply_env_parsed env parse_u32 ''RISK_SLIPPAGE_TOLERANCE_BPS'' (\<lambda>n c. c\<lparr>rc_slippage_tolerance_bps := n\<rparr>)
        (apply_env_parsed env parse_f64 ''RISK_MAX_DAILY_LOSS_SOL'' (\<lambda>x c. c\<lparr>rc_max_daily_loss_sol := x\<rparr>)
          (apply_env_parsed env parse_f64 ''RISK_MAX_SINGLE_INVESTMENT_SOL''
             (\<lambda>x c. c\<lparr>rc_max_single_investment_sol := x\<rparr>)
            (apply_env_parsed env parse_f64 ''RISK_MIN_PROFIT_THRESHOLD_SOL''
               (\<lambda>x c. c\<lparr>rc_min_profit_threshold_sol := x\<rparr>) c))))"

text \<open>\<open>tables\<close> merges and deserializes the table files.\<close>

definition load_config :: "env_files \<Rightarrow> (string list \<Rightarrow> app_config client_result) \<Rightarrow> env
    \<Rightarrow> app_config client_result \<times> env" where
  "load_config files tables env =
     (let env1 = load_env files env in
      (and_then (tables (config_sources env1)) (\<lambda>cfg.
       let cfg1 = cfg\<lparr>ac_solana := override_solana env1 (ac_solana cfg), ac_bot := override_bot env1 (ac_bot cfg),
             ac_risk := override_risk env1 (ac_risk cfg)\<rparr> in
       and_then (config_validate cfg1) (\<lambda>_. Ok cfg1)), env1))"

text \<open>What \<open>main\<close> then sets for the modules that read the environment.\<close>

definition main_env :: "app_config \<Rightarrow> env \<Rightarrow> env" where
  "main_env cfg env =
     (let env1 = (case sl_proxy_url (ac_solana cfg) of
            Some proxy \<Rightarrow> env(''HTTPS_PROXY'' \<mapsto> proxy, ''HTTP_PROXY'' \<mapsto> proxy) | None \<Rightarrow> env) in
      (case env1 ''SOLANA_RPC_URL'' of
         None \<Rightarrow> env1(''SOLANA_RPC_URL'' \<mapsto> sl_rpc_url (ac_solana cfg)) | Some _ \<Rightarrow> env1))"

section \<open>The wallet\<close>

text \<open>\<open>from_base58_string\<close> panics on a text that is not a key pair; \<open>read_file\<close> reads a key pair file. The
  \<open>~\<close> at the beginning is replaced by the home directory.\<close>

definition expand_home :: "env \<Rightarrow> string \<Rightarrow> string" where
  "expand_home env path =
     (case path of
        [] \<Rightarrow> path
      | c # cs \<Rightarrow> if c = CHR ''~'' then (case env ''HOME'' of Some home \<Rightarrow> home @ cs | None \<Rightarrow> path) else path)"

definition load_keypair :: "(string \<Rightarrow> 'k option) \<Rightarrow> (string \<Rightarrow> 'k option) \<Rightarrow> env \<Rightarrow> app_config \<Rightarrow> 'k client_result" where
  "load_keypair from_base58 read_file env cfg =
     (let from_file = (case wc_keypair_path (ac_wallet cfg) of
            Some path \<Rightarrow> ok_or (read_file (expand_home env path)) (Failed ''read keypair file'')
          | None \<Rightarrow> Err (Failed ''no keypair configured'')) in
      case env ''BOT_PRIVATE_KEY'' of
        None \<Rightarrow> from_file
      | Some b58 \<Rightarrow>
          if b58 = [] then from_file
          else (case from_base58 b58 of Some kp \<Rightarrow> Ok kp | None \<Rightarrow> Panic))"

definition main_keypair :: "(string \<Rightarrow> 'k option) \<Rightarrow> (string \<Rightarrow> 'k option) \<Rightarrow> env \<Rightarrow> app_config
    \<Rightarrow> 'k option client_result" where
  "main_keypair from_base58 read_file env cfg =
     (case load_keypair from_base58 read_file env cfg of
        Ok kp \<Rightarrow> Ok (Some kp)
      | Err e \<Rightarrow> if ac_dry_run cfg then Ok None else Err e
      | Panic \<Rightarrow> Panic)"

text \<open>The first funding of the wrapped SOL account: \<open>account_read\<close> is whether the account could be read.
  The result is the transaction to send, if any.\<close>

definition prefund_wsol :: "pda_fn \<Rightarrow> app_config \<Rightarrow> pubkey option \<Rightarrow> bool \<Rightarrow> instruction list option" where
  "prefund_wsol pda cfg wallet account_read =
     (case wallet of
        None \<Rightarrow> None
      | Some w \<Rightarrow>
          if ac_dry_run cfg \<or> account_read then None
          else
            (let sol_mint = pubkey_lit NATIVE_SOL_MINT_C; sol_tp = pubkey_lit TOKEN_PROGRAM;
                 wsol_ata = ata_addr pda w sol_mint sol_tp;
                 fund_lamports = sol_to_lamports (f_mul (rc_max_single_investment_sol (ac_risk cfg)) (Fin 3)) in
             Some [create_ata_idempotent_ix_v2 w wsol_ata w sol_mint sol_tp,
                   system_transfer_ix w wsol_ata fund_lamports,
                   sync_native_ix wsol_ata sol_tp]))"

section \<open>The price sources\<close>

datatype json = J_null | J_bool bool | J_int int | J_float f64 | J_str string | J_arr "json list"
  | J_obj "(string \<times> json) list"

text \<open>Indexing gives null where there is nothing; the accessors give nothing for another type.\<close>

definition j_field :: "json \<Rightarrow> string \<Rightarrow> json" where
  "j_field v k = (case v of J_obj kvs \<Rightarrow> (case map_of (rev kvs) k of Some x \<Rightarrow> x | None \<Rightarrow> J_null) | _ \<Rightarrow> J_null)"

definition j_item :: "json \<Rightarrow> nat \<Rightarrow> json" where
  "j_item v i = (case v of J_arr xs \<Rightarrow> if i < length xs then xs ! i else J_null | _ \<Rightarrow> J_null)"

definition j_str :: "json \<Rightarrow> string option" where
  "j_str v = (case v of J_str s \<Rightarrow> Some s | _ \<Rightarrow> None)"

definition j_f64 :: "json \<Rightarrow> f64 option" where
  "j_f64 v = (case v of J_int n \<Rightarrow> Some (to_f64 (of_int n)) | J_float x \<Rightarrow> Some x | _ \<Rightarrow> None)"

definition j_i64 :: "json \<Rightarrow> int option" where
  "j_i64 v = (case v of J_int n \<Rightarrow> if - (2 ^ 63) \<le> n \<and> n < 2 ^ 63 then Some n else None | _ \<Rightarrow> None)"

definition fetch_binance :: "json \<Rightarrow> f64 option" where
  "fetch_binance v = Option.bind (j_str (j_field v ''price'')) parse_f64"

definition fetch_bybit :: "json \<Rightarrow> f64 option" where
  "fetch_bybit v =
     Option.bind (j_str (j_field (j_item (j_field (j_field v ''result'') ''list'') 0) ''lastPrice'')) parse_f64"

definition fetch_okx :: "json \<Rightarrow> f64 option" where
  "fetch_okx v = Option.bind (j_str (j_field (j_item (j_field v ''data'') 0) ''last'')) parse_f64"

definition fetch_jupiter :: "json \<Rightarrow> f64 option" where
  "fetch_jupiter v = j_f64 (j_field (j_field (j_field v ''data'') NATIVE_SOL_MINT_C) ''price'')"

definition fetch_coingecko :: "json \<Rightarrow> f64 option" where
  "fetch_coingecko v = j_f64 (j_field (j_field v ''solana'') ''usd'')"

text \<open>\<open>pow\<close> is \<open>10_f64.powi\<close>, whose rounding the language leaves open; \<open>as i32\<close> cuts the exponent.\<close>

definition fetch_pyth :: "(f64 \<Rightarrow> int \<Rightarrow> f64) \<Rightarrow> json \<Rightarrow> f64 option" where
  "fetch_pyth pow v =
     (let price = j_field (j_item v 0) ''price'' in
      Option.bind (j_str (j_field price ''price'')) (\<lambda>price_str.
      Option.bind (j_i64 (j_field price ''expo'')) (\<lambda>expo.
      Option.bind (parse_f64 price_str) (\<lambda>raw.
        Some (f_mul raw (pow (Fin 10) (sint (word_of_int expo :: 32 word))))))))"

text \<open>The answers in the order of the sources, two per source, \<open>None\<close> where the request failed.\<close>

definition price_answers :: "(f64 \<Rightarrow> int \<Rightarrow> f64) \<Rightarrow> (nat \<Rightarrow> json option \<times> json option)
    \<Rightarrow> (f64 option \<times> f64 option) list" where
  "price_answers pow answers =
     map (\<lambda>(i, source). map_prod (\<lambda>a. Option.bind a source) (\<lambda>a. Option.bind a source) (answers i))
       (enumerate 0 [fetch_pyth pow, fetch_binance, fetch_bybit, fetch_okx, fetch_jupiter, fetch_coingecko])"

definition refresh_loop :: "(f64 \<Rightarrow> int \<Rightarrow> f64) \<Rightarrow> (nat \<Rightarrow> json option \<times> json option) list \<Rightarrow> f64" where
  "refresh_loop pow rounds = fold (\<lambda>answers p. refresh_price (price_answers pow answers) p) rounds (Fin 0)"

section \<open>The active scan\<close>

record scan_stats =
  ss_scans_total :: u64
  ss_opps_found :: u64
  ss_opp_mints :: "string set"

text \<open>One tick: \<open>walk\<close> lists the elements of a set, \<open>scan\<close> is the scan of a mint. What is built and
  simulated for a find is only logged.\<close>

definition count_opp :: "string \<Rightarrow> opportunity \<Rightarrow> scan_stats \<Rightarrow> scan_stats" where
  "count_opp mint opp s =
     (if f_lt (Fin 0) (op_net_profit_sol opp)
      then s\<lparr>ss_opps_found := ss_opps_found s + 1, ss_opp_mints := insert mint (ss_opp_mints s)\<rparr> else s)"

definition count_opps :: "string \<Rightarrow> opportunity list \<Rightarrow> scan_stats \<Rightarrow> scan_stats" where
  "count_opps mint opps s = fold (count_opp mint) opps (s\<lparr>ss_scans_total := ss_scans_total s + 1\<rparr>)"

definition active_scan_tick :: "u64 \<Rightarrow> (string set \<Rightarrow> string list) \<Rightarrow> (string \<Rightarrow> opportunity list) \<Rightarrow> whitelist
    \<Rightarrow> scan_stats \<Rightarrow> scan_stats" where
  "active_scan_tick latest_slot walk scan wl s =
     (if latest_slot = 0 then s
      else fold (\<lambda>mint. count_opps mint (scan mint)) (walk (wl_profitable wl) @ walk (wl_verified wl)) s)"

section \<open>The sender\<close>

definition fetch_alt_account :: "(pubkey \<Rightarrow> byte list option) \<Rightarrow> pubkey \<Rightarrow> pubkey list" where
  "fetch_alt_account fetch alt_address =
     (case fetch alt_address of
        Some data \<Rightarrow> if 32 \<le> length data then map key_of_bytes (chunks_exact 32 (drop 32 data)) else []
      | None \<Rightarrow> [])"

fun get_alt_accounts :: "(pubkey \<Rightarrow> byte list option) \<Rightarrow> (pubkey \<rightharpoonup> pubkey list) \<Rightarrow> table_lookup list
    \<Rightarrow> (pubkey \<rightharpoonup> pubkey list) \<times> table_account list" where
  "get_alt_accounts fetch cache [] = (cache, [])"
| "get_alt_accounts fetch cache (l # ls) =
     (let k = lk_account_key l;
          (addresses, cache1) = (case cache k of
              Some a \<Rightarrow> (a, cache)
            | None \<Rightarrow> (let a = fetch_alt_account fetch k in (a, cache(k \<mapsto> a))));
          (cache2, rest) = get_alt_accounts fetch cache1 ls in
      (cache2, \<lparr>ta_key = k, ta_addresses = addresses\<rparr> # rest))"

definition sender_url :: "env \<Rightarrow> string \<Rightarrow> bool \<Rightarrow> string" where
  "sender_url env sender_endpoint swqos_only =
     (let api_key = (case env ''HELIUS_API_KEY'' of Some k \<Rightarrow> k | None \<Rightarrow> ''YOUR_HELIUS_API_KEY'') in
      if swqos_only then sender_endpoint @ ''?swqos_only=true&api-key='' @ api_key
      else sender_endpoint @ ''?api-key='' @ api_key)"

text \<open>The answer: the status is a success or not, and the text parses or not.\<close>

definition sender_answer :: "bool \<Rightarrow> json option \<Rightarrow> string client_result" where
  "sender_answer success body =
     (if \<not> success then Err (Failed ''sender returned an error status'')
      else
        (case body of
           None \<Rightarrow> Err (Failed ''parse sender response'')
         | Some v \<Rightarrow>
             (case v of
                J_obj kvs \<Rightarrow>
                  if ''error'' \<in> fst ` set kvs then Err (Failed ''sender RPC error'')
                  else ok_or (j_str (j_field v ''result'')) (Failed ''sender response missing 'result' field'')
              | _ \<Rightarrow> Err (Failed ''sender response missing 'result' field''))))"

end
