(* ===== verification/Bot_Start_Properties.thy ===== *)
theory Bot_Start_Properties
  imports Bot_Start
begin

text \<open>
  What the start of the bot guarantees: where each setting comes from, what the validation lets
  through, the SOL price between rounds, and what one failed read does to the lookup tables.
\<close>

section \<open>The environment\<close>

definition file_vars :: "env_files \<Rightarrow> string \<Rightarrow> env" where
  "file_vars files name = (case files name of None \<Rightarrow> Map.empty | Some kvs \<Rightarrow> map_of kvs)"

lemma set_missing_all: "fold set_missing kvs env = map_of kvs ++ env"
proof (induction kvs arbitrary: env)
  case (Cons kv kvs)
  have "set_missing kv env = [fst kv \<mapsto> snd kv] ++ env"
    by (rule ext) (simp add: set_missing_def map_add_def split: option.splits)
  then show ?case using Cons by (auto simp: map_add_def fun_eq_iff split: option.splits)
qed simp

lemma load_env_file_eq: "load_env_file files name env = file_vars files name ++ env"
  by (simp add: load_env_file_def file_vars_def set_missing_all split: option.splits)

text \<open>The process comes first, then the file of the environment's name, \<open>.env\<close> and \<open>.env.local\<close>.\<close>

lemma load_env_eq:
  "load_env files env = file_vars files ''.env.local'' ++ (file_vars files ''.env'' ++
     ((case app_env env of Some e \<Rightarrow> file_vars files (''.env.'' @ e) | None \<Rightarrow> Map.empty) ++ env))"
  by (simp add: load_env_def load_env_file_eq split: option.splits)

lemma load_env_keeps: "env k = Some v \<Longrightarrow> load_env files env k = Some v"
  by (simp add: load_env_eq map_add_Some_iff)

text \<open>A setting: the variable if it is set and parses, else the value of the tables. An override writes its own field.\<close>

definition setting :: "env \<Rightarrow> (string \<Rightarrow> 'a option) \<Rightarrow> string \<Rightarrow> 'a \<Rightarrow> 'a" where
  "setting env parse var given = (case Option.bind (env var) parse of Some x \<Rightarrow> x | None \<Rightarrow> given)"

lemma parsed_setting:
  "path (get c) c = c \<Longrightarrow> apply_env_parsed env parse var path c = path (setting env parse var (get c)) c"
  by (simp add: apply_env_parsed_def setting_def split: option.splits)

lemma str_setting:
  "path (get c) c = c \<Longrightarrow> apply_env_str env var path c = path (setting env Some var (get c)) c"
  by (simp add: apply_env_str_def setting_def split: option.splits)

lemma overrides:
  "override_solana env c = c\<lparr>sl_rpc_url := setting env Some ''SOLANA_RPC_URL'' (sl_rpc_url c),
     sl_ws_url := setting env Some ''SOLANA_WS_URL'' (sl_ws_url c),
     sl_commitment := setting env Some ''SOLANA_COMMITMENT'' (sl_commitment c),
     sl_rpc_timeout_secs := setting env parse_u64 ''SOLANA_RPC_TIMEOUT_SECS'' (sl_rpc_timeout_secs c)\<rparr>"
  "override_bot env b = b\<lparr>bt_mode := setting env Some ''BOT_MODE'' (bt_mode b),
     bt_dry_run := setting env parse_bool ''BOT_DRY_RUN'' (bt_dry_run b)\<rparr>"
  "override_risk env r = r\<lparr>
     rc_min_profit_threshold_sol := setting env parse_f64 ''RISK_MIN_PROFIT_THRESHOLD_SOL'' (rc_min_profit_threshold_sol r),
     rc_max_single_investment_sol := setting env parse_f64 ''RISK_MAX_SINGLE_INVESTMENT_SOL'' (rc_max_single_investment_sol r),
     rc_max_daily_loss_sol := setting env parse_f64 ''RISK_MAX_DAILY_LOSS_SOL'' (rc_max_daily_loss_sol r),
     rc_slippage_tolerance_bps := setting env parse_u32 ''RISK_SLIPPAGE_TOLERANCE_BPS'' (rc_slippage_tolerance_bps r),
     rc_max_tip_sol := setting env parse_f64 ''RISK_MAX_TIP_SOL'' (rc_max_tip_sol r)\<rparr>"
  unfolding override_solana_def override_bot_def override_risk_def
  by (simp_all add: parsed_setting [where get = sl_rpc_timeout_secs] str_setting [where get = sl_commitment]
      str_setting [where get = sl_ws_url] str_setting [where get = sl_rpc_url]
      parsed_setting [where get = bt_dry_run] str_setting [where get = bt_mode]
      parsed_setting [where get = rc_max_tip_sol] parsed_setting [where get = rc_slippage_tolerance_bps]
      parsed_setting [where get = rc_max_daily_loss_sol] parsed_setting [where get = rc_max_single_investment_sol]
      parsed_setting [where get = rc_min_profit_threshold_sol])

lemma load_config_iff:
  "load_config files tables env = (Ok cfg, env') \<longleftrightarrow> env' = load_env files env \<and>
     (\<exists>base. tables (config_sources env') = Ok base \<and>
       cfg = base\<lparr>ac_solana := override_solana env' (ac_solana base), ac_bot := override_bot env' (ac_bot base),
         ac_risk := override_risk env' (ac_risk base)\<rparr> \<and> config_validate cfg = Ok ())"
  by (auto simp: load_config_def Let_def and_then_Ok_iff)

text \<open>C37: A configuration loads exactly if the table files give one, \<open>config.toml\<close> and the one of \<open>APP_ENV\<close>, that passes
  the ten checks once each of eleven settings is taken from its variable where that is set and parses; every other
  setting is that of the tables. Of the variables, those of the process come before \<open>.env.\<close>\<open>APP_ENV\<close>, before
  \<open>.env\<close>, before \<open>.env.local\<close>. A dry run is only switched by the words true and false.\<close>

theorem config_precedence:
  "load_config files tables env = (Ok cfg, env') \<longleftrightarrow>
    env' = file_vars files ''.env.local'' ++ (file_vars files ''.env'' ++
      ((case app_env env of Some e \<Rightarrow> file_vars files (''.env.'' @ e) | None \<Rightarrow> Map.empty) ++ env)) \<and>
    (\<exists>base. tables (''config.toml'' # (case app_env env' of Some e \<Rightarrow> [''config-'' @ e @ ''.toml''] | None \<Rightarrow> [])) = Ok base \<and>
      cfg = base\<lparr>
        ac_solana := (ac_solana base)\<lparr>
          sl_rpc_url := setting env' Some ''SOLANA_RPC_URL'' (sl_rpc_url (ac_solana base)),
          sl_ws_url := setting env' Some ''SOLANA_WS_URL'' (sl_ws_url (ac_solana base)),
          sl_commitment := setting env' Some ''SOLANA_COMMITMENT'' (sl_commitment (ac_solana base)),
          sl_rpc_timeout_secs := setting env' parse_u64 ''SOLANA_RPC_TIMEOUT_SECS'' (sl_rpc_timeout_secs (ac_solana base))\<rparr>,
        ac_bot := (ac_bot base)\<lparr>
          bt_mode := setting env' Some ''BOT_MODE'' (bt_mode (ac_bot base)),
          bt_dry_run := (if env' ''BOT_DRY_RUN'' = Some ''true'' then True
            else if env' ''BOT_DRY_RUN'' = Some ''false'' then False else bt_dry_run (ac_bot base))\<rparr>,
        ac_risk := (ac_risk base)\<lparr>
          rc_min_profit_threshold_sol :=
            setting env' parse_f64 ''RISK_MIN_PROFIT_THRESHOLD_SOL'' (rc_min_profit_threshold_sol (ac_risk base)),
          rc_max_single_investment_sol :=
            setting env' parse_f64 ''RISK_MAX_SINGLE_INVESTMENT_SOL'' (rc_max_single_investment_sol (ac_risk base)),
          rc_max_daily_loss_sol := setting env' parse_f64 ''RISK_MAX_DAILY_LOSS_SOL'' (rc_max_daily_loss_sol (ac_risk base)),
          rc_slippage_tolerance_bps :=
            setting env' parse_u32 ''RISK_SLIPPAGE_TOLERANCE_BPS'' (rc_slippage_tolerance_bps (ac_risk base)),
          rc_max_tip_sol := setting env' parse_f64 ''RISK_MAX_TIP_SOL'' (rc_max_tip_sol (ac_risk base))\<rparr>\<rparr>) \<and>
    ac_rpc_url cfg \<noteq> [] \<and> ac_ws_url cfg \<noteq> [] \<and>
    \<not> f_le (rc_min_profit_threshold_sol (ac_risk cfg)) (Fin 0) \<and> \<not> f_le (rc_max_single_investment_sol (ac_risk cfg)) (Fin 0) \<and>
    \<not> f_le (rc_max_daily_loss_sol (ac_risk cfg)) (Fin 0) \<and> \<not> f_le (rc_max_tip_sol (ac_risk cfg)) (Fin 0) \<and>
    dc_pool_fee_bps (ac_dex cfg) \<le> 10000 \<and> dc_pumpfun_fee_bps (ac_dex cfg) \<le> 10000 \<and>
    dc_pumpswap_fee_bps (ac_dex cfg) \<le> 10000 \<and> sc_cu_fee_buffer_pct (ac_scanner cfg) \<le> 1000"
proof -
  have d: "setting env' parse_bool ''BOT_DRY_RUN'' d = (if env' ''BOT_DRY_RUN'' = Some ''true'' then True
      else if env' ''BOT_DRY_RUN'' = Some ''false'' then False else d)" for d
    by (cases "env' ''BOT_DRY_RUN''") (auto simp: setting_def parse_bool_def)
  show ?thesis
    unfolding load_config_iff load_env_eq config_validate_Ok overrides config_sources_def d by blast
qed

definition start_cfg :: app_config where
  "start_cfg = demo_cfg\<lparr>ac_risk := demo_risk\<lparr>rc_min_profit_threshold_sol := Fin 1\<rparr>\<rparr>"

definition start_files :: env_files where
  "start_files name =
     (if name = ''.env.devnet'' then Some [(''BOT_DRY_RUN'', ''true''), (''SOLANA_RPC_URL'', ''dev'')]
      else if name = ''.env'' then Some [(''SOLANA_RPC_URL'', ''base'')] else None)"

definition devnet_env :: env where
  "devnet_env = [''APP_ENV'' \<mapsto> ''devnet'', ''BOT_DRY_RUN'' \<mapsto> ''true'', ''SOLANA_RPC_URL'' \<mapsto> ''dev'']"

lemma devnet_loads: "load_env start_files [''APP_ENV'' \<mapsto> ''devnet''] = devnet_env"
  by (rule ext) (simp add: load_env_eq file_vars_def start_files_def app_env_def devnet_env_def map_add_def)

lemma start_valid: "config_validate start_cfg = Ok ()"
  unfolding config_validate_Ok
  by (simp add: start_cfg_def demo_cfg_def demo_risk_def scanner_config_default_def)

theorem config_precedence_witness:
  "\<exists>cfg. load_config start_files (\<lambda>_. Ok start_cfg) [''APP_ENV'' \<mapsto> ''devnet''] = (Ok cfg, devnet_env) \<and>
     ac_rpc_url cfg = ''dev'' \<and> ac_dry_run cfg \<and> ac_risk cfg = ac_risk start_cfg"
proof -
  have "\<exists>cfg. load_config start_files (\<lambda>_. Ok start_cfg) [''APP_ENV'' \<mapsto> ''devnet''] = (Ok cfg, devnet_env) \<and>
      ac_rpc_url cfg = ''dev'' \<and> ac_dry_run cfg \<and> ac_risk cfg = ac_risk start_cfg"
    unfolding config_precedence load_env_eq [symmetric] devnet_loads
    using start_valid unfolding config_validate_Ok
    by (simp add: devnet_env_def setting_def)
  then show ?thesis .
qed

section \<open>A limit that is not a number\<close>

lemma not_below_NaN [simp]: "\<not> f_lt x NaN"
  by (cases x) simp_all

lemma nan_events:
  assumes "rc_max_daily_loss_sol risk = NaN" and "\<not> rt_circuit_breaker st"
  shows "\<not> rt_circuit_breaker (snd (check_limits now today opp risk st))"
    "\<not> rt_circuit_breaker (record_confirmation now pnl ok risk st)"
  using assms
  by (simp_all add: check_limits_def breaker_gate_def roll_day_def record_confirmation_def check_circuit_breaker_def Let_def)

lemma nan_never_trips:
  assumes "risk_run risk st es st'" and "rc_max_daily_loss_sol risk = NaN" and "\<not> rt_circuit_breaker st"
  shows "\<not> rt_circuit_breaker st'"
  using assms
proof (induction rule: risk_run.induct)
  case (go st e ok st' es st'')
  have "\<not> rt_circuit_breaker st'"
    using go.hyps(1) nan_events(1) [OF go.prems] nan_events(2) [OF go.prems] go.prems(2)
    by (elim risk_stepE) (auto simp: record_submitted_def, metis snd_conv)
  then show ?case using go by blast
qed

text \<open>C38: If a configuration loads, it also loads with the daily loss limit set to \<open>NaN\<close> in the environment, in any
  spelling the parser takes: the validation lets it pass, and nothing but the limit differs. With it
  the breaker never trips: after any sequence of checks, submissions and settled losses it is closed.\<close>

theorem nan_limit_disables_breaker:
  assumes "load_config files tables env = (Ok cfg, env')" and "map lower (snd (take_sign v)) = ''nan''"
  shows "\<exists>cfg'. load_config files tables (env(''RISK_MAX_DAILY_LOSS_SOL'' \<mapsto> v))
       = (Ok cfg', env'(''RISK_MAX_DAILY_LOSS_SOL'' \<mapsto> v)) \<and>
    cfg' = cfg\<lparr>ac_risk := (ac_risk cfg)\<lparr>rc_max_daily_loss_sol := NaN\<rparr>\<rparr> \<and>
    (\<forall>today es st. risk_run (ac_risk cfg') (risk_new today) es st \<longrightarrow> \<not> rt_circuit_breaker st)"
proof -
  let ?var = "''RISK_MAX_DAILY_LOSS_SOL''" and ?risk = "(ac_risk cfg)\<lparr>rc_max_daily_loss_sol := NaN\<rparr>"
  have nan: "parse_f64 v = Some NaN" using assms(2) by (simp add: parse_f64_def case_prod_beta Let_def)
  from assms(1) obtain base where b: "env' = load_env files env" "tables (config_sources env') = Ok base"
      "cfg = base\<lparr>ac_solana := override_solana env' (ac_solana base), ac_bot := override_bot env' (ac_bot base),
         ac_risk := override_risk env' (ac_risk base)\<rparr>" "config_validate cfg = Ok ()"
    unfolding load_config_iff by blast
  have e: "load_env files (env(?var \<mapsto> v)) = env'(?var \<mapsto> v)"
    by (rule ext) (simp add: b(1) load_env_eq app_env_def map_add_def)
  have s: "config_sources (env'(?var \<mapsto> v)) = config_sources env'"
    by (simp add: config_sources_def app_env_def)
  have o: "cfg\<lparr>ac_risk := ?risk\<rparr> = base\<lparr>ac_solana := override_solana (env'(?var \<mapsto> v)) (ac_solana base),
      ac_bot := override_bot (env'(?var \<mapsto> v)) (ac_bot base), ac_risk := override_risk (env'(?var \<mapsto> v)) (ac_risk base)\<rparr>"
    unfolding b(3) overrides by (simp add: setting_def nan)
  have v: "config_validate (cfg\<lparr>ac_risk := ?risk\<rparr>) = Ok ()"
    using b(4) unfolding config_validate_Ok by (simp add: f_le_def)
  have "load_config files tables (env(?var \<mapsto> v)) = (Ok (cfg\<lparr>ac_risk := ?risk\<rparr>), env'(?var \<mapsto> v))"
    unfolding load_config_iff e s using b(2) o v by blast
  moreover have "\<not> rt_circuit_breaker st" if "risk_run ?risk (risk_new today) es st" for today es st
    using nan_never_trips [OF that] by (simp add: risk_new_def)
  ultimately show ?thesis by simp
qed

theorem nan_limit_disables_breaker_witness:
  "\<exists>cfg env' st. load_config (\<lambda>_. None) (\<lambda>_. Ok start_cfg) [''RISK_MAX_DAILY_LOSS_SOL'' \<mapsto> ''NaN''] = (Ok cfg, env') \<and>
     rc_max_daily_loss_sol (ac_risk cfg) = NaN \<and>
     risk_run (ac_risk cfg) (risk_new 0) [(Confirmed 1 (Fin (- 1000000)) True, False)] st \<and> \<not> rt_circuit_breaker st"
proof -
  have n: "map lower (snd (take_sign ''NaN'')) = ''nan''" by code_simp
  have "load_config (\<lambda>_. None) (\<lambda>_. Ok start_cfg) Map.empty = (Ok start_cfg, Map.empty)"
    using start_valid by (simp add: load_config_iff load_env_eq file_vars_def app_env_def overrides setting_def)
  from nan_limit_disables_breaker [OF this n] obtain cfg where
    l: "load_config (\<lambda>_. None) (\<lambda>_. Ok start_cfg) [''RISK_MAX_DAILY_LOSS_SOL'' \<mapsto> ''NaN''] = (Ok cfg, [''RISK_MAX_DAILY_LOSS_SOL'' \<mapsto> ''NaN''])"
    and c: "cfg = start_cfg\<lparr>ac_risk := (ac_risk start_cfg)\<lparr>rc_max_daily_loss_sol := NaN\<rparr>\<rparr>"
    and t: "\<forall>today es st. risk_run (ac_risk cfg) (risk_new today) es st \<longrightarrow> \<not> rt_circuit_breaker st" by auto
  have "risk_run (ac_risk cfg) (risk_new 0) [(Confirmed 1 (Fin (- 1000000)) True, False)]
      (record_confirmation 1 (Fin (- 1000000)) True (ac_risk cfg) (risk_new 0))"
    by (auto intro: risk_run.intros)
  moreover have "rc_max_daily_loss_sol (ac_risk cfg) = NaN" by (simp add: c)
  ultimately show ?thesis using l t by blast
qed

section \<open>The price\<close>

text \<open>Between rounds the price is zero, before the first success, or positive.\<close>

lemma fetch_price_positive: "fetch_price sources = Some p \<Longrightarrow> f_lt (Fin 0) p"
  by (induction sources)
    (auto simp: fetch_price_def try_source_def List.map_filter_simps Let_def split: option.splits if_splits list.splits)

lemma refresh_loop_positive: "refresh_loop pow rounds = Fin 0 \<or> f_lt (Fin 0) (refresh_loop pow rounds)"
proof -
  have "fold (\<lambda>answers p. refresh_price (price_answers pow answers) p) rounds x = x \<or>
      f_lt (Fin 0) (fold (\<lambda>answers p. refresh_price (price_answers pow answers) p) rounds x)" for x
  proof (induction rounds arbitrary: x)
    case (Cons a rounds)
    show ?case
      using Cons [of "refresh_price (price_answers pow a) x"] fetch_price_positive [of "price_answers pow a"]
      by (auto simp: refresh_price_def split: option.splits)
  qed simp
  then show ?thesis by (simp add: refresh_loop_def)
qed

lemma parse_f64_samples:
  "parse_f64 ''.'' = None" "parse_f64 ''1_0'' = None"
  "parse_f64 ''142.5'' = Some (to_f64 (1425 / 10))" "parse_f64 ''-1e2'' = Some (to_f64 (- 100))"
  by (simp_all add: parse_f64_def parse_decimal_def parse_exponent_def take_sign_def is_digit_def digits_value_def lower_def
      Let_def power_int_def)

section \<open>The active scan\<close>

lemma count_opps_eq:
  "ss_scans_total (count_opps m opps s) = ss_scans_total s + 1"
  "ss_opps_found (count_opps m opps s) =
     ss_opps_found s + of_nat (length (filter (\<lambda>o'. f_lt (Fin 0) (op_net_profit_sol o')) opps))"
proof -
  have "ss_scans_total (fold (count_opp m) opps t) = ss_scans_total t \<and>
      ss_opps_found (fold (count_opp m) opps t) =
        ss_opps_found t + of_nat (length (filter (\<lambda>o'. f_lt (Fin 0) (op_net_profit_sol o')) opps))" for t
    by (induction opps arbitrary: t) (simp_all add: count_opp_def algebra_simps)
  then show "ss_scans_total (count_opps m opps s) = ss_scans_total s + 1"
    "ss_opps_found (count_opps m opps s) =
     ss_opps_found s + of_nat (length (filter (\<lambda>o'. f_lt (Fin 0) (op_net_profit_sol o')) opps))"
    by (simp_all add: count_opps_def)
qed

text \<open>Every mint of the whitelist is scanned once per tick, and the finds are counted with their repetitions.\<close>

lemma active_scan_counts:
  assumes "latest \<noteq> 0" and "ms = walk (wl_profitable wl) @ walk (wl_verified wl)"
  shows "ss_scans_total (active_scan_tick latest walk scan wl s) = ss_scans_total s + of_nat (length ms)"
    and "ss_opps_found (active_scan_tick latest walk scan wl s) =
      ss_opps_found s + (\<Sum>m \<leftarrow> ms. of_nat (length (filter (\<lambda>o'. f_lt (Fin 0) (op_net_profit_sol o')) (scan m))))"
proof -
  have "ss_scans_total (fold (\<lambda>mint. count_opps mint (scan mint)) ms s) = ss_scans_total s + of_nat (length ms) \<and>
    ss_opps_found (fold (\<lambda>mint. count_opps mint (scan mint)) ms s) =
      ss_opps_found s + (\<Sum>m \<leftarrow> ms. of_nat (length (filter (\<lambda>o'. f_lt (Fin 0) (op_net_profit_sol o')) (scan m))))" for s
    by (induction ms arbitrary: s) (simp_all add: count_opps_eq algebra_simps)
  then show "ss_scans_total (active_scan_tick latest walk scan wl s) = ss_scans_total s + of_nat (length ms)"
    "ss_opps_found (active_scan_tick latest walk scan wl s) =
      ss_opps_found s + (\<Sum>m \<leftarrow> ms. of_nat (length (filter (\<lambda>o'. f_lt (Fin 0) (op_net_profit_sol o')) (scan m))))"
    using assms by (simp_all add: active_scan_tick_def)
qed

section \<open>The lookup tables\<close>

lemma sender_cache_same: "get_alt_accounts fetch cache ls = get_alt_accounts_sync fetch cache ls"
proof -
  have "fetch_alt_account f k = fetch_alt_via_rpc f k" for f k
    by (simp add: fetch_alt_account_def fetch_alt_via_rpc_def ALT_HEADER_LEN_def split: option.splits)
  then show ?thesis by (induction ls arbitrary: cache) (simp_all add: Let_def split: option.splits)
qed

lemma table_cache_step:
  "fst (get_alt_accounts_sync fetch cache (l # ls)) =
     fst (get_alt_accounts_sync fetch
       (case cache (lk_account_key l) of Some a \<Rightarrow> cache
        | None \<Rightarrow> cache(lk_account_key l \<mapsto> fetch_alt_via_rpc fetch (lk_account_key l))) ls)"
  by (simp add: case_prod_beta Let_def split: option.splits)

lemma table_cache_keeps:
  "cache k = Some a \<Longrightarrow> fst (get_alt_accounts_sync fetch cache ls) k = Some a"
proof (induction ls arbitrary: cache)
  case (Cons l ls)
  show ?case
    unfolding table_cache_step by (rule Cons.IH) (use Cons.prems in \<open>auto split: option.splits\<close>)
qed simp

lemma table_cache_reads:
  "k \<in> lk_account_key ` set ls \<Longrightarrow> cache k = None \<Longrightarrow>
    fst (get_alt_accounts_sync fetch cache ls) k = Some (fetch_alt_via_rpc fetch k)"
proof (induction ls arbitrary: cache)
  case (Cons l ls)
  show ?case
  proof (cases "lk_account_key l = k")
    case True
    then show ?thesis
      unfolding table_cache_step using Cons.prems(2) by (intro table_cache_keeps) simp
  next
    case False
    then show ?thesis
      unfolding table_cache_step using Cons.prems by (intro Cons.IH) (auto split: option.splits)
  qed
qed simp

text \<open>A table whose first read fails is empty from then on, whatever later reads would give.\<close>

lemma failed_table_read_is_final:
  assumes "l \<in> set ls" and "cache (lk_account_key l) = None" and "fetch (lk_account_key l) = None"
  defines "cache' \<equiv> fst (get_alt_accounts_sync fetch cache ls)"
  shows "snd (get_alt_accounts_sync fetch' cache' [l]) = [\<lparr>ta_key = lk_account_key l, ta_addresses = []\<rparr>]"
proof -
  have "cache' (lk_account_key l) = Some []"
    unfolding cache'_def using assms(1-3) by (subst table_cache_reads) (auto simp: fetch_alt_via_rpc_def)
  then show ?thesis by simp
qed

end
