(* ===== verification/Tool_Smoke.thy ===== *)
theory Tool_Smoke
  imports Client_Properties Bot_Bins Bot_Rpc
begin

text \<open>
  The devnet smoke test, \<open>scripts/devnet_smoke/src/main.rs\<close>: a program of its own that repeats the
  constants, addresses and account lists of the bot, looks for a PumpSwap pool, prepares the token
  accounts and submits one instruction per route. \<open>ata\<close> and \<open>create_ata\<close> are the functions of the
  crate for associated token accounts, \<open>smoke_env\<close> holds the answers of the endpoint. Printed text,
  the choice of the key format and the compute unit figures are left out.
\<close>

section \<open>Constants and addresses\<close>

definition PUMPFUN_AMM_PROGRAM_S :: string where
  "PUMPFUN_AMM_PROGRAM_S = ''pAMMBay6oceH9fJKBRHGP5D4bD4sWpmSwMn52FMfXEA''"
definition DLMM_PROGRAM_S :: string where
  "DLMM_PROGRAM_S = ''LBUZKhRxPF3XUpBCjp4YzTKgLccjZhTSDM9YuVaPwxo''"
definition TOKEN_PROGRAM_S :: string where
  "TOKEN_PROGRAM_S = ''TokenkegQfeZyiNwAJbNbGKPFXCWuBvf9Ss623VQ5DA''"
definition MEMO_PROGRAM_S :: string where
  "MEMO_PROGRAM_S = ''MemoSq4gqABAXKb96qnH8TysNcWxMyWCqXgDLGmfcHr''"
definition ATA_PROGRAM_S :: string where
  "ATA_PROGRAM_S = ''ATokenGPvbdGVxr1b2hvZbsiqW5xWH25efTNsLJA8knL''"
definition NATIVE_SOL_MINT_S :: string where
  "NATIVE_SOL_MINT_S = ''So11111111111111111111111111111111111111112''"
definition PUMPSWAP_FEE_PROGRAM_S :: string where
  "PUMPSWAP_FEE_PROGRAM_S = ''pfeeUxB6jkeY1Hxd7CsFCAjcbHA9rWtchMGdZ6VojVZ''"
definition PUMPSWAP_GLOBAL_VOLUME_ACCUMULATOR_S :: string where
  "PUMPSWAP_GLOBAL_VOLUME_ACCUMULATOR_S = ''C2aFPdENg4A2HQsmrd5rTw5TaYBX5Ku887cWjbFKtZpw''"
definition PUMPSWAP_BUYBACK_FEE_RECIPIENT_S :: string where
  "PUMPSWAP_BUYBACK_FEE_RECIPIENT_S = ''5YxQFdt3Tr9zJLvkFccqXVUwhdTWJQc1fFg2YPbxvxeD''"
definition DLMM_EVENT_AUTHORITY_S :: string where
  "DLMM_EVENT_AUTHORITY_S = ''D1ZN9Wj1fRSUQfCjhvnu1hqDMT7hzjzBBpi12nVniYD6''"
definition CPMM_PROGRAM_S :: string where
  "CPMM_PROGRAM_S = ''CPMMoo8L3F4NbTegBCKVNunggL7H1ZpdTHKxQB5qKP1C''"
definition CPMM_AMM_CONFIG_S :: string where
  "CPMM_AMM_CONFIG_S = ''D4FPEruKEHrG5TenZ2mpDGEfu1iUvTiqBxvpU8HLBvC2''"
definition SYSTEM_PROGRAM_S :: string where
  "SYSTEM_PROGRAM_S = ''11111111111111111111111111111111''"
definition FEE_RECIPIENT_S :: string where
  "FEE_RECIPIENT_S = ''62qc2CNXwrYqQScmEdiZFFAnJR262PxWEuNQtxfafNgV''"
definition ROUTE_PUMP_TO_DLMM_DISC_S :: "byte list" where
  "ROUTE_PUMP_TO_DLMM_DISC_S = [0x8b, 0xe8, 0x20, 0x55, 0xc1, 0xb0, 0xc1, 0xe9]"
definition ROUTE_DISC_S :: "byte list" where
  "ROUTE_DISC_S = [0x5f, 0x0f, 0x91, 0x02, 0x9a, 0x03, 0x4c, 0xc3]"

type_synonym ata_fn = "pubkey \<Rightarrow> pubkey \<Rightarrow> pubkey \<Rightarrow> pubkey"

definition smoke_user_vol_accumulator :: "pda_fn \<Rightarrow> pubkey \<Rightarrow> pubkey" where
  "smoke_user_vol_accumulator pda user =
     pda [byte_string ''user_volume_accumulator'', key_bytes user] (pubkey_lit PUMPFUN_AMM_PROGRAM_S)"

definition smoke_user_vol_accumulator_quote_ata :: "pda_fn \<Rightarrow> ata_fn \<Rightarrow> pubkey \<Rightarrow> pubkey \<Rightarrow> pubkey \<Rightarrow> pubkey" where
  "smoke_user_vol_accumulator_quote_ata pda ata user quote_mint quote_token_program =
     ata (smoke_user_vol_accumulator pda user) quote_mint quote_token_program"

definition smoke_coin_creator_vault_authority :: "pda_fn \<Rightarrow> pubkey \<Rightarrow> pubkey" where
  "smoke_coin_creator_vault_authority pda coin_creator =
     pda [byte_string ''creator_vault'', key_bytes coin_creator] (pubkey_lit PUMPFUN_AMM_PROGRAM_S)"

definition smoke_coin_creator_vault_ata :: "ata_fn \<Rightarrow> pubkey \<Rightarrow> pubkey \<Rightarrow> pubkey \<Rightarrow> pubkey" where
  "smoke_coin_creator_vault_ata ata authority quote_mint quote_token_program =
     ata authority quote_mint quote_token_program"

definition smoke_fee_config_pda :: "pda_fn \<Rightarrow> pubkey" where
  "smoke_fee_config_pda pda =
     pda [byte_string ''fee_config'', key_bytes (pubkey_lit PUMPFUN_AMM_PROGRAM_S)] (pubkey_lit PUMPSWAP_FEE_PROGRAM_S)"

definition smoke_event_authority_pda :: "pda_fn \<Rightarrow> pubkey" where
  "smoke_event_authority_pda pda = pda [byte_string ''__event_authority''] (pubkey_lit PUMPFUN_AMM_PROGRAM_S)"

definition smoke_global_config_pda :: "pda_fn \<Rightarrow> pubkey" where
  "smoke_global_config_pda pda = pda [byte_string ''global_config''] (pubkey_lit PUMPFUN_AMM_PROGRAM_S)"

definition smoke_pool_v2_pda :: "pda_fn \<Rightarrow> pubkey \<Rightarrow> pubkey" where
  "smoke_pool_v2_pda pda base_mint =
     pda [byte_string ''pool_v2'', key_bytes base_mint] (pubkey_lit PUMPFUN_AMM_PROGRAM_S)"

section \<open>Pool account and sections\<close>

text \<open>The structure of a pool's metadata has the fields of the bot's.\<close>

definition smoke_parse_pool_meta :: "byte list \<Rightarrow> pool_meta option" where
  "smoke_parse_pool_meta data =
     (if length data < 203 then None
      else Some
        \<lparr>pm_coin_creator =
           (if 243 \<le> length data then key_of_bytes (sub_bytes data 211 243) else 0),
         pm_is_mayhem_mode = (244 \<le> length data \<and> data ! 243 \<noteq> 0),
         pm_is_cashback_coin = (245 \<le> length data \<and> data ! 244 \<noteq> 0),
         pm_pool_base_token_account = key_of_bytes (sub_bytes data 139 171),
         pm_pool_quote_token_account = key_of_bytes (sub_bytes data 171 203)\<rparr>)"

definition smoke_buy_accounts :: "pda_fn \<Rightarrow> ata_fn \<Rightarrow> pubkey \<Rightarrow> pubkey \<Rightarrow> pubkey \<Rightarrow> pubkey \<Rightarrow> pubkey
    \<Rightarrow> pubkey \<Rightarrow> pubkey \<Rightarrow> pubkey \<Rightarrow> pool_meta \<Rightarrow> pubkey \<Rightarrow> account_meta list" where
  "smoke_buy_accounts pda ata user user_sol_ata user_meme_ata meme_mint sol_mint base_token_program
      quote_token_program pool meta protocol_fee_recipient =
     (let protocol_fee_ata = ata protocol_fee_recipient sol_mint quote_token_program;
          creator_vault_authority = smoke_coin_creator_vault_authority pda (pm_coin_creator meta);
          creator_vault_ata = smoke_coin_creator_vault_ata ata creator_vault_authority sol_mint quote_token_program;
          buyback_recipient = pubkey_lit PUMPSWAP_BUYBACK_FEE_RECIPIENT_S;
          buyback_ata = ata buyback_recipient sol_mint quote_token_program in
      [meta_new pool False,
       meta_new user True,
       meta_readonly (smoke_global_config_pda pda) False,
       meta_readonly meme_mint False,
       meta_readonly sol_mint False,
       meta_new user_meme_ata False,
       meta_new user_sol_ata False,
       meta_new (pm_pool_base_token_account meta) False,
       meta_new (pm_pool_quote_token_account meta) False,
       meta_readonly protocol_fee_recipient False,
       meta_new protocol_fee_ata False,
       meta_readonly base_token_program False,
       meta_readonly quote_token_program False,
       meta_readonly (pubkey_lit SYSTEM_PROGRAM_S) False,
       meta_readonly (pubkey_lit ATA_PROGRAM_S) False,
       meta_readonly (smoke_event_authority_pda pda) False,
       meta_readonly (pubkey_lit PUMPFUN_AMM_PROGRAM_S) False,
       meta_new creator_vault_ata False,
       meta_readonly creator_vault_authority False,
       meta_readonly (pubkey_lit PUMPSWAP_GLOBAL_VOLUME_ACCUMULATOR_S) False,
       meta_new (smoke_user_vol_accumulator pda user) False,
       meta_readonly (smoke_fee_config_pda pda) False,
       meta_readonly (pubkey_lit PUMPSWAP_FEE_PROGRAM_S) False]
      @ (if pm_is_cashback_coin meta
         then [meta_new (smoke_user_vol_accumulator_quote_ata pda ata user sol_mint quote_token_program) False] else [])
      @ (if pm_coin_creator meta \<noteq> 0 then [meta_readonly (smoke_pool_v2_pda pda meme_mint) False] else [])
      @ [meta_readonly buyback_recipient False, meta_new buyback_ata False])"

definition smoke_buy_remaining_count :: "pool_meta \<Rightarrow> byte" where
  "smoke_buy_remaining_count meta =
     (let n = 2; n = (if pm_is_cashback_coin meta then n + 1 else n) in
      if pm_coin_creator meta \<noteq> 0 then n + 1 else n)"

definition smoke_dlmm_accounts :: "pubkey \<Rightarrow> pubkey \<Rightarrow> pubkey \<Rightarrow> pubkey \<Rightarrow> pubkey \<Rightarrow> pubkey \<Rightarrow> pubkey
    \<Rightarrow> pubkey \<Rightarrow> pubkey \<Rightarrow> pubkey list \<Rightarrow> account_meta list" where
  "smoke_dlmm_accounts dlmm_program lb_pair bitmap reserve_x reserve_y oracle host_fee memo_program event_auth
      bin_arrays =
     [meta_readonly dlmm_program False, meta_new lb_pair False, meta_new bitmap False, meta_new reserve_x False,
      meta_new reserve_y False, meta_new oracle False, meta_new host_fee False, meta_readonly memo_program False,
      meta_readonly event_auth False]
     @ map (\<lambda>bin. meta_new bin False) bin_arrays"

definition smoke_ix_data :: "byte list \<Rightarrow> u64 \<Rightarrow> u64 \<Rightarrow> u64 \<Rightarrow> bool \<Rightarrow> bool \<Rightarrow> byte \<Rightarrow> byte \<Rightarrow> byte list" where
  "smoke_ix_data disc amount_in min_profit min_meme_out track_volume dlmm_sol_is_x pump_remaining_count
      dlmm_bin_array_count =
     disc @ u64_to_le amount_in @ u64_to_le min_profit @ u64_to_le min_meme_out
     @ [of_bool track_volume, of_bool dlmm_sol_is_x, pump_remaining_count, dlmm_bin_array_count]"

section \<open>The pool to test with\<close>

text \<open>\<open>None\<close> is a failed request; a token balance is the amount its text parses to, if it does.\<close>

record smoke_env =
  sm_balance :: "u64 option"
  sm_by_size :: "u64 \<Rightarrow> (pubkey \<times> byte list) list option"
  sm_all :: "(pubkey \<times> byte list) list option"
  sm_account :: "pubkey \<Rightarrow> chain_account option"
  sm_token_balance :: "pubkey \<Rightarrow> u64 option option"

definition smoke_candidates :: "smoke_env \<Rightarrow> (pubkey \<times> byte list) list client_result" where
  "smoke_candidates env =
     (let sized = concat (map (\<lambda>size. case_option [] id (sm_by_size env size)) [245, 244]) in
      if sized \<noteq> [] then Ok sized
      else and_then (ok_or (sm_all env) (Failed ''get_program_accounts pump'')) (\<lambda>all_accounts.
        let candidates = filter (\<lambda>(_, data). 244 \<le> length data \<and> length data \<le> 247) all_accounts in
        if candidates = [] then Err (Failed ''no PumpSwap pool-sized accounts found on devnet'') else Ok candidates))"

text \<open>The first usable candidate, with its base mint.\<close>

definition usable_candidate :: "show_key \<Rightarrow> byte list \<Rightarrow> bool" where
  "usable_candidate show_key data \<longleftrightarrow>
     140 \<le> length data \<and>
     (let base_mint = key_of_bytes (sub_bytes data 43 75); quote_mint = key_of_bytes (sub_bytes data 75 107) in
      base_mint \<noteq> 0 \<and> quote_mint \<noteq> 0 \<and> show_key quote_mint = NATIVE_SOL_MINT_S)"

definition find_smoke_pool :: "show_key \<Rightarrow> (pubkey \<times> byte list) list \<Rightarrow> (pubkey \<times> pubkey) option" where
  "find_smoke_pool show_key candidates =
     map_option (\<lambda>(pk, data). (pk, key_of_bytes (sub_bytes data 43 75)))
       (List.find (\<lambda>(_, data). usable_candidate show_key data) candidates)"

record smoke_pool =
  sp_pool :: pubkey
  sp_meme_mint :: pubkey
  sp_sol_res :: u64
  sp_meta :: pool_meta
  sp_token_program :: pubkey

definition choose_smoke_pool :: "show_key \<Rightarrow> smoke_env \<Rightarrow> smoke_pool client_result" where
  "choose_smoke_pool show_key env =
     and_then (ok_or (sm_balance env) (Failed ''get_balance'')) (\<lambda>balance.
     if \<not> 500000 < balance then Err (Failed ''wallet balance too low'')
     else and_then (smoke_candidates env) (\<lambda>candidates.
     and_then (ok_or (find_smoke_pool show_key candidates) (Failed ''no usable PumpSwap pool found'')) (\<lambda>(pool, meme_mint).
     and_then (ok_or (sm_account env pool) (Failed ''get_account'')) (\<lambda>account.
     and_then (ok_or (smoke_parse_pool_meta (on_data account)) (Failed ''parse pool meta'')) (\<lambda>meta.
     and_then (ok_or (sm_token_balance env (pm_pool_quote_token_account meta)) (Failed ''fetch pool quote token balance'')) (\<lambda>b.
     let sol_res = case_option 0 id b in
     if \<not> 100000 < sol_res then Err (Failed ''pool SOL reserve too low for test'')
     else and_then (ok_or (sm_account env meme_mint) (Failed ''fetch meme mint'')) (\<lambda>mint_account.
       Ok \<lparr>sp_pool = pool, sp_meme_mint = meme_mint, sp_sol_res = sol_res, sp_meta = meta,
           sp_token_program = on_owner mint_account\<rparr>)))))))"

section \<open>Token accounts\<close>

type_synonym create_ata_fn = "pubkey \<Rightarrow> pubkey \<Rightarrow> pubkey \<Rightarrow> pubkey \<Rightarrow> instruction"

text \<open>The transactions sent before the test.\<close>

definition setup_transactions :: "ata_fn \<Rightarrow> create_ata_fn \<Rightarrow> smoke_env \<Rightarrow> pubkey \<Rightarrow> smoke_pool \<Rightarrow> instruction list list" where
  "setup_transactions ata create_ata env wallet p =
     (let sol_mint = pubkey_lit NATIVE_SOL_MINT_S; sol_tp = pubkey_lit TOKEN_PROGRAM_S;
          user_sol_ata = ata wallet sol_mint sol_tp;
          user_meme_ata = ata wallet (sp_meme_mint p) (sp_token_program p);
          wsol_needed = (case sm_token_balance env user_sol_ata of
             Some b \<Rightarrow> case_option 0 id b < 10000000 | None \<Rightarrow> True) in
      (if wsol_needed
       then [[create_ata wallet wallet sol_mint sol_tp,
              system_transfer_ix wallet user_sol_ata 50000000,
              sync_native_ix user_sol_ata sol_tp]] else [])
      @ (if sm_token_balance env user_meme_ata = None
         then [[create_ata wallet wallet (sp_meme_mint p) (sp_token_program p)]] else []))"

section \<open>The two instructions\<close>

definition smoke_investment :: "u64 \<Rightarrow> u64" where
  "smoke_investment sol_res = f64_as_u64 (f_mul (f64_of_u64 sol_res) (to_f64 (1 / 100)))"

definition smoke_shared :: "ata_fn \<Rightarrow> pda_fn \<Rightarrow> pubkey \<Rightarrow> smoke_pool \<Rightarrow> account_meta list" where
  "smoke_shared ata pda wallet p =
     (let sol_mint = pubkey_lit NATIVE_SOL_MINT_S; sol_tp = pubkey_lit TOKEN_PROGRAM_S;
          user_sol_ata = ata wallet sol_mint sol_tp;
          user_meme_ata = ata wallet (sp_meme_mint p) (sp_token_program p) in
      [meta_new wallet True, meta_new user_sol_ata False, meta_new user_meme_ata False]
      @ smoke_buy_accounts pda ata wallet user_sol_ata user_meme_ata (sp_meme_mint p) sol_mint (sp_token_program p)
          sol_tp (sp_pool p) (sp_meta p) (pubkey_lit FEE_RECIPIENT_S))"

definition smoke_route_ix :: "ata_fn \<Rightarrow> pda_fn \<Rightarrow> pubkey \<Rightarrow> pubkey \<Rightarrow> smoke_pool \<Rightarrow> instruction" where
  "smoke_route_ix ata pda program_id wallet p =
     (let dlmm_program = pubkey_lit DLMM_PROGRAM_S;
          dummy_lb_pair = pubkey_lit ''LBUZKhRxPF3XUpBCjp4YzTKgLccjZhTSDM9YuVaPwxo'';
          oracle = pda [byte_string ''oracle'', key_bytes dummy_lb_pair] dlmm_program;
          user_sol_ata = ata wallet (pubkey_lit NATIVE_SOL_MINT_S) (pubkey_lit TOKEN_PROGRAM_S) in
      \<lparr>ix_program_id = program_id,
       ix_accounts = smoke_shared ata pda wallet p
         @ smoke_dlmm_accounts dlmm_program dummy_lb_pair dummy_lb_pair dummy_lb_pair dummy_lb_pair oracle user_sol_ata
             (pubkey_lit MEMO_PROGRAM_S) (pubkey_lit DLMM_EVENT_AUTHORITY_S) [dummy_lb_pair],
       ix_data = smoke_ix_data ROUTE_PUMP_TO_DLMM_DISC_S (smoke_investment (sp_sol_res p)) 1 1 False False
         (smoke_buy_remaining_count (sp_meta p)) 1\<rparr>)"

definition smoke_cpmm_accounts :: "ata_fn \<Rightarrow> pda_fn \<Rightarrow> pubkey \<Rightarrow> smoke_pool \<Rightarrow> account_meta list" where
  "smoke_cpmm_accounts ata pda wallet p =
     (let sol_mint = pubkey_lit NATIVE_SOL_MINT_S; sol_tp = pubkey_lit TOKEN_PROGRAM_S;
          cpmm_prog = pubkey_lit CPMM_PROGRAM_S; pool = sp_pool p;
          auth = pda [byte_string ''vault_and_lp'', key_bytes pool] cpmm_prog;
          vault_a = pda [byte_string ''pool_vault'', key_bytes pool, key_bytes (sp_meme_mint p)] cpmm_prog;
          vault_b = pda [byte_string ''pool_vault'', key_bytes pool, key_bytes sol_mint] cpmm_prog in
      [meta_readonly cpmm_prog False,
       meta_readonly auth False,
       meta_readonly (pubkey_lit CPMM_AMM_CONFIG_S) False,
       meta_new pool False,
       meta_new (ata wallet (sp_meme_mint p) (sp_token_program p)) False,
       meta_new (ata wallet sol_mint sol_tp) False,
       meta_new vault_a False,
       meta_new vault_b False,
       meta_readonly (sp_meme_mint p) False,
       meta_readonly sol_mint False,
       meta_readonly sol_tp False,
       meta_readonly sol_tp False,
       meta_readonly (pubkey_lit MEMO_PROGRAM_S) False])"

definition smoke_generic_ix :: "ata_fn \<Rightarrow> pda_fn \<Rightarrow> pubkey \<Rightarrow> pubkey \<Rightarrow> smoke_pool \<Rightarrow> instruction" where
  "smoke_generic_ix ata pda program_id wallet p =
     \<lparr>ix_program_id = program_id,
      ix_accounts = smoke_shared ata pda wallet p @ smoke_cpmm_accounts ata pda wallet p,
      ix_data = ROUTE_DISC_S @ u64_to_le 50000000 @ u64_to_le 1 @ u64_to_le 1
        @ [0, 1, smoke_buy_remaining_count (sp_meta p), 0]\<rparr>"

text \<open>The run: what goes to the endpoint, up to the first request that fails. \<open>cu_limit\<close> and \<open>cu_price\<close> are
  the SDK's compute budget instructions.\<close>

datatype smoke_act = Confirmed "instruction list" | Simulated "instruction list" | Sent "instruction list"

fun perform :: "(smoke_act \<Rightarrow> bool) \<Rightarrow> smoke_act list \<Rightarrow> smoke_act list" where
  "perform ok [] = []"
| "perform ok (a # acts) = a # (if ok a then perform ok acts else [])"

definition smoke_acts :: "ata_fn \<Rightarrow> create_ata_fn \<Rightarrow> (nat \<Rightarrow> instruction) \<Rightarrow> (nat \<Rightarrow> instruction) \<Rightarrow> pda_fn \<Rightarrow> pubkey
    \<Rightarrow> pubkey \<Rightarrow> smoke_env \<Rightarrow> smoke_pool \<Rightarrow> smoke_act list" where
  "smoke_acts ata create_ata cu_limit cu_price pda program_id wallet env p =
     (let route = smoke_route_ix ata pda program_id wallet p in
      map Confirmed (setup_transactions ata create_ata env wallet p)
      @ [Simulated [cu_limit 300000, route],
         Sent [cu_price 1000, cu_limit 300000, route],
         Simulated [cu_limit 400000, smoke_generic_ix ata pda program_id wallet p]])"

definition smoke_run :: "show_key \<Rightarrow> ata_fn \<Rightarrow> create_ata_fn \<Rightarrow> (nat \<Rightarrow> instruction) \<Rightarrow> (nat \<Rightarrow> instruction) \<Rightarrow> pda_fn \<Rightarrow> pubkey
    \<Rightarrow> pubkey \<Rightarrow> smoke_env \<Rightarrow> (smoke_act \<Rightarrow> bool) \<Rightarrow> smoke_act list client_result" where
  "smoke_run show_key ata create_ata cu_limit cu_price pda program_id wallet env ok =
     and_then (choose_smoke_pool show_key env) (\<lambda>p.
       Ok (perform ok (smoke_acts ata create_ata cu_limit cu_price pda program_id wallet env p)))"

section \<open>What the test reports\<close>

datatype smoke_report =
    Pump_cpi_failed | Bad_fee_recipient | Dlmm_cpi_failed | Zero_amount | Bad_discriminator | Bad_account_count
  | Bad_pda | Bad_program | Bad_mint | Negative_net | Program_failed | Cpmm_cpi_failed | Unknown_dex_pair | Unrecognized

definition smoke_verdict :: "string \<Rightarrow> smoke_report" where
  "smoke_verdict err_str =
     (if contains err_str ''6100'' \<or> contains err_str ''Custom(6100)'' then Pump_cpi_failed
      else if contains err_str ''6013'' \<or> contains err_str ''Custom(6013)'' \<or> contains err_str ''0x177d'' then Bad_fee_recipient
      else if contains err_str ''6200'' \<or> contains err_str ''Custom(6200)'' then Dlmm_cpi_failed
      else if contains err_str ''6002'' then Zero_amount
      else if contains err_str ''6003'' then Bad_discriminator
      else if contains err_str ''6004'' then Bad_account_count
      else if contains err_str ''6005'' then Bad_pda
      else if contains err_str ''6006'' then Bad_program
      else if contains err_str ''6007'' then Bad_mint
      else if contains err_str ''6008'' then Negative_net
      else if contains err_str ''ProgramFailedToComplete'' \<or> contains err_str ''0x0'' then Program_failed
      else Unrecognized)"

definition generic_verdict :: "string \<Rightarrow> smoke_report" where
  "generic_verdict err_str =
     (if contains err_str ''6500'' \<or> contains err_str ''Custom(6500)'' then Unknown_dex_pair
      else if contains err_str ''6004'' then Bad_account_count
      else if contains err_str ''6005'' then Bad_pda
      else if contains err_str ''6300'' \<or> contains err_str ''Custom(6300)'' then Cpmm_cpi_failed
      else if contains err_str ''6100'' \<or> contains err_str ''Custom(6100)'' then Pump_cpi_failed
      else if contains err_str ''ProgramFailedToComplete'' then Program_failed
      else Unrecognized)"

text \<open>Thirty polls; any status, a failed one included, counts as a confirmation.\<close>

definition smoke_confirmed :: "(nat \<Rightarrow> 'status option) \<Rightarrow> bool" where
  "smoke_confirmed status = list_ex (\<lambda>round. status round \<noteq> None) [0..<30]"

end
