(* ===== verification/Tool_Smoke_Properties.thy ===== *)
theory Tool_Smoke_Properties
  imports Tool_Smoke Bot_Ammv4
begin

text \<open>
  The smoke test against the bot and the program: which of its account lists are the bot's, which
  instruction passes the program's checks and which cannot.
\<close>

section \<open>The copied parts\<close>

lemma smoke_constants [simp]:
  "PUMPFUN_AMM_PROGRAM_S = PUMPFUN_AMM_PROGRAM" "ATA_PROGRAM_S = ATA_PROGRAM" "NATIVE_SOL_MINT_S = NATIVE_SOL_MINT_C"
  "PUMPSWAP_FEE_PROGRAM_S = PUMPSWAP_FEE_PROGRAM"
  "PUMPSWAP_GLOBAL_VOLUME_ACCUMULATOR_S = PUMPSWAP_GLOBAL_VOLUME_ACCUMULATOR"
  "PUMPSWAP_BUYBACK_FEE_RECIPIENT_S = PUMPSWAP_BUYBACK_FEE_RECIPIENT"
  "FEE_RECIPIENT_S = hd PUMPSWAP_PROTOCOL_FEE_RECIPIENTS"
  "ROUTE_PUMP_TO_DLMM_DISC_S = ROUTE_PUMP_TO_DLMM_DISC" "ROUTE_DISC_S = ROUTE_DISC"
  by (simp_all add: PUMPFUN_AMM_PROGRAM_S_def PUMPFUN_AMM_PROGRAM_def ATA_PROGRAM_S_def ATA_PROGRAM_def
      NATIVE_SOL_MINT_S_def NATIVE_SOL_MINT_C_def PUMPSWAP_FEE_PROGRAM_S_def PUMPSWAP_FEE_PROGRAM_def
      PUMPSWAP_GLOBAL_VOLUME_ACCUMULATOR_S_def PUMPSWAP_GLOBAL_VOLUME_ACCUMULATOR_def
      PUMPSWAP_BUYBACK_FEE_RECIPIENT_S_def PUMPSWAP_BUYBACK_FEE_RECIPIENT_def FEE_RECIPIENT_S_def
      PUMPSWAP_PROTOCOL_FEE_RECIPIENTS_def ROUTE_PUMP_TO_DLMM_DISC_S_def ROUTE_PUMP_TO_DLMM_DISC_def
      ROUTE_DISC_S_def ROUTE_DISC_def)

lemma smoke_keys [simp]:
  "DLMM_PROGRAM_S = DLMM_PROGRAM" "TOKEN_PROGRAM_S = TOKEN_PROGRAM" "MEMO_PROGRAM_S = MEMO_PROGRAM"
  "DLMM_EVENT_AUTHORITY_S = DLMM_EVENT_AUTHORITY" "CPMM_PROGRAM_S = CPMM_PROGRAM" "CPMM_AMM_CONFIG_S = CPMM_AMM_CONFIG_C"
  "pubkey_lit ''LBUZKhRxPF3XUpBCjp4YzTKgLccjZhTSDM9YuVaPwxo'' = DLMM_ID"
  using client_keys(3) [unfolded DLMM_PROGRAM_def]
  by (simp_all only: DLMM_PROGRAM_S_def DLMM_PROGRAM_def TOKEN_PROGRAM_S_def TOKEN_PROGRAM_def MEMO_PROGRAM_S_def
      MEMO_PROGRAM_def DLMM_EVENT_AUTHORITY_S_def DLMM_EVENT_AUTHORITY_def CPMM_PROGRAM_S_def CPMM_PROGRAM_def
      CPMM_AMM_CONFIG_S_def CPMM_AMM_CONFIG_C_def)

lemma smoke_copies:
  "smoke_parse_pool_meta = parse_pumpswap_pool_meta" "smoke_buy_remaining_count = pumpswap_buy_remaining_count"
  "smoke_dlmm_accounts = push_dlmm_accounts" "smoke_ix_data = build_ix_data"
  by (intro ext; simp add: smoke_parse_pool_meta_def parse_pumpswap_pool_meta_def smoke_buy_remaining_count_def
      pumpswap_buy_remaining_count_def smoke_dlmm_accounts_def push_dlmm_accounts_def smoke_ix_data_def build_ix_data_def)+

lemma smoke_addresses [simp]:
  "smoke_user_vol_accumulator = pumpswap_user_vol_accumulator"
  "smoke_coin_creator_vault_authority = pumpswap_coin_creator_vault_authority"
  "smoke_fee_config_pda = pumpswap_fee_config_pda"
  by (intro ext; simp add: smoke_user_vol_accumulator_def pumpswap_user_vol_accumulator_def
      smoke_coin_creator_vault_authority_def pumpswap_coin_creator_vault_authority_def smoke_fee_config_pda_def
      pumpswap_fee_config_pda_def)+

lemma smoke_buy_pool_v2:
  assumes "pda [PUMP_EVENT_AUTH_SEED] PUMP_SWAP_ID = pubkey_lit PUMPSWAP_EVENT_AUTHORITY"
    and "pda [PUMP_GLOBAL_CONFIG_SEED] PUMP_SWAP_ID = pubkey_lit PUMPSWAP_GLOBAL_CONFIG"
  shows "smoke_buy_accounts pda (ata_addr pda) u us um mm sm bp qp pool m
      (pick_pumpswap_protocol_fee_recipient (pm_is_mayhem_mode m))
    = (let bots = push_pumpswap_buy_accounts pda u us um mm sm bp qp pool m in
       if pm_coin_creator m = 0 then bots
       else bots[23 + of_bool (pm_is_cashback_coin m) :=
         meta_readonly (pda [byte_string ''pool_v2'', key_bytes mm] PUMP_SWAP_ID) False])"
proof -
  have k: "pubkey_lit PUMPFUN_AMM_PROGRAM = PUMP_SWAP_ID" by simp
  show ?thesis
    using assms
    by (simp add: smoke_buy_accounts_def push_pumpswap_buy_accounts_def Let_def smoke_event_authority_pda_def
        smoke_global_config_pda_def PUMP_EVENT_AUTH_SEED_def PUMP_GLOBAL_CONFIG_SEED_def SYSTEM_PROGRAM_S_def
        smoke_coin_creator_vault_ata_def pumpswap_coin_creator_vault_ata_def smoke_pool_v2_pda_def
        smoke_user_vol_accumulator_quote_ata_def pumpswap_user_vol_accumulator_quote_ata_def)
qed

lemma smoke_buy_recipient:
  "smoke_buy_accounts pda ata u us um mm sm bp qp pool m r =
     (smoke_buy_accounts pda ata u us um mm sm bp qp pool m r')[9 := meta_readonly r False, 10 := meta_new (ata r sm qp) False]"
  by (simp add: smoke_buy_accounts_def Let_def)

lemma smoke_recipient:
  "pick_pumpswap_protocol_fee_recipient False = pubkey_lit FEE_RECIPIENT_S"
  "pick_pumpswap_protocol_fee_recipient True \<noteq> pubkey_lit FEE_RECIPIENT_S"
proof -
  show "pick_pumpswap_protocol_fee_recipient False = pubkey_lit FEE_RECIPIENT_S"
    by (simp add: pick_pumpswap_protocol_fee_recipient_def PUMPSWAP_PROTOCOL_FEE_RECIPIENTS_def)
  show "pick_pumpswap_protocol_fee_recipient True \<noteq> pubkey_lit FEE_RECIPIENT_S"
    by (simp add: pick_pumpswap_protocol_fee_recipient_def PUMPSWAP_PROTOCOL_FEE_RECIPIENTS_def
        PUMPSWAP_RESERVED_FEE_RECIPIENTS_def b58_eval)
qed

text \<open>C39: The accounts the smoke test puts at the head of both instructions are the wallet with its two token
  accounts and the bot's PumpSwap section for the same pool, but for three places. For a coin with a creator the bot
  derives the pool-v2 address from a seed with a hyphen, the smoke test from one with an underscore; and for a pool
  in mayhem mode, whose fee recipient in the bot is another, the smoke test passes the usual recipient and
  its token account.\<close>

theorem smoke_section_is_the_bots:
  assumes "pda [PUMP_EVENT_AUTH_SEED] PUMP_SWAP_ID = pubkey_lit PUMPSWAP_EVENT_AUTHORITY"
    and "pda [PUMP_GLOBAL_CONFIG_SEED] PUMP_SWAP_ID = pubkey_lit PUMPSWAP_GLOBAL_CONFIG"
  shows "let ata = ata_addr pda; m = sp_meta p; mint = sp_meme_mint p; sol = NATIVE_SOL_MINT;
      us = ata wallet sol TOKEN_ID; um = ata wallet mint (sp_token_program p); usual = pubkey_lit FEE_RECIPIENT_S;
      bots = push_pumpswap_buy_accounts pda wallet us um mint sol (sp_token_program p) TOKEN_ID (sp_pool p) m;
      v2 = (if pm_coin_creator m = 0 then bots
            else bots[23 + of_bool (pm_is_cashback_coin m) :=
              meta_readonly (pda [byte_string ''pool_v2'', key_bytes mint] PUMP_SWAP_ID) False]) in
    smoke_shared ata pda wallet p = [meta_new wallet True, meta_new us False, meta_new um False] @
      (if pm_is_mayhem_mode m
       then v2[9 := meta_readonly usual False, 10 := meta_new (ata usual sol TOKEN_ID) False] else v2) \<and>
    pick_pumpswap_protocol_fee_recipient False = usual \<and> pick_pumpswap_protocol_fee_recipient True \<noteq> usual"
proof -
  let ?us = "ata_addr pda wallet NATIVE_SOL_MINT TOKEN_ID" and ?um = "ata_addr pda wallet (sp_meme_mint p) (sp_token_program p)"
  note bots = smoke_buy_pool_v2 [of pda, OF assms, of wallet ?us ?um "sp_meme_mint p" NATIVE_SOL_MINT "sp_token_program p" TOKEN_ID
      "sp_pool p" "sp_meta p"]
  show ?thesis
  proof (cases "pm_is_mayhem_mode (sp_meta p)")
    case False
    with bots smoke_recipient show ?thesis by (simp add: smoke_shared_def Let_def)
  next
    case True
    note r = smoke_buy_recipient [of pda "ata_addr pda" wallet ?us ?um "sp_meme_mint p" NATIVE_SOL_MINT "sp_token_program p"
        TOKEN_ID "sp_pool p" "sp_meta p" "pubkey_lit FEE_RECIPIENT_S" "pick_pumpswap_protocol_fee_recipient True"]
    have "smoke_shared (ata_addr pda) pda wallet p = [meta_new wallet True, meta_new ?us False, meta_new ?um False] @
      smoke_buy_accounts pda (ata_addr pda) wallet ?us ?um (sp_meme_mint p) NATIVE_SOL_MINT (sp_token_program p) TOKEN_ID
        (sp_pool p) (sp_meta p) (pubkey_lit FEE_RECIPIENT_S)" by (simp add: smoke_shared_def Let_def)
    moreover have "smoke_buy_accounts pda (ata_addr pda) wallet ?us ?um (sp_meme_mint p) NATIVE_SOL_MINT (sp_token_program p)
        TOKEN_ID (sp_pool p) (sp_meta p) (pick_pumpswap_protocol_fee_recipient True) =
      smoke_buy_accounts pda (ata_addr pda) wallet ?us ?um (sp_meme_mint p) NATIVE_SOL_MINT (sp_token_program p) TOKEN_ID
        (sp_pool p) (sp_meta p) (pick_pumpswap_protocol_fee_recipient (pm_is_mayhem_mode (sp_meta p)))" using True by simp
    ultimately have "smoke_shared (ata_addr pda) pda wallet p = [meta_new wallet True, meta_new ?us False, meta_new ?um False] @
      (let bots = push_pumpswap_buy_accounts pda wallet ?us ?um (sp_meme_mint p) NATIVE_SOL_MINT (sp_token_program p) TOKEN_ID
           (sp_pool p) (sp_meta p) in
       if pm_coin_creator (sp_meta p) = 0 then bots
       else bots[23 + of_bool (pm_is_cashback_coin (sp_meta p)) :=
         meta_readonly (pda [byte_string ''pool_v2'', key_bytes (sp_meme_mint p)] PUMP_SWAP_ID) False])
       [9 := meta_readonly (pubkey_lit FEE_RECIPIENT_S) False,
        10 := meta_new (ata_addr pda (pubkey_lit FEE_RECIPIENT_S) NATIVE_SOL_MINT TOKEN_ID) False]"
      by (simp only: r bots)
    then show ?thesis using True smoke_recipient by (simp only: Let_def if_True simp_thms)
  qed
qed

lemma length_smoke_buy:
  "length (smoke_buy_accounts pda ata u us um mm sm bp qp pool m r) = 23 + unat (pumpswap_buy_remaining_count m)"
  by (simp add: smoke_buy_accounts_def Let_def remaining_counts)

lemma smoke_pump_known:
  assumes "length pre = base"
  shows "pump_section_known pda (load_accounts owner (pre @ smoke_buy_accounts pda ata u us um mm
      NATIVE_SOL_MINT bp TOKEN_ID pool m r @ post)) base 21 22"
    and "pumpswap_validate_section pda (load_accounts owner (pre @ smoke_buy_accounts pda ata u us um mm
      NATIVE_SOL_MINT bp TOKEN_ID pool m r @ post)) base n = Ok ()"
    and "from_program_id pool = None \<Longrightarrow> identify_dex (load_accounts owner (pre @ smoke_buy_accounts pda ata u us um mm
      NATIVE_SOL_MINT bp TOKEN_ID pool m r @ post)) base = Some PumpSwap"
proof -
  let ?b = "smoke_buy_accounts pda ata u us um mm NATIVE_SOL_MINT bp TOKEN_ID pool m r"
  have b: "(pre @ ?b @ post) ! (base + k) = ?b ! k" if "k < 23" for k
    using that assms nth_section [of pre base k ?b post] by (simp add: length_smoke_buy)
  have first: "(pre @ ?b @ post) ! base = ?b ! 0" using b [of 0] by simp
  note defs = smoke_event_authority_pda_def smoke_global_config_pda_def PUMP_EVENT_AUTH_SEED_def
    PUMP_GLOBAL_CONFIG_SEED_def PUMP_FEE_CONFIG_SEED_def pumpswap_fee_config_pda_def SYSTEM_PROGRAM_S_def
  show "pump_section_known pda (load_accounts owner (pre @ ?b @ post)) base 21 22"
    using b [of 16] b [of 4] b [of 12] b [of 13] b [of 14] b [of 22] b [of 15] b [of 2] b [of 21] assms
    by (simp add: pump_section_known_def length_smoke_buy)
      (simp add: smoke_buy_accounts_def Let_def nth_append defs)
  show "pumpswap_validate_section pda (load_accounts owner (pre @ ?b @ post)) base n = Ok ()"
    using b [of 16] b [of 2] b [of 15] assms
    by (simp add: pumpswap_validate_Ok_iff length_smoke_buy)
      (simp add: smoke_buy_accounts_def Let_def nth_append defs)
  show "identify_dex (load_accounts owner (pre @ ?b @ post)) base = Some PumpSwap" if "from_program_id pool = None"
    using b [of 16] first assms that
    by (simp add: identify_dex_def length_smoke_buy)
      (simp add: smoke_buy_accounts_def Let_def nth_append from_program_id_def)
qed

section \<open>The fixed route\<close>

lemma smoke_investment_pos:
  assumes "100000 < sol_res"
  shows "smoke_investment sol_res \<noteq> 0"
proof -
  have n: "100000 \<le> unat sol_res" using assms by (simp add: word_less_nat_alt)
  let ?c = "rnd (1 / 100 :: rat)" and ?n = "of_nat (unat sol_res) :: rat"
  have c: "1 / 128 \<le> ?c" "?c \<le> 1"
    using rnd_ge [of "1 / 128" "1 / 100"] rnd_le [of "1 / 100" 1] representable_powi [of "- 7"] representable_of_int [of 1]
    by (simp_all add: power_int_minus_divide)
  have r: "1000 \<le> rnd ?n" "rnd ?n \<le> 2 powi 64"
  proof -
    show "1000 \<le> rnd ?n" using n representable_of_int [of 1000] by (intro rnd_ge) (simp_all del: of_nat_unat)
    have "?n \<le> of_nat (2 ^ 64)" unfolding of_nat_le_iff using unat_u64_bound [of sol_res] by simp
    then show "rnd ?n \<le> 2 powi 64"
      using representable_powi [of 64] by (intro rnd_le) (simp_all add: power_int_def del: of_nat_unat)
  qed
  have lit: "to_f64 (1 / 100) = Fin ?c" by (rule to_f64_Fin [of _ 1]) (use representable_of_int [of 1] in simp_all)
  have prod: "1 \<le> rnd ?n * ?c" "rnd ?n * ?c \<le> 2 powi 64"
    using mult_mono [OF r(1) c(1)] mult_mono [OF r(2) c(2)] r c by simp_all
  then have f: "to_f64 (rnd ?n * ?c) = Fin (rnd (rnd ?n * ?c))"
    using representable_powi [of 64] by (intro to_f64_Fin [of _ "2 powi 64"]) (simp_all add: abs_of_nonneg)
  have "1 \<le> rnd (rnd ?n * ?c)" using prod(1) representable_of_int [of 1] by (intro rnd_ge) simp_all
  then have "1 \<le> f64_to_nat (2 ^ 64 - 1) (Fin (rnd (rnd ?n * ?c)))" by (simp add: le_nat_iff le_floor_iff)
  then have "1 \<le> unat (smoke_investment sol_res)"
    by (simp add: smoke_investment_def unat_f64_as_u64 f64_of_u64_Fin lit f del: f64_to_nat.simps of_nat_unat)
  then show ?thesis by auto
qed

text \<open>With a pool the smoke test accepts, its instruction for the fixed route passes every check of the
  program, which runs the two legs with a hundredth of the reserve, not zero, and demands of one.\<close>

lemma smoke_route_runs:
  assumes "choose_smoke_pool show_key env = Ok p"
  shows "let ix = smoke_route_ix ata pda program_id wallet p; accounts = load_accounts owner (ix_accounts ix);
      params = route_ix_of (ix_data ix) in
    process_instruction pda cpi program_id accounts (ix_data ix) l = pump_to_dlmm_legs cpi accounts params l \<and>
    rx_amount_in params = smoke_investment (sp_sol_res p) \<and> rx_amount_in params \<noteq> 0 \<and>
    rx_min_profit params = 1 \<and> rx_min_intermediate params = 1"
proof -
  have "100000 < sp_sol_res p"
    using assms by (auto simp: choose_smoke_pool_def and_then_Ok_iff Let_def split: if_splits)
  then have pos: "smoke_investment (sp_sol_res p) \<noteq> 0" by (rule smoke_investment_pos)
  let ?ix = "smoke_route_ix ata pda program_id wallet p"
  let ?a = "load_accounts owner (ix_accounts ?ix)" and ?r = "unat (pumpswap_buy_remaining_count (sp_meta p))"
  let ?us = "ata wallet NATIVE_SOL_MINT TOKEN_ID" and ?um = "ata wallet (sp_meme_mint p) (sp_token_program p)"
  let ?shared = "[meta_new wallet True, meta_new ?us False, meta_new ?um False]"
  let ?buy = "smoke_buy_accounts pda ata wallet ?us ?um (sp_meme_mint p) NATIVE_SOL_MINT (sp_token_program p) TOKEN_ID
    (sp_pool p) (sp_meta p) (pubkey_lit FEE_RECIPIENT_S)"
  have accs: "ix_accounts ?ix = ?shared @ ?buy
      @ push_dlmm_accounts DLMM_ID DLMM_ID DLMM_ID DLMM_ID DLMM_ID (pda [byte_string ''oracle'', key_bytes DLMM_ID] DLMM_ID)
          ?us MEMO_ID DLMM_EVENT_AUTH [DLMM_ID]"
    by (simp add: smoke_route_ix_def smoke_shared_def Let_def smoke_copies)
  have data: "ix_data ?ix = build_ix_data ROUTE_PUMP_TO_DLMM_DISC (smoke_investment (sp_sol_res p)) 1 1 False False
      (pumpswap_buy_remaining_count (sp_meta p)) 1"
    by (simp add: smoke_route_ix_def Let_def smoke_copies)
  note parsed = built_ix_data [OF disc_length(1), of "smoke_investment (sp_sol_res p)" 1 1 False False
      "pumpswap_buy_remaining_count (sp_meta p)" 1, folded data]
  have len: "length (ix_accounts ?ix) = 36 + ?r" by (simp add: accs length_smoke_buy)
  have counts: "counts_ok (route_ix_of (ix_data ?ix))"
    using pos by (simp add: counts_ok_def parsed(3) remaining_counts)
  have "pump_section_known pda ?a 3 21 22"
    using smoke_pump_known(1) [of ?shared 3] by (simp add: accs)
  moreover have "dlmm_section_known pda ?a (26 + ?r)"
    using client_dlmm_known [of "?shared @ ?buy" "26 + ?r" pda owner DLMM_ID DLMM_ID DLMM_ID DLMM_ID ?us "[DLMM_ID]" "[]"]
    by (simp add: accs length_smoke_buy)
  moreover have "acc_is_signer (?a ! 0)" by (rule user_signs) (simp add: accs)
  ultimately have "pump_to_dlmm_checks pda ?a 3 (26 + ?r) = Ok ()"
    by (subst pump_to_dlmm_checks_Ok_iff) (auto simp: len)
  then show ?thesis
    using counts pos len by (simp add: process_eq parsed pump_to_dlmm_eq Let_def)
qed

section \<open>The generic route\<close>

lemma unknown_code: "generic_verdict ''InstructionError(1, Custom(6006))'' = Unrecognized"
  by code_simp

text \<open>C40: The instruction for the generic route never gets to an invocation: its CPMM section names the PumpSwap
  pool as the pool state, which the CPMM program does not own, so the program answers \<open>ARB_BAD_PROGRAM\<close>;
  the test's report does not know that code.\<close>

theorem smoke_generic_refused:
  assumes "owner (sp_pool p) \<noteq> CPMM_ID" and "from_program_id (sp_pool p) = None"
  shows "let ix = smoke_generic_ix ata pda program_id wallet p in
    process_instruction pda cpi program_id (load_accounts owner (ix_accounts ix)) (ix_data ix) l
      = Err (arb_err ARB_BAD_PROGRAM) \<and>
    generic_verdict ''InstructionError(1, Custom(6006))'' = Unrecognized"
proof -
  let ?ix = "smoke_generic_ix ata pda program_id wallet p"
  let ?a = "load_accounts owner (ix_accounts ?ix)" and ?r = "unat (pumpswap_buy_remaining_count (sp_meta p))"
  let ?us = "ata wallet NATIVE_SOL_MINT TOKEN_ID" and ?um = "ata wallet (sp_meme_mint p) (sp_token_program p)"
  let ?shared = "[meta_new wallet True, meta_new ?us False, meta_new ?um False]"
  let ?buy = "smoke_buy_accounts pda ata wallet ?us ?um (sp_meme_mint p) NATIVE_SOL_MINT (sp_token_program p) TOKEN_ID
    (sp_pool p) (sp_meta p) (pubkey_lit FEE_RECIPIENT_S)"
  let ?cpmm = "smoke_cpmm_accounts ata pda wallet p"
  have accs: "ix_accounts ?ix = ?shared @ ?buy @ ?cpmm"
    by (simp add: smoke_generic_ix_def smoke_shared_def Let_def)
  have len: "length ?cpmm = 13" by (simp add: smoke_cpmm_accounts_def Let_def)
  have data: "ix_data ?ix = build_ix_data ROUTE_DISC 50000000 1 1 False True (pumpswap_buy_remaining_count (sp_meta p)) 0"
    by (simp add: smoke_generic_ix_def smoke_copies build_ix_data_def)
  note parsed = built_ix_data [OF disc_length(3), of 50000000 1 1 False True
      "pumpswap_buy_remaining_count (sp_meta p)" 0, folded data]
  have buy: "identify_dex ?a 3 = Some PumpSwap" "pumpswap_validate_section pda ?a 3 ?r = Ok ()"
    using smoke_pump_known(2,3) [of ?shared 3] assms(2) by (simp_all add: accs)
  have slots: "(?shared @ ?buy @ ?cpmm) ! (26 + ?r + k) = ?cpmm ! k" if "k < 13" for k
    using nth_section [of "?shared @ ?buy" "26 + ?r" k ?cpmm "[]"] that len by (simp add: length_smoke_buy)
  have sell: "identify_dex ?a (26 + ?r) = Some Cpmm"
    using slots [of 0]
    by (simp add: identify_dex_def accs length_smoke_buy len)
      (simp add: smoke_cpmm_accounts_def Let_def from_program_id_def)
  have "cpmm_validate_section pda ?a (26 + ?r) 0 = Err (arb_err ARB_BAD_PROGRAM)"
    using slots [of 0] slots [of 1] slots [of 2] slots [of 3] slots [of 10] slots [of 11] slots [of 12] assms(1)
    by (simp add: cpmm_validate_section_def require_key_def require_owner_def require_derived_def require_token_program_def
        idx_def accs length_smoke_buy len)
      (simp add: smoke_cpmm_accounts_def Let_def CPMM_AUTH_SEED_def fail_if_def)
  moreover have "acc_is_signer (?a ! 0)" by (rule user_signs) (simp add: accs)
  ultimately show ?thesis
    using buy sell len unknown_code
    by (simp add: process_eq parsed orchestrate_handle_def Let_def parse_ix_eq accs length_smoke_buy require_signer_def idx_def)
qed

section \<open>Examples\<close>

definition mayhem_pool :: smoke_pool where
  "mayhem_pool = \<lparr>sp_pool = 107, sp_meme_mint = 103, sp_sol_res = 200000, sp_meta = demo_meta\<lparr>pm_is_mayhem_mode := True\<rparr>,
     sp_token_program = TOKEN_ID\<rparr>"

theorem smoke_section_is_the_bots_witness:
  "\<exists>us um bots. smoke_shared (ata_addr pump_pda) pump_pda 100 mayhem_pool =
     [meta_new 100 True, meta_new us False, meta_new um False] @
     bots[24 := meta_readonly (pump_pda [byte_string ''pool_v2'', key_bytes 103] PUMP_SWAP_ID) False,
       9 := meta_readonly (pubkey_lit FEE_RECIPIENT_S) False,
       10 := meta_new (ata_addr pump_pda (pubkey_lit FEE_RECIPIENT_S) NATIVE_SOL_MINT TOKEN_ID) False] \<and>
   bots = push_pumpswap_buy_accounts pump_pda 100 us um 103 NATIVE_SOL_MINT TOKEN_ID TOKEN_ID 107 (sp_meta mayhem_pool)"
proof -
  have m: "pm_is_mayhem_mode (sp_meta mayhem_pool)" "pm_coin_creator (sp_meta mayhem_pool) \<noteq> 0"
    "pm_is_cashback_coin (sp_meta mayhem_pool)" "sp_pool mayhem_pool = 107" "sp_meme_mint mayhem_pool = 103"
    "sp_token_program mayhem_pool = TOKEN_ID"
    by (simp_all add: mayhem_pool_def demo_meta_def)
  show ?thesis
    using smoke_section_is_the_bots [of pump_pda, OF pump_pda_facts, of mayhem_pool 100] m
    unfolding Let_def
    by (intro exI [of _ "ata_addr pump_pda 100 NATIVE_SOL_MINT TOKEN_ID"] exI [of _ "ata_addr pump_pda 100 103 TOKEN_ID"])
      (simp del: smoke_constants)
qed

text \<open>An endpoint with one pool, all of whose bytes are one.\<close>

definition smoke_demo_env :: smoke_env where
  "smoke_demo_env = \<lparr>sm_balance = Some 1000000, sm_by_size = \<lambda>_. Some [(TOKEN_ID, replicate 245 1)], sm_all = None,
     sm_account = \<lambda>_. Some \<lparr>on_owner = TOKEN_ID, on_data = replicate 245 1\<rparr>,
     sm_token_balance = \<lambda>_. Some (Some 200000)\<rparr>"

lemma to_le_zero: "to_le n 0 = replicate n 0"
  by (induction n) simp_all

lemma smoke_demo_pool:
  "\<exists>p. choose_smoke_pool (\<lambda>_. NATIVE_SOL_MINT_S) smoke_demo_env = Ok p \<and> sp_pool p = TOKEN_ID \<and> sp_sol_res p = 200000"
proof -
  have "key_bytes (key_of_bytes (replicate 32 1)) ! 0 \<noteq> key_bytes 0 ! 0"
    by (subst key_bytes_of) (simp_all add: key_bytes_def to_le_zero)
  then have "key_of_bytes (replicate 32 1) \<noteq> 0" by metis
  then show ?thesis
    by (simp add: choose_smoke_pool_def smoke_demo_env_def smoke_candidates_def find_smoke_pool_def usable_candidate_def
        sub_bytes_def smoke_parse_pool_meta_def Let_def)
qed

theorem smoke_generic_refused_witness:
  "\<exists>p. choose_smoke_pool (\<lambda>_. NATIVE_SOL_MINT_S) smoke_demo_env = Ok p \<and>
    (let ix = smoke_generic_ix (ata_addr pump_pda) pump_pda 0 100 p in
     process_instruction pump_pda demo_cpi 0 (load_accounts (\<lambda>_. PUMP_SWAP_ID) (ix_accounts ix)) (ix_data ix) demo_ledger
       = Err (arb_err ARB_BAD_PROGRAM))"
proof -
  obtain p where p: "choose_smoke_pool (\<lambda>_. NATIVE_SOL_MINT_S) smoke_demo_env = Ok p" "sp_pool p = TOKEN_ID"
    using smoke_demo_pool by blast
  have "from_program_id (sp_pool p) = None" using program_keys_distinct by (auto simp: p(2) from_program_id_def)
  with smoke_generic_refused [of "\<lambda>_. PUMP_SWAP_ID" p] p(1) show ?thesis by (auto simp: Let_def)
qed

end
