(* ===== verification/Tool_Whitelist.thy ===== *)
theory Tool_Whitelist
  imports Bot_Discovery
begin

text \<open>
  The scoring tool \<open>bin/score_whitelist.rs\<close>: it reads the pool tables, counts per token the kinds of
  pools it has, and writes the tokens with two or more of them into the whitelist table. A \<open>BTreeMap\<close> is
  the list of its entries in the order of the keys; rows that cannot be read are left out of the lists.
  Printed text is left out.
\<close>

section \<open>Tokens\<close>

definition USDC_MINT_W :: string where
  "USDC_MINT_W = ''EPjFWdd5AufqSSqeM2qN1xzybapC8G4wEGGkZwyTDt1v''"

definition SOL_MINT_W :: string where
  "SOL_MINT_W = ''So11111111111111111111111111111111111111112''"

record token_quality =
  tq_dexes :: "string set"
  tq_has_usdc :: bool
  tq_has_sol :: bool
  tq_est_sol_liquidity :: f64

definition token_quality_default :: token_quality where
  "token_quality_default = \<lparr>tq_dexes = {}, tq_has_usdc = False, tq_has_sol = False, tq_est_sol_liquidity = Fin 0\<rparr>"

text \<open>\<open>entry(k).or_default()\<close> followed by a change of the value.\<close>

fun btree_modify :: "'k :: linorder \<Rightarrow> 'v \<Rightarrow> ('v \<Rightarrow> 'v) \<Rightarrow> ('k \<times> 'v) list \<Rightarrow> ('k \<times> 'v) list" where
  "btree_modify k d f [] = [(k, f d)]"
| "btree_modify k d f ((k', v) # es) =
     (if k = k' then (k, f v) # es
      else if k < k' then (k, f d) # (k', v) # es
      else (k', v) # btree_modify k d f es)"

definition note_pool :: "string \<Rightarrow> string \<Rightarrow> token_quality \<Rightarrow> token_quality" where
  "note_pool dex other t =
     t\<lparr>tq_dexes := insert dex (tq_dexes t),
       tq_has_usdc := tq_has_usdc t \<or> other = USDC_MINT_W,
       tq_has_sol := tq_has_sol t \<or> other = SOL_MINT_W\<rparr>"

definition add_pair :: "string \<Rightarrow> string \<times> string \<Rightarrow> (string \<times> token_quality) list \<Rightarrow> (string \<times> token_quality) list" where
  "add_pair dex pair tokens =
     (let (a, b) = pair in
      btree_modify b token_quality_default (note_pool dex a) (btree_modify a token_quality_default (note_pool dex b) tokens))"

definition aggregate :: "(string \<times> string) list \<Rightarrow> (string \<times> string) list \<Rightarrow> (string \<times> string) list
    \<Rightarrow> (string \<times> token_quality) list" where
  "aggregate dlmm_pairs cpmm_pairs whirlpool_pairs =
     fold (add_pair ''whirlpool'') whirlpool_pairs
       (fold (add_pair ''cpmm'') cpmm_pairs (fold (add_pair ''dlmm'') dlmm_pairs []))"

definition known_quotes :: "string list" where
  "known_quotes =
    [USDC_MINT_W, SOL_MINT_W,
     ''Es9vMFrzaCERmJfrF4H2FYD4KCoNkY11McCe8BenwNYB'',
     ''mSoLzYCxHdYgdzU16g5QSh3i5K3z3KZK7ytfqcJm7So'',
     ''jupSoLaHXQiZZTSfEWMTRRgpnyFm8f6sZdoWBne6z4C'',
     ''bSo13r4TkiE4KemLckMK7bpP3HRtxJiNVhWHfzCNY5Z'',
     ''J1toso1uCk3RLmjorhTtrVwY9HJ7X8V9yYac6Y7kGCP'',
     ''7Q2afV64in6N4SeZfkktT714EbK1DBhaRkNHZMTBA9Re'',
     ''DezXAZ8z7PnrnRjz3wXBoRgixCa6xjnB7YaB1pPB263'',
     ''EKpQGSJtjMFqKZ9KQanSqYXRcF8fBopzLHYxdM65zcjm'']"

section \<open>Scores\<close>

text \<open>The score is at most 50, so its 32 bits are a natural number.\<close>

definition token_score :: "token_quality \<Rightarrow> nat" where
  "token_score q =
     (let dex_count = card (tq_dexes q);
          usdc_bonus = (if tq_has_usdc q then 15 else 0);
          sol_bonus = (if tq_has_sol q then 5 else 0) in
      dex_count * 10 + usdc_bonus + sol_bonus)"

definition scored_tokens :: "(string \<times> token_quality) list \<Rightarrow> (string \<times> nat \<times> f64 \<times> bool) list" where
  "scored_tokens tokens =
     sort_key (\<lambda>(_, score, _). - int score)
       (map (\<lambda>(mint, q). (mint, token_score q, tq_est_sol_liquidity q, tq_has_usdc q))
         (filter (\<lambda>(mint, q). mint \<notin> set known_quotes \<and> \<not> card (tq_dexes q) < 2) tokens))"

section \<open>The table\<close>

definition TOP_N :: nat where
  "TOP_N = 200"

text \<open>\<open>INSERT OR REPLACE\<close> for each token; \<open>ok\<close> says for each whether the statement succeeded.\<close>

definition write_scored :: "(string \<Rightarrow> bool) \<Rightarrow> (string \<times> nat \<times> f64 \<times> bool) list \<Rightarrow> whitelist_rows \<Rightarrow> nat \<times> whitelist_rows" where
  "write_scored ok scored db =
     fold (\<lambda>(i, mint, _) (upserted, rows).
         (let category = (if i < TOP_N then ''verified'' else ''verified'') in
          if ok mint then (upserted + 1, upsert_row True mint category rows) else (upserted, rows)))
       (enumerate 0 scored) (0, db)"

definition score_whitelist :: "(string \<Rightarrow> bool) \<Rightarrow> (string \<times> string) list \<Rightarrow> (string \<times> string \<times> string) list
    \<Rightarrow> (string \<times> string \<times> string) list \<Rightarrow> whitelist_rows \<Rightarrow> nat \<times> whitelist_rows" where
  "score_whitelist ok dlmm_pairs cpmm_pools whirlpool_pools db =
     (let pair = (\<lambda>(a, b, _). (a, b));
          tokens = aggregate dlmm_pairs (map pair cpmm_pools) (map pair whirlpool_pools) in
      write_scored ok (scored_tokens tokens) db)"

section \<open>What is written\<close>

definition pair_mints :: "(string \<times> string) list \<Rightarrow> string set" where
  "pair_mints pairs = (\<Union>(a, b) \<in> set pairs. {a, b})"

lemma map_of_modify:
  assumes "sorted (map fst es)"
  shows "map_of (btree_modify k d f es) = (map_of es)(k \<mapsto> f (case_option d id (map_of es k)))"
  using assms
proof (induction k d f es rule: btree_modify.induct)
  case (2 k d f k' v es)
  have "map_of es k = None" if "k < k'"
    using that 2(2) by (fastforce simp: map_of_eq_None_iff)
  then show ?case using 2 by (auto simp: fun_eq_iff)
qed simp

lemma keys_modify: "set (map fst (btree_modify k d f es)) = insert k (set (map fst es))"
  by (induction k d f es rule: btree_modify.induct) auto

lemma sorted_modify: "sorted (map fst es) \<Longrightarrow> distinct (map fst es) \<Longrightarrow>
    sorted (map fst (btree_modify k d f es)) \<and> distinct (map fst (btree_modify k d f es))"
proof (induction k d f es rule: btree_modify.induct)
  case (2 k d f k' v es)
  then show ?case using keys_modify [of k d f es] by (auto simp: not_less)
qed simp

definition dexes_of :: "(string \<times> token_quality) list \<Rightarrow> string \<Rightarrow> string set" where
  "dexes_of tokens m = (case map_of tokens m of None \<Rightarrow> {} | Some q \<Rightarrow> tq_dexes q)"

definition btree :: "('k :: linorder \<times> 'v) list \<Rightarrow> bool" where
  "btree es \<longleftrightarrow> sorted (map fst es) \<and> distinct (map fst es)"

lemma btree_modify: "btree es \<Longrightarrow> btree (btree_modify k d f es)"
  by (simp add: btree_def sorted_modify)

lemma dexes_modify:
  "btree es \<Longrightarrow> dexes_of (btree_modify k token_quality_default (note_pool dex other) es) m
     = (if m = k then insert dex (dexes_of es m) else dexes_of es m)"
  by (auto simp: btree_def dexes_of_def map_of_modify note_pool_def token_quality_default_def split: option.splits)

lemma add_pair_facts:
  assumes "btree es"
  shows "btree (add_pair dex p es)"
    and "dexes_of (add_pair dex p es) m = dexes_of es m \<union> (if m \<in> pair_mints [p] then {dex} else {})"
  using assms by (cases p; auto simp: add_pair_def btree_modify dexes_modify pair_mints_def)+

lemma add_pairs_facts:
  assumes "btree es"
  shows "btree (fold (add_pair dex) ps es)"
    and "dexes_of (fold (add_pair dex) ps es) m = dexes_of es m \<union> (if m \<in> pair_mints ps then {dex} else {})"
proof -
  have "btree (fold (add_pair dex) ps es)
      \<and> dexes_of (fold (add_pair dex) ps es) m = dexes_of es m \<union> (if m \<in> pair_mints ps then {dex} else {})"
    using assms
    by (induction ps arbitrary: es) (auto simp: add_pair_facts pair_mints_def)
  then show "btree (fold (add_pair dex) ps es)"
    "dexes_of (fold (add_pair dex) ps es) m = dexes_of es m \<union> (if m \<in> pair_mints ps then {dex} else {})"
    by auto
qed

text \<open>The kinds of pools, of the three counted, that hold a token.\<close>

definition pool_kinds :: "(string \<times> string) list \<Rightarrow> (string \<times> string) list \<Rightarrow> (string \<times> string) list \<Rightarrow> string \<Rightarrow> nat" where
  "pool_kinds dlmm cpmm whirlpool m = length (filter (\<lambda>ps. m \<in> pair_mints ps) [dlmm, cpmm, whirlpool])"

lemma aggregate_facts:
  "btree (aggregate d c w)" "card (dexes_of (aggregate d c w) m) = pool_kinds d c w m"
proof -
  have e: "btree []" "dexes_of [] m = {}" by (simp_all add: btree_def dexes_of_def)
  show "btree (aggregate d c w)" unfolding aggregate_def by (intro add_pairs_facts e)
  show "card (dexes_of (aggregate d c w) m) = pool_kinds d c w m"
    unfolding aggregate_def
    by (simp add: add_pairs_facts e pool_kinds_def)
qed

definition tradable_tokens :: "(string \<times> string) list \<Rightarrow> (string \<times> string) list \<Rightarrow> (string \<times> string) list \<Rightarrow> string set" where
  "tradable_tokens d c w = {m. m \<notin> set known_quotes \<and> 2 \<le> pool_kinds d c w m}"

lemma scored_mints:
  "set (map fst (scored_tokens (aggregate d c w))) = tradable_tokens d c w"
  "distinct (map fst (scored_tokens (aggregate d c w)))"
proof -
  let ?es = "aggregate d c w"
  have dist: "distinct (map fst ?es)" using aggregate_facts(1) [of d c w] by (simp add: btree_def)
  have entry: "(m, q) \<in> set ?es \<longleftrightarrow> map_of ?es m = Some q" for m q
    using dist by (simp add: map_of_eq_Some_iff)
  show "set (map fst (scored_tokens ?es)) = tradable_tokens d c w"
  proof (intro set_eqI iffI)
    fix m assume "m \<in> set (map fst (scored_tokens ?es))"
    then obtain q where q: "(m, q) \<in> set ?es" "m \<notin> set known_quotes" "2 \<le> card (tq_dexes q)"
      by (auto simp: scored_tokens_def)
    then have "dexes_of ?es m = tq_dexes q" by (simp add: entry dexes_of_def)
    then show "m \<in> tradable_tokens d c w"
      using q aggregate_facts(2) [of d c w m] by (simp add: tradable_tokens_def)
  next
    fix m assume "m \<in> tradable_tokens d c w"
    then have m: "m \<notin> set known_quotes" "2 \<le> card (dexes_of ?es m)" by (simp_all add: tradable_tokens_def aggregate_facts)
    then obtain q where "map_of ?es m = Some q" "dexes_of ?es m = tq_dexes q"
      by (auto simp: dexes_of_def split: option.splits)
    then show "m \<in> set (map fst (scored_tokens ?es))"
      using m by (force simp: scored_tokens_def simp flip: entry)
  qed
  let ?kept = "filter (\<lambda>(mint, q). mint \<notin> set known_quotes \<and> \<not> card (tq_dexes q) < 2) ?es"
  have "mset (map fst (scored_tokens ?es)) = mset (map fst ?kept)"
    by (simp add: scored_tokens_def image_mset.compositionality comp_def case_prod_beta)
  moreover have "distinct (map fst ?kept)" using dist by (rule distinct_map_filter)
  ultimately show "distinct (map fst (scored_tokens ?es))" by (metis mset_eq_imp_distinct_iff)
qed

lemma write_scored_all:
  "fst (write_scored (\<lambda>_. True) scored db) = length scored"
  "set (snd (write_scored (\<lambda>_. True) scored db)) =
     {r \<in> set db. fst r \<notin> set (map fst scored)} \<union> {(m, ''verified'') |m. m \<in> set (map fst scored)}"
proof -
  have "fst (fold (\<lambda>(i, mint, _) (n, rows). (n + 1, upsert_row True mint ''verified'' rows)) (enumerate k scored) (j, db))
       = j + length scored \<and>
     set (snd (fold (\<lambda>(i, mint, _) (n, rows). (n + 1, upsert_row True mint ''verified'' rows)) (enumerate k scored) (j, db)))
       = {r \<in> set db. fst r \<notin> set (map fst scored)} \<union> {(m, ''verified'') |m. m \<in> set (map fst scored)}" for k j
  proof (induction scored arbitrary: k j db)
    case (Cons x scored)
    obtain m rest where x: "x = (m, rest)" by (cases x)
    have "set (upsert_row True m ''verified'' db) = {r \<in> set db. fst r \<noteq> m} \<union> {(m, ''verified'')}"
      by (auto simp: upsert_row_def)
    then show ?case using Cons [of "Suc k" "j + 1" "upsert_row True m ''verified'' db"] by (simp add: x) (fastforce simp: image_iff)
  qed simp
  from this [of 0 0] show
    "fst (write_scored (\<lambda>_. True) scored db) = length scored"
    "set (snd (write_scored (\<lambda>_. True) scored db)) =
       {r \<in> set db. fst r \<notin> set (map fst scored)} \<union> {(m, ''verified'') |m. m \<in> set (map fst scored)}"
    by (simp_all add: write_scored_def)
qed

text \<open>A run of the tool writes exactly the tokens that two of the three pool tables name, the known quotes
  excepted, and forgets what the table said of them: a profitable token is only verified again, and a
  blacklisted one is traded.\<close>

lemma rescoring_resets_categories:
  "let pairs = map (\<lambda>(a, b, _). (a, b)); scored = tradable_tokens dlmm (pairs cpmm) (pairs whirlpool);
       (upserted, db') = score_whitelist (\<lambda>_. True) dlmm cpmm whirlpool db;
       before = whitelist_load db; after = whitelist_load db' in
     upserted = card scored \<and>
     wl_profitable after = wl_profitable before - scored \<and>
     wl_blacklisted after = wl_blacklisted before - scored \<and>
     wl_verified after = wl_verified before \<union> scored"
proof -
  let ?pairs = "map (\<lambda>(a, b, _ :: string). (a, b :: string))"
  let ?s = "tradable_tokens dlmm (?pairs cpmm) (?pairs whirlpool)"
  let ?w = "score_whitelist (\<lambda>_. True) dlmm cpmm whirlpool db"
  note facts = scored_mints [of dlmm "?pairs cpmm" "?pairs whirlpool"]
  have "fst ?w = card ?s"
    using distinct_card [OF facts(2)] by (simp add: score_whitelist_def Let_def write_scored_all flip: facts(1))
  moreover have rows: "set (snd ?w) = {r \<in> set db. fst r \<notin> ?s} \<union> {(m, ''verified'') |m. m \<in> ?s}"
    by (simp add: score_whitelist_def Let_def write_scored_all flip: facts(1))
  ultimately show ?thesis
    unfolding Let_def by (auto simp: case_prod_beta whitelist_load_sets rows)
qed

end
