(* ===== verification/Tool_Bench.thy ===== *)
theory Tool_Bench
  imports Bot_Scanner
begin

text \<open>
  The two timing tools: \<open>bin/signal_race.rs\<close>, which matches the signatures two streams deliver, and
  \<open>bin/bench_latency.rs\<close>, which compares the arrival at three endpoints and times the RPC. Times are
  given with each delivery; what is logged is left out.
\<close>

section \<open>The race of two streams\<close>

datatype race_source = Grpc | Ws

record signal_tracker =
  sg_map :: "string \<rightharpoonup> race_source \<times> nat"
  sg_grpc_count :: u64
  sg_ws_count :: u64
  sg_match_count :: u64

definition signal_tracker_new :: signal_tracker where
  "signal_tracker_new = \<lparr>sg_map = Map.empty, sg_grpc_count = 0, sg_ws_count = 0, sg_match_count = 0\<rparr>"

text \<open>The flag is whether the process exits.\<close>

definition signal_record :: "nat \<Rightarrow> string \<Rightarrow> race_source \<Rightarrow> signal_tracker \<Rightarrow> bool \<times> signal_tracker" where
  "signal_record now sig source t =
     (let t1 = (case source of
            Grpc \<Rightarrow> t\<lparr>sg_grpc_count := sg_grpc_count t + 1\<rparr>
          | Ws \<Rightarrow> t\<lparr>sg_ws_count := sg_ws_count t + 1\<rparr>) in
      case sg_map t1 sig of
        Some (prev_src, prev_time) \<Rightarrow>
          if prev_src \<noteq> source
          then (let n = sg_match_count t1 in (99 \<le> n, t1\<lparr>sg_match_count := n + 1\<rparr>))
          else (False, t1)
      | None \<Rightarrow>
          (let m = (sg_map t1)(sig \<mapsto> (source, now)) in
           (False, t1\<lparr>sg_map := (if 500000 < card (dom m) then Map.empty else m)\<rparr>)))"

text \<open>A stream's loop: a failed transaction is not recorded; it ends with the process.\<close>

fun race_listen :: "race_source \<Rightarrow> (nat \<times> string \<times> bool) list \<Rightarrow> signal_tracker \<Rightarrow> bool \<times> signal_tracker" where
  "race_listen source [] t = (False, t)"
| "race_listen source ((now, sig, failed) # items) t =
     (if failed then race_listen source items t
      else (let (done, t1) = signal_record now sig source t in
            if done then (True, t1) else race_listen source items t1))"

section \<open>The comparison of endpoints\<close>

definition WS_ENDPOINT_NAMES :: "string list" where
  "WS_ENDPOINT_NAMES = [''local'', ''shyft-ny'', ''helius'']"

record ws_tracker =
  wt_map :: "string \<rightharpoonup> (string \<times> nat) list"
  wt_counts :: "string \<rightharpoonup> u64"
  wt_matches :: "string \<rightharpoonup> u64"

definition bump :: "string \<Rightarrow> (string \<rightharpoonup> u64) \<Rightarrow> (string \<rightharpoonup> u64)" where
  "bump k m = m(k \<mapsto> (case m k of Some n \<Rightarrow> n | None \<Rightarrow> 0) + 1)"

definition pair_key :: "string \<times> nat \<Rightarrow> string \<times> nat \<Rightarrow> string" where
  "pair_key first second =
     (let (faster, slower) = (if snd first < snd second then (fst first, fst second) else (fst second, fst first)) in
      faster @ ''>'' @ slower)"

text \<open>All pairs, by the position of the first.\<close>

fun hit_pairs :: "(string \<times> nat) list \<Rightarrow> ((string \<times> nat) \<times> (string \<times> nat)) list" where
  "hit_pairs [] = []"
| "hit_pairs (h # hs) = map (Pair h) hs @ hit_pairs hs"

definition ws_record :: "nat \<Rightarrow> string \<Rightarrow> string \<Rightarrow> ws_tracker \<Rightarrow> ws_tracker" where
  "ws_record now sig source t =
     (let t1 = t\<lparr>wt_counts := bump source (wt_counts t)\<rparr>;
          hits = (case wt_map t1 sig of Some hs \<Rightarrow> hs | None \<Rightarrow> []) in
      if list_ex (\<lambda>h. fst h = source) hits then t1\<lparr>wt_map := (wt_map t1)(sig \<mapsto> hits)\<rparr>
      else
        (let hits1 = hits @ [(source, now)] in
         t1\<lparr>wt_map := (wt_map t1)(sig \<mapsto> hits1),
            wt_matches := (if 2 \<le> length hits1
              then fold (\<lambda>(a, b). bump (pair_key a b)) (hit_pairs hits1) (wt_matches t1) else wt_matches t1)\<rparr>))"

definition ws_tracker_new :: ws_tracker where
  "ws_tracker_new = \<lparr>wt_map = Map.empty, wt_counts = Map.empty, wt_matches = Map.empty\<rparr>"

fun ws_listen :: "string \<Rightarrow> (nat \<times> string \<times> bool) list \<Rightarrow> ws_tracker \<Rightarrow> ws_tracker" where
  "ws_listen name [] t = t"
| "ws_listen name ((now, sig, failed) # items) t =
     ws_listen name items (if failed then t else ws_record now sig name t)"

section \<open>The timing of the RPC\<close>

definition RPC_SAMPLES :: nat where
  "RPC_SAMPLES = 20"

text \<open>The durations of the requests that succeeded give minimum, average and maximum, if there are any; the
  sum wraps.\<close>

definition rpc_stats :: "u64 option list \<Rightarrow> (u64 \<times> u64 \<times> u64) option" where
  "rpc_stats answers =
     (let times = List.map_filter id (take RPC_SAMPLES answers) in
      case times of
        [] \<Rightarrow> None
      | t # ts \<Rightarrow> Some (fold min ts t, sum_list times div of_nat (length times), fold max ts t))"

section \<open>Properties\<close>

lemma rpc_stats_extremes:
  assumes "ts = List.map_filter id (take RPC_SAMPLES answers)"
  shows "rpc_stats answers =
    (if ts = [] then None else Some (Min (set ts), sum_list ts div of_nat (length ts), Max (set ts)))"
proof (cases ts)
  case (Cons t us)
  then show ?thesis
    by (simp add: rpc_stats_def assms [symmetric] Let_def Min.set_eq_fold Max.set_eq_fold del: Min_insert Max_insert list.set)
qed (simp add: rpc_stats_def assms [symmetric] Let_def)

text \<open>A second delivery by the other stream counts as another match, so the hundred matches after which
  the race ends can all be of one signature.\<close>

lemma redelivery_matches:
  assumes "sg_map t sig = Some (Grpc, t0)" and "unat (sg_match_count t) + length items \<le> 99"
    and "\<forall>(now, s, failed) \<in> set items. s = sig \<and> \<not> failed"
  shows "fst (race_listen Ws items t) = False \<and>
    unat (sg_match_count (snd (race_listen Ws items t))) = unat (sg_match_count t) + length items"
  using assms
proof (induction items arbitrary: t)
  case (Cons x items)
  obtain now where x: "x = (now, sig, False)" using Cons.prems(3) by (cases x) auto
  let ?t = "t\<lparr>sg_ws_count := sg_ws_count t + 1, sg_match_count := sg_match_count t + 1\<rparr>"
  have lt: "unat (sg_match_count t) < 99" using Cons.prems(2) by simp
  then have "\<not> 99 \<le> sg_match_count t" by (simp add: word_le_nat_alt)
  then have r: "signal_record now sig Ws t = (False, ?t)"
    using Cons.prems(1) by (simp add: signal_record_def Let_def)
  have u: "unat (sg_match_count t + 1) = unat (sg_match_count t) + 1"
    using lt by (simp add: unat_word_ariths)
  show ?case using Cons.IH [of ?t] Cons.prems u by (simp add: x r)
qed simp

text \<open>When three endpoints deliver a signature, one after the other, the comparison of the first two is
  counted twice and the other two once: at the third delivery all pairs are counted again.\<close>

lemma first_pair_counted_twice:
  assumes "distinct [a, b, c]" and "ta < tb" and "tb < tc" and "wt_map t sig = None"
    and "t' = ws_record tc sig c (ws_record tb sig b (ws_record ta sig a t))"
    and "ab = a @ ''>'' @ b" and "ac = a @ ''>'' @ c" and "bc = b @ ''>'' @ c" and "distinct [ab, ac, bc]"
    and "wt_matches t ab = None" and "wt_matches t ac = None" and "wt_matches t bc = None"
  shows "wt_matches t' ab = Some 2 \<and> wt_matches t' ac = Some 1 \<and> wt_matches t' bc = Some 1"
proof -
  have "wt_matches t' = bump bc (bump ac (bump ab (bump ab (wt_matches t))))"
    using assms(1-4) unfolding assms(5-8) by (simp add: ws_record_def pair_key_def Let_def)
  then show ?thesis using assms(9-12) by (auto simp: bump_def)
qed

end
