(* ===== verification/Spec2Isabelle.thy ===== *)
theory Spec2Isabelle
  imports Program_Properties Client_Tx_Properties Bot_Loop Bot_Discovery_Properties Bot_Build_Properties Bot_Extraction
    Bot_System_Properties Bot_Start_Properties Tool_Smoke_Properties Tool_Whitelist Tool_Bench
begin

text \<open>
  Verification of an atomic two-leg arbitrage bot for Solana.

  The program. The repository has two parts. \<open>src/programs/arbitrage\<close> is the on-chain program: one
  instruction buys a meme token with SOL on one DEX and sells it on another, and fails as a whole
  unless the user ends with the demanded profit. \<open>src/src\<close> is the off-chain bot: it finds price
  differences, quotes them, and builds the instruction. The program is stateless; what it works
  on are the account handles of the instruction (\<open>account_info\<close>) and the shared account data
  behind them (\<open>ledger\<close>, lamports and data by key). It talks to the DEX programs only by
  cross-program invocation.

  Parameters. Code outside the repository is a parameter of the definitions that use it: \<open>pda\<close> is
  \<open>Pubkey::find_program_address\<close>, \<open>cpi\<close> is the runtime's \<open>invoke\<close>, which returns an error or the
  ledger the invoked program left. Nothing is assumed about either, except where a property says
  so.

  Theories, in the order of the code.
  \<^item> \<open>Prelude\<close>: results (\<open>Ok\<close>, \<open>Err\<close>, \<open>Panic\<close>), panicking index and slice, little-endian bytes,
    checked arithmetic on words. A Rust panic is a value, so that its absence is a theorem.
  \<^item> \<open>Solana_Base\<close>: keys, accounts, instructions, single-account checks of the Solana crates' API.
  \<^item> \<open>Constants\<close>: \<open>constants.rs\<close> and \<open>error.rs\<close>; the keys and discriminators are proved distinct.
  \<^item> \<open>Accounting\<close>: \<open>accounting.rs\<close>.
  \<^item> \<open>Swap_Curves\<close>: the contract of a constant-product quote and of a fee schedule as locales, with
    what follows from them (no sequence of trades lowers the product, no free round trip).
  \<^item> \<open>Pricing\<close>: \<open>pricing/mod.rs\<close>, \<open>pump_swap.rs\<close>, \<open>dlmm.rs\<close>, proved equal to exact quotes.
  \<^item> \<open>Cpi_Builders\<close>: \<open>cpi/*.rs\<close>, the four DEX instruction builders, with closed forms.
  \<^item> \<open>Dex_Sections\<close>: \<open>instructions/dex_*.rs\<close>, the section validators, characterised exactly.
  \<^item> \<open>Route_Guard\<close>: what the three handlers share: the instruction data and the balance bracket
    (snapshot, buy, measure, sell, post-invariants); the contract of a route as the locale
    \<open>guarded_route\<close>.
  \<^item> \<open>Orchestrate\<close>: \<open>instructions/orchestrate.rs\<close>; the DEX handlers behind the locales \<open>dex_leg\<close>
    and \<open>dex_section\<close>, interpreted for all four.
  \<^item> \<open>Legacy_Routes\<close>: \<open>route_pump_to_dlmm.rs\<close> and \<open>route_dlmm_to_pump.rs\<close>.
  \<^item> \<open>Program_Entry\<close>: \<open>lib.rs\<close>; \<open>guarded_route\<close> for the whole program.
  \<^item> \<open>Scenario\<close>, \<open>Program_Properties\<close>: concrete runs, and the properties of the program.

  The bot (\<open>src/src\<close>).
  \<^item> \<open>Float64\<close>: the \<open>f64\<close> arithmetic the bot quotes with: rational values rounded to the nearest
    53-bit number, ties to even, with infinities, NaN and the saturating casts. A zero has no sign.
  \<^item> \<open>Client_Constants\<close>: \<open>constants.rs\<close>.
  \<^item> \<open>Client_Instructions\<close>: the instruction builders of \<open>simulator/\<close> and \<open>executor/atomic/helpers.rs\<close>.
  \<^item> \<open>Client_Routes\<close>: the fixed routes of \<open>executor/atomic/onchain_router.rs\<close>.
  \<^item> \<open>Client_Generic\<close>: \<open>executor/atomic/generic_route.rs\<close>.
  \<^item> \<open>Client_Onchain\<close>, \<open>Client_Properties\<close>: what the program reads from the instructions the bot builds.
  \<^item> \<open>Client_Pricing\<close>, \<open>Client_Quotes\<close>: the estimators of \<open>simulator/\<close>, the slippage and cost formulas
    of \<open>executor/atomic/mod.rs\<close>, and how they relate to the program's quotes.
  \<^item> \<open>Client_Transactions\<close>, \<open>Client_Tx_Properties\<close>: tip injection, lookup tables, the diagnostic.

  \<^item> \<open>Bot_Types\<close>, \<open>Bot_Store\<close>: \<open>arbitrage/types.rs\<close>, \<open>config.rs\<close>, the tables of \<open>persistence.rs\<close>, the
    whitelist and the strategy file.
  \<^item> \<open>Bot_Risk\<close>, \<open>Bot_Confirm\<close>, \<open>Bot_Rpc\<close>: the risk tracker \<open>risk/mod.rs\<close>, the confirmation task
    \<open>executor/confirmation.rs\<close>, the endpoint pool, the failover and the nonce cache.
  \<^item> \<open>Bot_Loop\<close>: \<open>main_loop.rs\<close>, the way of an opportunity from its detection to the sender, on the three above.
  \<^item> \<open>Bot_Scanner\<close>, \<open>Bot_Scanner_Properties\<close>, \<open>Bot_Opportunities\<close>: the cross-venue scanner of
    \<open>arbitrage/\<close>: profit estimates, the searches for the investment, filters, the sorted report.
  \<^item> \<open>Bot_Cache\<close>, \<open>Bot_Bins\<close>, \<open>Bot_Pools\<close>, \<open>Bot_Pool_Properties\<close>: \<open>pool_cache/\<close>: account layouts of the
    five venues, the caches in front of the chain, the DLMM bin window. The locale \<open>read_through\<close>
    is the contract of a cache between two reads, interpreted for the code's three caches.
  \<^item> \<open>Bot_Discovery\<close>, \<open>Bot_Discovery_Properties\<close>: how the pools of a pair are found, filtered, cached and
    persisted (\<open>pool_cache/dlmm/\<close>, \<open>grpc_stream\<close>'s account cache).
  \<^item> \<open>Bot_Prices\<close>, \<open>Bot_Price_Properties\<close>: \<open>arbitrage/prices/\<close>, one query per venue and the scan of a mint,
    and what the prices of two venues mean to one another.
  \<^item> \<open>Bot_Builders\<close>, \<open>Bot_Direct_Builders\<close>, \<open>Bot_Build_Properties\<close>: \<open>executor/atomic/\<close>, from an opportunity
    to a signed transaction: the readers of pool data, one builder per pair of venues (through the
    program's generic route, its fixed routes, or the venues' own instructions), the dispatch
    \<open>build_atomic_arbitrage_tx\<close>, the tip and the choice of the blockhash.
  \<^item> \<open>Bot_Stream\<close>: \<open>grpc_stream/mod.rs\<close>, one update, the loop over the updates, the connections and the slot
    each asks to replay from.
  \<^item> \<open>Bot_Ammv4\<close>: \<open>pool_cache/ammv4.rs\<close>, the search for a Raydium AMM v4 pool in account data.
  \<^item> \<open>Bot_Listener\<close>, \<open>Bot_Listener_Properties\<close>, \<open>Bot_Extraction\<close>: \<open>listener/\<close>, \<open>discovery.rs\<close> and the discovery
    task of \<open>main.rs\<close>: one websocket event, the readers of fetched transactions, the scan of recent
    signatures, the check of the candidates.
  \<^item> \<open>Bot_Start\<close>, \<open>Bot_Start_Properties\<close>: \<open>config/mod.rs\<close> with the parsers of the standard library it uses,
    \<open>price.rs\<close>, the wallet and first funding of \<open>main.rs\<close>, the tick of the active scan.
  \<^item> \<open>Bot_System\<close>, \<open>Bot_System_Properties\<close>: the tasks of \<open>main.rs\<close> on their shared state (whitelist, risk
    tracker, channels, tables), as the step relation \<open>system_step\<close> with reconnections and restarts.

  The tools.
  \<^item> \<open>Tool_Smoke\<close>, \<open>Tool_Smoke_Properties\<close>: \<open>scripts/devnet_smoke\<close>, against the program and the bot's builders.
  \<^item> \<open>Tool_Whitelist\<close>: \<open>bin/score_whitelist.rs\<close>. \<open>Tool_Bench\<close>: \<open>bin/signal_race.rs\<close> and \<open>bin/bench_latency.rs\<close>.

  How the parts interact. The stream fills the account cache the queries read. The listener turns a log
  into an event for the event loop or into candidates for the discovery, which puts a mint that two
  venues trade on the whitelist. The event loop scans the mint of an event, builds the transaction of
  each opportunity and hands what it submitted to the confirmation task, which settles it in the risk
  tracker and the trade table. The transaction calls the on-chain program, which guards the profit.

  Parameters of the bot's theories: \<open>parse_key\<close> and \<open>show_key\<close> are the base58 coder of the SDK,
  \<open>owner\<close>, \<open>fetch\<close>, \<open>rpc_view\<close> and \<open>chain_account\<close> are what RPC reads answer, \<open>powi\<close> is the float power of
  the standard library, \<open>bu_compile\<close> is the SDK's compilation and signature of
  a message, \<open>env_files\<close> and \<open>tables\<close> are the files of the environment and the deserialized table files, \<open>ata\<close>,
  \<open>create_ata\<close>, \<open>cu_limit\<close> and \<open>cu_price\<close> are the SDK's functions the smoke test calls, \<open>lv_walk\<close> is the order
  in which a set of candidates is walked, \<open>parse_hash\<close> the SDK's reader of a block hash, a fetched transaction
  (\<open>parsed_tx\<close>) and a JSON answer are what the code looks up in them, \<open>bu_table\<close> and \<open>bu_slot\<close> the answers about lookup tables and slots, a flag per statement says
  whether a database write succeeds, and the order in which a \<open>HashMap\<close> is walked is the order of a list. A tick or a query happens at one instant, and an
  account read twice within it answers the same. Machine arithmetic without a check
  wraps, as in a release build. Sorting by a float is stable, and a comparison with NaN is false
  (in \<open>partial_cmp(..).unwrap_or(Equal)\<close>, equal), as in the source.

  What the theorems show. For every instruction data, account list, ledger, address derivation and
  behaviour of the invoked programs: the program returns (no panic); if it accepts, the user's SOL
  value grew by at least the demanded positive profit and the meme balance is unchanged; an accepted route ran two different DEX programs and sold exactly
  what it had bought; the acceptance conditions of the three handlers are given exactly; the errors
  are a fixed list. The pricing code computes the exact rational quote, keeps the pool product and
  offers no profitable round trip. Two theorems record defects of the generic route: no Whirlpool
  leg can succeed, and a DLMM leg names the wrong bin arrays.

  For the bot: the quotes are related to the program's (exact, or off by a stated amount); what the instruction
  builders emit is what the program's section validators read; the scanner's investment stays within its
  bounds and every reported opportunity passes the filters; a submission passed every gate of the event
  loop, and within thirty minutes of the last trip of the circuit breaker the risk check lets nothing
  through; a round of the confirmation task settles exactly the pending transactions that have a status, once, and
  keeps the others as long as there are at most 128; the pools a query returns contain the quote mint and
  are as deep as this query, or one less than ten seconds before, demanded; the pool metadata survives a
  restart; a transaction for the program demands of its first leg the venue's quote reduced by the slippage. A
  websocket event sends at most one mint, and only a whitelisted one; a batch of candidates adds exactly those
  that, at their turn, are found on two venues. A configuration that loads is the one of the table files with the
  settings of the environment in their places, and passes ten checks. For the tasks together, in
  whatever order they run and whatever fails: the blacklist never changes and is disjoint from the
  whitelist, and every trade written is of an allowed mint, between two venues, within the limits and
  above the threshold.
  Several theorems and lemmas record defects, listed as findings of the manifest: an endpoint that does not
  answer makes the bot forget a pair, a query repeated within ten seconds sees one pool, the price of a
  PumpSwap pool and that of a DLMM pool quoted in SOL are compared although they differ by a factor of a thousand, transactions that buy on
  Whirlpool never execute, a sale after a buy on the bonding curve may exceed what was bought, the listener
  reads the wrong accounts of DLMM swaps and Whirlpools and clears the signatures it has read only at DLMM
  events, a stream never
  replays after its first connection, a loss limit that is not a number switches the breaker off, a lookup
  table whose first read fails stays empty, the generic route of the smoke test is always refused, and the
  scoring tool overwrites the blacklist, which only a run outside the bot can do.

  Bounds. No fuel is used for the program: every loop of the source is structural, and so are the searches of
  the scanner, which run a fixed number of rounds. Integers have the width of the
  source; the only \<open>usize\<close> sums are of section offsets and byte-sized counts, below 2048, and are
  natural numbers.

  Not modelled: log messages, the entry point's deserialisation of the runtime's input buffer,
  reference counting and borrow errors of \<open>AccountInfo\<close> (each handle is borrowed and released
  within one statement), compute limits; of the bot, its network input and output (HTTP, websocket
  and gRPC transport, JSON and protobuf texts), signing and serialisation, the metrics service, which only
  shows counters, and the opening of the database. The steps of \<open>Bot_System\<close> are atomic: an event is handled as a
  whole before the next step of another task, and the contents of the pool caches come with each step. A
  round of confirmations in which the cluster answers more statuses than it was asked for is left out
  there. Of the tools, the nonce tool and the stream test, which only talk to the network, the key formats
  and printed figures of the smoke test, and the repository's own tests.
\<close>

end
